(* ===== verification/Prelude.thy ===== *)
theory Prelude
  imports Complex_Main "HOL-Library.Product_Lexorder" "HOL-Library.List_Lexorder" "HOL-Library.Char_ord" "HOL-Library.Code_Target_Nat"
begin

text \<open>
  What every theory of the development shares: the result of an operation that can raise and
  leaves a state behind (\<open>result\<close>), its sequencing (\<open>andthen\<close>) with a weakest
  precondition, and tables of rows as lists with the four SQL shapes the code uses (select the
  first match, guarded update, row count, sum of a column). A table keeps its insertion order.
\<close>

named_theorems table_simps \<open>equations of the table operations\<close>
named_theorems wp_intros \<open>weakest-precondition rules of the session operations\<close>

section \<open>Operations that may raise\<close>

text \<open>
  \<open>Ok v s\<close>: the operation returned \<open>v\<close> and left the state \<open>s\<close>.
  \<open>Raise e s\<close>: it raised \<open>e\<close>; \<open>s\<close> is the state at the raise, with the
  partial changes made before it (the caller decides whether to roll them back).
\<close>

datatype ('e, 'a, 's) result = Ok 'a 's | Raise 'e 's

type_synonym ('e, 'a, 's) op = "'s \<Rightarrow> ('e, 'a, 's) result"

definition ret :: "'a \<Rightarrow> ('e, 'a, 's) op" where
  "ret v s = Ok v s"

definition raise :: "'e \<Rightarrow> ('e, 'a, 's) op" where
  "raise e s = Raise e s"

definition andthen :: "('e, 'a, 's) op \<Rightarrow> ('a \<Rightarrow> ('e, 'b, 's) op) \<Rightarrow> ('e, 'b, 's) op" where
  "andthen m f s = (case m s of Ok v s' \<Rightarrow> f v s' | Raise e s' \<Rightarrow> Raise e s')"

definition state_of :: "('e, 'a, 's) result \<Rightarrow> 's" where
  "state_of r = (case r of Ok _ s \<Rightarrow> s | Raise _ s \<Rightarrow> s)"

lemma andthen_ret [simp]: "andthen (ret v) f = f v"
  by (rule ext) (simp add: andthen_def ret_def)

lemma andthen_raise [simp]: "andthen (raise e) f = raise e"
  by (rule ext) (simp add: andthen_def raise_def)

lemma state_of_simps [simp]: "state_of (Ok v s) = s" "state_of (Raise e s) = s"
  by (simp_all add: state_of_def)

lemma andthen_Ok_conv:
  "andthen m f s = Ok v t \<longleftrightarrow> (\<exists>u s'. m s = Ok u s' \<and> f u s' = Ok v t)"
  by (auto simp: andthen_def split: result.splits)

lemma andthen_Ok: "m s = Ok u s' \<Longrightarrow> andthen m f s = f u s'"
  by (simp add: andthen_def)

lemma andthen_Raise: "m s = Raise e s' \<Longrightarrow> andthen m f s = Raise e s'"
  by (simp add: andthen_def)

text \<open>Weakest preconditions: \<open>wp m Q s\<close> says that if \<open>m\<close> returns from \<open>s\<close>, then
  its value and state satisfy \<open>Q\<close>. A raise is followed by a rollback in the callers, so
  nothing is claimed about the state it leaves.\<close>

definition wp :: "('e, 'a, 's) op \<Rightarrow> ('a \<Rightarrow> 's \<Rightarrow> bool) \<Rightarrow> 's \<Rightarrow> bool" where
  "wp m Q s \<longleftrightarrow> (case m s of Ok v t \<Rightarrow> Q v t | Raise _ _ \<Rightarrow> True)"

lemma wpD: "wp m Q s \<Longrightarrow> m s = Ok v t \<Longrightarrow> Q v t"
  by (simp add: wp_def)

lemma wpI: "(\<And>v t. m s = Ok v t \<Longrightarrow> Q v t) \<Longrightarrow> wp m Q s"
  by (simp add: wp_def split: result.splits)

lemma wp_ret [wp_intros]: "Q v s \<Longrightarrow> wp (ret v) Q s"
  by (simp add: wp_def ret_def)

lemma wp_raise [wp_intros]: "wp (raise e) Q s"
  by (simp add: wp_def raise_def)

lemma wp_andthen [wp_intros]: "wp m (\<lambda>v. wp (f v) Q) s \<Longrightarrow> wp (andthen m f) Q s"
  by (auto simp: wp_def andthen_def split: result.splits)

lemma wp_mono: "wp m Q s \<Longrightarrow> (\<And>v t. Q v t \<Longrightarrow> R v t) \<Longrightarrow> wp m R s"
  by (auto simp: wp_def split: result.splits)

section \<open>Tables\<close>

text \<open>\<open>select_first p rows\<close> is \<open>session.scalar(select(T).where(p))\<close>;
  \<open>update_where p f rows\<close> is \<open>update(T).where(p).values(f)\<close>, whose \<open>rowcount\<close> is
  \<open>row_count p rows\<close>.\<close>

definition select_first :: "('r \<Rightarrow> bool) \<Rightarrow> 'r list \<Rightarrow> 'r option" where
  "select_first p rows = List.find p rows"

definition update_where :: "('r \<Rightarrow> bool) \<Rightarrow> ('r \<Rightarrow> 'r) \<Rightarrow> 'r list \<Rightarrow> 'r list" where
  "update_where p f rows = map (\<lambda>r. if p r then f r else r) rows"

definition row_count :: "('r \<Rightarrow> bool) \<Rightarrow> 'r list \<Rightarrow> nat" where
  "row_count p rows = length (filter p rows)"

definition col_sum :: "('r \<Rightarrow> int) \<Rightarrow> 'r list \<Rightarrow> int" where
  "col_sum f rows = sum_list (map f rows)"

lemma select_first_Nil [table_simps, simp]: "select_first p [] = None"
  by (simp add: select_first_def)

lemma select_first_Cons [table_simps, simp]:
  "select_first p (r # rows) = (if p r then Some r else select_first p rows)"
  by (simp add: select_first_def)

lemma update_where_Nil [table_simps, simp]: "update_where p f [] = []"
  by (simp add: update_where_def)

lemma update_where_Cons [table_simps, simp]:
  "update_where p f (r # rows) = (if p r then f r else r) # update_where p f rows"
  by (simp add: update_where_def)

lemma row_count_Nil [table_simps, simp]: "row_count p [] = 0"
  by (simp add: row_count_def)

lemma row_count_Cons [table_simps, simp]:
  "row_count p (r # rows) = (if p r then Suc (row_count p rows) else row_count p rows)"
  by (simp add: row_count_def)

lemma col_sum_Nil [table_simps, simp]: "col_sum f [] = 0"
  by (simp add: col_sum_def)

lemma col_sum_Cons [table_simps, simp]: "col_sum f (r # rows) = f r + col_sum f rows"
  by (simp add: col_sum_def)

lemma col_sum_append [table_simps, simp]: "col_sum f (xs @ ys) = col_sum f xs + col_sum f ys"
  by (induction xs) simp_all

lemma update_where_append [simp]:
  "update_where p f (xs @ ys) = update_where p f xs @ update_where p f ys"
  by (simp add: update_where_def)

lemma select_first_Some: "select_first p rows = Some r \<Longrightarrow> r \<in> set rows \<and> p r"
  by (induction rows) (auto split: if_splits)

lemma select_first_None: "select_first p rows = None \<longleftrightarrow> (\<forall>r \<in> set rows. \<not> p r)"
  by (induction rows) auto

lemma select_first_unique:
  "distinct (map k rows) \<Longrightarrow> r \<in> set rows \<Longrightarrow> select_first (\<lambda>x. k x = k r) rows = Some r"
  by (induction rows) (auto simp: rev_image_eqI)

lemma key_unique:
  "distinct (map k rows) \<Longrightarrow> x \<in> set rows \<Longrightarrow> y \<in> set rows \<Longrightarrow> k x = k y \<Longrightarrow> x = y"
  by (auto simp: distinct_map dest: inj_onD)

lemma set_update_where:
  "set (update_where p f rows) = (\<lambda>r. if p r then f r else r) ` set rows"
  by (simp add: update_where_def)

lemma map_update_where [simp]:
  "(\<And>r. p r \<Longrightarrow> k (f r) = k r) \<Longrightarrow> map k (update_where p f rows) = map k rows"
  by (induction rows) auto

lemma update_where_id: "(\<And>r. r \<in> set rows \<Longrightarrow> \<not> p r) \<Longrightarrow> update_where p f rows = rows"
  by (induction rows) auto

lemma row_count_0: "row_count p rows = 0 \<longleftrightarrow> (\<forall>r \<in> set rows. \<not> p r)"
  by (induction rows) auto

lemma row_count_pos: "0 < row_count p rows \<longleftrightarrow> (\<exists>r \<in> set rows. p r)"
  by (induction rows) auto

lemma row_count_le_1:
  "distinct (map k rows) \<Longrightarrow> (\<And>r. p r \<Longrightarrow> k r = i) \<Longrightarrow> row_count p rows \<le> 1"
proof (induction rows)
  case (Cons r rows)
  show ?case
  proof (cases "p r")
    case True
    then have "i \<notin> k ` set rows" using Cons.prems by auto
    then have "row_count p rows = 0" using Cons.prems(2) by (auto simp: row_count_0)
    then show ?thesis using True by simp
  next
    case False
    then show ?thesis using Cons by simp
  qed
qed simp

lemma row_count_key:
  assumes d: "distinct (map k rows)" and p: "\<And>r. p r \<longleftrightarrow> k r = i \<and> q r"
    and r: "r \<in> set rows" "k r = i"
  shows "row_count p rows = (if q r then 1 else 0)"
proof (cases "q r")
  case True
  then have "0 < row_count p rows" using r p by (auto simp: row_count_pos)
  moreover have "row_count p rows \<le> 1" by (rule row_count_le_1 [OF d, where i = i]) (simp add: p)
  ultimately show ?thesis using True by simp
next
  case False
  then have "\<forall>x \<in> set rows. \<not> p x" using key_unique [OF d _ r(1)] r(2) p by auto
  then show ?thesis using False by (simp add: row_count_0)
qed

lemma col_sum_cong: "(\<And>r. r \<in> set rows \<Longrightarrow> f r = g r) \<Longrightarrow> col_sum f rows = col_sum g rows"
  by (induction rows) auto

lemma col_sum_nonneg: "(\<And>r. r \<in> set rows \<Longrightarrow> 0 \<le> f r) \<Longrightarrow> 0 \<le> col_sum f rows"
  by (induction rows) auto

lemma col_sum_zero: "(\<And>r. r \<in> set rows \<Longrightarrow> f r = 0) \<Longrightarrow> col_sum f rows = 0"
  by (induction rows) auto

lemma col_sum_update_same:
  "(\<And>r. r \<in> set rows \<Longrightarrow> p r \<Longrightarrow> h (f r) = h r) \<Longrightarrow> col_sum h (update_where p f rows) = col_sum h rows"
  by (induction rows) auto

text \<open>Updating the one row with a given key changes a column sum by that row's change.\<close>

lemma col_sum_update_key:
  assumes "distinct (map k rows)" and "r \<in> set rows"
  shows "col_sum h (update_where (\<lambda>x. k x = k r) f rows) = col_sum h rows - h r + h (f r)"
  using assms
proof (induction rows)
  case (Cons x rows)
  show ?case
  proof (cases "k x = k r")
    case True
    with Cons.prems have "x = r" by (metis key_unique list.set_intros(1))
    moreover have "update_where (\<lambda>x. k x = k r) f rows = rows"
      using Cons.prems True by (intro update_where_id) (auto simp: image_iff)
    ultimately show ?thesis by simp
  next
    case False
    then have "r \<in> set rows" using Cons.prems by auto
    then show ?thesis using Cons False by simp
  qed
qed simp

lemma in_update_whereE:
  assumes "y \<in> set (update_where p f rows)"
  obtains x where "x \<in> set rows" "p x" "y = f x" | "y \<in> set rows" "\<not> p y"
  using assms by (auto simp: set_update_where split: if_splits)

lemma select_first_update:
  "(\<And>r. q (if p r then f r else r) = q r) \<Longrightarrow>
   select_first q (update_where p f rows) = map_option (\<lambda>r. if p r then f r else r) (select_first q rows)"
  by (induction rows) auto

lemma row_count_select_first:
  "row_count p rows = 0 \<longleftrightarrow> select_first p rows = None"
  by (simp add: row_count_0 select_first_None)

end
