(* ===== verification/Calendar.thy ===== *)
theory Calendar
  imports Prelude
begin

text \<open>
  Dates and UTC instants, and the window and billing-period keys of
  \<open>daily_agent/services.py\<close> (\<open>current_window_key\<close>, \<open>current_period_key\<close>,
  \<open>subscription_period\<close>). A \<open>datetime\<close> is what Python's is: a calendar date and the
  microseconds since midnight, always normalised to UTC as the code does with
  \<open>astimezone(UTC)\<close>; \<open>stamp\<close> counts the microseconds since 0001-01-01, for the
  subtractions the code makes. Years are unbounded here (Python stops at 9999).
\<close>

section \<open>Decimal numerals\<close>

fun nat_str :: "nat \<Rightarrow> string" where
  "nat_str n = (if n < 10 then [char_of (48 + n)] else nat_str (n div 10) @ [char_of (48 + n mod 10)])"

declare nat_str.simps [simp del]

definition zpad :: "nat \<Rightarrow> string \<Rightarrow> string" where
  "zpad w s = replicate (w - length s) (CHR ''0'') @ s"

definition str_nat :: "string \<Rightarrow> nat" where
  "str_nat s = foldl (\<lambda>n c. 10 * n + (of_char c - 48)) 0 s"

definition is_digit :: "char \<Rightarrow> bool" where
  "is_digit c \<longleftrightarrow> (48::nat) \<le> of_char c \<and> of_char c \<le> (57::nat)"

lemma of_char_digit [simp]: "n < 10 \<Longrightarrow> of_char (char_of (48 + n :: nat)) = 48 + n"
  by simp

lemma str_nat_snoc: "str_nat (s @ [c]) = 10 * str_nat s + (of_char c - 48)"
  by (simp add: str_nat_def)

lemma str_nat_nat_str [simp]: "str_nat (nat_str n) = n"
proof (induction n rule: nat_str.induct)
  case (1 n)
  show ?case
  proof (cases "n < 10")
    case True
    then show ?thesis by (simp add: nat_str.simps [of n] str_nat_def)
  next
    case False
    have "n mod 10 < 10" by simp
    then have "of_char (char_of (48 + n mod 10 :: nat)) - 48 = n mod 10" by simp
    with False 1 show ?thesis
      by (simp add: nat_str.simps [of n] str_nat_snoc)
  qed
qed

lemma str_nat_zeros: "str_nat (replicate k (CHR ''0'') @ s) = str_nat s"
  by (induction k) (simp_all add: str_nat_def)

lemma str_nat_zpad [simp]: "str_nat (zpad w (nat_str n)) = n"
  by (simp add: zpad_def str_nat_zeros)

lemma digits_nat_str: "c \<in> set (nat_str n) \<Longrightarrow> is_digit c"
proof (induction n arbitrary: c rule: nat_str.induct)
  case (1 n)
  have "n mod 10 < 10" by simp
  with 1 show ?case
    by (cases "n < 10") (auto simp: nat_str.simps [of n] is_digit_def)
qed

lemma digits_zpad: "c \<in> set (zpad w (nat_str n)) \<Longrightarrow> is_digit c"
  using digits_nat_str by (auto simp: zpad_def is_digit_def split: if_splits)

lemma not_digit_simps [simp]:
  "\<not> is_digit (CHR ''-'')" "\<not> is_digit (CHR ''|'')" "\<not> is_digit (CHR '':'')" "\<not> is_digit (CHR ''.'')"
  by (simp_all add: is_digit_def)

lemma nat_str_inject [simp]: "nat_str m = nat_str n \<longleftrightarrow> m = n"
  by (metis str_nat_nat_str)

lemma nat_str_nonempty [simp]: "nat_str n \<noteq> []"
  by (subst nat_str.simps) simp

text \<open>Python's \<open>str\<close> of an int.\<close>

definition int_str :: "int \<Rightarrow> string" where
  "int_str i = (if i < 0 then CHR ''-'' # nat_str (nat (- i)) else nat_str (nat i))"

lemma int_str_inject [simp]: "int_str i = int_str j \<longleftrightarrow> i = j"
proof -
  have "CHR ''-'' # xs \<noteq> nat_str n" for xs n
    using digits_nat_str [of "CHR ''-''" n] by (metis list.set_intros(1) not_digit_simps(1))
  then show ?thesis by (auto simp: int_str_def) (metis)+
qed

text \<open>Splitting at a separator that the left part does not contain.\<close>

lemma append_sep_inject:
  assumes "c \<notin> set xs" "c \<notin> set ys"
  shows "xs @ c # us = ys @ c # vs \<longleftrightarrow> xs = ys \<and> us = vs"
proof
  assume e: "xs @ c # us = ys @ c # vs"
  have "takeWhile (\<lambda>x. x \<noteq> c) (xs @ c # us) = xs" using assms by (auto simp: takeWhile_append)
  moreover have "takeWhile (\<lambda>x. x \<noteq> c) (ys @ c # vs) = ys" using assms by (auto simp: takeWhile_append)
  ultimately have "xs = ys" using e by metis
  with e show "xs = ys \<and> us = vs" by simp
qed simp

section \<open>Dates and instants\<close>

datatype date = Date (date_year: int) (date_month: int) (date_day: int)

datatype datetime = DateTime (dt_date: date) (dt_usec: int)

instantiation date :: linorder
begin

definition less_eq_date :: "date \<Rightarrow> date \<Rightarrow> bool" where
  "less_eq_date d e \<longleftrightarrow> (date_year d, date_month d, date_day d) \<le> (date_year e, date_month e, date_day e)"

definition less_date :: "date \<Rightarrow> date \<Rightarrow> bool" where
  "less_date d e \<longleftrightarrow> (date_year d, date_month d, date_day d) < (date_year e, date_month e, date_day e)"

instance
proof
  fix x y z :: date
  show "(x < y) = (x \<le> y \<and> \<not> y \<le> x)"
    unfolding less_eq_date_def less_date_def by (rule less_le_not_le)
  show "x \<le> x" by (simp add: less_eq_date_def)
  show "x \<le> y \<Longrightarrow> y \<le> z \<Longrightarrow> x \<le> z"
    unfolding less_eq_date_def by (rule order_trans)
  show "x \<le> y \<Longrightarrow> y \<le> x \<Longrightarrow> x = y"
    unfolding less_eq_date_def by (cases x; cases y) (auto dest: order_antisym)
  show "x \<le> y \<or> y \<le> x"
    unfolding less_eq_date_def by (rule linear)
qed

end

instantiation datetime :: linorder
begin

definition less_eq_datetime :: "datetime \<Rightarrow> datetime \<Rightarrow> bool" where
  "less_eq_datetime s t \<longleftrightarrow> (dt_date s, dt_usec s) \<le> (dt_date t, dt_usec t)"

definition less_datetime :: "datetime \<Rightarrow> datetime \<Rightarrow> bool" where
  "less_datetime s t \<longleftrightarrow> (dt_date s, dt_usec s) < (dt_date t, dt_usec t)"

instance
proof
  fix x y z :: datetime
  show "(x < y) = (x \<le> y \<and> \<not> y \<le> x)"
    unfolding less_eq_datetime_def less_datetime_def by (rule less_le_not_le)
  show "x \<le> x" by (simp add: less_eq_datetime_def)
  show "x \<le> y \<Longrightarrow> y \<le> z \<Longrightarrow> x \<le> z"
    unfolding less_eq_datetime_def by (rule order_trans)
  show "x \<le> y \<Longrightarrow> y \<le> x \<Longrightarrow> x = y"
    unfolding less_eq_datetime_def by (cases x; cases y) (auto dest: order_antisym)
  show "x \<le> y \<or> y \<le> x"
    unfolding less_eq_datetime_def by (rule linear)
qed

end

lemma date_less [simp]:
  "Date y m d < Date y' m' d' \<longleftrightarrow> y < y' \<or> y = y' \<and> (m < m' \<or> m = m' \<and> d < d')"
  by (auto simp: less_date_def)

lemma date_le [simp]:
  "Date y m d \<le> Date y' m' d' \<longleftrightarrow> y < y' \<or> y = y' \<and> (m < m' \<or> m = m' \<and> d \<le> d')"
  by (auto simp: less_eq_date_def)

lemma datetime_less [simp]:
  "DateTime d u < DateTime d' u' \<longleftrightarrow> d < d' \<or> d = d' \<and> u < u'"
  by (auto simp: less_datetime_def)

lemma datetime_le [simp]:
  "DateTime d u \<le> DateTime d' u' \<longleftrightarrow> d < d' \<or> d = d' \<and> u \<le> u'"
  by (auto simp: less_eq_datetime_def)

definition isleap :: "int \<Rightarrow> bool" where
  "isleap y \<longleftrightarrow> y mod 4 = 0 \<and> (y mod 100 \<noteq> 0 \<or> y mod 400 = 0)"

text \<open>\<open>calendar.monthrange(year, month)[1]\<close>\<close>

definition monthrange :: "int \<Rightarrow> int \<Rightarrow> int" where
  "monthrange y m = (if m = 2 then if isleap y then 29 else 28
                     else if m = 4 \<or> m = 6 \<or> m = 9 \<or> m = 11 then 30 else 31)"

definition valid_date :: "date \<Rightarrow> bool" where
  "valid_date d \<longleftrightarrow> 1 \<le> date_year d \<and> 1 \<le> date_month d \<and> date_month d \<le> 12
     \<and> 1 \<le> date_day d \<and> date_day d \<le> monthrange (date_year d) (date_month d)"

lemma monthrange_bounds: "28 \<le> monthrange y m" "monthrange y m \<le> 31"
  by (auto simp: monthrange_def)

definition usec_per_day :: int where
  "usec_per_day = 86400000000"

definition valid_datetime :: "datetime \<Rightarrow> bool" where
  "valid_datetime t \<longleftrightarrow> valid_date (dt_date t) \<and> 0 \<le> dt_usec t \<and> dt_usec t < usec_per_day"

definition next_day :: "date \<Rightarrow> date" where
  "next_day d = (if date_day d < monthrange (date_year d) (date_month d)
                 then Date (date_year d) (date_month d) (date_day d + 1)
                 else if date_month d < 12 then Date (date_year d) (date_month d + 1) 1
                 else Date (date_year d + 1) 1 1)"

lemma next_day_gt: "d < next_day d"
  by (cases d) (simp add: next_day_def)

lemma valid_next_day: "valid_date d \<Longrightarrow> valid_date (next_day d)"
  by (cases d) (auto simp: next_day_def valid_date_def monthrange_def)

lemma next_day_least: "valid_date d \<Longrightarrow> valid_date e \<Longrightarrow> d < e \<Longrightarrow> next_day d \<le> e"
  by (cases d; cases e) (auto simp: next_day_def valid_date_def)

text \<open>The proleptic Gregorian ordinal of a date and the microseconds since 0001-01-01.\<close>

definition days_before_year :: "int \<Rightarrow> int" where
  "days_before_year y = (y - 1) * 365 + (y - 1) div 4 - (y - 1) div 100 + (y - 1) div 400"

definition days_before_month :: "int \<Rightarrow> int \<Rightarrow> int" where
  "days_before_month y m =
     (if m \<le> 1 then 0 else if m = 2 then 31
      else [59, 90, 120, 151, 181, 212, 243, 273, 304, 334] ! nat (m - 3) + (if isleap y then 1 else 0))"

definition toordinal :: "date \<Rightarrow> int" where
  "toordinal d = days_before_year (date_year d) + days_before_month (date_year d) (date_month d) + date_day d"

definition stamp :: "datetime \<Rightarrow> int" where
  "stamp t = toordinal (dt_date t) * usec_per_day + dt_usec t"

text \<open>\<open>now + timedelta(seconds=s)\<close> for \<open>s \<ge> 0\<close>.\<close>

definition add_seconds :: "datetime \<Rightarrow> nat \<Rightarrow> datetime" where
  "add_seconds t s = (let u = dt_usec t + int s * 1000000 in
     DateTime ((next_day ^^ nat (u div usec_per_day)) (dt_date t)) (u mod usec_per_day))"

lemma div_pred:
  fixes k y :: int
  assumes "0 < k"
  shows "y div k = (y - 1) div k + (if y mod k = 0 then 1 else 0)"
proof (cases "y mod k = 0")
  case True
  then have "y = k * (y div k)" using mult_div_mod_eq [of k y] by simp
  moreover have "k * (y div k - 1) = k * (y div k) - k" by (simp only: right_diff_distrib)
  ultimately have "y - 1 = k * (y div k - 1) + (k - 1)" by linarith
  then have "(y - 1) div k = y div k - 1" by (rule int_div_pos_eq) (use assms in simp_all)
  then show ?thesis using True by simp
next
  case False
  have "y - 1 = k * (y div k) + (y mod k - 1)"
    using mult_div_mod_eq [of k y] by (simp add: algebra_simps)
  moreover have "0 < y mod k" using False pos_mod_sign [OF assms, of y] by linarith
  ultimately have "(y - 1) div k = y div k"
    by (intro int_div_pos_eq [where r = "y mod k - 1"]) (use pos_mod_bound [OF assms, of y] in simp_all)
  then show ?thesis using False by simp
qed

lemma isleap_next_year:
  "days_before_year (y + 1) = days_before_year y + (if isleap y then 366 else 365)"
proof -
  have arith: "y * 365 + q4 - q100 + q400 = (y - 1) * 365 + p4 - p100 + p400
      + (if l4 \<and> (\<not> l100 \<or> l400) then 366 else 365)"
    if "q4 = p4 + (if l4 then 1 else 0)" "q100 = p100 + (if l100 then 1 else 0)"
      "q400 = p400 + (if l400 then 1 else 0)" "l100 \<Longrightarrow> l4" "l400 \<Longrightarrow> l100"
    for q4 q100 q400 p4 p100 p400 :: int and l4 l100 l400
    using that by (cases l4; cases l100; cases l400) simp_all
  have 4: "y mod 100 = 0 \<Longrightarrow> y mod 4 = 0"
    using dvd_trans [of 4 100 y] by (simp add: mod_eq_0_iff_dvd)
  have 100: "y mod 400 = 0 \<Longrightarrow> y mod 100 = 0"
    using dvd_trans [of 100 400 y] by (simp add: mod_eq_0_iff_dvd)
  have "y * 365 + y div 4 - y div 100 + y div 400 = (y - 1) * 365 + (y - 1) div 4 - (y - 1) div 100
      + (y - 1) div 400 + (if y mod 4 = 0 \<and> (\<not> y mod 100 = 0 \<or> y mod 400 = 0) then 366 else 365)"
    by (rule arith) (rule div_pred div_pred div_pred 4 100; simp)+
  then show ?thesis by (simp only: days_before_year_def isleap_def add_diff_cancel_right')
qed

lemma month_cases:
  fixes m :: int
  assumes "1 \<le> m" "m \<le> 12"
  shows "m \<in> {1, 2, 3, 4, 5, 6, 7, 8, 9, 10, 11, 12}"
  using assms by (simp add: order_le_less) presburger

lemma toordinal_next_day: "valid_date d \<Longrightarrow> toordinal (next_day d) = toordinal d + 1"
proof -
  assume v: "valid_date d"
  obtain y m dd where d: "d = Date y m dd" by (cases d)
  from v d have m: "m \<in> {1, 2, 3, 4, 5, 6, 7, 8, 9, 10, 11, 12}"
    by (intro month_cases) (auto simp: valid_date_def)
  show ?thesis
  proof (cases "dd < monthrange y m")
    case True
    then show ?thesis by (simp add: d toordinal_def next_day_def)
  next
    case False
    with v d have dd: "dd = monthrange y m" by (simp add: valid_date_def)
    show ?thesis
    proof (cases "m = 12")
      case True
      then show ?thesis
        using dd by (simp add: d toordinal_def next_day_def isleap_next_year days_before_month_def monthrange_def)
    next
      case ne: False
      then have "m \<in> {1, 2, 3, 4, 5, 6, 7, 8, 9, 10, 11}" using m by auto
      then show ?thesis
        using dd by (elim insertE emptyE)
          (simp_all add: d toordinal_def next_day_def days_before_month_def monthrange_def)
    qed
  qed
qed

lemma next_days:
  "valid_date d \<Longrightarrow> valid_date ((next_day ^^ n) d) \<and> toordinal ((next_day ^^ n) d) = toordinal d + int n"
  by (induction n) (auto simp: valid_next_day toordinal_next_day)

lemma add_seconds_valid: "valid_datetime t \<Longrightarrow> valid_datetime (add_seconds t s)"
  by (simp add: valid_datetime_def add_seconds_def Let_def next_days usec_per_day_def)

lemma add_seconds_stamp:
  assumes "valid_datetime t"
  shows "stamp (add_seconds t s) = stamp t + int s * 1000000"
proof -
  let ?u = "dt_usec t + int s * 1000000"
  have "0 \<le> ?u" using assms by (simp add: valid_datetime_def)
  then have "0 \<le> ?u div usec_per_day" by (simp add: usec_per_day_def)
  then have "stamp (add_seconds t s) =
      toordinal (dt_date t) * usec_per_day + (?u div usec_per_day * usec_per_day + ?u mod usec_per_day)"
    using assms by (simp add: valid_datetime_def add_seconds_def Let_def next_days stamp_def algebra_simps)
  also have "\<dots> = stamp t + int s * 1000000" by (simp add: stamp_def)
  finally show ?thesis .
qed

end
