(* ===== verification/Periods.thy ===== *)
theory Periods
  imports Calendar
begin

text \<open>
  The daily window key, the calendar-month key and the billing period of a subscription
  (\<open>daily_agent/services.py\<close>). A period runs from one monthly anniversary of the anchor
  to the next, an anchor day beyond a month's end clamping to its last day. The lemmas show that
  the periods of an anchor tile the calendar: the period computed for an instant contains it, is
  the period of every instant in it, and ends where the next one starts.
\<close>

section \<open>Keys\<close>

text \<open>\<open>strftime("%Y-%m-%d")\<close> and \<open>date.isoformat()\<close>\<close>

definition isoformat :: "date \<Rightarrow> string" where
  "isoformat d = zpad 4 (nat_str (nat (date_year d))) @ ''-'' @ zpad 2 (nat_str (nat (date_month d)))
     @ ''-'' @ zpad 2 (nat_str (nat (date_day d)))"

definition midnight :: "date \<Rightarrow> datetime" where
  "midnight d = DateTime d 0"

definition current_window_key :: "datetime \<Rightarrow> string \<times> datetime" where
  "current_window_key now = (isoformat (dt_date now), midnight (next_day (dt_date now)))"

definition current_period_key :: "datetime \<Rightarrow> string \<times> datetime" where
  "current_period_key now = (let current = dt_date now in
     (zpad 4 (nat_str (nat (date_year current))) @ ''-'' @ zpad 2 (nat_str (nat (date_month current))),
      if date_month current = 12 then midnight (Date (date_year current + 1) 1 1)
      else midnight (Date (date_year current) (date_month current + 1) 1)))"

definition start_of :: "date \<Rightarrow> int \<Rightarrow> int \<Rightarrow> date" where
  "start_of anchor y m = Date y m (min (date_day anchor) (monthrange y m))"

definition period_start :: "date \<Rightarrow> date \<Rightarrow> date" where
  "period_start anchor current =
     (let start = start_of anchor (date_year current) (date_month current)
      in if start > current
         then (if date_month current = 1 then start_of anchor (date_year current - 1) 12
               else start_of anchor (date_year current) (date_month current - 1))
         else start)"

definition period_reset :: "date \<Rightarrow> date \<Rightarrow> date" where
  "period_reset anchor start =
     (let ny = (if date_month start = 12 then date_year start + 1 else date_year start);
          nm = (if date_month start = 12 then 1 else date_month start + 1)
      in Date ny nm (min (date_day anchor) (monthrange ny nm)))"

definition subscription_period :: "date \<Rightarrow> datetime \<Rightarrow> string \<times> datetime" where
  "subscription_period anchor now =
     (let start = period_start anchor (dt_date now)
      in (isoformat start, midnight (period_reset anchor start)))"

section \<open>Keys identify what they name\<close>

lemma isoformat_inject:
  assumes "valid_date d" "valid_date e"
  shows "isoformat d = isoformat e \<longleftrightarrow> d = e"
proof
  assume eq: "isoformat d = isoformat e"
  have no_dash: "CHR ''-'' \<notin> set (zpad w (nat_str n))" for w n
    using digits_zpad [of "CHR ''-''" w n] not_digit_simps(1) by blast
  have "zpad 4 (nat_str (nat (date_year d))) = zpad 4 (nat_str (nat (date_year e)))
      \<and> zpad 2 (nat_str (nat (date_month d))) = zpad 2 (nat_str (nat (date_month e)))
      \<and> zpad 2 (nat_str (nat (date_day d))) = zpad 2 (nat_str (nat (date_day e)))"
    using eq by (simp add: isoformat_def append_sep_inject no_dash)
  then have "nat (date_year d) = nat (date_year e)" "nat (date_month d) = nat (date_month e)"
    "nat (date_day d) = nat (date_day e)"
    by (metis str_nat_zpad)+
  then show "d = e" using assms by (cases d; cases e) (simp add: valid_date_def nat_eq_iff)
qed simp

lemma window_key_inject:
  "valid_date (dt_date s) \<Longrightarrow> valid_date (dt_date t) \<Longrightarrow>
   fst (current_window_key s) = fst (current_window_key t) \<longleftrightarrow> dt_date s = dt_date t"
  by (simp add: current_window_key_def isoformat_inject)

lemma window_reset_after: "valid_datetime now \<Longrightarrow> now < snd (current_window_key now)"
  by (cases now) (simp add: current_window_key_def midnight_def next_day_gt)

section \<open>Billing periods tile the calendar\<close>

lemma start_of_simps [simp]:
  "date_year (start_of a y m) = y" "date_month (start_of a y m) = m"
  by (simp_all add: start_of_def)

lemma valid_start_of:
  "1 \<le> date_day a \<Longrightarrow> 1 \<le> y \<Longrightarrow> 1 \<le> m \<Longrightarrow> m \<le> 12 \<Longrightarrow> valid_date (start_of a y m)"
  using monthrange_bounds [of y m] by (simp add: start_of_def valid_date_def)

text \<open>A period is named by the month it starts in; \<open>next_start\<close> is the start of the one after.\<close>

definition next_month :: "int \<times> int \<Rightarrow> int \<times> int" where
  "next_month ym = (if snd ym = 12 then (fst ym + 1, 1) else (fst ym, snd ym + 1))"

lemma period_reset_Date:
  "period_reset a (Date y m d) = start_of a (fst (next_month (y, m))) (snd (next_month (y, m)))"
  by (simp add: period_reset_def start_of_def next_month_def Let_def)

lemma period_reset_start_of:
  "period_reset a (start_of a y m) = start_of a (fst (next_month (y, m))) (snd (next_month (y, m)))"
  by (simp add: start_of_def period_reset_Date)

lemma period_start_Date:
  "period_start a (Date y m d) =
     (if d < min (date_day a) (monthrange y m)
      then (if m = 1 then start_of a (y - 1) 12 else start_of a y (m - 1))
      else start_of a y m)"
  by (simp add: period_start_def start_of_def Let_def)

lemma period_start_contains:
  assumes "valid_date c"
  shows "period_start a c \<le> c \<and> c < period_reset a (period_start a c)"
proof (cases c)
  case (Date y m d)
  then show ?thesis
    by (auto simp: period_start_Date period_reset_Date next_month_def start_of_def split: if_splits)
qed

lemma period_start_is_start:
  assumes "valid_date c"
  shows "\<exists>y m. 1 \<le> m \<and> m \<le> 12 \<and> period_start a c = start_of a y m"
proof (cases c)
  case (Date y m d)
  with assms have "1 \<le> m" "m \<le> 12" by (simp_all add: valid_date_def)
  then have "\<exists>y' m'. 1 \<le> m' \<and> m' \<le> 12 \<and> start_of a y (m - 1) = start_of a y' m'" if "m \<noteq> 1"
    using that by (intro exI [of _ y] exI [of _ "m - 1"]) simp
  moreover have "\<exists>y' m'. 1 \<le> m' \<and> m' \<le> 12 \<and> start_of a (y - 1) 12 = start_of a y' m'"
    by (intro exI [of _ "y - 1"] exI [of _ 12]) simp
  ultimately show ?thesis
    using \<open>1 \<le> m\<close> \<open>m \<le> 12\<close> unfolding Date period_start_Date by auto
qed

lemma period_start_unique:
  assumes "valid_date c" "1 \<le> m" "m \<le> 12"
    and "start_of a y m \<le> c" "c < period_reset a (start_of a y m)"
  shows "period_start a c = start_of a y m"
proof (cases c)
  case (Date cy cm cd)
  with assms(1) have cm: "1 \<le> cm" "cm \<le> 12" by (simp_all add: valid_date_def)
  show ?thesis
  proof (cases "cy = y \<and> cm = m")
    case True
    then show ?thesis using assms(4) by (auto simp: Date period_start_Date start_of_def)
  next
    case False
    then have "cy = fst (next_month (y, m)) \<and> cm = snd (next_month (y, m))"
      and "cd < min (date_day a) (monthrange cy cm)"
      using assms(2-5) cm
      by (auto simp: Date period_reset_Date next_month_def start_of_def split: if_splits)
    then show ?thesis using assms(2,3)
      by (auto simp: Date period_start_Date next_month_def split: if_splits)
  qed
qed

lemma period_start_idem:
  assumes "valid_date c" "valid_date c'" "period_start a c \<le> c'" "c' < period_reset a (period_start a c)"
  shows "period_start a c' = period_start a c"
proof -
  obtain y m where "1 \<le> m" "m \<le> 12" and e: "period_start a c = start_of a y m"
    using period_start_is_start [OF assms(1)] by blast
  then show ?thesis using assms period_start_unique [of c' m a y] by simp
qed

lemma valid_period_reset:
  assumes "valid_date c" "1 \<le> date_day a"
  shows "valid_date (period_reset a (period_start a c))"
proof -
  have "1 \<le> date_month c" "date_month c \<le> 12" "1 \<le> date_year c" using assms by (simp_all add: valid_date_def)
  then show ?thesis
    using assms(2) monthrange_bounds(1)
    by (auto simp: period_start_def period_reset_def start_of_def valid_date_def Let_def
        intro: order_trans [of 1 28])
qed

lemma period_start_reset:
  assumes "valid_date c" "1 \<le> date_day a"
  shows "period_start a (period_reset a (period_start a c)) = period_reset a (period_start a c)"
proof -
  obtain y m where m: "1 \<le> m" "m \<le> 12" and e: "period_start a c = start_of a y m"
    using period_start_is_start [OF assms(1)] by blast
  let ?n = "next_month (y, m)"
  have r: "period_reset a (period_start a c) = start_of a (fst ?n) (snd ?n)"
    by (simp add: e period_reset_start_of)
  have "1 \<le> snd ?n" "snd ?n \<le> 12" using m by (auto simp: next_month_def)
  moreover have "start_of a (fst ?n) (snd ?n) < period_reset a (start_of a (fst ?n) (snd ?n))"
    by (auto simp: period_reset_def start_of_def Let_def)
  ultimately show ?thesis
    using valid_period_reset [OF assms] r by (simp add: period_start_unique)
qed

text \<open>C18: The billing period of an anchored subscription. For every valid instant, the period
  \<open>subscription_period\<close> computes contains the instant (its start is not after it, its
  reset is after it); every other valid instant between start and reset gets the same key and
  reset; and the period computed at the reset starts exactly there. So the periods of an anchor
  tile the calendar, with no gap and no overlap, whatever the anchor's day of the month.\<close>

theorem subscription_periods_tile:
  assumes "valid_datetime now" and "1 \<le> date_day anchor"
  shows "let start = period_start anchor (dt_date now);
             reset = snd (subscription_period anchor now)
         in fst (subscription_period anchor now) = isoformat start
          \<and> midnight start \<le> now \<and> now < reset
          \<and> (\<forall>now'. valid_datetime now' \<and> midnight start \<le> now' \<and> now' < reset
               \<longrightarrow> subscription_period anchor now' = subscription_period anchor now)
          \<and> fst (subscription_period anchor reset) = isoformat (dt_date reset)"
proof -
  let ?c = "dt_date now"
  let ?s = "period_start anchor ?c"
  let ?r = "period_reset anchor ?s"
  have v: "valid_date ?c" using assms by (simp add: valid_datetime_def)
  have in_period: "?s \<le> ?c" "?c < ?r" using period_start_contains [OF v] by auto
  have "midnight ?s \<le> now" "now < midnight ?r"
    using in_period assms(1) by (cases now; auto simp: midnight_def valid_datetime_def order_le_less)+
  moreover have "subscription_period anchor now' = subscription_period anchor now"
    if "valid_datetime now'" "midnight ?s \<le> now'" "now' < midnight ?r" for now'
  proof -
    have "?s \<le> dt_date now'" "dt_date now' < ?r"
      using that by (cases now'; auto simp: midnight_def valid_datetime_def order_le_less)+
    then have "period_start anchor (dt_date now') = ?s"
      using that(1) by (intro period_start_idem [OF v]) (simp_all add: valid_datetime_def)
    then show ?thesis by (simp add: subscription_period_def)
  qed
  ultimately show ?thesis
    using period_start_reset [OF v assms(2)]
    by (auto simp: subscription_period_def Let_def midnight_def)
qed

theorem subscription_periods_tile_witness:
  "valid_datetime (DateTime (Date 2026 3 30) 5) \<and> (1::int) \<le> 31
   \<and> fst (subscription_period (Date 2026 1 31) (DateTime (Date 2026 3 30) 5)) = ''2026-02-28''
   \<and> DateTime (Date 2026 3 30) 5 < snd (subscription_period (Date 2026 1 31) (DateTime (Date 2026 3 30) 5))"
proof -
  have v: "valid_datetime (DateTime (Date 2026 3 30) 5)" and a: "1 \<le> date_day (Date 2026 1 31)"
    by (simp_all add: valid_datetime_def valid_date_def monthrange_def usec_per_day_def)
  have s: "period_start (Date 2026 1 31) (Date 2026 3 30) = Date 2026 2 28"
    by (simp add: period_start_def start_of_def monthrange_def isleap_def)
  have i: "isoformat (Date 2026 2 28) = ''2026-02-28''" by code_simp
  note tile = subscription_periods_tile [OF v a, unfolded Let_def datetime.sel s i]
  show ?thesis using v tile [THEN conjunct1] tile [THEN conjunct2, THEN conjunct2, THEN conjunct1] by simp
qed

end
