(* ===== verification/Models.thy ===== *)
theory Models
  imports Periods
begin

text \<open>
  The database (\<open>daily_agent/models.py\<close>): one record per table, one record \<open>db\<close> of all
  the tables the services use. A row's column keeps the column's name behind a two-letter prefix
  of its table. A row identifier (\<open>uuid_str\<close>, a fresh random UUID) is a number drawn from the
  counter \<open>next_id\<close>; where the code prints an identifier, the model prints the number.
  Unique constraints are checked by the insert operations; foreign keys are not modelled.
\<close>

section \<open>Text\<close>

text \<open>Identifiers and keys are character strings. User text is a list of Unicode code points.\<close>

type_synonym utext = "nat list"

definition codes :: "string \<Rightarrow> utext" where
  "codes s = map of_char s"

definition utf8_width :: "nat \<Rightarrow> nat" where
  "utf8_width c = (if c < 128 then 1 else if c < 2048 then 2 else if c < 65536 then 3 else 4)"

definition utf8_len :: "utext \<Rightarrow> nat" where
  "utf8_len value = sum_list (map utf8_width value)"

text \<open>\<open>str.isspace\<close>, and with it \<open>str.strip\<close>\<close>

definition is_space :: "nat \<Rightarrow> bool" where
  "is_space c \<longleftrightarrow> 9 \<le> c \<and> c \<le> 13 \<or> 28 \<le> c \<and> c \<le> 32 \<or> c = 133 \<or> c = 160 \<or> c = 5760
     \<or> 8192 \<le> c \<and> c \<le> 8202 \<or> c = 8232 \<or> c = 8233 \<or> c = 8239 \<or> c = 8287 \<or> c = 12288"

definition strip :: "utext \<Rightarrow> utext" where
  "strip s = rev (dropWhile is_space (rev (dropWhile is_space s)))"

section \<open>Rows\<close>

datatype run_status = QUEUED | WORKING | NEEDS_INPUT | DEFERRED | COMPLETED | FAILED

datatype reservation_status = RESERVED | SETTLED | RELEASED | UNKNOWN

text \<open>\<open>schemas.Outcome\<close>; its \<open>DEFERRED\<close> is named apart from the run status.\<close>

datatype outcome = ACCEPT | REPAIR | ESCALATE | ASK_USER | SAFE_STOP | DEFERRED_OUTCOME

record account =
  ac_id :: nat
  ac_name :: string
  ac_created_at :: datetime

record user =
  us_id :: nat
  us_account_id :: nat
  us_display_name :: string
  us_role :: string
  us_token_version :: int
  us_clerk_subject :: "string option"
  us_unlocked_tier :: int
  us_active_theme :: int

record subscription =
  su_id :: nat
  su_account_id :: nat
  su_plan_id :: string
  su_policy_version :: string
  su_status :: string
  su_event_version :: int
  su_period_anchor :: date

record usage_window =
  uw_id :: nat
  uw_account_id :: nat
  uw_window_key :: string
  uw_everyday_limit :: int
  uw_everyday_used :: int
  uw_spend_limit_micro :: int
  uw_reserved_micro :: int
  uw_settled_micro :: int
  uw_token_limit :: int
  uw_tokens_reserved :: int
  uw_tokens_settled :: int
  uw_reset_at :: datetime

record usage_period =
  up_id :: nat
  up_account_id :: nat
  up_period_key :: string
  up_spend_limit_micro :: int
  up_reserved_micro :: int
  up_settled_micro :: int
  up_reset_at :: datetime

record platform_budget =
  pb_window_key :: string
  pb_spend_limit_micro :: int
  pb_reserved_micro :: int
  pb_settled_micro :: int

record gateway_request_day =
  gd_day_key :: string
  gd_requests_used :: int

record budget_reservation =
  br_id :: nat
  br_logical_request_id :: string
  br_account_id :: nat
  br_usage_window_id :: nat
  br_usage_period_id :: "nat option"
  br_stage :: string
  br_reserved_micro :: int
  br_actual_micro :: "int option"
  br_reserved_tokens :: int
  br_status :: reservation_status
  br_created_at :: datetime

record cost_ledger =
  cl_id :: nat
  cl_reservation_id :: nat
  cl_attempt_id :: string
  cl_provider :: string
  cl_model_id :: string
  cl_cost_micro :: "int option"
  cl_measurement :: string
  cl_rate_version :: "string option"
  cl_created_at :: datetime

record task =
  ta_id :: nat
  ta_account_id :: nat
  ta_owner_user_id :: nat
  ta_title :: utext
  ta_completed :: bool
  ta_idempotency_key :: string

record reminder =
  re_id :: nat
  re_account_id :: nat
  re_owner_user_id :: nat
  re_text :: utext
  re_due_at_utc :: datetime
  re_timezone :: string
  re_state :: string
  re_idempotency_key :: string
  re_attempts :: int
  re_lease_until :: "datetime option"

record inbox_event =
  ie_id :: nat
  ie_channel :: string
  ie_source_event_id :: string
  ie_payload_hash :: string
  ie_accepted_at :: datetime

record run =
  ru_id :: nat
  ru_account_id :: nat
  ru_user_id :: nat
  ru_logical_request_id :: string
  ru_request_hash :: "string option"
  ru_status :: run_status
  ru_outcome :: "outcome option"
  ru_response_text :: "utext option"
  ru_generation :: int
  ru_previous_run_id :: "nat option"
  ru_regenerate_reason :: "string option"

record message_feedback =
  mf_id :: nat
  mf_account_id :: nat
  mf_user_id :: nat
  mf_run_id :: nat
  mf_rating :: string
  mf_reason :: "string option"
  mf_created_at :: datetime
  mf_updated_at :: datetime

text \<open>The payload is \<open>json.dumps({"response": ..., "outcome": ...})\<close>: the model keeps the two
  values.\<close>

record outbox_event =
  ob_id :: nat
  ob_logical_key :: string
  ob_run_id :: nat
  ob_payload :: "utext \<times> outcome"
  ob_status :: string
  ob_attempts :: int
  ob_lease_until :: "datetime option"

record billing_event =
  be_id :: nat
  be_provider :: string
  be_provider_event_id :: string
  be_account_id :: nat
  be_event_version :: int
  be_event_type :: string
  be_payload_hash :: string

text \<open>The JSON columns of a routing record are kept as the values they encode: the routing context
  and the attempts of \<open>daily_agent/parakh/routing.py\<close>.\<close>

record routing_context =
  rc_tier :: string
  rc_task_domain :: string
  rc_estimated_input_tokens :: int
  rc_context_utilization_ratio :: rat
  rc_tool_count :: int
  rc_requires_structured_output :: bool
  rc_requires_tools :: bool
  rc_requires_memory :: bool
  rc_requires_external_data :: bool
  rc_conversation_depth :: int
  rc_retry_number :: int
  rc_previous_tool_failure :: bool
  rc_latency_slo_ms :: "int option"

record routing_attempt =
  at_provider :: string
  at_model :: string
  at_operation :: string
  at_input_tokens :: "int option"
  at_output_tokens :: "int option"
  at_cost_micro :: "int option"
  at_measurement :: string

record routing_record =
  rr_run_id :: nat
  rr_tier :: string
  rr_task_domain :: string
  rr_routing_context :: routing_context
  rr_attempts :: "routing_attempt list"
  rr_harness_version :: string
  rr_prompt_version :: string
  rr_policy_version :: string
  rr_feature_schema_version :: string
  rr_executed_action :: string
  rr_latency_ms :: real
  rr_cost_micro :: "int option"
  rr_started_at :: datetime
  rr_completed_at :: datetime

record routing_decision =
  rd_id :: nat
  rd_run_id :: nat
  rd_shadow :: bool
  rd_policy_version :: string
  rd_feature_schema_version :: string
  rd_selected_action :: string
  rd_selection_probability :: real
  rd_exploration :: bool
  rd_eligible_actions :: "string list"
  rd_created_at :: datetime

record policy_bundle =
  po_id :: nat
  po_artifact_version :: string
  po_checksums_sha256 :: string
  po_signer_public_key :: string
  po_storage_path :: string
  po_state :: string
  po_received_at :: datetime

record policy_event =
  pv_id :: nat
  pv_bundle_id :: nat
  pv_from_state :: "string option"
  pv_to_state :: string
  pv_actor :: string
  pv_reason :: string
  pv_created_at :: datetime

record db =
  next_id :: nat
  accounts :: "account list"
  users :: "user list"
  subscriptions :: "subscription list"
  usage_windows :: "usage_window list"
  usage_periods :: "usage_period list"
  platform_budgets :: "platform_budget list"
  gateway_request_days :: "gateway_request_day list"
  budget_reservations :: "budget_reservation list"
  cost_ledger_rows :: "cost_ledger list"
  tasks :: "task list"
  reminders :: "reminder list"
  inbox_events :: "inbox_event list"
  runs :: "run list"
  feedback_rows :: "message_feedback list"
  outbox_events :: "outbox_event list"
  billing_events :: "billing_event list"
  routing_records :: "routing_record list"
  routing_decisions :: "routing_decision list"
  policy_bundles :: "policy_bundle list"
  policy_events :: "policy_event list"

definition empty_db :: db where
  "empty_db = \<lparr>next_id = 0, accounts = [], users = [], subscriptions = [], usage_windows = [],
     usage_periods = [], platform_budgets = [], gateway_request_days = [], budget_reservations = [],
     cost_ledger_rows = [], tasks = [], reminders = [], inbox_events = [], runs = [],
     feedback_rows = [], outbox_events = [], billing_events = [], routing_records = [], routing_decisions = [],
     policy_bundles = [], policy_events = []\<rparr>"

section \<open>Session operations\<close>

text \<open>The exceptions of \<open>services.py\<close>, with the instant the binding limit lifts where the class
  carries one, and the ones of the runtime the services let through.\<close>

datatype service_error =
    BudgetDenied string (reset_at: datetime)
  | IdempotencyConflict string
  | ReservationInFlight string
  | GatewayCapacityFull (reset_at: datetime)
  | IntegrityError
  | ValueError string
  | RuntimeError string

type_synonym 'a sop = "(service_error, 'a, db) op"

text \<open>\<open>with session.begin_nested(): ... except IntegrityError: handler\<close>: the savepoint is rolled
  back before the handler runs.\<close>

definition begin_nested :: "'a sop \<Rightarrow> 'a sop \<Rightarrow> 'a sop" where
  "begin_nested body handler s =
     (case body s of Raise e t \<Rightarrow> if e = IntegrityError then handler s else Raise e t | Ok v t \<Rightarrow> Ok v t)"

text \<open>\<open>session.scalar(select ...)\<close> and \<open>session.execute(update ...)\<close> as operations: the first
  reads, the second writes and returns its row count.\<close>

definition query :: "(db \<Rightarrow> 'a) \<Rightarrow> 'a sop" where
  "query f s = Ok (f s) s"

definition execute :: "(db \<Rightarrow> nat) \<Rightarrow> (db \<Rightarrow> db) \<Rightarrow> nat sop" where
  "execute n f s = Ok (n s) (f s)"

text \<open>\<open>session.add(row)\<close>, \<open>flush\<close>: \<open>dup\<close> says the row's unique key is taken.\<close>

definition insert_row :: "(db \<Rightarrow> bool) \<Rightarrow> (nat \<Rightarrow> 'r) \<Rightarrow> ('r \<Rightarrow> db \<Rightarrow> db) \<Rightarrow> 'r sop" where
  "insert_row dup mk put s =
     (if dup s then Raise IntegrityError s
      else Ok (mk (next_id s)) ((put (mk (next_id s)) s)\<lparr>next_id := Suc (next_id s)\<rparr>))"

lemma wp_query [wp_intros]: "Q (f s) s \<Longrightarrow> wp (query f) Q s"
  by (simp add: wp_def query_def)

lemma wp_execute [wp_intros]: "Q (n s) (f s) \<Longrightarrow> wp (execute n f) Q s"
  by (simp add: wp_def execute_def)

lemma wp_insert_row [wp_intros]:
  "(\<not> dup s \<Longrightarrow> Q (mk (next_id s)) ((put (mk (next_id s)) s)\<lparr>next_id := Suc (next_id s)\<rparr>)) \<Longrightarrow>
   wp (insert_row dup mk put) Q s"
  by (simp add: wp_def insert_row_def)

lemma wp_begin_nested [wp_intros]: "wp m Q s \<Longrightarrow> wp h Q s \<Longrightarrow> wp (begin_nested m h) Q s"
  by (auto simp: wp_def begin_nested_def split: result.splits)

lemma wp_if [wp_intros]:
  "(b \<Longrightarrow> wp m Q s) \<Longrightarrow> (\<not> b \<Longrightarrow> wp n Q s) \<Longrightarrow> wp (if b then m else n) Q s"
  by simp

lemma wp_option [wp_intros]:
  "(x = None \<Longrightarrow> wp m Q s) \<Longrightarrow> (\<And>y. x = Some y \<Longrightarrow> wp (f y) Q s) \<Longrightarrow>
   wp (case x of None \<Rightarrow> m | Some y \<Rightarrow> f y) Q s"
  by (cases x) simp_all

lemma wp_let [wp_intros]: "wp (f x) Q s \<Longrightarrow> wp (let y = x in f y) Q s"
  by simp

lemma query_Ok [simp]: "query f s = Ok (f s) s"
  by (simp add: query_def)

lemma execute_Ok [simp]: "execute n f s = Ok (n s) (f s)"
  by (simp add: execute_def)

end
