(* ===== verification/Config.thy ===== *)
theory Config
  imports Models
begin

text \<open>
  The settings (\<open>daily_agent/config.py\<close>): the record of every field the model uses, the bounds
  pydantic enforces on the numeric fields, and the validator that refuses unsafe production
  settings. The decoding of the Clerk key (base64 and PEM, the cryptography library) is a parameter.
\<close>

record settings =
  environment :: string
  database_url :: string
  migration_database_url :: "string option"
  database_pool_size :: int
  database_max_overflow :: int
  database_pool_timeout :: int
  database_connect_timeout :: int
  redis_url :: "string option"
  auth_secret :: string
  webhook_secret :: string
  allow_development_auth :: bool
  clerk_publishable_key :: "string option"
  clerk_issuer :: "string option"
  clerk_jwt_public_key_b64 :: "string option"
  live_models_enabled :: bool
  opencode_enabled :: bool
  opencode_api_key :: "string option"
  openrouter_enabled :: bool
  openrouter_api_key :: "string option"
  gateway_kill_switch :: bool
  model_registry_path :: "string option"
  gateway_timeout_seconds :: real
  gateway_breaker_failure_threshold :: int
  gateway_breaker_open_seconds :: real
  gateway_model_cooldown_seconds :: real
  gateway_daily_request_limit :: int
  gateway_paid_reserved_requests :: int
  rate_limit_per_minute :: int
  paid_checkout_enabled :: bool
  whatsapp_enabled :: bool
  access_codes_path :: "string option"
  production_period_budget_micro :: "int option"
  global_daily_budget_micro :: int
  data_dir :: string
  parakh_trusted_public_keys :: "string list"

definition default_settings :: settings where
  "default_settings = \<lparr>environment = ''development'',
     database_url = ''sqlite+pysqlite:///./data/development.db'', migration_database_url = None,
     database_pool_size = 2, database_max_overflow = 0, database_pool_timeout = 15,
     database_connect_timeout = 15, redis_url = None, auth_secret = ''development-only-change-me'',
     webhook_secret = ''development-webhook-only'', allow_development_auth = True,
     clerk_publishable_key = None, clerk_issuer = None, clerk_jwt_public_key_b64 = None, live_models_enabled = False,
     opencode_enabled = False, opencode_api_key = None, openrouter_enabled = False,
     openrouter_api_key = None, gateway_kill_switch = False, model_registry_path = None, gateway_timeout_seconds = 20,
     gateway_breaker_failure_threshold = 5, gateway_breaker_open_seconds = 60,
     gateway_model_cooldown_seconds = 60, gateway_daily_request_limit = 50,
     gateway_paid_reserved_requests = 10, rate_limit_per_minute = 30, paid_checkout_enabled = False,
     whatsapp_enabled = False, access_codes_path = None, production_period_budget_micro = None,
     global_daily_budget_micro = 100000, data_dir = ''data'', parakh_trusted_public_keys = []\<rparr>"

text \<open>The \<open>Field(ge=..., le=..., gt=...)\<close> bounds\<close>

definition field_bounds_ok :: "settings \<Rightarrow> bool" where
  "field_bounds_ok s \<longleftrightarrow>
     1 \<le> database_pool_size s \<and> database_pool_size s \<le> 20
   \<and> 0 \<le> database_max_overflow s \<and> database_max_overflow s \<le> 20
   \<and> 1 \<le> database_pool_timeout s \<and> database_pool_timeout s \<le> 120
   \<and> 1 \<le> database_connect_timeout s \<and> database_connect_timeout s \<le> 120
   \<and> 0 < gateway_timeout_seconds s \<and> gateway_timeout_seconds s \<le> 60
   \<and> 1 \<le> gateway_breaker_failure_threshold s \<and> gateway_breaker_failure_threshold s \<le> 100
   \<and> 0 < gateway_breaker_open_seconds s \<and> 0 < gateway_model_cooldown_seconds s
   \<and> 1 \<le> gateway_daily_request_limit s \<and> 0 \<le> gateway_paid_reserved_requests s
   \<and> 1 \<le> rate_limit_per_minute s \<and> rate_limit_per_minute s \<le> 10000
   \<and> (case production_period_budget_micro s of None \<Rightarrow> True | Some b \<Rightarrow> 1 \<le> b)
   \<and> 1 \<le> global_daily_budget_micro s"

section \<open>Secrets\<close>

text \<open>\<open>str.lower\<close> and \<open>str.strip\<close> on strings of code points below 256\<close>

definition lower_char :: "char \<Rightarrow> char" where
  "lower_char c = (let n = of_char c :: nat in
     if 65 \<le> n \<and> n \<le> 90 \<or> 192 \<le> n \<and> n \<le> 222 \<and> n \<noteq> 215 then char_of (n + 32) else c)"

definition strip_string :: "string \<Rightarrow> string" where
  "strip_string s = rev (dropWhile (\<lambda>c. is_space (of_char c)) (rev (dropWhile (\<lambda>c. is_space (of_char c)) s)))"

fun contains :: "string \<Rightarrow> string \<Rightarrow> bool" where
  "contains sub [] = (sub = [])"
| "contains sub (c # cs) = (take (length sub) (c # cs) = sub \<or> contains sub cs)"

definition PLACEHOLDER_MARKERS :: "string list" where
  "PLACEHOLDER_MARKERS = [''change-me'', ''development'', ''example'', ''fixture'', ''placeholder'',
     ''replace-for'', ''sample'', ''test-secret'']"

definition is_unsafe_production_secret :: "string \<Rightarrow> bool" where
  "is_unsafe_production_secret value =
     (let normalized = map lower_char (strip_string value)
      in length normalized < 32 \<or> list_ex (\<lambda>marker. contains marker normalized) PLACEHOLDER_MARKERS)"

section \<open>The Clerk key pair\<close>

text \<open>\<open>urlparse(url).scheme\<close> and \<open>.netloc\<close>: leading control characters and spaces are dropped, and
  tabs and line ends anywhere.\<close>

definition url_clean :: "string \<Rightarrow> string" where
  "url_clean url = filter (\<lambda>c. (of_char c :: nat) \<notin> {9, 10, 13}) (dropWhile (\<lambda>c. (of_char c :: nat) \<le> 32) url)"

definition is_letter :: "char \<Rightarrow> bool" where
  "is_letter c = (let n = of_char c :: nat in 65 \<le> n \<and> n \<le> 90 \<or> 97 \<le> n \<and> n \<le> 122)"

definition scheme_char :: "char \<Rightarrow> bool" where
  "scheme_char c \<longleftrightarrow> is_letter c \<or> is_digit c \<or> c \<in> {CHR ''+'', CHR ''-'', CHR ''.''}"

definition url_scheme :: "string \<Rightarrow> string \<times> string" where
  "url_scheme url =
     (let scheme = takeWhile (\<lambda>c. c \<noteq> CHR '':'') url; rest = dropWhile (\<lambda>c. c \<noteq> CHR '':'') url
      in if rest \<noteq> [] \<and> scheme \<noteq> [] \<and> is_letter (hd scheme) \<and> list_all scheme_char scheme
         then (map lower_char scheme, tl rest) else ([], url))"

definition url_netloc :: "string \<Rightarrow> string" where
  "url_netloc rest = (if take 2 rest = ''//'' then takeWhile (\<lambda>c. c \<notin> {CHR ''/'', CHR 63, CHR 35}) (drop 2 rest) else [])"

text \<open>\<open>rsa_key\<close> says the text is the base64 of a PEM file with an RSA public key.\<close>

definition clerk_verification_config_valid :: "(string \<Rightarrow> bool) \<Rightarrow> string option \<Rightarrow> string option \<Rightarrow> bool" where
  "clerk_verification_config_valid rsa_key issuer key_b64 = (case (issuer, key_b64) of
       (Some url, Some key) \<Rightarrow>
         url \<noteq> [] \<and> key \<noteq> [] \<and> fst (url_scheme (url_clean url)) = ''https''
           \<and> url_netloc (snd (url_scheme (url_clean url))) \<noteq> [] \<and> rsa_key key
     | _ \<Rightarrow> False)"

section \<open>The validator\<close>

definition is_development :: "settings \<Rightarrow> bool" where
  "is_development s \<longleftrightarrow> environment s \<in> {''development'', ''test''}"

definition truthy :: "string option \<Rightarrow> bool" where
  "truthy v = (case v of None \<Rightarrow> False | Some s \<Rightarrow> s \<noteq> [])"

definition starts_with :: "string \<Rightarrow> string \<Rightarrow> bool" where
  "starts_with p s \<longleftrightarrow> take (length p) s = p"

text \<open>\<open>Inl\<close> carries the \<open>ValueError\<close>.\<close>

definition fail_closed_in_production :: "(string \<Rightarrow> bool) \<Rightarrow> settings \<Rightarrow> string + settings" where
  "fail_closed_in_production rsa_key s =
    (if truthy (clerk_issuer s) \<noteq> truthy (clerk_jwt_public_key_b64 s)
     then Inl ''Clerk issuer and JWT verification key must be configured together''
     else if truthy (clerk_issuer s) \<and> truthy (clerk_jwt_public_key_b64 s)
        \<and> \<not> clerk_verification_config_valid rsa_key (clerk_issuer s) (clerk_jwt_public_key_b64 s)
     then Inl ''Clerk JWT verification configuration is invalid''
     else if \<not> is_development s \<and> starts_with ''sqlite'' (database_url s)
     then Inl ''production requires PostgreSQL''
     else if \<not> is_development s \<and> allow_development_auth s
     then Inl ''development authentication must be disabled in production''
     else if \<not> is_development s \<and> is_unsafe_production_secret (auth_secret s)
     then Inl ''production authentication secret is unset''
     else if \<not> is_development s \<and> is_unsafe_production_secret (webhook_secret s)
     then Inl ''production webhook secret is unset''
     else if \<not> is_development s \<and> (\<not> truthy (clerk_issuer s) \<or> \<not> truthy (clerk_jwt_public_key_b64 s))
     then Inl ''production Clerk JWT verification is unset''
     else if \<not> is_development s \<and> paid_checkout_enabled s \<and> production_period_budget_micro s = None
     then Inl ''paid checkout requires an approved finite period budget''
     else if \<not> is_development s \<and> live_models_enabled s \<and> production_period_budget_micro s = None
     then Inl ''live models require an approved finite period budget''
     else if gateway_paid_reserved_requests s \<ge> gateway_daily_request_limit s
     then Inl ''the paid reserve must leave some daily requests for the free plan''
     else if whatsapp_enabled s
     then Inl ''WhatsApp is policy-disabled for the current India-first release''
     else if opencode_enabled s \<and> \<not> truthy (opencode_api_key s)
     then Inl ''OpenCode is enabled but its API key is unset''
     else if openrouter_enabled s \<and> \<not> truthy (openrouter_api_key s)
     then Inl ''OpenRouter is enabled but its API key is unset''
     else if (opencode_enabled s \<or> openrouter_enabled s) \<and> \<not> is_development s
        \<and> production_period_budget_micro s = None
     then Inl ''live model providers require an approved finite period budget''
     else Inr s)"

text \<open>\<open>Settings(...)\<close>: the field bounds, then the validator.\<close>

definition load_settings :: "(string \<Rightarrow> bool) \<Rightarrow> settings \<Rightarrow> string + settings" where
  "load_settings rsa_key s =
     (if field_bounds_ok s then fail_closed_in_production rsa_key s else Inl ''field out of bounds'')"

lemma contains_iff: "contains sub s \<longleftrightarrow> (\<exists>pre post. s = pre @ sub @ post)"
proof (induction s)
  case (Cons c cs)
  have "take (length sub) (c # cs) = sub \<longleftrightarrow> (\<exists>post. c # cs = sub @ post)"
    by (metis append_take_drop_id append_eq_conv_conj)
  moreover have "(\<exists>pre post. c # cs = pre @ sub @ post) \<longleftrightarrow>
      (\<exists>post. c # cs = sub @ post) \<or> (\<exists>pre post. cs = pre @ sub @ post)"
    by (metis append_Cons append_Nil list.exhaust list.inject)
  ultimately show ?case using Cons by simp
qed simp

lemma load_settings_ok:
  "load_settings v s = Inr t \<Longrightarrow> t = s \<and> field_bounds_ok s
     \<and> gateway_paid_reserved_requests s < gateway_daily_request_limit s
     \<and> (\<not> is_development s \<longrightarrow> \<not> starts_with ''sqlite'' (database_url s) \<and> \<not> allow_development_auth s
         \<and> \<not> is_unsafe_production_secret (auth_secret s) \<and> \<not> is_unsafe_production_secret (webhook_secret s)
         \<and> clerk_verification_config_valid v (clerk_issuer s) (clerk_jwt_public_key_b64 s)
         \<and> (live_models_enabled s \<or> opencode_enabled s \<or> openrouter_enabled s \<or> paid_checkout_enabled s
              \<longrightarrow> production_period_budget_micro s \<noteq> None))"
  by (auto simp: load_settings_def fail_closed_in_production_def split: if_splits)

lemma contains_upper:
  assumes "\<not> is_unsafe_production_secret value" and "marker \<in> set PLACEHOLDER_MARKERS"
  shows "\<not> (\<exists>pre post. map lower_char (strip_string value) = pre @ marker @ post)"
  using assms contains_iff by (auto simp: is_unsafe_production_secret_def list_ex_iff Let_def)

section \<open>Properties\<close>

text \<open>Production fails closed. Settings that load outside development keep sqlite and development
  sign-in out, have two secrets of at least 32 characters without any placeholder marker, a Clerk issuer
  on https with an RSA key, and a finite period budget whenever anything can cost money; in every
  environment the free plan has requests left beside the paid reserve, and the settings are unchanged.\<close>

theorem production_fails_closed:
  assumes "load_settings rsa_key s = Inr t"
  shows "t = s \<and> field_bounds_ok s \<and> 1 \<le> gateway_daily_request_limit s - gateway_paid_reserved_requests s
     \<and> \<not> whatsapp_enabled s
     \<and> (is_development s \<or>
          \<not> starts_with ''sqlite'' (database_url s) \<and> \<not> allow_development_auth s
        \<and> list_all (\<lambda>secret. 32 \<le> length (strip_string secret)
              \<and> list_all (\<lambda>marker. \<not> contains marker (map lower_char (strip_string secret))) PLACEHOLDER_MARKERS)
            [auth_secret s, webhook_secret s]
        \<and> clerk_verification_config_valid rsa_key (clerk_issuer s) (clerk_jwt_public_key_b64 s)
        \<and> (production_period_budget_micro s \<noteq> None
            \<or> \<not> (live_models_enabled s \<or> opencode_enabled s \<or> openrouter_enabled s \<or> paid_checkout_enabled s)))"
proof -
  have "\<not> whatsapp_enabled s"
    using assms by (auto simp: load_settings_def fail_closed_in_production_def split: if_splits)
  then show ?thesis
    using load_settings_ok [OF assms]
    by (auto simp: is_unsafe_production_secret_def Let_def list_all_iff list_ex_iff simp del: PLACEHOLDER_MARKERS_def)
qed

definition production_settings :: settings where
  "production_settings = default_settings\<lparr>environment := ''production'', database_url := ''postgresql://db/karmi'',
     auth_secret := ''0123456789abcdef0123456789abcdef'', webhook_secret := ''fedcba9876543210fedcba9876543210'',
     allow_development_auth := False, clerk_issuer := Some ''https://clerk.karmi.in'', clerk_jwt_public_key_b64 := Some ''a2V5''\<rparr>"

theorem production_fails_closed_witness:
  "load_settings (\<lambda>key. key = ''a2V5'') production_settings = Inr production_settings
   \<and> \<not> allow_development_auth production_settings
   \<and> load_settings (\<lambda>key. key = ''a2V5'') (production_settings\<lparr>auth_secret := ''Sample-89abcdef0123456789abcdef''\<rparr>)
       = Inl ''production authentication secret is unset''"
proof -
  have l: "load_settings (\<lambda>key. key = ''a2V5'') production_settings = Inr production_settings" by code_simp
  have "load_settings (\<lambda>key. key = ''a2V5'') (production_settings\<lparr>auth_secret := ''Sample-89abcdef0123456789abcdef''\<rparr>)
      = Inl ''production authentication secret is unset''" by code_simp
  moreover have "\<not> is_development production_settings"
    by (simp add: production_settings_def is_development_def)
  ultimately show ?thesis using production_fails_closed [OF l] l by blast
qed

end
