(* ===== verification/Providers.thy ===== *)
theory Providers
  imports Models
begin

text \<open>
  The external model-provider boundary (\<open>daily_agent/providers.py\<close>) and the value types of the
  gateway (\<open>daily_agent/gateway/types.py\<close>). The TypeSafe SDK call is a parameter: it returns
  the parsed response or fails.
\<close>

section \<open>Provider calls\<close>

record provider_call =
  pc_provider :: string
  pc_model_id :: string
  pc_operation :: string
  pc_input_tokens :: "int option"
  pc_output_tokens :: "int option"
  pc_cost_micro :: "int option"
  pc_measurement :: string
  pc_rate_version :: "string option"

definition TYPESAFE_PROVIDER :: string where "TYPESAFE_PROVIDER = ''typesafe''"
definition TYPESAFE_MODEL_DEFAULT :: string where "TYPESAFE_MODEL_DEFAULT = ''jev-latest''"
definition TYPESAFE_RATE_VERSION :: string where "TYPESAFE_RATE_VERSION = ''typesafe-rates-v1''"
definition TYPESAFE_INPUT_MICRO_PER_1K :: int where "TYPESAFE_INPUT_MICRO_PER_1K = 250"
definition TYPESAFE_OUTPUT_MICRO_PER_1K :: int where "TYPESAFE_OUTPUT_MICRO_PER_1K = 1250"
definition TYPESAFE_CALL_ESTIMATE_MICRO :: int where "TYPESAFE_CALL_ESTIMATE_MICRO = 10000"

definition or_zero :: "int option \<Rightarrow> int" where
  "or_zero x = (case x of None \<Rightarrow> 0 | Some n \<Rightarrow> n)"

text \<open>\<open>math.ceil(in_cost + out_cost)\<close>, exact where the code divides floats.\<close>

definition cost_micro :: "int option \<Rightarrow> int option \<Rightarrow> int option" where
  "cost_micro input_tokens output_tokens =
     (if input_tokens = None \<and> output_tokens = None then None
      else let in_cost = of_int (or_zero input_tokens * TYPESAFE_INPUT_MICRO_PER_1K) / 1000 :: rat;
               out_cost = of_int (or_zero output_tokens * TYPESAFE_OUTPUT_MICRO_PER_1K) / 1000
           in Some (max 1 \<lceil>in_cost + out_cost\<rceil>))"

record typesafe_response =
  tr_usage :: "(int option \<times> int option) option"
  tr_model :: "string option"
  tr_intent :: string

definition record_call :: "typesafe_response \<Rightarrow> string \<Rightarrow> provider_call" where
  "record_call response operation =
     (let input_tokens = Option.bind (tr_usage response) fst;
          output_tokens = Option.bind (tr_usage response) snd;
          cost = cost_micro input_tokens output_tokens
      in \<lparr>pc_provider = TYPESAFE_PROVIDER,
          pc_model_id = (case tr_model response of Some m \<Rightarrow> if m = [] then TYPESAFE_MODEL_DEFAULT else m
                                                 | None \<Rightarrow> TYPESAFE_MODEL_DEFAULT),
          pc_operation = operation, pc_input_tokens = input_tokens, pc_output_tokens = output_tokens,
          pc_cost_micro = cost,
          pc_measurement = (if cost \<noteq> None then ''measured'' else ''unknown''),
          pc_rate_version = (if cost \<noteq> None then Some TYPESAFE_RATE_VERSION else None)\<rparr>)"

text \<open>\<open>system_one text\<close> is the SDK's answer, \<open>None\<close> for any exception.\<close>

definition classify_intent :: "(utext \<Rightarrow> typesafe_response option) \<Rightarrow> utext \<Rightarrow> string option \<times> provider_call list" where
  "classify_intent system_one message = (case system_one message of
       None \<Rightarrow> (None, [])
     | Some response \<Rightarrow>
         let call = record_call response ''choice''; intent = tr_intent response
         in if intent \<notin> {''create_task'', ''general_draft''} then (None, [call]) else (Some intent, [call]))"

lemma cost_micro_pos: "cost_micro i u = Some c \<Longrightarrow> 1 \<le> c"
  by (auto simp: cost_micro_def Let_def split: if_splits)

section \<open>Gateway value types\<close>

datatype model_class = ECONOMY | BALANCED | ADVANCED

definition class_rank :: "model_class \<Rightarrow> nat" where
  "class_rank c = (case c of ECONOMY \<Rightarrow> 0 | BALANCED \<Rightarrow> 1 | ADVANCED \<Rightarrow> 2)"

definition class_value :: "model_class \<Rightarrow> string" where
  "class_value c = (case c of ECONOMY \<Rightarrow> ''economy'' | BALANCED \<Rightarrow> ''balanced'' | ADVANCED \<Rightarrow> ''advanced'')"

text \<open>\<open>ModelClass(value)\<close>; \<open>None\<close> is the \<open>ValueError\<close>.\<close>

definition class_of_value :: "string \<Rightarrow> model_class option" where
  "class_of_value s = (if s = ''economy'' then Some ECONOMY else if s = ''balanced'' then Some BALANCED
     else if s = ''advanced'' then Some ADVANCED else None)"

datatype task_type = CODE | MATHS | STUDY | HINDI | MIXED | SUMMARY

definition task_value :: "task_type \<Rightarrow> string" where
  "task_value t = (case t of CODE \<Rightarrow> ''code'' | MATHS \<Rightarrow> ''maths'' | STUDY \<Rightarrow> ''study''
     | HINDI \<Rightarrow> ''hindi'' | MIXED \<Rightarrow> ''mixed'' | SUMMARY \<Rightarrow> ''summary'')"

text \<open>A chat message is a role and a content.\<close>

type_synonym message = "string \<times> utext"

record chat_request =
  cq_model_id :: string
  cq_messages :: "message list"
  cq_max_output_tokens :: int

record chat_result =
  cr_text :: utext
  cr_finish_reason :: "string option"
  cr_latency_ms :: real
  cr_call :: provider_call

datatype error_kind = RATE_LIMITED | TIMEOUT | SERVER | AUTH | INVALID | NON_ZERO_PRICE | REJECTED

text \<open>A number of seconds; \<open>Forever\<close> is the float \<open>inf\<close>.\<close>

datatype delay = Seconds real | Forever

record provider_error =
  pe_kind :: error_kind
  pe_retry_after_seconds :: "delay option"

lemma class_rank_inject [simp]: "class_rank a = class_rank b \<longleftrightarrow> a = b"
  by (cases a; cases b) (simp_all add: class_rank_def)

lemma class_rank_le_2: "class_rank c \<le> 2"
  by (cases c) (simp_all add: class_rank_def)

lemma class_of_value_value [simp]: "class_of_value (class_value c) = Some c"
  by (cases c) (simp_all add: class_of_value_def class_value_def)

lemma class_of_value_Some: "class_of_value s = Some c \<Longrightarrow> s = class_value c"
  by (auto simp: class_of_value_def class_value_def split: if_splits)

end
