(* ===== verification/Plans.thy ===== *)
theory Plans
  imports Config Providers
begin

text \<open>
  Plans (\<open>daily_agent/plans.py\<close>), the effective plan of a subscription and the theme progression
  that follows it (\<open>daily_agent/services.py\<close>), and access codes
  (\<open>daily_agent/access_codes.py\<close>).
\<close>

section \<open>Policies\<close>

text \<open>The class names of a plan are stored as the \<open>ModelClass\<close> values they name.\<close>

record plan_policy_row =
  plan_id :: string
  display_name :: string
  price_inr :: int
  everyday_limit :: int
  daily_token_limit :: int
  input_tokens :: int
  output_tokens :: int
  request_cost_cap_micro :: int
  period_cost_cap_micro :: int
  model_classes :: "model_class list"
  min_class :: model_class

definition ananta :: plan_policy_row where
  "ananta = \<lparr>plan_id = ''ananta'', display_name = ''Ananta'', price_inr = 0, everyday_limit = 20,
     daily_token_limit = 40000, input_tokens = 4000, output_tokens = 4096,
     request_cost_cap_micro = 2000, period_cost_cap_micro = 20000,
     model_classes = [ECONOMY], min_class = ECONOMY\<rparr>"

definition yanta :: plan_policy_row where
  "yanta = \<lparr>plan_id = ''yanta'', display_name = ''Yanta'', price_inr = 149, everyday_limit = 100,
     daily_token_limit = 300000, input_tokens = 8000, output_tokens = 4096,
     request_cost_cap_micro = 4000, period_cost_cap_micro = 80000,
     model_classes = [ECONOMY, BALANCED], min_class = ECONOMY\<rparr>"

definition trika :: plan_policy_row where
  "trika = \<lparr>plan_id = ''trika'', display_name = ''Trika'', price_inr = 399, everyday_limit = 250,
     daily_token_limit = 800000, input_tokens = 16000, output_tokens = 4096,
     request_cost_cap_micro = 8000, period_cost_cap_micro = 200000,
     model_classes = [ECONOMY, BALANCED, ADVANCED], min_class = BALANCED\<rparr>"

definition parth :: plan_policy_row where
  "parth = \<lparr>plan_id = ''parth'', display_name = ''Parth'', price_inr = 899, everyday_limit = 500,
     daily_token_limit = 2000000, input_tokens = 32000, output_tokens = 4096,
     request_cost_cap_micro = 16000, period_cost_cap_micro = 500000,
     model_classes = [BALANCED, ADVANCED], min_class = BALANCED\<rparr>"

definition SYNTHETIC_POLICIES :: "string \<Rightarrow> plan_policy_row option" where
  "SYNTHETIC_POLICIES p = map_of [(''ananta'', ananta), (''yanta'', yanta), (''trika'', trika),
     (''parth'', parth)] p"

definition plan_policy :: "subscription option \<Rightarrow> plan_policy_row" where
  "plan_policy subscription = (case subscription of None \<Rightarrow> ananta
     | Some su \<Rightarrow> if su_status su \<noteq> ''active'' then ananta
                 else case SYNTHETIC_POLICIES (su_plan_id su) of None \<Rightarrow> ananta | Some p \<Rightarrow> p)"

definition new_subscription :: "datetime \<Rightarrow> nat \<Rightarrow> string \<Rightarrow> nat \<Rightarrow> subscription" where
  "new_subscription now account_id plan i = \<lparr>su_id = i, su_account_id = account_id, su_plan_id = plan,
     su_policy_version = ''synthetic-dev-v1'', su_status = ''active'', su_event_version = 0,
     su_period_anchor = dt_date now\<rparr>"

definition subscription_of :: "nat \<Rightarrow> db \<Rightarrow> subscription option" where
  "subscription_of account_id s = select_first (\<lambda>su. su_account_id su = account_id) (subscriptions s)"

definition policy_for :: "datetime \<Rightarrow> nat \<Rightarrow> (subscription \<times> plan_policy_row) sop" where
  "policy_for now account_id =
     andthen (query (subscription_of account_id)) (\<lambda>found.
     case found of
       Some su \<Rightarrow> ret (su, plan_policy (Some su))
     | None \<Rightarrow>
         andthen (insert_row (\<lambda>s. subscription_of account_id s \<noteq> None)
                   (new_subscription now account_id ''ananta'')
                   (\<lambda>su s. s\<lparr>subscriptions := subscriptions s @ [su]\<rparr>))
           (\<lambda>su. ret (su, plan_policy (Some su))))"

lemma SYNTHETIC_POLICIES_cases:
  "SYNTHETIC_POLICIES p = Some q \<Longrightarrow>
   p = ''ananta'' \<and> q = ananta \<or> p = ''yanta'' \<and> q = yanta \<or> p = ''trika'' \<and> q = trika
   \<or> p = ''parth'' \<and> q = parth"
  by (auto simp: SYNTHETIC_POLICIES_def split: if_splits)

lemma plan_policy_cases: "plan_policy su \<in> {ananta, yanta, trika, parth}"
  by (auto simp: plan_policy_def dest: SYNTHETIC_POLICIES_cases split: option.splits)

lemma plan_policy_sane:
  "0 < everyday_limit (plan_policy su)" "0 < daily_token_limit (plan_policy su)"
  "0 < request_cost_cap_micro (plan_policy su)" "0 < period_cost_cap_micro (plan_policy su)"
  "min_class (plan_policy su) \<in> set (model_classes (plan_policy su))"
  "0 < input_tokens (plan_policy su)" "output_tokens (plan_policy su) = 4096"
  using plan_policy_cases [of su] by (auto simp: ananta_def yanta_def trika_def parth_def)

section \<open>Theme progression\<close>

definition PLAN_TO_TIER :: "string \<Rightarrow> int option" where
  "PLAN_TO_TIER p = map_of [(''ananta'', 1), (''yanta'', 2), (''trika'', 3), (''parth'', 4)] p"

definition TIER_TO_PLAN :: "int \<Rightarrow> string option" where
  "TIER_TO_PLAN t = map_of [(1, ''ananta''), (2, ''yanta''), (3, ''trika''), (4, ''parth'')] t"

definition tier_for_plan :: "string \<Rightarrow> int" where
  "tier_for_plan p = (case PLAN_TO_TIER p of Some t \<Rightarrow> t | None \<Rightarrow> 1)"

definition plan_for_tier :: "int \<Rightarrow> string" where
  "plan_for_tier t = (case TIER_TO_PLAN t of Some p \<Rightarrow> p | None \<Rightarrow> ''ananta'')"

definition clamp_theme :: "int \<Rightarrow> user \<Rightarrow> user" where
  "clamp_theme unlocked u =
     (let u' = u\<lparr>us_unlocked_tier := unlocked\<rparr>
      in if us_active_theme u' > us_unlocked_tier u'
         then u'\<lparr>us_active_theme := us_unlocked_tier u'\<rparr> else u')"

definition sync_theme_progression :: "nat \<Rightarrow> db \<Rightarrow> db" where
  "sync_theme_progression user_id s =
     (case select_first (\<lambda>u. us_id u = user_id) (users s) of
        None \<Rightarrow> s
      | Some u \<Rightarrow>
          let policy = plan_policy (subscription_of (us_account_id u) s)
          in s\<lparr>users := update_where (\<lambda>v. us_id v = user_id)
                 (clamp_theme (tier_for_plan (plan_id policy))) (users s)\<rparr>)"

definition sync_account_progression :: "nat \<Rightarrow> db \<Rightarrow> db" where
  "sync_account_progression account_id s =
     (let policy = plan_policy (subscription_of account_id s);
          unlocked = tier_for_plan (plan_id policy)
      in s\<lparr>users := update_where (\<lambda>u. us_account_id u = account_id) (clamp_theme unlocked) (users s)\<rparr>)"

text \<open>The table's three CHECK constraints on a user\<close>

definition user_checks :: "user \<Rightarrow> bool" where
  "user_checks u \<longleftrightarrow> 1 \<le> us_unlocked_tier u \<and> us_unlocked_tier u \<le> 4 \<and> 1 \<le> us_active_theme u
     \<and> us_active_theme u \<le> 4 \<and> us_active_theme u \<le> us_unlocked_tier u"

lemma tier_for_plan_bounds: "1 \<le> tier_for_plan p" "tier_for_plan p \<le> 4"
  by (auto simp: tier_for_plan_def PLAN_TO_TIER_def split: option.splits if_splits)

lemma plan_tier_roundtrip:
  "SYNTHETIC_POLICIES p \<noteq> None \<Longrightarrow> plan_for_tier (tier_for_plan p) = p"
  by (auto simp: SYNTHETIC_POLICIES_def plan_for_tier_def tier_for_plan_def PLAN_TO_TIER_def
      TIER_TO_PLAN_def split: if_splits)

lemma clamp_theme_checks:
  "1 \<le> t \<Longrightarrow> t \<le> 4 \<Longrightarrow> 1 \<le> us_active_theme u \<Longrightarrow> user_checks (clamp_theme t u)"
  by (auto simp: clamp_theme_def user_checks_def Let_def)

lemma clamp_theme_fields [simp]:
  "us_unlocked_tier (clamp_theme t u) = t" "us_id (clamp_theme t u) = us_id u"
  "us_account_id (clamp_theme t u) = us_account_id u"
  "us_active_theme (clamp_theme t u) = min (us_active_theme u) t"
  by (auto simp: clamp_theme_def Let_def)

section \<open>Access codes\<close>

text \<open>Codes are ASCII text; \<open>sha256\<close> is the hex digest of \<open>hashlib\<close>. \<open>hashes\<close> is the
  \<open>"hashes"\<close> object of the JSON document, in document order.\<close>

definition PLAN_RANK :: "string \<Rightarrow> int option" where
  "PLAN_RANK p = map_of [(''ananta'', 0), (''yanta'', 1), (''trika'', 2), (''parth'', 3)] p"

definition upper_char :: "char \<Rightarrow> char" where
  "upper_char c = (let n = of_char c :: nat in if 97 \<le> n \<and> n \<le> 122 then char_of (n - 32) else c)"

definition is_alnum :: "char \<Rightarrow> bool" where
  "is_alnum c = (let n = of_char c :: nat in
     48 \<le> n \<and> n \<le> 57 \<or> 65 \<le> n \<and> n \<le> 90 \<or> 97 \<le> n \<and> n \<le> 122)"

definition normalize :: "string \<Rightarrow> string" where
  "normalize code = filter is_alnum (map upper_char code)"

definition digest :: "(string \<Rightarrow> string) \<Rightarrow> string \<Rightarrow> string" where
  "digest sha256 code = sha256 (normalize code)"

definition load_access_code_hashes :: "(string \<times> string) list \<Rightarrow> (string \<times> string) list option" where
  "load_access_code_hashes hashes =
     (if list_ex (\<lambda>(d, plan). SYNTHETIC_POLICIES plan = None \<or> plan = ''ananta'' \<or> length d \<noteq> 64) hashes
      then None else Some hashes)"

definition plan_for_code :: "(string \<Rightarrow> string) \<Rightarrow> string \<Rightarrow> (string \<times> string) list \<Rightarrow> string option" where
  "plan_for_code sha256 code hashes = map_of hashes (digest sha256 code)"

lemma upper_char_idem [simp]: "upper_char (upper_char c) = upper_char c"
proof (cases "97 \<le> (of_char c :: nat) \<and> of_char c \<le> (122 :: nat)")
  case True
  then have "(of_char c - 32) mod 256 = (of_char c - 32 :: nat)" by (intro mod_less) arith
  moreover have "\<not> 97 \<le> of_char c - (32 :: nat)" using True by arith
  ultimately show ?thesis using True by (simp add: upper_char_def Let_def)
next
  case False
  then show ?thesis by (auto simp: upper_char_def Let_def)
qed

lemma normalize_idem: "normalize (normalize code) = normalize code"
proof -
  have "filter is_alnum (map upper_char (filter is_alnum (map upper_char code)))
      = filter is_alnum (map upper_char code)"
    by (induction code) simp_all
  then show ?thesis by (simp add: normalize_def)
qed

end
