(* ===== verification/Budget.thy ===== *)
theory Budget
  imports Plans
begin

text \<open>
  The budget ledger (\<open>daily_agent/services.py\<close>): the day's usage window, the billing period and
  the platform budget are created on demand; a request reserves its worst case on all three,
  then the reservation is settled at the measured cost, charged as unknown when its worker died,
  or released. Every operation is one sequence of reads and guarded updates on \<open>db\<close>, in the
  order of the code. Operations of one transaction read the clock once (\<open>now\<close>). The
  reservation an operation is given is the caller's in-memory row, which may be stale.
\<close>

section \<open>The rows of the day\<close>

definition find_window :: "nat \<Rightarrow> string \<Rightarrow> db \<Rightarrow> usage_window option" where
  "find_window account_id key s =
     select_first (\<lambda>w. uw_account_id w = account_id \<and> uw_window_key w = key) (usage_windows s)"

definition get_window :: "nat \<Rightarrow> db \<Rightarrow> usage_window option" where
  "get_window i s = select_first (\<lambda>w. uw_id w = i) (usage_windows s)"

definition get_platform :: "string \<Rightarrow> db \<Rightarrow> platform_budget option" where
  "get_platform key s = select_first (\<lambda>b. pb_window_key b = key) (platform_budgets s)"

definition new_window :: "nat \<Rightarrow> string \<Rightarrow> datetime \<Rightarrow> plan_policy_row \<Rightarrow> nat \<Rightarrow> usage_window" where
  "new_window account_id key reset policy i =
     \<lparr>uw_id = i, uw_account_id = account_id, uw_window_key = key,
      uw_everyday_limit = everyday_limit policy, uw_everyday_used = 0,
      uw_spend_limit_micro = request_cost_cap_micro policy * everyday_limit policy,
      uw_reserved_micro = 0, uw_settled_micro = 0, uw_token_limit = daily_token_limit policy,
      uw_tokens_reserved = 0, uw_tokens_settled = 0, uw_reset_at = reset\<rparr>"

definition new_platform :: "settings \<Rightarrow> string \<Rightarrow> nat \<Rightarrow> platform_budget" where
  "new_platform settings key i = \<lparr>pb_window_key = key,
     pb_spend_limit_micro = global_daily_budget_micro settings, pb_reserved_micro = 0, pb_settled_micro = 0\<rparr>"

definition ensure_window_row :: "datetime \<Rightarrow> nat \<Rightarrow> plan_policy_row \<Rightarrow> usage_window sop" where
  "ensure_window_row now account_id policy =
     (let key = fst (current_window_key now); reset = snd (current_window_key now) in
      andthen (query (find_window account_id key)) (\<lambda>found.
      case found of
        Some window \<Rightarrow> ret window
      | None \<Rightarrow> begin_nested
          (insert_row (\<lambda>s. find_window account_id key s \<noteq> None) (new_window account_id key reset policy)
            (\<lambda>w s. s\<lparr>usage_windows := usage_windows s @ [w]\<rparr>))
          (andthen (query (find_window account_id key)) (\<lambda>again.
           case again of Some window \<Rightarrow> ret window | None \<Rightarrow> raise IntegrityError))))"

definition ensure_platform_row :: "datetime \<Rightarrow> settings \<Rightarrow> platform_budget sop" where
  "ensure_platform_row now settings =
     (let key = fst (current_window_key now) in
      andthen (query (get_platform key)) (\<lambda>found.
      case found of
        Some platform \<Rightarrow> ret platform
      | None \<Rightarrow> begin_nested
          (insert_row (\<lambda>s. get_platform key s \<noteq> None) (new_platform settings key)
            (\<lambda>b s. s\<lparr>platform_budgets := platform_budgets s @ [b]\<rparr>))
          (andthen (query (get_platform key)) (\<lambda>again.
           case again of Some platform \<Rightarrow> ret platform | None \<Rightarrow> raise IntegrityError))))"

definition ensure_usage_window :: "datetime \<Rightarrow> settings \<Rightarrow> nat \<Rightarrow> usage_window sop" where
  "ensure_usage_window now settings account_id =
     andthen (policy_for now account_id) (\<lambda>(_, policy).
     andthen (ensure_window_row now account_id policy) (\<lambda>window.
     andthen (ensure_platform_row now settings) (\<lambda>_.
     ret window)))"

text \<open>\<open>... .order_by(UsagePeriod.reset_at)).first()\<close>; rows with equal resets come in the table's
  order.\<close>

definition active_period :: "nat \<Rightarrow> datetime \<Rightarrow> db \<Rightarrow> usage_period option" where
  "active_period account_id now s =
     (case sort_key up_reset_at
        (filter (\<lambda>p. up_account_id p = account_id \<and> now < up_reset_at p) (usage_periods s))
      of [] \<Rightarrow> None | p # _ \<Rightarrow> Some p)"

definition new_period :: "nat \<Rightarrow> string \<Rightarrow> datetime \<Rightarrow> plan_policy_row \<Rightarrow> nat \<Rightarrow> usage_period" where
  "new_period account_id key reset policy i = \<lparr>up_id = i, up_account_id = account_id, up_period_key = key,
     up_spend_limit_micro = period_cost_cap_micro policy, up_reserved_micro = 0, up_settled_micro = 0,
     up_reset_at = reset\<rparr>"

definition period_taken :: "nat \<Rightarrow> string \<Rightarrow> db \<Rightarrow> bool" where
  "period_taken account_id key s \<longleftrightarrow>
     select_first (\<lambda>p. up_account_id p = account_id \<and> up_period_key p = key) (usage_periods s) \<noteq> None"

definition ensure_usage_period :: "datetime \<Rightarrow> nat \<Rightarrow> plan_policy_row \<Rightarrow> date option \<Rightarrow> usage_period sop" where
  "ensure_usage_period now account_id policy anchor =
     andthen (query (active_period account_id now)) (\<lambda>found.
     case found of
       Some period \<Rightarrow> ret period
     | None \<Rightarrow>
         let (key, reset) = (case anchor of Some a \<Rightarrow> subscription_period a now | None \<Rightarrow> current_period_key now)
         in begin_nested
           (insert_row (period_taken account_id key) (new_period account_id key reset policy)
             (\<lambda>p s. s\<lparr>usage_periods := usage_periods s @ [p]\<rparr>))
           (andthen (query (active_period account_id now)) (\<lambda>again.
            case again of Some period \<Rightarrow> ret period | None \<Rightarrow> raise IntegrityError)))"

section \<open>The three counters\<close>

text \<open>The \<open>values(...)\<close> of the counter updates: a hold, a settlement and a refund of it.\<close>

definition hold_window :: "int \<Rightarrow> int \<Rightarrow> usage_window \<Rightarrow> usage_window" where
  "hold_window amount_micro tokens w = w\<lparr>uw_reserved_micro := uw_reserved_micro w + amount_micro,
     uw_tokens_reserved := uw_tokens_reserved w + tokens, uw_everyday_used := uw_everyday_used w + 1\<rparr>"

definition settle_window :: "int \<Rightarrow> int \<Rightarrow> int \<Rightarrow> int \<Rightarrow> usage_window \<Rightarrow> usage_window" where
  "settle_window held tokens settled settled_tokens w =
     w\<lparr>uw_reserved_micro := uw_reserved_micro w - held, uw_settled_micro := uw_settled_micro w + settled,
       uw_tokens_reserved := uw_tokens_reserved w - tokens,
       uw_tokens_settled := uw_tokens_settled w + settled_tokens\<rparr>"

definition release_window :: "int \<Rightarrow> int \<Rightarrow> usage_window \<Rightarrow> usage_window" where
  "release_window held tokens w = w\<lparr>uw_reserved_micro := uw_reserved_micro w - held,
     uw_tokens_reserved := uw_tokens_reserved w - tokens, uw_everyday_used := uw_everyday_used w - 1\<rparr>"

definition hold_period :: "int \<Rightarrow> usage_period \<Rightarrow> usage_period" where
  "hold_period amount_micro p = p\<lparr>up_reserved_micro := up_reserved_micro p + amount_micro\<rparr>"

definition settle_period :: "int \<Rightarrow> int \<Rightarrow> usage_period \<Rightarrow> usage_period" where
  "settle_period held settled p = p\<lparr>up_reserved_micro := up_reserved_micro p - held,
     up_settled_micro := up_settled_micro p + settled\<rparr>"

definition release_period :: "int \<Rightarrow> usage_period \<Rightarrow> usage_period" where
  "release_period held p = p\<lparr>up_reserved_micro := up_reserved_micro p - held\<rparr>"

definition hold_platform :: "int \<Rightarrow> platform_budget \<Rightarrow> platform_budget" where
  "hold_platform amount_micro b = b\<lparr>pb_reserved_micro := pb_reserved_micro b + amount_micro\<rparr>"

definition settle_platform :: "int \<Rightarrow> int \<Rightarrow> platform_budget \<Rightarrow> platform_budget" where
  "settle_platform held settled b = b\<lparr>pb_reserved_micro := pb_reserved_micro b - held,
     pb_settled_micro := pb_settled_micro b + settled\<rparr>"

definition release_platform :: "int \<Rightarrow> platform_budget \<Rightarrow> platform_budget" where
  "release_platform held b = b\<lparr>pb_reserved_micro := pb_reserved_micro b - held\<rparr>"

definition update_windows :: "(usage_window \<Rightarrow> bool) \<Rightarrow> (usage_window \<Rightarrow> usage_window) \<Rightarrow> nat sop" where
  "update_windows p f = execute (\<lambda>s. row_count p (usage_windows s))
     (\<lambda>s. s\<lparr>usage_windows := update_where p f (usage_windows s)\<rparr>)"

definition update_periods :: "(usage_period \<Rightarrow> bool) \<Rightarrow> (usage_period \<Rightarrow> usage_period) \<Rightarrow> nat sop" where
  "update_periods p f = execute (\<lambda>s. row_count p (usage_periods s))
     (\<lambda>s. s\<lparr>usage_periods := update_where p f (usage_periods s)\<rparr>)"

definition update_platforms :: "(platform_budget \<Rightarrow> bool) \<Rightarrow> (platform_budget \<Rightarrow> platform_budget) \<Rightarrow> nat sop" where
  "update_platforms p f = execute (\<lambda>s. row_count p (platform_budgets s))
     (\<lambda>s. s\<lparr>platform_budgets := update_where p f (platform_budgets s)\<rparr>)"

definition update_reservations ::
  "(budget_reservation \<Rightarrow> bool) \<Rightarrow> (budget_reservation \<Rightarrow> budget_reservation) \<Rightarrow> nat sop" where
  "update_reservations p f = execute (\<lambda>s. row_count p (budget_reservations s))
     (\<lambda>s. s\<lparr>budget_reservations := update_where p f (budget_reservations s)\<rparr>)"

section \<open>Settlement\<close>

definition ledger_row :: "datetime \<Rightarrow> nat \<Rightarrow> string \<Rightarrow> provider_call \<Rightarrow> nat \<Rightarrow> cost_ledger" where
  "ledger_row now reservation_id attempt_id call i = \<lparr>cl_id = i, cl_reservation_id = reservation_id,
     cl_attempt_id = attempt_id @ '':'' @ pc_operation call, cl_provider = pc_provider call,
     cl_model_id = pc_model_id call, cl_cost_micro = pc_cost_micro call,
     cl_measurement = pc_measurement call, cl_rate_version = pc_rate_version call, cl_created_at = now\<rparr>"

definition local_ledger_row :: "datetime \<Rightarrow> nat \<Rightarrow> string \<Rightarrow> int option \<Rightarrow> nat \<Rightarrow> cost_ledger" where
  "local_ledger_row now reservation_id attempt_id actual_micro i = \<lparr>cl_id = i,
     cl_reservation_id = reservation_id, cl_attempt_id = attempt_id, cl_provider = ''local-fake'',
     cl_model_id = ''fake-economy'', cl_cost_micro = actual_micro,
     cl_measurement = (if actual_micro \<noteq> None then ''measured'' else ''unknown''),
     cl_rate_version = (if actual_micro \<noteq> None then Some ''synthetic-v1'' else None), cl_created_at = now\<rparr>"

definition add_cost_row :: "(nat \<Rightarrow> cost_ledger) \<Rightarrow> cost_ledger sop" where
  "add_cost_row mk = insert_row (\<lambda>_. False) mk (\<lambda>c s. s\<lparr>cost_ledger_rows := cost_ledger_rows s @ [c]\<rparr>)"

fun add_call_rows :: "datetime \<Rightarrow> nat \<Rightarrow> string \<Rightarrow> provider_call list \<Rightarrow> unit sop" where
  "add_call_rows now reservation_id attempt_id [] = ret ()"
| "add_call_rows now reservation_id attempt_id (call # calls) =
     andthen (add_cost_row (ledger_row now reservation_id attempt_id call)) (\<lambda>_.
     add_call_rows now reservation_id attempt_id calls)"

definition add_cost_rows ::
  "datetime \<Rightarrow> nat \<Rightarrow> string \<Rightarrow> int option \<Rightarrow> provider_call list \<Rightarrow> unit sop" where
  "add_cost_rows now reservation_id attempt_id actual_micro calls =
     (if calls \<noteq> [] then add_call_rows now reservation_id attempt_id calls
      else andthen (add_cost_row (local_ledger_row now reservation_id attempt_id actual_micro)) (\<lambda>_. ret ()))"

definition settle_budget ::
  "datetime \<Rightarrow> budget_reservation \<Rightarrow> string \<Rightarrow> int option \<Rightarrow> int option \<Rightarrow> provider_call list \<Rightarrow> budget_reservation sop"
where
  "settle_budget now reservation attempt_id actual_micro actual_tokens calls =
    (if br_status reservation \<noteq> RESERVED then ret reservation
     else
       let known = (actual_micro \<noteq> None);
           settled = (case actual_micro of None \<Rightarrow> br_reserved_micro reservation | Some a \<Rightarrow> a);
           settled_tokens = (case actual_tokens of None \<Rightarrow> br_reserved_tokens reservation | Some t \<Rightarrow> t);
           new_status = (if known then SETTLED else UNKNOWN)
       in
       andthen (update_reservations (\<lambda>r. br_id r = br_id reservation \<and> br_status r = RESERVED)
                 (\<lambda>r. r\<lparr>br_status := new_status, br_actual_micro := actual_micro\<rparr>)) (\<lambda>rowcount.
       if rowcount \<noteq> 1 then ret reservation
       else
       andthen (query (get_window (br_usage_window_id reservation))) (\<lambda>found.
       case found of None \<Rightarrow> raise (RuntimeError ''reservation window missing'') | Some window \<Rightarrow>
       andthen (update_windows (\<lambda>w. uw_id w = uw_id window)
                 (settle_window (br_reserved_micro reservation) (br_reserved_tokens reservation)
                    settled settled_tokens)) (\<lambda>_.
       andthen (update_platforms (\<lambda>b. pb_window_key b = uw_window_key window)
                 (settle_platform (br_reserved_micro reservation) settled)) (\<lambda>_.
       andthen (case br_usage_period_id reservation of
                  None \<Rightarrow> ret 0
                | Some pid \<Rightarrow> update_periods (\<lambda>p. up_id p = pid)
                               (settle_period (br_reserved_micro reservation) settled)) (\<lambda>_.
       andthen (add_cost_rows now (br_id reservation) attempt_id actual_micro calls) (\<lambda>_.
       ret (reservation\<lparr>br_actual_micro := actual_micro, br_status := new_status\<rparr>))))))))"

definition release_budget :: "budget_reservation \<Rightarrow> unit sop" where
  "release_budget reservation =
     andthen (update_reservations (\<lambda>r. br_id r = br_id reservation \<and> br_status r = RESERVED)
               (\<lambda>r. r\<lparr>br_status := RELEASED\<rparr>)) (\<lambda>rowcount.
     if rowcount \<noteq> 1 then ret ()
     else
     andthen (query (get_window (br_usage_window_id reservation))) (\<lambda>found.
     case found of None \<Rightarrow> raise (RuntimeError ''reservation window missing'') | Some window \<Rightarrow>
     andthen (update_windows (\<lambda>w. uw_id w = uw_id window)
               (release_window (br_reserved_micro reservation) (br_reserved_tokens reservation))) (\<lambda>_.
     andthen (update_platforms (\<lambda>b. pb_window_key b = uw_window_key window)
               (release_platform (br_reserved_micro reservation))) (\<lambda>_.
     andthen (case br_usage_period_id reservation of
                None \<Rightarrow> ret 0
              | Some pid \<Rightarrow> update_periods (\<lambda>p. up_id p = pid)
                             (release_period (br_reserved_micro reservation))) (\<lambda>_.
     ret ())))))"

section \<open>Reservation\<close>

definition RESERVATION_LEASE_SECONDS :: int where
  "RESERVATION_LEASE_SECONDS = 120"

definition reservation_is_live :: "budget_reservation \<Rightarrow> datetime \<Rightarrow> bool" where
  "reservation_is_live reservation now \<longleftrightarrow>
     stamp now - stamp (br_created_at reservation) < RESERVATION_LEASE_SECONDS * 1000000"

definition lease_expired_id :: "budget_reservation \<Rightarrow> string" where
  "lease_expired_id row = nat_str (br_id row) @ '':lease-expired''"

definition stale_candidates :: "string \<Rightarrow> db \<Rightarrow> budget_reservation list" where
  "stale_candidates window_key s =
     filter (\<lambda>r. (case get_window (br_usage_window_id r) s of None \<Rightarrow> False | Some w \<Rightarrow> uw_window_key w = window_key)
                \<and> br_status r = RESERVED) (budget_reservations s)"

fun reclaim_rows :: "datetime \<Rightarrow> budget_reservation list \<Rightarrow> nat sop" where
  "reclaim_rows now [] = ret 0"
| "reclaim_rows now (row # rows) =
     (if reservation_is_live row now then reclaim_rows now rows
      else andthen (settle_budget now row (lease_expired_id row) None None []) (\<lambda>_.
           andthen (reclaim_rows now rows) (\<lambda>reclaimed.
           ret (reclaimed + 1))))"

definition reclaim_stale_reservations :: "string \<Rightarrow> datetime \<Rightarrow> nat \<Rightarrow> nat sop" where
  "reclaim_stale_reservations window_key now limit =
     andthen (query (stale_candidates window_key)) (\<lambda>candidates. reclaim_rows now (take limit candidates))"

definition window_has_room :: "nat \<Rightarrow> int \<Rightarrow> int \<Rightarrow> usage_window \<Rightarrow> bool" where
  "window_has_room window_id amount_micro tokens w \<longleftrightarrow> uw_id w = window_id
     \<and> uw_reserved_micro w + uw_settled_micro w + amount_micro \<le> uw_spend_limit_micro w
     \<and> uw_everyday_used w < uw_everyday_limit w
     \<and> (if tokens > 0 then uw_tokens_reserved w + uw_tokens_settled w + tokens \<le> uw_token_limit w else True)"

definition period_has_room :: "nat \<Rightarrow> int \<Rightarrow> usage_period \<Rightarrow> bool" where
  "period_has_room period_id amount_micro p \<longleftrightarrow> up_id p = period_id
     \<and> up_reserved_micro p + up_settled_micro p + amount_micro \<le> up_spend_limit_micro p"

definition platform_has_room :: "string \<Rightarrow> int \<Rightarrow> platform_budget \<Rightarrow> bool" where
  "platform_has_room key amount_micro b \<longleftrightarrow> pb_window_key b = key
     \<and> pb_reserved_micro b + pb_settled_micro b + amount_micro \<le> pb_spend_limit_micro b"

definition deny_window :: "usage_window \<Rightarrow> int \<Rightarrow> 'a sop" where
  "deny_window window tokens =
     andthen (query (get_window (uw_id window))) (\<lambda>found.
     let w = (case found of Some x \<Rightarrow> x | None \<Rightarrow> window) in
     if tokens > 0 \<and> uw_tokens_reserved w + uw_tokens_settled w + tokens > uw_token_limit w
     then raise (BudgetDenied ''daily token quota exhausted'' (uw_reset_at w))
     else raise (BudgetDenied ''account allowance exhausted'' (uw_reset_at w)))"

text \<open>The last two guarded updates of \<open>_reserve_hold\<close>\<close>

definition hold_on_platform :: "usage_window \<Rightarrow> usage_period \<Rightarrow> int \<Rightarrow> (usage_window \<times> usage_period) sop" where
  "hold_on_platform window period amount_micro =
     andthen (update_platforms (platform_has_room (uw_window_key window) amount_micro)
               (hold_platform amount_micro)) (\<lambda>platform_rows.
     if platform_rows \<noteq> 1
     then raise (BudgetDenied ''platform spending is temporarily paused'' (uw_reset_at window))
     else ret (window, period))"

definition hold_on_period :: "usage_window \<Rightarrow> usage_period \<Rightarrow> int \<Rightarrow> (usage_window \<times> usage_period) sop" where
  "hold_on_period window period amount_micro =
     andthen (update_periods (period_has_room (up_id period) amount_micro) (hold_period amount_micro)) (\<lambda>period_rows.
     if period_rows \<noteq> 1 then raise (BudgetDenied ''account period budget exhausted'' (up_reset_at period))
     else hold_on_platform window period amount_micro)"

definition reserve_hold ::
  "nat \<Rightarrow> settings \<Rightarrow> int \<Rightarrow> int \<Rightarrow> datetime \<Rightarrow> (usage_window \<times> usage_period) sop" where
  "reserve_hold account_id settings amount_micro tokens now =
     andthen (ensure_usage_window now settings account_id) (\<lambda>window.
     andthen (reclaim_stale_reservations (uw_window_key window) now 100) (\<lambda>_.
     andthen (update_windows (window_has_room (uw_id window) amount_micro tokens)
               (hold_window amount_micro tokens)) (\<lambda>account_rows.
     if account_rows \<noteq> 1 then deny_window window tokens
     else
     andthen (policy_for now account_id) (\<lambda>(subscription, policy).
     andthen (ensure_usage_period now account_id policy (Some (su_period_anchor subscription))) (\<lambda>period.
     hold_on_period window period amount_micro)))))"

definition find_reservation :: "nat \<Rightarrow> string \<Rightarrow> string \<Rightarrow> db \<Rightarrow> budget_reservation option" where
  "find_reservation account_id logical_request_id stage s =
     select_first (\<lambda>r. br_account_id r = account_id \<and> br_logical_request_id r = logical_request_id
       \<and> br_stage r = stage) (budget_reservations s)"

definition get_reservation :: "nat \<Rightarrow> db \<Rightarrow> budget_reservation option" where
  "get_reservation i s = select_first (\<lambda>r. br_id r = i) (budget_reservations s)"

definition new_reservation ::
  "datetime \<Rightarrow> nat \<Rightarrow> string \<Rightarrow> string \<Rightarrow> int \<Rightarrow> int \<Rightarrow> nat \<Rightarrow> nat \<Rightarrow> nat \<Rightarrow> budget_reservation" where
  "new_reservation now account_id logical_request_id stage amount_micro tokens window_id period_id i =
     \<lparr>br_id = i, br_logical_request_id = logical_request_id, br_account_id = account_id,
      br_usage_window_id = window_id, br_usage_period_id = Some period_id, br_stage = stage,
      br_reserved_micro = amount_micro, br_actual_micro = None, br_reserved_tokens = tokens,
      br_status = RESERVED, br_created_at = now\<rparr>"

text \<open>The \<open>values(...)\<close> of the reactivation: \<open>created_at\<close> is not among them.\<close>

definition reactivate :: "int \<Rightarrow> int \<Rightarrow> nat \<Rightarrow> nat \<Rightarrow> budget_reservation \<Rightarrow> budget_reservation" where
  "reactivate amount_micro tokens window_id period_id r =
     r\<lparr>br_status := RESERVED, br_reserved_micro := amount_micro, br_reserved_tokens := tokens,
       br_usage_window_id := window_id, br_usage_period_id := Some period_id, br_actual_micro := None\<rparr>"

definition reserve_again ::
  "datetime \<Rightarrow> settings \<Rightarrow> nat \<Rightarrow> string \<Rightarrow> int \<Rightarrow> int \<Rightarrow> budget_reservation \<Rightarrow> budget_reservation sop" where
  "reserve_again now settings account_id logical_request_id amount_micro tokens existing =
     andthen (reserve_hold account_id settings amount_micro tokens now) (\<lambda>(window, period).
     andthen (update_reservations (\<lambda>r. br_id r = br_id existing \<and> br_status r \<noteq> RESERVED)
               (reactivate amount_micro tokens (uw_id window) (up_id period))) (\<lambda>rowcount.
     if rowcount \<noteq> 1 then raise (ReservationInFlight logical_request_id)
     else andthen (query (get_reservation (br_id existing))) (\<lambda>refreshed.
          case refreshed of Some r \<Rightarrow> ret r | None \<Rightarrow> raise (RuntimeError ''could not refresh instance''))))"

definition reserve_new ::
  "datetime \<Rightarrow> settings \<Rightarrow> nat \<Rightarrow> string \<Rightarrow> string \<Rightarrow> int \<Rightarrow> int \<Rightarrow> budget_reservation sop" where
  "reserve_new now settings account_id logical_request_id stage amount_micro tokens =
     andthen (reserve_hold account_id settings amount_micro tokens now) (\<lambda>(window, period).
     insert_row (\<lambda>s. find_reservation account_id logical_request_id stage s \<noteq> None)
       (new_reservation now account_id logical_request_id stage amount_micro tokens (uw_id window) (up_id period))
       (\<lambda>r s. s\<lparr>budget_reservations := budget_reservations s @ [r]\<rparr>))"

definition reserve_budget ::
  "datetime \<Rightarrow> settings \<Rightarrow> nat \<Rightarrow> string \<Rightarrow> string \<Rightarrow> int \<Rightarrow> int \<Rightarrow> budget_reservation sop" where
  "reserve_budget now settings account_id logical_request_id stage amount_micro tokens =
     (if amount_micro \<le> 0 then raise (ValueError ''reservation must be positive'')
      else
      andthen (query (find_reservation account_id logical_request_id stage)) (\<lambda>found.
      case found of
        None \<Rightarrow> reserve_new now settings account_id logical_request_id stage amount_micro tokens
      | Some existing \<Rightarrow>
          if br_status existing \<in> {SETTLED, UNKNOWN} then ret existing
          else if br_status existing = RESERVED then
            (if reservation_is_live existing now then raise (ReservationInFlight logical_request_id)
             else andthen (settle_budget now existing (lease_expired_id existing) None None []) (\<lambda>_.
                  reserve_again now settings account_id logical_request_id amount_micro tokens existing))
          else reserve_again now settings account_id logical_request_id amount_micro tokens existing))"

end
