(* ===== verification/Quota.thy ===== *)
theory Quota
  imports Budget
begin

text \<open>
  The contract of a counter row. A usage window (twice: money and tokens), a billing period and
  the platform budget are each a row with a limit, a reserved and a settled amount, which a hold,
  a settlement and a refund move. The locale \<open>quota\<close> states that contract; its lemmas say that
  the reserved column keeps tracking the holds it is owed by, and that the row stays within its
  limit. The four interpretations discharge it for the updates of \<open>services.py\<close>.
\<close>

section \<open>What a table of counters is owed\<close>

definition owed :: "('h \<Rightarrow> 'k) \<Rightarrow> ('h \<Rightarrow> int) \<Rightarrow> 'k \<Rightarrow> 'h list \<Rightarrow> int" where
  "owed owner amount k hs = col_sum (\<lambda>h. if owner h = k then amount h else 0) hs"

definition tracks ::
  "('r \<Rightarrow> 'k) \<Rightarrow> ('r \<Rightarrow> int) \<Rightarrow> ('h \<Rightarrow> 'k) \<Rightarrow> ('h \<Rightarrow> int) \<Rightarrow> 'r list \<Rightarrow> 'h list \<Rightarrow> bool" where
  "tracks key reserved owner amount rows hs \<longleftrightarrow>
     (\<forall>r \<in> set rows. reserved r = owed owner amount (key r) hs)"

text \<open>\<open>hs'\<close> holds what \<open>hs\<close> holds and \<open>h\<close>, in any order.\<close>

definition plus_hold :: "'h \<Rightarrow> 'h list \<Rightarrow> 'h list \<Rightarrow> bool" where
  "plus_hold h hs hs' \<longleftrightarrow> (\<forall>f. col_sum f hs' = col_sum f hs + f h)"

lemma owed_plus_hold:
  "plus_hold h hs hs' \<Longrightarrow> owed owner amount k hs' = owed owner amount k hs + (if owner h = k then amount h else 0)"
  by (simp add: owed_def plus_hold_def)

lemma plus_hold_snoc: "plus_hold h hs (hs @ [h])"
  by (simp add: plus_hold_def)

lemma owed_zero: "(\<And>h. h \<in> set hs \<Longrightarrow> owner h \<noteq> k) \<Longrightarrow> owed owner amount k hs = 0"
  unfolding owed_def by (rule col_sum_zero) auto

lemma owed_nonneg: "(\<And>h. h \<in> set hs \<Longrightarrow> 0 \<le> amount h) \<Longrightarrow> 0 \<le> owed owner amount k hs"
  unfolding owed_def by (rule col_sum_nonneg) auto

lemma owed_cong:
  "(\<And>h. h \<in> set hs \<Longrightarrow> owner h = owner' h) \<Longrightarrow> owed owner amount k hs = owed owner' amount k hs"
  unfolding owed_def by (rule col_sum_cong) auto

lemma tracks_cong:
  "(\<And>h. h \<in> set hs \<Longrightarrow> owner h = owner' h) \<Longrightarrow>
   tracks key reserved owner amount rows hs = tracks key reserved owner' amount rows hs"
  by (simp add: tracks_def owed_cong [of hs owner owner'])

lemma tracks_append_new:
  assumes "tracks key reserved owner amount rows hs" and "reserved r = 0"
    and "\<And>h. h \<in> set hs \<Longrightarrow> owner h \<noteq> key r"
  shows "tracks key reserved owner amount (rows @ [r]) hs"
  using assms by (simp add: tracks_def owed_zero)

text \<open>A guarded update that hit exactly one row hit the row with the key, whatever else its guard
  asked for.\<close>

lemma update_where_one:
  assumes "distinct (map key rows)" and "row_count p rows = 1" and "\<And>r. p r \<Longrightarrow> key r = k"
  shows "update_where p f rows = update_where (\<lambda>r. key r = k) f rows"
    and "\<exists>r \<in> set rows. p r \<and> key r = k"
proof -
  obtain r where r: "r \<in> set rows" "p r"
    using assms(2) by (metis row_count_pos zero_less_one)
  then show "\<exists>r \<in> set rows. p r \<and> key r = k" using assms(3) by blast
  have "p x \<longleftrightarrow> key x = k" if "x \<in> set rows" for x
    using key_unique [OF assms(1) that r(1)] r(2) assms(3) [OF r(2)] assms(3) [of x] by auto
  then show "update_where p f rows = update_where (\<lambda>r. key r = k) f rows"
    by (simp add: update_where_def)
qed

section \<open>The contract\<close>

locale quota =
  fixes key :: "'r \<Rightarrow> 'k"
    and limit :: "'r \<Rightarrow> int" and reserved :: "'r \<Rightarrow> int" and settled :: "'r \<Rightarrow> int"
    and hold :: "int \<Rightarrow> 'r \<Rightarrow> 'r" and settle :: "int \<Rightarrow> int \<Rightarrow> 'r \<Rightarrow> 'r"
    and release :: "int \<Rightarrow> 'r \<Rightarrow> 'r"
  assumes key_same: "key (hold a r) = key r" "key (settle a c r) = key r" "key (release a r) = key r"
    and limit_same: "limit (hold a r) = limit r" "limit (settle a c r) = limit r" "limit (release a r) = limit r"
    and reserved_moves: "reserved (hold a r) = reserved r + a" "reserved (settle a c r) = reserved r - a"
      "reserved (release a r) = reserved r - a"
    and settled_moves: "settled (hold a r) = settled r" "settled (settle a c r) = settled r + c"
      "settled (release a r) = settled r"
begin

lemma tracks_hold:
  assumes "tracks key reserved owner amount rows hs" and "plus_hold h hs hs'"
  shows "tracks key reserved owner amount (update_where (\<lambda>r. key r = owner h) (hold (amount h)) rows) hs'"
  using assms
  by (auto simp: tracks_def set_update_where owed_plus_hold key_same reserved_moves)

lemma tracks_settle:
  assumes "tracks key reserved owner amount rows hs" and "plus_hold h hs' hs"
  shows "tracks key reserved owner amount (update_where (\<lambda>r. key r = owner h) (settle (amount h) c) rows) hs'"
  using assms
  by (auto simp: tracks_def set_update_where owed_plus_hold key_same reserved_moves)

lemma tracks_release:
  assumes "tracks key reserved owner amount rows hs" and "plus_hold h hs' hs"
  shows "tracks key reserved owner amount (update_where (\<lambda>r. key r = owner h) (release (amount h)) rows) hs'"
  using assms
  by (auto simp: tracks_def set_update_where owed_plus_hold key_same reserved_moves)

lemma within_hold:
  assumes "\<forall>r \<in> set rows. reserved r + settled r \<le> limit r"
    and "\<And>r. r \<in> set rows \<Longrightarrow> p r \<Longrightarrow> reserved r + settled r + a \<le> limit r"
  shows "\<forall>r \<in> set (update_where p (hold a) rows). reserved r + settled r \<le> limit r"
  using assms by (auto simp: set_update_where limit_same reserved_moves settled_moves algebra_simps)

lemma within_settle:
  assumes "\<forall>r \<in> set rows. reserved r + settled r \<le> limit r" and "c \<le> a"
  shows "\<forall>r \<in> set (update_where p (settle a c) rows). reserved r + settled r \<le> limit r"
  using assms by (force simp: set_update_where limit_same reserved_moves settled_moves)

lemma within_release:
  assumes "\<forall>r \<in> set rows. reserved r + settled r \<le> limit r" and "0 \<le> a"
  shows "\<forall>r \<in> set (update_where p (release a) rows). reserved r + settled r \<le> limit r"
  using assms by (force simp: set_update_where limit_same reserved_moves settled_moves)

lemma release_undoes_hold:
  "reserved (release a (hold a r)) = reserved r" "settled (release a (hold a r)) = settled r"
  by (simp_all add: reserved_moves settled_moves)

end

interpretation wm: quota uw_id uw_spend_limit_micro uw_reserved_micro uw_settled_micro
  "\<lambda>a. hold_window a t" "\<lambda>a c. settle_window a t c ct" "\<lambda>a. release_window a t" for t ct
  by unfold_locales (simp_all add: hold_window_def settle_window_def release_window_def)

interpretation wt: quota uw_id uw_token_limit uw_tokens_reserved uw_tokens_settled
  "\<lambda>t. hold_window a t" "\<lambda>t ct. settle_window a t c ct" "\<lambda>t. release_window a t" for a c
  by unfold_locales (simp_all add: hold_window_def settle_window_def release_window_def)

interpretation pp: quota "\<lambda>p. Some (up_id p)" up_spend_limit_micro up_reserved_micro up_settled_micro
  hold_period settle_period release_period
  by unfold_locales (simp_all add: hold_period_def settle_period_def release_period_def)

interpretation pb: quota "\<lambda>b. Some (pb_window_key b)" pb_spend_limit_micro pb_reserved_micro
  pb_settled_micro hold_platform settle_platform release_platform
  by unfold_locales (simp_all add: hold_platform_def settle_platform_def release_platform_def)

end
