(* ===== verification/Ledger.thy ===== *)
theory Ledger
  imports Quota
begin

text \<open>
  The invariant of the budget ledger and its preservation by every operation of
  \<open>Budget\<close>. The abstract ledger is the list of live holds; a window, a period and a platform
  budget each owe the holds that name them.
\<close>

section \<open>Holds\<close>

datatype hold = Hold (h_window: nat) (h_period: "nat option") (h_micro: int) (h_tokens: int)

definition hold_of :: "budget_reservation \<Rightarrow> hold" where
  "hold_of r = Hold (br_usage_window_id r) (br_usage_period_id r) (br_reserved_micro r) (br_reserved_tokens r)"

definition live_holds :: "db \<Rightarrow> hold list" where
  "live_holds s = map hold_of (filter (\<lambda>r. br_status r = RESERVED) (budget_reservations s))"

definition window_keys :: "db \<Rightarrow> nat \<Rightarrow> string option" where
  "window_keys s = map_of (map (\<lambda>w. (uw_id w, uw_window_key w)) (usage_windows s))"

definition platform_of :: "db \<Rightarrow> hold \<Rightarrow> string option" where
  "platform_of s h = window_keys s (h_window h)"

lemma hold_of_simps [simp]:
  "h_window (hold_of r) = br_usage_window_id r" "h_period (hold_of r) = br_usage_period_id r"
  "h_micro (hold_of r) = br_reserved_micro r" "h_tokens (hold_of r) = br_reserved_tokens r"
  by (simp_all add: hold_of_def)

lemma window_keys_get_window: "window_keys s i = map_option uw_window_key (get_window i s)"
proof -
  have "map_of (map (\<lambda>w. (uw_id w, uw_window_key w)) rows) i
      = map_option uw_window_key (select_first (\<lambda>w. uw_id w = i) rows)" for rows
    by (induction rows) auto
  then show ?thesis by (simp add: window_keys_def get_window_def)
qed

lemma window_keys_update [simp]:
  "window_keys (s\<lparr>next_id := n\<rparr>) = window_keys s"
  "window_keys (s\<lparr>usage_periods := ps\<rparr>) = window_keys s"
  "window_keys (s\<lparr>platform_budgets := bs\<rparr>) = window_keys s"
  "window_keys (s\<lparr>budget_reservations := rs\<rparr>) = window_keys s"
  "window_keys (s\<lparr>cost_ledger_rows := cs\<rparr>) = window_keys s"
  by (simp_all add: window_keys_def)

lemma platform_of_update [simp]:
  "platform_of (s\<lparr>next_id := n\<rparr>) = platform_of s"
  "platform_of (s\<lparr>usage_periods := ps\<rparr>) = platform_of s"
  "platform_of (s\<lparr>platform_budgets := bs\<rparr>) = platform_of s"
  "platform_of (s\<lparr>budget_reservations := rs\<rparr>) = platform_of s"
  "platform_of (s\<lparr>cost_ledger_rows := cs\<rparr>) = platform_of s"
  by (simp_all add: platform_of_def fun_eq_iff)

lemma window_keys_update_where [simp]:
  "(\<And>w. uw_id (f w) = uw_id w) \<Longrightarrow> (\<And>w. uw_window_key (f w) = uw_window_key w) \<Longrightarrow>
   window_keys (s\<lparr>usage_windows := update_where p f (usage_windows s)\<rparr>) = window_keys s"
  by (simp add: window_keys_def map_update_where)

lemma platform_of_update_where [simp]:
  "(\<And>w. uw_id (f w) = uw_id w) \<Longrightarrow> (\<And>w. uw_window_key (f w) = uw_window_key w) \<Longrightarrow>
   platform_of (s\<lparr>usage_windows := update_where p f (usage_windows s)\<rparr>) = platform_of s"
  by (simp add: platform_of_def fun_eq_iff)

lemma live_holds_update [simp]:
  "live_holds (s\<lparr>next_id := n\<rparr>) = live_holds s"
  "live_holds (s\<lparr>usage_windows := ws\<rparr>) = live_holds s"
  "live_holds (s\<lparr>usage_periods := ps\<rparr>) = live_holds s"
  "live_holds (s\<lparr>platform_budgets := bs\<rparr>) = live_holds s"
  "live_holds (s\<lparr>cost_ledger_rows := cs\<rparr>) = live_holds s"
  by (simp_all add: live_holds_def)

lemma col_sum_live_holds:
  "col_sum f (live_holds s) = col_sum (\<lambda>r. if br_status r = RESERVED then f (hold_of r) else 0) (budget_reservations s)"
proof -
  have "col_sum f (map hold_of (filter (\<lambda>r. br_status r = RESERVED) rows))
      = col_sum (\<lambda>r. if br_status r = RESERVED then f (hold_of r) else 0) rows" for rows
    by (induction rows) auto
  then show ?thesis by (simp add: live_holds_def)
qed

section \<open>The invariant\<close>

text \<open>\<open>strict\<close> asks for the limits too: they hold as long as no settlement charges more than was
  held.\<close>

definition ledger_wf :: "db \<Rightarrow> bool" where
  "ledger_wf s \<longleftrightarrow> distinct (map uw_id (usage_windows s)) \<and> distinct (map up_id (usage_periods s))
     \<and> distinct (map pb_window_key (platform_budgets s)) \<and> distinct (map br_id (budget_reservations s))
     \<and> (\<forall>w \<in> set (usage_windows s). uw_id w < next_id s)
     \<and> (\<forall>p \<in> set (usage_periods s). up_id p < next_id s)
     \<and> (\<forall>r \<in> set (budget_reservations s). br_id r < next_id s)
     \<and> (\<forall>r \<in> set (budget_reservations s). 0 < br_reserved_micro r \<and> 0 \<le> br_reserved_tokens r)"

definition windows_ok :: "bool \<Rightarrow> db \<Rightarrow> hold list \<Rightarrow> bool" where
  "windows_ok strict s hs \<longleftrightarrow>
     tracks uw_id uw_reserved_micro h_window h_micro (usage_windows s) hs
   \<and> tracks uw_id uw_tokens_reserved h_window h_tokens (usage_windows s) hs
   \<and> (\<forall>w \<in> set (usage_windows s). owed h_window (\<lambda>_. 1) (uw_id w) hs \<le> uw_everyday_used w
        \<and> uw_everyday_used w \<le> uw_everyday_limit w)
   \<and> (\<forall>h \<in> set hs. window_keys s (h_window h) \<noteq> None)
   \<and> (strict \<longrightarrow> (\<forall>w \<in> set (usage_windows s). uw_reserved_micro w + uw_settled_micro w \<le> uw_spend_limit_micro w)
              \<and> (\<forall>w \<in> set (usage_windows s). uw_tokens_reserved w + uw_tokens_settled w \<le> uw_token_limit w))"

definition periods_ok :: "bool \<Rightarrow> db \<Rightarrow> hold list \<Rightarrow> bool" where
  "periods_ok strict s hs \<longleftrightarrow>
     tracks (\<lambda>p. Some (up_id p)) up_reserved_micro h_period h_micro (usage_periods s) hs
   \<and> (\<forall>h \<in> set hs. \<exists>p \<in> set (usage_periods s). h_period h = Some (up_id p))
   \<and> (strict \<longrightarrow> (\<forall>p \<in> set (usage_periods s). up_reserved_micro p + up_settled_micro p \<le> up_spend_limit_micro p))"

definition platforms_ok :: "bool \<Rightarrow> db \<Rightarrow> hold list \<Rightarrow> bool" where
  "platforms_ok strict s hs \<longleftrightarrow>
     tracks (\<lambda>b. Some (pb_window_key b)) pb_reserved_micro (platform_of s) h_micro (platform_budgets s) hs
   \<and> (\<forall>h \<in> set hs. \<exists>b \<in> set (platform_budgets s). platform_of s h = Some (pb_window_key b))
   \<and> (strict \<longrightarrow> (\<forall>b \<in> set (platform_budgets s). pb_reserved_micro b + pb_settled_micro b \<le> pb_spend_limit_micro b))"

definition ledger_inv :: "bool \<Rightarrow> db \<Rightarrow> hold list \<Rightarrow> hold list \<Rightarrow> hold list \<Rightarrow> bool" where
  "ledger_inv strict s hw hp hb \<longleftrightarrow>
     ledger_wf s \<and> windows_ok strict s hw \<and> periods_ok strict s hp \<and> platforms_ok strict s hb"

definition ledger_ok :: "bool \<Rightarrow> db \<Rightarrow> bool" where
  "ledger_ok strict s \<longleftrightarrow> ledger_inv strict s (live_holds s) (live_holds s) (live_holds s)"

text \<open>A change that leaves the four tables of the ledger alone\<close>

definition same_ledger :: "db \<Rightarrow> db \<Rightarrow> bool" where
  "same_ledger s t \<longleftrightarrow> usage_windows t = usage_windows s \<and> usage_periods t = usage_periods s
     \<and> platform_budgets t = platform_budgets s \<and> budget_reservations t = budget_reservations s
     \<and> next_id s \<le> next_id t"

lemma same_ledger_refl [simp]: "same_ledger s s"
  by (simp add: same_ledger_def)

lemma same_ledger_trans: "same_ledger s t \<Longrightarrow> same_ledger t u \<Longrightarrow> same_ledger s u"
  by (simp add: same_ledger_def)

lemma same_ledger_holds: "same_ledger s t \<Longrightarrow> live_holds t = live_holds s"
  by (simp add: same_ledger_def live_holds_def)

lemma same_ledger_keys: "same_ledger s t \<Longrightarrow> window_keys t = window_keys s"
  by (simp add: same_ledger_def window_keys_def)

lemma ledger_inv_frame:
  assumes "same_ledger s t" and "ledger_inv strict s hw hp hb"
  shows "ledger_inv strict t hw hp hb"
proof -
  have "window_keys t = window_keys s" by (rule same_ledger_keys [OF assms(1)])
  moreover have "platform_of t = platform_of s"
    using calculation by (simp add: platform_of_def fun_eq_iff)
  ultimately show ?thesis using assms
    by (auto simp: same_ledger_def ledger_inv_def ledger_wf_def windows_ok_def periods_ok_def platforms_ok_def
        intro: less_le_trans)
qed

lemma ledger_ok_frame: "same_ledger s t \<Longrightarrow> ledger_ok strict s \<Longrightarrow> ledger_ok strict t"
  by (simp add: ledger_ok_def same_ledger_holds ledger_inv_frame)

section \<open>Creating rows\<close>

lemma wp_policy_for:
  "wp (policy_for now a) (\<lambda>v t. same_ledger s t \<and> snd v = plan_policy (Some (fst v))) s"
  by (auto simp: policy_for_def same_ledger_def intro!: wp_intros split: option.splits)

lemma window_keys_append:
  assumes "uw_id w = next_id s" and "ledger_wf s"
  shows "window_keys (s\<lparr>usage_windows := usage_windows s @ [w], next_id := n\<rparr>) i
       = (if i = uw_id w then Some (uw_window_key w) else window_keys s i)"
proof -
  have "map_of (map (\<lambda>w. (uw_id w, uw_window_key w)) (usage_windows s)) (uw_id w) = None"
    using assms by (auto simp: map_of_eq_None_iff ledger_wf_def)
  then show ?thesis by (simp add: window_keys_def map_add_def split: option.splits)
qed

lemma ledger_inv_new_window:
  assumes inv: "ledger_inv strict s hw hp hb" and "uw_id w = next_id s"
    and zero: "uw_reserved_micro w = 0" "uw_settled_micro w = 0" "uw_tokens_reserved w = 0"
      "uw_tokens_settled w = 0" "uw_everyday_used w = 0"
    and limits: "0 \<le> uw_everyday_limit w" "0 \<le> uw_spend_limit_micro w" "0 \<le> uw_token_limit w"
  shows "ledger_inv strict (s\<lparr>usage_windows := usage_windows s @ [w], next_id := Suc (next_id s)\<rparr>) hw hp hb"
    (is "ledger_inv strict ?t hw hp hb")
proof -
  have wf: "ledger_wf s" using inv by (simp add: ledger_inv_def)
  have fresh: "window_keys s (uw_id w) = None"
    using wf assms(2) by (auto simp: window_keys_def map_of_eq_None_iff ledger_wf_def)
  have keys: "window_keys ?t i = (if i = uw_id w then Some (uw_window_key w) else window_keys s i)" for i
    using window_keys_append [OF assms(2) wf] by simp
  have notin: "h_window h \<noteq> uw_id w" if "h \<in> set hw" for h
    using inv that fresh by (auto simp: ledger_inv_def windows_ok_def)
  have notin_b: "h_window h \<noteq> uw_id w" if "h \<in> set hb" for h
    using inv that fresh by (auto simp: ledger_inv_def platforms_ok_def platform_of_def)
  have "ledger_wf ?t" using wf assms(2) by (auto simp: ledger_wf_def less_Suc_eq)
  moreover have "windows_ok strict ?t hw"
    using inv notin zero limits keys
    by (auto simp: ledger_inv_def windows_ok_def intro!: tracks_append_new) (simp_all add: owed_zero)
  moreover have "periods_ok strict ?t hp" using inv by (simp add: ledger_inv_def periods_ok_def)
  moreover have "platforms_ok strict ?t hb"
  proof -
    have same: "platform_of ?t h = platform_of s h" if "h \<in> set hb" for h
      using notin_b [OF that] keys by (simp add: platform_of_def)
    then show ?thesis using inv
        tracks_cong [of hb "platform_of ?t" "platform_of s" "\<lambda>b. Some (pb_window_key b)"
          pb_reserved_micro h_micro "platform_budgets s"]
      by (simp add: ledger_inv_def platforms_ok_def)
  qed
  ultimately show ?thesis by (simp add: ledger_inv_def)
qed

lemma ledger_inv_new_period:
  assumes inv: "ledger_inv strict s hw hp hb" and "up_id p = next_id s"
    and "up_reserved_micro p = 0" "up_settled_micro p = 0" "0 \<le> up_spend_limit_micro p"
  shows "ledger_inv strict (s\<lparr>usage_periods := usage_periods s @ [p], next_id := Suc (next_id s)\<rparr>) hw hp hb"
proof -
  have "h_period h \<noteq> Some (up_id p)" if "h \<in> set hp" for h
    using inv that assms(2) by (fastforce simp: ledger_inv_def periods_ok_def ledger_wf_def)
  then show ?thesis using assms
    by (auto simp: ledger_inv_def ledger_wf_def windows_ok_def periods_ok_def platforms_ok_def
        less_Suc_eq intro!: tracks_append_new)
qed

lemma ledger_inv_new_platform:
  assumes inv: "ledger_inv strict s hw hp hb"
    and fresh: "\<forall>c \<in> set (platform_budgets s). pb_window_key c \<noteq> pb_window_key b"
    and "pb_reserved_micro b = 0" "pb_settled_micro b = 0" "0 \<le> pb_spend_limit_micro b"
  shows "ledger_inv strict (s\<lparr>platform_budgets := platform_budgets s @ [b], next_id := Suc (next_id s)\<rparr>) hw hp hb"
    (is "ledger_inv strict ?t hw hp hb")
proof -
  have "platform_of s h \<noteq> Some (pb_window_key b)" if "h \<in> set hb" for h
    using inv that fresh by (fastforce simp: ledger_inv_def platforms_ok_def)
  moreover have "pb_window_key b \<notin> pb_window_key ` set (platform_budgets s)" using fresh by auto
  ultimately show ?thesis using assms
    by (auto simp: ledger_inv_def ledger_wf_def windows_ok_def periods_ok_def platforms_ok_def
        less_Suc_eq intro!: tracks_append_new)
qed

end
