(* ===== verification/Ledger_Moves.thy ===== *)
theory Ledger_Moves
  imports Ledger
begin

text \<open>
  How a hold, a settlement and a refund move each counter table: the table's part of the ledger
  invariant goes from one list of holds to the list with the hold added or taken away. The other
  tables keep theirs.
\<close>

section \<open>Taking a hold\<close>

lemma windows_ok_period_irrelevant:
  "windows_ok strict s (hs @ [Hold w p a t]) \<longleftrightarrow> windows_ok strict s (hs @ [Hold w p' a t])"
  by (simp add: windows_ok_def tracks_def owed_def)

lemma window_key_some: "r \<in> set (usage_windows s) \<Longrightarrow> window_keys s (uw_id r) \<noteq> None"
  by (simp add: window_keys_def map_of_eq_None_iff image_image)

lemma image_update_where:
  "(\<And>r. p r \<Longrightarrow> k (f r) = k r) \<Longrightarrow> k ` set (update_where p f rows) = k ` set rows"
  by (metis list.set_map map_update_where)

lemma ledger_inv_hold_window:
  assumes inv: "ledger_inv strict s hw hp hb" and t: "0 \<le> t"
    and one: "row_count (window_has_room wid a t) (usage_windows s) = 1"
  shows "ledger_inv strict
    (s\<lparr>usage_windows := update_where (window_has_room wid a t) (hold_window a t) (usage_windows s)\<rparr>)
    (hw @ [Hold wid p a t]) hp hb" (is "ledger_inv strict ?t ?hw hp hb")
proof -
  let ?p = "window_has_room wid a t" and ?h = "Hold wid p a t" and ?rows = "usage_windows s"
  have d: "distinct (map uw_id ?rows)" using inv by (simp add: ledger_inv_def ledger_wf_def)
  note room = window_has_room_def
  have hit: "update_where ?p (hold_window a t) ?rows = update_where (\<lambda>r. uw_id r = wid) (hold_window a t) ?rows"
    by (rule update_where_one(1) [OF d one]) (simp add: room)
  obtain r where r: "r \<in> set ?rows" "uw_id r = wid" "?p r"
    using update_where_one(2) [OF d one, of wid] by (auto simp: room)
  have ok: "windows_ok strict s hw" using inv by (simp add: ledger_inv_def)
  have w1: "tracks uw_id uw_reserved_micro h_window h_micro (usage_windows ?t) ?hw"
    using wm.tracks_hold [of h_window h_micro ?rows hw ?h ?hw t] ok hit
    by (simp add: windows_ok_def plus_hold_snoc)
  have w2: "tracks uw_id uw_tokens_reserved h_window h_tokens (usage_windows ?t) ?hw"
    using wt.tracks_hold [of h_window h_tokens ?rows hw ?h ?hw a] ok hit
    by (simp add: windows_ok_def plus_hold_snoc)
  have slots: "\<forall>w \<in> set (usage_windows ?t). owed h_window (\<lambda>_. 1) (uw_id w) ?hw \<le> uw_everyday_used w
        \<and> uw_everyday_used w \<le> uw_everyday_limit w"
  proof
    fix w assume "w \<in> set (usage_windows ?t)"
    then obtain x where x: "x \<in> set ?rows" "w = (if ?p x then hold_window a t x else x)"
      by (auto simp: set_update_where)
    have px: "?p x \<longleftrightarrow> uw_id x = wid"
      using r(3) key_unique [OF d x(1) r(1)] r(2) by (metis room)
    have "owed h_window (\<lambda>_. 1) (uw_id x) hw \<le> uw_everyday_used x \<and> uw_everyday_used x \<le> uw_everyday_limit x"
      using ok x(1) by (simp add: windows_ok_def)
    then show "owed h_window (\<lambda>_. 1) (uw_id w) ?hw \<le> uw_everyday_used w \<and> uw_everyday_used w \<le> uw_everyday_limit w"
      using x(2) px by (cases "?p x") (simp_all add: owed_plus_hold [OF plus_hold_snoc] hold_window_def room)
  qed
  have keys: "window_keys ?t = window_keys s"
    by (rule window_keys_update_where) (simp_all add: hold_window_def)
  have within: "strict \<longrightarrow>
      (\<forall>w \<in> set (usage_windows ?t). uw_reserved_micro w + uw_settled_micro w \<le> uw_spend_limit_micro w)
    \<and> (\<forall>w \<in> set (usage_windows ?t). uw_tokens_reserved w + uw_tokens_settled w \<le> uw_token_limit w)"
  proof (intro impI conjI)
    assume strict
    show "\<forall>w \<in> set (usage_windows ?t). uw_reserved_micro w + uw_settled_micro w \<le> uw_spend_limit_micro w"
      using wm.within_hold [of ?rows ?p a t] ok \<open>strict\<close> by (simp add: windows_ok_def room)
    have "uw_tokens_reserved w + uw_tokens_settled w + t \<le> uw_token_limit w" if "w \<in> set ?rows" "?p w" for w
      using that ok \<open>strict\<close> t by (cases "t = 0") (auto simp: windows_ok_def room)
    then show "\<forall>w \<in> set (usage_windows ?t). uw_tokens_reserved w + uw_tokens_settled w \<le> uw_token_limit w"
      using wt.within_hold [of ?rows ?p t a] ok \<open>strict\<close> by (simp add: windows_ok_def)
  qed
  have known: "\<forall>h \<in> set ?hw. window_keys ?t (h_window h) \<noteq> None"
    using ok r window_key_some [of r s] by (auto simp: keys windows_ok_def)
  have "windows_ok strict ?t ?hw"
    unfolding windows_ok_def using w1 w2 slots within known by simp
  moreover have "ledger_wf ?t"
    using inv by (auto simp: ledger_inv_def ledger_wf_def set_update_where hold_window_def)
  moreover have "platform_of ?t = platform_of s" by (simp add: platform_of_def fun_eq_iff keys)
  ultimately show ?thesis
    using inv by (simp add: ledger_inv_def periods_ok_def platforms_ok_def)
qed

lemma ledger_inv_hold_period:
  assumes inv: "ledger_inv strict s hw hp hb"
    and one: "row_count (period_has_room pid a) (usage_periods s) = 1"
  shows "ledger_inv strict
    (s\<lparr>usage_periods := update_where (period_has_room pid a) (hold_period a) (usage_periods s)\<rparr>)
    hw (hp @ [Hold wid (Some pid) a t]) hb" (is "ledger_inv strict ?t hw ?hp hb")
proof -
  let ?p = "period_has_room pid a" and ?h = "Hold wid (Some pid) a t" and ?rows = "usage_periods s"
  have d: "distinct (map up_id ?rows)" using inv by (simp add: ledger_inv_def ledger_wf_def)
  note room = period_has_room_def
  have hit: "update_where ?p (hold_period a) ?rows = update_where (\<lambda>r. Some (up_id r) = h_period ?h) (hold_period a) ?rows"
    using update_where_one(1) [OF d one, of pid] by (simp add: room)
  obtain r where r: "r \<in> set ?rows" "up_id r = pid"
    using update_where_one(2) [OF d one, of pid] by (auto simp: room)
  have ok: "periods_ok strict s hp" using inv by (simp add: ledger_inv_def)
  have "tracks (\<lambda>p. Some (up_id p)) up_reserved_micro h_period h_micro (usage_periods ?t) ?hp"
    using pp.tracks_hold [of h_period h_micro ?rows hp ?h ?hp] ok hit
    by (simp add: periods_ok_def plus_hold_snoc)
  moreover have "strict \<longrightarrow> (\<forall>p \<in> set (usage_periods ?t). up_reserved_micro p + up_settled_micro p \<le> up_spend_limit_micro p)"
    using pp.within_hold [of ?rows ?p a] ok by (simp add: periods_ok_def room)
  moreover have "\<exists>q \<in> set (usage_periods ?t). h_period h = Some (up_id q)" if "h \<in> set ?hp" for h
  proof -
    have ids: "up_id ` set (usage_periods ?t) = up_id ` set ?rows"
      by (simp add: image_update_where hold_period_def)
    have "\<exists>i \<in> up_id ` set ?rows. h_period h = Some i" using that ok r by (auto simp: periods_ok_def)
    from this [folded ids] show ?thesis by blast
  qed
  ultimately have "periods_ok strict ?t ?hp" by (simp add: periods_ok_def)
  moreover have "ledger_wf ?t"
    using inv by (auto simp: ledger_inv_def ledger_wf_def set_update_where hold_period_def)
  ultimately show ?thesis using inv by (simp add: ledger_inv_def windows_ok_def platforms_ok_def)
qed

lemma ledger_inv_hold_platform:
  assumes inv: "ledger_inv strict s hw hp hb"
    and one: "row_count (platform_has_room key a) (platform_budgets s) = 1"
    and key: "window_keys s wid = Some key"
  shows "ledger_inv strict
    (s\<lparr>platform_budgets := update_where (platform_has_room key a) (hold_platform a) (platform_budgets s)\<rparr>)
    hw hp (hb @ [Hold wid p a t])" (is "ledger_inv strict ?t hw hp ?hb")
proof -
  let ?p = "platform_has_room key a" and ?h = "Hold wid p a t" and ?rows = "platform_budgets s"
  have d: "distinct (map pb_window_key ?rows)" using inv by (simp add: ledger_inv_def ledger_wf_def)
  note room = platform_has_room_def
  have owner: "platform_of s ?h = Some key" by (simp add: platform_of_def key)
  have hit: "update_where ?p (hold_platform a) ?rows
      = update_where (\<lambda>r. Some (pb_window_key r) = platform_of s ?h) (hold_platform a) ?rows"
    using update_where_one(1) [OF d one, of key] by (simp add: room owner)
  obtain r where r: "r \<in> set ?rows" "pb_window_key r = key"
    using update_where_one(2) [OF d one, of key] by (auto simp: room)
  have ok: "platforms_ok strict s hb" using inv by (simp add: ledger_inv_def)
  have "tracks (\<lambda>b. Some (pb_window_key b)) pb_reserved_micro (platform_of s) h_micro (platform_budgets ?t) ?hb"
    using pb.tracks_hold [of "platform_of s" h_micro ?rows hb ?h ?hb] ok hit
    by (simp add: platforms_ok_def plus_hold_snoc)
  moreover have "strict \<longrightarrow> (\<forall>b \<in> set (platform_budgets ?t). pb_reserved_micro b + pb_settled_micro b \<le> pb_spend_limit_micro b)"
    using pb.within_hold [of ?rows ?p a] ok by (simp add: platforms_ok_def room)
  moreover have "\<exists>b \<in> set (platform_budgets ?t). platform_of s h = Some (pb_window_key b)" if "h \<in> set ?hb" for h
  proof -
    have ids: "pb_window_key ` set (platform_budgets ?t) = pb_window_key ` set ?rows"
      by (simp add: image_update_where hold_platform_def)
    have "\<exists>i \<in> pb_window_key ` set ?rows. platform_of s h = Some i"
      using that ok r owner by (auto simp: platforms_ok_def)
    from this [folded ids] show ?thesis by blast
  qed
  ultimately have "platforms_ok strict ?t ?hb" by (simp add: platforms_ok_def)
  moreover have "ledger_wf ?t"
    using inv by (auto simp: ledger_inv_def ledger_wf_def set_update_where hold_platform_def)
  ultimately show ?thesis using inv by (simp add: ledger_inv_def windows_ok_def periods_ok_def)
qed

section \<open>Giving a hold up\<close>

text \<open>A hold ends in a settlement, which charges \<open>c\<close> (and \<open>ct\<close> tokens), or in a refund.\<close>

lemma ledger_inv_unhold_window:
  assumes inv: "ledger_inv strict s hw hp hb" and plus: "plus_hold h hw' hw" and sub: "set hw' \<subseteq> set hw"
    and f: "f = settle_window (h_micro h) (h_tokens h) c ct \<and> (strict \<longrightarrow> c \<le> h_micro h \<and> ct \<le> h_tokens h)
       \<or> f = release_window (h_micro h) (h_tokens h) \<and> 0 \<le> h_micro h \<and> 0 \<le> h_tokens h"
  shows "ledger_inv strict
    (s\<lparr>usage_windows := update_where (\<lambda>w. uw_id w = h_window h) f (usage_windows s)\<rparr>) hw' hp hb"
    (is "ledger_inv strict ?t hw' hp hb")
proof -
  let ?rows = "usage_windows s"
  have same: "uw_id (f w) = uw_id w" "uw_window_key (f w) = uw_window_key w"
    "uw_everyday_limit (f w) = uw_everyday_limit w" "uw_everyday_used w - 1 \<le> uw_everyday_used (f w)"
    "uw_everyday_used (f w) \<le> uw_everyday_used w" for w
    using f by (auto simp: settle_window_def release_window_def)
  have ok: "windows_ok strict s hw" using inv by (simp add: ledger_inv_def)
  have "tracks uw_id uw_reserved_micro h_window h_micro (usage_windows ?t) hw'"
    using f wm.tracks_settle [OF _ plus, of h_window h_micro ?rows "h_tokens h" c ct]
      wm.tracks_release [OF _ plus, of h_window h_micro ?rows "h_tokens h"] ok
    by (auto simp: windows_ok_def)
  moreover have "tracks uw_id uw_tokens_reserved h_window h_tokens (usage_windows ?t) hw'"
    using f wt.tracks_settle [OF _ plus, of h_window h_tokens ?rows "h_micro h" c ct]
      wt.tracks_release [OF _ plus, of h_window h_tokens ?rows "h_micro h"] ok
    by (auto simp: windows_ok_def)
  moreover have "owed h_window (\<lambda>_. 1) (uw_id w) hw' \<le> uw_everyday_used w \<and> uw_everyday_used w \<le> uw_everyday_limit w"
    if w: "w \<in> set (usage_windows ?t)" for w
  proof -
    obtain x where x: "x \<in> set ?rows" "w = (if uw_id x = h_window h then f x else x)"
      using w by (auto simp: set_update_where)
    have "owed h_window (\<lambda>_. 1) (uw_id x) hw \<le> uw_everyday_used x \<and> uw_everyday_used x \<le> uw_everyday_limit x"
      using ok x(1) by (simp add: windows_ok_def)
    then show ?thesis
      using x(2) same [of x] owed_plus_hold [OF plus, of h_window "\<lambda>_. 1" "uw_id x"]
      by (cases "uw_id x = h_window h") auto
  qed
  moreover have "strict \<longrightarrow>
      (\<forall>w \<in> set (usage_windows ?t). uw_reserved_micro w + uw_settled_micro w \<le> uw_spend_limit_micro w)
    \<and> (\<forall>w \<in> set (usage_windows ?t). uw_tokens_reserved w + uw_tokens_settled w \<le> uw_token_limit w)"
  proof
    assume strict
    then have "\<forall>w \<in> set ?rows. uw_reserved_micro w + uw_settled_micro w \<le> uw_spend_limit_micro w"
      and "\<forall>w \<in> set ?rows. uw_tokens_reserved w + uw_tokens_settled w \<le> uw_token_limit w"
      using ok by (simp_all add: windows_ok_def)
    note keep = wm.within_settle [OF this(1), of c "h_micro h" _ "h_tokens h" ct]
      wm.within_release [OF this(1), of "h_micro h" _ "h_tokens h"]
      wt.within_settle [OF this(2), of ct "h_tokens h" _ "h_micro h" c]
      wt.within_release [OF this(2), of "h_tokens h" _ "h_micro h"]
    show "(\<forall>w \<in> set (usage_windows ?t). uw_reserved_micro w + uw_settled_micro w \<le> uw_spend_limit_micro w)
    \<and> (\<forall>w \<in> set (usage_windows ?t). uw_tokens_reserved w + uw_tokens_settled w \<le> uw_token_limit w)"
      using f \<open>strict\<close> by (elim disjE) (simp_all add: keep)
  qed
  moreover have keys: "window_keys ?t = window_keys s" by (rule window_keys_update_where) (simp_all add: same)
  ultimately have "windows_ok strict ?t hw'"
    unfolding windows_ok_def using ok sub by (auto simp: windows_ok_def)
  moreover have "ledger_wf ?t"
    using inv by (auto simp: ledger_inv_def ledger_wf_def set_update_where same)
  moreover have "platform_of ?t = platform_of s" by (simp add: platform_of_def fun_eq_iff keys)
  ultimately show ?thesis
    using inv by (simp add: ledger_inv_def periods_ok_def platforms_ok_def)
qed

lemma ledger_inv_unhold_period:
  assumes inv: "ledger_inv strict s hw hp hb" and plus: "plus_hold h hp' hp" and sub: "set hp' \<subseteq> set hp"
    and f: "f = settle_period (h_micro h) c \<and> (strict \<longrightarrow> c \<le> h_micro h) \<or> f = release_period (h_micro h) \<and> 0 \<le> h_micro h"
  shows "ledger_inv strict
    (s\<lparr>usage_periods := update_where (\<lambda>p. Some (up_id p) = h_period h) f (usage_periods s)\<rparr>) hw hp' hb"
    (is "ledger_inv strict ?t hw hp' hb")
proof -
  let ?rows = "usage_periods s"
  have same: "up_id (f p) = up_id p" for p using f by (auto simp: settle_period_def release_period_def)
  have ok: "periods_ok strict s hp" using inv by (simp add: ledger_inv_def)
  have "tracks (\<lambda>p. Some (up_id p)) up_reserved_micro h_period h_micro (usage_periods ?t) hp'"
    using f pp.tracks_settle [OF _ plus, of h_period h_micro ?rows c]
      pp.tracks_release [OF _ plus, of h_period h_micro ?rows] ok
    by (auto simp: periods_ok_def)
  moreover have "strict \<longrightarrow> (\<forall>p \<in> set (usage_periods ?t). up_reserved_micro p + up_settled_micro p \<le> up_spend_limit_micro p)"
  proof
    assume strict
    then have "\<forall>p \<in> set ?rows. up_reserved_micro p + up_settled_micro p \<le> up_spend_limit_micro p"
      using ok by (simp add: periods_ok_def)
    note keep = pp.within_settle [OF this, of c "h_micro h"] pp.within_release [OF this, of "h_micro h"]
    show "\<forall>p \<in> set (usage_periods ?t). up_reserved_micro p + up_settled_micro p \<le> up_spend_limit_micro p"
      using f \<open>strict\<close> by (elim disjE) (simp_all add: keep)
  qed
  moreover have "\<exists>q \<in> set (usage_periods ?t). h_period h = Some (up_id q)" if "h \<in> set hp'" for h
  proof -
    have ids: "up_id ` set (usage_periods ?t) = up_id ` set ?rows"
      by (simp add: image_update_where same)
    have "\<exists>i \<in> up_id ` set ?rows. h_period h = Some i" using that ok sub by (auto simp: periods_ok_def)
    from this [folded ids] show ?thesis by blast
  qed
  ultimately have "periods_ok strict ?t hp'" by (simp add: periods_ok_def)
  moreover have "ledger_wf ?t"
    using inv by (auto simp: ledger_inv_def ledger_wf_def set_update_where same)
  ultimately show ?thesis using inv by (simp add: ledger_inv_def windows_ok_def platforms_ok_def)
qed

lemma ledger_inv_unhold_platform:
  assumes inv: "ledger_inv strict s hw hp hb" and plus: "plus_hold h hb' hb" and sub: "set hb' \<subseteq> set hb"
    and key: "window_keys s (h_window h) = Some key"
    and f: "f = settle_platform (h_micro h) c \<and> (strict \<longrightarrow> c \<le> h_micro h) \<or> f = release_platform (h_micro h) \<and> 0 \<le> h_micro h"
  shows "ledger_inv strict
    (s\<lparr>platform_budgets := update_where (\<lambda>b. pb_window_key b = key) f (platform_budgets s)\<rparr>) hw hp hb'"
    (is "ledger_inv strict ?t hw hp hb'")
proof -
  let ?rows = "platform_budgets s"
  have same: "pb_window_key (f b) = pb_window_key b" for b
    using f by (auto simp: settle_platform_def release_platform_def)
  have ok: "platforms_ok strict s hb" using inv by (simp add: ledger_inv_def)
  have owner: "platform_of s h = Some key" by (simp add: platform_of_def key)
  have "tracks (\<lambda>b. Some (pb_window_key b)) pb_reserved_micro (platform_of s) h_micro (platform_budgets ?t) hb'"
    using f pb.tracks_settle [OF _ plus, of "platform_of s" h_micro ?rows c]
      pb.tracks_release [OF _ plus, of "platform_of s" h_micro ?rows] ok
    by (auto simp: platforms_ok_def owner)
  moreover have "strict \<longrightarrow> (\<forall>b \<in> set (platform_budgets ?t). pb_reserved_micro b + pb_settled_micro b \<le> pb_spend_limit_micro b)"
  proof
    assume strict
    then have "\<forall>b \<in> set ?rows. pb_reserved_micro b + pb_settled_micro b \<le> pb_spend_limit_micro b"
      using ok by (simp add: platforms_ok_def)
    note keep = pb.within_settle [OF this, of c "h_micro h"] pb.within_release [OF this, of "h_micro h"]
    show "\<forall>b \<in> set (platform_budgets ?t). pb_reserved_micro b + pb_settled_micro b \<le> pb_spend_limit_micro b"
      using f \<open>strict\<close> by (elim disjE) (simp_all add: keep)
  qed
  moreover have "\<exists>b \<in> set (platform_budgets ?t). platform_of s h = Some (pb_window_key b)" if "h \<in> set hb'" for h
  proof -
    have ids: "pb_window_key ` set (platform_budgets ?t) = pb_window_key ` set ?rows"
      by (simp add: image_update_where same)
    have "\<exists>i \<in> pb_window_key ` set ?rows. platform_of s h = Some i"
      using that ok sub by (auto simp: platforms_ok_def)
    from this [folded ids] show ?thesis by blast
  qed
  ultimately have "platforms_ok strict ?t hb'" by (simp add: platforms_ok_def)
  moreover have "ledger_wf ?t"
    using inv by (auto simp: ledger_inv_def ledger_wf_def set_update_where same)
  ultimately show ?thesis using inv by (simp add: ledger_inv_def windows_ok_def periods_ok_def)
qed

end
