(* ===== verification/Ledger_Settle.thy ===== *)
theory Ledger_Settle
  imports Ledger_Moves
begin

text \<open>
  Settlement and refund of a reservation: what the two operations do to the database when their
  guarded claim wins and when it loses, and that both preserve the ledger invariant as long as
  the caller's row agrees with the stored one (\<open>agrees\<close>).
\<close>

section \<open>Claiming a reservation\<close>

definition claimable :: "budget_reservation \<Rightarrow> budget_reservation \<Rightarrow> bool" where
  "claimable reservation r \<longleftrightarrow> br_id r = br_id reservation \<and> br_status r = RESERVED"

text \<open>The caller's in-memory row is not stale: a live stored row with its identifier has its hold.\<close>

definition agrees :: "db \<Rightarrow> budget_reservation \<Rightarrow> bool" where
  "agrees s reservation \<longleftrightarrow>
     (\<forall>r \<in> set (budget_reservations s). claimable reservation r \<longrightarrow> hold_of r = hold_of reservation)"

definition claim_effect :: "budget_reservation \<Rightarrow> (budget_reservation \<Rightarrow> budget_reservation) \<Rightarrow> db \<Rightarrow> db" where
  "claim_effect reservation f s =
     s\<lparr>budget_reservations := update_where (claimable reservation) f (budget_reservations s)\<rparr>"

definition counters_effect ::
  "budget_reservation \<Rightarrow> string \<Rightarrow> (usage_window \<Rightarrow> usage_window) \<Rightarrow> (platform_budget \<Rightarrow> platform_budget)
   \<Rightarrow> (usage_period \<Rightarrow> usage_period) \<Rightarrow> db \<Rightarrow> db" where
  "counters_effect r key fw fb fp s =
     s\<lparr>usage_windows := update_where (\<lambda>w. uw_id w = br_usage_window_id r) fw (usage_windows s),
       platform_budgets := update_where (\<lambda>b. pb_window_key b = key) fb (platform_budgets s),
       usage_periods := update_where (\<lambda>p. Some (up_id p) = br_usage_period_id r) fp (usage_periods s)\<rparr>"

definition release_effect :: "budget_reservation \<Rightarrow> string \<Rightarrow> db \<Rightarrow> db" where
  "release_effect r key s =
     counters_effect r key (release_window (br_reserved_micro r) (br_reserved_tokens r))
       (release_platform (br_reserved_micro r)) (release_period (br_reserved_micro r))
       (claim_effect r (\<lambda>x. x\<lparr>br_status := RELEASED\<rparr>) s)"

definition settle_effect ::
  "budget_reservation \<Rightarrow> string \<Rightarrow> int \<Rightarrow> int \<Rightarrow> reservation_status \<Rightarrow> int option \<Rightarrow> db \<Rightarrow> db" where
  "settle_effect r key settled settled_tokens new_status actual s =
     counters_effect r key (settle_window (br_reserved_micro r) (br_reserved_tokens r) settled settled_tokens)
       (settle_platform (br_reserved_micro r) settled) (settle_period (br_reserved_micro r) settled)
       (claim_effect r (\<lambda>x. x\<lparr>br_status := new_status, br_actual_micro := actual\<rparr>) s)"

lemma update_where_none [simp]: "update_where (\<lambda>x. False) f xs = xs"
  by (simp add: update_where_id)

lemma counters_effect_None:
  "br_usage_period_id r = None \<Longrightarrow> counters_effect r key fw fb fp s =
     s\<lparr>usage_windows := update_where (\<lambda>w. uw_id w = br_usage_window_id r) fw (usage_windows s),
       platform_budgets := update_where (\<lambda>b. pb_window_key b = key) fb (platform_budgets s)\<rparr>"
  by (simp add: counters_effect_def)

lemma get_window_update [simp]:
  "get_window i (s\<lparr>budget_reservations := rs\<rparr>) = get_window i s"
  by (simp add: get_window_def)

lemma get_window_id: "get_window i s = Some w \<Longrightarrow> uw_id w = i \<and> w \<in> set (usage_windows s)"
  by (auto simp: get_window_def dest: select_first_Some)

lemma claim_lost:
  "row_count (claimable r) (budget_reservations s) \<noteq> 1 \<Longrightarrow> distinct (map br_id (budget_reservations s)) \<Longrightarrow>
   claim_effect r f s = s"
proof -
  assume "row_count (claimable r) (budget_reservations s) \<noteq> 1" and d: "distinct (map br_id (budget_reservations s))"
  moreover have "row_count (claimable r) (budget_reservations s) \<le> 1"
    by (rule row_count_le_1 [OF d]) (simp add: claimable_def)
  ultimately have "row_count (claimable r) (budget_reservations s) = 0" by linarith
  then show ?thesis by (simp add: claim_effect_def row_count_0 update_where_id)
qed

lemma claim_reservations:
  "update_reservations (\<lambda>x. br_id x = br_id r \<and> br_status x = RESERVED) f s
     = Ok (row_count (claimable r) (budget_reservations s)) (claim_effect r f s)"
  by (simp add: update_reservations_def claim_effect_def claimable_def [abs_def])

lemma add_call_rows_Ok:
  "\<exists>rows. add_call_rows now i aid calls s
     = Ok () (s\<lparr>cost_ledger_rows := cost_ledger_rows s @ rows, next_id := next_id s + length calls\<rparr>)
   \<and> map cl_cost_micro rows = map pc_cost_micro calls \<and> map cl_provider rows = map pc_provider calls
   \<and> (\<forall>c \<in> set rows. cl_reservation_id c = i)"
proof (induction calls arbitrary: s)
  case Nil
  show ?case by (intro exI [of _ "[]"]) (simp add: ret_def)
next
  case (Cons call calls)
  let ?c = "ledger_row now i aid call (next_id s)"
  let ?s = "s\<lparr>cost_ledger_rows := cost_ledger_rows s @ [?c], next_id := Suc (next_id s)\<rparr>"
  obtain rows where "add_call_rows now i aid calls ?s
      = Ok () (?s\<lparr>cost_ledger_rows := cost_ledger_rows ?s @ rows, next_id := next_id ?s + length calls\<rparr>)"
    and "map cl_cost_micro rows = map pc_cost_micro calls" "map cl_provider rows = map pc_provider calls"
    and "\<forall>c \<in> set rows. cl_reservation_id c = i"
    using Cons.IH [of ?s] by blast
  then show ?case
    by (intro exI [of _ "?c # rows"]) (simp add: andthen_def add_cost_row_def insert_row_def ledger_row_def)
qed

text \<open>The cost rows one settlement writes: the provider calls', or the local route's one row.\<close>

definition cost_rows_for :: "nat \<Rightarrow> int option \<Rightarrow> provider_call list \<Rightarrow> cost_ledger list \<Rightarrow> bool" where
  "cost_rows_for i actual calls rows \<longleftrightarrow>
     map cl_cost_micro rows = (if calls = [] then [actual] else map pc_cost_micro calls)
   \<and> (\<forall>c \<in> set rows. cl_reservation_id c = i)"

definition settled_micro_of :: "budget_reservation \<Rightarrow> int option \<Rightarrow> int" where
  "settled_micro_of r actual = (case actual of None \<Rightarrow> br_reserved_micro r | Some a \<Rightarrow> a)"

definition settled_tokens_of :: "budget_reservation \<Rightarrow> int option \<Rightarrow> int" where
  "settled_tokens_of r tokens = (case tokens of None \<Rightarrow> br_reserved_tokens r | Some t \<Rightarrow> t)"

definition settled_status :: "int option \<Rightarrow> reservation_status" where
  "settled_status actual = (if actual \<noteq> None then SETTLED else UNKNOWN)"

lemma cost_rows_Ok:
  "\<exists>rows n. add_cost_rows now i aid actual calls s
     = Ok () (s\<lparr>cost_ledger_rows := cost_ledger_rows s @ rows, next_id := n\<rparr>)
   \<and> next_id s < n \<and> cost_rows_for i actual calls rows"
proof (cases "calls = []")
  case True
  then show ?thesis
    by (intro exI [of _ "[local_ledger_row now i aid actual (next_id s)]"] exI [of _ "Suc (next_id s)"])
       (simp add: andthen_def add_cost_row_def insert_row_def ret_def cost_rows_for_def local_ledger_row_def
         add_cost_rows_def)
next
  case False
  obtain rows where "add_call_rows now i aid calls s
      = Ok () (s\<lparr>cost_ledger_rows := cost_ledger_rows s @ rows, next_id := next_id s + length calls\<rparr>)"
    and "map cl_cost_micro rows = map pc_cost_micro calls" "\<forall>c \<in> set rows. cl_reservation_id c = i"
    using add_call_rows_Ok [of now i aid calls s] by blast
  then show ?thesis using False
    by (intro exI [of _ rows] exI [of _ "next_id s + length calls"]) (simp add: cost_rows_for_def add_cost_rows_def)
qed

lemma settle_budget_won:
  assumes "br_status r = RESERVED" and "row_count (claimable r) (budget_reservations s) = 1"
    and w: "get_window (br_usage_window_id r) s = Some w"
  shows "\<exists>rows n. settle_budget now r aid actual tokens calls s
     = Ok (r\<lparr>br_actual_micro := actual, br_status := settled_status actual\<rparr>)
         ((settle_effect r (uw_window_key w) (settled_micro_of r actual) (settled_tokens_of r tokens)
             (settled_status actual) actual s)
          \<lparr>cost_ledger_rows := cost_ledger_rows s @ rows, next_id := n\<rparr>)
     \<and> next_id s < n \<and> cost_rows_for (br_id r) actual calls rows"
proof -
  let ?t = "settle_effect r (uw_window_key w) (settled_micro_of r actual) (settled_tokens_of r tokens)
             (settled_status actual) actual s"
  have "cost_ledger_rows ?t = cost_ledger_rows s" "next_id ?t = next_id s"
    by (simp_all add: settle_effect_def counters_effect_def claim_effect_def)
  then obtain rows n where *: "add_cost_rows now (br_id r) aid actual calls ?t
     = Ok () (?t\<lparr>cost_ledger_rows := cost_ledger_rows s @ rows, next_id := n\<rparr>)"
    and "next_id s < n" "cost_rows_for (br_id r) actual calls rows"
    using cost_rows_Ok [of now "br_id r" aid actual calls ?t] by auto
  have [simp]: "get_window (br_usage_window_id r) (claim_effect r f s) = Some w" for f
    by (simp add: claim_effect_def w)
  have "settle_budget now r aid actual tokens calls s
     = Ok (r\<lparr>br_actual_micro := actual, br_status := settled_status actual\<rparr>)
         (?t\<lparr>cost_ledger_rows := cost_ledger_rows s @ rows, next_id := n\<rparr>)"
    using assms * get_window_id [OF w]
    by (cases "br_usage_period_id r")
       (simp_all add: settle_budget_def Let_def andthen_def claim_reservations update_windows_def
        update_platforms_def update_periods_def ret_def settle_effect_def counters_effect_None
        counters_effect_def settled_micro_of_def settled_tokens_of_def settled_status_def)
  then show ?thesis using \<open>next_id s < n\<close> \<open>cost_rows_for _ _ _ _\<close> by blast
qed

lemma settle_budget_lost:
  assumes "distinct (map br_id (budget_reservations s))"
    and "br_status r \<noteq> RESERVED \<or> row_count (claimable r) (budget_reservations s) \<noteq> 1"
  shows "settle_budget now r aid actual tokens calls s = Ok r s"
  using assms claim_lost [OF _ assms(1)]
  by (auto simp: settle_budget_def Let_def andthen_def claim_reservations ret_def)

lemma release_budget_won:
  assumes "row_count (claimable r) (budget_reservations s) = 1"
    and w: "get_window (br_usage_window_id r) s = Some w"
  shows "release_budget r s = Ok () (release_effect r (uw_window_key w) s)"
proof -
  have [simp]: "get_window (br_usage_window_id r) (claim_effect r f s) = Some w" for f
    by (simp add: claim_effect_def w)
  show ?thesis
    using assms get_window_id [OF w]
    by (cases "br_usage_period_id r")
       (simp_all add: release_budget_def Let_def andthen_def claim_reservations update_windows_def
        update_platforms_def update_periods_def ret_def release_effect_def counters_effect_None
        counters_effect_def)
qed

lemma release_budget_lost:
  assumes "distinct (map br_id (budget_reservations s))"
    and "row_count (claimable r) (budget_reservations s) \<noteq> 1"
  shows "release_budget r s = Ok () s"
  using assms claim_lost [OF _ assms(1)]
  by (auto simp: release_budget_def andthen_def claim_reservations ret_def)

section \<open>Preservation\<close>

lemma set_live_holds:
  "set (live_holds s) = hold_of ` {r \<in> set (budget_reservations s). br_status r = RESERVED}"
  by (auto simp: live_holds_def)

lemma claim_holds:
  assumes wf: "ledger_wf s" and x: "x \<in> set (budget_reservations s)" "claimable r x"
    and f: "\<And>y. br_id (f y) = br_id y" "\<And>y. br_status (f y) \<noteq> RESERVED"
  shows "plus_hold (hold_of x) (live_holds (claim_effect r f s)) (live_holds s)"
    and "set (live_holds (claim_effect r f s)) \<subseteq> set (live_holds s)"
proof -
  let ?rows = "budget_reservations s"
  have d: "distinct (map br_id ?rows)" using wf by (simp add: ledger_wf_def)
  have "row_count (claimable r) ?rows = 1"
    using row_count_key [OF d, of "claimable r" "br_id r" "\<lambda>y. br_status y = RESERVED" x] x
    by (simp add: claimable_def)
  then have upd: "update_where (claimable r) f ?rows = update_where (\<lambda>y. br_id y = br_id x) f ?rows"
    using update_where_one(1) [OF d, of "claimable r" "br_id x" f] x(2) by (simp add: claimable_def)
  show "plus_hold (hold_of x) (live_holds (claim_effect r f s)) (live_holds s)"
    unfolding plus_hold_def
  proof
    fix g :: "hold \<Rightarrow> int"
    let ?g = "\<lambda>y. if br_status y = RESERVED then g (hold_of y) else 0"
    have "col_sum ?g (update_where (\<lambda>y. br_id y = br_id x) f ?rows) = col_sum ?g ?rows - ?g x + ?g (f x)"
      by (rule col_sum_update_key [OF d x(1)])
    then show "col_sum g (live_holds s) = col_sum g (live_holds (claim_effect r f s)) + g (hold_of x)"
      using x(2) f(2) by (simp add: col_sum_live_holds claim_effect_def upd claimable_def)
  qed
  show "set (live_holds (claim_effect r f s)) \<subseteq> set (live_holds s)"
    using f(2) by (auto simp: set_live_holds claim_effect_def set_update_where)
qed

text \<open>A settlement or a refund of the three counters together: the functions of one outcome.\<close>

definition outcome_of_hold ::
  "bool \<Rightarrow> hold \<Rightarrow> (usage_window \<Rightarrow> usage_window) \<Rightarrow> (platform_budget \<Rightarrow> platform_budget) \<Rightarrow> (usage_period \<Rightarrow> usage_period) \<Rightarrow> bool"
where
  "outcome_of_hold strict h fw fb fp \<longleftrightarrow>
     (\<exists>c ct. fw = settle_window (h_micro h) (h_tokens h) c ct \<and> fb = settle_platform (h_micro h) c
        \<and> fp = settle_period (h_micro h) c \<and> (strict \<longrightarrow> c \<le> h_micro h \<and> ct \<le> h_tokens h))
   \<or> fw = release_window (h_micro h) (h_tokens h) \<and> fb = release_platform (h_micro h)
        \<and> fp = release_period (h_micro h)"

lemma ledger_inv_claim:
  assumes "ledger_inv strict s hw hp hb"
    and f: "\<And>y. br_id (f y) = br_id y" "\<And>y. br_reserved_micro (f y) = br_reserved_micro y"
      "\<And>y. br_reserved_tokens (f y) = br_reserved_tokens y"
  shows "ledger_inv strict (claim_effect r f s) hw hp hb"
  using assms(1)
  by (auto simp: ledger_inv_def ledger_wf_def windows_ok_def periods_ok_def platforms_ok_def
      claim_effect_def set_update_where f)

lemma ledger_ok_outcome:
  assumes ok: "ledger_ok strict s" and "agrees s r"
    and one: "row_count (claimable r) (budget_reservations s) = 1"
    and key: "window_keys s (br_usage_window_id r) = Some key"
    and f: "\<And>y. br_id (f y) = br_id y" "\<And>y. br_status (f y) \<noteq> RESERVED"
      "\<And>y. br_reserved_micro (f y) = br_reserved_micro y" "\<And>y. br_reserved_tokens (f y) = br_reserved_tokens y"
    and out: "outcome_of_hold strict (hold_of r) fw fb fp"
  shows "ledger_ok strict (counters_effect r key fw fb fp (claim_effect r f s))"
proof -
  let ?h = "hold_of r" and ?t = "claim_effect r f s"
  let ?hs = "live_holds s" and ?hs' = "live_holds ?t"
  have inv: "ledger_inv strict s ?hs ?hs ?hs" using ok by (simp add: ledger_ok_def)
  then have wf: "ledger_wf s" by (simp add: ledger_inv_def)
  obtain x where x: "x \<in> set (budget_reservations s)" "claimable r x"
    using one by (metis row_count_pos zero_less_one)
  have hx: "hold_of x = ?h" using \<open>agrees s r\<close> x by (simp add: agrees_def)
  have nonneg: "0 \<le> h_micro ?h" "0 \<le> h_tokens ?h"
    using wf x(1) hx [symmetric] by (auto simp: ledger_wf_def)
  have plus: "plus_hold ?h ?hs' ?hs" and sub: "set ?hs' \<subseteq> set ?hs"
    using claim_holds [OF wf x f(1,2)] by (simp_all add: hx)
  have keys: "window_keys ?t = window_keys s" by (simp add: claim_effect_def)
  have fw: "\<exists>c ct. fw = settle_window (h_micro ?h) (h_tokens ?h) c ct \<and> (strict \<longrightarrow> c \<le> h_micro ?h \<and> ct \<le> h_tokens ?h)
       \<or> fw = release_window (h_micro ?h) (h_tokens ?h) \<and> 0 \<le> h_micro ?h \<and> 0 \<le> h_tokens ?h"
    and fb: "\<exists>c. fb = settle_platform (h_micro ?h) c \<and> (strict \<longrightarrow> c \<le> h_micro ?h) \<or> fb = release_platform (h_micro ?h) \<and> 0 \<le> h_micro ?h"
    and fp: "\<exists>c. fp = settle_period (h_micro ?h) c \<and> (strict \<longrightarrow> c \<le> h_micro ?h) \<or> fp = release_period (h_micro ?h) \<and> 0 \<le> h_micro ?h"
    using out nonneg unfolding outcome_of_hold_def by blast+
  have fw_keys: "uw_id (fw w) = uw_id w" "uw_window_key (fw w) = uw_window_key w" for w
    using fw by (auto simp: settle_window_def release_window_def)
  let ?t1 = "?t\<lparr>usage_windows := update_where (\<lambda>w. uw_id w = h_window ?h) fw (usage_windows ?t)\<rparr>"
  let ?t2 = "?t1\<lparr>platform_budgets := update_where (\<lambda>b. pb_window_key b = key) fb (platform_budgets ?t1)\<rparr>"
  let ?t3 = "?t2\<lparr>usage_periods := update_where (\<lambda>p. Some (up_id p) = h_period ?h) fp (usage_periods ?t2)\<rparr>"
  have "ledger_inv strict ?t ?hs ?hs ?hs" by (rule ledger_inv_claim [OF inv f(1,3,4)])
  then have 1: "ledger_inv strict ?t1 ?hs' ?hs ?hs"
    using ledger_inv_unhold_window [OF _ plus sub] fw by blast
  have "window_keys ?t1 = window_keys s"
    using keys window_keys_update_where [of fw _ ?t] fw_keys by simp
  then have 2: "ledger_inv strict ?t2 ?hs' ?hs ?hs'"
    using ledger_inv_unhold_platform [OF 1 plus sub] fb key by auto
  have 3: "ledger_inv strict ?t3 ?hs' ?hs' ?hs'"
    using ledger_inv_unhold_period [OF 2 plus sub] fp by blast
  moreover have "?t3 = counters_effect r key fw fb fp ?t" by (simp add: counters_effect_def)
  moreover have "live_holds ?t3 = ?hs'" by simp
  ultimately show ?thesis by (simp add: ledger_ok_def)
qed

lemma live_window:
  assumes "ledger_ok strict s" and "agrees s r" and "row_count (claimable r) (budget_reservations s) = 1"
  obtains w where "get_window (br_usage_window_id r) s = Some w"
    and "window_keys s (br_usage_window_id r) = Some (uw_window_key w)"
proof -
  obtain x where "x \<in> set (budget_reservations s)" "claimable r x"
    using assms(3) by (metis row_count_pos zero_less_one)
  then have "hold_of r \<in> set (live_holds s)"
    using assms(2) unfolding agrees_def set_live_holds claimable_def by (metis (mono_tags, lifting) imageI mem_Collect_eq)
  then have "window_keys s (br_usage_window_id r) \<noteq> None"
    using assms(1) by (force simp: ledger_ok_def ledger_inv_def windows_ok_def)
  then show thesis using that by (auto simp: window_keys_get_window)
qed

text \<open>The total correctness of a settlement: it returns, it keeps the invariant, and it changes
  nothing but its own reservation, the counters and the cost ledger.\<close>

lemma ledger_ok_settle:
  assumes ok: "ledger_ok strict s" and "agrees s r"
    and bounded: "strict \<longrightarrow> settled_micro_of r actual \<le> br_reserved_micro r
       \<and> settled_tokens_of r tokens \<le> br_reserved_tokens r"
  shows "\<exists>v t. settle_budget now r aid actual tokens calls s = Ok v t \<and> ledger_ok strict t
     \<and> window_keys t = window_keys s \<and> next_id s \<le> next_id t
     \<and> pb_window_key ` set (platform_budgets t) = pb_window_key ` set (platform_budgets s)
     \<and> (\<forall>x \<in> set (budget_reservations s). br_id x \<noteq> br_id r \<longrightarrow> x \<in> set (budget_reservations t))
     \<and> (br_status r = RESERVED \<longrightarrow> (\<forall>x \<in> set (budget_reservations t). br_id x = br_id r \<longrightarrow> br_status x \<noteq> RESERVED))
     \<and> map br_id (budget_reservations t) = map br_id (budget_reservations s)"
proof -
  have d: "distinct (map br_id (budget_reservations s))"
    using ok by (simp add: ledger_ok_def ledger_inv_def ledger_wf_def)
  show ?thesis
  proof (cases "br_status r = RESERVED \<and> row_count (claimable r) (budget_reservations s) = 1")
    case True
    obtain w where w: "get_window (br_usage_window_id r) s = Some w"
      and key: "window_keys s (br_usage_window_id r) = Some (uw_window_key w)"
      using live_window [OF ok \<open>agrees s r\<close>] True by blast
    let ?c = "settled_micro_of r actual" and ?ct = "settled_tokens_of r tokens"
    let ?t = "settle_effect r (uw_window_key w) ?c ?ct (settled_status actual) actual s"
    obtain rows n where run: "settle_budget now r aid actual tokens calls s
        = Ok (r\<lparr>br_actual_micro := actual, br_status := settled_status actual\<rparr>)
            (?t\<lparr>cost_ledger_rows := cost_ledger_rows s @ rows, next_id := n\<rparr>)" and n: "next_id s < n"
      using settle_budget_won [OF _ _ w] True by blast
    let ?t' = "?t\<lparr>cost_ledger_rows := cost_ledger_rows s @ rows, next_id := n\<rparr>"
    have out: "outcome_of_hold strict (hold_of r) (settle_window (br_reserved_micro r) (br_reserved_tokens r) ?c ?ct)
        (settle_platform (br_reserved_micro r) ?c) (settle_period (br_reserved_micro r) ?c)"
      using bounded by (auto simp: outcome_of_hold_def)
    have "ledger_ok strict ?t"
      unfolding settle_effect_def
      by (rule ledger_ok_outcome [OF ok \<open>agrees s r\<close> _ key _ _ _ _ out])
         (use True in \<open>simp_all add: settled_status_def\<close>)
    moreover have "same_ledger ?t ?t'"
      using n by (simp add: same_ledger_def settle_effect_def counters_effect_def claim_effect_def)
    ultimately have "ledger_ok strict ?t'" by (rule ledger_ok_frame [rotated])
    moreover have "window_keys ?t' = window_keys s"
      by (simp add: settle_effect_def counters_effect_def claim_effect_def window_keys_def settle_window_def)
    moreover have "pb_window_key ` set (platform_budgets ?t') = pb_window_key ` set (platform_budgets s)"
      by (simp add: settle_effect_def counters_effect_def claim_effect_def image_update_where settle_platform_def)
    moreover have "map br_id (budget_reservations ?t') = map br_id (budget_reservations s)"
      by (simp add: settle_effect_def counters_effect_def claim_effect_def)
    moreover have "\<forall>x \<in> set (budget_reservations s). br_id x \<noteq> br_id r \<longrightarrow> x \<in> set (budget_reservations ?t')"
      by (force simp: settle_effect_def counters_effect_def claim_effect_def set_update_where claimable_def)
    moreover have "\<forall>x \<in> set (budget_reservations ?t'). br_id x = br_id r \<longrightarrow> br_status x \<noteq> RESERVED"
      by (auto simp: settle_effect_def counters_effect_def claim_effect_def set_update_where claimable_def
          settled_status_def)
    ultimately show ?thesis using run n by auto
  next
    case False
    have "\<forall>x \<in> set (budget_reservations s). br_id x = br_id r \<longrightarrow> br_status x \<noteq> RESERVED" if "br_status r = RESERVED"
    proof -
      have "row_count (claimable r) (budget_reservations s) \<le> 1"
        by (rule row_count_le_1 [OF d]) (simp add: claimable_def)
      then have "row_count (claimable r) (budget_reservations s) = 0" using False that by linarith
      then show ?thesis by (auto simp: row_count_0 claimable_def)
    qed
    then show ?thesis
      using settle_budget_lost [OF d, of r now aid actual tokens calls] False ok by auto
  qed
qed

lemma ledger_ok_release:
  assumes ok: "ledger_ok strict s" and "agrees s r"
  shows "\<exists>t. release_budget r s = Ok () t \<and> ledger_ok strict t \<and> next_id t = next_id s"
proof -
  have d: "distinct (map br_id (budget_reservations s))"
    using ok by (simp add: ledger_ok_def ledger_inv_def ledger_wf_def)
  show ?thesis
  proof (cases "row_count (claimable r) (budget_reservations s) = 1")
    case True
    obtain w where w: "get_window (br_usage_window_id r) s = Some w"
      and key: "window_keys s (br_usage_window_id r) = Some (uw_window_key w)"
      using live_window [OF ok \<open>agrees s r\<close> True] by blast
    have "outcome_of_hold strict (hold_of r) (release_window (br_reserved_micro r) (br_reserved_tokens r))
        (release_platform (br_reserved_micro r)) (release_period (br_reserved_micro r))"
      by (simp add: outcome_of_hold_def)
    then have "ledger_ok strict (release_effect r (uw_window_key w) s)"
      unfolding release_effect_def
      by (intro ledger_ok_outcome [OF ok \<open>agrees s r\<close> True key]) simp_all
    then show ?thesis
      using release_budget_won [OF True w]
      by (simp add: release_effect_def counters_effect_def claim_effect_def)
  next
    case False
    then show ?thesis using release_budget_lost [OF d False] ok by simp
  qed
qed

section \<open>A claimed reservation stays claimed\<close>

lemma settled_status_final [simp]: "settled_status actual \<noteq> RESERVED"
  by (simp add: settled_status_def)

lemma settle_budget_claims:
  assumes "distinct (map br_id (budget_reservations s))" and "br_status r = RESERVED"
    and "settle_budget now r aid actual tokens calls s = Ok v t"
  shows "row_count (claimable r) (budget_reservations t) = 0"
proof (cases "row_count (claimable r) (budget_reservations s) = 1")
  case True
  then obtain w where w: "get_window (br_usage_window_id r) s = Some w"
    using assms(2,3) by (cases "get_window (br_usage_window_id r) s")
      (simp_all add: settle_budget_def Let_def andthen_def claim_reservations claim_effect_def raise_def)
  show ?thesis
    using settle_budget_won [OF assms(2) True w, of now aid actual tokens calls] assms(3)
    by (auto simp: row_count_0 settle_effect_def counters_effect_def claim_effect_def set_update_where
        claimable_def)
next
  case False
  have "row_count (claimable r) (budget_reservations s) \<le> 1"
    by (rule row_count_le_1 [OF assms(1)]) (simp add: claimable_def)
  then show ?thesis
    using settle_budget_lost [OF assms(1), of r now aid actual tokens calls] False assms(3) by auto
qed

lemma release_budget_claims:
  assumes "distinct (map br_id (budget_reservations s))" and "release_budget r s = Ok v t"
  shows "row_count (claimable r) (budget_reservations t) = 0"
proof (cases "row_count (claimable r) (budget_reservations s) = 1")
  case True
  then obtain w where w: "get_window (br_usage_window_id r) s = Some w"
    using assms(2) by (cases "get_window (br_usage_window_id r) s")
      (simp_all add: release_budget_def Let_def andthen_def claim_reservations claim_effect_def raise_def)
  show ?thesis
    using release_budget_won [OF True w] assms(2)
    by (auto simp: row_count_0 release_effect_def counters_effect_def claim_effect_def set_update_where claimable_def)
next
  case False
  have "row_count (claimable r) (budget_reservations s) \<le> 1"
    by (rule row_count_le_1 [OF assms(1)]) (simp add: claimable_def)
  then show ?thesis
    using release_budget_lost [OF assms(1) False] False assms(2) by auto
qed

lemma settle_budget_ids:
  assumes "distinct (map br_id (budget_reservations s))" and "settle_budget now r aid actual tokens calls s = Ok v t"
  shows "map br_id (budget_reservations t) = map br_id (budget_reservations s)"
proof (cases "br_status r = RESERVED \<and> row_count (claimable r) (budget_reservations s) = 1")
  case True
  then obtain w where w: "get_window (br_usage_window_id r) s = Some w"
    using assms(2) by (cases "get_window (br_usage_window_id r) s")
      (simp_all add: settle_budget_def Let_def andthen_def claim_reservations claim_effect_def raise_def)
  then show ?thesis
    using settle_budget_won [OF _ _ w, of now aid actual tokens calls] assms(2) True
    by (auto simp: settle_effect_def counters_effect_def claim_effect_def)
next
  case False
  then show ?thesis
    using settle_budget_lost [OF assms(1), of r now aid actual tokens calls] assms(2) by auto
qed

lemma unclaimable:
  assumes "distinct (map br_id (budget_reservations t))" and "row_count (claimable r) (budget_reservations t) = 0"
    and "br_id r' = br_id r"
  shows "settle_budget now r' aid actual tokens calls t = Ok r' t" and "release_budget r' t = Ok () t"
proof -
  have "claimable r' = claimable r" using assms(3) by (simp add: claimable_def fun_eq_iff)
  then have "row_count (claimable r') (budget_reservations t) \<noteq> 1" using assms(2) by simp
  then show "settle_budget now r' aid actual tokens calls t = Ok r' t" and "release_budget r' t = Ok () t"
    using settle_budget_lost [OF assms(1)] release_budget_lost [OF assms(1)] by blast+
qed

end
