(* ===== verification/Ledger_Reserve.thy ===== *)
theory Ledger_Reserve
  imports Ledger_Settle
begin

text \<open>
  Reserving keeps the ledger invariant: creating the day's rows, reclaiming abandoned holds, the
  three guarded counter updates, and the reservation row that records the hold.
\<close>

section \<open>The order of the holds does not matter\<close>

lemma ledger_inv_perm:
  assumes "\<And>f :: hold \<Rightarrow> int. col_sum f hs' = col_sum f hs" and "set hs' = set hs"
  shows "ledger_inv strict s hs' hs' hs' \<longleftrightarrow> ledger_inv strict s hs hs hs"
  by (simp add: ledger_inv_def windows_ok_def periods_ok_def platforms_ok_def tracks_def owed_def assms)

section \<open>Creating the rows\<close>

lemma wp_ensure_window_row:
  assumes "ledger_ok strict s" and "0 \<le> everyday_limit policy" "0 \<le> request_cost_cap_micro policy"
    "0 \<le> daily_token_limit policy"
  shows "wp (ensure_window_row now a policy) (\<lambda>w t. ledger_ok strict t \<and> w \<in> set (usage_windows t)
     \<and> uw_window_key w = fst (current_window_key now) \<and> budget_reservations t = budget_reservations s) s"
  unfolding ensure_window_row_def Let_def
  by (intro wp_intros)
     (use assms in \<open>auto simp: find_window_def ledger_ok_def new_window_def
        intro!: ledger_inv_new_window [simplified] dest: select_first_Some\<close>)

lemma wp_ensure_platform_row:
  assumes "ledger_ok strict s" and "0 \<le> global_daily_budget_micro st"
  shows "wp (ensure_platform_row now st) (\<lambda>b t. ledger_ok strict t \<and> usage_windows t = usage_windows s
     \<and> fst (current_window_key now) \<in> pb_window_key ` set (platform_budgets t)
     \<and> budget_reservations t = budget_reservations s) s"
  unfolding ensure_platform_row_def Let_def
  by (intro wp_intros)
     (use assms in \<open>auto simp: get_platform_def ledger_ok_def new_platform_def select_first_None
        intro!: ledger_inv_new_platform [simplified] rev_image_eqI dest!: select_first_Some\<close>)

lemma wp_ensure_usage_window:
  assumes ok: "ledger_ok strict s" and st: "0 \<le> global_daily_budget_micro st"
  shows "wp (ensure_usage_window now st a) (\<lambda>w t. ledger_ok strict t \<and> w \<in> set (usage_windows t)
     \<and> uw_window_key w \<in> pb_window_key ` set (platform_budgets t)
     \<and> budget_reservations t = budget_reservations s) s"
proof -
  have row: "wp (ensure_window_row now a policy) (\<lambda>w. wp (andthen (ensure_platform_row now st) (\<lambda>_. ret w))
      (\<lambda>w u. ledger_ok strict u \<and> w \<in> set (usage_windows u)
         \<and> uw_window_key w \<in> pb_window_key ` set (platform_budgets u)
         \<and> budget_reservations u = budget_reservations s)) t"
    if "same_ledger s t" "policy = plan_policy (Some su)" for t policy su
  proof -
    have t: "ledger_ok strict t" by (rule ledger_ok_frame [OF that(1) ok])
    have sane: "0 \<le> everyday_limit policy" "0 \<le> request_cost_cap_micro policy" "0 \<le> daily_token_limit policy"
      using plan_policy_sane [of "Some su"] that(2) by auto
    show ?thesis
    proof (rule wp_mono [OF wp_ensure_window_row [OF t sane]])
      fix w u
      assume u: "ledger_ok strict u \<and> w \<in> set (usage_windows u) \<and> uw_window_key w = fst (current_window_key now)
        \<and> budget_reservations u = budget_reservations t"
      show "wp (andthen (ensure_platform_row now st) (\<lambda>_. ret w))
        (\<lambda>w u. ledger_ok strict u \<and> w \<in> set (usage_windows u)
         \<and> uw_window_key w \<in> pb_window_key ` set (platform_budgets u)
         \<and> budget_reservations u = budget_reservations s) u"
        by (rule wp_andthen, rule wp_mono [OF wp_ensure_platform_row [OF conjunct1 [OF u] st]], rule wp_ret)
           (use u that(1) in \<open>auto simp: same_ledger_def\<close>)
    qed
  qed
  show ?thesis
    unfolding ensure_usage_window_def
    by (rule wp_andthen, rule wp_mono [OF wp_policy_for])
       (auto intro!: wp_andthen [where m = "ensure_window_row now a _"] row)
qed

lemma active_period_in: "active_period a now s = Some p \<Longrightarrow> p \<in> set (usage_periods s) \<and> up_account_id p = a \<and> now < up_reset_at p"
proof -
  assume "active_period a now s = Some p"
  then obtain ps where "sort_key up_reset_at (filter (\<lambda>p. up_account_id p = a \<and> now < up_reset_at p) (usage_periods s)) = p # ps"
    by (auto simp: active_period_def split: list.splits)
  then have "p \<in> set (sort_key up_reset_at (filter (\<lambda>p. up_account_id p = a \<and> now < up_reset_at p) (usage_periods s)))"
    by (simp only: list.set_intros)
  then show ?thesis by simp
qed

lemma wp_ensure_usage_period:
  assumes inv: "ledger_inv strict s hw hp hb" and "0 \<le> period_cost_cap_micro policy"
  shows "wp (ensure_usage_period now a policy anchor) (\<lambda>p t. ledger_inv strict t hw hp hb
     \<and> p \<in> set (usage_periods t) \<and> usage_windows t = usage_windows s
     \<and> platform_budgets t = platform_budgets s \<and> budget_reservations t = budget_reservations s) s"
  unfolding ensure_usage_period_def
  by (intro wp_intros; (split prod.split, intro allI impI, intro wp_intros)?)
     (use assms in \<open>auto simp: new_period_def intro!: ledger_inv_new_period [simplified] dest!: active_period_in\<close>)

section \<open>Reclaiming abandoned holds\<close>

lemma agrees_member:
  "distinct (map br_id (budget_reservations s)) \<Longrightarrow> r \<in> set (budget_reservations s) \<Longrightarrow> agrees s r"
  unfolding agrees_def claimable_def by (metis key_unique)

lemma ledger_ok_distinct: "ledger_ok strict s \<Longrightarrow> distinct (map br_id (budget_reservations s))"
  by (simp add: ledger_ok_def ledger_inv_def ledger_wf_def)

text \<open>What reclaiming keeps\<close>

definition reclaimed_from :: "db \<Rightarrow> db \<Rightarrow> bool" where
  "reclaimed_from s t \<longleftrightarrow> window_keys t = window_keys s \<and> next_id s \<le> next_id t
     \<and> pb_window_key ` set (platform_budgets t) = pb_window_key ` set (platform_budgets s)
     \<and> map br_id (budget_reservations t) = map br_id (budget_reservations s)"

lemma ledger_ok_reclaim_rows:
  assumes "ledger_ok strict s" and "distinct (map br_id rows)" and "set rows \<subseteq> set (budget_reservations s)"
  shows "\<exists>n t. reclaim_rows now rows s = Ok n t \<and> ledger_ok strict t \<and> reclaimed_from s t
     \<and> (\<forall>x \<in> set (budget_reservations s). br_id x \<notin> br_id ` set rows \<or> reservation_is_live x now \<longrightarrow> x \<in> set (budget_reservations t))
     \<and> (\<forall>x \<in> set rows. br_status x = RESERVED \<and> \<not> reservation_is_live x now \<longrightarrow>
          (\<forall>y \<in> set (budget_reservations t). br_id y = br_id x \<longrightarrow> br_status y \<noteq> RESERVED))"
  using assms
proof (induction rows arbitrary: s)
  case Nil
  then show ?case by (simp add: ret_def reclaimed_from_def)
next
  case (Cons row rows)
  have d: "distinct (map br_id (budget_reservations s))" by (rule ledger_ok_distinct [OF Cons.prems(1)])
  show ?case
  proof (cases "reservation_is_live row now")
    case True
    obtain n t where "reclaim_rows now rows s = Ok n t" "ledger_ok strict t" "reclaimed_from s t"
      and keep: "\<forall>x \<in> set (budget_reservations s). br_id x \<notin> br_id ` set rows \<or> reservation_is_live x now \<longrightarrow> x \<in> set (budget_reservations t)"
      and gone: "\<forall>x \<in> set rows. br_status x = RESERVED \<and> \<not> reservation_is_live x now \<longrightarrow>
          (\<forall>y \<in> set (budget_reservations t). br_id y = br_id x \<longrightarrow> br_status y \<noteq> RESERVED)"
      using Cons.IH [OF Cons.prems(1)] Cons.prems(2,3) by auto
    then show ?thesis using True by auto
  next
    case False
    have "agrees s row" using agrees_member [OF d] Cons.prems(3) by simp
    then obtain v u where v: "settle_budget now row (lease_expired_id row) None None [] s = Ok v u"
      and u: "ledger_ok strict u" "reclaimed_from s u"
      and other: "\<forall>x \<in> set (budget_reservations s). br_id x \<noteq> br_id row \<longrightarrow> x \<in> set (budget_reservations u)"
      and own: "br_status row = RESERVED \<longrightarrow> (\<forall>x \<in> set (budget_reservations u). br_id x = br_id row \<longrightarrow> br_status x \<noteq> RESERVED)"
      using ledger_ok_settle [OF Cons.prems(1), of row None None now "lease_expired_id row" "[]"]
      by (auto simp: settled_micro_of_def settled_tokens_of_def reclaimed_from_def)
    have sub: "set rows \<subseteq> set (budget_reservations u)"
    proof
      fix x assume x: "x \<in> set rows"
      then have "br_id x \<noteq> br_id row" using Cons.prems(2) by (auto dest: image_eqI [of _ br_id, OF sym])
      then show "x \<in> set (budget_reservations u)" using other Cons.prems(3) x by auto
    qed
    obtain n t where t: "reclaim_rows now rows u = Ok n t" "ledger_ok strict t" "reclaimed_from u t"
      and keep: "\<forall>x \<in> set (budget_reservations u). br_id x \<notin> br_id ` set rows \<or> reservation_is_live x now \<longrightarrow> x \<in> set (budget_reservations t)"
      and gone: "\<forall>x \<in> set rows. br_status x = RESERVED \<and> \<not> reservation_is_live x now \<longrightarrow>
          (\<forall>y \<in> set (budget_reservations t). br_id y = br_id x \<longrightarrow> br_status y \<noteq> RESERVED)"
      using Cons.IH [OF u(1) _ sub] Cons.prems(2) by auto
    have run: "reclaim_rows now (row # rows) s = Ok (n + 1) t"
      using False v t(1) by (simp add: andthen_def ret_def)
    have from_s: "reclaimed_from s t" using u(2) t(3) by (simp add: reclaimed_from_def)
    have row_id: "x = row" if "x \<in> set (budget_reservations s)" "br_id x = br_id row" for x
      using key_unique [OF d that(1) _ that(2)] Cons.prems(3) by auto
    have keep': "x \<in> set (budget_reservations t)"
      if "x \<in> set (budget_reservations s)" "br_id x \<notin> br_id ` set (row # rows) \<or> reservation_is_live x now" for x
      using keep other row_id [OF that(1)] that False by auto
    have row_gone: "br_status y \<noteq> RESERVED"
      if "br_status row = RESERVED" "y \<in> set (budget_reservations t)" "br_id y = br_id row" for y
    proof -
      have "br_id y \<in> set (map br_id (budget_reservations u))"
        using that(2) t(3) by (metis image_eqI list.set_map reclaimed_from_def)
      then obtain z where z: "z \<in> set (budget_reservations u)" "br_id z = br_id y" by auto
      then have "z \<in> set (budget_reservations t)"
        using keep Cons.prems(2) that(3) by auto
      then have "z = y" using key_unique [OF ledger_ok_distinct [OF t(2)]] that(2) z(2) by blast
      then show ?thesis using own z that by auto
    qed
    show ?thesis
    proof (intro exI [of _ "n + 1"] exI [of _ t] conjI ballI impI)
      show "reclaim_rows now (row # rows) s = Ok (n + 1) t" "ledger_ok strict t" "reclaimed_from s t"
        by (fact run t(2) from_s)+
    next
      fix x assume "x \<in> set (budget_reservations s)"
        "br_id x \<notin> br_id ` set (row # rows) \<or> reservation_is_live x now"
      then show "x \<in> set (budget_reservations t)" by (rule keep')
    next
      fix x y
      assume x: "x \<in> set (row # rows)" "br_status x = RESERVED \<and> \<not> reservation_is_live x now"
        and y: "y \<in> set (budget_reservations t)" "br_id y = br_id x"
      show "br_status y \<noteq> RESERVED"
        using x row_gone [OF _ y(1)] gone y by (cases "x = row") auto
    qed
  qed
qed

lemma ledger_ok_reclaim:
  assumes ok: "ledger_ok strict s"
  shows "\<exists>n t. reclaim_stale_reservations key now k s = Ok n t \<and> ledger_ok strict t \<and> reclaimed_from s t
     \<and> (\<forall>x \<in> set (budget_reservations s). br_status x \<noteq> RESERVED \<or> reservation_is_live x now \<longrightarrow> x \<in> set (budget_reservations t))
     \<and> (\<forall>x \<in> set (take k (stale_candidates key s)). \<not> reservation_is_live x now \<longrightarrow>
          (\<forall>y \<in> set (budget_reservations t). br_id y = br_id x \<longrightarrow> br_status y \<noteq> RESERVED))"
proof -
  let ?rows = "take k (stale_candidates key s)"
  have sub: "set ?rows \<subseteq> {r \<in> set (budget_reservations s). br_status r = RESERVED}"
    by (auto simp: stale_candidates_def dest: in_set_takeD)
  have d: "distinct (map br_id (budget_reservations s))" by (rule ledger_ok_distinct [OF ok])
  have "distinct (map br_id (stale_candidates key s))"
    unfolding stale_candidates_def by (rule distinct_map_filter [OF d])
  then have "distinct (map br_id ?rows)" by (simp add: take_map [symmetric])
  moreover have "set ?rows \<subseteq> set (budget_reservations s)" using sub by auto
  ultimately obtain n t where run: "reclaim_rows now ?rows s = Ok n t" "ledger_ok strict t" "reclaimed_from s t"
    and keep: "\<forall>x \<in> set (budget_reservations s). br_id x \<notin> br_id ` set ?rows \<or> reservation_is_live x now \<longrightarrow> x \<in> set (budget_reservations t)"
    and gone: "\<forall>x \<in> set ?rows. br_status x = RESERVED \<and> \<not> reservation_is_live x now \<longrightarrow>
          (\<forall>y \<in> set (budget_reservations t). br_id y = br_id x \<longrightarrow> br_status y \<noteq> RESERVED)"
    using ledger_ok_reclaim_rows [OF ok] by blast
  have "br_id x \<notin> br_id ` set ?rows" if "x \<in> set (budget_reservations s)" "br_status x \<noteq> RESERVED" for x
    using that sub key_unique [OF d that(1)] by blast
  then have "\<forall>x \<in> set (budget_reservations s). br_status x \<noteq> RESERVED \<or> reservation_is_live x now \<longrightarrow> x \<in> set (budget_reservations t)"
    using keep by blast
  moreover have "\<forall>x \<in> set ?rows. br_status x = RESERVED" using sub by auto
  ultimately show ?thesis
    using run gone by (auto simp: reclaim_stale_reservations_def andthen_def)
qed

lemma wp_reclaim:
  assumes "ledger_ok strict s"
  shows "wp (reclaim_stale_reservations key now k) (\<lambda>_ t. ledger_ok strict t \<and> reclaimed_from s t
     \<and> (\<forall>x \<in> set (budget_reservations s). br_status x \<noteq> RESERVED \<or> reservation_is_live x now \<longrightarrow> x \<in> set (budget_reservations t))) s"
  using ledger_ok_reclaim [OF assms, of key now k] by (auto simp: wp_def)

section \<open>Holding\<close>

lemma window_keys_in:
  assumes "ledger_ok strict s" and "w \<in> set (usage_windows s)"
  shows "window_keys s (uw_id w) = Some (uw_window_key w)"
proof -
  have "distinct (map fst (map (\<lambda>w. (uw_id w, uw_window_key w)) (usage_windows s)))"
    using assms(1) by (simp add: ledger_ok_def ledger_inv_def ledger_wf_def o_def)
  then show ?thesis using assms(2) by (auto simp: window_keys_def)
qed

definition kept_rows :: "datetime \<Rightarrow> db \<Rightarrow> db \<Rightarrow> bool" where
  "kept_rows now s t \<longleftrightarrow> map br_id (budget_reservations t) = map br_id (budget_reservations s)
     \<and> (\<forall>x \<in> set (budget_reservations s). br_status x \<noteq> RESERVED \<or> reservation_is_live x now
          \<longrightarrow> x \<in> set (budget_reservations t))"

definition held :: "bool \<Rightarrow> db \<Rightarrow> hold \<Rightarrow> bool" where
  "held strict t h \<longleftrightarrow>
     ledger_inv strict t (live_holds t @ [h]) (live_holds t @ [h]) (live_holds t @ [h])"

lemma wp_hold_on_platform:
  assumes inv: "ledger_inv strict s (live_holds s @ [h]) (live_holds s @ [h]) (live_holds s)"
    and h: "h = Hold (uw_id w) (Some (up_id p)) amt tok"
    and key: "window_keys s (uw_id w) = Some (uw_window_key w)" and kept: "kept_rows now s0 s"
  shows "wp (hold_on_platform w p amt) (\<lambda>wp t. wp = (w, p) \<and> held strict t h \<and> kept_rows now s0 t) s"
  unfolding hold_on_platform_def update_platforms_def
  by (intro wp_intros)
     (use kept ledger_inv_hold_platform [OF inv _ key, of amt "Some (up_id p)" tok]
        in \<open>simp_all add: held_def h kept_rows_def\<close>)

lemma wp_hold_on_period:
  assumes inv: "ledger_inv strict s (live_holds s @ [Hold (uw_id w) None amt tok]) (live_holds s) (live_holds s)"
    and key: "window_keys s (uw_id w) = Some (uw_window_key w)" and kept: "kept_rows now s0 s"
    and h: "h = Hold (uw_id w) (Some (up_id p)) amt tok"
  shows "wp (hold_on_period w p amt) (\<lambda>wp t. wp = (w, p) \<and> held strict t h \<and> kept_rows now s0 t) s"
  unfolding hold_on_period_def update_periods_def
proof (intro wp_intros)
  let ?t = "s\<lparr>usage_periods := update_where (period_has_room (up_id p) amt) (hold_period amt) (usage_periods s)\<rparr>"
  assume "\<not> row_count (period_has_room (up_id p) amt) (usage_periods s) \<noteq> 1"
  then have "ledger_inv strict ?t (live_holds s @ [Hold (uw_id w) None amt tok]) (live_holds s @ [h]) (live_holds s)"
    using ledger_inv_hold_period [OF inv, of "up_id p" amt "uw_id w" tok] by (simp add: h)
  then have "ledger_inv strict ?t (live_holds ?t @ [h]) (live_holds ?t @ [h]) (live_holds ?t)"
    using windows_ok_period_irrelevant [of strict ?t "live_holds s" "uw_id w" None amt tok "Some (up_id p)"]
    by (simp add: ledger_inv_def h)
  then show "wp (hold_on_platform w p amt) (\<lambda>wp t. wp = (w, p) \<and> held strict t h \<and> kept_rows now s0 t) ?t"
    by (rule wp_hold_on_platform) (use h key kept in \<open>simp_all add: kept_rows_def\<close>)
qed

lemma wp_reserve_hold_tail:
  assumes u: "ledger_ok strict u" and key: "window_keys u (uw_id w) = Some (uw_window_key w)"
    and kept: "kept_rows now s u" and tok: "0 \<le> tok"
  shows "wp (andthen (update_windows (window_has_room (uw_id w) amt tok) (hold_window amt tok)) (\<lambda>account_rows.
      if account_rows \<noteq> 1 then deny_window w tok
      else andthen (policy_for now a) (\<lambda>(subscription, policy).
      andthen (ensure_usage_period now a policy (Some (su_period_anchor subscription))) (\<lambda>period.
      hold_on_period w period amt))))
    (\<lambda>(w, p) t. held strict t (Hold (uw_id w) (Some (up_id p)) amt tok) \<and> kept_rows now s t) u"
    (is "wp _ ?Q u")
proof -
  have rest: "wp (andthen (policy_for now a) (\<lambda>(subscription, policy).
      andthen (ensure_usage_period now a policy (Some (su_period_anchor subscription))) (\<lambda>period.
      hold_on_period w period amt))) ?Q v"
    if inv: "ledger_inv strict v (live_holds v @ [Hold (uw_id w) None amt tok]) (live_holds v) (live_holds v)"
      and "window_keys v = window_keys u" "kept_rows now s v" for v
  proof (rule wp_andthen, rule wp_mono [OF wp_policy_for], clarsimp, rule wp_andthen,
      rule wp_mono [OF wp_ensure_usage_period])
    fix su v'
    assume v': "same_ledger v v'"
    let ?hs = "live_holds v"
    show "ledger_inv strict v' (?hs @ [Hold (uw_id w) None amt tok]) ?hs ?hs"
      by (rule ledger_inv_frame [OF v' inv])
    show "0 \<le> period_cost_cap_micro (plan_policy (Some su))" using plan_policy_sane(4) [of "Some su"] by simp
    fix p x
    assume x: "ledger_inv strict x (?hs @ [Hold (uw_id w) None amt tok]) ?hs ?hs \<and> p \<in> set (usage_periods x)
        \<and> usage_windows x = usage_windows v' \<and> platform_budgets x = platform_budgets v'
        \<and> budget_reservations x = budget_reservations v'"
    have res: "budget_reservations x = budget_reservations v" "window_keys x = window_keys u"
      using x v' that(2) by (simp_all add: same_ledger_def window_keys_def)
    have "live_holds x = ?hs" using res by (simp add: live_holds_def)
    then have "wp (hold_on_period w p amt) (\<lambda>wp t. wp = (w, p)
        \<and> held strict t (Hold (uw_id w) (Some (up_id p)) amt tok) \<and> kept_rows now s t) x"
      using x key that(3) res by (intro wp_hold_on_period) (simp_all add: kept_rows_def)
    then show "wp (hold_on_period w p amt) ?Q x" by (rule wp_mono) auto
  qed
  show ?thesis
    unfolding update_windows_def
  proof (rule wp_andthen, rule wp_execute, rule wp_if)
    show "wp (deny_window w tok) ?Q v" for v
      unfolding deny_window_def by (intro wp_intros)
  next
    let ?v = "u\<lparr>usage_windows := update_where (window_has_room (uw_id w) amt tok) (hold_window amt tok) (usage_windows u)\<rparr>"
    assume "\<not> row_count (window_has_room (uw_id w) amt tok) (usage_windows u) \<noteq> 1"
    then have "ledger_inv strict ?v (live_holds u @ [Hold (uw_id w) None amt tok]) (live_holds u) (live_holds u)"
      using u tok by (intro ledger_inv_hold_window) (simp_all add: ledger_ok_def)
    moreover have "window_keys ?v = window_keys u"
      by (rule window_keys_update_where) (simp_all add: hold_window_def)
    ultimately show "wp (andthen (policy_for now a) (\<lambda>(subscription, policy).
      andthen (ensure_usage_period now a policy (Some (su_period_anchor subscription))) (\<lambda>period.
      hold_on_period w period amt))) ?Q ?v"
      using kept by (intro rest) (simp_all add: kept_rows_def)
  qed
qed

lemma wp_reserve_hold:
  assumes ok: "ledger_ok strict s" and st: "0 \<le> global_daily_budget_micro st" and tok: "0 \<le> tok"
  shows "wp (reserve_hold a st amt tok now) (\<lambda>(w, p) t.
     held strict t (Hold (uw_id w) (Some (up_id p)) amt tok) \<and> kept_rows now s t) s"
  unfolding reserve_hold_def
  apply (rule wp_andthen, rule wp_mono [OF wp_ensure_usage_window [OF ok st]])
  apply (elim conjE, rule wp_andthen, rule wp_mono [OF wp_reclaim], assumption)
  apply (elim conjE, rule wp_reserve_hold_tail)
  subgoal by assumption
  subgoal for w t _ u using window_keys_in [of strict t w] by (simp add: reclaimed_from_def)
  subgoal by (simp add: kept_rows_def reclaimed_from_def)
  subgoal by (rule tok)
  done

section \<open>Recording the hold\<close>

lemma held_recorded:
  assumes "held strict t h" and tabs: "usage_windows u = usage_windows t" "usage_periods u = usage_periods t"
      "platform_budgets u = platform_budgets t"
    and sums: "\<And>f :: hold \<Rightarrow> int. col_sum f (live_holds u) = col_sum f (live_holds t @ [h])"
      "set (live_holds u) = set (live_holds t @ [h])"
    and wf: "ledger_wf u"
  shows "ledger_ok strict u"
proof -
  have "window_keys u = window_keys t" "platform_of u = platform_of t"
    using tabs(1) by (simp_all add: platform_of_def window_keys_def fun_eq_iff)
  then have "ledger_inv strict u (live_holds t @ [h]) (live_holds t @ [h]) (live_holds t @ [h])"
    using assms(1) wf tabs
    by (simp add: held_def ledger_inv_def windows_ok_def periods_ok_def platforms_ok_def)
  then show ?thesis
    unfolding ledger_ok_def using ledger_inv_perm [of "live_holds u" "live_holds t @ [h]" strict u] sums by simp
qed

lemma held_wf: "held strict t h \<Longrightarrow> ledger_wf t"
  by (simp add: held_def ledger_inv_def)

text \<open>What a successful reservation returns: the row as it is stored.\<close>

definition reserved_row :: "int \<Rightarrow> int \<Rightarrow> budget_reservation \<Rightarrow> db \<Rightarrow> bool" where
  "reserved_row amt tok r t \<longleftrightarrow> r \<in> set (budget_reservations t)
     \<and> (br_status r = RESERVED \<longrightarrow> br_reserved_micro r = amt \<and> br_reserved_tokens r = tok)"

lemma wp_reserve_new:
  assumes ok: "ledger_ok strict s" and st: "0 \<le> global_daily_budget_micro st" and tok: "0 \<le> tok" and amt: "0 < amt"
  shows "wp (reserve_new now st a lrid stage amt tok) (\<lambda>r t. ledger_ok strict t \<and> reserved_row amt tok r t) s"
  unfolding reserve_new_def
proof (rule wp_andthen, rule wp_mono [OF wp_reserve_hold [OF ok st tok]], clarsimp, rule wp_insert_row)
  fix w p t
  assume h: "held strict t (Hold (uw_id w) (Some (up_id p)) amt tok)"
  let ?r = "new_reservation now a lrid stage amt tok (uw_id w) (up_id p) (next_id t)"
  let ?t = "t\<lparr>budget_reservations := budget_reservations t @ [?r]\<rparr>\<lparr>next_id := Suc (next_id t)\<rparr>"
  have "ledger_wf t" by (rule held_wf [OF h])
  then have "ledger_wf ?t" using amt tok
    by (auto simp: ledger_wf_def new_reservation_def less_Suc_eq)
  moreover have "live_holds ?t = live_holds t @ [Hold (uw_id w) (Some (up_id p)) amt tok]"
    by (simp add: live_holds_def new_reservation_def hold_of_def)
  ultimately have "ledger_ok strict ?t" by (intro held_recorded [OF h]) simp_all
  then show "ledger_ok strict ?t \<and> reserved_row amt tok ?r ?t"
    by (simp add: reserved_row_def new_reservation_def)
qed

lemma wp_reserve_again:
  assumes ok: "ledger_ok strict s" and st: "0 \<le> global_daily_budget_micro st" and tok: "0 \<le> tok" and amt: "0 < amt"
  shows "wp (reserve_again now st a lrid amt tok existing) (\<lambda>r t. ledger_ok strict t \<and> reserved_row amt tok r t) s"
  unfolding reserve_again_def update_reservations_def
proof (rule wp_andthen, rule wp_mono [OF wp_reserve_hold [OF ok st tok]], clarsimp, intro wp_intros)
  fix w p and t :: db and r
  let ?p = "\<lambda>r. br_id r = br_id existing \<and> br_status r \<noteq> RESERVED"
  let ?f = "reactivate amt tok (uw_id w) (up_id p)" and ?rows = "budget_reservations t"
  let ?h = "Hold (uw_id w) (Some (up_id p)) amt tok"
  let ?t = "t\<lparr>budget_reservations := update_where ?p ?f ?rows\<rparr>"
  assume h: "held strict t ?h" and one: "\<not> row_count ?p ?rows \<noteq> Suc 0"
    and r: "get_reservation (br_id existing) ?t = Some r"
  have wf: "ledger_wf t" by (rule held_wf [OF h])
  then have d: "distinct (map br_id ?rows)" by (simp add: ledger_wf_def)
  note hit = update_where_one [OF d, of ?p "br_id existing"]
  obtain x where x: "x \<in> set ?rows" "?p x" using hit(2) one by auto
  have upd: "update_where ?p ?f ?rows = update_where (\<lambda>y. br_id y = br_id x) ?f ?rows"
    using hit(1) [of ?f] one x(2) by simp
  have fx [simp]: "br_status (?f y) = RESERVED" "hold_of (?f y) = ?h" "br_id (?f y) = br_id y" for y
    by (simp_all add: reactivate_def hold_of_def)
  have "ledger_wf ?t" using wf amt tok
    by (auto simp: ledger_wf_def set_update_where reactivate_def)
  moreover have "col_sum f (live_holds ?t) = col_sum f (live_holds t @ [?h])" for f :: "hold \<Rightarrow> int"
    using col_sum_update_key [OF d x(1), of "\<lambda>r. if br_status r = RESERVED then f (hold_of r) else 0" ?f] x(2)
    by (simp add: col_sum_live_holds upd)
  moreover have "set (live_holds ?t) = set (live_holds t @ [?h])"
  proof
    show "set (live_holds ?t) \<subseteq> set (live_holds t @ [?h])"
      by (auto simp: set_live_holds set_update_where)
    have "hold_of (?f x) \<in> set (live_holds ?t)"
      unfolding set_live_holds using x by (intro imageI) (auto simp: set_update_where)
    moreover have "y \<in> set (update_where ?p ?f ?rows)" if "y \<in> set ?rows" "br_status y = RESERVED" for y
      using that by (auto simp: set_update_where image_iff intro!: bexI [of _ y])
    then have "set (live_holds t) \<subseteq> set (live_holds ?t)" by (auto simp: set_live_holds)
    ultimately show "set (live_holds t @ [?h]) \<subseteq> set (live_holds ?t)" by simp
  qed
  ultimately have "ledger_ok strict ?t" by (intro held_recorded [OF h]) simp_all
  moreover have "r \<in> set (update_where ?p ?f ?rows) \<and> br_id r = br_id existing"
    using r by (auto simp: get_reservation_def dest: select_first_Some)
  then have "reserved_row amt tok r ?t"
    using x key_unique [OF d _ x(1)]
    by (auto simp: reserved_row_def set_update_where reactivate_def)
  ultimately show "ledger_ok strict ?t \<and> reserved_row amt tok r ?t" by simp
qed

lemma wp_reserve_budget:
  assumes ok: "ledger_ok strict s" and st: "0 \<le> global_daily_budget_micro st" and tok: "0 \<le> tok"
  shows "wp (reserve_budget now st a lrid stage amt tok)
    (\<lambda>r t. ledger_ok strict t \<and> reserved_row amt tok r t) s"
proof -
  let ?Q = "\<lambda>r t. ledger_ok strict t \<and> reserved_row amt tok r t"
  have expired: "wp (andthen (settle_budget now existing (lease_expired_id existing) None None []) (\<lambda>_.
      reserve_again now st a lrid amt tok existing)) ?Q s"
    if "existing \<in> set (budget_reservations s)" "0 < amt" for existing
  proof -
    have "agrees s existing" by (rule agrees_member [OF ledger_ok_distinct [OF ok] that(1)])
    then obtain v t where t: "settle_budget now existing (lease_expired_id existing) None None [] s = Ok v t"
      and "ledger_ok strict t"
      using ledger_ok_settle [OF ok, of existing None None now "lease_expired_id existing" "[]"]
      by (auto simp: settled_micro_of_def settled_tokens_of_def)
    then show ?thesis
      using wp_reserve_again [OF _ st tok that(2), of strict t now a lrid existing]
      by (auto simp: wp_def andthen_def)
  qed
  show ?thesis
    unfolding reserve_budget_def
    by (intro wp_intros wp_reserve_new [OF ok st tok] wp_reserve_again [OF ok st tok] expired)
       (auto simp: ok find_reservation_def reserved_row_def dest!: select_first_Some)
qed

end
