(* ===== verification/Ledger_System.thy ===== *)
theory Ledger_System
  imports Ledger_Reserve
begin

text \<open>
  The budget ledger as a transition system. A state is the database and the reservations the
  workers hold in memory; a step is one committed transaction (a raising transaction is rolled
  back and leaves the state as it was). The invariant of \<open>Ledger\<close> holds in every reachable
  state, and the properties below spell out what it says.
\<close>

section \<open>The system\<close>

record ledger_state =
  ls_db :: db
  ls_workers :: "budget_reservation list"

definition ledger_init :: ledger_state where
  "ledger_init = \<lparr>ls_db = empty_db, ls_workers = []\<rparr>"

text \<open>\<open>strict\<close> restricts the settlements to those that charge at most what was held. A worker
  settles or releases with its in-memory row, which \<open>agrees\<close> with the stored one: nobody else
  took its reservation over after a lapsed lease.\<close>

inductive ledger_step :: "settings \<Rightarrow> bool \<Rightarrow> ledger_state \<Rightarrow> ledger_state \<Rightarrow> bool"
  for st :: settings and strict :: bool where
  step_reserve: "0 \<le> tok \<Longrightarrow> reserve_budget now st a lrid stage amt tok (ls_db s) = Ok r t \<Longrightarrow>
    ledger_step st strict s \<lparr>ls_db = t, ls_workers = r # ls_workers s\<rparr>"
| step_settle: "r \<in> set (ls_workers s) \<Longrightarrow> agrees (ls_db s) r \<Longrightarrow>
    (strict \<Longrightarrow> settled_micro_of r actual \<le> br_reserved_micro r \<and> settled_tokens_of r tokens \<le> br_reserved_tokens r) \<Longrightarrow>
    settle_budget now r aid actual tokens calls (ls_db s) = Ok v t \<Longrightarrow>
    ledger_step st strict s \<lparr>ls_db = t, ls_workers = ls_workers s\<rparr>"
| step_release: "r \<in> set (ls_workers s) \<Longrightarrow> agrees (ls_db s) r \<Longrightarrow>
    release_budget r (ls_db s) = Ok () t \<Longrightarrow>
    ledger_step st strict s \<lparr>ls_db = t, ls_workers = ls_workers s\<rparr>"
| step_other: "same_ledger (ls_db s) t \<Longrightarrow> ledger_step st strict s \<lparr>ls_db = t, ls_workers = ls_workers s\<rparr>"

inductive ledger_reachable :: "settings \<Rightarrow> bool \<Rightarrow> ledger_state \<Rightarrow> bool"
  for st :: settings and strict :: bool where
  reach_init: "ledger_reachable st strict ledger_init"
| reach_step: "ledger_reachable st strict s \<Longrightarrow> ledger_step st strict s t \<Longrightarrow> ledger_reachable st strict t"

inductive_cases ledger_stepE: "ledger_step st strict s t"

lemma ledger_ok_empty: "ledger_ok strict empty_db"
  by (simp add: ledger_ok_def ledger_inv_def ledger_wf_def windows_ok_def periods_ok_def platforms_ok_def
      tracks_def live_holds_def empty_db_def)

lemma ledger_step_ok:
  assumes "ledger_step st strict s t" and "ledger_ok strict (ls_db s)" and "0 \<le> global_daily_budget_micro st"
  shows "ledger_ok strict (ls_db t)"
  using assms(1)
proof (cases rule: ledger_step.cases)
  case (step_reserve tok now a lrid stage amt r u)
  then show ?thesis using wpD [OF wp_reserve_budget [OF assms(2,3)]] by fastforce
next
  case (step_settle r actual tokens now aid calls v u)
  then show ?thesis using ledger_ok_settle [OF assms(2), of r actual tokens now aid calls] by auto
next
  case (step_release r u)
  then show ?thesis using ledger_ok_release [OF assms(2), of r] by auto
next
  case (step_other u)
  then show ?thesis using ledger_ok_frame assms(2) by auto
qed

lemma ledger_reachable_ok:
  "ledger_reachable st strict s \<Longrightarrow> 0 \<le> global_daily_budget_micro st \<Longrightarrow> ledger_ok strict (ls_db s)"
  by (induction rule: ledger_reachable.induct) (simp_all add: ledger_init_def ledger_ok_empty ledger_step_ok)

section \<open>What the invariant says\<close>

definition live_sum :: "(budget_reservation \<Rightarrow> int) \<Rightarrow> (budget_reservation \<Rightarrow> bool) \<Rightarrow> db \<Rightarrow> int" where
  "live_sum f p s = sum_list (map f (filter (\<lambda>r. br_status r = RESERVED \<and> p r) (budget_reservations s)))"

lemma owed_live_holds:
  "owed owner amount k (live_holds s) = live_sum (\<lambda>r. amount (hold_of r)) (\<lambda>r. owner (hold_of r) = k) s"
proof -
  have "owed owner amount k (map hold_of (filter (\<lambda>r. br_status r = RESERVED) rows))
      = sum_list (map (\<lambda>r. amount (hold_of r)) (filter (\<lambda>r. br_status r = RESERVED \<and> owner (hold_of r) = k) rows))" for rows
    by (induction rows) (auto simp: owed_def)
  then show ?thesis by (simp add: live_holds_def live_sum_def)
qed

lemma live_sum_nonneg: "(\<And>r. r \<in> set (budget_reservations s) \<Longrightarrow> 0 \<le> f r) \<Longrightarrow> 0 \<le> live_sum f p s"
  by (auto simp: live_sum_def intro!: sum_list_nonneg)

lemma ledger_ok_counters:
  assumes "ledger_ok strict s"
  shows "w \<in> set (usage_windows s) \<Longrightarrow> uw_reserved_micro w = live_sum br_reserved_micro (\<lambda>r. br_usage_window_id r = uw_id w) s"
    and "w \<in> set (usage_windows s) \<Longrightarrow> uw_tokens_reserved w = live_sum br_reserved_tokens (\<lambda>r. br_usage_window_id r = uw_id w) s"
    and "w \<in> set (usage_windows s) \<Longrightarrow> live_sum (\<lambda>_. 1) (\<lambda>r. br_usage_window_id r = uw_id w) s \<le> uw_everyday_used w"
    and "p \<in> set (usage_periods s) \<Longrightarrow> up_reserved_micro p = live_sum br_reserved_micro (\<lambda>r. br_usage_period_id r = Some (up_id p)) s"
    and "b \<in> set (platform_budgets s) \<Longrightarrow> pb_reserved_micro b
       = live_sum br_reserved_micro (\<lambda>r. window_keys s (br_usage_window_id r) = Some (pb_window_key b)) s"
  using assms
  by (simp_all add: ledger_ok_def ledger_inv_def windows_ok_def periods_ok_def platforms_ok_def tracks_def
      owed_live_holds platform_of_def)

lemma ledger_ok_limits:
  assumes "ledger_ok True s"
  shows "w \<in> set (usage_windows s) \<Longrightarrow> 0 \<le> uw_reserved_micro w \<and> uw_reserved_micro w + uw_settled_micro w \<le> uw_spend_limit_micro w
     \<and> 0 \<le> uw_tokens_reserved w \<and> uw_tokens_reserved w + uw_tokens_settled w \<le> uw_token_limit w
     \<and> 0 \<le> uw_everyday_used w \<and> uw_everyday_used w \<le> uw_everyday_limit w"
    and "p \<in> set (usage_periods s) \<Longrightarrow> 0 \<le> up_reserved_micro p \<and> up_reserved_micro p + up_settled_micro p \<le> up_spend_limit_micro p"
    and "b \<in> set (platform_budgets s) \<Longrightarrow> 0 \<le> pb_reserved_micro b \<and> pb_reserved_micro b + pb_settled_micro b \<le> pb_spend_limit_micro b"
proof -
  have pos: "0 \<le> live_sum br_reserved_micro q s" "0 \<le> live_sum br_reserved_tokens q s" "0 \<le> live_sum (\<lambda>_. 1) q s" for q
    using assms by (auto intro!: live_sum_nonneg simp: ledger_ok_def ledger_inv_def ledger_wf_def less_imp_le)
  note c = ledger_ok_counters [OF assms]
  show "0 \<le> uw_reserved_micro w \<and> uw_reserved_micro w + uw_settled_micro w \<le> uw_spend_limit_micro w
     \<and> 0 \<le> uw_tokens_reserved w \<and> uw_tokens_reserved w + uw_tokens_settled w \<le> uw_token_limit w
     \<and> 0 \<le> uw_everyday_used w \<and> uw_everyday_used w \<le> uw_everyday_limit w" if "w \<in> set (usage_windows s)"
  proof -
    have "0 \<le> uw_reserved_micro w" "0 \<le> uw_tokens_reserved w" "0 \<le> uw_everyday_used w"
      using c(1,2) [OF that] order_trans [OF pos(3) c(3) [OF that]] pos by simp_all
    then show ?thesis using assms that by (simp add: ledger_ok_def ledger_inv_def windows_ok_def)
  qed
  show "0 \<le> up_reserved_micro p \<and> up_reserved_micro p + up_settled_micro p \<le> up_spend_limit_micro p"
    if "p \<in> set (usage_periods s)"
  proof -
    have "0 \<le> up_reserved_micro p" using c(4) [OF that] pos by simp
    then show ?thesis using assms that by (simp add: ledger_ok_def ledger_inv_def periods_ok_def)
  qed
  show "0 \<le> pb_reserved_micro b \<and> pb_reserved_micro b + pb_settled_micro b \<le> pb_spend_limit_micro b"
    if "b \<in> set (platform_budgets s)"
  proof -
    have "0 \<le> pb_reserved_micro b" using c(5) [OF that] pos by simp
    then show ?thesis using assms that by (simp add: ledger_ok_def ledger_inv_def platforms_ok_def)
  qed
qed

end
