(* ===== verification/Ledger_Demo.thy ===== *)
theory Ledger_Demo
  imports Ledger_System
begin

text \<open>
  A small concrete ledger the witnesses evaluate on: account 7 on the free plan reserves 2,000
  micro-rupees at noon, on an empty database.
\<close>

definition demo_now :: datetime where
  "demo_now = DateTime (Date 2026 3 30) 43200000000"

definition demo_row :: budget_reservation where
  "demo_row = \<lparr>br_id = 4, br_logical_request_id = ''request-1'', br_account_id = 7,
     br_usage_window_id = 1, br_usage_period_id = Some 3, br_stage = ''execution'',
     br_reserved_micro = 2000, br_actual_micro = None, br_reserved_tokens = 100, br_status = RESERVED,
     br_created_at = demo_now\<rparr>"

definition demo_window :: usage_window where
  "demo_window = \<lparr>uw_id = 1, uw_account_id = 7, uw_window_key = ''2026-03-30'',
     uw_everyday_limit = 20, uw_everyday_used = 1, uw_spend_limit_micro = 40000,
     uw_reserved_micro = 2000, uw_settled_micro = 0, uw_token_limit = 40000, uw_tokens_reserved = 100,
     uw_tokens_settled = 0, uw_reset_at = DateTime (Date 2026 3 31) 0\<rparr>"

definition demo_db :: db where
  "demo_db = empty_db\<lparr>next_id := 5,
     subscriptions := [new_subscription demo_now 7 ''ananta'' 0],
     usage_windows := [demo_window],
     usage_periods := [\<lparr>up_id = 3, up_account_id = 7, up_period_key = ''2026-03-30'',
       up_spend_limit_micro = 20000, up_reserved_micro = 2000, up_settled_micro = 0,
       up_reset_at = DateTime (Date 2026 4 30) 0\<rparr>],
     platform_budgets := [\<lparr>pb_window_key = ''2026-03-30'', pb_spend_limit_micro = 100000,
       pb_reserved_micro = 2000, pb_settled_micro = 0\<rparr>],
     budget_reservations := [demo_row]\<rparr>"

definition demo_state :: ledger_state where
  "demo_state = \<lparr>ls_db = demo_db, ls_workers = [demo_row]\<rparr>"

lemma demo_key: "current_window_key demo_now = (''2026-03-30'', DateTime (Date 2026 3 31) 0)"
  by code_simp

lemma demo_period: "subscription_period (Date 2026 3 30) demo_now = (''2026-03-30'', DateTime (Date 2026 4 30) 0)"
  by code_simp

lemmas demo_defs = demo_now_def demo_row_def demo_window_def demo_db_def empty_db_def new_subscription_def

lemma demo_reserve:
  "reserve_budget demo_now default_settings 7 ''request-1'' ''execution'' 2000 100 empty_db = Ok demo_row demo_db"
  by code_simp

lemma demo_reachable: "ledger_reachable default_settings strict demo_state"
proof -
  have "ledger_step default_settings strict ledger_init
      \<lparr>ls_db = demo_db, ls_workers = demo_row # ls_workers ledger_init\<rparr>"
    by (rule step_reserve [of 100 demo_now _ 7 "''request-1''" "''execution''" 2000])
       (simp_all add: ledger_init_def demo_reserve)
  then show ?thesis
    unfolding demo_state_def by (intro reach_step [OF reach_init]) (simp add: ledger_init_def)
qed

lemma demo_state_db [simp]: "ls_db demo_state = demo_db"
  by (simp add: demo_state_def)

lemma demo_budget: "(0 :: int) \<le> global_daily_budget_micro default_settings"
  by (simp add: default_settings_def)

lemma demo_ok: "ledger_ok strict demo_db"
  using ledger_reachable_ok [OF demo_reachable demo_budget] by (simp add: demo_state_def)

lemma demo_rows:
  "budget_reservations demo_db = [demo_row]" "usage_windows demo_db = [demo_window]"
  "br_status demo_row = RESERVED" "br_id demo_row = 4" "br_usage_window_id demo_row = 1"
  "br_reserved_micro demo_row = 2000" "uw_id demo_window = 1" "get_window (Suc 0) demo_db = Some demo_window"
  by (simp_all add: demo_db_def demo_row_def demo_window_def get_window_def)

end
