(* ===== verification/Ledger_Props.thy ===== *)
theory Ledger_Props
  imports Ledger_Demo
begin

text \<open>
  The properties of the budget ledger, each with a witness on the demo ledger: conservation and
  limits in every reachable state, the exact effect of a settlement, at-most-once settlement, the
  branches of a reservation and its round trip, and three behaviours of lapsed reservations.
\<close>

section \<open>Reachable ledgers\<close>





section \<open>Settlement\<close>





section \<open>Reservation\<close>

text \<open>The database after a first reservation that found its rows: the three counters hold it, and
  the new row records it.\<close>

definition after_reserve :: "datetime \<Rightarrow> nat \<Rightarrow> string \<Rightarrow> string \<Rightarrow> int \<Rightarrow> int \<Rightarrow> usage_window \<Rightarrow> usage_period \<Rightarrow> db \<Rightarrow> db" where
  "after_reserve now a lrid stage amt tok w p s =
     s\<lparr>usage_windows := update_where (\<lambda>x. uw_id x = uw_id w) (hold_window amt tok) (usage_windows s),
       usage_periods := update_where (\<lambda>x. up_id x = up_id p) (hold_period amt) (usage_periods s),
       platform_budgets := update_where (\<lambda>x. pb_window_key x = uw_window_key w) (hold_platform amt) (platform_budgets s),
       budget_reservations := budget_reservations s
         @ [new_reservation now a lrid stage amt tok (uw_id w) (up_id p) (next_id s)],
       next_id := Suc (next_id s)\<rparr>"

lemma policy_for_known: "subscription_of a s = Some su \<Longrightarrow> policy_for now a s = Ok (su, plan_policy (Some su)) s"
  by (simp add: policy_for_def andthen_def ret_def)

lemma ensure_usage_window_known:
  "subscription_of a s = Some su \<Longrightarrow> find_window a (fst (current_window_key now)) s = Some w \<Longrightarrow>
   get_platform (fst (current_window_key now)) s = Some b \<Longrightarrow> ensure_usage_window now st a s = Ok w s"
  by (simp add: ensure_usage_window_def ensure_window_row_def ensure_platform_row_def policy_for_known
      andthen_def ret_def Let_def)

lemma ensure_usage_period_known:
  "active_period a now s = Some p \<Longrightarrow> ensure_usage_period now a policy anchor s = Ok p s"
  by (simp add: ensure_usage_period_def andthen_def ret_def)

lemma reclaim_rows_live: "\<forall>r \<in> set rows. reservation_is_live r now \<Longrightarrow> reclaim_rows now rows s = Ok 0 s"
  by (induction rows) (simp_all add: ret_def)

lemma reclaim_live:
  assumes "\<forall>r \<in> set (stale_candidates key s). reservation_is_live r now"
  shows "reclaim_stale_reservations key now k s = Ok 0 s"
proof -
  have "\<forall>r \<in> set (take k (stale_candidates key s)). reservation_is_live r now"
    using assms by (meson in_set_takeD)
  then show ?thesis
    by (simp add: reclaim_stale_reservations_def andthen_def reclaim_rows_live)
qed

lemma hold_window_row:
  assumes "distinct (map uw_id rows)" and "w \<in> set rows"
  shows "row_count (window_has_room (uw_id w) amt tok) rows = (if window_has_room (uw_id w) amt tok w then 1 else 0)"
    and "window_has_room (uw_id w) amt tok w \<Longrightarrow>
      update_where (window_has_room (uw_id w) amt tok) f rows = update_where (\<lambda>x. uw_id x = uw_id w) f rows"
proof -
  show c: "row_count (window_has_room (uw_id w) amt tok) rows = (if window_has_room (uw_id w) amt tok w then 1 else 0)"
    by (rule row_count_key [OF assms(1) _ assms(2) refl]) (auto simp: window_has_room_def)
  show "update_where (window_has_room (uw_id w) amt tok) f rows = update_where (\<lambda>x. uw_id x = uw_id w) f rows"
    if "window_has_room (uw_id w) amt tok w"
    by (rule update_where_one(1) [OF assms(1)]) (use c that in \<open>simp_all add: window_has_room_def\<close>)
qed

lemma hold_period_row:
  assumes "distinct (map up_id rows)" and "p \<in> set rows"
  shows "row_count (period_has_room (up_id p) amt) rows = (if period_has_room (up_id p) amt p then 1 else 0)"
    and "period_has_room (up_id p) amt p \<Longrightarrow>
      update_where (period_has_room (up_id p) amt) f rows = update_where (\<lambda>x. up_id x = up_id p) f rows"
proof -
  show c: "row_count (period_has_room (up_id p) amt) rows = (if period_has_room (up_id p) amt p then 1 else 0)"
    by (rule row_count_key [OF assms(1) _ assms(2) refl]) (auto simp: period_has_room_def)
  show "update_where (period_has_room (up_id p) amt) f rows = update_where (\<lambda>x. up_id x = up_id p) f rows"
    if "period_has_room (up_id p) amt p"
    by (rule update_where_one(1) [OF assms(1)]) (use c that in \<open>simp_all add: period_has_room_def\<close>)
qed

lemma hold_platform_row:
  assumes "distinct (map pb_window_key rows)" and "b \<in> set rows" and "pb_window_key b = key"
  shows "row_count (platform_has_room key amt) rows = (if platform_has_room key amt b then 1 else 0)"
    and "platform_has_room key amt b \<Longrightarrow>
      update_where (platform_has_room key amt) f rows = update_where (\<lambda>x. pb_window_key x = key) f rows"
proof -
  show c: "row_count (platform_has_room key amt) rows = (if platform_has_room key amt b then 1 else 0)"
    by (rule row_count_key [OF assms(1) _ assms(2,3)]) (auto simp: platform_has_room_def)
  show "update_where (platform_has_room key amt) f rows = update_where (\<lambda>x. pb_window_key x = key) f rows"
    if "platform_has_room key amt b"
    by (rule update_where_one(1) [OF assms(1)]) (use c that in \<open>simp_all add: platform_has_room_def\<close>)
qed

definition reservation_outcome ::
  "datetime \<Rightarrow> nat \<Rightarrow> string \<Rightarrow> string \<Rightarrow> int \<Rightarrow> int \<Rightarrow> usage_window \<Rightarrow> usage_period \<Rightarrow> platform_budget \<Rightarrow> db
   \<Rightarrow> (service_error, budget_reservation, db) result \<Rightarrow> bool" where
  "reservation_outcome now a lrid stage amt tok w p b s result \<longleftrightarrow> (case result of
      Ok r t \<Rightarrow> window_has_room (uw_id w) amt tok w \<and> period_has_room (up_id p) amt p
        \<and> platform_has_room (uw_window_key w) amt b
        \<and> r = new_reservation now a lrid stage amt tok (uw_id w) (up_id p) (next_id s)
        \<and> t = after_reserve now a lrid stage amt tok w p s
    | Raise e t \<Rightarrow>
        if \<not> window_has_room (uw_id w) amt tok w
        then e = BudgetDenied (if tok > 0 \<and> uw_tokens_reserved w + uw_tokens_settled w + tok > uw_token_limit w
               then ''daily token quota exhausted'' else ''account allowance exhausted'') (uw_reset_at w)
        else if \<not> period_has_room (up_id p) amt p
        then e = BudgetDenied ''account period budget exhausted'' (up_reset_at p)
        else \<not> platform_has_room (uw_window_key w) amt b
           \<and> e = BudgetDenied ''platform spending is temporarily paused'' (uw_reset_at w))"

lemma reserve_budget_first:
  assumes "0 < amt" and new: "find_reservation a lrid stage s = None"
    and su: "subscription_of a s = Some su" and w: "find_window a (fst (current_window_key now)) s = Some w"
    and b: "get_platform (fst (current_window_key now)) s = Some b" and p: "active_period a now s = Some p"
    and live: "\<forall>r \<in> set (stale_candidates (uw_window_key w) s). reservation_is_live r now"
    and wf: "ledger_wf s"
  shows "reservation_outcome now a lrid stage amt tok w p b s (reserve_budget now st a lrid stage amt tok s)"
proof -
  have in_w: "w \<in> set (usage_windows s)" and key: "uw_window_key w = fst (current_window_key now)"
    using w by (auto simp: find_window_def dest: select_first_Some)
  have in_b: "b \<in> set (platform_budgets s)" "pb_window_key b = uw_window_key w"
    using b key by (auto simp: get_platform_def dest: select_first_Some)
  have in_p: "p \<in> set (usage_periods s)" using active_period_in [OF p] by simp
  have d: "distinct (map uw_id (usage_windows s))" "distinct (map up_id (usage_periods s))"
    "distinct (map pb_window_key (platform_budgets s))"
    using wf by (simp_all add: ledger_wf_def)
  note rows = hold_window_row [OF d(1) in_w] hold_period_row [OF d(2) in_p] hold_platform_row [OF d(3) in_b]
  have got: "get_window (uw_id w) s = Some w"
    unfolding get_window_def by (rule select_first_unique [OF d(1) in_w])
  let ?s1 = "s\<lparr>usage_windows := update_where (\<lambda>x. uw_id x = uw_id w) (hold_window amt tok) (usage_windows s)\<rparr>"
  have su1: "policy_for now a ?s1 = Ok (su, plan_policy (Some su)) ?s1"
    by (rule policy_for_known) (use su in \<open>simp add: subscription_of_def\<close>)
  have p1: "ensure_usage_period now a policy anchor ?s1 = Ok p ?s1" for policy anchor
    by (rule ensure_usage_period_known) (use p in \<open>simp add: active_period_def\<close>)
  have hold: "reserve_hold a st amt tok now s = hold_on_period w p amt ?s1" if "window_has_room (uw_id w) amt tok w"
    using that by (simp add: reserve_hold_def andthen_def ensure_usage_window_known [OF su w b] reclaim_live [OF live]
        update_windows_def rows su1 p1)
  have deny: "\<exists>t. reserve_hold a st amt tok now s = Raise (BudgetDenied
      (if tok > 0 \<and> uw_tokens_reserved w + uw_tokens_settled w + tok > uw_token_limit w
               then ''daily token quota exhausted'' else ''account allowance exhausted'') (uw_reset_at w)) t"
    if "\<not> window_has_room (uw_id w) amt tok w"
  proof -
    have "update_where (window_has_room (uw_id w) amt tok) f (usage_windows s) = usage_windows s" for f
      using rows(1) [of amt tok] that by (intro update_where_id) (auto simp: row_count_0)
    then show ?thesis
      using that by (simp add: reserve_hold_def andthen_def ensure_usage_window_known [OF su w b] reclaim_live [OF live]
        update_windows_def rows deny_window_def got raise_def)
  qed
  have run: "reserve_budget now st a lrid stage amt tok s
      = reserve_new now st a lrid stage amt tok s"
    using assms(1) new by (simp add: reserve_budget_def andthen_def)
  show ?thesis
  proof (cases "window_has_room (uw_id w) amt tok w \<and> period_has_room (up_id p) amt p")
    case True
    then show ?thesis
      using new by (auto simp: reservation_outcome_def run reserve_new_def andthen_def hold hold_on_period_def
          update_periods_def rows hold_on_platform_def update_platforms_def raise_def ret_def insert_row_def
          after_reserve_def find_reservation_def split: result.splits)
  next
    case False
    then show ?thesis
      using deny by (cases "window_has_room (uw_id w) amt tok w")
        (auto simp: reservation_outcome_def run reserve_new_def andthen_def hold hold_on_period_def
          update_periods_def rows raise_def split: result.splits)
  qed
qed

text \<open>C5: The branches of a first reservation. For an account that has its subscription, its window
  and billing period of the moment and the day's platform row, with no lapsed reservation to reclaim,
  reserving succeeds exactly when the window (money, request count and, for a live request, tokens),
  the period and the platform all have room; it then takes the hold on all three and records it. When
  one has no room, the first of the three that lacks it is the one denied, with its message and the
  instant its limit lifts.\<close>

theorem reservation_decides:
  assumes "0 < amt" and "find_reservation a lrid stage s = None"
    and "subscription_of a s = Some su" and "find_window a (fst (current_window_key now)) s = Some w"
    and "get_platform (fst (current_window_key now)) s = Some b" and "active_period a now s = Some p"
    and "\<forall>r \<in> set (stale_candidates (uw_window_key w) s). reservation_is_live r now"
    and "ledger_wf s"
  shows "case reserve_budget now st a lrid stage amt tok s of
      Ok r t \<Rightarrow> window_has_room (uw_id w) amt tok w \<and> period_has_room (up_id p) amt p
        \<and> platform_has_room (uw_window_key w) amt b
        \<and> r = new_reservation now a lrid stage amt tok (uw_id w) (up_id p) (next_id s)
        \<and> t = after_reserve now a lrid stage amt tok w p s
    | Raise e t \<Rightarrow>
        if \<not> window_has_room (uw_id w) amt tok w
        then e = BudgetDenied (if tok > 0 \<and> uw_tokens_reserved w + uw_tokens_settled w + tok > uw_token_limit w
               then ''daily token quota exhausted'' else ''account allowance exhausted'') (uw_reset_at w)
        else if \<not> period_has_room (up_id p) amt p
        then e = BudgetDenied ''account period budget exhausted'' (up_reset_at p)
        else \<not> platform_has_room (uw_window_key w) amt b
           \<and> e = BudgetDenied ''platform spending is temporarily paused'' (uw_reset_at w)"
  using reserve_budget_first [OF assms] unfolding reservation_outcome_def .


lemma update_where_undo:
  "(\<And>x. g (f x) = x) \<Longrightarrow> (\<And>x. q (f x) = q x) \<Longrightarrow> update_where q g (update_where q f rows) = rows"
  by (induction rows) auto

lemma demo_found:
  "find_reservation 7 ''request-2'' ''execution'' demo_db = None"
  "subscription_of 7 demo_db = Some (new_subscription demo_now 7 ''ananta'' 0)"
  "find_window 7 ''2026-03-30'' demo_db = Some demo_window"
  "get_platform ''2026-03-30'' demo_db = Some \<lparr>pb_window_key = ''2026-03-30'', pb_spend_limit_micro = 100000,
       pb_reserved_micro = 2000, pb_settled_micro = 0\<rparr>"
  "active_period 7 demo_now demo_db = Some \<lparr>up_id = 3, up_account_id = 7, up_period_key = ''2026-03-30'',
       up_spend_limit_micro = 20000, up_reserved_micro = 2000, up_settled_micro = 0,
       up_reset_at = DateTime (Date 2026 4 30) 0\<rparr>"
  "stale_candidates ''2026-03-30'' demo_db = [demo_row]"
  "uw_window_key demo_window = ''2026-03-30''" "reservation_is_live demo_row demo_now"
  by code_simp+

lemma demo_wf: "ledger_wf demo_db"
  using demo_ok [of False] by (simp add: ledger_ok_def ledger_inv_def)

theorem reservation_decides_witness:
  "(\<exists>r t. reserve_budget demo_now default_settings 7 ''request-2'' ''execution'' 2000 0 demo_db = Ok r t
      \<and> map uw_reserved_micro (usage_windows t) = [4000])
   \<and> (\<exists>t. reserve_budget demo_now default_settings 7 ''request-2'' ''execution'' 20000 0 demo_db
      = Raise (BudgetDenied ''account period budget exhausted'' (DateTime (Date 2026 4 30) 0)) t)"
proof -
  have live: "\<forall>r \<in> set (stale_candidates (uw_window_key demo_window) demo_db). reservation_is_live r demo_now"
    by (simp add: demo_found)
  note decides = reservation_decides [OF _ demo_found(1,2) _ _ demo_found(5) live demo_wf,
      unfolded demo_key fst_conv, OF _ demo_found(3,4)]
  note room = window_has_room_def period_has_room_def platform_has_room_def demo_window_def
  have "\<exists>r t. reserve_budget demo_now default_settings 7 ''request-2'' ''execution'' 2000 0 demo_db = Ok r t
      \<and> map uw_reserved_micro (usage_windows t) = [4000]"
    using decides [of 2000 0 default_settings]
    by (auto simp: room after_reserve_def demo_rows hold_window_def split: result.splits if_splits)
  moreover have "\<exists>t. reserve_budget demo_now default_settings 7 ''request-2'' ''execution'' 20000 0 demo_db
      = Raise (BudgetDenied ''account period budget exhausted'' (DateTime (Date 2026 4 30) 0)) t"
    using decides [of 20000 0 default_settings]
    by (auto simp: room split: result.splits if_splits)
  ultimately show ?thesis by blast
qed

text \<open>C6: Reserve and release. A first reservation that succeeds, released before it is settled,
  restores the three counter tables to exactly what they were: no money, token or request of the
  allowance is lost, and the reservation stays behind as RELEASED.\<close>

theorem reserve_release_roundtrip:
  assumes "0 < amt" and "find_reservation a lrid stage s = None"
    and "subscription_of a s = Some su" and "find_window a (fst (current_window_key now)) s = Some w"
    and "get_platform (fst (current_window_key now)) s = Some b" and "active_period a now s = Some p"
    and "\<forall>r \<in> set (stale_candidates (uw_window_key w) s). reservation_is_live r now"
    and "ledger_wf s" and ok: "reserve_budget now st a lrid stage amt tok s = Ok r t"
  shows "\<exists>u. release_budget r t = Ok () u \<and> usage_windows u = usage_windows s
     \<and> usage_periods u = usage_periods s \<and> platform_budgets u = platform_budgets s
     \<and> budget_reservations u = budget_reservations s @ [r\<lparr>br_status := RELEASED\<rparr>]"
proof -
  have r: "r = new_reservation now a lrid stage amt tok (uw_id w) (up_id p) (next_id s)"
    and t: "t = after_reserve now a lrid stage amt tok w p s"
    using reserve_budget_first [OF assms(1-8), of tok st] ok by (simp_all add: reservation_outcome_def)
  have fresh: "br_id x \<noteq> next_id s" if "x \<in> set (budget_reservations s)" for x
    using assms(8) that by (auto simp: ledger_wf_def)
  have mine: "claimable r x \<longleftrightarrow> False" if "x \<in> set (budget_reservations s)" for x
    using fresh [OF that] by (simp add: claimable_def r new_reservation_def)
  have self: "claimable r r" by (simp add: claimable_def r new_reservation_def)
  have res: "budget_reservations t = budget_reservations s @ [r]" by (simp add: t after_reserve_def r)
  have "row_count (claimable r) (budget_reservations s) = 0" using mine by (simp add: row_count_0)
  then have one: "row_count (claimable r) (budget_reservations t) = 1"
    using self by (simp add: res row_count_def)
  have in_w: "w \<in> set (usage_windows s)"
    using assms(4) by (auto simp: find_window_def dest: select_first_Some)
  have got: "get_window (br_usage_window_id r) t = Some (hold_window amt tok w)"
    using select_first_unique [of uw_id "usage_windows s" w] in_w assms(8)
    by (simp add: r new_reservation_def get_window_def t after_reserve_def ledger_wf_def
        select_first_update hold_window_def)
  have undo: "release_window amt tok (hold_window amt tok x) = x" "release_period amt (hold_period amt y) = y"
    "release_platform amt (hold_platform amt z) = z" for x y z
    by (simp_all add: release_window_def hold_window_def release_period_def hold_period_def
        release_platform_def hold_platform_def)
  have keys: "uw_id (hold_window amt tok x) = uw_id x" "uw_window_key (hold_window amt tok x) = uw_window_key x"
    "up_id (hold_period amt y) = up_id y" "pb_window_key (hold_platform amt z) = pb_window_key z" for x y z
    by (simp_all add: hold_window_def hold_period_def hold_platform_def)
  have undone: "update_where (claimable r) f (budget_reservations s) = budget_reservations s" for f
    using mine by (simp add: update_where_id)
  have fields: "br_usage_window_id r = uw_id w" "br_usage_period_id r = Some (up_id p)"
    "br_reserved_micro r = amt" "br_reserved_tokens r = tok"
    by (simp_all add: r new_reservation_def)
  let ?u = "release_effect r (uw_window_key w) t"
  have "usage_windows ?u = usage_windows s" "usage_periods ?u = usage_periods s"
    "platform_budgets ?u = platform_budgets s"
    by (simp_all add: release_effect_def counters_effect_def claim_effect_def t after_reserve_def fields
        update_where_undo undo keys)
  moreover have "budget_reservations ?u = budget_reservations s @ [r\<lparr>br_status := RELEASED\<rparr>]"
    using self undone by (simp add: release_effect_def counters_effect_def claim_effect_def res)
  moreover have "release_budget r t = Ok () ?u"
    using release_budget_won [OF one got] by (simp add: keys)
  ultimately show ?thesis by blast
qed

theorem reserve_release_roundtrip_witness:
  "\<exists>r t u. reserve_budget demo_now default_settings 7 ''request-2'' ''execution'' 2000 0 demo_db = Ok r t
     \<and> usage_windows t \<noteq> usage_windows demo_db
     \<and> release_budget r t = Ok () u \<and> usage_windows u = usage_windows demo_db"
proof -
  have live: "\<forall>r \<in> set (stale_candidates (uw_window_key demo_window) demo_db). reservation_is_live r demo_now"
    by (simp add: demo_found)
  have "\<exists>r t. reserve_budget demo_now default_settings 7 ''request-2'' ''execution'' 2000 0 demo_db = Ok r t
      \<and> usage_windows t \<noteq> usage_windows demo_db"
    using reserve_budget_first [OF _ demo_found(1,2) _ _ demo_found(5) live demo_wf, where amt = 2000 and tok = 0 and st = default_settings]
      demo_found(3,4)
    by (auto simp: demo_key reservation_outcome_def window_has_room_def period_has_room_def platform_has_room_def
        demo_window_def after_reserve_def demo_rows hold_window_def split: result.splits if_splits)
  then obtain r t where ok: "reserve_budget demo_now default_settings 7 ''request-2'' ''execution'' 2000 0 demo_db = Ok r t"
    and ne: "usage_windows t \<noteq> usage_windows demo_db" by blast
  show ?thesis
    using reserve_release_roundtrip [OF _ demo_found(1,2) _ _ demo_found(5) live demo_wf ok] ok ne
      demo_found(3,4) by (auto simp: demo_key)
qed

end
