(* ===== verification/Ledger_Lapse.thy ===== *)
theory Ledger_Lapse
  imports Ledger_Props
begin

text \<open>
  What happens to reservations whose lease lapsed: reclaiming them, and three behaviours of the
  code that its comments do not describe.
\<close>


definition demo_later :: datetime where
  "demo_later = DateTime (Date 2026 3 30) 43320000000"

lemma demo_lapsed: "\<not> reservation_is_live demo_row demo_later"
  by code_simp


text \<open>A reactivated reservation starts with a lapsed lease. Reserving again with the key of a
  RELEASED reservation reuses its row, but its \<open>created_at\<close> stays that of the first attempt: when
  that is older than the lease, the row just returned as RESERVED is already not live, so that
  the next reservation of any account in that window, or a retry with the same key, may charge it as
  abandoned while its request is running.\<close>

theorem reactivated_hold_is_born_lapsed:
  assumes "find_reservation a lrid stage s = Some e" and "br_status e = RELEASED"
    and "\<not> reservation_is_live e now" and "ledger_ok False s" and "0 \<le> global_daily_budget_micro st"
    and "0 \<le> tok" and "reserve_budget now st a lrid stage amt tok s = Ok r t"
  shows "br_status r = RESERVED \<and> r \<in> set (budget_reservations t) \<and> \<not> reservation_is_live r now"
proof -
  have e: "e \<in> set (budget_reservations s)" using assms(1) by (auto simp: find_reservation_def dest: select_first_Some)
  have "amt > 0" using assms(7) by (auto simp: reserve_budget_def raise_def split: if_splits)
  then have run: "reserve_again now st a lrid amt tok e s = Ok r t"
    using assms(1,2,7) by (simp add: reserve_budget_def andthen_def)
  obtain w p u where hold: "reserve_hold a st amt tok now s = Ok (w, p) u"
    using run by (auto simp: reserve_again_def andthen_Ok_conv)
  have kept: "kept_rows now s u" and wf: "ledger_wf u"
    using wpD [OF wp_reserve_hold [OF assms(4-6)] hold] by (auto dest: held_wf)
  have eu: "e \<in> set (budget_reservations u)" using kept e assms(2) by (simp add: kept_rows_def)
  have d: "distinct (map br_id (budget_reservations u))" using wf by (simp add: ledger_wf_def)
  let ?p = "\<lambda>x. br_id x = br_id e \<and> br_status x \<noteq> RESERVED"
  let ?f = "reactivate amt tok (uw_id w) (up_id p)"
  have t: "t = u\<lparr>budget_reservations := update_where ?p ?f (budget_reservations u)\<rparr>"
    and got: "get_reservation (br_id e) t = Some r"
    using run hold by (auto simp: reserve_again_def andthen_def update_reservations_def raise_def ret_def
        split: if_splits option.splits)
  have "r \<in> set (update_where ?p ?f (budget_reservations u))" and id: "br_id r = br_id e"
    using got t by (auto simp: get_reservation_def dest: select_first_Some)
  then obtain x where x: "x \<in> set (budget_reservations u)" "r = (if ?p x then ?f x else x)"
    by (auto simp: set_update_where)
  have "br_id x = br_id e" using x(2) id by (simp add: reactivate_def split: if_splits)
  then have "x = e" using key_unique [OF d x(1) eu] by simp
  then have "r = ?f e" using x(2) assms(2) by simp
  moreover have "r \<in> set (budget_reservations t)"
    using \<open>r \<in> set (update_where _ _ _)\<close> t by simp
  ultimately show ?thesis using assms(3) by (simp add: reactivate_def reservation_is_live_def)
qed

text \<open>The demo reservation, released, and reserved again two minutes after its first attempt.\<close>

definition demo_released :: db where
  "demo_released = state_of (release_budget demo_row demo_db)"

lemma demo_released_ok: "ledger_ok strict demo_released"
  using ledger_ok_release [OF demo_ok [of strict], of demo_row]
  by (auto simp: demo_released_def agrees_def demo_rows)

lemma demo_released_row:
  "find_reservation 7 ''request-1'' ''execution'' demo_released = Some (demo_row\<lparr>br_status := RELEASED\<rparr>)"
  by code_simp

theorem reactivated_hold_is_born_lapsed_witness:
  "case reserve_budget demo_later default_settings 7 ''request-1'' ''execution'' 2000 100 demo_released of
     Ok r t \<Rightarrow> br_status r = RESERVED \<and> \<not> reservation_is_live r demo_later
   | Raise e t \<Rightarrow> False"
proof -
  have "case reserve_budget demo_later default_settings 7 ''request-1'' ''execution'' 2000 100 demo_released of
     Ok r t \<Rightarrow> True | Raise e t \<Rightarrow> False"
    by code_simp
  then obtain r t where run:
    "reserve_budget demo_later default_settings 7 ''request-1'' ''execution'' 2000 100 demo_released = Ok r t"
    by (auto split: result.splits)
  have lapsed: "\<not> reservation_is_live (demo_row\<lparr>br_status := RELEASED\<rparr>) demo_later"
    using demo_lapsed by (simp add: reservation_is_live_def)
  show ?thesis
    using reactivated_hold_is_born_lapsed [OF demo_released_row _ lapsed demo_released_ok demo_budget _ run] run
    by simp
qed

text \<open>A finished reservation is returned without a hold. Reserving with the key of a SETTLED or
  UNKNOWN reservation (the latter is what a lapsed one becomes when another request reclaims it)
  returns that row, holds nothing, and whatever the caller then settles or releases on it changes
  nothing: the provider calls made in between reach neither the counters nor the cost ledger.\<close>

theorem finished_reservation_bypasses_ledger:
  assumes "0 < amt" and "find_reservation a lrid stage s = Some e" and "br_status e \<in> {SETTLED, UNKNOWN}"
    and "distinct (map br_id (budget_reservations s))"
  shows "reserve_budget now st a lrid stage amt tok s = Ok e s
     \<and> settle_budget now e aid actual tokens calls s = Ok e s \<and> release_budget e s = Ok () s"
proof -
  have e: "e \<in> set (budget_reservations s)" using assms(2) by (auto simp: find_reservation_def dest: select_first_Some)
  have "\<not> claimable e x" if "x \<in> set (budget_reservations s)" for x
    using key_unique [OF assms(4) that e] assms(3) by (auto simp: claimable_def)
  then have none: "row_count (claimable e) (budget_reservations s) = 0" by (simp add: row_count_0)
  have "reserve_budget now st a lrid stage amt tok s = Ok e s"
    using assms(1-3) by (simp add: reserve_budget_def andthen_def ret_def)
  then show ?thesis using unclaimable [OF assms(4) none refl] by blast
qed

definition demo_reclaimed :: db where
  "demo_reclaimed = state_of (reclaim_stale_reservations ''2026-03-30'' demo_later 100 demo_db)"

theorem finished_reservation_bypasses_ledger_witness:
  "reserve_budget demo_later default_settings 7 ''request-1'' ''execution'' 2000 100 demo_reclaimed
     = Ok (demo_row\<lparr>br_status := UNKNOWN\<rparr>) demo_reclaimed
   \<and> settle_budget demo_later (demo_row\<lparr>br_status := UNKNOWN\<rparr>) ''a'' (Some 9) (Some 9) [] demo_reclaimed
     = Ok (demo_row\<lparr>br_status := UNKNOWN\<rparr>) demo_reclaimed"
proof -
  have f: "find_reservation 7 ''request-1'' ''execution'' demo_reclaimed = Some (demo_row\<lparr>br_status := UNKNOWN\<rparr>)"
    by code_simp
  have d: "distinct (map br_id (budget_reservations demo_reclaimed))" by code_simp
  show ?thesis
    using finished_reservation_bypasses_ledger [OF _ f _ d, of 2000 demo_later default_settings 100] by simp
qed

definition evening :: datetime where "evening = DateTime (Date 2026 3 30) 86370000000"
definition after_midnight :: datetime where "after_midnight = DateTime (Date 2026 3 31) 120000000"


end
