(* ===== verification/Worker.thy ===== *)
theory Worker
  imports Models Config
begin

text \<open>
  The delivery worker (\<open>daily_agent/worker.py\<close>). The code passes a table and the name of its status
  column to \<open>_claim\<close>, \<open>_finish\<close> and \<open>_fail_exhausted\<close>; here they take the columns of the table as a
  record of accessors. The locale \<open>lease_table\<close> holds what the accessors must satisfy, and the lease
  protocol is proved once in it for any interleaving of any number of workers, each with its own
  clock; the outbox and the reminders are its two interpretations.
\<close>

section \<open>Leased rows\<close>

record 'r lease_columns =
  lc_id :: "'r \<Rightarrow> nat"
  lc_status :: "'r \<Rightarrow> string"
  lc_attempts :: "'r \<Rightarrow> int"
  lc_lease_until :: "'r \<Rightarrow> datetime option"
  lc_set :: "string \<Rightarrow> int \<Rightarrow> datetime option \<Rightarrow> 'r \<Rightarrow> 'r"

definition outbox_columns :: "outbox_event lease_columns" where
  "outbox_columns = \<lparr>lc_id = ob_id, lc_status = ob_status, lc_attempts = ob_attempts, lc_lease_until = ob_lease_until,
     lc_set = (\<lambda>status attempts lease r. r\<lparr>ob_status := status, ob_attempts := attempts, ob_lease_until := lease\<rparr>)\<rparr>"

definition reminder_columns :: "reminder lease_columns" where
  "reminder_columns = \<lparr>lc_id = re_id, lc_status = re_state, lc_attempts = re_attempts, lc_lease_until = re_lease_until,
     lc_set = (\<lambda>status attempts lease r. r\<lparr>re_state := status, re_attempts := attempts, re_lease_until := lease\<rparr>)\<rparr>"

definition LEASE_SECONDS :: nat where "LEASE_SECONDS = 60"
definition MAX_DELIVERIES :: int where "MAX_DELIVERIES = 5"
definition BATCH_SIZE :: nat where "BATCH_SIZE = 50"

definition DELIVERING :: string where "DELIVERING = ''delivering''"
definition DELIVERED :: string where "DELIVERED = ''delivered''"
definition DELIVERY_FAILED :: string where "DELIVERY_FAILED = ''failed''"

text \<open>\<open>c.lease_until < now\<close>, false of a null lease\<close>

definition lease_passed :: "'r lease_columns \<Rightarrow> datetime \<Rightarrow> 'r \<Rightarrow> bool" where
  "lease_passed T now r = (case lc_lease_until T r of None \<Rightarrow> False | Some l \<Rightarrow> l < now)"

definition claimable :: "'r lease_columns \<Rightarrow> string \<Rightarrow> datetime \<Rightarrow> 'r \<Rightarrow> bool" where
  "claimable T pending now r \<longleftrightarrow>
     lc_status T r = pending \<or> lc_status T r = DELIVERING \<and> lease_passed T now r"

definition take_lease :: "'r lease_columns \<Rightarrow> datetime \<Rightarrow> 'r \<Rightarrow> 'r" where
  "take_lease T now r = lc_set T DELIVERING (lc_attempts T r + 1) (Some (add_seconds now LEASE_SECONDS)) r"

text \<open>One guarded update of the loop in \<open>_claim\<close>, committed on its own: whether the worker won the
  row, and the table after it\<close>

definition claim_row :: "'r lease_columns \<Rightarrow> string \<Rightarrow> datetime \<Rightarrow> nat \<Rightarrow> 'r list \<Rightarrow> bool \<times> 'r list" where
  "claim_row T pending now i rows =
     (let won = (\<lambda>r. lc_id T r = i \<and> claimable T pending now r)
      in (row_count won rows = 1, update_where won (take_lease T now) rows))"

fun claim_rows :: "'r lease_columns \<Rightarrow> string \<Rightarrow> datetime \<Rightarrow> nat list \<Rightarrow> 'r list \<Rightarrow> nat list \<times> 'r list" where
  "claim_rows T pending now [] rows = ([], rows)"
| "claim_rows T pending now (i # ids) rows =
     (let (won, rows1) = claim_row T pending now i rows;
          (claimed, rows2) = claim_rows T pending now ids rows1
      in (if won then i # claimed else claimed, rows2))"

definition claim_candidates :: "'r lease_columns \<Rightarrow> string \<Rightarrow> datetime \<Rightarrow> ('r \<Rightarrow> bool) \<Rightarrow> 'r list \<Rightarrow> nat list" where
  "claim_candidates T pending now extra rows =
     map (lc_id T) (take BATCH_SIZE (filter (\<lambda>r. claimable T pending now r \<and> extra r) rows))"

definition claim :: "'r lease_columns \<Rightarrow> string \<Rightarrow> datetime \<Rightarrow> ('r \<Rightarrow> bool) \<Rightarrow> 'r list \<Rightarrow> nat list \<times> 'r list" where
  "claim T pending now extra rows = claim_rows T pending now (claim_candidates T pending now extra rows) rows"

definition finish :: "'r lease_columns \<Rightarrow> nat \<Rightarrow> 'r list \<Rightarrow> bool \<times> 'r list" where
  "finish T i rows =
     (let mine = (\<lambda>r. lc_id T r = i \<and> lc_status T r = DELIVERING)
      in (row_count mine rows = 1, update_where mine (\<lambda>r. lc_set T DELIVERED (lc_attempts T r) None r) rows))"

definition exhausted :: "'r lease_columns \<Rightarrow> datetime \<Rightarrow> 'r \<Rightarrow> bool" where
  "exhausted T now r \<longleftrightarrow>
     lc_status T r = DELIVERING \<and> lease_passed T now r \<and> MAX_DELIVERIES \<le> lc_attempts T r"

definition fail_exhausted :: "'r lease_columns \<Rightarrow> datetime \<Rightarrow> 'r list \<Rightarrow> 'r list" where
  "fail_exhausted T now rows =
     update_where (exhausted T now) (\<lambda>r. lc_set T DELIVERY_FAILED (lc_attempts T r) None r) rows"

section \<open>One pass of the worker\<close>

text \<open>What is handed to the adapter: the outbox payload, or the user and the text of a reminder.\<close>

datatype payload = Response_payload utext outcome | Reminder_payload nat utext

datatype job = Outbox_job nat string payload | Reminder_job nat string payload

definition outbox_job :: "db \<Rightarrow> nat \<Rightarrow> job list" where
  "outbox_job s i = (case select_first (\<lambda>e. ob_id e = i) (outbox_events s) of
       None \<Rightarrow> []
     | Some e \<Rightarrow> [Outbox_job i (ob_logical_key e) (Response_payload (fst (ob_payload e)) (snd (ob_payload e)))])"

definition reminder_job :: "db \<Rightarrow> nat \<Rightarrow> job list" where
  "reminder_job s i = (case select_first (\<lambda>r. re_id r = i) (reminders s) of
       None \<Rightarrow> []
     | Some r \<Rightarrow> [Reminder_job i (''reminder:'' @ nat_str i) (Reminder_payload (re_owner_user_id r) (re_text r))])"

text \<open>\<open>deliver key payload\<close> says whether the adapter returned; otherwise it raised and the row is left
  to its lease.\<close>

type_synonym adapter = "string \<Rightarrow> payload \<Rightarrow> bool"

fun deliver_job :: "adapter \<Rightarrow> job \<Rightarrow> db \<Rightarrow> nat \<times> db" where
  "deliver_job deliver (Outbox_job i key p) s =
     (if \<not> deliver key p then (0, s)
      else let (done, rows) = finish outbox_columns i (outbox_events s)
           in (if done then 1 else 0, s\<lparr>outbox_events := rows\<rparr>))"
| "deliver_job deliver (Reminder_job i key p) s =
     (if \<not> deliver key p then (0, s)
      else let (done, rows) = finish reminder_columns i (reminders s)
           in (if done then 1 else 0, s\<lparr>reminders := rows\<rparr>))"

fun deliver_jobs :: "adapter \<Rightarrow> job list \<Rightarrow> db \<Rightarrow> nat \<times> db" where
  "deliver_jobs deliver [] s = (0, s)"
| "deliver_jobs deliver (j # jobs) s =
     (let (n, s1) = deliver_job deliver j s; (m, s2) = deliver_jobs deliver jobs s1 in (n + m, s2))"

definition fail_all_exhausted :: "datetime \<Rightarrow> db \<Rightarrow> db" where
  "fail_all_exhausted now s = s\<lparr>outbox_events := fail_exhausted outbox_columns now (outbox_events s),
     reminders := fail_exhausted reminder_columns now (reminders s)\<rparr>"

definition claim_jobs :: "datetime \<Rightarrow> db \<Rightarrow> job list \<times> db" where
  "claim_jobs now s =
     (let (events, outbox_rows) = claim outbox_columns ''queued'' now (\<lambda>_. True) (outbox_events s);
          s1 = s\<lparr>outbox_events := outbox_rows\<rparr>;
          (due, reminder_rows) = claim reminder_columns ''scheduled'' now (\<lambda>r. re_due_at_utc r \<le> now) (reminders s1);
          s2 = s1\<lparr>reminders := reminder_rows\<rparr>
      in (concat (map (outbox_job s1) events) @ concat (map (reminder_job s2) due), s2))"

definition run_once :: "datetime \<Rightarrow> adapter \<Rightarrow> db \<Rightarrow> nat \<times> db" where
  "run_once now deliver s =
     (let (jobs, s1) = claim_jobs now (fail_all_exhausted now s) in deliver_jobs deliver jobs s1)"

text \<open>\<open>main\<close>: it refuses to start outside development, and then polls until it is interrupted; \<open>polls\<close>
  are the clock readings of the passes made by then.\<close>

definition worker_main :: "settings \<Rightarrow> datetime list \<Rightarrow> adapter \<Rightarrow> db \<Rightarrow> string + db" where
  "worker_main settings polls deliver s =
     (if \<not> is_development settings
      then Inl ''delivery worker only has a test adapter; refusing to run outside development/test''
      else Inr (fold (\<lambda>now s. snd (run_once now deliver s)) polls s))"

section \<open>Many workers\<close>

text \<open>What happened to the rows of a table, newest first\<close>

datatype lease_event = Claimed (event_row: nat) (claimed_at: datetime) | Finished (event_row: nat) | Exhausted (event_row: nat)

definition events_of :: "nat \<Rightarrow> lease_event list \<Rightarrow> lease_event list" where
  "events_of i es = filter (\<lambda>e. event_row e = i) es"

text \<open>The committed transactions of any number of workers, in any order: each worker reads its own
  clock, and may finish a row long after its lease has passed. New rows arrive with a fresh id.\<close>

inductive lease_step :: "'r lease_columns \<Rightarrow> string \<Rightarrow> 'r list \<times> lease_event list \<Rightarrow> 'r list \<times> lease_event list \<Rightarrow> bool"
  for T pending where
  Claim: "claim_row T pending now i rows = (True, rows') \<Longrightarrow>
    lease_step T pending (rows, events) (rows', Claimed i now # events)"
| Lost: "claim_row T pending now i rows = (False, rows') \<Longrightarrow> lease_step T pending (rows, events) (rows', events)"
| Finish: "finish T i rows = (True, rows') \<Longrightarrow> lease_step T pending (rows, events) (rows', Finished i # events)"
| Late: "finish T i rows = (False, rows') \<Longrightarrow> lease_step T pending (rows, events) (rows', events)"
| Exhaust: "lease_step T pending (rows, events)
    (fail_exhausted T now rows, map (\<lambda>r. Exhausted (lc_id T r)) (filter (exhausted T now) rows) @ events)"
| Enqueue: "lc_id T r \<notin> lc_id T ` set rows \<Longrightarrow> lc_status T r = pending \<Longrightarrow> lc_attempts T r = 0 \<Longrightarrow>
    lc_lease_until T r = None \<Longrightarrow> lease_step T pending (rows, events) (rows @ [r], events)"

inductive lease_reachable :: "'r lease_columns \<Rightarrow> string \<Rightarrow> 'r list \<times> lease_event list \<Rightarrow> bool" for T pending where
  Empty: "lease_reachable T pending ([], [])"
| Step: "lease_reachable T pending st \<Longrightarrow> lease_step T pending st st' \<Longrightarrow> lease_reachable T pending st'"

text \<open>The life of one row as its events tell it: claims, each after the lease of the one before has
  passed, ended at most once, by a delivery or, after at least \<open>MAX_DELIVERIES\<close> claims, by giving
  up.\<close>

definition is_claim :: "lease_event \<Rightarrow> bool" where
  "is_claim e = (case e of Claimed _ _ \<Rightarrow> True | _ \<Rightarrow> False)"

fun lease_history :: "lease_event list \<Rightarrow> bool" where
  "lease_history [] = True"
| "lease_history (Claimed i t # h) =
     (h = [] \<or> is_claim (hd h) \<and> add_seconds (claimed_at (hd h)) LEASE_SECONDS < t \<and> lease_history h)"
| "lease_history (Finished i # h) = (h \<noteq> [] \<and> is_claim (hd h) \<and> lease_history h)"
| "lease_history (Exhausted i # h) =
     (h \<noteq> [] \<and> is_claim (hd h) \<and> MAX_DELIVERIES \<le> int (length h) \<and> lease_history h)"

fun status_after :: "string \<Rightarrow> lease_event list \<Rightarrow> string" where
  "status_after pending [] = pending"
| "status_after pending (Claimed i t # h) = DELIVERING"
| "status_after pending (Finished i # h) = DELIVERED"
| "status_after pending (Exhausted i # h) = DELIVERY_FAILED"

fun lease_after :: "lease_event list \<Rightarrow> datetime option" where
  "lease_after (Claimed i t # h) = Some (add_seconds t LEASE_SECONDS)"
| "lease_after _ = None"

definition row_told_by :: "'r lease_columns \<Rightarrow> string \<Rightarrow> lease_event list \<Rightarrow> 'r \<Rightarrow> bool" where
  "row_told_by T pending h r \<longleftrightarrow> lease_history h \<and> lc_status T r = status_after pending h
     \<and> lc_attempts T r = int (length (filter is_claim h)) \<and> lc_lease_until T r = lease_after h"

lemma lease_statuses [simp]:
  "DELIVERING \<noteq> DELIVERED" "DELIVERING \<noteq> DELIVERY_FAILED" "DELIVERED \<noteq> DELIVERY_FAILED"
  "DELIVERED \<noteq> DELIVERING" "DELIVERY_FAILED \<noteq> DELIVERING" "DELIVERY_FAILED \<noteq> DELIVERED"
  by (simp_all add: DELIVERING_def DELIVERED_def DELIVERY_FAILED_def)

lemma events_of_simps [simp]:
  "events_of i [] = []" "events_of i (e # h) = (if event_row e = i then e # events_of i h else events_of i h)"
  "events_of i (h @ k) = events_of i h @ events_of i k"
  by (simp_all add: events_of_def)

lemma lease_history_claims: "lease_history (e # h) \<Longrightarrow> filter is_claim h = h"
proof (induction h arbitrary: e)
  case (Cons f h)
  then have f: "is_claim f" "lease_history (f # h)" by (cases e; simp)+
  with Cons.IH [of f] show ?case by simp
qed simp

definition row_after_pass :: "'r lease_columns \<Rightarrow> datetime \<Rightarrow> nat list \<Rightarrow> ('r \<Rightarrow> bool) \<Rightarrow> 'r \<Rightarrow> 'r" where
  "row_after_pass T now won ok r =
     (if exhausted T now r then lc_set T DELIVERY_FAILED (lc_attempts T r) None r
      else if lc_id T r \<notin> set won then r
      else if ok r then lc_set T DELIVERED (lc_attempts T r + 1) None r
      else lc_set T DELIVERING (lc_attempts T r + 1) (Some (add_seconds now LEASE_SECONDS)) r)"

text \<open>A row that has not run out of attempts, and a pending one that has one left\<close>

definition attempts_bounded :: "'r lease_columns \<Rightarrow> string \<Rightarrow> 'r \<Rightarrow> bool" where
  "attempts_bounded T pending r \<longleftrightarrow> lc_attempts T r \<le> MAX_DELIVERIES
     \<and> (lc_status T r \<noteq> pending \<or> lc_attempts T r < MAX_DELIVERIES)"

section \<open>A table whose rows are leased\<close>

locale lease_table =
  fixes T :: "'r lease_columns" and pending :: string
  assumes set_id [simp]: "lc_id T (lc_set T status n l r) = lc_id T r"
    and set_status [simp]: "lc_status T (lc_set T status n l r) = status"
    and set_attempts [simp]: "lc_attempts T (lc_set T status n l r) = n"
    and set_lease [simp]: "lc_lease_until T (lc_set T status n l r) = l"
    and set_set [simp]: "lc_set T status n l (lc_set T status' n' l' r) = lc_set T status n l r"
    and pending_apart: "pending \<notin> {DELIVERING, DELIVERED, DELIVERY_FAILED}"
begin

definition told :: "'r list \<times> lease_event list \<Rightarrow> bool" where
  "told st \<longleftrightarrow> distinct (map (lc_id T) (fst st))
     \<and> (\<forall>r \<in> set (fst st). row_told_by T pending (events_of (lc_id T r) (snd st)) r)
     \<and> (\<forall>i. i \<notin> lc_id T ` set (fst st) \<longrightarrow> events_of i (snd st) = [])"

lemma take_lease_simps [simp]:
  "lc_id T (take_lease T now r) = lc_id T r" "lc_status T (take_lease T now r) = DELIVERING"
  "lc_attempts T (take_lease T now r) = lc_attempts T r + 1"
  "lc_lease_until T (take_lease T now r) = Some (add_seconds now LEASE_SECONDS)"
  by (simp_all add: take_lease_def)

lemma told_update:
  assumes told: "told (rows, events)"
    and id: "\<And>r. lc_id T (f r) = lc_id T r"
    and ev: "\<And>r. r \<in> set rows \<Longrightarrow> events_of (lc_id T r) es = (if p r then [e r] else [])"
    and other: "\<And>i. i \<notin> lc_id T ` set rows \<Longrightarrow> events_of i es = []"
    and row: "\<And>r. r \<in> set rows \<Longrightarrow> p r \<Longrightarrow> row_told_by T pending (events_of (lc_id T r) events) r \<Longrightarrow>
      row_told_by T pending (e r # events_of (lc_id T r) events) (f r)"
  shows "told (update_where p f rows, es @ events)"
proof -
  have ids: "map (lc_id T) (update_where p f rows) = map (lc_id T) rows" using id by simp
  then have "lc_id T ` set (update_where p f rows) = lc_id T ` set rows" by (metis list.set_map)
  then show ?thesis
    using told ids ev other row by (auto simp: told_def set_update_where id)
qed

lemma told_none: "told (rows, events) \<Longrightarrow> \<forall>r \<in> set rows. \<not> p r \<Longrightarrow> told (update_where p f rows, events)"
  by (subst update_where_id) auto

text \<open>An update guarded by the id of a row: it took place, or no row matched.\<close>

lemma told_keyed:
  assumes told: "told (rows, events)" and id: "\<And>r. lc_id T (f r) = lc_id T r" and e: "event_row e = i"
    and row: "\<And>r. r \<in> set rows \<Longrightarrow> lc_id T r = i \<Longrightarrow> q r \<Longrightarrow> row_told_by T pending (events_of i events) r \<Longrightarrow>
      row_told_by T pending (e # events_of i events) (f r)"
  shows "told (update_where (\<lambda>r. lc_id T r = i \<and> q r) f rows,
    (if row_count (\<lambda>r. lc_id T r = i \<and> q r) rows = 1 then [e] else []) @ events)"
proof (cases "row_count (\<lambda>r. lc_id T r = i \<and> q r) rows = 1")
  case True
  then obtain r where r: "r \<in> set rows" "lc_id T r = i" "q r"
    using row_count_pos [of "\<lambda>r. lc_id T r = i \<and> q r" rows] by auto
  have uniq: "x = r" if "x \<in> set rows" "lc_id T x = i" for x
    using told that r key_unique [of "lc_id T" rows x r] by (simp add: told_def)
  show ?thesis unfolding if_P [OF True]
  proof (rule told_update [OF told, where e = "\<lambda>_. e"])
    fix x assume x: "x \<in> set rows"
    show "events_of (lc_id T x) [e] = (if lc_id T x = i \<and> q x then [e] else [])"
      using uniq [OF x] r(3) e by auto
  qed (use id e row r in \<open>auto simp: image_iff\<close>)
next
  case False
  have "distinct (map (lc_id T) rows)" using told by (simp add: told_def)
  then have "row_count (\<lambda>r. lc_id T r = i \<and> q r) rows \<le> 1" by (rule row_count_le_1 [where i = i]) simp
  with False have "row_count (\<lambda>r. lc_id T r = i \<and> q r) rows = 0" by simp
  then show ?thesis using told_none [OF told] False by (simp add: row_count_0)
qed

lemma claim_told:
  assumes "row_told_by T pending h r" and "claimable T pending now r"
  shows "row_told_by T pending (Claimed i now # h) (take_lease T now r)"
proof (cases h)
  case Nil
  then show ?thesis using assms(1) by (simp add: row_told_by_def is_claim_def)
next
  case (Cons e k)
  with assms pending_apart show ?thesis
    by (cases e) (auto simp: row_told_by_def claimable_def lease_passed_def is_claim_def)
qed

lemma finish_told:
  assumes "row_told_by T pending h r" and "lc_status T r = DELIVERING"
  shows "row_told_by T pending (Finished i # h) (lc_set T DELIVERED (lc_attempts T r) None r)"
proof (cases h)
  case (Cons e k)
  with assms show ?thesis by (cases e) (auto simp: row_told_by_def is_claim_def)
qed (use assms pending_apart in \<open>auto simp: row_told_by_def\<close>)

lemma exhausted_told:
  assumes "row_told_by T pending h r" and "exhausted T now r"
  shows "row_told_by T pending (Exhausted i # h) (lc_set T DELIVERY_FAILED (lc_attempts T r) None r)"
proof (cases h)
  case (Cons e k)
  with assms lease_history_claims [of e k] show ?thesis
    by (cases e) (auto simp: row_told_by_def exhausted_def is_claim_def)
qed (use assms pending_apart in \<open>auto simp: row_told_by_def exhausted_def\<close>)

lemma told_step: "lease_step T pending st st' \<Longrightarrow> told st \<Longrightarrow> told st'"
proof (induction rule: lease_step.induct)
  case (Claim now i rows rows' events)
  with told_keyed [of rows events "take_lease T now" "Claimed i now" i "claimable T pending now"] show ?case
    by (auto simp: claim_row_def Let_def claim_told split: if_splits)
next
  case (Lost now i rows rows' events)
  with told_keyed [of rows events "take_lease T now" "Claimed i now" i "claimable T pending now"] show ?case
    by (auto simp: claim_row_def Let_def claim_told split: if_splits)
next
  case (Finish i rows rows' events)
  with told_keyed [of rows events "\<lambda>r. lc_set T DELIVERED (lc_attempts T r) None r" "Finished i" i "\<lambda>r. lc_status T r = DELIVERING"]
  show ?case by (auto simp: finish_def Let_def finish_told split: if_splits)
next
  case (Late i rows rows' events)
  with told_keyed [of rows events "\<lambda>r. lc_set T DELIVERED (lc_attempts T r) None r" "Finished i" i "\<lambda>r. lc_status T r = DELIVERING"]
  show ?case by (auto simp: finish_def Let_def finish_told split: if_splits)
next
  case (Exhaust rows events now)
  have one: "events_of (lc_id T r) (map (\<lambda>r. Exhausted (lc_id T r)) (filter (exhausted T now) rows)) =
      (if exhausted T now r then [Exhausted (lc_id T r)] else [])"
    if "distinct (map (lc_id T) rows)" "r \<in> set rows" for r and rows
    using that
  proof (induction rows)
    case (Cons x rows)
    then have "events_of (lc_id T r) (map (\<lambda>r. Exhausted (lc_id T r)) (filter (exhausted T now) rows)) = []"
      if "x = r" using that by (force simp: events_of_def filter_empty_conv image_iff)
    with Cons show ?case by (cases "x = r") auto
  qed simp
  have none: "events_of i (map (\<lambda>r. Exhausted (lc_id T r)) (filter (exhausted T now) rows)) = []"
    if "i \<notin> lc_id T ` set rows" for i
    using that by (auto simp: events_of_def filter_empty_conv)
  show ?case unfolding fail_exhausted_def
    by (rule told_update [OF Exhaust, where e = "\<lambda>r. Exhausted (lc_id T r)"])
      (use Exhaust one none exhausted_told in \<open>auto simp: told_def\<close>)
next
  case (Enqueue r rows events)
  then show ?case by (auto simp: told_def row_told_by_def)
qed

lemma told_reachable: "lease_reachable T pending st \<Longrightarrow> told st"
proof (induction rule: lease_reachable.induct)
  case Empty
  show ?case by (simp add: told_def)
qed (rule told_step)

lemma reachable_rows_told:
  "lease_reachable T pending (rows, events) \<Longrightarrow> r \<in> set rows \<Longrightarrow>
   row_told_by T pending (events_of (lc_id T r) events) r"
  using told_reachable by (fastforce simp: told_def)

lemma told_history: "told (rows, events) \<Longrightarrow> lease_history (events_of i events)"
  by (cases "i \<in> lc_id T ` set rows") (auto simp: told_def row_told_by_def)

section \<open>One worker alone\<close>

lemma claim_rows_exact:
  assumes "distinct ids" and "distinct (map (lc_id T) rows)"
    and "\<And>i. i \<in> set ids \<Longrightarrow> \<exists>r \<in> set rows. lc_id T r = i \<and> claimable T pending now r"
  shows "claim_rows T pending now ids rows = (ids, update_where (\<lambda>r. lc_id T r \<in> set ids) (take_lease T now) rows)"
  using assms
proof (induction ids arbitrary: rows)
  case (Cons i ids)
  let ?rows = "update_where (\<lambda>r. lc_id T r = i \<and> claimable T pending now r) (take_lease T now) rows"
  obtain r where r: "r \<in> set rows" "lc_id T r = i" "claimable T pending now r" using Cons.prems(3) by force
  have one: "row_count (\<lambda>r. lc_id T r = i \<and> claimable T pending now r) rows = 1"
    using row_count_key [OF Cons.prems(2) _ r(1,2), of "\<lambda>r. lc_id T r = i \<and> claimable T pending now r" "claimable T pending now"] r(3)
    by simp
  have same: "lc_id T x = i \<Longrightarrow> x \<in> set rows \<Longrightarrow> claimable T pending now x" for x
    using r key_unique [OF Cons.prems(2), of x r] by simp
  have rows: "?rows = update_where (\<lambda>r. lc_id T r = i) (take_lease T now) rows"
    using same by (auto simp: update_where_def)
  have d: "distinct (map (lc_id T) ?rows)" using Cons.prems(2) by simp
  have ex: "\<exists>r \<in> set ?rows. lc_id T r = j \<and> claimable T pending now r" if j: "j \<in> set ids" for j
  proof -
    obtain x where x: "x \<in> set rows" "lc_id T x = j" "claimable T pending now x"
      using Cons.prems(3) [of j] j by auto
    moreover have "j \<noteq> i" using Cons.prems(1) j by auto
    ultimately have "x \<in> set ?rows" by (auto simp: set_update_where image_iff)
    then show ?thesis using x by blast
  qed
  have "claim_rows T pending now ids ?rows = (ids, update_where (\<lambda>r. lc_id T r \<in> set ids) (take_lease T now) ?rows)"
    using Cons.prems(1) by (intro Cons.IH d ex) auto
  moreover have "update_where (\<lambda>r. lc_id T r \<in> set ids) (take_lease T now) ?rows
      = update_where (\<lambda>r. lc_id T r \<in> set (i # ids)) (take_lease T now) rows"
    using Cons.prems(1) unfolding rows by (auto simp: update_where_def)
  ultimately show ?case by (simp add: claim_row_def one)
qed (simp add: update_where_def)

lemma candidate_claimable:
  assumes "i \<in> set (claim_candidates T pending now extra rows)"
  shows "\<exists>r \<in> set rows. lc_id T r = i \<and> claimable T pending now r"
proof -
  obtain r where "r \<in> set (take BATCH_SIZE (filter (\<lambda>r. claimable T pending now r \<and> extra r) rows))" "lc_id T r = i"
    using assms by (auto simp: claim_candidates_def)
  then show ?thesis using in_set_takeD by fastforce
qed

lemma claim_exact:
  assumes "distinct (map (lc_id T) rows)"
  shows "claim T pending now extra rows = (claim_candidates T pending now extra rows,
    update_where (\<lambda>r. lc_id T r \<in> set (claim_candidates T pending now extra rows)) (take_lease T now) rows)"
  unfolding claim_def
proof (rule claim_rows_exact)
  show "distinct (claim_candidates T pending now extra rows)"
    using assms unfolding claim_candidates_def take_map [symmetric] by (simp add: distinct_map_filter)
qed (use assms candidate_claimable in auto)

lemma ids_after_claim:
  "distinct (map (lc_id T) rows) \<Longrightarrow>
   distinct (map (lc_id T) (snd (claim T pending now extra (fail_exhausted T now' rows))))"
  by (subst claim_exact) (simp_all add: fail_exhausted_def)

lemma finish_exact:
  assumes "distinct (map (lc_id T) rows)" and "r \<in> set rows" and "lc_id T r = i" and "lc_status T r = DELIVERING"
  shows "finish T i rows = (True, update_where (\<lambda>r. lc_id T r = i) (\<lambda>r. lc_set T DELIVERED (lc_attempts T r) None r) rows)"
proof -
  have "lc_status T x = DELIVERING" if "x \<in> set rows" "lc_id T x = i" for x
    using key_unique [OF assms(1) that(1) assms(2)] that(2) assms by simp
  then have "update_where (\<lambda>r. lc_id T r = i \<and> lc_status T r = DELIVERING) (\<lambda>r. lc_set T DELIVERED (lc_attempts T r) None r) rows
      = update_where (\<lambda>r. lc_id T r = i) (\<lambda>r. lc_set T DELIVERED (lc_attempts T r) None r) rows"
    by (auto simp: update_where_def)
  moreover have "row_count (\<lambda>r. lc_id T r = i \<and> lc_status T r = DELIVERING) rows = 1"
    using row_count_key [OF assms(1) _ assms(2,3), of "\<lambda>r. lc_id T r = i \<and> lc_status T r = DELIVERING"
      "\<lambda>r. lc_status T r = DELIVERING"] assms(4) by simp
  ultimately show ?thesis by (simp add: finish_def Let_def)
qed

text \<open>The deliveries of a pass: the rows \<open>ids\<close> that were delivered, in order\<close>

definition finish_all :: "nat list \<Rightarrow> 'r list \<Rightarrow> 'r list" where
  "finish_all ids rows = fold (\<lambda>i rows. snd (finish T i rows)) ids rows"

lemma finish_all_exact:
  assumes "distinct ids" and "distinct (map (lc_id T) rows)"
    and "\<And>i. i \<in> set ids \<Longrightarrow> \<exists>r \<in> set rows. lc_id T r = i \<and> lc_status T r = DELIVERING"
  shows "finish_all ids rows =
    update_where (\<lambda>r. lc_id T r \<in> set ids) (\<lambda>r. lc_set T DELIVERED (lc_attempts T r) None r) rows"
  using assms
proof (induction ids arbitrary: rows)
  case (Cons i ids)
  obtain r where r: "r \<in> set rows" "lc_id T r = i" "lc_status T r = DELIVERING" using Cons.prems(3) by force
  let ?rows = "update_where (\<lambda>r. lc_id T r = i) (\<lambda>r. lc_set T DELIVERED (lc_attempts T r) None r) rows"
  have ex: "\<exists>r \<in> set ?rows. lc_id T r = j \<and> lc_status T r = DELIVERING" if j: "j \<in> set ids" for j
  proof -
    obtain x where x: "x \<in> set rows" "lc_id T x = j" "lc_status T x = DELIVERING"
      using Cons.prems(3) [of j] j by auto
    moreover have "j \<noteq> i" using Cons.prems(1) j by auto
    ultimately have "x \<in> set ?rows" by (auto simp: set_update_where image_iff)
    then show ?thesis using x by blast
  qed
  have "finish_all ids ?rows = update_where (\<lambda>r. lc_id T r \<in> set ids) (\<lambda>r. lc_set T DELIVERED (lc_attempts T r) None r) ?rows"
    using Cons.prems by (intro Cons.IH ex) auto
  moreover have "\<dots> = update_where (\<lambda>r. lc_id T r \<in> set (i # ids)) (\<lambda>r. lc_set T DELIVERED (lc_attempts T r) None r) rows"
    using Cons.prems(1) by (auto simp: update_where_def)
  ultimately show ?case using finish_exact [OF Cons.prems(2) r] by (simp add: finish_all_def)
qed (simp add: finish_all_def update_where_def)

text \<open>The loop over the jobs of one table, whose rows \<open>get\<close> reads and \<open>put\<close> writes\<close>

lemma deliver_all:
  assumes "\<And>i s. i \<in> set ids \<Longrightarrow> deliver_job deliver (mk i) s =
      (if ok i then (if fst (finish T i (get s)) then 1 else 0, put (snd (finish T i (get s))) s) else (0, s))"
    and get_put: "\<And>rows s. get (put rows s) = rows" "\<And>rows rows' s. put rows (put rows' s) = put rows s" "\<And>s. put (get s) s = s"
    and "distinct ids" and "distinct (map (lc_id T) (get s))"
    and "\<And>i. i \<in> set ids \<Longrightarrow> \<exists>r \<in> set (get s). lc_id T r = i \<and> lc_status T r = DELIVERING"
  shows "deliver_jobs deliver (map mk ids) s =
    (length (filter ok ids), put (finish_all (filter ok ids) (get s)) s)"
  using assms(1,5-)
proof (induction ids arbitrary: s)
  case Nil
  show ?case by (simp add: finish_all_def get_put)
next
  case (Cons i ids)
  show ?case
  proof (cases "ok i")
    case True
    obtain r where r: "r \<in> set (get s)" "lc_id T r = i" "lc_status T r = DELIVERING" using Cons.prems(4) by force
    let ?rows = "update_where (\<lambda>r. lc_id T r = i) (\<lambda>r. lc_set T DELIVERED (lc_attempts T r) None r) (get s)"
    have fin: "finish T i (get s) = (True, ?rows)" by (rule finish_exact [OF Cons.prems(3) r])
    have ex: "\<exists>r \<in> set (get (put ?rows s)). lc_id T r = j \<and> lc_status T r = DELIVERING" if j: "j \<in> set ids" for j
    proof -
      obtain x where x: "x \<in> set (get s)" "lc_id T x = j" "lc_status T x = DELIVERING"
        using Cons.prems(4) [of j] j by auto
      moreover have "j \<noteq> i" using Cons.prems(2) j by auto
      ultimately have "x \<in> set ?rows" by (auto simp: set_update_where image_iff)
      then show ?thesis using x by (auto simp: get_put)
    qed
    have "deliver_jobs deliver (map mk ids) (put ?rows s) =
        (length (filter ok ids), put (finish_all (filter ok ids) (get (put ?rows s))) (put ?rows s))"
      using Cons.prems by (intro Cons.IH ex) (auto simp: get_put)
    then show ?thesis using True Cons.prems(1) [of i] fin by (simp add: get_put finish_all_def)
  next
    case False
    then show ?thesis using Cons.prems(1) [of i] Cons.IH [of s] Cons.prems by simp
  qed
qed

text \<open>A row after a pass at \<open>now\<close> that claimed the rows \<open>won\<close>; \<open>ok\<close> says the adapter took it.\<close>

lemma pass_exact:
  assumes "distinct (map (lc_id T) rows)" and ok: "\<And>status n l r. ok (lc_set T status n l r) = ok r"
    and "won = claim_candidates T pending now extra (fail_exhausted T now rows)"
    and okI: "\<And>r. r \<in> set (snd (claim T pending now extra (fail_exhausted T now rows))) \<Longrightarrow> okI (lc_id T r) = ok r"
  shows "claim T pending now extra (fail_exhausted T now rows) =
      (won, update_where (\<lambda>r. lc_id T r \<in> set won) (take_lease T now) (fail_exhausted T now rows))"
    and "distinct won" and "distinct (map (lc_id T) (snd (claim T pending now extra (fail_exhausted T now rows))))"
    and "\<And>i. i \<in> set won \<Longrightarrow> \<exists>r \<in> set (snd (claim T pending now extra (fail_exhausted T now rows))).
        lc_id T r = i \<and> lc_status T r = DELIVERING"
    and "finish_all (filter okI won) (snd (claim T pending now extra (fail_exhausted T now rows))) =
      map (row_after_pass T now won ok) rows"
    and "length (filter okI won) = row_count (\<lambda>r. lc_id T r \<in> set won \<and> ok r) rows"
    and "list_all (attempts_bounded T pending) rows \<Longrightarrow>
      list_all (attempts_bounded T pending) (map (row_after_pass T now won ok) rows)"
proof -
  let ?failed = "fail_exhausted T now rows"
  have d: "distinct (map (lc_id T) ?failed)" using assms(1) by (simp add: fail_exhausted_def)
  show c: "claim T pending now extra ?failed =
      (won, update_where (\<lambda>r. lc_id T r \<in> set won) (take_lease T now) ?failed)"
    unfolding assms(3) by (rule claim_exact [OF d])
  show dw: "distinct won"
    using d unfolding assms(3) claim_candidates_def take_map [symmetric] by (simp add: distinct_map_filter)
  show dc: "distinct (map (lc_id T) (snd (claim T pending now extra ?failed)))"
    using d by (simp add: c)
  have cand: "\<exists>r \<in> set ?failed. lc_id T r = i \<and> claimable T pending now r" if "i \<in> set won" for i
    using candidate_claimable that unfolding assms(3) .
  show ex: "\<exists>r \<in> set (snd (claim T pending now extra ?failed)). lc_id T r = i \<and> lc_status T r = DELIVERING"
    if i: "i \<in> set won" for i
  proof -
    obtain r where "r \<in> set ?failed" "lc_id T r = i" using cand [OF i] by blast
    then have "take_lease T now r \<in> set (snd (claim T pending now extra ?failed))"
      using i by (auto simp: c set_update_where image_iff)
    then show ?thesis using \<open>lc_id T r = i\<close> by (intro bexI) auto
  qed
  have not_failed: "\<not> exhausted T now r" if r: "r \<in> set rows" and w: "lc_id T r \<in> set won" for r
  proof
    assume e: "exhausted T now r"
    let ?f = "lc_set T DELIVERY_FAILED (lc_attempts T r) None r"
    obtain x where x: "x \<in> set ?failed" "lc_id T x = lc_id T r" "claimable T pending now x" using cand [OF w] by blast
    have "?f \<in> set ?failed" using r e by (auto simp: fail_exhausted_def set_update_where image_iff)
    then have "x = ?f" using key_unique [OF d x(1), of ?f] x(2) by simp
    then show False using x(3) pending_apart by (auto simp: claimable_def)
  qed
  have ok_take: "ok (take_lease T now r) = ok r" for r by (simp add: take_lease_def ok)
  have okw: "okI (lc_id T r) = ok r" if "r \<in> set rows" "lc_id T r \<in> set won" for r
  proof -
    have "r \<in> set ?failed" using that not_failed [OF that] by (auto simp: fail_exhausted_def set_update_where image_iff)
    then have "take_lease T now r \<in> set (snd (claim T pending now extra ?failed))"
      using that by (auto simp: c set_update_where image_iff)
    from okI [OF this] show ?thesis by (simp add: ok_take)
  qed
  have "finish_all (filter okI won) (snd (claim T pending now extra ?failed)) =
      update_where (\<lambda>r. lc_id T r \<in> set (filter okI won)) (\<lambda>r. lc_set T DELIVERED (lc_attempts T r) None r)
        (snd (claim T pending now extra ?failed))"
    by (rule finish_all_exact) (use dw dc ex in auto)
  also have "\<dots> = map (row_after_pass T now won ok) rows"
    unfolding c snd_conv
    unfolding fail_exhausted_def update_where_def
    using not_failed okw by (auto simp: row_after_pass_def take_lease_def)
  finally show "finish_all (filter okI won) (snd (claim T pending now extra ?failed)) =
      map (row_after_pass T now won ok) rows" .
  have kept: "r \<in> set rows \<and> \<not> exhausted T now r"
    if r: "r \<in> set ?failed" "claimable T pending now r" for r
    using r pending_apart by (fastforce simp: fail_exhausted_def set_update_where claimable_def split: if_splits)
  show "length (filter okI won) = row_count (\<lambda>r. lc_id T r \<in> set won \<and> ok r) rows"
  proof -
    have "set (filter okI won) = lc_id T ` set (filter (\<lambda>r. lc_id T r \<in> set won \<and> ok r) rows)" (is "?A = ?B")
    proof (rule set_eqI)
      fix i
      show "i \<in> ?A \<longleftrightarrow> i \<in> ?B"
      proof
        assume "i \<in> ?A"
        then obtain r where "r \<in> set ?failed" "lc_id T r = i" "claimable T pending now r" and i: "i \<in> set won" "okI i"
          using cand by auto
        with kept have "r \<in> set rows" by blast
        with okw i \<open>lc_id T r = i\<close> show "i \<in> ?B" by force
      qed (use okw in auto)
    qed
    moreover have "distinct (map (lc_id T) (filter (\<lambda>r. lc_id T r \<in> set won \<and> ok r) rows))"
      using assms(1) by (simp add: distinct_map_filter)
    ultimately show ?thesis
      using dw by (metis distinct_card distinct_filter length_map list.set_map row_count_def)
  qed
  show "list_all (attempts_bounded T pending) (map (row_after_pass T now won ok) rows)"
    if b: "list_all (attempts_bounded T pending) rows"
  proof -
    have "attempts_bounded T pending (row_after_pass T now won ok r)" if r: "r \<in> set rows" for r
    proof (cases "\<not> exhausted T now r \<and> lc_id T r \<in> set won")
      case True
      obtain x where x: "x \<in> set ?failed" "lc_id T x = lc_id T r" "claimable T pending now x" using cand True by blast
      then have "x = r" using key_unique [OF assms(1), of x r] kept [OF x(1,3)] r by simp
      then have "lc_attempts T r < MAX_DELIVERIES"
        using x(3) True b r by (auto simp: claimable_def exhausted_def attempts_bounded_def list_all_iff)
      then show ?thesis using True pending_apart by (auto simp: row_after_pass_def attempts_bounded_def)
    next
      case False
      then show ?thesis using b r pending_apart by (auto simp: row_after_pass_def attempts_bounded_def list_all_iff)
    qed
    then show ?thesis by (simp add: list_all_iff)
  qed
qed

end

interpretation outbox: lease_table outbox_columns "''queued''"
  by unfold_locales (simp_all add: outbox_columns_def DELIVERING_def DELIVERED_def DELIVERY_FAILED_def)

interpretation due: lease_table reminder_columns "''scheduled''"
  by unfold_locales (simp_all add: reminder_columns_def DELIVERING_def DELIVERED_def DELIVERY_FAILED_def)

section \<open>Properties\<close>

text \<open>C23: Leases. Whatever the interleaving of any number of workers on the outbox and on the
  reminders, each with its own clock and finishing whenever it does, the events of each row are a
  proper life: a claim only after the lease of the previous claim has passed, a row given up only after
  five claims, and nothing after a delivery or a failure was recorded, so that no row is counted as
  delivered twice. Status, attempts and lease of a row are exactly what its events say.\<close>

theorem leases_are_exclusive:
  assumes "lease_reachable outbox_columns ''queued'' (events, told)"
    and "lease_reachable reminder_columns ''scheduled'' (due, told')"
  shows "lease_history (events_of i told) \<and> lease_history (events_of i told')
    \<and> list_all (\<lambda>e. row_told_by outbox_columns ''queued'' (events_of (ob_id e) told) e) events
    \<and> list_all (\<lambda>r. row_told_by reminder_columns ''scheduled'' (events_of (re_id r) told') r) due"
proof (intro conjI)
  show "lease_history (events_of i told)" "lease_history (events_of i told')"
    using outbox.told_reachable [OF assms(1)] due.told_reachable [OF assms(2)] outbox.told_history due.told_history by auto
  show "list_all (\<lambda>e. row_told_by outbox_columns ''queued'' (events_of (ob_id e) told) e) events"
    using outbox.reachable_rows_told [OF assms(1)] by (simp add: list_all_iff outbox_columns_def)
  show "list_all (\<lambda>r. row_told_by reminder_columns ''scheduled'' (events_of (re_id r) told') r) due"
    using due.reachable_rows_told [OF assms(2)] by (simp add: list_all_iff reminder_columns_def)
qed

definition sample_event :: outbox_event where
  "sample_event = \<lparr>ob_id = 7, ob_logical_key = ''response:1:k'', ob_run_id = 6, ob_payload = (codes ''hi'', ACCEPT),
     ob_status = ''queued'', ob_attempts = 0, ob_lease_until = None\<rparr>"

definition sample_reminder :: reminder where
  "sample_reminder = \<lparr>re_id = 8, re_account_id = 1, re_owner_user_id = 2, re_text = codes ''call'',
     re_due_at_utc = DateTime (Date 2026 10 12) 0, re_timezone = ''Asia/Kolkata'', re_state = ''scheduled'',
     re_idempotency_key = ''r'', re_attempts = 0, re_lease_until = None\<rparr>"

definition noon :: "int \<Rightarrow> datetime" where "noon s = DateTime (Date 2026 10 12) ((43200 + s) * 1000000)"

text \<open>Two workers: the second claims the event 61 seconds after the first, the first finishes late and
  the second's finish finds the row already delivered.\<close>

lemma sample_leases:
  "lease_reachable outbox_columns ''queued''
     ([sample_event\<lparr>ob_status := DELIVERED, ob_attempts := 2\<rparr>], [Finished 7, Claimed 7 (noon 61), Claimed 7 (noon 0)])"
proof -
  let ?leased = "\<lambda>n t. sample_event\<lparr>ob_status := DELIVERING, ob_attempts := n, ob_lease_until := Some (noon t)\<rparr>"
  note step = lease_reachable.Step [where T = outbox_columns and pending = "''queued''"]
  have lease: "add_seconds (noon 0) LEASE_SECONDS = noon 60" "add_seconds (noon 61) LEASE_SECONDS = noon 121" "noon 60 < noon 61"
    by code_simp+
  note defs = outbox_columns_def sample_event_def claim_row_def claimable_def lease_passed_def take_lease_def finish_def lease
    DELIVERING_def DELIVERED_def
  have "lease_reachable outbox_columns ''queued'' ([sample_event], [])"
    using step [OF lease_reachable.Empty Enqueue [of outbox_columns sample_event "[]" "''queued''"]]
    by (simp add: outbox_columns_def sample_event_def)
  then have "lease_reachable outbox_columns ''queued'' ([?leased 1 60], [Claimed 7 (noon 0)])"
    by (rule step [OF _ Claim]) (simp add: defs)
  then have "lease_reachable outbox_columns ''queued'' ([?leased 2 121], [Claimed 7 (noon 61), Claimed 7 (noon 0)])"
    by (rule step [OF _ Claim]) (simp add: defs)
  then have "lease_reachable outbox_columns ''queued''
      ([sample_event\<lparr>ob_status := DELIVERED, ob_attempts := 2\<rparr>], [Finished 7, Claimed 7 (noon 61), Claimed 7 (noon 0)])"
    by (rule step [OF _ Finish]) (simp add: defs)
  then show ?thesis by (rule step [OF _ Late [where i = 7]]) (simp add: defs)
qed

theorem leases_are_exclusive_witness:
  "lease_history [Finished 7, Claimed 7 (noon 61), Claimed 7 (noon 0)]
   \<and> \<not> lease_history [Finished 7, Claimed 7 (noon 60), Claimed 7 (noon 0)]"
proof -
  have "\<not> lease_history [Finished 7, Claimed 7 (noon 60), Claimed 7 (noon 0)]" by code_simp
  then show ?thesis using leases_are_exclusive [OF sample_leases lease_reachable.Empty, of 7] by simp
qed

definition event_taken :: "adapter \<Rightarrow> outbox_event \<Rightarrow> bool" where
  "event_taken deliver e = deliver (ob_logical_key e) (Response_payload (fst (ob_payload e)) (snd (ob_payload e)))"

definition reminder_taken :: "adapter \<Rightarrow> reminder \<Rightarrow> bool" where
  "reminder_taken deliver r =
     deliver (''reminder:'' @ nat_str (re_id r)) (Reminder_payload (re_owner_user_id r) (re_text r))"

lemma column_simps [simp]:
  "lc_id outbox_columns = ob_id" "lc_status outbox_columns = ob_status" "lc_attempts outbox_columns = ob_attempts"
  "lc_id reminder_columns = re_id" "lc_status reminder_columns = re_state" "lc_attempts reminder_columns = re_attempts"
  by (simp_all add: outbox_columns_def reminder_columns_def)

lemma select_first_ex: "\<exists>r \<in> set rows. p r \<Longrightarrow> \<exists>r. select_first p rows = Some r \<and> p r \<and> r \<in> set rows"
  by (cases "select_first p rows") (auto simp: select_first_None dest: select_first_Some)

lemma outbox_jobs:
  assumes "distinct (map ob_id rows)" and ex: "\<And>i. i \<in> set won \<Longrightarrow> \<exists>r \<in> set rows. ob_id r = i \<and> ob_status r = DELIVERING"
    and "distinct won" and s: "outbox_events s = rows" and s0: "outbox_events s0 = rows"
    and ok: "\<And>r. r \<in> set rows \<Longrightarrow> okI (ob_id r) = event_taken deliver r"
  shows "deliver_jobs deliver (concat (map (outbox_job s0) won)) s =
    (length (filter okI won), s\<lparr>outbox_events := outbox.finish_all (filter okI won) rows\<rparr>)"
proof -
  define mk where "mk i = hd (outbox_job s0 i)" for i
  have mk: "outbox_job s0 i = [mk i]" "deliver_job deliver (mk i) t =
      (if okI i then (if fst (finish outbox_columns i (outbox_events t)) then 1 else 0,
          t\<lparr>outbox_events := snd (finish outbox_columns i (outbox_events t))\<rparr>) else (0, t))"
    if i: "i \<in> set won" for i t
  proof -
    obtain r where "select_first (\<lambda>e. ob_id e = i) rows = Some r" "ob_id r = i" "r \<in> set rows"
      using ex [OF i] select_first_ex [of rows "\<lambda>e. ob_id e = i"] by blast
    then show "outbox_job s0 i = [mk i]" "deliver_job deliver (mk i) t =
      (if okI i then (if fst (finish outbox_columns i (outbox_events t)) then 1 else 0,
          t\<lparr>outbox_events := snd (finish outbox_columns i (outbox_events t))\<rparr>) else (0, t))"
      using ok [of r] by (auto simp: mk_def outbox_job_def s0 event_taken_def case_prod_beta Let_def)
  qed
  have "concat (map (outbox_job s0) won) = map mk won" using mk(1) by (induction won) auto
  then show ?thesis
    using outbox.deliver_all [where get = outbox_events and put = "\<lambda>rows s. s\<lparr>outbox_events := rows\<rparr>" and ids = won
        and deliver = deliver and mk = mk and ok = okI and s = s] mk(2) assms(1,3) ex s by simp
qed

lemma reminder_jobs:
  assumes "distinct (map re_id rows)" and ex: "\<And>i. i \<in> set won \<Longrightarrow> \<exists>r \<in> set rows. re_id r = i \<and> re_state r = DELIVERING"
    and "distinct won" and s: "reminders s = rows" and s0: "reminders s0 = rows"
    and ok: "\<And>r. r \<in> set rows \<Longrightarrow> okI (re_id r) = reminder_taken deliver r"
  shows "deliver_jobs deliver (concat (map (reminder_job s0) won)) s =
    (length (filter okI won), s\<lparr>reminders := due.finish_all (filter okI won) rows\<rparr>)"
proof -
  define mk where "mk i = hd (reminder_job s0 i)" for i
  have mk: "reminder_job s0 i = [mk i]" "deliver_job deliver (mk i) t =
      (if okI i then (if fst (finish reminder_columns i (reminders t)) then 1 else 0,
          t\<lparr>reminders := snd (finish reminder_columns i (reminders t))\<rparr>) else (0, t))"
    if i: "i \<in> set won" for i t
  proof -
    obtain r where "select_first (\<lambda>r. re_id r = i) rows = Some r" "re_id r = i" "r \<in> set rows"
      using ex [OF i] select_first_ex [of rows "\<lambda>r. re_id r = i"] by blast
    then show "reminder_job s0 i = [mk i]" "deliver_job deliver (mk i) t =
      (if okI i then (if fst (finish reminder_columns i (reminders t)) then 1 else 0,
          t\<lparr>reminders := snd (finish reminder_columns i (reminders t))\<rparr>) else (0, t))"
      using ok [of r] by (auto simp: mk_def reminder_job_def s0 reminder_taken_def case_prod_beta Let_def)
  qed
  have "concat (map (reminder_job s0) won) = map mk won" using mk(1) by (induction won) auto
  then show ?thesis
    using due.deliver_all [where get = reminders and put = "\<lambda>rows s. s\<lparr>reminders := rows\<rparr>" and ids = won
        and deliver = deliver and mk = mk and ok = okI and s = s] mk(2) assms(1,3) ex s by simp
qed

lemma deliver_jobs_append:
  "deliver_jobs deliver (xs @ ys) s =
     (fst (deliver_jobs deliver xs s) + fst (deliver_jobs deliver ys (snd (deliver_jobs deliver xs s))),
      snd (deliver_jobs deliver ys (snd (deliver_jobs deliver xs s))))"
  by (induction xs arbitrary: s) (simp_all add: case_prod_beta Let_def)

lemma run_once_exact:
  assumes d: "distinct (map ob_id (outbox_events s))" "distinct (map re_id (reminders s))"
    and won: "won = claim_candidates outbox_columns ''queued'' now (\<lambda>_. True) (fail_exhausted outbox_columns now (outbox_events s))"
    and due: "due = claim_candidates reminder_columns ''scheduled'' now (\<lambda>r. re_due_at_utc r \<le> now)
      (fail_exhausted reminder_columns now (reminders s))"
  shows "run_once now deliver s =
    (row_count (\<lambda>e. ob_id e \<in> set won \<and> event_taken deliver e) (outbox_events s)
       + row_count (\<lambda>r. re_id r \<in> set due \<and> reminder_taken deliver r) (reminders s),
     s\<lparr>outbox_events := map (row_after_pass outbox_columns now won (event_taken deliver)) (outbox_events s),
       reminders := map (row_after_pass reminder_columns now due (reminder_taken deliver)) (reminders s)\<rparr>)"
    and "list_all (attempts_bounded outbox_columns ''queued'') (outbox_events s) \<Longrightarrow>
      list_all (attempts_bounded outbox_columns ''queued'')
        (map (row_after_pass outbox_columns now won (event_taken deliver)) (outbox_events s))"
    and "list_all (attempts_bounded reminder_columns ''scheduled'') (reminders s) \<Longrightarrow>
      list_all (attempts_bounded reminder_columns ''scheduled'')
        (map (row_after_pass reminder_columns now due (reminder_taken deliver)) (reminders s))"
proof -
  let ?out = "claim outbox_columns ''queued'' now (\<lambda>_. True) (fail_exhausted outbox_columns now (outbox_events s))"
  let ?rem = "claim reminder_columns ''scheduled'' now (\<lambda>r. re_due_at_utc r \<le> now) (fail_exhausted reminder_columns now (reminders s))"
  define okE where "okE i = (case select_first (\<lambda>e. ob_id e = i) (snd ?out) of None \<Rightarrow> False | Some e \<Rightarrow> event_taken deliver e)" for i
  define okR where "okR i = (case select_first (\<lambda>r. re_id r = i) (snd ?rem) of None \<Rightarrow> False | Some r \<Rightarrow> reminder_taken deliver r)" for i
  have takenE: "event_taken deliver (lc_set outbox_columns st n l e) = event_taken deliver e" for st n l e
    by (simp add: outbox_columns_def event_taken_def)
  have takenR: "reminder_taken deliver (lc_set reminder_columns st n l r) = reminder_taken deliver r" for st n l r
    by (simp add: reminder_columns_def reminder_taken_def)
  have dE: "distinct (map ob_id (snd ?out))" and dR: "distinct (map re_id (snd ?rem))"
    using outbox.ids_after_claim [of "outbox_events s"] due.ids_after_claim [of "reminders s"] d by simp_all
  have okE: "okE (ob_id e) = event_taken deliver e" if "e \<in> set (snd ?out)" for e
    using select_first_unique [OF dE that] by (simp add: okE_def)
  have okR: "okR (re_id r) = reminder_taken deliver r" if "r \<in> set (snd ?rem)" for r
    using select_first_unique [OF dR that] by (simp add: okR_def)
  note E = outbox.pass_exact [unfolded column_simps, OF d(1) takenE won okE]
  note R = due.pass_exact [unfolded column_simps, OF d(2) takenR due okR]
  define s2 where "s2 = s\<lparr>outbox_events := snd ?out, reminders := snd ?rem\<rparr>"
  have jobs: "claim_jobs now (fail_all_exhausted now s) =
      (concat (map (outbox_job (s\<lparr>reminders := fail_exhausted reminder_columns now (reminders s), outbox_events := snd ?out\<rparr>)) won)
        @ concat (map (reminder_job s2) due), s2)"
    using E(1) R(1) by (simp add: claim_jobs_def fail_all_exhausted_def case_prod_beta Let_def s2_def)
  show "list_all (attempts_bounded outbox_columns ''queued'') (outbox_events s) \<Longrightarrow>
      list_all (attempts_bounded outbox_columns ''queued'')
        (map (row_after_pass outbox_columns now won (event_taken deliver)) (outbox_events s))"
    by (rule E(7))
  show "list_all (attempts_bounded reminder_columns ''scheduled'') (reminders s) \<Longrightarrow>
      list_all (attempts_bounded reminder_columns ''scheduled'')
        (map (row_after_pass reminder_columns now due (reminder_taken deliver)) (reminders s))"
    by (rule R(7))
  show "run_once now deliver s =
    (row_count (\<lambda>e. ob_id e \<in> set won \<and> event_taken deliver e) (outbox_events s)
       + row_count (\<lambda>r. re_id r \<in> set due \<and> reminder_taken deliver r) (reminders s),
     s\<lparr>outbox_events := map (row_after_pass outbox_columns now won (event_taken deliver)) (outbox_events s),
       reminders := map (row_after_pass reminder_columns now due (reminder_taken deliver)) (reminders s)\<rparr>)"
    unfolding run_once_def jobs
    using outbox_jobs [OF dE E(4) E(2), where okI = okE and deliver = deliver and s = s2]
      reminder_jobs [OF dR R(4) R(2), where okI = okR and deliver = deliver] okE okR E(5,6) R(5,6)
    by (simp add: deliver_jobs_append s2_def)
qed

text \<open>C24: One pass of the worker. Alone, a pass changes exactly the leased tables and each row as
  follows: an overdue row out of attempts is failed; a row among the first fifty claimable ones of its
  table is delivered, or, when the adapter raised, left under a new lease with one more attempt; every
  other row stays. The number returned is that of the delivered rows. No row is attempted more than
  five times.\<close>

theorem worker_pass_exact:
  assumes "distinct (map ob_id (outbox_events s))" and "distinct (map re_id (reminders s))"
  shows "let won = claim_candidates outbox_columns ''queued'' now (\<lambda>_. True) (fail_exhausted outbox_columns now (outbox_events s));
             due = claim_candidates reminder_columns ''scheduled'' now (\<lambda>r. re_due_at_utc r \<le> now)
               (fail_exhausted reminder_columns now (reminders s));
             events' = map (row_after_pass outbox_columns now won (event_taken deliver)) (outbox_events s);
             reminders' = map (row_after_pass reminder_columns now due (reminder_taken deliver)) (reminders s)
         in run_once now deliver s =
           (row_count (\<lambda>e. ob_id e \<in> set won \<and> event_taken deliver e) (outbox_events s)
            + row_count (\<lambda>r. re_id r \<in> set due \<and> reminder_taken deliver r) (reminders s),
            s\<lparr>outbox_events := events', reminders := reminders'\<rparr>)
          \<and> (list_all (attempts_bounded outbox_columns ''queued'') (outbox_events s) \<longrightarrow>
               list_all (attempts_bounded outbox_columns ''queued'') events')
          \<and> (list_all (attempts_bounded reminder_columns ''scheduled'') (reminders s) \<longrightarrow>
               list_all (attempts_bounded reminder_columns ''scheduled'') reminders')"
  unfolding Let_def
  using run_once_exact [OF assms refl refl, of now deliver] by blast

definition sample_queue :: db where
  "sample_queue = empty_db\<lparr>outbox_events := [sample_event, sample_event\<lparr>ob_id := 9, ob_status := DELIVERING, ob_attempts := 5,
     ob_lease_until := Some (noon 0)\<rparr>], reminders := [sample_reminder, sample_reminder\<lparr>re_id := 10, re_due_at_utc := noon 61\<rparr>]\<rparr>"

theorem worker_pass_exact_witness:
  "run_once (noon 60) (\<lambda>key _. hd key = CHR ''r'' \<and> length key > 11) sample_queue =
     (1, sample_queue\<lparr>
        outbox_events := [sample_event\<lparr>ob_status := DELIVERED, ob_attempts := 1\<rparr>,
          sample_event\<lparr>ob_id := 9, ob_status := DELIVERY_FAILED, ob_attempts := 5\<rparr>],
        reminders := [sample_reminder\<lparr>re_state := DELIVERING, re_attempts := 1, re_lease_until := Some (noon 120)\<rparr>,
          sample_reminder\<lparr>re_id := 10, re_due_at_utc := noon 61\<rparr>]\<rparr>)"
proof -
  have t: "add_seconds (noon 60) LEASE_SECONDS = noon 120" "noon 0 < noon 60" "\<not> noon 61 \<le> noon 60"
    "DateTime (Date 2026 10 12) 0 \<le> noon 60" "nat_str 8 = ''8''" by code_simp+
  show ?thesis
    using worker_pass_exact [of sample_queue "noon 60" "\<lambda>key _. hd key = CHR ''r'' \<and> length key > 11"]
    by (simp add: sample_queue_def sample_event_def sample_reminder_def fail_exhausted_def exhausted_def lease_passed_def
        claim_candidates_def claimable_def BATCH_SIZE_def row_after_pass_def event_taken_def reminder_taken_def t empty_db_def
        outbox_columns_def reminder_columns_def MAX_DELIVERIES_def DELIVERING_def DELIVERED_def DELIVERY_FAILED_def Let_def)
qed

end
