(* ===== verification/Worker_Drain.thy ===== *)
theory Worker_Drain
  imports Worker
begin

text \<open>
  The queue drains: the work that rows can still cause goes down with every pass of the worker, whatever the
  adapter does, so that enough passes leave only rows that are delivered or given up.
\<close>

section \<open>The work left in a table\<close>

definition settled_row :: "'r lease_columns \<Rightarrow> 'r \<Rightarrow> bool" where
  "settled_row T r \<longleftrightarrow> lc_status T r \<in> {DELIVERED, DELIVERY_FAILED}"

text \<open>Claims that a row may still see, and its end\<close>

definition row_work :: "'r lease_columns \<Rightarrow> 'r \<Rightarrow> nat" where
  "row_work T r = (if settled_row T r then 0 else nat (MAX_DELIVERIES + 1 - lc_attempts T r))"

definition table_work :: "'r lease_columns \<Rightarrow> 'r list \<Rightarrow> nat" where
  "table_work T rows = sum_list (map (row_work T) rows)"

text \<open>A row that a pass at \<open>now\<close> can claim or give up, or that is settled\<close>

definition ripe :: "'r lease_columns \<Rightarrow> string \<Rightarrow> datetime \<Rightarrow> ('r \<Rightarrow> bool) \<Rightarrow> 'r \<Rightarrow> bool" where
  "ripe T pending now extra r \<longleftrightarrow> attempts_bounded T pending r
     \<and> (settled_row T r \<or> claimable T pending now r \<and> extra r)"

definition lease_over :: "datetime \<Rightarrow> datetime \<Rightarrow> bool" where
  "lease_over now later \<longleftrightarrow> now < later \<and> add_seconds now LEASE_SECONDS < later"

fun spaced :: "datetime list \<Rightarrow> bool" where
  "spaced (t # u # ts) \<longleftrightarrow> lease_over t u \<and> spaced (u # ts)"
| "spaced ts \<longleftrightarrow> True"

lemma table_work_0: "list_all (attempts_bounded T pending) rows \<Longrightarrow> table_work T rows = 0 \<longleftrightarrow> list_all (settled_row T) rows"
proof -
  assume b: "list_all (attempts_bounded T pending) rows"
  have "row_work T r = 0 \<longleftrightarrow> settled_row T r" if "r \<in> set rows" for r
    using b that by (auto simp: row_work_def list_all_iff attempts_bounded_def)
  then show ?thesis by (simp add: table_work_def list_all_iff)
qed

lemma sum_list_map_le: "(\<And>x. x \<in> set xs \<Longrightarrow> f x \<le> g x) \<Longrightarrow> sum_list (map f xs) \<le> (sum_list (map g xs) :: nat)"
  by (rule sum_list_mono)

lemma sum_list_map_less:
  "(\<And>x. x \<in> set xs \<Longrightarrow> f x \<le> g x) \<Longrightarrow> y \<in> set xs \<Longrightarrow> f y < g y \<Longrightarrow> sum_list (map f xs) < (sum_list (map g xs) :: nat)"
proof (induction xs)
  case (Cons x xs)
  have "sum_list (map f xs) \<le> sum_list (map g xs)" using Cons.prems(1) by (intro sum_list_map_le) simp
  then show ?case using Cons by (cases "y = x") (auto simp: add_less_le_mono add_le_less_mono)
qed simp

context lease_table begin

lemma fail_keeps_unexhausted: "r \<in> set rows \<Longrightarrow> \<not> exhausted T now r \<Longrightarrow> r \<in> set (fail_exhausted T now rows)"
  by (force simp: fail_exhausted_def update_where_def)

lemma failed_not_claimable: "\<not> claimable T pending now (lc_set T DELIVERY_FAILED n l r)"
  using pending_apart by (auto simp: claimable_def)

lemma won_claimable:
  assumes "distinct (map (lc_id T) rows)" and "r \<in> set rows" and "\<not> exhausted T now r"
    and "lc_id T r \<in> set (claim_candidates T pending now extra (fail_exhausted T now rows))"
  shows "claimable T pending now r"
proof -
  obtain q where q: "q \<in> set (fail_exhausted T now rows)" "claimable T pending now q" "lc_id T q = lc_id T r"
    using assms(4) by (auto simp: claim_candidates_def dest!: in_set_takeD)
  have "distinct (map (lc_id T) (fail_exhausted T now rows))" using assms(1) by (simp add: fail_exhausted_def)
  then have "q = r" using q(1) fail_keeps_unexhausted [OF assms(2,3)] q(3) by (rule key_unique)
  then show ?thesis using q(2) by simp
qed

lemma claimable_bounded:
  "attempts_bounded T pending r \<Longrightarrow> claimable T pending now r \<Longrightarrow> \<not> exhausted T now r \<Longrightarrow> lc_attempts T r < MAX_DELIVERIES"
  using pending_apart by (auto simp: attempts_bounded_def claimable_def exhausted_def)

lemma claimable_unsettled: "claimable T pending now r \<Longrightarrow> \<not> settled_row T r"
  using pending_apart by (auto simp: claimable_def settled_row_def)

lemma row_work_after:
  assumes "distinct (map (lc_id T) rows)" and "r \<in> set rows" and "attempts_bounded T pending r"
    and "won = claim_candidates T pending now extra (fail_exhausted T now rows)"
  shows "row_work T (row_after_pass T now won ok r) \<le> row_work T r"
    and "exhausted T now r \<or> lc_id T r \<in> set won \<Longrightarrow> row_work T (row_after_pass T now won ok r) < row_work T r"
proof -
  have less: "row_work T (row_after_pass T now won ok r) < row_work T r" if "exhausted T now r \<or> lc_id T r \<in> set won"
  proof (cases "exhausted T now r")
    case True
    then show ?thesis
      using assms(3) by (auto simp: row_after_pass_def row_work_def settled_row_def exhausted_def attempts_bounded_def)
  next
    case False
    then have c: "claimable T pending now r" using won_claimable [OF assms(1,2) False] that assms(4) by blast
    show ?thesis
      using that False claimable_unsettled [OF c] claimable_bounded [OF assms(3) c False]
      by (auto simp: row_after_pass_def row_work_def settled_row_def)
  qed
  show "exhausted T now r \<or> lc_id T r \<in> set won \<Longrightarrow> row_work T (row_after_pass T now won ok r) < row_work T r"
    by (rule less)
  show "row_work T (row_after_pass T now won ok r) \<le> row_work T r"
    using less by (cases "exhausted T now r \<or> lc_id T r \<in> set won") (auto simp: row_after_pass_def)
qed

lemma pass_reduces_work:
  assumes d: "distinct (map (lc_id T) rows)" and ripe: "list_all (ripe T pending now extra) rows"
    and won: "won = claim_candidates T pending now extra (fail_exhausted T now rows)" and "table_work T rows > 0"
  shows "table_work T (map (row_after_pass T now won ok) rows) < table_work T rows"
proof -
  have b: "attempts_bounded T pending r" if "r \<in> set rows" for r
    using ripe that by (auto simp: ripe_def list_all_iff)
  obtain r where r: "r \<in> set rows" "\<not> settled_row T r"
    using assms(4) table_work_0 [of T pending rows] b by (auto simp: list_all_iff)
  have "\<exists>q \<in> set rows. exhausted T now q \<or> lc_id T q \<in> set won"
  proof (cases "exhausted T now r")
    case False
    let ?ready = "filter (\<lambda>r. claimable T pending now r \<and> extra r) (fail_exhausted T now rows)"
    have "r \<in> set ?ready" using fail_keeps_unexhausted [OF r(1) False] r ripe by (auto simp: ripe_def list_all_iff)
    then obtain q qs where q: "?ready = q # qs" by (cases ?ready) auto
    have "q \<in> set ?ready" using q by simp
    then have "q \<in> set (fail_exhausted T now rows)" "claimable T pending now q" by simp_all
    moreover have "lc_id T q \<in> set won" by (simp add: won claim_candidates_def q BATCH_SIZE_def)
    ultimately show ?thesis
      by (auto simp: fail_exhausted_def update_where_def failed_not_claimable split: if_splits)
  qed (use r in blast)
  then obtain q where "q \<in> set rows" "exhausted T now q \<or> lc_id T q \<in> set won" by blast
  then show ?thesis
    unfolding table_work_def map_map
    by (intro sum_list_map_less [where y = q]) (auto intro!: row_work_after [OF d _ b won])
qed

lemma pass_work:
  assumes "distinct (map (lc_id T) rows)" and "list_all (ripe T pending now extra) rows"
    and "won = claim_candidates T pending now extra (fail_exhausted T now rows)"
  shows "table_work T (map (row_after_pass T now won ok) rows) \<le> table_work T rows - 1"
proof (cases "table_work T rows > 0")
  case True
  then show ?thesis using pass_reduces_work [OF assms True, of ok] by simp
next
  case False
  have "attempts_bounded T pending r" if "r \<in> set rows" for r
    using assms(2) that by (auto simp: ripe_def list_all_iff)
  then have "table_work T (map (row_after_pass T now won ok) rows) \<le> table_work T rows"
    unfolding table_work_def map_map by (intro sum_list_map_le) (auto intro!: row_work_after(1) [OF assms(1) _ _ assms(3)])
  then show ?thesis using False by simp
qed

lemma pass_ripe:
  assumes "distinct (map (lc_id T) rows)" and ripe: "list_all (ripe T pending now extra) rows" and later: "lease_over now later"
    and "won = claim_candidates T pending now extra (fail_exhausted T now rows)"
    and bounded: "list_all (attempts_bounded T pending) (map (row_after_pass T now won ok) rows)"
    and extra: "\<And>r. extra r \<Longrightarrow> extra' r" "\<And>st n l r. extra' (lc_set T st n l r) = extra' r"
  shows "list_all (ripe T pending later extra') (map (row_after_pass T now won ok) rows)"
  unfolding list_all_iff ball_simps set_map
proof (intro ballI)
  fix r assume r: "r \<in> set rows"
  let ?r = "row_after_pass T now won ok r"
  have b: "attempts_bounded T pending ?r" using bounded r by (simp add: list_all_iff)
  have old: "settled_row T r \<or> claimable T pending now r \<and> extra r" using ripe r by (auto simp: ripe_def list_all_iff)
  have "claimable T pending later r" if "claimable T pending now r"
    using that later by (auto simp: claimable_def lease_passed_def lease_over_def split: option.splits)
  moreover have "extra' r" if "lc_id T r \<in> set won" "\<not> exhausted T now r"
    using old won_claimable [OF assms(1) r that(2)] that(1) assms(4) claimable_unsettled extra(1) by blast
  ultimately have "settled_row T ?r \<or> claimable T pending later ?r \<and> extra' ?r"
    using old extra later
    by (auto simp: row_after_pass_def settled_row_def claimable_def [of T pending later "lc_set T _ _ _ _"] lease_passed_def lease_over_def)
  then show "ripe T pending later extra' ?r" using b by (simp add: ripe_def)
qed

end

section \<open>Passes of the worker\<close>

definition worker_passes :: "(datetime \<times> adapter) list \<Rightarrow> db \<Rightarrow> db" where
  "worker_passes passes s = fold (\<lambda>(now, deliver) s. snd (run_once now deliver s)) passes s"

definition queues_ripe :: "datetime \<Rightarrow> db \<Rightarrow> bool" where
  "queues_ripe now s \<longleftrightarrow> distinct (map ob_id (outbox_events s)) \<and> distinct (map re_id (reminders s))
     \<and> list_all (ripe outbox_columns ''queued'' now (\<lambda>_. True)) (outbox_events s)
     \<and> list_all (ripe reminder_columns ''scheduled'' now (\<lambda>r. re_due_at_utc r \<le> now)) (reminders s)"

definition queue_work :: "db \<Rightarrow> nat" where
  "queue_work s = max (table_work outbox_columns (outbox_events s)) (table_work reminder_columns (reminders s))"

lemma ripe_bounded: "list_all (ripe T pending now extra) rows \<Longrightarrow> list_all (attempts_bounded T pending) rows"
  by (auto simp: list_all_iff ripe_def)

lemma row_after_pass_ids:
  "ob_id (row_after_pass outbox_columns now won ok e) = ob_id e" "re_id (row_after_pass reminder_columns now won okr r) = re_id r"
  by (simp_all add: row_after_pass_def outbox_columns_def reminder_columns_def)

lemma run_once_step:
  assumes "queues_ripe now s"
  shows "map ob_id (outbox_events (snd (run_once now deliver s))) = map ob_id (outbox_events s)"
    and "map re_id (reminders (snd (run_once now deliver s))) = map re_id (reminders s)"
    and "list_all (attempts_bounded outbox_columns ''queued'') (outbox_events (snd (run_once now deliver s)))"
    and "list_all (attempts_bounded reminder_columns ''scheduled'') (reminders (snd (run_once now deliver s)))"
    and "queue_work (snd (run_once now deliver s)) \<le> queue_work s - 1"
    and "lease_over now later \<Longrightarrow> queues_ripe later (snd (run_once now deliver s))"
proof -
  define won where "won = claim_candidates outbox_columns ''queued'' now (\<lambda>_. True) (fail_exhausted outbox_columns now (outbox_events s))"
  define dues where "dues = claim_candidates reminder_columns ''scheduled'' now (\<lambda>r. re_due_at_utc r \<le> now)
    (fail_exhausted reminder_columns now (reminders s))"
  note ripe = assms [unfolded queues_ripe_def]
  have d: "distinct (map ob_id (outbox_events s))" "distinct (map re_id (reminders s))" using ripe by simp_all
  note exact = run_once_exact [OF d won_def dues_def, of deliver]
  have t: "outbox_events (snd (run_once now deliver s)) = map (row_after_pass outbox_columns now won (event_taken deliver)) (outbox_events s)"
    "reminders (snd (run_once now deliver s)) = map (row_after_pass reminder_columns now dues (reminder_taken deliver)) (reminders s)"
    by (simp_all add: exact(1))
  show ids: "map ob_id (outbox_events (snd (run_once now deliver s))) = map ob_id (outbox_events s)"
    "map re_id (reminders (snd (run_once now deliver s))) = map re_id (reminders s)"
    by (simp_all add: t row_after_pass_ids)
  show b: "list_all (attempts_bounded outbox_columns ''queued'') (outbox_events (snd (run_once now deliver s)))"
    "list_all (attempts_bounded reminder_columns ''scheduled'') (reminders (snd (run_once now deliver s)))"
    unfolding t using exact(2,3) ripe ripe_bounded by blast+
  have dT: "distinct (map (lc_id outbox_columns) (outbox_events s))" "distinct (map (lc_id reminder_columns) (reminders s))"
    using d by (simp_all add: outbox_columns_def reminder_columns_def)
  show "queue_work (snd (run_once now deliver s)) \<le> queue_work s - 1"
    using outbox.pass_work [OF dT(1) _ won_def, of "event_taken deliver"] due.pass_work [OF dT(2) _ dues_def, of "reminder_taken deliver"] ripe
    by (auto simp: queue_work_def t)
  assume later: "lease_over now later"
  have "list_all (ripe outbox_columns ''queued'' later (\<lambda>_. True)) (outbox_events (snd (run_once now deliver s)))"
    unfolding t(1) by (rule outbox.pass_ripe [OF dT(1) _ later won_def b(1) [unfolded t(1)]]) (use ripe in simp_all)
  moreover have "list_all (ripe reminder_columns ''scheduled'' later (\<lambda>r. re_due_at_utc r \<le> later)) (reminders (snd (run_once now deliver s)))"
    unfolding t(2) by (rule due.pass_ripe [OF dT(2) _ later dues_def b(2) [unfolded t(2)]])
      (use ripe later in \<open>auto simp: lease_over_def reminder_columns_def\<close>)
  ultimately show "queues_ripe later (snd (run_once now deliver s))"
    using ids d by (simp add: queues_ripe_def)
qed

text \<open>The first pass finds only ripe rows, and each later one comes after the leases that the one before took.\<close>

lemma passes_drain:
  assumes "passes \<noteq> [] \<Longrightarrow> queues_ripe (fst (hd passes)) s" and "spaced (map fst passes)"
    and "list_all (attempts_bounded outbox_columns ''queued'') (outbox_events s)"
    and "list_all (attempts_bounded reminder_columns ''scheduled'') (reminders s)"
  shows "map ob_id (outbox_events (worker_passes passes s)) = map ob_id (outbox_events s)
    \<and> map re_id (reminders (worker_passes passes s)) = map re_id (reminders s)
    \<and> list_all (attempts_bounded outbox_columns ''queued'') (outbox_events (worker_passes passes s))
    \<and> list_all (attempts_bounded reminder_columns ''scheduled'') (reminders (worker_passes passes s))
    \<and> queue_work (worker_passes passes s) \<le> queue_work s - length passes"
  using assms
proof (induction passes arbitrary: s)
  case (Cons p passes)
  obtain now deliver where p: "p = (now, deliver)" by (cases p)
  let ?s = "snd (run_once now deliver s)"
  have step: "queues_ripe now s" using Cons.prems(1) p by simp
  have "queues_ripe (fst (hd passes)) ?s" if "passes \<noteq> []"
    using that Cons.prems(2) run_once_step(6) [OF step] p by (cases passes) auto
  moreover have "spaced (map fst passes)" using Cons.prems(2) by (cases passes) auto
  ultimately have "map ob_id (outbox_events (worker_passes passes ?s)) = map ob_id (outbox_events s)
      \<and> map re_id (reminders (worker_passes passes ?s)) = map re_id (reminders s)
      \<and> list_all (attempts_bounded outbox_columns ''queued'') (outbox_events (worker_passes passes ?s))
      \<and> list_all (attempts_bounded reminder_columns ''scheduled'') (reminders (worker_passes passes ?s))
      \<and> queue_work (worker_passes passes ?s) \<le> queue_work ?s - length passes"
    using Cons.IH [of ?s] run_once_step(1-4) [OF step, of deliver] by simp
  moreover have "worker_passes (p # passes) s = worker_passes passes ?s" by (simp add: p worker_passes_def)
  ultimately show ?case using run_once_step(5) [OF step, of deliver] by auto
qed (simp add: worker_passes_def)


definition failing_passes :: "(datetime \<times> adapter) list" where
  "failing_passes = map (\<lambda>n. (noon (61 * n), \<lambda>_ _. False)) [1, 2, 3, 4, 5, 6, 7, 8, 9, 10, 11, 12]"


end
