(* ===== verification/Json.thy ===== *)
theory Json
  imports Models
begin

text \<open>
  JSON documents as \<open>json.loads\<close> returns them (a key occurs once in an object; the literals
  \<open>NaN\<close> and \<open>Infinity\<close> that Python accepts beyond JSON are left out), the tests the
  code makes on them, and \<open>Decimal(str(value))\<close> as far as the comparison with zero needs it.
\<close>

text \<open>A JSON string is kept as the UTF-8 encoding of its text; \<open>utf8_decode\<close> gives the code points
  (65533 for a byte sequence that encodes none).\<close>

datatype json = JNull | JBool bool | JInt int | JFloat real | JStr string | JArr "json list"
  | JObj "(string \<times> json) list"

definition continuation :: "char \<Rightarrow> nat" where
  "continuation c = (of_char c :: nat) mod 64"

fun utf8_decode :: "string \<Rightarrow> utext" where
  "utf8_decode [] = []"
| "utf8_decode (a # cs) = (let n = of_char a :: nat in
     if n < 128 then n # utf8_decode cs
     else (case cs of [] \<Rightarrow> [65533] | b # cs1 \<Rightarrow>
       if n < 224 then ((n mod 32) * 64 + continuation b) # utf8_decode cs1
       else (case cs1 of [] \<Rightarrow> [65533] | c # cs2 \<Rightarrow>
         if n < 240 then ((n mod 16) * 4096 + continuation b * 64 + continuation c) # utf8_decode cs2
         else (case cs2 of [] \<Rightarrow> [65533] | d # cs3 \<Rightarrow>
           ((n mod 8) * 262144 + continuation b * 4096 + continuation c * 64 + continuation d) # utf8_decode cs3))))"

text \<open>\<open>str.encode("utf-8")\<close>\<close>

definition utf8_char :: "nat \<Rightarrow> string" where
  "utf8_char c = (if c < 128 then [char_of c]
     else if c < 2048 then [char_of (192 + c div 64), char_of (128 + c mod 64)]
     else if c < 65536 then [char_of (224 + c div 4096), char_of (128 + c div 64 mod 64), char_of (128 + c mod 64)]
     else [char_of (240 + c div 262144), char_of (128 + c div 4096 mod 64), char_of (128 + c div 64 mod 64), char_of (128 + c mod 64)])"

definition utf8_encode :: "utext \<Rightarrow> string" where
  "utf8_encode t = concat (map utf8_char t)"

definition valid_text :: "utext \<Rightarrow> bool" where
  "valid_text t \<longleftrightarrow> list_all (\<lambda>c. c < 1114112) t"

lemma of_char_char_of_small [simp]: "n < 256 \<Longrightarrow> (of_char (char_of (n :: nat)) :: nat) = n"
  by simp

lemma utf8_tags:
  "(128 + n) mod 64 = n mod (64 :: nat)" "(192 + n) mod 32 = n mod (32 :: nat)"
  "(224 + n) mod 16 = n mod (16 :: nat)" "(240 + n) mod 8 = n mod (8 :: nat)"
  using mod_mult_self2 [of n 64 2] mod_mult_self2 [of n 32 6] mod_mult_self2 [of n 16 14] mod_mult_self2 [of n 8 30]
  by (simp_all add: add.commute)

lemma continuation_char [simp]: "n < 64 \<Longrightarrow> continuation (char_of (128 + n)) = n"
  by (simp add: continuation_def utf8_tags)

lemma utf8_digits:
  fixes c :: nat
  assumes "c < 1114112"
  obtains h q m l where "c = 262144 * h + 4096 * q + 64 * m + l" "h < 8" "q < 64" "m < 64" "l < 64"
    "c div 262144 = h" "c div 4096 mod 64 = q" "c div 64 mod 64 = m" "c mod 64 = l" "c div 4096 = 64 * h + q"
    "c div 64 = 4096 * h + 64 * q + m"
proof -
  have "c = 64 * (c div 64) + c mod 64" "c div 64 = 64 * (c div 4096) + c div 64 mod 64"
    "c div 4096 = 64 * (c div 262144) + c div 4096 mod 64"
    using div_mult2_eq [of c 64 64] div_mult2_eq [of c 4096 64] by simp_all
  moreover have "c div 262144 < 8" using assms by (simp add: div_less_iff_less_mult)
  ultimately show thesis by (intro that [of "c div 262144" "c div 4096 mod 64" "c div 64 mod 64" "c mod 64"]) (linarith | simp)+
qed

lemma utf8_decode_3:
  "q < 16 \<Longrightarrow> m < 64 \<Longrightarrow> l < 64 \<Longrightarrow> utf8_decode (char_of (224 + q) # char_of (128 + m) # char_of (128 + l) # r) =
     (4096 * q + 64 * m + l) # utf8_decode r"
  by (simp add: Let_def utf8_tags)

lemma utf8_decode_4:
  "h < 8 \<Longrightarrow> q < 64 \<Longrightarrow> m < 64 \<Longrightarrow> l < 64 \<Longrightarrow>
   utf8_decode (char_of (240 + h) # char_of (128 + q) # char_of (128 + m) # char_of (128 + l) # r) =
     (262144 * h + 4096 * q + 64 * m + l) # utf8_decode r"
  by (simp add: Let_def utf8_tags)

lemma utf8_decode_2:
  "m < 32 \<Longrightarrow> l < 64 \<Longrightarrow> utf8_decode (char_of (192 + m) # char_of (128 + l) # r) = (64 * m + l) # utf8_decode r"
  by (simp add: Let_def utf8_tags)

lemma utf8_decode_char:
  assumes "c < 1114112"
  shows "utf8_decode (utf8_char c @ r) = c # utf8_decode r"
proof -
  obtain h q m l where c: "c = 262144 * h + 4096 * q + 64 * m + l" "h < 8" "q < 64" "m < 64" "l < 64"
    and d: "c div 262144 = h" "c div 4096 mod 64 = q" "c div 64 mod 64 = m" "c mod 64 = l" "c div 4096 = 64 * h + q"
      "c div 64 = 4096 * h + 64 * q + m"
    by (rule utf8_digits [OF assms])
  consider "c < 128" | "\<not> c < 128" "c < 2048" | "\<not> c < 2048" "c < 65536" | "\<not> c < 65536" by linarith
  then show ?thesis
  proof cases
    case 2
    then have "h = 0" "q = 0" "m < 32" using c by linarith+
    then show ?thesis using utf8_decode_2 [of m l r] 2 c d by (simp add: utf8_char_def)
  next
    case 3
    then have "h = 0" "q < 16" using c by linarith+
    then show ?thesis using utf8_decode_3 [of q m l r] 3 c d by (simp add: utf8_char_def)
  next
    case 4
    then show ?thesis using utf8_decode_4 [of h q m l r] c d by (simp add: utf8_char_def)
  qed (simp add: utf8_char_def Let_def)
qed

lemma utf8_decode_encode: "valid_text t \<Longrightarrow> utf8_decode (utf8_encode t) = t"
  by (induction t) (simp_all add: utf8_encode_def valid_text_def utf8_decode_char)

lemma utf8_encode_inject: "valid_text t \<Longrightarrow> valid_text u \<Longrightarrow> utf8_encode t = utf8_encode u \<longleftrightarrow> t = u"
  by (metis utf8_decode_encode)

lemma length_utf8_encode: "length (utf8_encode t) = utf8_len t"
  by (induction t) (simp_all add: utf8_encode_def utf8_len_def utf8_char_def utf8_width_def)

lemma length_le_utf8_len: "length t \<le> utf8_len t"
  by (induction t) (simp_all add: utf8_len_def utf8_width_def)

text \<open>\<open>document.get(key)\<close> and \<open>document.get(key, default)\<close>\<close>

definition jget_default :: "(string \<times> json) list \<Rightarrow> string \<Rightarrow> json \<Rightarrow> json" where
  "jget_default obj key d = (case map_of obj key of Some v \<Rightarrow> v | None \<Rightarrow> d)"

definition jget :: "(string \<times> json) list \<Rightarrow> string \<Rightarrow> json" where
  "jget obj key = jget_default obj key JNull"

definition jtruthy :: "json \<Rightarrow> bool" where
  "jtruthy v = (case v of JNull \<Rightarrow> False | JBool b \<Rightarrow> b | JInt i \<Rightarrow> i \<noteq> 0 | JFloat x \<Rightarrow> x \<noteq> 0
     | JStr s \<Rightarrow> s \<noteq> [] | JArr xs \<Rightarrow> xs \<noteq> [] | JObj kvs \<Rightarrow> kvs \<noteq> [])"

definition jnumber :: "json \<Rightarrow> real option" where
  "jnumber v = (case v of JInt i \<Rightarrow> Some (of_int i) | JFloat x \<Rightarrow> Some x | _ \<Rightarrow> None)"

section \<open>Decimal literals\<close>

datatype decimal_value = Not_a_decimal | Zero_decimal | Nonzero_decimal | Signalling_nan

definition is_exponent :: "string \<Rightarrow> bool" where
  "is_exponent r \<longleftrightarrow> r = [] \<or> (hd r = CHR ''e'' \<or> hd r = CHR ''E'')
     \<and> (let ds = (if tl r \<noteq> [] \<and> (hd (tl r) = CHR ''+'' \<or> hd (tl r) = CHR ''-'') then tl (tl r) else tl r)
        in ds \<noteq> [] \<and> list_all is_digit ds)"

definition decimal_lower :: "char \<Rightarrow> char" where
  "decimal_lower c = (let n = of_char c :: nat in if 65 \<le> n \<and> n \<le> 90 then char_of (n + 32) else c)"

definition decimal_of_string :: "string \<Rightarrow> decimal_value" where
  "decimal_of_string s =
     (let t = filter (\<lambda>c. c \<noteq> CHR ''_'')
                (rev (dropWhile (\<lambda>c. is_space (of_char c)) (rev (dropWhile (\<lambda>c. is_space (of_char c)) s))));
          u = (if t \<noteq> [] \<and> (hd t = CHR ''+'' \<or> hd t = CHR ''-'') then tl t else t);
          l = map decimal_lower u;
          ip = takeWhile is_digit u; r = dropWhile is_digit u;
          fp = (if r \<noteq> [] \<and> hd r = CHR ''.'' then takeWhile is_digit (tl r) else []);
          e = (if r \<noteq> [] \<and> hd r = CHR ''.'' then dropWhile is_digit (tl r) else r)
      in if l = ''inf'' \<or> l = ''infinity'' then Nonzero_decimal
         else if take 3 l = ''nan'' \<and> list_all is_digit (drop 3 l) then Nonzero_decimal
         else if take 4 l = ''snan'' \<and> list_all is_digit (drop 4 l) then Signalling_nan
         else if ip @ fp = [] \<or> \<not> is_exponent e then Not_a_decimal
         else if list_all (\<lambda>c. c = CHR ''0'') (ip @ fp) then Zero_decimal else Nonzero_decimal)"

text \<open>\<open>str\<close> of a Boolean or of \<open>None\<close> is no decimal, nor is a list's or an object's.\<close>

definition decimal_of_json :: "json \<Rightarrow> decimal_value" where
  "decimal_of_json v = (case v of
       JInt i \<Rightarrow> if i = 0 then Zero_decimal else Nonzero_decimal
     | JFloat x \<Rightarrow> if x = 0 then Zero_decimal else Nonzero_decimal
     | JStr s \<Rightarrow> decimal_of_string s
     | _ \<Rightarrow> Not_a_decimal)"

section \<open>Checks\<close>

text \<open>Validation code is a chain of checks, each of which raises with a message or goes on. A raise
  is \<open>Inl\<close> with the message.\<close>

definition require :: "bool \<Rightarrow> string \<Rightarrow> string + 'a \<Rightarrow> string + 'a" where
  "require condition message rest = (if condition then rest else Inl message)"

definition with_str :: "json \<Rightarrow> string \<Rightarrow> (string \<Rightarrow> string + 'a) \<Rightarrow> string + 'a" where
  "with_str v message k = (case v of JStr s \<Rightarrow> k s | _ \<Rightarrow> Inl message)"

definition with_int :: "json \<Rightarrow> string \<Rightarrow> (int \<Rightarrow> string + 'a) \<Rightarrow> string + 'a" where
  "with_int v message k = (case v of JInt i \<Rightarrow> k i | _ \<Rightarrow> Inl message)"

definition with_bool :: "json \<Rightarrow> string \<Rightarrow> (bool \<Rightarrow> string + 'a) \<Rightarrow> string + 'a" where
  "with_bool v message k = (case v of JBool b \<Rightarrow> k b | _ \<Rightarrow> Inl message)"

definition with_obj :: "json \<Rightarrow> string \<Rightarrow> ((string \<times> json) list \<Rightarrow> string + 'a) \<Rightarrow> string + 'a" where
  "with_obj v message k = (case v of JObj o' \<Rightarrow> k o' | _ \<Rightarrow> Inl message)"

definition with_arr :: "json \<Rightarrow> string \<Rightarrow> (json list \<Rightarrow> string + 'a) \<Rightarrow> string + 'a" where
  "with_arr v message k = (case v of JArr xs \<Rightarrow> k xs | _ \<Rightarrow> Inl message)"

definition with_some :: "'b option \<Rightarrow> string \<Rightarrow> ('b \<Rightarrow> string + 'a) \<Rightarrow> string + 'a" where
  "with_some v message k = (case v of Some x \<Rightarrow> k x | None \<Rightarrow> Inl message)"

definition checked :: "string + 'b \<Rightarrow> ('b \<Rightarrow> string + 'a) \<Rightarrow> string + 'a" where
  "checked r k = (case r of Inl e \<Rightarrow> Inl e | Inr x \<Rightarrow> k x)"

named_theorems check_simps \<open>when a chain of checks succeeds\<close>

lemma require_Inr [check_simps]: "require c m r = Inr x \<longleftrightarrow> c \<and> r = Inr x"
  by (simp add: require_def)

lemma with_str_Inr [check_simps]: "with_str v m k = Inr x \<longleftrightarrow> (\<exists>s. v = JStr s \<and> k s = Inr x)"
  by (cases v) (simp_all add: with_str_def)

lemma with_int_Inr [check_simps]: "with_int v m k = Inr x \<longleftrightarrow> (\<exists>i. v = JInt i \<and> k i = Inr x)"
  by (cases v) (simp_all add: with_int_def)

lemma with_bool_Inr [check_simps]: "with_bool v m k = Inr x \<longleftrightarrow> (\<exists>b. v = JBool b \<and> k b = Inr x)"
  by (cases v) (simp_all add: with_bool_def)

lemma with_obj_Inr [check_simps]: "with_obj v m k = Inr x \<longleftrightarrow> (\<exists>kvs. v = JObj kvs \<and> k kvs = Inr x)"
  by (cases v) (simp_all add: with_obj_def)

lemma with_arr_Inr [check_simps]: "with_arr v m k = Inr x \<longleftrightarrow> (\<exists>xs. v = JArr xs \<and> k xs = Inr x)"
  by (cases v) (simp_all add: with_arr_def)

lemma with_some_Inr [check_simps]: "with_some v m k = Inr x \<longleftrightarrow> (\<exists>y. v = Some y \<and> k y = Inr x)"
  by (cases v) (simp_all add: with_some_def)

lemma checked_Inr [check_simps]: "checked r k = Inr x \<longleftrightarrow> (\<exists>y. r = Inr y \<and> k y = Inr x)"
  by (cases r) (simp_all add: checked_def)

end
