(* ===== verification/Registry.thy ===== *)
theory Registry
  imports Json Plans
begin

text \<open>
  The reviewed model registry (\<open>daily_agent/gateway/registry.py\<close>): parsing a JSON document into a
  registry, with every check of the code as a branch. An error carries the constant part of its
  message. \<open>load_registry\<close> gets the reading of a file and the JSON parser as parameters.
\<close>

definition SCHEMA_VERSION :: string where "SCHEMA_VERSION = ''model-registry.v1''"

definition KNOWN_PROVIDERS :: "string list" where "KNOWN_PROVIDERS = [''openrouter'', ''opencode'']"

record registry_model =
  rm_model_id :: string
  rm_provider :: string
  rm_model_class :: model_class
  rm_context_length :: int
  rm_private_data_allowed :: bool
  rm_supports_structured_output :: bool
  rm_scores :: "(string \<times> real) list"
  rm_snapshot_date :: string

definition action :: "registry_model \<Rightarrow> string" where
  "action m = rm_provider m @ ''/'' @ rm_model_id m"

definition score :: "registry_model \<Rightarrow> string \<Rightarrow> real" where
  "score m task_type = (case map_of (rm_scores m) task_type of Some x \<Rightarrow> x
     | None \<Rightarrow> if rm_scores m \<noteq> [] then sum_list (map snd (rm_scores m)) / of_nat (length (rm_scores m)) else 0)"

record model_registry =
  mr_models :: "registry_model list"
  mr_snapshot_date :: string
  mr_provisional :: bool

definition registry_get :: "model_registry \<Rightarrow> string \<Rightarrow> string \<Rightarrow> registry_model option" where
  "registry_get reg provider model_id =
     List.find (\<lambda>m. rm_provider m = provider \<and> rm_model_id m = model_id) (mr_models reg)"

definition for_providers :: "model_registry \<Rightarrow> string list \<Rightarrow> model_registry" where
  "for_providers reg providers = reg\<lparr>mr_models := filter (\<lambda>m. rm_provider m \<in> set providers) (mr_models reg)\<rparr>"

definition zero_price :: "json \<Rightarrow> string \<Rightarrow> string + 'a \<Rightarrow> string + 'a" where
  "zero_price value field rest = (case decimal_of_json value of
       Not_a_decimal \<Rightarrow> Inl (field @ '' is not a number'')
     | Zero_decimal \<Rightarrow> rest
     | Nonzero_decimal \<Rightarrow> Inl (field @ '' is non-zero; only free models are allowed'')
     | Signalling_nan \<Rightarrow> Inl ''InvalidOperation'')"

text \<open>\<open>provider in KNOWN_PROVIDERS\<close> hashes the value: a list or an object has no hash.\<close>

definition known_provider :: "json \<Rightarrow> (string \<Rightarrow> string + 'a) \<Rightarrow> string + 'a" where
  "known_provider v k = (case v of
       JArr _ \<Rightarrow> Inl ''TypeError''
     | JObj _ \<Rightarrow> Inl ''TypeError''
     | JStr s \<Rightarrow> if s \<in> set KNOWN_PROVIDERS then k s else Inl ''unknown provider''
     | _ \<Rightarrow> Inl ''unknown provider'')"

definition class_of_json :: "json \<Rightarrow> model_class option" where
  "class_of_json v = (case v of JStr c \<Rightarrow> class_of_value c | _ \<Rightarrow> None)"

fun score_values :: "(string \<times> json) list \<Rightarrow> string + (string \<times> real) list" where
  "score_values [] = Inr []"
| "score_values ((k, v) # kvs) =
     with_some (jnumber v) ''score must be within 0..1'' (\<lambda>x.
     require (0 \<le> x \<and> x \<le> 1) ''score must be within 0..1''
     (checked (score_values kvs) (\<lambda>rest.
     Inr ((k, x) # rest))))"

definition parse_model :: "string \<Rightarrow> (string \<times> string) list \<Rightarrow> json \<Rightarrow> string + registry_model" where
  "parse_model snapshot seen row =
     with_obj row ''model entry must be an object'' (\<lambda>obj.
     with_str (jget obj ''model_id'') ''model_id must be a non-empty string'' (\<lambda>model_id.
     require (model_id \<noteq> []) ''model_id must be a non-empty string''
     (known_provider (jget obj ''provider'') (\<lambda>provider.
     require ((provider, model_id) \<notin> set seen) ''duplicate entry''
     (zero_price (jget obj ''prompt_price_usd'') ''prompt_price_usd''
     (zero_price (jget obj ''completion_price_usd'') ''completion_price_usd''
     (with_some (class_of_json (jget obj ''class'')) ''unknown class'' (\<lambda>model_class.
     with_int (jget obj ''context_length'') ''context_length must be a positive integer'' (\<lambda>context.
     require (context > 0) ''context_length must be a positive integer''
     (with_bool (jget obj ''private_data_allowed'') ''private_data_allowed must be a boolean'' (\<lambda>private.
     require (private \<longrightarrow> jget obj ''data_terms'' = JStr ''no_training'')
       ''private data requires explicit data_terms no_training''
     (with_bool (jget_default obj ''supports_structured_output'' (JBool False))
       ''supports_structured_output must be a boolean'' (\<lambda>structured.
     with_obj (jget_default obj ''scores'' (JObj [])) ''scores must be an object'' (\<lambda>kvs.
     checked (score_values kvs) (\<lambda>scores.
     Inr \<lparr>rm_model_id = model_id, rm_provider = provider, rm_model_class = model_class,
          rm_context_length = context, rm_private_data_allowed = private,
          rm_supports_structured_output = structured, rm_scores = scores,
          rm_snapshot_date = snapshot\<rparr>)))))))))))))))"

fun parse_models :: "string \<Rightarrow> (string \<times> string) list \<Rightarrow> json list \<Rightarrow> string + registry_model list" where
  "parse_models snapshot seen [] = Inr []"
| "parse_models snapshot seen (row # rows) =
     checked (parse_model snapshot seen row) (\<lambda>m.
     checked (parse_models snapshot ((rm_provider m, rm_model_id m) # seen) rows) (\<lambda>ms.
     Inr (m # ms)))"

definition parse_registry :: "json \<Rightarrow> string + model_registry" where
  "parse_registry document =
     with_obj document ''registry must be a JSON object'' (\<lambda>obj.
     require (jget obj ''schema_version'' = JStr SCHEMA_VERSION) ''unsupported registry schema_version''
     (with_str (jget obj ''snapshot_date'') ''snapshot_date must be YYYY-MM-DD'' (\<lambda>snapshot.
     require (length (utf8_decode snapshot) = 10) ''snapshot_date must be YYYY-MM-DD''
     (with_arr (jget obj ''models'') ''models must be a list'' (\<lambda>rows.
     checked (parse_models snapshot [] rows) (\<lambda>models.
     Inr \<lparr>mr_models = models, mr_snapshot_date = snapshot,
          mr_provisional = jtruthy (jget_default obj ''provisional'' (JBool True))\<rparr>))))))"

text \<open>\<open>read_file None\<close> is the packaged seed; \<open>None\<close> as a text or a document is the \<open>OSError\<close>
  or the \<open>ValueError\<close>.\<close>

definition load_registry ::
  "('path option \<Rightarrow> 'text option) \<Rightarrow> ('text \<Rightarrow> json option) \<Rightarrow> 'path option \<Rightarrow> string + model_registry" where
  "load_registry read_file json_loads path =
     with_some (Option.bind (read_file path) json_loads) ''model registry cannot be read'' parse_registry"

section \<open>What an accepted registry guarantees\<close>

lemma zero_price_Inr [check_simps]: "zero_price v f r = Inr x \<longleftrightarrow> decimal_of_json v = Zero_decimal \<and> r = Inr x"
  by (simp add: zero_price_def split: decimal_value.split)

lemma known_provider_Inr [check_simps]:
  "known_provider v k = Inr x \<longleftrightarrow> (\<exists>s. v = JStr s \<and> s \<in> set KNOWN_PROVIDERS \<and> k s = Inr x)"
  by (cases v) (auto simp: known_provider_def)

lemma score_values_bounds:
  "score_values kvs = Inr scores \<Longrightarrow> map fst scores = map fst kvs \<and> (\<forall>(k, x) \<in> set scores. 0 \<le> x \<and> x \<le> 1)"
  by (induction kvs arbitrary: scores rule: score_values.induct) (auto simp: check_simps)

lemma score_values_in: "score_values kvs = Inr scores \<Longrightarrow> (k, x) \<in> set scores \<Longrightarrow> 0 \<le> x \<and> x \<le> 1"
  using score_values_bounds by fastforce

text \<open>What the code checked of one entry\<close>

definition safe_entry :: "json \<Rightarrow> registry_model \<Rightarrow> bool" where
  "safe_entry row m \<longleftrightarrow> (\<exists>obj. row = JObj obj \<and> jget obj ''model_id'' = JStr (rm_model_id m)
     \<and> jget obj ''provider'' = JStr (rm_provider m)
     \<and> decimal_of_json (jget obj ''prompt_price_usd'') = Zero_decimal
     \<and> decimal_of_json (jget obj ''completion_price_usd'') = Zero_decimal
     \<and> (rm_private_data_allowed m \<longrightarrow> jget obj ''data_terms'' = JStr ''no_training''))
   \<and> rm_model_id m \<noteq> [] \<and> rm_provider m \<in> set KNOWN_PROVIDERS \<and> 0 < rm_context_length m
   \<and> (\<forall>(k, x) \<in> set (rm_scores m). 0 \<le> x \<and> x \<le> 1)"

lemma parse_model_safe:
  assumes "parse_model snapshot seen row = Inr m"
  shows "safe_entry row m \<and> (rm_provider m, rm_model_id m) \<notin> set seen \<and> rm_snapshot_date m = snapshot"
  using assms
  unfolding parse_model_def check_simps by (auto simp: safe_entry_def dest: score_values_in)

lemma parse_models_safe:
  "parse_models snapshot seen rows = Inr ms \<Longrightarrow>
   list_all2 safe_entry rows ms \<and> distinct (map (\<lambda>m. (rm_provider m, rm_model_id m)) ms)
   \<and> (\<forall>m \<in> set ms. (rm_provider m, rm_model_id m) \<notin> set seen \<and> rm_snapshot_date m = snapshot)"
proof (induction snapshot seen rows arbitrary: ms rule: parse_models.induct)
  case (2 snapshot seen row rows)
  then obtain m ms' where m: "parse_model snapshot seen row = Inr m" and ms: "ms = m # ms'"
    and rest: "parse_models snapshot ((rm_provider m, rm_model_id m) # seen) rows = Inr ms'"
    by (auto simp: check_simps)
  show ?case using 2(1) [OF rest] parse_model_safe [OF m] by (auto simp: ms)
qed simp

lemma parse_registry_rows:
  assumes "parse_registry document = Inr reg"
  obtains obj rows where "document = JObj obj" "jget obj ''models'' = JArr rows"
    "parse_models (mr_snapshot_date reg) [] rows = Inr (mr_models reg)"
  using assms unfolding parse_registry_def check_simps by auto

text \<open>C21: A registry that loads is safe. Every model of an accepted registry comes from an entry
  of the document whose two prices are zero, names a known provider, has a positive context
  length and scores within 0..1, and claims private-data eligibility only with explicit no-training
  terms; the models stand in the document's order, none is dropped, and no provider lists a model
  twice.\<close>

theorem accepted_registry_is_safe:
  assumes "parse_registry document = Inr reg"
  shows "\<exists>obj rows. document = JObj obj \<and> jget obj ''models'' = JArr rows
     \<and> list_all2 safe_entry rows (mr_models reg)
     \<and> distinct (map (\<lambda>m. (rm_provider m, rm_model_id m)) (mr_models reg))
     \<and> (\<forall>m \<in> set (mr_models reg). rm_snapshot_date m = mr_snapshot_date reg)"
  using parse_registry_rows [OF assms] parse_models_safe by (metis (no_types, lifting))

definition sample_entry :: "string \<Rightarrow> string \<Rightarrow> string \<Rightarrow> int \<Rightarrow> json" where
  "sample_entry provider model cls context = JObj [(''model_id'', JStr model), (''provider'', JStr provider),
     (''prompt_price_usd'', JStr ''0.00''), (''completion_price_usd'', JInt 0), (''class'', JStr cls),
     (''context_length'', JInt context), (''private_data_allowed'', JBool False)]"

definition sample_registry :: json where
  "sample_registry = JObj [(''schema_version'', JStr ''model-registry.v1''), (''snapshot_date'', JStr ''2026-10-10''),
     (''models'', JArr [sample_entry ''openrouter'' ''small:free'' ''economy'' 32768,
        sample_entry ''opencode'' ''big-pickle'' ''balanced'' 200000])]"

lemma sample_registry_accepted:
  "case parse_registry sample_registry of Inr reg \<Rightarrow> map rm_model_id (mr_models reg) = [''small:free'', ''big-pickle'']
   | Inl e \<Rightarrow> False"
  by code_simp

theorem accepted_registry_is_safe_witness:
  "case parse_registry sample_registry of Inl e \<Rightarrow> False
   | Inr reg \<Rightarrow> length (mr_models reg) = 2 \<and> distinct (map (\<lambda>m. (rm_provider m, rm_model_id m)) (mr_models reg))"
proof -
  obtain reg where reg: "parse_registry sample_registry = Inr reg"
    and ids: "map rm_model_id (mr_models reg) = [''small:free'', ''big-pickle'']"
    using sample_registry_accepted by (auto split: sum.splits)
  have "length (mr_models reg) = 2" using ids by (metis length_map length_Cons list.size(3) numeral_2_eq_2)
  then show ?thesis using accepted_registry_is_safe [OF reg] reg by auto
qed

end
