(* ===== verification/Router.thy ===== *)
theory Router
  imports Registry "HOL-Library.Multiset"
begin

text \<open>
  The rules router (\<open>daily_agent/gateway/router.py\<close>): the task type of a message by its cues, the
  class a request starts from, and the ordered list of eligible models. Text is a list of code
  points. The classification of code points above 127 as word characters or digits
  (\<open>w\<close> and \<open>d\<close> of a Unicode pattern) is the parameter \<open>uni\<close>.
\<close>

section \<open>Pattern search\<close>

record unicode_tables =
  un_word :: "nat \<Rightarrow> bool"
  un_digit :: "nat \<Rightarrow> bool"

definition digit_char :: "unicode_tables \<Rightarrow> nat \<Rightarrow> bool" where
  "digit_char uni c = (if c < 128 then 48 \<le> c \<and> c \<le> 57 else un_digit uni c)"

definition word_char :: "unicode_tables \<Rightarrow> nat \<Rightarrow> bool" where
  "word_char uni c = (if c < 128 then 48 \<le> c \<and> c \<le> 57 \<or> 65 \<le> c \<and> c \<le> 90 \<or> 97 \<le> c \<and> c \<le> 122 \<or> c = 95
     else un_word uni c)"

text \<open>\<open>re.IGNORECASE\<close> on the patterns' ASCII letters\<close>

definition fold_case :: "nat \<Rightarrow> nat" where
  "fold_case c = (if 65 \<le> c \<and> c \<le> 90 then c + 32 else if c = 304 \<or> c = 305 then 105
     else if c = 383 then 115 else if c = 8490 then 107 else c)"

definition lit_at :: "utext \<Rightarrow> utext \<Rightarrow> bool" where
  "lit_at w rest \<longleftrightarrow> map fold_case (take (length w) rest) = w"

definition word_opt :: "unicode_tables \<Rightarrow> nat option \<Rightarrow> bool" where
  "word_opt uni c = (case c of Some x \<Rightarrow> word_char uni x | None \<Rightarrow> False)"

definition head_opt :: "utext \<Rightarrow> nat option" where
  "head_opt rest = (case rest of [] \<Rightarrow> None | c # _ \<Rightarrow> Some c)"

text \<open>\<open>b\<close> between two neighbours, and \<open>a whole-word alternative\<close> at a position\<close>

definition boundary :: "unicode_tables \<Rightarrow> nat option \<Rightarrow> nat option \<Rightarrow> bool" where
  "boundary uni a b \<longleftrightarrow> word_opt uni a \<noteq> word_opt uni b"

definition word_at :: "unicode_tables \<Rightarrow> utext \<Rightarrow> nat option \<Rightarrow> utext \<Rightarrow> bool" where
  "word_at uni w prev rest \<longleftrightarrow> lit_at w rest \<and> boundary uni prev (head_opt rest)
     \<and> boundary uni (Some (last w)) (head_opt (drop (length w) rest))"

fun search :: "(nat option \<Rightarrow> utext \<Rightarrow> bool) \<Rightarrow> nat option \<Rightarrow> utext \<Rightarrow> bool" where
  "search m prev [] = m prev []"
| "search m prev (c # cs) = (m prev (c # cs) \<or> search m (Some c) cs)"

section \<open>The cues\<close>

definition CODE_WORDS :: "utext list" where
  "CODE_WORDS = map codes [''python'', ''javascript'', ''typescript'', ''java'', ''c++'', ''rust'', ''sql'', ''html'',
     ''css'', ''bug'', ''compile'', ''compiler'', ''syntax error'', ''regex'', ''algorithm'', ''function in'']"

text \<open>\<open>bdef \<close>\<close>

definition def_at :: "unicode_tables \<Rightarrow> nat option \<Rightarrow> utext \<Rightarrow> bool" where
  "def_at uni prev rest \<longleftrightarrow> lit_at (codes ''def '') rest \<and> boundary uni prev (head_opt rest)
     \<and> (let name = takeWhile (word_char uni) (drop 4 rest)
        in name \<noteq> [] \<and> head_opt (drop (4 + length name) rest) = Some 40)"

definition code_cue :: "unicode_tables \<Rightarrow> nat option \<Rightarrow> utext \<Rightarrow> bool" where
  "code_cue uni prev rest \<longleftrightarrow> lit_at [96, 96, 96] rest \<or> def_at uni prev rest
     \<or> lit_at (codes ''traceback'') rest \<or> lit_at (codes ''stack trace'') rest
     \<or> lit_at (codes ''segmentation fault'') rest
     \<or> list_ex (\<lambda>w. word_at uni w prev rest) CODE_WORDS"

definition MATHS_WORDS :: "utext list" where
  "MATHS_WORDS = map codes [''solve'', ''integral'', ''integrate'', ''derivative'', ''differentiate'', ''equation'',
     ''probability'', ''matrix'', ''theorem'', ''simplify'', ''factorise'', ''factorize'', ''calculate'', ''percentage'',
     ''trigonometry'', ''sin'', ''cos'', ''tan'', ''log'']"

text \<open>\<open>ds*[-+*/^=]s*[dxyz(]\<close>\<close>

definition operator_at :: "unicode_tables \<Rightarrow> utext \<Rightarrow> bool" where
  "operator_at uni rest = (case rest of [] \<Rightarrow> False | c # r \<Rightarrow> digit_char uni c \<and>
     (case dropWhile is_space r of [] \<Rightarrow> False | o' # r' \<Rightarrow> o' \<in> {45, 43, 42, 47, 94, 61} \<and>
       (case dropWhile is_space r' of [] \<Rightarrow> False
          | d # _ \<Rightarrow> digit_char uni d \<or> fold_case d \<in> {120, 121, 122} \<or> d = 40)))"

definition GANIT :: utext where "GANIT = [2327, 2339, 2367, 2340]"
definition HAL_KAR :: utext where "HAL_KAR = [2361, 2354, 32, 2325, 2352]"
definition SARANSH :: utext where "SARANSH = [2360, 2366, 2352, 2366, 2306, 2358]"

definition maths_cue :: "unicode_tables \<Rightarrow> nat option \<Rightarrow> utext \<Rightarrow> bool" where
  "maths_cue uni prev rest \<longleftrightarrow> list_ex (\<lambda>w. word_at uni w prev rest) MATHS_WORDS \<or> operator_at uni rest
     \<or> lit_at GANIT rest \<or> lit_at HAL_KAR rest"

definition SUMMARY_WORDS :: "utext list" where
  "SUMMARY_WORDS = map codes [''summarise'', ''summarize'', ''summary'', ''tl;dr'', ''tldr'', ''key points'']"

definition summary_cue :: "unicode_tables \<Rightarrow> nat option \<Rightarrow> utext \<Rightarrow> bool" where
  "summary_cue uni prev rest \<longleftrightarrow> list_ex (\<lambda>w. word_at uni w prev rest) SUMMARY_WORDS \<or> lit_at SARANSH rest"

definition SUMMARY_MIN_CHARS :: nat where "SUMMARY_MIN_CHARS = 1500"

definition is_devanagari :: "nat \<Rightarrow> bool" where
  "is_devanagari c \<longleftrightarrow> 2304 \<le> c \<and> c \<le> 2431"

definition is_latin :: "nat \<Rightarrow> bool" where
  "is_latin c \<longleftrightarrow> 65 \<le> c \<and> c \<le> 90 \<or> 97 \<le> c \<and> c \<le> 122"

text \<open>The shares are compared exactly; the code divides floats.\<close>

definition classify_task :: "unicode_tables \<Rightarrow> utext \<Rightarrow> task_type" where
  "classify_task uni message =
     (if length message \<ge> SUMMARY_MIN_CHARS \<and> search (summary_cue uni) None message then SUMMARY
      else if search (code_cue uni) None message then CODE
      else if search (maths_cue uni) None message then MATHS
      else let devanagari = length (filter is_devanagari message);
               latin = length (filter is_latin message);
               letters = devanagari + latin
           in if devanagari \<noteq> 0 \<and> letters \<noteq> 0 \<and> 10 * devanagari \<ge> 6 * letters then HINDI
              else if devanagari \<noteq> 0 \<and> letters \<noteq> 0 \<and> 10 * devanagari \<ge> letters then MIXED
              else STUDY)"

section \<open>Routing\<close>

definition HARD :: "task_type list" where "HARD = [CODE, MATHS, SUMMARY]"

record route_request =
  rq_plan :: plan_policy_row
  rq_task_type :: task_type
  rq_prompt_tokens :: int
  rq_max_output_tokens :: int
  rq_structured_output :: bool
  rq_escalate :: bool

definition allowed_classes :: "plan_policy_row \<Rightarrow> model_class list" where
  "allowed_classes plan = sort_key class_rank (model_classes plan)"

definition ladder :: "plan_policy_row \<Rightarrow> model_class list" where
  "ladder plan = filter (\<lambda>c. class_rank c \<ge> class_rank (min_class plan)) (allowed_classes plan)"

definition steps :: "route_request \<Rightarrow> nat" where
  "steps request = (if rq_task_type request \<in> set HARD then 1 else 0) + (if rq_escalate request then 1 else 0)"

definition start_class :: "route_request \<Rightarrow> model_class option" where
  "start_class request =
     (let rungs = ladder (rq_plan request)
      in if rungs = [] then None else Some (rungs ! min (steps request) (length rungs - 1)))"

definition route_key :: "task_type \<Rightarrow> registry_model \<Rightarrow> nat \<times> real \<times> string" where
  "route_key task m = (class_rank (rm_model_class m), - score m (task_value task), action m)"

definition eligible_from :: "model_registry \<Rightarrow> route_request \<Rightarrow> (registry_model \<Rightarrow> bool) \<Rightarrow> string list
   \<Rightarrow> nat option \<Rightarrow> model_class \<Rightarrow> registry_model list" where
  "eligible_from registry request is_available exclude min_rank base =
     (let needed = rq_prompt_tokens request + rq_max_output_tokens request;
          rank_floor = (case min_rank of None \<Rightarrow> class_rank base | Some r \<Rightarrow> max (class_rank base) r)
      in sort_key (route_key (rq_task_type request))
           (filter (\<lambda>m. rm_model_class m \<in> set (allowed_classes (rq_plan request))
              \<and> class_rank (rm_model_class m) \<ge> rank_floor
              \<and> rm_context_length m \<ge> needed
              \<and> (\<not> rq_structured_output request \<or> rm_supports_structured_output m)
              \<and> action m \<notin> set exclude
              \<and> is_available m) (mr_models registry)))"

definition eligible_models :: "model_registry \<Rightarrow> route_request \<Rightarrow> (registry_model \<Rightarrow> bool) \<Rightarrow> string list
   \<Rightarrow> nat option \<Rightarrow> model_class option \<Rightarrow> registry_model list" where
  "eligible_models registry request is_available exclude min_rank min_class_floor =
     (case (case min_class_floor of Some c \<Rightarrow> Some c | None \<Rightarrow> start_class request) of
        None \<Rightarrow> []
      | Some base \<Rightarrow> eligible_from registry request is_available exclude min_rank base)"

lemma set_eligible_from:
  "set (eligible_from registry request av exclude min_rank base) =
     {m \<in> set (mr_models registry). rm_model_class m \<in> set (model_classes (rq_plan request))
        \<and> class_rank (rm_model_class m) \<ge> (case min_rank of None \<Rightarrow> class_rank base | Some r \<Rightarrow> max (class_rank base) r)
        \<and> rm_context_length m \<ge> rq_prompt_tokens request + rq_max_output_tokens request
        \<and> (\<not> rq_structured_output request \<or> rm_supports_structured_output m)
        \<and> action m \<notin> set exclude \<and> av m}"
  by (auto simp: eligible_from_def allowed_classes_def Let_def)

lemma sorted_eligible_from:
  "sorted (map (route_key (rq_task_type request)) (eligible_from registry request av exclude min_rank base))"
  by (simp add: eligible_from_def Let_def)

lemma eligible_models_in:
  "m \<in> set (eligible_models registry request av exclude min_rank mcf) \<Longrightarrow>
   m \<in> set (mr_models registry) \<and> rm_model_class m \<in> set (model_classes (rq_plan request)) \<and> action m \<notin> set exclude \<and> av m
   \<and> rm_context_length m \<ge> rq_prompt_tokens request + rq_max_output_tokens request"
  by (auto simp: eligible_models_def set_eligible_from split: option.splits)

lemma ladder_sorted: "sorted (map class_rank (ladder plan))"
  by (simp add: ladder_def allowed_classes_def sorted_filter)

lemma start_class_Some: "start_class request = Some c \<longleftrightarrow>
  ladder (rq_plan request) \<noteq> [] \<and> c = ladder (rq_plan request) ! min (steps request) (length (ladder (rq_plan request)) - 1)"
  by (auto simp: start_class_def Let_def)

lemma ladder_plan: "ladder (plan_policy su) \<noteq> []"
proof -
  have "min_class (plan_policy su) \<in> set (ladder (plan_policy su))"
    using plan_policy_sane(5) [of su] by (simp add: ladder_def allowed_classes_def)
  then show ?thesis by auto
qed

section \<open>Properties\<close>

text \<open>The candidates of a request. The router returns exactly the models of the registry that are
  of a class the plan allows and not below the starting class, have the context for the prompt and
  the reply, give structured output when it is asked for, are not excluded and are available; each of
  them once per registry entry; cheapest class first, then best score for the task, then by action
  name. A plan with no class at or above its floor gets none.\<close>

theorem eligible_models_exact:
  "case start_class request of
     None \<Rightarrow> eligible_models registry request av exclude None None = []
   | Some c \<Rightarrow>
       mset (eligible_models registry request av exclude None None)
         = filter_mset (\<lambda>m. rm_model_class m \<in> set (model_classes (rq_plan request))
             \<and> class_rank c \<le> class_rank (rm_model_class m)
             \<and> rq_prompt_tokens request + rq_max_output_tokens request \<le> rm_context_length m
             \<and> (\<not> (rq_structured_output request \<and> \<not> rm_supports_structured_output m))
             \<and> action m \<notin> set exclude \<and> av m) (mset (mr_models registry))
     \<and> sorted (map (\<lambda>m. (class_rank (rm_model_class m), - score m (task_value (rq_task_type request)), action m))
          (eligible_models registry request av exclude None None))"
proof (cases "start_class request")
  case (Some c)
  have "sorted (map (route_key (rq_task_type request)) (eligible_from registry request av exclude None c))"
    by (rule sorted_eligible_from)
  then show ?thesis
    by (auto simp: Some eligible_models_def eligible_from_def Let_def allowed_classes_def route_key_def [abs_def]
        intro!: filter_mset_cong arg_cong [where f = mset])
qed (simp add: eligible_models_def)

text \<open>Starting class. For every plan the program can be on, a request has a starting class, one
  the plan allows and not below its floor; escalating a request never lowers its starting class, and
  raises it unless the request already starts at the plan's highest class.\<close>

theorem escalation_raises_class:
  assumes "rq_plan request = plan_policy su"
  shows "\<exists>c d. start_class (request\<lparr>rq_escalate := False\<rparr>) = Some c \<and> start_class (request\<lparr>rq_escalate := True\<rparr>) = Some d
     \<and> {c, d} \<subseteq> set (model_classes (plan_policy su)) \<and> class_rank (min_class (plan_policy su)) \<le> class_rank c
     \<and> class_rank c \<le> class_rank d
     \<and> (class_rank c < class_rank d \<or> (\<forall>e \<in> set (model_classes (plan_policy su)). class_rank e \<le> class_rank c))"
proof -
  have k: "{steps (request\<lparr>rq_escalate := False\<rparr>), steps (request\<lparr>rq_escalate := True\<rparr>)} \<subseteq> {0, 1, 2}"
    and k': "steps (request\<lparr>rq_escalate := True\<rparr>) = Suc (steps (request\<lparr>rq_escalate := False\<rparr>))"
    by (auto simp: steps_def)
  have "ladder ananta = [ECONOMY]" "ladder yanta = [ECONOMY, BALANCED]" "ladder trika = [BALANCED, ADVANCED]"
    "ladder parth = [BALANCED, ADVANCED]"
    by (simp_all add: ladder_def allowed_classes_def ananta_def yanta_def trika_def parth_def class_rank_def)
  then show ?thesis
    using plan_policy_cases [of su] k k' assms
    by (auto simp: start_class_def Let_def ananta_def yanta_def trika_def parth_def class_rank_def)
qed

theorem escalation_raises_class_witness:
  "start_class \<lparr>rq_plan = trika, rq_task_type = STUDY, rq_prompt_tokens = 10, rq_max_output_tokens = 10,
     rq_structured_output = False, rq_escalate = False\<rparr> = Some BALANCED
   \<and> start_class \<lparr>rq_plan = trika, rq_task_type = STUDY, rq_prompt_tokens = 10, rq_max_output_tokens = 10,
     rq_structured_output = False, rq_escalate = True\<rparr> = Some ADVANCED"
proof -
  let ?su = "new_subscription (DateTime (Date 2026 3 30) 0) 7 ''trika'' 0"
  let ?r = "\<lparr>rq_plan = trika, rq_task_type = STUDY, rq_prompt_tokens = 10, rq_max_output_tokens = 10,
     rq_structured_output = False, rq_escalate = False\<rparr>"
  have p: "plan_policy (Some ?su) = trika" by (simp add: plan_policy_def new_subscription_def SYNTHETIC_POLICIES_def)
  have "rq_plan ?r = plan_policy (Some ?su)" by (simp add: p)
  note c = escalation_raises_class [OF this, unfolded p]
  have l: "ladder trika = [BALANCED, ADVANCED]"
    by (simp add: ladder_def allowed_classes_def trika_def class_rank_def)
  then have "start_class ?r = Some BALANCED" by (simp add: start_class_def steps_def HARD_def)
  moreover from this c obtain d where d: "start_class (?r\<lparr>rq_escalate := True\<rparr>) = Some d"
    and up: "class_rank BALANCED < class_rank d \<or> (\<forall>e \<in> set (model_classes trika). class_rank e \<le> class_rank BALANCED)"
    by auto
  have "d = ADVANCED" using up by (cases d) (simp_all add: trika_def class_rank_def)
  ultimately show ?thesis using d by simp
qed

definition ascii_tables :: unicode_tables where
  "ascii_tables = \<lparr>un_word = (\<lambda>_. False), un_digit = (\<lambda>_. False)\<rparr>"

text \<open>The C++ cue does not fire. The pattern for code words ends in a word boundary, and after
  a plus sign that asks for a following word character: "c++" followed by a space, by punctuation or by
  the end of the message is not found, so that such a message is classified as study, where the
  same message about Rust is classified as code.\<close>

theorem cpp_cue_does_not_fire:
  "classify_task ascii_tables (codes ''fix my c++ loop'') = STUDY
   \<and> classify_task ascii_tables (codes ''fix my rust loop'') = CODE
   \<and> classify_task ascii_tables (codes ''explain c++'') = STUDY"
  by code_simp

end
