(* ===== verification/Health.thy ===== *)
theory Health
  imports Providers
begin

text \<open>
  Provider health (\<open>HealthTracker\<close> of \<open>daily_agent/gateway/health.py\<close>): a circuit breaker per
  provider, a cooldown per model and the models disabled for reporting a price. Clock readings are
  real numbers passed to each operation; the lock makes each operation one step.
\<close>

record breaker_state =
  bk_failures :: int
  bk_opened_at :: "real option"
  bk_probing :: bool

definition new_breaker :: breaker_state where
  "new_breaker = \<lparr>bk_failures = 0, bk_opened_at = None, bk_probing = False\<rparr>"

record health_config =
  hc_threshold :: int
  hc_open_seconds :: real
  hc_default_cooldown :: real
  hc_max_cooldown :: real

record health =
  hl_breakers :: "string \<Rightarrow> breaker_state option"
  hl_cooldowns :: "string \<times> string \<Rightarrow> real option"
  hl_disabled :: "(string \<times> string) list"

definition new_health :: health where
  "new_health = \<lparr>hl_breakers = (\<lambda>_. None), hl_cooldowns = (\<lambda>_. None), hl_disabled = []\<rparr>"

definition available :: "health_config \<Rightarrow> real \<Rightarrow> string \<Rightarrow> string \<Rightarrow> health \<Rightarrow> bool" where
  "available cfg now provider model_id h =
     (if (provider, model_id) \<in> set (hl_disabled h) then False
      else if (case hl_cooldowns h (provider, model_id) of Some until \<Rightarrow> now < until | None \<Rightarrow> False) then False
      else case hl_breakers h provider of
          None \<Rightarrow> True
        | Some state \<Rightarrow> (case bk_opened_at state of
              None \<Rightarrow> True
            | Some opened \<Rightarrow> if now - opened < hc_open_seconds cfg then False else \<not> bk_probing state))"

definition begin_call :: "string \<Rightarrow> health \<Rightarrow> health" where
  "begin_call provider h = (case hl_breakers h provider of
       Some state \<Rightarrow> if bk_opened_at state \<noteq> None
         then h\<lparr>hl_breakers := (hl_breakers h)(provider \<mapsto> state\<lparr>bk_probing := True\<rparr>)\<rparr> else h
     | None \<Rightarrow> h)"

definition record_success :: "string \<Rightarrow> health \<Rightarrow> health" where
  "record_success provider h = h\<lparr>hl_breakers := (hl_breakers h)(provider \<mapsto> new_breaker)\<rparr>"

definition release_probe :: "string \<Rightarrow> health \<Rightarrow> health" where
  "release_probe provider h = (case hl_breakers h provider of
       Some state \<Rightarrow> h\<lparr>hl_breakers := (hl_breakers h)(provider \<mapsto> state\<lparr>bk_probing := False\<rparr>)\<rparr>
     | None \<Rightarrow> h)"

definition cooldown_seconds :: "health_config \<Rightarrow> delay option \<Rightarrow> real" where
  "cooldown_seconds cfg retry_after = (case retry_after of
       None \<Rightarrow> min (hc_default_cooldown cfg) (hc_max_cooldown cfg)
     | Some Forever \<Rightarrow> hc_max_cooldown cfg
     | Some (Seconds s) \<Rightarrow> min (if s \<le> 0 then hc_default_cooldown cfg else s) (hc_max_cooldown cfg))"

definition record_failure ::
  "health_config \<Rightarrow> real \<Rightarrow> string \<Rightarrow> string \<Rightarrow> provider_error \<Rightarrow> health \<Rightarrow> health" where
  "record_failure cfg now provider model_id error h =
     (case pe_kind error of
        NON_ZERO_PRICE \<Rightarrow> h\<lparr>hl_disabled := (provider, model_id) # hl_disabled h\<rparr>
      | RATE_LIMITED \<Rightarrow> release_probe provider
          (h\<lparr>hl_cooldowns := (hl_cooldowns h)
               ((provider, model_id) \<mapsto> now + cooldown_seconds cfg (pe_retry_after_seconds error))\<rparr>)
      | REJECTED \<Rightarrow> release_probe provider h
      | _ \<Rightarrow>
          let state = (case hl_breakers h provider of Some b \<Rightarrow> b | None \<Rightarrow> new_breaker);
              failures = bk_failures state + 1
          in h\<lparr>hl_breakers := (hl_breakers h)(provider \<mapsto>
               \<lparr>bk_failures = failures,
                bk_opened_at = (if pe_kind error = AUTH \<or> failures \<ge> hc_threshold cfg then Some now
                                else bk_opened_at state),
                bk_probing = False\<rparr>)\<rparr>)"

definition provider_open :: "string \<Rightarrow> health \<Rightarrow> bool" where
  "provider_open provider h = (case hl_breakers h provider of
       Some state \<Rightarrow> bk_opened_at state \<noteq> None | None \<Rightarrow> False)"

section \<open>Counting failures\<close>

definition counted :: "error_kind \<Rightarrow> bool" where
  "counted k \<longleftrightarrow> k \<in> {TIMEOUT, SERVER, INVALID}"

fun record_failures ::
  "health_config \<Rightarrow> string \<Rightarrow> (real \<times> string \<times> provider_error) list \<Rightarrow> health \<Rightarrow> health" where
  "record_failures cfg provider [] h = h"
| "record_failures cfg provider ((now, model_id, error) # fs) h =
     record_failures cfg provider fs (record_failure cfg now provider model_id error h)"

lemma record_failure_counted:
  "counted (pe_kind error) \<Longrightarrow>
   hl_breakers (record_failure cfg now p m error h) p =
     (let state = (case hl_breakers h p of Some b \<Rightarrow> b | None \<Rightarrow> new_breaker) in
      Some \<lparr>bk_failures = bk_failures state + 1,
        bk_opened_at = (if bk_failures state + 1 \<ge> hc_threshold cfg then Some now else bk_opened_at state),
        bk_probing = False\<rparr>)"
  by (auto simp: record_failure_def counted_def Let_def)

lemma record_failures_snoc:
  "record_failures cfg p (fs @ [(t, m, e)]) h = record_failure cfg t p m e (record_failures cfg p fs h)"
  by (induction fs arbitrary: h) auto

lemma breaker_after:
  assumes "\<forall>(t, m, e) \<in> set fs. counted (pe_kind e)" and "hl_breakers h p \<in> {None, Some new_breaker}" and "fs \<noteq> []"
  shows "hl_breakers (record_failures cfg p fs h) p = Some
     \<lparr>bk_failures = int (length fs),
      bk_opened_at = (if int (length fs) \<ge> hc_threshold cfg then Some (fst (last fs)) else None),
      bk_probing = False\<rparr>"
  using assms(1,3)
proof (induction fs rule: rev_induct)
  case (snoc f fs)
  obtain t m e where f: "f = (t, m, e)" by (cases f)
  have e: "counted (pe_kind e)" using snoc.prems by (auto simp: f)
  show ?case
  proof (cases "fs = []")
    case True
    then show ?thesis using record_failure_counted [OF e, of cfg t p m h] assms(2)
      by (auto simp: f new_breaker_def Let_def)
  next
    case False
    have IH: "hl_breakers (record_failures cfg p fs h) p = Some
     \<lparr>bk_failures = int (length fs),
      bk_opened_at = (if int (length fs) \<ge> hc_threshold cfg then Some (fst (last fs)) else None),
      bk_probing = False\<rparr>"
      by (rule snoc.IH [OF _ False]) (use snoc.prems in auto)
    show ?thesis
      unfolding f record_failures_snoc record_failure_counted [OF e] IH
      by (simp add: Let_def)
  qed
qed simp

section \<open>Properties\<close>

text \<open>The circuit breaker. From a provider with no open breaker, a run of timeouts, server
  errors and invalid replies opens its breaker exactly when it is at least as long as the
  threshold, at the time of its last failure. While it is shorter the run takes no model of the provider away;
  once open, every model of the provider is unavailable until \<open>open_seconds\<close> have passed, and then
  one probe is let through: the models are available again until a call begins.\<close>

theorem circuit_breaker_opens:
  assumes "\<forall>(t, m, e) \<in> set fs. counted (pe_kind e)" and "hl_breakers h p \<in> {None, Some new_breaker}"
    and "fs \<noteq> []" and "h' = record_failures cfg p fs h"
  shows "(provider_open p h' \<longleftrightarrow> int (length fs) \<ge> hc_threshold cfg)
   \<and> (int (length fs) \<ge> hc_threshold cfg \<longrightarrow>
       (\<forall>now m. now < fst (last fs) + hc_open_seconds cfg \<longrightarrow> \<not> available cfg now p m h')
     \<and> (\<forall>now m. fst (last fs) + hc_open_seconds cfg \<le> now \<longrightarrow> (p, m) \<notin> set (hl_disabled h') \<longrightarrow>
          hl_cooldowns h' (p, m) = None \<longrightarrow> available cfg now p m h' \<and> \<not> available cfg now p m (begin_call p h')))
   \<and> (int (length fs) < hc_threshold cfg \<longrightarrow> (\<forall>now m. (p, m) \<notin> set (hl_disabled h') \<longrightarrow>
       hl_cooldowns h' (p, m) = None \<longrightarrow> available cfg now p m h'))"
  using breaker_after [OF assms(1-3), of cfg]
  by (auto simp: assms(4) provider_open_def available_def begin_call_def)

definition sample_config :: health_config where
  "sample_config = \<lparr>hc_threshold = 2, hc_open_seconds = 60, hc_default_cooldown = 60, hc_max_cooldown = 3600\<rparr>"

definition server_error :: provider_error where
  "server_error = \<lparr>pe_kind = SERVER, pe_retry_after_seconds = None\<rparr>"

theorem circuit_breaker_opens_witness:
  "provider_open ''openrouter'' (record_failures sample_config ''openrouter''
       [(10, ''a'', server_error), (20, ''b'', server_error)] new_health)
   \<and> \<not> available sample_config 79 ''openrouter'' ''c'' (record_failures sample_config ''openrouter''
       [(10, ''a'', server_error), (20, ''b'', server_error)] new_health)"
  using circuit_breaker_opens [of "[(10, ''a'', server_error), (20, ''b'', server_error)]" new_health
      "''openrouter''" _ sample_config]
  by (simp add: counted_def server_error_def new_health_def sample_config_def)

text \<open>A probe that reports a price wedges its provider. When a provider's breaker has been open
  long enough, a call begins the half-open probe; if that call fails with a non-zero price, the
  model is disabled but the probe is never released: from then on no model of the provider is
  available at any time, however long one waits.\<close>

theorem priced_probe_wedges_provider:
  assumes "provider_open p h" and "pe_kind error = NON_ZERO_PRICE"
  shows "\<not> available cfg later p m' (record_failure cfg now p m error (begin_call p h))"
  using assms
  by (auto simp: provider_open_def record_failure_def begin_call_def available_def split: option.splits)

definition price_error :: provider_error where
  "price_error = \<lparr>pe_kind = NON_ZERO_PRICE, pe_retry_after_seconds = None\<rparr>"

definition open_health :: health where
  "open_health = record_failures sample_config ''openrouter''
       [(10, ''a'', server_error), (20, ''b'', server_error)] new_health"

theorem priced_probe_wedges_provider_witness:
  "available sample_config 80 ''openrouter'' ''c'' open_health
   \<and> \<not> available sample_config 1000000 ''openrouter'' ''c''
       (record_failure sample_config 81 ''openrouter'' ''a'' price_error (begin_call ''openrouter'' open_health))"
proof -
  have "provider_open ''openrouter'' open_health" "available sample_config 80 ''openrouter'' ''c'' open_health"
    by (simp_all add: open_health_def provider_open_def available_def record_failure_def sample_config_def
        server_error_def new_health_def new_breaker_def Let_def)
  then show ?thesis
    using priced_probe_wedges_provider [of "''openrouter''" open_health price_error sample_config 1000000 "''c''"]
    by (simp add: price_error_def)
qed

text \<open>A failed probe after a credential failure does not open the breaker again. A credential
  failure opens the breaker at once, with a single failure counted. When the half-open probe then
  fails with a timeout, a server error or an invalid reply and the count is still below the threshold, the
  opening time stays the old one: the provider is available again immediately, with no further wait.\<close>

theorem probe_failure_below_threshold_does_not_reopen:
  assumes "hl_breakers h p = Some b" and "bk_opened_at b = Some t" and "bk_failures b + 1 < hc_threshold cfg"
    and "counted (pe_kind error)" and "t + hc_open_seconds cfg \<le> now"
    and "(p, m') \<notin> set (hl_disabled h)" and "hl_cooldowns h (p, m') = None"
  shows "available cfg now p m' (record_failure cfg now p m error (begin_call p h))"
proof -
  have b: "hl_breakers (begin_call p h) p = Some (b\<lparr>bk_probing := True\<rparr>)"
    using assms(1,2) by (simp add: begin_call_def)
  have k: "pe_kind error = TIMEOUT \<or> pe_kind error = SERVER \<or> pe_kind error = INVALID"
    using assms(4) by (auto simp: counted_def)
  then have same: "hl_disabled (record_failure cfg now p m error (begin_call p h)) = hl_disabled h"
    "hl_cooldowns (record_failure cfg now p m error (begin_call p h)) = hl_cooldowns h"
    using assms(1,2) by (auto simp: record_failure_def begin_call_def Let_def)
  show ?thesis
    using record_failure_counted [OF assms(4), of cfg now p m "begin_call p h"] b assms
    by (simp add: available_def same Let_def)
qed

definition auth_error :: provider_error where
  "auth_error = \<lparr>pe_kind = AUTH, pe_retry_after_seconds = None\<rparr>"

definition strict_config :: health_config where
  "strict_config = sample_config\<lparr>hc_threshold := 5\<rparr>"

definition refused_health :: health where
  "refused_health = record_failure strict_config 10 ''openrouter'' ''a'' auth_error new_health"

theorem probe_failure_below_threshold_does_not_reopen_witness:
  "\<not> available strict_config 69 ''openrouter'' ''c'' refused_health
   \<and> available strict_config 70 ''openrouter'' ''c''
       (record_failure strict_config 70 ''openrouter'' ''a'' server_error (begin_call ''openrouter'' refused_health))"
proof -
  have b: "hl_breakers refused_health ''openrouter'' = Some \<lparr>bk_failures = 1, bk_opened_at = Some 10, bk_probing = False\<rparr>"
    "hl_disabled refused_health = []" "hl_cooldowns refused_health = (\<lambda>_. None)"
    by (simp_all add: refused_health_def record_failure_def auth_error_def new_health_def new_breaker_def
        strict_config_def sample_config_def Let_def)
  show ?thesis
    using probe_failure_below_threshold_does_not_reopen [OF b(1), of 10 strict_config server_error 70 "''c''" "''a''"]
    by (simp add: b strict_config_def sample_config_def counted_def server_error_def available_def)
qed

end
