(* ===== verification/Gateway.thy ===== *)
theory Gateway
  imports Router Health
begin

text \<open>
  The gateway (\<open>daily_agent/gateway/service.py\<close>): the system prompt, the validation of a reply, and
  the two bounded attempts. A provider's \<open>complete\<close> is a parameter (\<open>Adapters\<close> gives it for
  the two providers); \<open>clk\<close> gives the clock readings of the health tracker's uses, in order:
  selection, first outcome, second selection, second outcome.
\<close>

section \<open>The system prompt\<close>

definition MAX_ATTEMPTS :: nat where "MAX_ATTEMPTS = 2"

definition FREE_MEASUREMENT :: string where "FREE_MEASUREMENT = ''registry-free-model''"

definition BASE_SYSTEM_PROMPT :: string where
  "BASE_SYSTEM_PROMPT =
     ''You are Karmi, a patient study and productivity assistant for students in India. Give ''
   @ ''correct, concise answers. Reply in the language the user wrote in (Hindi, English, or a ''
   @ ''Hindi-English mix). Show working for maths and keep code runnable. Use the earlier ''
   @ ''conversation: a short reply such as a place name or '' @ [CHR 34] @ ''yes'' @ [CHR 34] @ '' usually answers your previous ''
   @ ''question. The current date and time are given below; when the user names another place or ''
   @ ''timezone, convert from IST. Use simple Markdown (bold, lists, code blocks) only when it ''
   @ ''helps; no tables. Never claim that a task, reminder or message was saved, sent or changed; ''
   @ ''this chat route cannot perform actions. If required facts are missing, ask one short ''
   @ ''clarifying question.''"

text \<open>\<open>%A\<close> and \<open>%B\<close>; weekday 0 is Monday.\<close>

definition weekday_name :: "int \<Rightarrow> string" where
  "weekday_name n = (if n = 0 then ''Monday'' else if n = 1 then ''Tuesday'' else if n = 2 then ''Wednesday''
     else if n = 3 then ''Thursday'' else if n = 4 then ''Friday'' else if n = 5 then ''Saturday'' else ''Sunday'')"

definition month_name :: "int \<Rightarrow> string" where
  "month_name m = (if m = 1 then ''January'' else if m = 2 then ''February'' else if m = 3 then ''March''
     else if m = 4 then ''April'' else if m = 5 then ''May'' else if m = 6 then ''June'' else if m = 7 then ''July''
     else if m = 8 then ''August'' else if m = 9 then ''September'' else if m = 10 then ''October''
     else if m = 11 then ''November'' else ''December'')"

text \<open>\<open>now.astimezone(HOME_ZONE)\<close>: Asia/Kolkata is UTC+05:30 the year round.\<close>

definition home_time :: "datetime \<Rightarrow> datetime" where
  "home_time now = add_seconds now 19800"

definition build_system_prompt :: "datetime \<Rightarrow> string" where
  "build_system_prompt now =
     (let t = home_time now; d = dt_date t; minutes = nat (dt_usec t div 60000000) in
      BASE_SYSTEM_PROMPT @ [CHR 10] @ ''Current date and time: ''
      @ weekday_name ((toordinal d + 6) mod 7) @ '', '' @ nat_str (nat (date_day d)) @ '' ''
      @ month_name (date_month d) @ '' '' @ nat_str (nat (date_year d)) @ '', ''
      @ zpad 2 (nat_str (minutes div 60)) @ '':'' @ zpad 2 (nat_str (minutes mod 60))
      @ '' IST '' @ ''(Asia/Kolkata, UTC+05:30).'')"

definition SYSTEM_PROMPT_MAX_CHARS :: nat where
  "SYSTEM_PROMPT_MAX_CHARS = length (build_system_prompt (DateTime (Date 2026 9 30) 23400000000))"

section \<open>A reply\<close>

text \<open>A rejection reason, or \<open>None\<close> when the reply is acceptable\<close>

definition validate_output :: "utext \<Rightarrow> string option \<Rightarrow> task_type \<Rightarrow> string option" where
  "validate_output reply finish_reason task =
     (if strip reply = [] then Some ''empty_reply''
      else if finish_reason = Some ''content_filter'' then Some ''content_filtered''
      else if task = HINDI \<and> \<not> list_ex is_devanagari reply then Some ''wrong_language''
      else None)"

definition failed_call :: "registry_model \<Rightarrow> string \<Rightarrow> provider_call" where
  "failed_call model operation = \<lparr>pc_provider = rm_provider model, pc_model_id = rm_model_id model,
     pc_operation = operation, pc_input_tokens = None, pc_output_tokens = None, pc_cost_micro = Some 0,
     pc_measurement = FREE_MEASUREMENT, pc_rate_version = Some (''registry-'' @ rm_snapshot_date model)\<rparr>"

definition kind_value :: "error_kind \<Rightarrow> string" where
  "kind_value k = (case k of RATE_LIMITED \<Rightarrow> ''rate_limited'' | TIMEOUT \<Rightarrow> ''timeout'' | SERVER \<Rightarrow> ''server''
     | AUTH \<Rightarrow> ''auth'' | INVALID \<Rightarrow> ''invalid_response'' | NON_ZERO_PRICE \<Rightarrow> ''non_zero_price''
     | REJECTED \<Rightarrow> ''rejected'')"

record gateway_result =
  gr_text :: "utext option"
  gr_calls :: "provider_call list"
  gr_action :: "string option"
  gr_failed :: bool
  gr_reason :: "string option"
  gr_attempts :: nat

record gateway =
  gw_registry :: model_registry
  gw_kill_switch :: bool
  gw_health_config :: health_config

text \<open>\<open>Gateway(...)\<close> with the configured providers\<close>

definition make_gateway :: "model_registry \<Rightarrow> string list \<Rightarrow> health_config \<Rightarrow> bool \<Rightarrow> gateway" where
  "make_gateway registry providers cfg kill_switch =
     \<lparr>gw_registry = for_providers registry providers, gw_kill_switch = kill_switch, gw_health_config = cfg\<rparr>"

definition live :: "gateway \<Rightarrow> bool" where
  "live gw \<longleftrightarrow> \<not> gw_kill_switch gw \<and> mr_models (gw_registry gw) \<noteq> []"

definition eligible_actions :: "gateway \<Rightarrow> plan_policy_row \<Rightarrow> string list" where
  "eligible_actions gw plan =
     sort (map action (filter (\<lambda>m. rm_model_class m \<in> set (model_classes plan)) (mr_models (gw_registry gw))))"

type_synonym complete_fn = "chat_request \<Rightarrow> registry_model \<Rightarrow> provider_error + chat_result"

text \<open>\<open>complete\<close> dispatches on the model's provider, as \<open>self._providers[model.provider]\<close> does.\<close>

definition attempt ::
  "complete_fn \<Rightarrow> health_config \<Rightarrow> real \<Rightarrow> registry_model \<Rightarrow> message list \<Rightarrow> task_type \<Rightarrow> int
   \<Rightarrow> provider_call list \<times> health \<Rightarrow> (utext option \<times> string option) \<times> (provider_call list \<times> health)" where
  "attempt call_model cfg now model messages task max_output_tokens st =
     (let (calls, h) = st;
          h1 = begin_call (rm_provider model) h;
          request = \<lparr>cq_model_id = rm_model_id model, cq_messages = messages, cq_max_output_tokens = max_output_tokens\<rparr>
      in case call_model request model of
           Inl error \<Rightarrow>
             ((None, Some (''provider:'' @ kind_value (pe_kind error))),
              (calls @ [failed_call model ''generate_failed''],
               record_failure cfg now (rm_provider model) (rm_model_id model) error h1))
         | Inr result \<Rightarrow>
             let h2 = record_success (rm_provider model) h1
             in case validate_output (cr_text result) (cr_finish_reason result) task of
                  Some rejection \<Rightarrow>
                    ((None, Some rejection),
                     (calls @ [(cr_call result)\<lparr>pc_operation := ''generate_rejected''\<rparr>], h2))
                | None \<Rightarrow> ((Some (cr_text result), None), (calls @ [cr_call result], h2)))"

definition prompt_tokens :: "utext \<Rightarrow> message list \<Rightarrow> string \<Rightarrow> int" where
  "prompt_tokens message history system_prompt =
     max 1 (int ((utf8_len message + length system_prompt + sum_list (map (utf8_len \<circ> snd) history)) div 4))"

definition gateway_request :: "plan_policy_row \<Rightarrow> utext \<Rightarrow> task_type \<Rightarrow> int \<Rightarrow> bool \<Rightarrow> message list \<Rightarrow> string \<Rightarrow> route_request" where
  "gateway_request plan message task max_output_tokens escalate history system_prompt =
     \<lparr>rq_plan = plan, rq_task_type = task, rq_prompt_tokens = prompt_tokens message history system_prompt,
      rq_max_output_tokens = max_output_tokens, rq_structured_output = False, rq_escalate = escalate\<rparr>"

definition chat_messages :: "string \<Rightarrow> message list \<Rightarrow> utext \<Rightarrow> message list" where
  "chat_messages system_prompt history message =
     (''system'', codes system_prompt) # history @ [(''user'', message)]"

definition model_available :: "gateway \<Rightarrow> real \<Rightarrow> health \<Rightarrow> registry_model \<Rightarrow> bool" where
  "model_available gw now h m = available (gw_health_config gw) now (rm_provider m) (rm_model_id m) h"

definition retry_pool ::
  "gateway \<Rightarrow> (registry_model \<Rightarrow> bool) \<Rightarrow> route_request \<Rightarrow> registry_model \<Rightarrow> string option \<Rightarrow> registry_model list" where
  "retry_pool gw av request first reason =
     (let validation_failed = (case reason of None \<Rightarrow> False | Some r \<Rightarrow> \<not> starts_with ''provider:'' r);
          raised = (if validation_failed
            then eligible_models (gw_registry gw) request av [action first] (Some (class_rank (rm_model_class first) + 1)) None
            else []);
          pool = (if raised = [] then eligible_models (gw_registry gw) request av [action first] None None else raised)
      in sort_key (\<lambda>m. rm_provider m = rm_provider first) pool)"

definition generate ::
  "complete_fn \<Rightarrow> (nat \<Rightarrow> real) \<Rightarrow> datetime \<Rightarrow> gateway \<Rightarrow> plan_policy_row \<Rightarrow> utext \<Rightarrow> task_type \<Rightarrow> int \<Rightarrow> bool
   \<Rightarrow> message list \<Rightarrow> health \<Rightarrow> gateway_result \<times> health" where
  "generate call_model clk now gw plan message task max_output_tokens escalate history h =
     (let cfg = gw_health_config gw;
          system_prompt = build_system_prompt now;
          request = gateway_request plan message task max_output_tokens escalate history system_prompt;
          messages = chat_messages system_prompt history message
      in case eligible_models (gw_registry gw) request (model_available gw (clk 0) h) [] None None of
           [] \<Rightarrow> (\<lparr>gr_text = None, gr_calls = [], gr_action = None, gr_failed = True,
                   gr_reason = Some ''no_eligible_model'', gr_attempts = 0\<rparr>, h)
         | first # _ \<Rightarrow>
           let ((reply, reason), (calls, h1)) = attempt call_model cfg (clk 1) first messages task max_output_tokens ([], h)
           in if reply \<noteq> None
              then (\<lparr>gr_text = reply, gr_calls = calls, gr_action = Some (action first), gr_failed = False,
                     gr_reason = None, gr_attempts = 1\<rparr>, h1)
              else case retry_pool gw (model_available gw (clk 2) h1) request first reason of
                [] \<Rightarrow> (\<lparr>gr_text = None, gr_calls = calls, gr_action = Some (action first), gr_failed = True,
                        gr_reason = reason, gr_attempts = 1\<rparr>, h1)
              | second # _ \<Rightarrow>
                let ((reply2, reason2), (calls2, h2)) = attempt call_model cfg (clk 3) second messages task max_output_tokens (calls, h1)
                in if reply2 \<noteq> None
                   then (\<lparr>gr_text = reply2, gr_calls = calls2, gr_action = Some (action second), gr_failed = False,
                          gr_reason = None, gr_attempts = 2\<rparr>, h2)
                   else (\<lparr>gr_text = None, gr_calls = calls2, gr_action = Some (action second), gr_failed = True,
                          gr_reason = reason2, gr_attempts = 2\<rparr>, h2))"

section \<open>The length of the prompt\<close>

lemma div_ten_less: "n < 100 \<Longrightarrow> n div 10 < (10::nat)"
  by simp

lemma length_nat_str_2: "n < 100 \<Longrightarrow> length (nat_str n) \<le> 2"
  using div_ten_less [of n] by (simp add: nat_str.simps [of n] nat_str.simps [of "n div 10"])

lemma length_nat_str_4: "n < 10000 \<Longrightarrow> length (nat_str n) \<le> 4"
  using length_nat_str_2 [of "n div 100"]
  by (simp add: nat_str.simps [of n] nat_str.simps [of "n div 10"] div_mult2_eq [symmetric])

lemma length_zpad_2: "n < 100 \<Longrightarrow> length (zpad 2 (nat_str n)) = 2"
  using length_nat_str_2 [of n] by (simp add: zpad_def)

lemma length_weekday_name: "length (weekday_name n) \<le> 9"
  by (simp add: weekday_name_def)

lemma length_month_name: "length (month_name n) \<le> 9"
  by (simp add: month_name_def)

lemma system_prompt_max: "SYSTEM_PROMPT_MAX_CHARS = length BASE_SYSTEM_PROMPT + 90"
  by code_simp

lemma home_clock:
  assumes "valid_datetime now"
  shows "nat (dt_usec (home_time now) div 60000000) div 60 < 100"
proof -
  have "dt_usec (home_time now) < 86400000000" "0 \<le> dt_usec (home_time now)"
    using add_seconds_valid [OF assms, of 19800] by (simp_all add: home_time_def valid_datetime_def usec_per_day_def)
  then show ?thesis by linarith
qed

lemma home_day:
  assumes "valid_datetime now"
  shows "nat (date_day (dt_date (home_time now))) < 100"
proof -
  have "date_day (dt_date (home_time now)) \<le> 31"
    using add_seconds_valid [OF assms, of 19800] monthrange_bounds(2)
    unfolding home_time_def valid_datetime_def valid_date_def by (blast intro: order_trans)
  then show ?thesis by simp
qed

lemma build_system_prompt_length:
  assumes "valid_datetime now" and "date_year (dt_date (home_time now)) \<le> 9999"
  shows "length (build_system_prompt now) \<le> SYSTEM_PROMPT_MAX_CHARS"
proof -
  let ?minutes = "nat (dt_usec (home_time now) div 60000000)"
  have "length (nat_str (nat (date_year (dt_date (home_time now))))) \<le> 4"
    using assms(2) by (intro length_nat_str_4) simp
  moreover have "length (zpad 2 (nat_str (?minutes div 60))) = 2" "length (zpad 2 (nat_str (?minutes mod 60))) = 2"
    using home_clock [OF assms(1)] by (simp_all add: length_zpad_2 less_trans [OF mod_less_divisor])
  moreover note length_nat_str_2 [OF home_day [OF assms(1)]]
    length_weekday_name [of "(toordinal (dt_date (home_time now)) + 6) mod 7"]
    length_month_name [of "date_month (dt_date (home_time now))"]
  ultimately show ?thesis unfolding system_prompt_max by (simp add: build_system_prompt_def Let_def)
qed

section \<open>One attempt\<close>

lemma attempt_cases:
  obtains (error) error where "call_model \<lparr>cq_model_id = rm_model_id model, cq_messages = messages, cq_max_output_tokens = cap\<rparr> model = Inl error"
    "attempt call_model cfg now model messages task cap (calls, h) =
       ((None, Some (''provider:'' @ kind_value (pe_kind error))), (calls @ [failed_call model ''generate_failed''],
          record_failure cfg now (rm_provider model) (rm_model_id model) error (begin_call (rm_provider model) h)))"
  | (rejected) result rejection where "call_model \<lparr>cq_model_id = rm_model_id model, cq_messages = messages, cq_max_output_tokens = cap\<rparr> model = Inr result"
    "validate_output (cr_text result) (cr_finish_reason result) task = Some rejection"
    "attempt call_model cfg now model messages task cap (calls, h) =
       ((None, Some rejection), (calls @ [(cr_call result)\<lparr>pc_operation := ''generate_rejected''\<rparr>],
          record_success (rm_provider model) (begin_call (rm_provider model) h)))"
  | (accepted) result where "call_model \<lparr>cq_model_id = rm_model_id model, cq_messages = messages, cq_max_output_tokens = cap\<rparr> model = Inr result"
    "validate_output (cr_text result) (cr_finish_reason result) task = None"
    "attempt call_model cfg now model messages task cap (calls, h) =
       ((Some (cr_text result), None), (calls @ [cr_call result],
          record_success (rm_provider model) (begin_call (rm_provider model) h)))"
proof (cases "call_model \<lparr>cq_model_id = rm_model_id model, cq_messages = messages, cq_max_output_tokens = cap\<rparr> model")
  case (Inl e)
  then show thesis by (intro error) (simp_all add: attempt_def Let_def)
next
  case (Inr r)
  then show thesis
  proof (cases "validate_output (cr_text r) (cr_finish_reason r) task")
    case None
    then show thesis using Inr by (intro accepted) (simp_all add: attempt_def Let_def)
  next
    case (Some rej)
    then show thesis using Inr by (intro rejected) (simp_all add: attempt_def Let_def)
  qed
qed

text \<open>A validated reply, as the client may show it\<close>

definition presentable :: "task_type \<Rightarrow> utext \<Rightarrow> bool" where
  "presentable task reply \<longleftrightarrow> strip reply \<noteq> [] \<and> \<not> (task = HINDI \<and> \<not> list_ex is_devanagari reply)"

lemma attempt_shape:
  assumes "attempt call_model cfg now model messages task cap (calls, h) = ((reply, reason), (calls', h'))"
  shows "length calls' = Suc (length calls) \<and> (reply = None \<longleftrightarrow> reason \<noteq> None) \<and> (\<forall>t. reply = Some t \<longrightarrow> presentable task t)"
  using assms
  by (cases rule: attempt_cases [of call_model model messages cap cfg now task calls h])
    (auto simp: validate_output_def presentable_def split: if_splits)

lemma retry_pool_in:
  "m \<in> set (retry_pool gw av request first reason) \<Longrightarrow>
   m \<in> set (mr_models (gw_registry gw)) \<and> rm_model_class m \<in> set (model_classes (rq_plan request))
   \<and> action m \<noteq> action first \<and> av m \<and> rm_context_length m \<ge> rq_prompt_tokens request + rq_max_output_tokens request"
  by (auto simp: retry_pool_def Let_def split: if_splits option.splits dest: eligible_models_in)

text \<open>What every result satisfies: the models tried are distinct, at most two, routable under the plan
  and with room for the prompt and the reply; one call is recorded per attempt.\<close>

definition routable :: "gateway \<Rightarrow> plan_policy_row \<Rightarrow> int \<Rightarrow> registry_model \<Rightarrow> bool" where
  "routable gw plan needed m \<longleftrightarrow> m \<in> set (mr_models (gw_registry gw)) \<and> rm_model_class m \<in> set (model_classes plan)
     \<and> needed \<le> rm_context_length m"

definition bounded_outcome :: "gateway \<Rightarrow> plan_policy_row \<Rightarrow> int \<Rightarrow> task_type \<Rightarrow> gateway_result \<Rightarrow> bool" where
  "bounded_outcome gw plan needed task r \<longleftrightarrow>
     (\<exists>tried. list_all (routable gw plan needed) tried \<and> distinct (map action tried) \<and> length tried = gr_attempts r
        \<and> gr_attempts r \<le> MAX_ATTEMPTS \<and> length (gr_calls r) = gr_attempts r
        \<and> gr_action r = (if tried = [] then None else Some (action (last tried))))
     \<and> (gr_failed r \<longleftrightarrow> gr_text r = None) \<and> (gr_failed r \<longleftrightarrow> gr_reason r \<noteq> None)
     \<and> list_all (presentable task) (case gr_text r of None \<Rightarrow> [] | Some t \<Rightarrow> [t])"

lemma bounded_outcomeI:
  assumes "list_all (routable gw plan needed) tried" and "distinct (map action tried)" and "length tried = n" and "n \<le> 2"
    and "length calls = n" and "act = (if tried = [] then None else Some (action (last tried)))"
    and "reply = None \<longleftrightarrow> reason \<noteq> None" and "\<And>t. reply = Some t \<Longrightarrow> presentable task t"
  shows "bounded_outcome gw plan needed task \<lparr>gr_text = reply, gr_calls = calls, gr_action = act,
           gr_failed = (reply = None), gr_reason = reason, gr_attempts = n\<rparr>"
  using assms by (auto simp: bounded_outcome_def MAX_ATTEMPTS_def split: option.split intro!: exI [of _ tried])

definition needed_tokens :: "utext \<Rightarrow> message list \<Rightarrow> datetime \<Rightarrow> int \<Rightarrow> int" where
  "needed_tokens message history now cap = prompt_tokens message history (build_system_prompt now) + cap"

lemma pool_routable:
  "m \<in> set (eligible_models (gw_registry gw) (gateway_request plan message task cap escalate history (build_system_prompt now)) av ex mr mf)
   \<Longrightarrow> routable gw plan (needed_tokens message history now cap) m"
  by (drule eligible_models_in) (simp add: routable_def needed_tokens_def gateway_request_def)

lemma retry_routable:
  "m \<in> set (retry_pool gw av (gateway_request plan message task cap escalate history (build_system_prompt now)) first reason)
   \<Longrightarrow> routable gw plan (needed_tokens message history now cap) m \<and> action m \<noteq> action first"
  by (drule retry_pool_in) (simp add: routable_def needed_tokens_def gateway_request_def)

lemma generate_outcome:
  "bounded_outcome gw plan (needed_tokens message history now cap) task
     (fst (generate call_model clk now gw plan message task cap escalate history h))"
proof -
  let ?cfg = "gw_health_config gw" and ?N = "needed_tokens message history now cap"
  let ?rq = "gateway_request plan message task cap escalate history (build_system_prompt now)"
  let ?av = "model_available gw" and ?ms = "chat_messages (build_system_prompt now) history message"
  let ?pool = "eligible_models (gw_registry gw) ?rq (?av (clk 0) h) [] None None"
  note unfold = generate_def Let_def
  show ?thesis
  proof (cases ?pool)
    case Nil
    then show ?thesis
      using bounded_outcomeI [of gw plan ?N "[]" 0 "[]" None None "Some ''no_eligible_model''" task] by (simp add: unfold)
  next
    case (Cons first rest)
    have first: "routable gw plan ?N first"
      by (rule pool_routable [of first gw plan message task cap escalate history now "?av (clk 0) h" "[]" None None]) (simp add: Cons)
    obtain reply reason calls h1 where a1: "attempt call_model ?cfg (clk 1) first ?ms task cap ([], h) = ((reply, reason), (calls, h1))"
      by (metis prod.exhaust)
    note s1 = attempt_shape [OF a1]
    show ?thesis
    proof (cases reply)
      case (Some t)
      then show ?thesis
        using first s1 Cons a1 bounded_outcomeI [of gw plan ?N "[first]" 1 calls "Some (action first)" reply reason task]
        by (simp add: unfold)
    next
      case None
      show ?thesis
      proof (cases "retry_pool gw (?av (clk 2) h1) ?rq first reason")
        case Nil
        then show ?thesis
          using None first s1 Cons a1 bounded_outcomeI [of gw plan ?N "[first]" 1 calls "Some (action first)" None reason task]
          by (simp add: unfold)
      next
        case (Cons second rest2)
        have second: "routable gw plan ?N second" "action second \<noteq> action first"
          using retry_routable [of second gw "?av (clk 2) h1" plan message task cap escalate history now first reason]
          by (simp_all add: Cons)
        obtain reply2 reason2 calls2 h2 where a2: "attempt call_model ?cfg (clk 3) second ?ms task cap (calls, h1) = ((reply2, reason2), (calls2, h2))"
          by (metis prod.exhaust)
        note s2 = attempt_shape [OF a2]
        show ?thesis
          using None first second s1 s2 \<open>?pool = first # rest\<close> a1 a2 Cons
            bounded_outcomeI [of gw plan ?N "[first, second]" 2 calls2 "Some (action second)" reply2 reason2 task]
          by (cases reply2) (simp_all add: unfold)
      qed
    qed
  qed
qed

section \<open>A provider that never charges\<close>

locale zero_cost_provider =
  fixes call_model :: complete_fn
  assumes zero_cost: "call_model request m = Inr result \<Longrightarrow> pc_cost_micro (cr_call result) = Some 0"
    and free_measurement: "call_model request m = Inr result \<Longrightarrow> pc_measurement (cr_call result) = FREE_MEASUREMENT"
begin

definition free_call :: "provider_call \<Rightarrow> bool" where
  "free_call c \<longleftrightarrow> pc_cost_micro c = Some 0 \<and> pc_measurement c = FREE_MEASUREMENT"

lemma attempt_free:
  assumes "attempt call_model cfg now model messages task cap (calls, h) = (outcome, (calls', h'))" and "list_all free_call calls"
  shows "list_all free_call calls'"
  using assms zero_cost free_measurement
  by (cases rule: attempt_cases [of call_model model messages cap cfg now task calls h])
    (auto simp: free_call_def failed_call_def list_all_iff)

lemma generate_free:
  "list_all free_call (gr_calls (fst (generate call_model clk now gw plan message task cap escalate history h)))"
  by (auto simp: generate_def Let_def split: prod.splits list.splits dest!: attempt_free)

lemma generate_calls_free:
  "\<forall>c \<in> set (gr_calls (fst (generate call_model clk now gw plan message task cap escalate history h))).
     pc_cost_micro c = Some 0 \<and> pc_measurement c = FREE_MEASUREMENT"
  using generate_free [of clk now gw plan message task cap escalate history h] by (simp add: list_all_iff free_call_def)

end

section \<open>The second model\<close>

lemma eligible_models_min_rank:
  "m \<in> set (eligible_models registry request av ex (Some r) None) \<Longrightarrow> r \<le> class_rank (rm_model_class m)"
  by (auto simp: eligible_models_def set_eligible_from split: option.splits)

lemma eligible_models_raise:
  assumes "first \<in> set (eligible_models registry request av [] None None)"
    and "m \<in> set (mr_models registry)" "rm_model_class m \<in> set (model_classes (rq_plan request))"
    and "rq_prompt_tokens request + rq_max_output_tokens request \<le> rm_context_length m" "\<not> rq_structured_output request"
    and "class_rank (rm_model_class first) < class_rank (rm_model_class m)" "action m \<noteq> action first" "av' m"
  shows "eligible_models registry request av' [action first] (Some (class_rank (rm_model_class first) + 1)) None \<noteq> []"
proof -
  obtain base where base: "start_class request = Some base" and le: "class_rank base \<le> class_rank (rm_model_class first)"
    using assms(1) by (cases "start_class request") (auto simp: eligible_models_def set_eligible_from)
  have "m \<in> set (eligible_models registry request av' [action first] (Some (class_rank (rm_model_class first) + 1)) None)"
    using assms(2-) le by (simp add: eligible_models_def base set_eligible_from)
  then show ?thesis by auto
qed

lemma retry_pool_raised:
  assumes "eligible_models (gw_registry gw) request av [action first] (Some (class_rank (rm_model_class first) + 1)) None \<noteq> []"
    and "\<not> starts_with ''provider:'' rejection"
  obtains second rest where "retry_pool gw av request first (Some rejection) = second # rest"
    "class_rank (rm_model_class first) < class_rank (rm_model_class second)"
proof -
  let ?raised = "eligible_models (gw_registry gw) request av [action first] (Some (class_rank (rm_model_class first) + 1)) None"
  have pool: "retry_pool gw av request first (Some rejection) = sort_key (\<lambda>m. rm_provider m = rm_provider first) ?raised"
    using assms by (simp add: retry_pool_def Let_def)
  have "retry_pool gw av request first (Some rejection) \<noteq> []"
    using assms(1) unfolding pool by (metis length_0_conv length_sort)
  then obtain second rest where s: "retry_pool gw av request first (Some rejection) = second # rest"
    by (cases "retry_pool gw av request first (Some rejection)") auto
  have "second \<in> set ?raised" using s unfolding pool by (metis list.set_intros(1) set_sort)
  from eligible_models_min_rank [OF this] that [OF s] show thesis by simp
qed

lemma validate_output_reason: "validate_output reply finish task = Some r \<Longrightarrow> \<not> starts_with ''provider:'' r"
  by (auto simp: validate_output_def starts_with_def split: if_splits)

section \<open>Properties\<close>

text \<open>The prompt bound. For every instant whose year in IST Python can represent, the system
  prompt is at most \<open>SYSTEM_PROMPT_MAX_CHARS\<close> characters long, the length the quota
  reserves for it.\<close>

theorem system_prompt_bounded:
  assumes "valid_datetime now" and "date_year (dt_date (home_time now)) \<le> 9999"
  shows "length (build_system_prompt now) \<le> SYSTEM_PROMPT_MAX_CHARS"
  by (rule build_system_prompt_length [OF assms])

theorem system_prompt_bounded_witness:
  "length (build_system_prompt (DateTime (Date 2026 12 31) 86399000000)) \<le> SYSTEM_PROMPT_MAX_CHARS"
  by (rule system_prompt_bounded) code_simp+

text \<open>C20: A bounded generation. Whatever the provider answers, a generation tries at most two
  models, different ones, both of the routable registry, in a class of the plan and with a context that
  holds the prompt, the history and the reply; it records one call per attempt and names the model
  tried last. It has failed exactly when it returns no text, then with a reason, and a text it returns
  is not blank and, for a Hindi task, contains Devanagari.\<close>

theorem generation_is_bounded:
  "bounded_outcome gw plan (needed_tokens message history now cap) task
     (fst (generate call_model clk now gw plan message task cap escalate history h))"
  by (rule generate_outcome)

text \<open>A rejected reply escalates. When the first model's reply is rejected by validation and
  the registry has another available model the plan allows, of a higher class and with room for the
  request, the second attempt goes to a model of a strictly higher class.\<close>

theorem rejected_reply_escalates:
  assumes "request = gateway_request plan message task cap escalate history (build_system_prompt now)"
    and "eligible_models (gw_registry gw) request (model_available gw (clk 0) h) [] None None = first # rest"
    and "call_model \<lparr>cq_model_id = rm_model_id first, cq_messages = chat_messages (build_system_prompt now) history message,
           cq_max_output_tokens = cap\<rparr> first = Inr result"
    and "validate_output (cr_text result) (cr_finish_reason result) task = Some rejection"
    and "h1 = record_success (rm_provider first) (begin_call (rm_provider first) h)"
    and "routable gw plan (needed_tokens message history now cap) m" and "action m \<noteq> action first"
    and "class_rank (rm_model_class first) < class_rank (rm_model_class m)" and "model_available gw (clk 2) h1 m"
  shows "\<exists>second. class_rank (rm_model_class first) < class_rank (rm_model_class second)
     \<and> gr_action (fst (generate call_model clk now gw plan message task cap escalate history h)) = Some (action second)
     \<and> gr_attempts (fst (generate call_model clk now gw plan message task cap escalate history h)) = 2"
proof -
  have "eligible_models (gw_registry gw) request (model_available gw (clk 2) h1) [action first]
      (Some (class_rank (rm_model_class first) + 1)) None \<noteq> []"
    using assms(1,2,6-9)
    by (intro eligible_models_raise [where m = m and av = "model_available gw (clk 0) h"])
      (simp_all add: routable_def needed_tokens_def gateway_request_def)
  from retry_pool_raised [OF this validate_output_reason [OF assms(4)]] obtain second rest2 where
    s: "retry_pool gw (model_available gw (clk 2) h1) request first (Some rejection) = second # rest2"
    and r: "class_rank (rm_model_class first) < class_rank (rm_model_class second)" .
  have "attempt call_model (gw_health_config gw) (clk 1) first (chat_messages (build_system_prompt now) history message)
      task cap ([], h) = ((None, Some rejection), ([(cr_call result)\<lparr>pc_operation := ''generate_rejected''\<rparr>], h1))"
    by (simp add: attempt_def assms(3-5))
  with s r show ?thesis
    by (auto simp: generate_def Let_def assms(1) [symmetric] assms(2) split: prod.splits)
qed

definition sample_model :: "string \<Rightarrow> model_class \<Rightarrow> registry_model" where
  "sample_model model_id cls = \<lparr>rm_model_id = model_id, rm_provider = ''openrouter'', rm_model_class = cls,
     rm_context_length = 32768, rm_private_data_allowed = False, rm_supports_structured_output = False,
     rm_scores = [], rm_snapshot_date = ''2026-10-10''\<rparr>"

definition sample_gateway :: gateway where
  "sample_gateway = make_gateway \<lparr>mr_models = [sample_model ''large'' BALANCED, sample_model ''small'' ECONOMY],
       mr_snapshot_date = ''2026-10-10'', mr_provisional = False\<rparr> [''openrouter'']
     \<lparr>hc_threshold = 5, hc_open_seconds = 60, hc_default_cooldown = 60, hc_max_cooldown = 3600\<rparr> False"

definition blank_result :: chat_result where
  "blank_result = \<lparr>cr_text = [32, 10], cr_finish_reason = Some ''stop'', cr_latency_ms = 3,
     cr_call = failed_call (sample_model ''small'' ECONOMY) ''generate''\<rparr>"

theorem rejected_reply_escalates_witness:
  "\<exists>second. class_rank ECONOMY < class_rank (rm_model_class second)
     \<and> gr_action (fst (generate (\<lambda>_ _. Inr blank_result) (\<lambda>_. 0) (DateTime (Date 2026 10 12) 0) sample_gateway yanta
          (codes ''hello'') STUDY 300 False [] new_health)) = Some (action second)
     \<and> gr_attempts (fst (generate (\<lambda>_ _. Inr blank_result) (\<lambda>_. 0) (DateTime (Date 2026 10 12) 0) sample_gateway yanta
          (codes ''hello'') STUDY 300 False [] new_health)) = 2"
proof -
  let ?now = "DateTime (Date 2026 10 12) 0" and ?small = "sample_model ''small'' ECONOMY"
  let ?rq = "gateway_request yanta (codes ''hello'') STUDY 300 False [] (build_system_prompt ?now)"
  have class_small: "rm_model_class ?small = ECONOMY" by (simp add: sample_model_def)
  have needed: "needed_tokens (codes ''hello'') [] ?now 300 \<le> 32768" by code_simp
  have start: "start_class ?rq = Some ECONOMY"
    by (simp add: start_class_def ladder_def allowed_classes_def gateway_request_def yanta_def class_rank_def steps_def HARD_def)
  have "eligible_models (gw_registry sample_gateway) ?rq (model_available sample_gateway 0 new_health) [] None None
      = [?small, sample_model ''large'' BALANCED]"
    using needed unfolding eligible_models_def start
    by (simp add: eligible_from_def sample_gateway_def make_gateway_def for_providers_def sample_model_def
        gateway_request_def yanta_def allowed_classes_def class_rank_def
        needed_tokens_def model_available_def available_def new_health_def route_key_def)
  note pool = this
  show ?thesis
    by (rule rejected_reply_escalates [where clk = "\<lambda>_. 0" and call_model = "\<lambda>_ _. Inr blank_result" and result = blank_result
          and m = "sample_model ''large'' BALANCED" and first = "?small" and gw = sample_gateway and plan = yanta and cap = 300
          and history = "[]" and now = "?now" and message = "codes ''hello''" and escalate = "False" and h = new_health
          and task = STUDY and rejection = "''empty_reply''", unfolded class_small, OF refl pool refl _ refl])
      (use needed in \<open>simp_all add: model_available_def available_def record_success_def begin_call_def
         new_health_def new_breaker_def blank_result_def validate_output_def strip_def is_space_def routable_def sample_gateway_def
         make_gateway_def for_providers_def sample_model_def yanta_def class_rank_def action_def\<close>)
qed

end
