(* ===== verification/Adapters.thy ===== *)
theory Adapters
  imports Gateway Config
begin

text \<open>
  The live model adapters (\<open>daily_agent/gateway/adapters.py\<close>, \<open>daily_agent/opencode.py\<close>) and the
  assembly of the gateway (\<open>daily_agent/gateway/__init__.py\<close>). The HTTP client is a parameter: a
  post gives a timeout, another transport error or a response. Both adapters are an instance of
  \<open>zero_cost_provider\<close>.
\<close>

section \<open>HTTP\<close>

text \<open>\<open>hp_success\<close> is \<open>response.is_success\<close>; \<open>hp_json\<close> the parsed body, \<open>None\<close> when
  \<open>response.json()\<close> raises a \<open>ValueError\<close>.\<close>

record http_response =
  hp_status :: int
  hp_success :: bool
  hp_retry_after :: "string option"
  hp_json :: "json option"

datatype http_outcome = Http_timeout | Http_error | Http_response http_response

section \<open>Python's \<open>float(text)\<close>\<close>

datatype py_float = Finite real | Inf bool | Nan

fun underscores_ok :: "bool \<Rightarrow> string \<Rightarrow> bool" where
  "underscores_ok after_digit [] \<longleftrightarrow> True"
| "underscores_ok after_digit (c # cs) \<longleftrightarrow>
     (if c = CHR ''_'' then after_digit \<and> cs \<noteq> [] \<and> is_digit (hd cs) \<and> underscores_ok False cs
      else underscores_ok (is_digit c) cs)"

definition exponent_value :: "string \<Rightarrow> int option" where
  "exponent_value r = (if r = [] then Some 0 else if \<not> is_exponent r then None else
     let body = tl r; ds = (if hd body = CHR ''+'' \<or> hd body = CHR ''-'' then tl body else body)
     in Some (if hd body = CHR ''-'' then - int (str_nat ds) else int (str_nat ds)))"

text \<open>The value is exact where the code rounds to a double.\<close>

definition py_float :: "string \<Rightarrow> py_float option" where
  "py_float s =
     (let t = strip_string s;
          neg = (t \<noteq> [] \<and> hd t = CHR ''-'');
          u = (if t \<noteq> [] \<and> (hd t = CHR ''+'' \<or> hd t = CHR ''-'') then tl t else t);
          l = map decimal_lower u;
          v = filter (\<lambda>c. c \<noteq> CHR ''_'') u;
          ip = takeWhile is_digit v; r = dropWhile is_digit v;
          fp = (if r \<noteq> [] \<and> hd r = CHR ''.'' then takeWhile is_digit (tl r) else []);
          e = (if r \<noteq> [] \<and> hd r = CHR ''.'' then dropWhile is_digit (tl r) else r)
      in if l = ''inf'' \<or> l = ''infinity'' then Some (Inf neg)
         else if l = ''nan'' then Some Nan
         else if \<not> underscores_ok False u \<or> ip @ fp = [] then None
         else (case exponent_value e of None \<Rightarrow> None
           | Some x \<Rightarrow> let m = of_nat (str_nat (ip @ fp)) * power_int 10 (x - int (length fp)) :: real
                       in Some (Finite (if neg then - m else m))))"

text \<open>\<open>max(0.0, float(raw))\<close>: the first argument stays when the second is a \<open>nan\<close>.\<close>

definition retry_after :: "http_response \<Rightarrow> delay option" where
  "retry_after response = (case hp_retry_after response of
       None \<Rightarrow> None
     | Some raw \<Rightarrow> (case py_float raw of
           None \<Rightarrow> None
         | Some (Finite x) \<Rightarrow> Some (Seconds (max 0 x))
         | Some (Inf neg) \<Rightarrow> Some (if neg then Seconds 0 else Forever)
         | Some Nan \<Rightarrow> Some (Seconds 0)))"

definition provider_failure :: "error_kind \<Rightarrow> provider_error" where
  "provider_failure kind = \<lparr>pe_kind = kind, pe_retry_after_seconds = None\<rparr>"

definition status_error :: "http_response \<Rightarrow> provider_error" where
  "status_error response =
     (let status = hp_status response
      in if status = 429 then \<lparr>pe_kind = RATE_LIMITED, pe_retry_after_seconds = retry_after response\<rparr>
         else if status \<in> {401, 402, 403} then provider_failure AUTH
         else if status = 408 \<or> status \<ge> 500 then provider_failure SERVER
         else provider_failure REJECTED)"

section \<open>Request validation\<close>

definition ADAPTER_MAX_PROMPT_CHARS :: nat where "ADAPTER_MAX_PROMPT_CHARS = 120000"
definition OPENCODE_MAX_PROMPT_CHARS :: nat where "OPENCODE_MAX_PROMPT_CHARS = 40000"
definition MAX_OUTPUT_TOKENS :: int where "MAX_OUTPUT_TOKENS = 4096"

definition chat_roles :: "string list" where "chat_roles = [''system'', ''user'', ''assistant'']"

text \<open>A message's content is text by its type here; the code tests it at run time.\<close>

definition validate_request :: "chat_request \<Rightarrow> nat \<Rightarrow> provider_error + 'a \<Rightarrow> provider_error + 'a" where
  "validate_request request max_chars rest =
     (if \<not> (1 \<le> cq_max_output_tokens request \<and> cq_max_output_tokens request \<le> MAX_OUTPUT_TOKENS)
      then Inl (provider_failure REJECTED)
      else if cq_messages request = [] \<or> length (cq_messages request) > 32 then Inl (provider_failure REJECTED)
      else if list_ex (\<lambda>m. fst m \<notin> set chat_roles) (cq_messages request) then Inl (provider_failure REJECTED)
      else if sum_list (map (length \<circ> snd) (cq_messages request)) > max_chars then Inl (provider_failure REJECTED)
      else rest)"

section \<open>Reading a completion\<close>

text \<open>\<open>value[key]\<close> and \<open>value[0]\<close>; \<open>None\<close> is the \<open>KeyError\<close>, \<open>IndexError\<close> or \<open>TypeError\<close>.
  The first character of a string is a string, which has no keys.\<close>

definition jkey :: "string \<Rightarrow> json \<Rightarrow> json option" where
  "jkey key v = (case v of JObj kvs \<Rightarrow> map_of kvs key | _ \<Rightarrow> None)"

definition jfirst :: "json \<Rightarrow> json option" where
  "jfirst v = (case v of JArr (x # _) \<Rightarrow> Some x | _ \<Rightarrow> None)"

definition completion_choice :: "json \<Rightarrow> (json \<times> json) option" where
  "completion_choice payload =
     Option.bind (Option.bind (jkey ''choices'' payload) jfirst) (\<lambda>choice.
     Option.bind (jkey ''message'' choice) (\<lambda>message.
     Option.bind (jkey ''content'' message) (\<lambda>content.
     Some (choice, content))))"

text \<open>\<open>payload.get(key)\<close> where \<open>payload\<close> is a dictionary, else \<open>None\<close>\<close>

definition dict_get :: "string \<Rightarrow> json \<Rightarrow> json" where
  "dict_get key v = (case v of JObj kvs \<Rightarrow> jget kvs key | _ \<Rightarrow> JNull)"

definition int_or_none :: "json \<Rightarrow> int option" where
  "int_or_none v = (case v of JInt i \<Rightarrow> if i \<ge> 0 then Some i else None | _ \<Rightarrow> None)"

definition string_or_none :: "json \<Rightarrow> string option" where
  "string_or_none v = (case v of JStr s \<Rightarrow> Some s | _ \<Rightarrow> None)"

text \<open>The free-model rule: a reported cost must be the number zero.\<close>

definition nonzero_cost :: "json \<Rightarrow> bool" where
  "nonzero_cost reported \<longleftrightarrow> reported \<noteq> JNull \<and> decimal_of_json reported \<noteq> Zero_decimal"

section \<open>OpenRouter\<close>

definition OPENROUTER_CHAT_URL :: string where
  "OPENROUTER_CHAT_URL = ''https://openrouter.ai/api/v1/chat/completions''"

type_synonym http_post = "string \<Rightarrow> string \<Rightarrow> chat_request \<Rightarrow> http_outcome"

definition bad_key :: "string \<Rightarrow> bool" where
  "bad_key key \<longleftrightarrow> key = [] \<or> CHR 10 \<in> set key \<or> CHR 13 \<in> set key"

definition openrouter_call :: "chat_request \<Rightarrow> registry_model \<Rightarrow> json \<Rightarrow> provider_call" where
  "openrouter_call request model usage = \<lparr>pc_provider = ''openrouter'', pc_model_id = cq_model_id request,
     pc_operation = ''generate'', pc_input_tokens = int_or_none (dict_get ''prompt_tokens'' usage),
     pc_output_tokens = int_or_none (dict_get ''completion_tokens'' usage), pc_cost_micro = Some 0,
     pc_measurement = FREE_MEASUREMENT, pc_rate_version = Some (''registry-'' @ rm_snapshot_date model)\<rparr>"

definition openrouter_reply ::
  "chat_request \<Rightarrow> registry_model \<Rightarrow> real \<Rightarrow> json \<Rightarrow> provider_error + chat_result" where
  "openrouter_reply request model latency_ms payload = (case completion_choice payload of
       None \<Rightarrow> Inl (provider_failure INVALID)
     | Some (choice, content) \<Rightarrow> (case content of
           JStr reply \<Rightarrow>
             let usage = dict_get ''usage'' payload
             in if nonzero_cost (dict_get ''cost'' usage) then Inl (provider_failure NON_ZERO_PRICE)
                else Inr \<lparr>cr_text = utf8_decode reply, cr_finish_reason = string_or_none (dict_get ''finish_reason'' choice),
                       cr_latency_ms = latency_ms, cr_call = openrouter_call request model usage\<rparr>
         | _ \<Rightarrow> Inl (provider_failure INVALID)))"

definition openrouter_complete :: "http_post \<Rightarrow> real \<Rightarrow> real \<Rightarrow> string \<Rightarrow> complete_fn" where
  "openrouter_complete post started finished api_key request model =
     validate_request request ADAPTER_MAX_PROMPT_CHARS
       (case post OPENROUTER_CHAT_URL api_key request of
          Http_timeout \<Rightarrow> Inl (provider_failure TIMEOUT)
        | Http_error \<Rightarrow> Inl (provider_failure SERVER)
        | Http_response response \<Rightarrow>
            if hp_status response \<noteq> 200 then Inl (status_error response)
            else (case hp_json response of
                None \<Rightarrow> Inl (provider_failure INVALID)
              | Some payload \<Rightarrow> openrouter_reply request model ((finished - started) * 1000) payload))"

section \<open>OpenCode\<close>

record free_model =
  fm_model_id :: string
  fm_private_data_allowed :: bool

definition FREE_MODELS :: "free_model list" where
  "FREE_MODELS = map (\<lambda>(m, p). \<lparr>fm_model_id = m, fm_private_data_allowed = p\<rparr>)
     [(''big-pickle'', False), (''space-bunny-free'', True), (''longcat-2.5-preview-free'', True),
      (''step-5-preview-free'', True), (''exo-free'', False), (''mimo-v2.6-flash-free'', False),
      (''mimo-v2.5-free'', False), (''ling-3.1-flash-free'', False), (''ling-3.0-flash-fin-free'', False),
      (''nemotron-3-ultra-free'', False), (''nemotron-3.5-lightning-free'', False)]"

definition FREE_MODEL_BY_ID :: "string \<Rightarrow> free_model option" where
  "FREE_MODEL_BY_ID = map_of (map (\<lambda>m. (fm_model_id m, m)) FREE_MODELS)"

definition PRIVATE_DATA_MODEL_IDS :: "string list" where
  "PRIVATE_DATA_MODEL_IDS = map fm_model_id (filter fm_private_data_allowed FREE_MODELS)"

definition FREE_RATE_VERSION :: string where "FREE_RATE_VERSION = ''opencode-zen-free-catalog-2026-10-08''"
definition ZEN_CHAT_URL :: string where "ZEN_CHAT_URL = ''https://opencode.ai/zen/v1/chat/completions''"
definition ZEN_CATALOG_URL :: string where "ZEN_CATALOG_URL = ''https://opencode.ai/zen/v1/models''"

text \<open>An \<open>OpenCodeError\<close> by its cause: an HTTP status, a timeout, another transport error, or none
  of these.\<close>

datatype opencode_error = OC_status http_response | OC_timeout | OC_http | OC_other

record completion =
  cm_model_id :: string
  cm_text :: utext
  cm_input_tokens :: "int option"
  cm_output_tokens :: "int option"
  cm_latency_ms :: real
  cm_finish_reason :: json
  cm_cost_micro :: int

text \<open>\<open>isinstance(value, int)\<close> holds for a Boolean, which counts as 0 or 1.\<close>

definition int_like :: "json \<Rightarrow> int option" where
  "int_like v = (case v of JInt i \<Rightarrow> if i < 0 then None else Some i
     | JBool b \<Rightarrow> Some (if b then 1 else 0) | _ \<Rightarrow> None)"

definition opencode_reply :: "chat_request \<Rightarrow> real \<Rightarrow> json \<Rightarrow> opencode_error + completion" where
  "opencode_reply request latency_ms payload = (case completion_choice payload of
       None \<Rightarrow> Inl OC_other
     | Some (choice, content) \<Rightarrow> (case content of
           JStr raw \<Rightarrow>
             let reply = utf8_decode raw; usage = dict_get ''usage'' payload
             in if strip reply = [] \<or> int (length reply) > cq_max_output_tokens request * 12 then Inl OC_other
                else Inr \<lparr>cm_model_id = cq_model_id request, cm_text = reply,
                       cm_input_tokens = int_like (dict_get ''prompt_tokens'' usage),
                       cm_output_tokens = int_like (dict_get ''completion_tokens'' usage),
                       cm_latency_ms = latency_ms, cm_finish_reason = dict_get ''finish_reason'' choice,
                       cm_cost_micro = 0\<rparr>
         | _ \<Rightarrow> Inl OC_other))"

definition chat_completion ::
  "http_post \<Rightarrow> real \<Rightarrow> real \<Rightarrow> string \<Rightarrow> chat_request \<Rightarrow> opencode_error + completion" where
  "chat_completion post started finished api_key request =
     (if FREE_MODEL_BY_ID (cq_model_id request) = None then Inl OC_other
      else if bad_key api_key then Inl OC_other
      else if \<not> (1 \<le> cq_max_output_tokens request \<and> cq_max_output_tokens request \<le> MAX_OUTPUT_TOKENS) then Inl OC_other
      else if cq_messages request = [] \<or> length (cq_messages request) > 32 then Inl OC_other
      else if list_ex (\<lambda>m. fst m \<notin> set chat_roles) (cq_messages request) then Inl OC_other
      else if sum_list (map (length \<circ> snd) (cq_messages request)) > OPENCODE_MAX_PROMPT_CHARS then Inl OC_other
      else case post ZEN_CHAT_URL api_key request of
          Http_timeout \<Rightarrow> Inl OC_timeout
        | Http_error \<Rightarrow> Inl OC_http
        | Http_response response \<Rightarrow>
            if \<not> hp_success response then Inl (OC_status response)
            else (case hp_json response of
                None \<Rightarrow> Inl OC_other
              | Some payload \<Rightarrow> opencode_reply request ((finished - started) * 1000) payload))"

definition opencode_call :: "completion \<Rightarrow> provider_call" where
  "opencode_call c = \<lparr>pc_provider = ''opencode'', pc_model_id = cm_model_id c, pc_operation = ''generate'',
     pc_input_tokens = cm_input_tokens c, pc_output_tokens = cm_output_tokens c,
     pc_cost_micro = Some (cm_cost_micro c), pc_measurement = FREE_MEASUREMENT,
     pc_rate_version = Some FREE_RATE_VERSION\<rparr>"

definition opencode_failure :: "opencode_error \<Rightarrow> provider_error" where
  "opencode_failure e = (case e of
       OC_status response \<Rightarrow> status_error response
     | OC_timeout \<Rightarrow> provider_failure TIMEOUT
     | OC_http \<Rightarrow> provider_failure SERVER
     | OC_other \<Rightarrow> provider_failure INVALID)"

text \<open>A finish reason that is no string equals no string either; it is dropped here.\<close>

definition opencode_complete :: "http_post \<Rightarrow> real \<Rightarrow> real \<Rightarrow> string \<Rightarrow> complete_fn" where
  "opencode_complete post started finished api_key request model =
     validate_request request OPENCODE_MAX_PROMPT_CHARS
       (case chat_completion post started finished api_key request of
          Inl e \<Rightarrow> Inl (opencode_failure e)
        | Inr c \<Rightarrow> Inr \<lparr>cr_text = cm_text c, cr_finish_reason = string_or_none (cm_finish_reason c),
                     cr_latency_ms = cm_latency_ms c, cr_call = opencode_call c\<rparr>)"

text \<open>The catalog: \<open>Inl\<close> carries the error; an unhashable id raises a \<open>TypeError\<close>.\<close>

definition catalog_ids :: "json list \<Rightarrow> json list" where
  "catalog_ids rows = concat (map (\<lambda>row. case row of JObj kvs \<Rightarrow> [jget kvs ''id''] | _ \<Rightarrow> []) rows)"

definition fetch_catalog :: "http_outcome \<Rightarrow> string + string set" where
  "fetch_catalog response = (case response of
       Http_response r \<Rightarrow>
         if \<not> hp_success r then Inl ''OpenCode model catalog is unavailable''
         else with_some (hp_json r) ''OpenCode model catalog is unavailable'' (\<lambda>payload.
         with_arr (dict_get ''data'' payload) ''OpenCode model catalog has an unexpected format'' (\<lambda>rows.
         require (list_all (\<lambda>v. case v of JArr _ \<Rightarrow> False | JObj _ \<Rightarrow> False | _ \<Rightarrow> True) (catalog_ids rows)) ''TypeError''
         (require (list_all (\<lambda>v. string_or_none v \<noteq> None) (catalog_ids rows))
            ''OpenCode model catalog contains an invalid model id''
         (Inr (set (List.map_filter string_or_none (catalog_ids rows)))))))
     | _ \<Rightarrow> Inl ''OpenCode model catalog is unavailable'')"

section \<open>Assembly\<close>

datatype build_error = Bad_provider provider_error | Bad_registry string

text \<open>The constructor of \<open>OpenRouterProvider\<close> refuses a key with a line break; \<open>OpenCodeProvider\<close> takes
  any key and fails each call.\<close>

definition openrouter_provider ::
  "http_post \<Rightarrow> real \<Rightarrow> real \<Rightarrow> settings \<Rightarrow> provider_error + (string \<times> complete_fn) list" where
  "openrouter_provider post started finished s =
     (if openrouter_enabled s \<and> truthy (openrouter_api_key s)
      then let key = the (openrouter_api_key s) in
        if bad_key key then Inl (provider_failure AUTH)
        else Inr [(''openrouter'', openrouter_complete post started finished key)]
      else Inr [])"

definition opencode_provider :: "http_post \<Rightarrow> real \<Rightarrow> real \<Rightarrow> settings \<Rightarrow> (string \<times> complete_fn) list" where
  "opencode_provider post started finished s =
     (if opencode_enabled s \<and> truthy (opencode_api_key s)
      then [(''opencode'', opencode_complete post started finished (the (opencode_api_key s)))] else [])"

definition configured_health :: "settings \<Rightarrow> health_config" where
  "configured_health s = \<lparr>hc_threshold = gateway_breaker_failure_threshold s, hc_open_seconds = gateway_breaker_open_seconds s,
     hc_default_cooldown = gateway_model_cooldown_seconds s, hc_max_cooldown = 3600\<rparr>"

text \<open>\<open>registry\<close> is the given registry or what \<open>load_registry\<close> returns.\<close>

definition build_gateway ::
  "http_post \<Rightarrow> real \<Rightarrow> real \<Rightarrow> settings \<Rightarrow> string + model_registry \<Rightarrow> build_error + gateway \<times> (string \<times> complete_fn) list" where
  "build_gateway post started finished s registry =
     (case openrouter_provider post started finished s of
        Inl e \<Rightarrow> Inl (Bad_provider e)
      | Inr first \<Rightarrow>
          let providers = first @ opencode_provider post started finished s
          in case registry of
               Inl e \<Rightarrow> Inl (Bad_registry e)
             | Inr reg \<Rightarrow> Inr (make_gateway reg (map fst providers) (configured_health s) (gateway_kill_switch s), providers))"

text \<open>\<open>self._providers[model.provider]\<close>; the last branch, the \<open>KeyError\<close>, is not reached from a built
  gateway (\<open>routable_model_has_provider\<close>).\<close>

definition dispatch :: "(string \<times> complete_fn) list \<Rightarrow> complete_fn" where
  "dispatch providers request model = (case map_of providers (rm_provider model) of
       Some f \<Rightarrow> f request model | None \<Rightarrow> Inl (provider_failure INVALID))"

lemma routable_model_has_provider:
  assumes "build_gateway post started finished s registry = Inr (gw, providers)" and "routable gw plan needed m"
  shows "map_of providers (rm_provider m) \<noteq> None"
  using assms
  by (auto simp: build_gateway_def Let_def routable_def make_gateway_def for_providers_def map_of_eq_None_iff split: sum.splits)

section \<open>Both adapters are free\<close>

lemma validate_request_rest: "validate_request request n (Inr ()) = Inr () \<Longrightarrow> validate_request request n rest = rest"
  unfolding validate_request_def by (simp split: if_splits)

lemma validate_request_Inr:
  "validate_request request n rest = Inr r \<longleftrightarrow> rest = Inr r \<and> 1 \<le> cq_max_output_tokens request \<and> cq_max_output_tokens request \<le> MAX_OUTPUT_TOKENS
     \<and> cq_messages request \<noteq> [] \<and> length (cq_messages request) \<le> 32 \<and> (\<forall>m \<in> set (cq_messages request). fst m \<in> set chat_roles)
     \<and> sum_list (map (length \<circ> snd) (cq_messages request)) \<le> n"
  by (auto simp: validate_request_def list_ex_iff)

lemma openrouter_reply_free:
  "openrouter_reply request model latency payload = Inr r \<Longrightarrow>
   pc_cost_micro (cr_call r) = Some 0 \<and> pc_measurement (cr_call r) = FREE_MEASUREMENT"
  by (auto simp: openrouter_reply_def openrouter_call_def Let_def split: option.splits json.splits if_splits)

lemma openrouter_complete_Inr:
  assumes "openrouter_complete post started finished key request model = Inr r"
  obtains payload where "openrouter_reply request model ((finished - started) * 1000) payload = Inr r"
  using assms
  by (auto simp: openrouter_complete_def validate_request_Inr split: http_outcome.splits if_splits option.splits)

interpretation openrouter: zero_cost_provider "openrouter_complete post started finished key"
  by unfold_locales (auto elim!: openrouter_complete_Inr dest: openrouter_reply_free)

lemma chat_completion_free: "chat_completion post started finished key request = Inr c \<Longrightarrow> cm_cost_micro c = 0"
  by (auto simp: chat_completion_def opencode_reply_def Let_def split: if_splits http_outcome.splits option.splits json.splits)

interpretation opencode: zero_cost_provider "opencode_complete post started finished key"
  by unfold_locales
    (auto simp: opencode_complete_def validate_request_Inr opencode_call_def dest: chat_completion_free split: sum.splits)

lemma built_providers:
  assumes "build_gateway post started finished s registry = Inr (gw, providers)" and "(p, f) \<in> set providers"
  shows "(\<exists>key. f = openrouter_complete post started finished key) \<or> (\<exists>key. f = opencode_complete post started finished key)"
  using assms
  by (auto simp: build_gateway_def openrouter_provider_def opencode_provider_def Let_def split: sum.splits if_splits)

lemma dispatch_free:
  assumes "build_gateway post started finished s registry = Inr (gw, providers)"
  shows "zero_cost_provider (dispatch providers)"
proof
  fix request m result
  assume "dispatch providers request m = Inr result"
  then obtain f where "(rm_provider m, f) \<in> set providers" and r: "f request m = Inr result"
    by (auto simp: dispatch_def split: option.splits dest: map_of_SomeD)
  from built_providers [OF assms this(1)]
  have "pc_cost_micro (cr_call result) = Some 0 \<and> pc_measurement (cr_call result) = FREE_MEASUREMENT"
    using r openrouter.zero_cost openrouter.free_measurement opencode.zero_cost opencode.free_measurement
    by (elim disjE exE) simp_all
  then show "pc_cost_micro (cr_call result) = Some 0" "pc_measurement (cr_call result) = FREE_MEASUREMENT" by simp_all
qed

text \<open>A built gateway with one OpenRouter model, and replies of that model\<close>

definition sample_settings :: settings where
  "sample_settings = default_settings\<lparr>openrouter_enabled := True, openrouter_api_key := Some ''key''\<rparr>"

definition sample_models :: model_registry where
  "sample_models = \<lparr>mr_models = [sample_model ''small'' ECONOMY], mr_snapshot_date = ''2026-10-10'', mr_provisional = False\<rparr>"

definition sample_choice :: json where
  "sample_choice = JObj [(''message'', JObj [(''content'', JStr ''ok'')]), (''finish_reason'', JStr ''stop'')]"

definition sample_payload :: "json \<Rightarrow> json" where
  "sample_payload cost = JObj [(''choices'', JArr [sample_choice]),
     (''usage'', JObj [(''prompt_tokens'', JInt 12), (''cost'', cost)])]"

definition sample_response :: "json \<Rightarrow> http_response" where
  "sample_response cost = \<lparr>hp_status = 200, hp_success = True, hp_retry_after = None, hp_json = Some (sample_payload cost)\<rparr>"

definition sample_providers :: "http_response \<Rightarrow> (string \<times> complete_fn) list" where
  "sample_providers reply = [(''openrouter'', openrouter_complete (\<lambda>_ _ _. Http_response reply) 0 1 ''key'')]"

definition sample_built :: gateway where
  "sample_built = make_gateway sample_models [''openrouter''] (configured_health sample_settings) False"

lemma sample_build: "build_gateway (\<lambda>_ _ _. Http_response reply) 0 1 sample_settings (Inr sample_models) = Inr (sample_built, sample_providers reply)"
  by (simp add: build_gateway_def openrouter_provider_def opencode_provider_def sample_settings_def default_settings_def truthy_def
      bad_key_def sample_built_def sample_providers_def)

section \<open>Properties\<close>



text \<open>The health state after a sequence of attempts\<close>

fun health_after :: "complete_fn \<Rightarrow> health_config \<Rightarrow> (real \<times> registry_model \<times> message list \<times> task_type \<times> int) list
   \<Rightarrow> health \<Rightarrow> health" where
  "health_after call_model cfg [] h = h"
| "health_after call_model cfg ((now, model, messages, task, cap) # xs) h =
     health_after call_model cfg xs (snd (snd (attempt call_model cfg now model messages task cap ([], h))))"

lemma record_failure_disabled: "set (hl_disabled h) \<subseteq> set (hl_disabled (record_failure cfg now p m e h))"
  by (auto simp: record_failure_def release_probe_def Let_def split: error_kind.split option.split)

lemma begin_call_disabled [simp]: "hl_disabled (begin_call p h) = hl_disabled h"
  by (simp add: begin_call_def split: option.split)

lemma record_success_disabled [simp]: "hl_disabled (record_success p h) = hl_disabled h"
  by (simp add: record_success_def)

lemma attempt_disabled:
  "set (hl_disabled h) \<subseteq> set (hl_disabled (snd (snd (attempt call_model cfg now m ms task cap (calls, h)))))"
  using record_failure_disabled [of "begin_call (rm_provider m) h" cfg now "rm_provider m" "rm_model_id m"]
  by (cases rule: attempt_cases [of call_model m ms cap cfg now task calls h]) auto

lemma health_after_disabled: "set (hl_disabled h) \<subseteq> set (hl_disabled (health_after call_model cfg xs h))"
proof (induction call_model cfg xs h rule: health_after.induct)
  case (2 call_model cfg now model messages task cap xs h)
  then show ?case
    using attempt_disabled [of h call_model cfg now model messages task cap "[]"] by simp
qed simp

lemma priced_attempt:
  assumes "call_model \<lparr>cq_model_id = rm_model_id m, cq_messages = ms, cq_max_output_tokens = cap\<rparr> m = Inl (provider_failure NON_ZERO_PRICE)"
  shows "(rm_provider m, rm_model_id m) \<in> set (hl_disabled (health_after call_model cfg ((now, m, ms, task, cap) # xs) h))"
proof -
  have "(rm_provider m, rm_model_id m) \<in> set (hl_disabled (snd (snd (attempt call_model cfg now m ms task cap ([], h)))))"
    by (simp add: attempt_def Let_def assms record_failure_def provider_failure_def)
  then show ?thesis using health_after_disabled by (auto simp: subset_iff)
qed

text \<open>A model that reports a price is disabled. When OpenRouter answers a valid request with text
  and a reported cost that is not the number zero (text that is no number counts as a cost), the model is not
  available again, at any time and after any further attempts.\<close>

theorem priced_model_is_disabled:
  assumes "map_of providers (rm_provider m) = Some (openrouter_complete post started finished key)"
    and "request = \<lparr>cq_model_id = rm_model_id m, cq_messages = ms, cq_max_output_tokens = cap\<rparr>"
    and "validate_request request ADAPTER_MAX_PROMPT_CHARS (Inr ()) = Inr ()"
    and "post OPENROUTER_CHAT_URL key request = Http_response r" and "hp_status r = 200" and "hp_json r = Some payload"
    and "completion_choice payload = Some (choice, JStr reply)"
    and "dict_get ''cost'' (dict_get ''usage'' payload) = reported" and "reported \<noteq> JNull"
    and "decimal_of_json reported \<noteq> Zero_decimal"
  shows "\<not> available cfg t (rm_provider m) (rm_model_id m)
     (health_after (dispatch providers) cfg ((now, m, ms, task, cap) # xs) h)"
proof -
  have "dispatch providers request m = Inl (provider_failure NON_ZERO_PRICE)"
    by (simp add: dispatch_def assms(1,4-10) openrouter_complete_def validate_request_rest [OF assms(3)] openrouter_reply_def nonzero_cost_def)
  then have "(rm_provider m, rm_model_id m) \<in> set (hl_disabled
      (health_after (dispatch providers) cfg ((now, m, ms, task, cap) # xs) h))"
    unfolding assms(2) by (rule priced_attempt)
  then show ?thesis unfolding available_def by (simp only: if_True not_False_eq_True)
qed

theorem priced_model_is_disabled_witness:
  "\<not> available (configured_health sample_settings) 100000 ''openrouter'' ''small''
     (health_after (dispatch (sample_providers (sample_response (JStr ''0.01'')))) (configured_health sample_settings)
        [(0, sample_model ''small'' ECONOMY, [(''user'', codes ''hi'')], STUDY, 10)] new_health)"
proof -
  have p: "map_of (sample_providers (sample_response (JStr ''0.01''))) (rm_provider (sample_model ''small'' ECONOMY)) =
      Some (openrouter_complete (\<lambda>_ _ _. Http_response (sample_response (JStr ''0.01''))) 0 1 ''key'')"
    by (simp add: sample_providers_def sample_model_def)
  have v: "validate_request \<lparr>cq_model_id = rm_model_id (sample_model ''small'' ECONOMY), cq_messages = [(''user'', codes ''hi'')],
      cq_max_output_tokens = 10\<rparr> ADAPTER_MAX_PROMPT_CHARS (Inr ()) = Inr ()"
    by code_simp
  have c: "completion_choice (sample_payload (JStr ''0.01'')) = Some (sample_choice, JStr ''ok'')"
    by code_simp
  have d: "dict_get ''cost'' (dict_get ''usage'' (sample_payload (JStr ''0.01''))) = JStr ''0.01''"
    by code_simp
  have n: "decimal_of_json (JStr ''0.01'') \<noteq> Zero_decimal" by code_simp
  show ?thesis
    using priced_model_is_disabled [OF p refl v refl _ _ c d _ n, where xs = "[]"]
    by (simp add: sample_response_def sample_model_def)
qed

end
