(* ===== verification/Admission.thy ===== *)
theory Admission
  imports Plans Registry
begin

text \<open>
  The shared daily cap on provider requests (\<open>services.py\<close>, \<open>admit_gateway_requests\<close> and
  \<open>return_gateway_requests\<close>): a live message holds slots of the day before it is generated and
  gives back the slots it did not use.
\<close>

record gateway_admission =
  ga_day_key :: string
  ga_slots :: int

definition get_request_day :: "string \<Rightarrow> db \<Rightarrow> gateway_request_day option" where
  "get_request_day key s = select_first (\<lambda>d. gd_day_key d = key) (gateway_request_days s)"

definition update_days ::
  "(gateway_request_day \<Rightarrow> bool) \<Rightarrow> (gateway_request_day \<Rightarrow> gateway_request_day) \<Rightarrow> nat sop" where
  "update_days p f = execute (\<lambda>s. row_count p (gateway_request_days s))
     (\<lambda>s. s\<lparr>gateway_request_days := update_where p f (gateway_request_days s)\<rparr>)"

definition ensure_request_day :: "string \<Rightarrow> unit sop" where
  "ensure_request_day key =
     andthen (query (get_request_day key)) (\<lambda>found.
     if found \<noteq> None then ret ()
     else begin_nested
       (andthen (insert_row (\<lambda>s. get_request_day key s \<noteq> None)
          (\<lambda>_. \<lparr>gd_day_key = key, gd_requests_used = 0\<rparr>)
          (\<lambda>d s. s\<lparr>gateway_request_days := gateway_request_days s @ [d]\<rparr>)) (\<lambda>_. ret ()))
       (ret ()))"

definition request_ceiling :: "settings \<Rightarrow> bool \<Rightarrow> int" where
  "request_ceiling settings paid = (if paid then gateway_daily_request_limit settings
     else gateway_daily_request_limit settings - gateway_paid_reserved_requests settings)"

definition use_requests :: "int \<Rightarrow> gateway_request_day \<Rightarrow> gateway_request_day" where
  "use_requests n d = d\<lparr>gd_requests_used := gd_requests_used d + n\<rparr>"

definition admit_gateway_requests :: "datetime \<Rightarrow> settings \<Rightarrow> bool \<Rightarrow> int \<Rightarrow> gateway_admission sop" where
  "admit_gateway_requests now settings paid slots =
     (let key = fst (current_window_key now); reset = snd (current_window_key now) in
      andthen (ensure_request_day key) (\<lambda>_.
      andthen (update_days (\<lambda>d. gd_day_key d = key \<and> gd_requests_used d + slots \<le> request_ceiling settings paid)
                (use_requests slots)) (\<lambda>rowcount.
      if rowcount \<noteq> 1 then raise (GatewayCapacityFull reset)
      else ret \<lparr>ga_day_key = key, ga_slots = slots\<rparr>)))"

definition gateway_requests_made :: "provider_call list \<Rightarrow> int" where
  "gateway_requests_made calls = int (length (filter (\<lambda>c. pc_provider c \<in> set KNOWN_PROVIDERS) calls))"

definition kept_slots :: "gateway_admission \<Rightarrow> int \<Rightarrow> int" where
  "kept_slots a used = max 0 (min used (ga_slots a))"

definition return_gateway_requests :: "gateway_admission \<Rightarrow> int \<Rightarrow> unit sop" where
  "return_gateway_requests a used =
     (let unused = ga_slots a - kept_slots a used in
      if unused \<le> 0 then ret ()
      else andthen (update_days (\<lambda>d. gd_day_key d = ga_day_key a \<and> unused \<le> gd_requests_used d)
             (use_requests (- unused))) (\<lambda>_. ret ()))"

section \<open>What the operations do to the days\<close>

definition days_keyed :: "gateway_request_day list \<Rightarrow> bool" where
  "days_keyed rows \<longleftrightarrow> distinct (map gd_day_key rows)"

definition day_used :: "string \<Rightarrow> gateway_request_day list \<Rightarrow> int" where
  "day_used key rows = (case select_first (\<lambda>d. gd_day_key d = key) rows of None \<Rightarrow> 0 | Some d \<Rightarrow> gd_requests_used d)"

lemma use_requests_key [simp]: "gd_day_key (use_requests n d) = gd_day_key d"
  by (simp add: use_requests_def)

lemma use_requests_used [simp]: "gd_requests_used (use_requests n d) = gd_requests_used d + n"
  by (simp add: use_requests_def)

lemma day_used_snoc: "day_used key (rows @ [\<lparr>gd_day_key = k, gd_requests_used = 0\<rparr>]) = day_used key rows"
  by (induction rows) (auto simp: day_used_def)

lemma keyed_update: "days_keyed (update_where p (use_requests n) rows) = days_keyed rows"
  by (simp add: days_keyed_def)

lemma day_used_update:
  assumes "days_keyed rows"
  shows "day_used key (update_where (\<lambda>d. gd_day_key d = k \<and> P d) (use_requests n) rows) =
    day_used key rows + (if key = k \<and> (\<exists>d \<in> set rows. gd_day_key d = k \<and> P d) then n else 0)"
  using assms
proof (induction rows)
  case (Cons d rows)
  have other: "gd_day_key e \<noteq> gd_day_key d" if "e \<in> set rows" for e
    using Cons.prems that by (metis days_keyed_def distinct.simps(2) image_eqI list.set_map list.simps(9))
  have IH: "day_used key (update_where (\<lambda>d. gd_day_key d = k \<and> P d) (use_requests n) rows) =
      day_used key rows + (if key = k \<and> (\<exists>d \<in> set rows. gd_day_key d = k \<and> P d) then n else 0)"
    using Cons by (simp add: days_keyed_def)
  show ?case
  proof (cases "gd_day_key d = key")
    case True
    then show ?thesis using other by (auto simp: day_used_def)
  next
    case False
    then show ?thesis using IH by (auto simp: day_used_def)
  qed
qed (simp add: day_used_def)

lemma day_used_in: "days_keyed rows \<Longrightarrow> d \<in> set rows \<Longrightarrow> day_used (gd_day_key d) rows = gd_requests_used d"
  by (induction rows) (auto simp: day_used_def days_keyed_def)

lemma ensure_request_day_wp:
  "days_keyed (gateway_request_days s) \<Longrightarrow>
   wp (ensure_request_day k) (\<lambda>_ t. days_keyed (gateway_request_days t)
     \<and> (\<forall>key. day_used key (gateway_request_days t) = day_used key (gateway_request_days s))) s"
  unfolding ensure_request_day_def
  by (intro wp_intros) (auto simp: days_keyed_def day_used_snoc get_request_day_def select_first_None)

lemma admit_wp:
  assumes "days_keyed (gateway_request_days s)"
  shows "wp (admit_gateway_requests now settings paid slots) (\<lambda>a t. days_keyed (gateway_request_days t)
     \<and> a = \<lparr>ga_day_key = fst (current_window_key now), ga_slots = slots\<rparr>
     \<and> (\<forall>key. day_used key (gateway_request_days t) =
          day_used key (gateway_request_days s) + (if key = ga_day_key a then slots else 0))
     \<and> day_used (ga_day_key a) (gateway_request_days t) \<le> request_ceiling settings paid) s"
proof -
  let ?k = "fst (current_window_key now)"
  have *: "days_keyed rows' \<and> (\<forall>key. day_used key rows' = day_used key rows + (if key = ?k then slots else 0))
      \<and> day_used ?k rows + slots \<le> request_ceiling settings paid"
    if "days_keyed rows" and one: "row_count (\<lambda>d. gd_day_key d = ?k \<and> gd_requests_used d + slots \<le> request_ceiling settings paid) rows = 1"
      and "rows' = update_where (\<lambda>d. gd_day_key d = ?k \<and> gd_requests_used d + slots \<le> request_ceiling settings paid) (use_requests slots) rows"
    for rows rows'
  proof -
    obtain d where d: "d \<in> set rows" "gd_day_key d = ?k" "gd_requests_used d + slots \<le> request_ceiling settings paid"
      using one by (metis (mono_tags, lifting) row_count_pos zero_less_one)
    show ?thesis
      using that(1,3) d day_used_in [OF that(1) d(1)] by (auto simp: keyed_update day_used_update)
  qed
  have ens: "wp (ensure_request_day ?k) (\<lambda>_ t. days_keyed (gateway_request_days t)
      \<and> (\<forall>key. day_used key (gateway_request_days t) = day_used key (gateway_request_days s))) s"
    by (rule ensure_request_day_wp [OF assms])
  show ?thesis
  proof (rule wpI)
    fix a t
    assume "admit_gateway_requests now settings paid slots s = Ok a t"
    then obtain u where u: "ensure_request_day ?k s = Ok () u"
      and one: "row_count (\<lambda>d. gd_day_key d = ?k \<and> gd_requests_used d + slots \<le> request_ceiling settings paid) (gateway_request_days u) = 1"
      and rows: "gateway_request_days t = update_where (\<lambda>d. gd_day_key d = ?k \<and> gd_requests_used d + slots \<le> request_ceiling settings paid)
        (use_requests slots) (gateway_request_days u)"
      and a: "a = \<lparr>ga_day_key = ?k, ga_slots = slots\<rparr>"
      by (auto simp: admit_gateway_requests_def Let_def update_days_def andthen_Ok_conv ret_def raise_def split: if_splits)
    have "days_keyed (gateway_request_days u)" using wpD [OF ens u] by simp
    from * [OF this one rows] show "days_keyed (gateway_request_days t)
     \<and> a = \<lparr>ga_day_key = ?k, ga_slots = slots\<rparr>
     \<and> (\<forall>key. day_used key (gateway_request_days t) =
          day_used key (gateway_request_days s) + (if key = ga_day_key a then slots else 0))
     \<and> day_used (ga_day_key a) (gateway_request_days t) \<le> request_ceiling settings paid"
      using wpD [OF ens u] by (simp add: a)
  qed
qed

lemma return_wp:
  assumes "days_keyed (gateway_request_days s)" and "ga_slots a \<le> day_used (ga_day_key a) (gateway_request_days s)"
    and "0 \<le> ga_slots a"
  shows "wp (return_gateway_requests a used) (\<lambda>_ t. days_keyed (gateway_request_days t)
     \<and> (\<forall>key. day_used key (gateway_request_days t) = day_used key (gateway_request_days s)
          - (if key = ga_day_key a then ga_slots a - kept_slots a used else 0))) s"
proof -
  let ?rows = "gateway_request_days s" and ?unused = "ga_slots a - kept_slots a used"
  have nn: "0 \<le> ?unused" "?unused \<le> ga_slots a" using assms(3) by (auto simp: kept_slots_def)
  have ex: "\<exists>d \<in> set ?rows. gd_day_key d = ga_day_key a \<and> ?unused \<le> gd_requests_used d" if "0 < ?unused"
    using assms(2) nn that select_first_Some [of "\<lambda>d. gd_day_key d = ga_day_key a" ?rows]
    by (fastforce simp: day_used_def split: option.splits)
  show ?thesis
    unfolding return_gateway_requests_def Let_def update_days_def
    by (intro wp_intros) (use assms(1) nn ex in \<open>auto simp: keyed_update day_used_update\<close>)
qed

section \<open>Any sequence of admissions and returns\<close>

text \<open>The state: the database, the admissions of the messages in flight, and the slots that finished
  messages have kept, by day.\<close>

type_synonym admission_state = "db \<times> gateway_admission list \<times> (string \<times> int) list"

inductive admission_step :: "settings \<Rightarrow> admission_state \<Rightarrow> admission_state \<Rightarrow> bool" for settings where
  Admit: "0 \<le> slots \<Longrightarrow> admit_gateway_requests now settings paid slots s = Ok a t \<Longrightarrow>
    admission_step settings (s, opened, kept) (t, a # opened, kept)"
| Return: "return_gateway_requests a used s = Ok () t \<Longrightarrow> a \<in> set opened \<Longrightarrow>
    admission_step settings (s, opened, kept) (t, remove1 a opened, (ga_day_key a, kept_slots a used) # kept)"

inductive admission_reachable :: "settings \<Rightarrow> admission_state \<Rightarrow> bool" for settings where
  Start: "gateway_request_days s = [] \<Longrightarrow> admission_reachable settings (s, [], [])"
| Step: "admission_reachable settings st \<Longrightarrow> admission_step settings st st' \<Longrightarrow> admission_reachable settings st'"

definition held_on :: "string \<Rightarrow> gateway_admission list \<Rightarrow> int" where
  "held_on key opened = col_sum (\<lambda>a. if ga_day_key a = key then ga_slots a else 0) opened"

definition kept_on :: "string \<Rightarrow> (string \<times> int) list \<Rightarrow> int" where
  "kept_on key kept = col_sum (\<lambda>(k, n). if k = key then n else 0) kept"

definition accounted :: "settings \<Rightarrow> admission_state \<Rightarrow> bool" where
  "accounted settings st = (case st of (s, opened, kept) \<Rightarrow>
     days_keyed (gateway_request_days s)
   \<and> (\<forall>key. day_used key (gateway_request_days s) = held_on key opened + kept_on key kept)
   \<and> (\<forall>key. day_used key (gateway_request_days s) \<le> max 0 (gateway_daily_request_limit settings))
   \<and> (\<forall>a \<in> set opened. 0 \<le> ga_slots a) \<and> (\<forall>(k, n) \<in> set kept. 0 \<le> n))"

lemma held_remove1: "a \<in> set opened \<Longrightarrow> held_on key (remove1 a opened) = held_on key opened - (if ga_day_key a = key then ga_slots a else 0)"
  by (induction opened) (auto simp: held_on_def)

lemma held_ge: "a \<in> set opened \<Longrightarrow> \<forall>b \<in> set opened. 0 \<le> ga_slots b \<Longrightarrow> ga_slots a \<le> held_on (ga_day_key a) opened"
proof (induction opened)
  case (Cons b opened)
  have nn: "0 \<le> held_on (ga_day_key a) opened"
    unfolding held_on_def by (rule col_sum_nonneg) (use Cons.prems in auto)
  show ?case using Cons nn by (auto simp: held_on_def)
qed simp

lemma kept_nonneg: "\<forall>(k, n) \<in> set kept. 0 \<le> n \<Longrightarrow> 0 \<le> kept_on key kept"
  unfolding kept_on_def by (rule col_sum_nonneg) auto

lemma kept_slots_bounds: "0 \<le> ga_slots a \<Longrightarrow> 0 \<le> kept_slots a used \<and> kept_slots a used \<le> ga_slots a"
  by (simp add: kept_slots_def)

lemma accounted_step:
  assumes "admission_step settings st st'" and "accounted settings st" and "0 \<le> gateway_paid_reserved_requests settings"
  shows "accounted settings st'"
  using assms(1)
proof cases
  case (Admit slots now paid s a t opened kept)
  have k: "days_keyed (gateway_request_days s)" using assms(2) Admit by (simp add: accounted_def)
  note post = wpD [OF admit_wp [OF k] Admit(4)]
  have "request_ceiling settings paid \<le> gateway_daily_request_limit settings"
    using assms(3) by (simp add: request_ceiling_def)
  then have "\<forall>key. day_used key (gateway_request_days t) \<le> max 0 (gateway_daily_request_limit settings)"
    using post assms(2) Admit(1) by (auto simp: accounted_def)
  then show ?thesis using post assms(2) Admit by (auto simp: accounted_def held_on_def)
next
  case (Return a used s t opened kept)
  have k: "days_keyed (gateway_request_days s)" "0 \<le> ga_slots a" "ga_slots a \<le> day_used (ga_day_key a) (gateway_request_days s)"
    using assms(2) Return held_ge [of a opened] kept_nonneg [of kept "ga_day_key a"] by (auto simp: accounted_def)
  have le: "kept_slots a used \<le> ga_slots a" "0 \<le> kept_slots a used" using kept_slots_bounds [OF k(2)] by auto
  note post = wpD [OF return_wp [OF k(1,3,2)] Return(3)]
  have "\<forall>key. day_used key (gateway_request_days t) \<le> day_used key (gateway_request_days s)"
    using post le by auto
  then have "\<forall>key. day_used key (gateway_request_days t) \<le> max 0 (gateway_daily_request_limit settings)"
    using assms(2) Return(1) by (auto simp: accounted_def intro: order_trans)
  moreover have "\<forall>key. day_used key (gateway_request_days t) =
      held_on key (remove1 a opened) + kept_on key ((ga_day_key a, kept_slots a used) # kept)"
    using post assms(2) Return(1,4) by (auto simp: accounted_def held_remove1 kept_on_def)
  ultimately show ?thesis
    using post assms(2) Return le by (auto simp: accounted_def dest: notin_set_remove1)
qed

lemma accounted_reachable:
  assumes "admission_reachable settings st" and "0 \<le> gateway_paid_reserved_requests settings"
  shows "accounted settings st"
  using assms(1)
proof induction
  case (Start s)
  then show ?case by (auto simp: accounted_def days_keyed_def day_used_def held_on_def kept_on_def)
next
  case (Step st st')
  show ?case by (rule accounted_step [OF Step(2,3) assms(2)])
qed

lemma ensure_request_day_Ok:
  "\<exists>t. ensure_request_day k s = Ok () t \<and> get_request_day k t \<noteq> None
     \<and> (\<forall>key. day_used key (gateway_request_days t) = day_used key (gateway_request_days s))
     \<and> (days_keyed (gateway_request_days s) \<longrightarrow> days_keyed (gateway_request_days t))"
proof (cases "get_request_day k s")
  case None
  have "select_first (\<lambda>d. gd_day_key d = k) (gateway_request_days s @ [\<lparr>gd_day_key = k, gd_requests_used = 0\<rparr>]) \<noteq> None"
    by (simp add: select_first_None)
  then show ?thesis
    using None
    by (auto simp: ensure_request_day_def andthen_def begin_nested_def insert_row_def ret_def day_used_snoc days_keyed_def
        get_request_day_def select_first_None)
next
  case (Some d)
  then show ?thesis by (auto simp: ensure_request_day_def andthen_def ret_def)
qed

lemma admit_decides:
  assumes "days_keyed (gateway_request_days s)"
  shows "(\<exists>a t. admit_gateway_requests now settings paid slots s = Ok a t) \<longleftrightarrow>
    day_used (fst (current_window_key now)) (gateway_request_days s) + slots \<le> request_ceiling settings paid"
proof -
  let ?k = "fst (current_window_key now)"
  let ?p = "\<lambda>d. gd_day_key d = ?k \<and> gd_requests_used d + slots \<le> request_ceiling settings paid"
  obtain t where t: "ensure_request_day ?k s = Ok () t" "get_request_day ?k t \<noteq> None"
    "day_used ?k (gateway_request_days t) = day_used ?k (gateway_request_days s)" "days_keyed (gateway_request_days t)"
    using ensure_request_day_Ok [of ?k s] assms by auto
  obtain d where d: "d \<in> set (gateway_request_days t)" "gd_day_key d = ?k"
    using t(2) select_first_Some [of "\<lambda>d. gd_day_key d = ?k" "gateway_request_days t"] by (auto simp: get_request_day_def)
  have keyed: "distinct (map gd_day_key (gateway_request_days t))" using t(4) by (simp add: days_keyed_def)
  have used: "gd_requests_used d = day_used ?k (gateway_request_days s)"
    using day_used_in [OF t(4) d(1)] t(3) d(2) by simp
  have "row_count ?p (gateway_request_days t) \<le> 1" by (rule row_count_le_1 [OF keyed]) simp
  moreover have "0 < row_count ?p (gateway_request_days t) \<longleftrightarrow> gd_requests_used d + slots \<le> request_ceiling settings paid"
    unfolding row_count_pos using d key_unique [OF keyed] by metis
  ultimately have "row_count ?p (gateway_request_days t) = 1 \<longleftrightarrow> gd_requests_used d + slots \<le> request_ceiling settings paid"
    by linarith
  then show ?thesis
    by (auto simp: admit_gateway_requests_def Let_def andthen_def t(1) update_days_def ret_def raise_def used)
qed

section \<open>Properties\<close>

text \<open>C15: The daily cap. After any sequence of admissions and returns of live messages, the counter of
  a day is exactly the slots of the messages in flight plus the slots finished messages kept; it is never
  negative and never above the limit; and a further admission succeeds exactly when the counter
  and its slots fit the plan's share (all of the limit for a paid plan, the limit less the reserved requests
  for a free one).\<close>

theorem admissions_are_accounted:
  assumes "admission_reachable settings (s, opened, kept)" and "field_bounds_ok settings"
  shows "distinct (map gd_day_key (gateway_request_days s))
     \<and> (\<forall>d \<in> set (gateway_request_days s). gd_requests_used d = held_on (gd_day_key d) opened + kept_on (gd_day_key d) kept
          \<and> 0 \<le> gd_requests_used d \<and> gd_requests_used d \<le> gateway_daily_request_limit settings)
     \<and> (\<forall>now paid slots. (\<exists>a t. admit_gateway_requests now settings paid slots s = Ok a t) \<longleftrightarrow>
          day_used (fst (current_window_key now)) (gateway_request_days s) + slots \<le> request_ceiling settings paid)"
proof -
  have acc: "accounted settings (s, opened, kept)"
    using accounted_reachable [OF assms(1)] assms(2) by (simp add: field_bounds_ok_def)
  then have keyed: "days_keyed (gateway_request_days s)" by (simp add: accounted_def)
  have "0 \<le> held_on key opened" for key
    unfolding held_on_def by (rule col_sum_nonneg) (use acc in \<open>auto simp: accounted_def\<close>)
  moreover have "0 \<le> kept_on key kept" for key by (rule kept_nonneg) (use acc in \<open>simp add: accounted_def\<close>)
  moreover have "1 \<le> gateway_daily_request_limit settings" using assms(2) by (simp add: field_bounds_ok_def)
  ultimately show ?thesis
    using acc keyed admit_decides [OF keyed] day_used_in [OF keyed]
    by (auto simp: accounted_def days_keyed_def) (metis max.absorb2 le_trans zero_le_one add_nonneg_nonneg)+
qed

definition demo_admission :: "(service_error, gateway_admission, db) result" where
  "demo_admission = admit_gateway_requests (DateTime (Date 2026 10 12) 0) default_settings False 2 empty_db"

lemma demo_admission_state:
  "case demo_admission of Raise _ _ \<Rightarrow> False | Ok a t \<Rightarrow>
     (case return_gateway_requests a 1 t of Raise _ _ \<Rightarrow> False | Ok _ u \<Rightarrow>
        ga_slots a = 2 \<and> map gd_requests_used (gateway_request_days t) = [2] \<and> map gd_requests_used (gateway_request_days u) = [1])"
  by code_simp

theorem admissions_are_accounted_witness:
  "\<exists>a t u. demo_admission = Ok a t \<and> return_gateway_requests a 1 t = Ok () u
     \<and> map gd_requests_used (gateway_request_days u) = [1]
     \<and> (\<exists>d. gateway_request_days u = [d] \<and> kept_on (gd_day_key d) [(ga_day_key a, kept_slots a 1)] = 1)"
proof -
  obtain a t u where a: "demo_admission = Ok a t" and u: "return_gateway_requests a 1 t = Ok () u"
    and used: "map gd_requests_used (gateway_request_days u) = [1]"
    using demo_admission_state by (auto split: result.splits)
  have "admission_reachable default_settings (empty_db, [], [])"
    by (rule admission_reachable.Start) (simp add: empty_db_def)
  from admission_reachable.Step [OF this admission_step.Admit [OF _ a [unfolded demo_admission_def]]]
  have "admission_reachable default_settings (t, [a], [])" by simp
  from admission_reachable.Step [OF this admission_step.Return [OF u]]
  have "admission_reachable default_settings (u, [], [(ga_day_key a, kept_slots a 1)])" by simp
  from admissions_are_accounted [OF this]
  have "\<forall>d \<in> set (gateway_request_days u). gd_requests_used d = kept_on (gd_day_key d) [(ga_day_key a, kept_slots a 1)]"
    by (simp add: field_bounds_ok_def default_settings_def held_on_def)
  then show ?thesis using a u used by (intro exI [of _ a] exI [of _ t] exI [of _ u]) auto
qed

end
