(* ===== verification/Reply.thy ===== *)
theory Reply
  imports Adapters Admission
begin

text \<open>
  Producing a reply (\<open>services.py\<close>): the idempotency hash of a chat payload, trimming the history to
  the plan's input budget, choosing the local route, the classifier or the gateway, and the cost and
  tokens measured from the calls. SHA-256, the classifier's SDK and the model providers are parameters.
\<close>

section \<open>The payload hash\<close>

record history_turn =
  ht_role :: string
  ht_content :: utext

definition hex_digit :: "nat \<Rightarrow> nat" where
  "hex_digit n = (if n < 10 then 48 + n else 87 + n)"

text \<open>\<open>json.dumps(..., ensure_ascii=False)\<close> of a string, a turn and the payload with sorted keys\<close>

definition json_char :: "nat \<Rightarrow> utext" where
  "json_char c = (if c = 34 then [92, 34] else if c = 92 then [92, 92] else if c = 10 then [92, 110]
     else if c = 13 then [92, 114] else if c = 9 then [92, 116] else if c = 8 then [92, 98]
     else if c = 12 then [92, 102] else if c < 32 then [92, 117, 48, 48, hex_digit (c div 16), hex_digit (c mod 16)]
     else [c])"

definition json_text :: "utext \<Rightarrow> utext" where
  "json_text t = 34 # concat (map json_char t) @ [34]"

definition json_turn :: "history_turn \<Rightarrow> utext" where
  "json_turn t = 123 # json_text (codes ''content'') @ 58 # json_text (ht_content t)
     @ 44 # json_text (codes ''role'') @ 58 # json_text (codes (ht_role t)) @ [125]"

fun json_turns :: "history_turn list \<Rightarrow> utext" where
  "json_turns [] = []"
| "json_turns [t] = json_turn t"
| "json_turns (t # u # ts) = json_turn t @ 44 # json_turns (u # ts)"

definition canonical_payload :: "utext \<Rightarrow> history_turn list \<Rightarrow> utext" where
  "canonical_payload message history = 123 # json_text (codes ''history'') @ 58 # 91 # json_turns history
     @ 93 # 44 # json_text (codes ''text'') @ 58 # json_text message @ [125]"

definition message_request_hash :: "(string \<Rightarrow> string) \<Rightarrow> utext \<Rightarrow> history_turn list \<Rightarrow> string" where
  "message_request_hash sha256 message history =
     sha256 (utf8_encode (if history = [] then message else canonical_payload message history))"

subsection \<open>The encoding is injective\<close>

lemma hex_digit_inject: "a < 16 \<Longrightarrow> b < 16 \<Longrightarrow> hex_digit a = hex_digit b \<longleftrightarrow> a = b"
  by (auto simp: hex_digit_def)

lemma json_char_cases:
  obtains (plain) "json_char c = [c]" "c \<noteq> 34" "c \<noteq> 92"
  | (short) e where "json_char c = [92, e]" "e \<noteq> 117" "(c, e) \<in> {(34, 34), (92, 92), (10, 110), (13, 114), (9, 116), (8, 98), (12, 102)}"
  | (long) "json_char c = [92, 117, 48, 48, hex_digit (c div 16), hex_digit (c mod 16)]" "c < 32"
proof (cases "c \<in> {34, 92, 10, 13, 9, 8, 12}")
  case True
  then show thesis by (auto simp: json_char_def intro: short)
next
  case False
  then show thesis by (cases "c < 32") (auto simp: json_char_def intro: plain long)
qed

lemma json_char_prefix: "json_char c @ r = json_char d @ s \<Longrightarrow> c = d \<and> r = s"
proof (cases c rule: json_char_cases)
  case plain
  assume "json_char c @ r = json_char d @ s"
  with plain show ?thesis by (cases d rule: json_char_cases) auto
next
  case (short e)
  assume "json_char c @ r = json_char d @ s"
  with short show ?thesis by (cases d rule: json_char_cases) auto
next
  case long
  assume eq: "json_char c @ r = json_char d @ s"
  then show ?thesis
  proof (cases d rule: json_char_cases)
    case l2: long
    have "c div 16 = d div 16" "c mod 16 = d mod 16" "r = s"
      using eq long l2 by (simp_all add: hex_digit_inject)
    then show ?thesis by (metis div_mult_mod_eq)
  qed (use long eq in auto)
qed

lemma json_char_head: "json_char c \<noteq> [] \<and> hd (json_char c) \<noteq> 34"
  by (cases c rule: json_char_cases) auto

lemma json_text_prefix: "json_text t @ r = json_text u @ s \<Longrightarrow> t = u \<and> r = s"
proof -
  have "concat (map json_char t) @ 34 # r = concat (map json_char u) @ 34 # s \<Longrightarrow> t = u \<and> r = s"
  proof (induction t arbitrary: u)
    case Nil
    then show ?case
      using json_char_head by (cases u) (auto, metis append_is_Nil_conv hd_append2 list.sel(1))
  next
    case (Cons c t)
    show ?case
    proof (cases u)
      case Nil
      then show ?thesis using Cons.prems json_char_head [of c]
        by (auto, metis append_is_Nil_conv hd_append2 list.sel(1))
    next
      case (Cons d u')
      with Cons.prems have "json_char c @ (concat (map json_char t) @ 34 # r) = json_char d @ (concat (map json_char u') @ 34 # s)"
        by simp
      from json_char_prefix [OF this] Cons.IH [of u'] show ?thesis by (simp add: Cons)
    qed
  qed
  moreover assume "json_text t @ r = json_text u @ s"
  ultimately show ?thesis by (simp add: json_text_def)
qed

lemma codes_inject [simp]: "codes a = codes b \<longleftrightarrow> a = b"
proof -
  have "inj (of_char :: char \<Rightarrow> nat)" by (rule injI) simp
  then show ?thesis by (simp add: codes_def inj_map_eq_map)
qed

lemma json_turn_prefix: "json_turn t @ r = json_turn u @ s \<Longrightarrow> t = u \<and> r = s"
proof -
  assume "json_turn t @ r = json_turn u @ s"
  then have "json_text (ht_content t) @ (44 # json_text (codes ''role'') @ 58 # json_text (codes (ht_role t)) @ [125] @ r) =
      json_text (ht_content u) @ (44 # json_text (codes ''role'') @ 58 # json_text (codes (ht_role u)) @ [125] @ s)"
    by (simp add: json_turn_def)
  from json_text_prefix [OF this] have c: "ht_content t = ht_content u"
    and "json_text (codes (ht_role t)) @ (125 # r) = json_text (codes (ht_role u)) @ (125 # s)" by simp_all
  from json_text_prefix [OF this(2)] c show ?thesis by simp
qed

lemma json_turn_head [simp]: "json_turn t @ r \<noteq> 93 # s" "93 # s \<noteq> json_turn t @ r"
  by (simp_all add: json_turn_def)

lemma json_turns_prefix: "json_turns ts @ 93 # r = json_turns us @ 93 # s \<Longrightarrow> ts = us \<and> r = s"
proof (induction ts arbitrary: us rule: json_turns.induct)
  case 1
  then show ?case by (cases us rule: json_turns.cases) auto
next
  case (2 t)
  then show ?case
  proof (cases us rule: json_turns.cases)
    case 1
    with 2 show ?thesis by simp
  next
    case (2 u)
    with \<open>json_turns [t] @ 93 # r = json_turns us @ 93 # s\<close> show ?thesis using json_turn_prefix [of t "93 # r" u "93 # s"] by simp
  next
    case (3 u v vs)
    with 2 show ?thesis using json_turn_prefix [of t "93 # r" u "44 # json_turns (v # vs) @ 93 # s"] by simp
  qed
next
  case (3 t t' ts)
  then show ?case
  proof (cases us rule: json_turns.cases)
    case 1
    with 3 show ?thesis by simp
  next
    case (2 u)
    with 3 show ?thesis using json_turn_prefix [of t "44 # json_turns (t' # ts) @ 93 # r" u "93 # s"] by simp
  next
    case us: (3 u v vs)
    with 3(2) have "t = u" "json_turns (t' # ts) @ 93 # r = json_turns (v # vs) @ 93 # s"
      using json_turn_prefix [of t "44 # json_turns (t' # ts) @ 93 # r" u "44 # json_turns (v # vs) @ 93 # s"] by simp_all
    from 3(1) [OF this(2)] \<open>t = u\<close> us show ?thesis by simp
  qed
qed

lemma canonical_payload_inject: "canonical_payload t h = canonical_payload u k \<longleftrightarrow> t = u \<and> h = k"
proof
  assume "canonical_payload t h = canonical_payload u k"
  then have "json_turns h @ 93 # (44 # json_text (codes ''text'') @ 58 # json_text t @ [125]) =
      json_turns k @ 93 # (44 # json_text (codes ''text'') @ 58 # json_text u @ [125])"
    by (simp add: canonical_payload_def)
  from json_turns_prefix [OF this] have hk: "h = k" and "json_text t @ [125] = json_text u @ [125]" by simp_all
  from json_text_prefix [OF this(2)] hk show "t = u \<and> h = k" by simp
qed simp

lemma valid_text_simps [simp]:
  "valid_text []" "valid_text (c # t) \<longleftrightarrow> c < 1114112 \<and> valid_text t" "valid_text (t @ u) \<longleftrightarrow> valid_text t \<and> valid_text u"
  by (auto simp: valid_text_def)

lemma valid_codes [simp]: "valid_text (codes s)"
proof -
  have "of_char c < (1114112 :: nat)" for c
  proof -
    have "of_char c mod 256 = (of_char c :: nat)" by simp
    then have "of_char c < (256 :: nat)" by (metis mod_less_divisor zero_less_numeral)
    then show ?thesis by linarith
  qed
  then show ?thesis by (simp add: valid_text_def codes_def list_all_iff)
qed

lemma valid_json_text [simp]: "valid_text t \<Longrightarrow> valid_text (json_text t)"
proof -
  have "valid_text (json_char c)" if "c < 1114112" for c
    by (cases c rule: json_char_cases) (use that in \<open>auto simp: hex_digit_def\<close>)
  then have "valid_text t \<Longrightarrow> valid_text (concat (map json_char t))" by (induction t) simp_all
  then show "valid_text t \<Longrightarrow> valid_text (json_text t)" by (simp add: json_text_def)
qed

lemma valid_canonical: "valid_text t \<Longrightarrow> \<forall>u \<in> set h. valid_text (ht_content u) \<Longrightarrow> valid_text (canonical_payload t h)"
proof -
  have "\<forall>u \<in> set h. valid_text (ht_content u) \<Longrightarrow> valid_text (json_turns h)"
    by (induction h rule: json_turns.induct) (simp_all add: json_turn_def)
  then show "valid_text t \<Longrightarrow> \<forall>u \<in> set h. valid_text (ht_content u) \<Longrightarrow> valid_text (canonical_payload t h)"
    by (simp add: canonical_payload_def)
qed

section \<open>The history that is sent\<close>

definition HISTORY_REQUEST_CAP_BYTES :: int where
  "HISTORY_REQUEST_CAP_BYTES = min (int ADAPTER_MAX_PROMPT_CHARS) (int OPENCODE_MAX_PROMPT_CHARS)"

text \<open>The loop over the reversed history, which stops at the first turn that does not fit\<close>

fun keep_turns :: "int \<Rightarrow> history_turn list \<Rightarrow> history_turn list" where
  "keep_turns budget_bytes [] = []"
| "keep_turns budget_bytes (turn # older) =
     (let size = int (utf8_len (ht_content turn)) in
      if size > budget_bytes then [] else turn # keep_turns (budget_bytes - size) older)"

definition history_budget :: "utext \<Rightarrow> plan_policy_row \<Rightarrow> int" where
  "history_budget message plan = min (input_tokens plan * 4) HISTORY_REQUEST_CAP_BYTES
     - int SYSTEM_PROMPT_MAX_CHARS - int (utf8_len message)"

definition trim_history :: "history_turn list \<Rightarrow> utext \<Rightarrow> plan_policy_row \<Rightarrow> history_turn list" where
  "trim_history history message plan = rev (keep_turns (history_budget message plan) (rev history))"

definition history_bytes :: "history_turn list \<Rightarrow> int" where
  "history_bytes history = sum_list (map (\<lambda>t. int (utf8_len (ht_content t))) history)"

definition history_tokens :: "history_turn list \<Rightarrow> int" where
  "history_tokens history = history_bytes history div 4"

lemma history_bytes_simps [simp]:
  "history_bytes [] = 0" "history_bytes (t # h) = int (utf8_len (ht_content t)) + history_bytes h"
  "history_bytes (h @ k) = history_bytes h + history_bytes k" "history_bytes (rev h) = history_bytes h"
  by (simp_all add: history_bytes_def rev_map [symmetric])

lemma history_bytes_nonneg: "0 \<le> history_bytes h"
  by (induction h) simp_all

lemma keep_turns_prefix:
  "\<exists>dropped. ts = keep_turns b ts @ dropped
     \<and> (keep_turns b ts = [] \<or> history_bytes (keep_turns b ts) \<le> b)
     \<and> (dropped = [] \<or> b < history_bytes (keep_turns b ts) + int (utf8_len (ht_content (hd dropped))))"
proof (induction b ts rule: keep_turns.induct)
  case (2 b turn older)
  show ?case
  proof (cases "int (utf8_len (ht_content turn)) > b")
    case False
    with 2 obtain dropped where "older = keep_turns (b - int (utf8_len (ht_content turn))) older @ dropped"
      "keep_turns (b - int (utf8_len (ht_content turn))) older = [] \<or>
         history_bytes (keep_turns (b - int (utf8_len (ht_content turn))) older) \<le> b - int (utf8_len (ht_content turn))"
      "dropped = [] \<or> b - int (utf8_len (ht_content turn)) <
         history_bytes (keep_turns (b - int (utf8_len (ht_content turn))) older) + int (utf8_len (ht_content (hd dropped)))"
      by (metis (no_types, lifting))
    then show ?thesis using False by (intro exI [of _ dropped]) (auto simp: Let_def)
  qed simp
qed simp

lemma trim_history_suffix:
  obtains dropped where "history = dropped @ trim_history history message plan"
    "trim_history history message plan = [] \<or> history_bytes (trim_history history message plan) \<le> history_budget message plan"
    "dropped = [] \<or> history_budget message plan < history_bytes (last dropped # trim_history history message plan)"
proof -
  obtain d where d: "rev history = keep_turns (history_budget message plan) (rev history) @ d"
    "keep_turns (history_budget message plan) (rev history) = [] \<or>
       history_bytes (keep_turns (history_budget message plan) (rev history)) \<le> history_budget message plan"
    "d = [] \<or> history_budget message plan <
       history_bytes (keep_turns (history_budget message plan) (rev history)) + int (utf8_len (ht_content (hd d)))"
    using keep_turns_prefix by blast
  from d(1) have "history = rev d @ trim_history history message plan"
    unfolding trim_history_def by (metis rev_append rev_rev_ident)
  with d(2,3) that [of "rev d"] show thesis by (auto simp: trim_history_def last_rev add.commute)
qed

section \<open>Costs\<close>

definition LOCAL_FAKE_COST_MICRO :: int where "LOCAL_FAKE_COST_MICRO = 100"

definition estimate_request_cost_micro :: "plan_policy_row \<Rightarrow> settings \<Rightarrow> int" where
  "estimate_request_cost_micro policy settings = min (request_cost_cap_micro policy)
     (LOCAL_FAKE_COST_MICRO + (if live_models_enabled settings then 2 * TYPESAFE_CALL_ESTIMATE_MICRO else 0))"

definition measured_cost_micro :: "provider_call list \<Rightarrow> int option" where
  "measured_cost_micro calls =
     (if calls = [] then Some LOCAL_FAKE_COST_MICRO
      else if list_ex (\<lambda>c. pc_cost_micro c = None) calls then None
      else Some (sum_list (map (\<lambda>c. or_zero (pc_cost_micro c)) calls)))"

fun tokens_spent :: "int \<Rightarrow> provider_call list \<Rightarrow> int option" where
  "tokens_spent spent [] = Some spent"
| "tokens_spent spent (call # calls) =
     (if pc_operation call = ''generate_failed'' then tokens_spent spent calls
      else case (pc_input_tokens call, pc_output_tokens call) of
          (Some i, Some u) \<Rightarrow> tokens_spent (spent + i + u) calls
        | _ \<Rightarrow> None)"

definition measured_tokens :: "provider_call list \<Rightarrow> int option" where
  "measured_tokens calls = tokens_spent 0 calls"

section \<open>The reply\<close>

record generation_result =
  gn_response :: utext
  gn_outcome :: outcome
  gn_intent :: "string option"
  gn_route :: string
  gn_provider_calls :: "provider_call list"
  gn_release_reservation :: bool

definition DEFERRED_TEXT :: string where
  "DEFERRED_TEXT = ''I couldn'' @ [CHR 39] @ ''t reach the AI service, so I couldn'' @ [CHR 39]
     @ ''t complete this response. Please try again.''"

definition OVERSIZE_TEXT :: string where
  "OVERSIZE_TEXT = ''This request is too large for the current bounded route. Choose a smaller section.''"

definition LOCAL_ROUTE :: string where "LOCAL_ROUTE = ''fake-economy''"
definition CLASSIFIER_ROUTE :: string where "CLASSIFIER_ROUTE = ''typesafe-system-one''"
definition OVERSIZE_CHARS :: nat where "OVERSIZE_CHARS = 20000"

text \<open>What a reply takes from outside the program: the Unicode tables of the patterns, the classifier,
  the dispatch to the model providers, the clock readings of the health tracker and the time of the
  prompt\<close>

record reply_env =
  en_unicode :: unicode_tables
  en_system_one :: "utext \<Rightarrow> typesafe_response option"
  en_call_model :: complete_fn
  en_clock :: "nat \<Rightarrow> real"
  en_now :: datetime

definition accepted_reply :: "utext \<Rightarrow> string option \<Rightarrow> string \<Rightarrow> provider_call list \<Rightarrow> generation_result" where
  "accepted_reply response intent route calls = \<lparr>gn_response = response, gn_outcome = ACCEPT, gn_intent = intent,
     gn_route = route, gn_provider_calls = calls, gn_release_reservation = False\<rparr>"

definition deferred_reply :: "string \<Rightarrow> string option \<Rightarrow> string \<Rightarrow> provider_call list \<Rightarrow> bool \<Rightarrow> generation_result" where
  "deferred_reply response intent route calls release = \<lparr>gn_response = codes response, gn_outcome = DEFERRED_OUTCOME,
     gn_intent = intent, gn_route = route, gn_provider_calls = calls, gn_release_reservation = release\<rparr>"

definition gateway_live :: "gateway option \<Rightarrow> bool" where
  "gateway_live gw = (case gw of None \<Rightarrow> False | Some g \<Rightarrow> live g)"

text \<open>\<open>assert outcome.action is not None\<close> holds of every outcome with text (\<open>generate_outcome\<close>).\<close>

definition gateway_reply ::
  "reply_env \<Rightarrow> plan_policy_row \<Rightarrow> gateway \<Rightarrow> bool \<Rightarrow> history_turn list \<Rightarrow> utext \<Rightarrow> string option
   \<Rightarrow> provider_call list \<Rightarrow> health \<Rightarrow> generation_result \<times> health" where
  "gateway_reply env plan gw escalate history message intent routing_calls h =
     (let (outcome, h') = generate (en_call_model env) (en_clock env) (en_now env) gw plan message
            (classify_task (en_unicode env) message) (output_tokens plan) escalate
            (map (\<lambda>t. (ht_role t, ht_content t)) history) h;
          calls_all = routing_calls @ gr_calls outcome
      in (if gr_failed outcome \<or> gr_text outcome = None
          then deferred_reply DEFERRED_TEXT intent
                 (if gr_calls outcome \<noteq> [] \<and> gr_action outcome \<noteq> None then the (gr_action outcome) else LOCAL_ROUTE)
                 calls_all True
          else accepted_reply (the (gr_text outcome)) intent (the (gr_action outcome)) calls_all, h'))"

definition draft_reply :: "utext \<Rightarrow> string option \<Rightarrow> string \<Rightarrow> provider_call list \<Rightarrow> generation_result" where
  "draft_reply message intent route calls =
     accepted_reply (codes ''Draft ready: '' @ strip message) intent route calls"

definition generate_reply ::
  "reply_env \<Rightarrow> settings \<Rightarrow> plan_policy_row \<Rightarrow> gateway option \<Rightarrow> bool \<Rightarrow> history_turn list \<Rightarrow> utext \<Rightarrow> health
   \<Rightarrow> generation_result \<times> health" where
  "generate_reply env settings plan gw escalate history message h =
     (if length message > OVERSIZE_CHARS then (deferred_reply OVERSIZE_TEXT None LOCAL_ROUTE [] False, h)
      else
        let (intent, routing_calls) =
              (if live_models_enabled settings then classify_intent (en_system_one env) message else (None, []))
        in if live_models_enabled settings \<and> intent = Some ''create_task''
           then (accepted_reply (codes ''I have saved your task: '' @ strip message) intent CLASSIFIER_ROUTE routing_calls, h)
           else if live_models_enabled settings \<and> intent \<noteq> None \<and> \<not> gateway_live gw
           then (draft_reply message intent CLASSIFIER_ROUTE routing_calls, h)
           else if \<not> gateway_live gw then (draft_reply message None LOCAL_ROUTE routing_calls, h)
           else gateway_reply env plan (the gw) escalate history message intent routing_calls h)"

section \<open>Properties\<close>

text \<open>C17: The payload hash. Two chat payloads have the same hash under every digest function exactly
  when they are the same text and history, or when one of them has no history and its text is
  the canonical JSON of the other. The last case is real: a text that spells the canonical JSON of a payload with
  history is taken for that payload.\<close>

theorem request_hash_collisions:
  assumes "valid_text t" and "valid_text u" and "\<forall>x \<in> set h. valid_text (ht_content x)"
    and "\<forall>x \<in> set k. valid_text (ht_content x)"
  shows "(\<forall>sha256. message_request_hash sha256 t h = message_request_hash sha256 u k) \<longleftrightarrow>
     t = u \<and> h = k \<or> h = [] \<and> k \<noteq> [] \<and> t = canonical_payload u k \<or> h \<noteq> [] \<and> k = [] \<and> u = canonical_payload t h"
    (is "?L \<longleftrightarrow> ?R")
proof -
  let ?p = "\<lambda>t h. if h = [] then t else canonical_payload t h"
  have v: "valid_text (?p t h)" "valid_text (?p u k)"
    using assms valid_canonical by simp_all
  have "?L \<longleftrightarrow> utf8_encode (?p t h) = utf8_encode (?p u k)"
    unfolding message_request_hash_def by (auto dest: spec [where x = id])
  also have "\<dots> \<longleftrightarrow> ?p t h = ?p u k" by (rule utf8_encode_inject [OF v])
  also have "\<dots> \<longleftrightarrow> ?R" by (auto simp: canonical_payload_inject)
  finally show ?thesis .
qed

theorem request_hash_collisions_witness:
  "\<forall>sha256. message_request_hash sha256 (canonical_payload (codes ''go on'') [\<lparr>ht_role = ''user'', ht_content = [2361, 10, 34]\<rparr>]) []
     = message_request_hash sha256 (codes ''go on'') [\<lparr>ht_role = ''user'', ht_content = [2361, 10, 34]\<rparr>]"
proof -
  let ?h = "[\<lparr>ht_role = ''user'', ht_content = [2361, 10, 34]\<rparr>]"
  have "valid_text (canonical_payload (codes ''go on'') ?h)" by (rule valid_canonical) simp_all
  then show ?thesis using request_hash_collisions [of "canonical_payload (codes ''go on'') ?h" "codes ''go on''" "[]" ?h] by simp
qed

definition turn_messages :: "history_turn list \<Rightarrow> message list" where
  "turn_messages history = map (\<lambda>t. (ht_role t, ht_content t)) history"

definition chat_with :: "datetime \<Rightarrow> int \<Rightarrow> utext \<Rightarrow> history_turn list \<Rightarrow> string \<Rightarrow> chat_request" where
  "chat_with now cap message history model_id = \<lparr>cq_model_id = model_id,
     cq_messages = chat_messages (build_system_prompt now) (turn_messages history) message, cq_max_output_tokens = cap\<rparr>"

lemma history_chars: "sum_list (map (length \<circ> snd) (turn_messages h)) \<le> nat (history_bytes h)"
proof (induction h)
  case (Cons t h)
  have "0 \<le> history_bytes h" by (rule history_bytes_nonneg)
  then show ?case using Cons length_le_utf8_len [of "ht_content t"] by (simp add: turn_messages_def)
qed (simp add: turn_messages_def)

lemma chat_with_chars:
  "sum_list (map (length \<circ> snd) (cq_messages (chat_with now cap message h model_id))) =
     length (build_system_prompt now) + sum_list (map (length \<circ> snd) (turn_messages h)) + length message"
  by (simp add: chat_with_def chat_messages_def codes_def)

lemma trimmed_chars:
  assumes "length (build_system_prompt now) \<le> SYSTEM_PROMPT_MAX_CHARS" and "trim_history history message plan \<noteq> []"
  shows "sum_list (map (length \<circ> snd) (cq_messages (chat_with now cap message (trim_history history message plan) model_id)))
    \<le> OPENCODE_MAX_PROMPT_CHARS"
proof -
  let ?h = "trim_history history message plan"
  have "history_bytes ?h \<le> history_budget message plan"
    using trim_history_suffix [of history message plan] assms(2) by metis
  then have "history_bytes ?h + int SYSTEM_PROMPT_MAX_CHARS + int (utf8_len message) \<le> int OPENCODE_MAX_PROMPT_CHARS"
    by (simp add: history_budget_def HISTORY_REQUEST_CAP_BYTES_def)
  then show ?thesis
    using assms(1) history_chars [of ?h] length_le_utf8_len [of message] history_bytes_nonneg [of ?h]
    by (simp add: chat_with_chars)
qed

lemma validate_cong:
  assumes "cq_max_output_tokens r = cq_max_output_tokens q" and "cq_messages r \<noteq> []" "cq_messages q \<noteq> []"
    and "length (cq_messages r) \<le> 32" "length (cq_messages q) \<le> 32"
    and "\<forall>m \<in> set (cq_messages r) \<union> set (cq_messages q). fst m \<in> set chat_roles"
    and "sum_list (map (length \<circ> snd) (cq_messages r)) \<le> n \<longleftrightarrow> sum_list (map (length \<circ> snd) (cq_messages q)) \<le> n"
  shows "validate_request r n x = validate_request q n x"
proof -
  have "\<not> list_ex (\<lambda>m. fst m \<notin> set chat_roles) (cq_messages r)" "\<not> list_ex (\<lambda>m. fst m \<notin> set chat_roles) (cq_messages q)"
    using assms(6) by (auto simp: list_ex_iff)
  then show ?thesis using assms(1-5,7) by (simp add: validate_request_def not_less [symmetric])
qed

text \<open>The history that is sent. It is a suffix of the client's history, so no newer turn is dropped
  while an older one is kept; it fits the budget next to the longest system prompt and the message, and it
  is the longest such suffix. It never makes an adapter refuse a request: for a history within the
  schema (at most twenty turns of the user or the assistant), the request with the trimmed history
  is refused exactly when the request without any history is.\<close>

theorem trimmed_history_fits:
  assumes "length history \<le> 20" and "\<forall>t \<in> set history. ht_role t \<in> {''user'', ''assistant''}"
    and "valid_datetime now" and "date_year (dt_date (home_time now)) \<le> 9999"
    and "n \<in> {ADAPTER_MAX_PROMPT_CHARS, OPENCODE_MAX_PROMPT_CHARS}"
  shows "(\<exists>dropped. history = dropped @ trim_history history message plan
       \<and> (dropped = [] \<or> history_budget message plan < history_bytes (last dropped # trim_history history message plan)))
     \<and> (trim_history history message plan = [] \<or> history_bytes (trim_history history message plan) \<le> history_budget message plan)
     \<and> validate_request (chat_with now cap message (trim_history history message plan) model_id) n x
         = validate_request (chat_with now cap message [] model_id) n x"
proof -
  let ?h = "trim_history history message plan"
  obtain dropped where suffix: "history = dropped @ ?h"
    and fits: "?h = [] \<or> history_bytes ?h \<le> history_budget message plan"
    and longest: "dropped = [] \<or> history_budget message plan < history_bytes (last dropped # ?h)"
    by (rule trim_history_suffix)
  have sub: "set ?h \<subseteq> set history" "length ?h \<le> 20"
    using suffix assms(1) by (metis set_append Un_upper2, metis le_add2 length_append order_trans)
  have prompt: "length (build_system_prompt now) \<le> SYSTEM_PROMPT_MAX_CHARS"
    by (rule build_system_prompt_length [OF assms(3,4)])
  have "validate_request (chat_with now cap message ?h model_id) n x = validate_request (chat_with now cap message [] model_id) n x"
  proof (cases "?h = []")
    case False
    have big: "sum_list (map (length \<circ> snd) (cq_messages (chat_with now cap message ?h model_id))) \<le> n"
      using trimmed_chars [OF prompt False, of cap model_id] assms(5)
      by (auto simp: ADAPTER_MAX_PROMPT_CHARS_def OPENCODE_MAX_PROMPT_CHARS_def)
    have small: "sum_list (map (length \<circ> snd) (cq_messages (chat_with now cap message [] model_id))) \<le> n"
      using big by (simp add: chat_with_chars turn_messages_def)
    show ?thesis
      using sub assms(2) big small
      by (intro validate_cong) (auto simp: chat_with_def chat_messages_def turn_messages_def chat_roles_def)
  qed simp
  with suffix fits longest show ?thesis by blast
qed

lemma utf8_len_replicate: "utf8_len (replicate n c) = n * utf8_width c"
  by (simp add: utf8_len_def sum_list_replicate)

theorem trimmed_history_fits_witness:
  "trim_history [\<lparr>ht_role = ''user'', ht_content = replicate 6000 2361\<rparr>, \<lparr>ht_role = ''assistant'', ht_content = replicate 30 98\<rparr>]
       (codes ''and now?'') ananta = [\<lparr>ht_role = ''assistant'', ht_content = replicate 30 98\<rparr>]
   \<and> history_bytes [\<lparr>ht_role = ''assistant'', ht_content = replicate 30 98\<rparr>] \<le> history_budget (codes ''and now?'') ananta"
proof -
  let ?h = "[\<lparr>ht_role = ''user'', ht_content = replicate 6000 2361\<rparr>, \<lparr>ht_role = ''assistant'', ht_content = replicate 30 98\<rparr>]"
  have prompt: "SYSTEM_PROMPT_MAX_CHARS \<le> 2000" by code_simp
  have message: "utf8_len (codes ''and now?'') = 8" by code_simp
  have t: "trim_history ?h (codes ''and now?'') ananta = [\<lparr>ht_role = ''assistant'', ht_content = replicate 30 98\<rparr>]"
    using prompt
    by (simp add: trim_history_def history_budget_def message utf8_len_replicate utf8_width_def Let_def ananta_def
        HISTORY_REQUEST_CAP_BYTES_def ADAPTER_MAX_PROMPT_CHARS_def OPENCODE_MAX_PROMPT_CHARS_def)
  have v: "valid_datetime (DateTime (Date 2026 10 12) 0)" "date_year (dt_date (home_time (DateTime (Date 2026 10 12) 0))) \<le> 9999"
    by code_simp+
  from trimmed_history_fits [of ?h, OF _ _ v, where n = OPENCODE_MAX_PROMPT_CHARS and message = "codes ''and now?''"
      and plan = ananta and cap = 1 and model_id = "[]" and x = "Inr ()"] show ?thesis
    by (simp add: t)
qed

end
