(* ===== verification/Records.thy ===== *)
theory Records
  imports Reply
begin

text \<open>
  The idempotent records of \<open>services.py\<close>: tasks, internal events, completed runs with their outbox
  row, and the development identity. A unique constraint is checked by the insert.
\<close>

section \<open>Tasks\<close>

definition find_task :: "nat \<Rightarrow> string \<Rightarrow> db \<Rightarrow> task option" where
  "find_task account_id key s =
     select_first (\<lambda>t. ta_account_id t = account_id \<and> ta_idempotency_key t = key) (tasks s)"

text \<open>\<open>order_by(Task.completed, Task.title, Task.id)\<close>, titles by code point\<close>

definition scoped_task_query :: "nat \<Rightarrow> db \<Rightarrow> task list" where
  "scoped_task_query account_id s =
     sort_key (\<lambda>t. (ta_completed t, ta_title t, ta_id t)) (filter (\<lambda>t. ta_account_id t = account_id) (tasks s))"

definition new_task :: "nat \<Rightarrow> nat \<Rightarrow> utext \<Rightarrow> string \<Rightarrow> nat \<Rightarrow> task" where
  "new_task account_id user_id title key i = \<lparr>ta_id = i, ta_account_id = account_id, ta_owner_user_id = user_id,
     ta_title = title, ta_completed = False, ta_idempotency_key = key\<rparr>"

definition insert_task :: "nat \<Rightarrow> nat \<Rightarrow> utext \<Rightarrow> string \<Rightarrow> task sop" where
  "insert_task account_id user_id title key =
     insert_row (\<lambda>s. find_task account_id key s \<noteq> None) (new_task account_id user_id title key)
       (\<lambda>t s. s\<lparr>tasks := tasks s @ [t]\<rparr>)"

definition create_task_idempotent :: "nat \<Rightarrow> nat \<Rightarrow> utext \<Rightarrow> string \<Rightarrow> task sop" where
  "create_task_idempotent account_id user_id title key =
     andthen (query (find_task account_id key)) (\<lambda>found.
     case found of
       Some task \<Rightarrow>
         if ta_title task \<noteq> title
         then raise (IdempotencyConflict ''idempotency key was reused with a different title'') else ret task
     | None \<Rightarrow> insert_task account_id user_id title key)"

section \<open>Internal events\<close>

definition find_event :: "string \<Rightarrow> string \<Rightarrow> db \<Rightarrow> inbox_event option" where
  "find_event channel source_event_id s =
     select_first (\<lambda>e. ie_channel e = channel \<and> ie_source_event_id e = source_event_id) (inbox_events s)"

definition accept_internal_event ::
  "(string \<Rightarrow> string) \<Rightarrow> datetime \<Rightarrow> string \<Rightarrow> string \<Rightarrow> string \<Rightarrow> (inbox_event \<times> bool) sop" where
  "accept_internal_event sha256 now channel source_event_id raw_body =
     (let payload_hash = sha256 raw_body in
      andthen (query (find_event channel source_event_id)) (\<lambda>found.
      case found of
        Some event \<Rightarrow>
          if ie_payload_hash event \<noteq> payload_hash
          then raise (IdempotencyConflict ''event id was replayed with a different payload'')
          else ret (event, False)
      | None \<Rightarrow>
          andthen (insert_row (\<lambda>s. find_event channel source_event_id s \<noteq> None)
            (\<lambda>i. \<lparr>ie_id = i, ie_channel = channel, ie_source_event_id = source_event_id,
                  ie_payload_hash = payload_hash, ie_accepted_at = now\<rparr>)
            (\<lambda>e s. s\<lparr>inbox_events := inbox_events s @ [e]\<rparr>)) (\<lambda>event.
          ret (event, True))))"

section \<open>Runs\<close>

definition find_run :: "nat \<Rightarrow> string \<Rightarrow> db \<Rightarrow> run option" where
  "find_run account_id logical_request_id s =
     select_first (\<lambda>r. ru_account_id r = account_id \<and> ru_logical_request_id r = logical_request_id) (runs s)"

definition new_run ::
  "nat \<Rightarrow> nat \<Rightarrow> string \<Rightarrow> utext \<Rightarrow> outcome \<Rightarrow> string option \<Rightarrow> nat option \<Rightarrow> string option \<Rightarrow> nat \<Rightarrow> run" where
  "new_run account_id user_id logical_request_id response result request_hash previous_run_id regenerate_reason i =
     \<lparr>ru_id = i, ru_account_id = account_id, ru_user_id = user_id, ru_logical_request_id = logical_request_id,
      ru_request_hash = request_hash, ru_status = (if result = ACCEPT then COMPLETED else DEFERRED),
      ru_outcome = Some result, ru_response_text = Some response, ru_generation = 1,
      ru_previous_run_id = previous_run_id, ru_regenerate_reason = regenerate_reason\<rparr>"

definition response_key :: "nat \<Rightarrow> string \<Rightarrow> string" where
  "response_key account_id logical_request_id = ''response:'' @ nat_str account_id @ '':'' @ logical_request_id"

definition insert_outbox :: "string \<Rightarrow> nat \<Rightarrow> utext \<times> outcome \<Rightarrow> outbox_event sop" where
  "insert_outbox key run_id payload =
     insert_row (\<lambda>s. select_first (\<lambda>e. ob_logical_key e = key) (outbox_events s) \<noteq> None)
       (\<lambda>i. \<lparr>ob_id = i, ob_logical_key = key, ob_run_id = run_id, ob_payload = payload, ob_status = ''queued'',
             ob_attempts = 0, ob_lease_until = None\<rparr>)
       (\<lambda>e s. s\<lparr>outbox_events := outbox_events s @ [e]\<rparr>)"

definition persist_completed_run ::
  "nat \<Rightarrow> nat \<Rightarrow> string \<Rightarrow> utext \<Rightarrow> outcome \<Rightarrow> string option \<Rightarrow> nat option \<Rightarrow> string option \<Rightarrow> run sop" where
  "persist_completed_run account_id user_id logical_request_id response result request_hash previous_run_id regenerate_reason =
     andthen (insert_row (\<lambda>s. find_run account_id logical_request_id s \<noteq> None)
       (new_run account_id user_id logical_request_id response result request_hash previous_run_id regenerate_reason)
       (\<lambda>r s. s\<lparr>runs := runs s @ [r]\<rparr>)) (\<lambda>run.
     andthen (insert_outbox (response_key account_id logical_request_id) (ru_id run) (response, result)) (\<lambda>_.
     ret run))"

section \<open>The development identity\<close>

definition new_user :: "nat \<Rightarrow> string \<Rightarrow> string \<Rightarrow> string option \<Rightarrow> nat \<Rightarrow> user" where
  "new_user account_id name role clerk_subject i = \<lparr>us_id = i, us_account_id = account_id,
     us_display_name = name, us_role = role, us_token_version = 0, us_clerk_subject = clerk_subject,
     us_unlocked_tier = 1, us_active_theme = 1\<rparr>"

definition insert_account :: "datetime \<Rightarrow> string \<Rightarrow> account sop" where
  "insert_account now name = insert_row (\<lambda>_. False)
     (\<lambda>i. \<lparr>ac_id = i, ac_name = name, ac_created_at = now\<rparr>) (\<lambda>a s. s\<lparr>accounts := accounts s @ [a]\<rparr>)"

definition insert_subscription :: "datetime \<Rightarrow> nat \<Rightarrow> string \<Rightarrow> subscription sop" where
  "insert_subscription now account_id plan = insert_row (\<lambda>s. subscription_of account_id s \<noteq> None)
     (new_subscription now account_id plan) (\<lambda>su s. s\<lparr>subscriptions := subscriptions s @ [su]\<rparr>)"

definition find_subject :: "string \<Rightarrow> db \<Rightarrow> user option" where
  "find_subject subject s = select_first (\<lambda>u. us_clerk_subject u = Some subject) (users s)"

definition insert_user :: "nat \<Rightarrow> string \<Rightarrow> string \<Rightarrow> string option \<Rightarrow> user sop" where
  "insert_user account_id name role clerk_subject =
     insert_row (\<lambda>s. case clerk_subject of None \<Rightarrow> False | Some subject \<Rightarrow> find_subject subject s \<noteq> None)
       (new_user account_id name role clerk_subject) (\<lambda>u s. s\<lparr>users := users s @ [u]\<rparr>)"

definition ensure_account :: "datetime \<Rightarrow> account sop" where
  "ensure_account now =
     andthen (query (\<lambda>s. select_first (\<lambda>_. True) (accounts s))) (\<lambda>found.
     case found of
       Some account \<Rightarrow> ret account
     | None \<Rightarrow>
         andthen (insert_account now ''Synthetic development account'') (\<lambda>account.
         andthen (insert_subscription now (ac_id account) ''ananta'') (\<lambda>_.
         ret account)))"

definition seed_development_identity :: "datetime \<Rightarrow> string \<Rightarrow> user sop" where
  "seed_development_identity now role =
     andthen (query (\<lambda>s. select_first (\<lambda>u. us_role u = role) (users s))) (\<lambda>found.
     case found of
       Some user \<Rightarrow> ret user
     | None \<Rightarrow>
         andthen (ensure_account now) (\<lambda>account.
         insert_user (ac_id account)
           (if role = ''admin'' then ''Development administrator'' else ''Development user'') role None))"

section \<open>What the records keep\<close>

lemma select_first_append:
  "select_first p (xs @ ys) = (case select_first p xs of Some x \<Rightarrow> Some x | None \<Rightarrow> select_first p ys)"
  by (induction xs) (simp_all split: option.split)

lemma create_task_Ok:
  assumes "create_task_idempotent a u title key s = Ok t s'"
  shows "ta_account_id t = a \<and> ta_title t = title \<and> ta_idempotency_key t = key \<and> find_task a key s' = Some t
    \<and> s' = (if find_task a key s = None then s\<lparr>tasks := tasks s @ [t], next_id := Suc (next_id s)\<rparr> else s)"
proof (cases "find_task a key s")
  case None
  then show ?thesis
    using assms
    by (auto simp: create_task_idempotent_def insert_task_def andthen_def insert_row_def new_task_def find_task_def select_first_append)
next
  case (Some t')
  then show ?thesis
    using assms select_first_Some [of _ "tasks s" t']
    by (auto simp: create_task_idempotent_def andthen_def ret_def raise_def find_task_def split: if_splits)
qed

end
