(* ===== verification/Security.thy ===== *)
theory Security
  imports Records
begin

text \<open>
  Authentication (\<open>daily_agent/security.py\<close>): development tokens, Clerk session tokens with
  provisioning on first sight, and the signatures of internal events. The raw HMAC-SHA256 digest,
  the base64 and PEM decoding of the Clerk key and the JWT library are parameters; the clock
  reading is an argument.
\<close>

section \<open>Errors and principals\<close>

text \<open>\<open>Http\<close> is an \<open>HTTPException\<close> with its status and detail, \<open>Refused\<close> one whose detail is an object
  with a code, a message and one more value (for the rate limits, the \<open>Retry-After\<close> header), and \<open>Crash\<close>
  any other exception, which the framework answers with status 500.\<close>

datatype refusal = Retry_after int | Reset_at datetime | Unlocked_tier int

datatype http_error = Http int string | Refused int string string refusal | Crash string

record principal =
  pr_user_id :: nat
  pr_account_id :: nat
  pr_role :: string

type_synonym 'a hop = "(http_error, 'a, db) op"

text \<open>A read; and a service call whose exceptions become HTTP errors and whose transaction is then
  rolled back.\<close>

definition read_db :: "(db \<Rightarrow> 'a) \<Rightarrow> 'a hop" where
  "read_db f s = Ok (f s) s"

definition catching :: "(service_error \<Rightarrow> http_error) \<Rightarrow> 'a sop \<Rightarrow> 'a hop" where
  "catching f m s = (case m s of Ok v t \<Rightarrow> Ok v t | Raise e _ \<Rightarrow> Raise (f e) s)"

definition principal_of :: "user \<Rightarrow> principal" where
  "principal_of u = \<lparr>pr_user_id = us_id u, pr_account_id = us_account_id u, pr_role = us_role u\<rparr>"

definition invalid_session :: http_error where "invalid_session = Http 401 ''invalid session''"

section \<open>Digests\<close>

definition hex_char :: "nat \<Rightarrow> char" where
  "hex_char n = char_of (hex_digit n)"

definition hexdigest :: "string \<Rightarrow> string" where
  "hexdigest bytes = concat (map (\<lambda>c. let n = of_char c :: nat in [hex_char (n div 16), hex_char (n mod 16)]) bytes)"

text \<open>\<open>hmac.compare_digest\<close> on two strings raises a \<open>TypeError\<close> when one has a character beyond ASCII.\<close>

definition compare_digest :: "string \<Rightarrow> string \<Rightarrow> bool option" where
  "compare_digest a b = (if list_ex (\<lambda>c. 128 \<le> (of_char c :: nat)) (a @ b) then None else Some (a = b))"

section \<open>Development tokens\<close>

text \<open>Python's \<open>int(text)\<close> on ASCII text\<close>

definition py_int :: "string \<Rightarrow> int option" where
  "py_int s =
     (let t = strip_string s;
          signed = t \<noteq> [] \<and> (hd t = CHR ''+'' \<or> hd t = CHR ''-'');
          u = (if signed then tl t else t);
          ds = filter (\<lambda>c. c \<noteq> CHR ''_'') u
      in if ds = [] \<or> \<not> list_all is_digit ds \<or> \<not> underscores_ok False u then None
         else Some (if signed \<and> hd t = CHR ''-'' then - int (str_nat ds) else int (str_nat ds)))"

text \<open>\<open>text.split(sep, n)\<close>\<close>

fun split_on :: "char \<Rightarrow> nat \<Rightarrow> string \<Rightarrow> string list" where
  "split_on sep 0 s = [s]"
| "split_on sep (Suc n) s =
     (if sep \<in> set s then takeWhile (\<lambda>c. c \<noteq> sep) s # split_on sep n (tl (dropWhile (\<lambda>c. c \<noteq> sep) s)) else [s])"

definition token_body :: "string \<Rightarrow> string \<Rightarrow> int \<Rightarrow> int \<Rightarrow> string" where
  "token_body user_ref role expires version =
     user_ref @ ''|'' @ role @ ''|'' @ int_str expires @ ''|'' @ int_str version"

definition issue_development_token :: "(string \<Rightarrow> string \<Rightarrow> string) \<Rightarrow> int \<Rightarrow> user \<Rightarrow> settings \<Rightarrow> int \<Rightarrow> string" where
  "issue_development_token hmac now u s ttl_seconds =
     (let body = token_body (nat_str (us_id u)) (us_role u) (now + ttl_seconds) (us_token_version u)
      in body @ ''|'' @ hexdigest (hmac (auth_secret s) body))"

definition find_user :: "string \<Rightarrow> db \<Rightarrow> user option" where
  "find_user user_ref s = select_first (\<lambda>u. nat_str (us_id u) = user_ref) (users s)"

definition verify_development_token :: "(string \<Rightarrow> string \<Rightarrow> string) \<Rightarrow> int \<Rightarrow> string \<Rightarrow> settings \<Rightarrow> principal hop" where
  "verify_development_token hmac now token s =
     (case split_on (CHR ''|'') 4 token of
        [user_ref, role, expires_text, version_text, supplied] \<Rightarrow>
          (case (py_int expires_text, py_int version_text) of
             (Some expires, Some version) \<Rightarrow>
               let expected = hexdigest (hmac (auth_secret s) (token_body user_ref role expires version))
               in (case compare_digest expected supplied of
                     None \<Rightarrow> raise (Crash ''TypeError'')
                   | Some same \<Rightarrow>
                       if \<not> same \<or> expires \<le> now then raise invalid_session
                       else andthen (read_db (find_user user_ref)) (\<lambda>found.
                         case found of
                           None \<Rightarrow> raise invalid_session
                         | Some u \<Rightarrow>
                             if us_role u \<noteq> role \<or> us_token_version u \<noteq> version then raise invalid_session
                             else ret (principal_of u)))
           | _ \<Rightarrow> raise invalid_session)
      | _ \<Rightarrow> raise invalid_session)"

section \<open>Clerk tokens\<close>

text \<open>\<open>decode_key\<close> is the base64 and ASCII decoding of the configured key, \<open>decode_jwt\<close> the verified
  claims of a token under the key and the issuer; \<open>None\<close> is any exception the code handles. The
  claims required of a token are present in what \<open>decode_jwt\<close> returns.\<close>

record clerk_library =
  cl_decode_key :: "string \<Rightarrow> string option"
  cl_decode_jwt :: "string \<Rightarrow> string \<Rightarrow> string \<Rightarrow> (string \<times> json) list option"

definition clerk_claims :: "clerk_library \<Rightarrow> string \<Rightarrow> settings \<Rightarrow> (string \<times> json) list option" where
  "clerk_claims lib token s =
     (if \<not> truthy (clerk_issuer s) \<or> \<not> truthy (clerk_jwt_public_key_b64 s) then None
      else Option.bind (cl_decode_key lib (the (clerk_jwt_public_key_b64 s))) (\<lambda>key.
           Option.bind (cl_decode_jwt lib token key (the (clerk_issuer s))) (\<lambda>claims.
           case (map_of claims ''sub'', map_of claims ''sid'') of
             (Some (JStr subject), Some (JStr session_id)) \<Rightarrow>
               if subject = [] \<or> length (utf8_decode subject) > 255 \<or> session_id = [] then None else Some claims
           | _ \<Rightarrow> None)))"

definition claimed_name :: "(string \<times> json) list \<Rightarrow> utext" where
  "claimed_name claims = (case jget claims ''name'' of
       JStr name \<Rightarrow> if strip (utf8_decode name) = [] then codes ''Karmi user'' else take 120 (strip (utf8_decode name))
     | _ \<Rightarrow> codes ''Karmi user'')"

definition provision_user :: "datetime \<Rightarrow> string \<Rightarrow> utext \<Rightarrow> user sop" where
  "provision_user now subject name =
     andthen (insert_account now (utf8_encode (take 108 name @ codes [CHR 39] @ codes ''s account''))) (\<lambda>account.
     andthen (insert_user (ac_id account) (utf8_encode name) ''customer'' (Some subject)) (\<lambda>user.
     andthen (insert_subscription now (ac_id account) ''ananta'') (\<lambda>_.
     ret user)))"

definition subject_of :: "(string \<times> json) list \<Rightarrow> string" where
  "subject_of claims = (case map_of claims ''sub'' of Some (JStr subject) \<Rightarrow> subject | _ \<Rightarrow> [])"

definition verify_clerk_token :: "clerk_library \<Rightarrow> datetime \<Rightarrow> string \<Rightarrow> settings \<Rightarrow> principal hop" where
  "verify_clerk_token lib now token settings s =
     (case clerk_claims lib token settings of
        None \<Rightarrow> Raise invalid_session s
      | Some claims \<Rightarrow>
          (case find_subject (subject_of claims) s of
             Some u \<Rightarrow> Ok (principal_of u) s
           | None \<Rightarrow>
               (case provision_user now (subject_of claims) (claimed_name claims) s of
                  Ok u t \<Rightarrow> Ok (principal_of u) t
                | Raise e _ \<Rightarrow>
                    if e \<noteq> IntegrityError then Raise (Crash ''exception'') s
                    else (case find_subject (subject_of claims) s of
                        Some u \<Rightarrow> Ok (principal_of u) s
                      | None \<Rightarrow> Raise (Http 503 ''account setup temporarily unavailable'') s))))"

section \<open>Requests\<close>

record auth_env =
  ae_hmac :: "string \<Rightarrow> string \<Rightarrow> string"
  ae_clerk :: clerk_library
  ae_seconds :: real
  ae_now :: datetime

definition verify_token :: "auth_env \<Rightarrow> string \<Rightarrow> settings \<Rightarrow> principal hop" where
  "verify_token env token settings =
     (if CHR ''.'' \<in> set token then verify_clerk_token (ae_clerk env) (ae_now env) token settings
      else if \<not> allow_development_auth settings \<or> \<not> is_development settings then raise invalid_session
      else verify_development_token (ae_hmac env) \<lfloor>ae_seconds env\<rfloor> token settings)"

definition require_principal :: "auth_env \<Rightarrow> string option \<Rightarrow> settings \<Rightarrow> principal hop" where
  "require_principal env authorization settings = (case authorization of
       None \<Rightarrow> raise (Http 401 ''authentication required'')
     | Some header \<Rightarrow>
         if \<not> starts_with ''Bearer '' header then raise (Http 401 ''authentication required'')
         else verify_token env (drop 7 header) settings)"

definition require_admin :: "principal \<Rightarrow> principal hop" where
  "require_admin p = (if pr_role p \<noteq> ''admin'' then raise (Http 403 ''admin role required'') else ret p)"

section \<open>Event signatures\<close>

definition MAX_EVENT_AGE_SECONDS :: real where "MAX_EVENT_AGE_SECONDS = 300"

definition verify_hmac :: "(string \<Rightarrow> string \<Rightarrow> string) \<Rightarrow> string \<Rightarrow> string option \<Rightarrow> string \<Rightarrow> unit hop" where
  "verify_hmac hmac raw_body supplied secret = (case supplied of
       None \<Rightarrow> raise (Http 401 ''invalid signature'')
     | Some signature \<Rightarrow> (case compare_digest (hexdigest (hmac secret raw_body)) signature of
           None \<Rightarrow> raise (Crash ''TypeError'')
         | Some same \<Rightarrow> if \<not> same then raise (Http 401 ''invalid signature'') else ret ()))"

definition signable :: "string \<Rightarrow> string \<Rightarrow> string \<Rightarrow> string" where
  "signable event_id timestamp raw_body = utf8_encode (codes (event_id @ ''.'' @ timestamp @ ''.'')) @ raw_body"

definition verify_event_signature ::
  "(string \<Rightarrow> string \<Rightarrow> string) \<Rightarrow> real \<Rightarrow> string \<Rightarrow> string \<Rightarrow> string \<Rightarrow> string option \<Rightarrow> string \<Rightarrow> unit hop" where
  "verify_event_signature hmac now raw_body event_id timestamp supplied secret =
     (case py_int timestamp of
        None \<Rightarrow> raise (Http 401 ''invalid event timestamp'')
      | Some ts \<Rightarrow>
          if \<bar>now - of_int ts\<bar> > MAX_EVENT_AGE_SECONDS then raise (Http 401 ''stale event timestamp'')
          else verify_hmac hmac (signable event_id timestamp raw_body) supplied secret)"

section \<open>Texts of a token\<close>

lemma split_on_field [simp]:
  "sep \<notin> set f \<Longrightarrow> split_on sep (Suc n) (f @ sep # r) = f # split_on sep n r"
  by (simp add: takeWhile_append dropWhile_append)

lemma not_in_digits: "\<not> is_digit c \<Longrightarrow> c \<notin> set (nat_str n)"
  using digits_nat_str by blast

lemma not_in_int_str: "\<not> is_digit c \<Longrightarrow> c \<noteq> CHR ''-'' \<Longrightarrow> c \<notin> set (int_str i)"
  by (simp add: int_str_def not_in_digits)

lemma strip_nonspace:
  assumes "s \<noteq> []" and "\<not> is_space (of_char (hd s))" and "\<not> is_space (of_char (last s))"
  shows "strip_string s = s"
proof -
  have "dropWhile (\<lambda>c. is_space (of_char c)) s = s" using assms(1,2) by (cases s) auto
  moreover have "dropWhile (\<lambda>c. is_space (of_char c)) (rev s) = rev s"
    using assms(1,3) by (cases s rule: rev_cases) auto
  ultimately show ?thesis by (simp add: strip_string_def)
qed

lemma digit_no_space: "is_digit c \<Longrightarrow> \<not> is_space (of_char c)"
  by (auto simp: is_digit_def is_space_def)

lemma digit_no_underscore: "is_digit c \<Longrightarrow> c \<noteq> CHR ''_''"
  by (auto simp: is_digit_def)

lemma underscores_digits: "list_all is_digit s \<Longrightarrow> underscores_ok b s"
  by (induction s arbitrary: b) (auto dest: digit_no_underscore)

lemma filter_digits: "list_all is_digit s \<Longrightarrow> filter (\<lambda>c. c \<noteq> CHR ''_'') s = s"
  by (induction s) (auto dest: digit_no_underscore)

lemma nat_str_digits: "list_all is_digit (nat_str n)"
  using digits_nat_str by (auto simp: list_all_iff)

lemma py_int_int_str [simp]: "py_int (int_str i) = Some i"
proof (cases "i < 0")
  case True
  let ?d = "nat_str (nat (- i))"
  have s: "strip_string (CHR ''-'' # ?d) = CHR ''-'' # ?d"
    using digits_nat_str [of "last ?d" "nat (- i)"]
    by (intro strip_nonspace) (simp_all add: digit_no_space, simp add: is_space_def)
  show ?thesis
    using True by (simp add: py_int_def int_str_def s filter_digits nat_str_digits underscores_digits Let_def)
next
  case False
  let ?d = "nat_str (nat i)"
  have h: "is_digit (hd ?d)" "is_digit (last ?d)" using digits_nat_str [of _ "nat i"] by simp_all
  have s: "strip_string ?d = ?d" by (intro strip_nonspace) (simp_all add: h digit_no_space)
  have "hd ?d \<noteq> CHR ''+''" "hd ?d \<noteq> CHR ''-''" using h(1) by (auto simp: is_digit_def)
  then show ?thesis
    using False by (simp add: py_int_def int_str_def s filter_digits nat_str_digits underscores_digits Let_def)
qed

lemma hexdigest_hex: "c \<in> set (hexdigest b) \<Longrightarrow> \<exists>n < 16. c = hex_char n"
proof -
  assume "c \<in> set (hexdigest b)"
  then obtain x where "x \<in> set b" and c: "c = hex_char (of_char x div 16) \<or> c = hex_char (of_char x mod 16)"
    by (auto simp: hexdigest_def Let_def)
  have "of_char x mod 256 = (of_char x :: nat)" by simp
  then have "of_char x < (256 :: nat)" by (metis mod_less_divisor zero_less_numeral)
  then have "of_char x div 16 < (16 :: nat)" by linarith
  with c show ?thesis by (metis mod_less_divisor zero_less_numeral)
qed

lemma hex_char_plain:
  assumes "n < 16"
  shows "hex_char n \<noteq> CHR ''.'' \<and> of_char (hex_char n) < (128 :: nat)"
proof -
  have o: "of_char (hex_char n) = hex_digit n" using assms by (simp add: hex_char_def hex_digit_def)
  have "48 \<le> hex_digit n \<and> hex_digit n < 128" using assms by (simp add: hex_digit_def)
  moreover have "of_char (CHR ''.'') = (46 :: nat)" by simp
  ultimately show ?thesis using o by force
qed

lemma hexdigest_plain: "CHR ''.'' \<notin> set (hexdigest b)" "\<not> list_ex (\<lambda>c. 128 \<le> (of_char c :: nat)) (hexdigest b)"
  using hexdigest_hex hex_char_plain by (auto simp: list_ex_iff) (metis, metis not_less)

lemma compare_hexdigest: "compare_digest (hexdigest a) (hexdigest b) = Some (hexdigest a = hexdigest b)"
  using hexdigest_plain(2) [of a] hexdigest_plain(2) [of b] by (simp add: compare_digest_def)

lemma split_token:
  assumes "CHR ''|'' \<notin> set user_ref" and "CHR ''|'' \<notin> set role"
  shows "split_on (CHR ''|'') 4 (token_body user_ref role expires version @ ''|'' @ signature) =
    [user_ref, role, int_str expires, int_str version, signature]"
  using assms not_in_int_str [of "CHR ''|''"]
  by (simp add: token_body_def numeral_eq_Suc del: split_on.simps(2))

section \<open>Properties\<close>

text \<open>C16: Development tokens. A token issued to a user, presented to a development instance, is accepted
  exactly when its lifetime has not ended, the user still exists and has the role and the
  token version it was issued for; it then names that user and account. Every other
  presentation is the same 401, so bumping the token version revokes all earlier tokens.\<close>

theorem issued_token_verifies:
  assumes "is_development settings" and "allow_development_auth settings"
    and "CHR ''|'' \<notin> set (us_role u)" and "CHR ''.'' \<notin> set (us_role u)"
  shows "verify_token env (issue_development_token (ae_hmac env) issued u settings ttl) settings s =
    (case find_user (nat_str (us_id u)) s of
       None \<Rightarrow> Raise (Http 401 ''invalid session'') s
     | Some v \<Rightarrow>
         if \<lfloor>ae_seconds env\<rfloor> < issued + ttl \<and> us_role v = us_role u \<and> us_token_version v = us_token_version u
         then Ok \<lparr>pr_user_id = us_id v, pr_account_id = us_account_id v, pr_role = us_role v\<rparr> s
         else Raise (Http 401 ''invalid session'') s)"
proof -
  let ?body = "token_body (nat_str (us_id u)) (us_role u) (issued + ttl) (us_token_version u)"
  let ?token = "issue_development_token (ae_hmac env) issued u settings ttl"
  have token: "?token = ?body @ ''|'' @ hexdigest (ae_hmac env (auth_secret settings) ?body)"
    by (simp add: issue_development_token_def Let_def)
  have "CHR ''.'' \<notin> set ?token"
    unfolding token using assms(4) not_in_int_str [of "CHR ''.''"] not_in_digits [of "CHR ''.''"] hexdigest_plain(1)
    by (simp add: token_body_def)
  then have via: "verify_token env ?token settings s = verify_development_token (ae_hmac env) \<lfloor>ae_seconds env\<rfloor> ?token settings s"
    using assms(1,2) by (simp add: verify_token_def)
  have fields: "split_on (CHR ''|'') 4 ?token =
      [nat_str (us_id u), us_role u, int_str (issued + ttl), int_str (us_token_version u),
       hexdigest (ae_hmac env (auth_secret settings) ?body)]"
    unfolding token by (rule split_token) (simp_all add: not_in_digits assms(3))
  note via
  also have "verify_development_token (ae_hmac env) \<lfloor>ae_seconds env\<rfloor> ?token settings s = (if issued + ttl \<le> \<lfloor>ae_seconds env\<rfloor> then Raise invalid_session s
      else case find_user (nat_str (us_id u)) s of None \<Rightarrow> Raise invalid_session s
        | Some v \<Rightarrow> if us_role v \<noteq> us_role u \<or> us_token_version v \<noteq> us_token_version u then Raise invalid_session s
            else Ok (principal_of v) s)"
    unfolding verify_development_token_def fields
    by (simp add: compare_hexdigest Let_def raise_def ret_def andthen_def read_db_def split: option.split)
  finally show ?thesis by (auto simp: invalid_session_def principal_of_def split: option.splits)
qed

definition sample_user :: user where
  "sample_user = new_user 1 ''Development user'' ''customer'' None 7"

definition sample_auth :: auth_env where
  "sample_auth = \<lparr>ae_hmac = (\<lambda>k m. take 4 (k @ m)), ae_clerk = \<lparr>cl_decode_key = (\<lambda>_. None), cl_decode_jwt = (\<lambda>_ _ _. None)\<rparr>,
     ae_seconds = 1000, ae_now = DateTime (Date 2026 10 12) 0\<rparr>"

theorem issued_token_verifies_witness:
  "verify_token sample_auth (issue_development_token (ae_hmac sample_auth) 900 sample_user default_settings 3600)
       default_settings (empty_db\<lparr>users := [sample_user]\<rparr>)
     = Ok \<lparr>pr_user_id = 7, pr_account_id = 1, pr_role = ''customer''\<rparr> (empty_db\<lparr>users := [sample_user]\<rparr>)
   \<and> verify_token sample_auth (issue_development_token (ae_hmac sample_auth) 900 sample_user default_settings 3600)
       default_settings (empty_db\<lparr>users := [sample_user\<lparr>us_token_version := 1\<rparr>]\<rparr>)
     = Raise (Http 401 ''invalid session'') (empty_db\<lparr>users := [sample_user\<lparr>us_token_version := 1\<rparr>]\<rparr>)"
proof -
  note t = issued_token_verifies [of default_settings sample_user sample_auth 900 3600]
  show ?thesis
    using t by (simp add: sample_user_def new_user_def is_development_def default_settings_def find_user_def sample_auth_def)
qed

text \<open>A captured event signature is not bound to its event id. The three signed parts are joined
  with dots, and an event id may contain one: for every digest function, secret and body, the signature of
  an event with the id "evt.1700000000" at timestamp 1700000001 is also accepted, within the same five minutes, as the
  signature of another event, with the id "evt", the timestamp 1700000000 and a longer body.\<close>

theorem event_signature_is_not_bound_to_its_id:
  "\<exists>signature.
     verify_event_signature hmac 1700000100 raw_body ''evt.1700000000'' ''1700000001'' (Some signature) secret s = Ok () s
   \<and> verify_event_signature hmac 1700000100 (''1700000001.'' @ raw_body) ''evt'' ''1700000000'' (Some signature) secret s = Ok () s"
proof -
  have t: "py_int ''1700000001'' = Some 1700000001" "py_int ''1700000000'' = Some 1700000000" by code_simp+
  have same: "signable ''evt'' ''1700000000'' (''1700000001.'' @ raw_body) = signable ''evt.1700000000'' ''1700000001'' raw_body"
  proof -
    have "utf8_encode (codes (''evt'' @ ''.'' @ ''1700000000'' @ ''.'')) @ ''1700000001.'' =
        utf8_encode (codes (''evt.1700000000'' @ ''.'' @ ''1700000001'' @ ''.''))"
      by code_simp
    then show ?thesis unfolding signable_def by (metis append_assoc)
  qed
  show ?thesis
    by (rule exI [of _ "hexdigest (hmac secret (signable ''evt.1700000000'' ''1700000001'' raw_body))"])
      (simp add: verify_event_signature_def verify_hmac_def t same compare_hexdigest ret_def MAX_EVENT_AGE_SECONDS_def
        del: append.simps append_Cons)
qed

end
