(* ===== verification/Ed25519.thy ===== *)
theory Ed25519
  imports Prelude
begin

text \<open>
  Ed25519 signatures (\<open>daily_agent/parakh/ed25519.py\<close>) over the integers, with SHA-512 as a
  parameter. A byte string is a \<open>string\<close>; Python's \<open>%\<close> by a positive modulus is \<open>mod\<close>.
  The curve's group laws are not proved here: the lemmas say that \<open>pow_mod\<close> is the modular power and
  what shape a signature must have to be accepted.
\<close>

unbundle bit_operations_syntax

section \<open>Bytes and modular powers\<close>

fun le_int :: "string \<Rightarrow> int" where
  "le_int [] = 0"
| "le_int (c # cs) = int (of_char c) + 256 * le_int cs"

fun le_bytes :: "nat \<Rightarrow> int \<Rightarrow> string" where
  "le_bytes 0 i = []"
| "le_bytes (Suc n) i = char_of (nat (i mod 256)) # le_bytes n (i div 256)"

text \<open>\<open>pow(base, e, m)\<close>\<close>

function pow_mod :: "int \<Rightarrow> nat \<Rightarrow> int \<Rightarrow> int" where
  "pow_mod b e m =
     (if e = 0 then 1 mod m
      else let h = pow_mod (b * b mod m) (e div 2) m in if odd e then b * h mod m else h)"
  by pat_completeness auto
termination by (relation "measure (\<lambda>(b, e, m). e)") auto

declare pow_mod.simps [simp del]

lemma pow_mod_eq: "pow_mod b e m = b ^ e mod m"
proof (induction b e m rule: pow_mod.induct)
  case (1 b e m)
  show ?case
  proof (cases "e = 0")
    case True
    then show ?thesis by (simp add: pow_mod.simps [of b 0 m])
  next
    case False
    have half: "pow_mod (b * b mod m) (e div 2) m = b ^ (2 * (e div 2)) mod m"
      using 1 [OF False] by (simp add: power_mod power_mult power2_eq_square)
    have "odd e \<Longrightarrow> e = Suc (2 * (e div 2))" "even e \<Longrightarrow> e = 2 * (e div 2)" by simp_all
    then have "odd e \<Longrightarrow> b ^ e = b * b ^ (2 * (e div 2))" "even e \<Longrightarrow> b ^ e = b ^ (2 * (e div 2))"
      by (metis power_Suc, simp)
    then show ?thesis
      using False by (simp add: pow_mod.simps [of b e m] half Let_def mod_mult_right_eq)
  qed
qed

section \<open>The curve\<close>

definition P_ed :: int where "P_ed = 2 ^ 255 - 19"
definition L_ed :: int where "L_ed = 2 ^ 252 + 27742317777372353535851937790883648493"
definition D_ed :: int where "D_ed = - 121665 * pow_mod 121666 (nat (P_ed - 2)) P_ed mod P_ed"
definition SQRT_M1 :: int where "SQRT_M1 = pow_mod 2 (nat ((P_ed - 1) div 4)) P_ed"
definition G_Y :: int where "G_Y = 4 * pow_mod 5 (nat (P_ed - 2)) P_ed mod P_ed"

type_synonym point = "int \<times> int \<times> int \<times> int"

definition point_add :: "point \<Rightarrow> point \<Rightarrow> point" where
  "point_add p q = (case (p, q) of ((p0, p1, p2, p3), (q0, q1, q2, q3)) \<Rightarrow>
     (let a = (p1 - p0) * (q1 - q0) mod P_ed; b = (p1 + p0) * (q1 + q0) mod P_ed;
          c = 2 * p3 * q3 * D_ed mod P_ed; d = 2 * p2 * q2 mod P_ed;
          e = b - a; f = d - c; g = d + c; h = b + a
      in (e * f mod P_ed, g * h mod P_ed, f * g mod P_ed, e * h mod P_ed)))"

text \<open>The loop of \<open>_mul\<close>\<close>

function mul_loop :: "nat \<Rightarrow> point \<Rightarrow> point \<Rightarrow> point" where
  "mul_loop s q point =
     (if s = 0 then q else mul_loop (s div 2) (if odd s then point_add q point else q) (point_add point point))"
  by pat_completeness auto
termination by (relation "measure fst") auto

declare mul_loop.simps [simp del]

definition point_mul :: "int \<Rightarrow> point \<Rightarrow> point" where
  "point_mul s point = mul_loop (nat s) (0, 1, 1, 0) point"

definition point_equal :: "point \<Rightarrow> point \<Rightarrow> bool" where
  "point_equal p q = (case (p, q) of ((p0, p1, p2, _), (q0, q1, q2, _)) \<Rightarrow>
     (if (p0 * q2 - q0 * p2) mod P_ed \<noteq> 0 then False else (p1 * q2 - q1 * p2) mod P_ed = 0))"

definition recover_x :: "int \<Rightarrow> int \<Rightarrow> int option" where
  "recover_x y sign =
     (if y \<ge> P_ed then None
      else let x2 = (y * y - 1) * pow_mod (D_ed * y * y + 1) (nat (P_ed - 2)) P_ed in
        if x2 = 0 then (if sign \<noteq> 0 then None else Some 0)
        else let x0 = pow_mod x2 (nat ((P_ed + 3) div 8)) P_ed;
                 x = (if (x0 * x0 - x2) mod P_ed \<noteq> 0 then x0 * SQRT_M1 mod P_ed else x0)
             in if (x * x - x2) mod P_ed \<noteq> 0 then None
                else Some (if x mod 2 \<noteq> sign then P_ed - x else x))"

text \<open>\<open>_G_X\<close>, which the module asserts to exist\<close>

definition G_ed :: point where
  "G_ed = (let x = the (recover_x G_Y 0) in (x, G_Y, 1, x * G_Y mod P_ed))"

definition compress :: "point \<Rightarrow> string" where
  "compress point = (case point of (p0, p1, p2, _) \<Rightarrow>
     let zinv = pow_mod p2 (nat (P_ed - 2)) P_ed; x = p0 * zinv mod P_ed; y = p1 * zinv mod P_ed
     in le_bytes 32 (y OR push_bit 255 (x AND 1)))"

definition decompress :: "string \<Rightarrow> point option" where
  "decompress data =
     (if length data \<noteq> 32 then None
      else let n = le_int data; sign = drop_bit 255 n; y = n AND (push_bit 255 1 - 1)
           in map_option (\<lambda>x. (x, y, 1, x * y mod P_ed)) (recover_x y sign))"

section \<open>Signatures\<close>

definition sha512_mod_l :: "(string \<Rightarrow> string) \<Rightarrow> string \<Rightarrow> int" where
  "sha512_mod_l sha512 data = le_int (sha512 data) mod L_ed"

text \<open>\<open>None\<close> is the \<open>ValueError\<close> on a private key of another length.\<close>

definition secret_expand :: "(string \<Rightarrow> string) \<Rightarrow> string \<Rightarrow> (int \<times> string) option" where
  "secret_expand sha512 secret =
     (if length secret \<noteq> 32 then None
      else let h = sha512 secret
           in Some ((le_int (take 32 h) AND (push_bit 254 1 - 8)) OR push_bit 254 1, drop 32 h))"

definition public_key :: "(string \<Rightarrow> string) \<Rightarrow> string \<Rightarrow> string option" where
  "public_key sha512 secret = map_option (\<lambda>(a, _). compress (point_mul a G_ed)) (secret_expand sha512 secret)"

definition sign_ed :: "(string \<Rightarrow> string) \<Rightarrow> string \<Rightarrow> string \<Rightarrow> string option" where
  "sign_ed sha512 secret message = (case secret_expand sha512 secret of
       None \<Rightarrow> None
     | Some (a, prefix) \<Rightarrow>
         let public = compress (point_mul a G_ed);
             r = sha512_mod_l sha512 (prefix @ message);
             big_r = compress (point_mul r G_ed);
             h = sha512_mod_l sha512 (big_r @ public @ message);
             s = (r + h * a) mod L_ed
         in Some (big_r @ le_bytes 32 s))"

definition verify :: "(string \<Rightarrow> string) \<Rightarrow> string \<Rightarrow> string \<Rightarrow> string \<Rightarrow> bool" where
  "verify sha512 public message signature =
     (if length public \<noteq> 32 \<or> length signature \<noteq> 64 then False
      else case (decompress public, decompress (take 32 signature)) of
          (Some a_point, Some r_point) \<Rightarrow>
            let s = le_int (drop 32 signature) in
            if s \<ge> L_ed then False
            else let h = sha512_mod_l sha512 (take 32 signature @ public @ message)
                 in point_equal (point_mul s G_ed) (point_add r_point (point_mul h a_point))
        | _ \<Rightarrow> False)"

section \<open>The shape of an accepted signature\<close>

lemma verify_shape: "verify sha512 public message signature \<Longrightarrow>
  length public = 32 \<and> length signature = 64 \<and> le_int (drop 32 signature) < L_ed"
  by (auto simp: verify_def Let_def split: if_splits option.splits)

lemma length_le_bytes [simp]: "length (le_bytes n i) = n"
  by (induction n arbitrary: i) simp_all

lemma le_int_le_bytes: "0 \<le> i \<Longrightarrow> i < 256 ^ n \<Longrightarrow> le_int (le_bytes n i) = i"
proof (induction n arbitrary: i)
  case (Suc n)
  have "le_int (le_bytes n (i div 256)) = i div 256"
    using Suc.prems by (intro Suc.IH) (auto simp: div_less_iff_less_mult mult.commute)
  moreover have "(of_char (char_of (nat (i mod 256))) :: nat) = nat (i mod 256)"
    by (simp add: nat_less_iff)
  ultimately show ?case using mult_div_mod_eq [of 256 i] by simp
qed simp

end
