(* ===== verification/Bundle.thy ===== *)
theory Bundle
  imports Security Ed25519
begin

text \<open>
  Policy bundles (\<open>daily_agent/parakh/bundle.py\<close>): scoring a request with a loaded policy, and the
  verification of a bundle directory. Numbers are reals where the code computes with floats: rounding
  is not modelled. An error is its class name, or, for \<open>BundleRejected\<close>, the constant part of its
  message behind \<open>rejected:\<close>. The contents of the directory, the JSON parser, \<open>repr\<close> of a float and the
  two hash functions are parameters.
\<close>

section \<open>Values\<close>

definition rejected :: "string \<Rightarrow> string" where "rejected message = ''rejected:'' @ message"

definition with_key :: "(string \<times> json) list \<Rightarrow> string \<Rightarrow> (json \<Rightarrow> string + 'a) \<Rightarrow> string + 'a" where
  "with_key obj key k = (case map_of obj key of None \<Rightarrow> Inl ''KeyError'' | Some v \<Rightarrow> k v)"

lemma with_key_Inr [check_simps]: "with_key obj key k = Inr x \<longleftrightarrow> (\<exists>v. map_of obj key = Some v \<and> k v = Inr x)"
  by (simp add: with_key_def split: option.split)

fun check_all :: "('a \<Rightarrow> string + 'b) \<Rightarrow> 'a list \<Rightarrow> string + 'b list" where
  "check_all f [] = Inr []"
| "check_all f (x # xs) = checked (f x) (\<lambda>y. checked (check_all f xs) (\<lambda>ys. Inr (y # ys)))"

lemma check_all_Inr [check_simps]: "check_all f xs = Inr ys \<longleftrightarrow> list_all2 (\<lambda>x y. f x = Inr y) xs ys"
  by (induction xs arbitrary: ys) (auto simp: check_simps list_all2_Cons1)

text \<open>An integer no float can hold: \<open>float\<close> and \<open>math.isfinite\<close> raise on it.\<close>

definition float_overflow :: "int \<Rightarrow> bool" where
  "float_overflow i \<longleftrightarrow> 2 ^ 1024 - 2 ^ 970 \<le> \<bar>i\<bar>"

text \<open>\<open>float(text)\<close> of a decimal literal; \<open>inf\<close> and \<open>nan\<close> are left out as they are in JSON.\<close>

definition digits_exponent :: "string \<Rightarrow> int" where
  "digits_exponent e = (if e = [] then 0
     else if hd (tl e) = CHR ''-'' then - int (str_nat (drop 2 e))
     else if hd (tl e) = CHR ''+'' then int (str_nat (drop 2 e)) else int (str_nat (tl e)))"

definition float_of_string :: "string \<Rightarrow> real option" where
  "float_of_string s =
     (let t = filter (\<lambda>c. c \<noteq> CHR ''_'') (strip_string s);
          signed = t \<noteq> [] \<and> (hd t = CHR ''+'' \<or> hd t = CHR ''-'');
          u = (if signed then tl t else t);
          ip = takeWhile is_digit u; r = dropWhile is_digit u;
          fp = (if r \<noteq> [] \<and> hd r = CHR ''.'' then takeWhile is_digit (tl r) else []);
          e = (if r \<noteq> [] \<and> hd r = CHR ''.'' then dropWhile is_digit (tl r) else r);
          x = of_nat (str_nat (ip @ fp)) / 10 ^ length fp * 10 powi (digits_exponent e)
      in if ip @ fp = [] \<or> \<not> is_exponent e then None
         else Some (if signed \<and> hd t = CHR ''-'' then - x else x))"

definition json_float :: "json \<Rightarrow> string + real" where
  "json_float v = (case v of
       JInt i \<Rightarrow> if float_overflow i then Inl ''OverflowError'' else Inr (of_int i)
     | JFloat x \<Rightarrow> Inr x
     | JBool b \<Rightarrow> Inr (if b then 1 else 0)
     | JStr s \<Rightarrow> (case float_of_string s of None \<Rightarrow> Inl ''ValueError'' | Some x \<Rightarrow> Inr x)
     | _ \<Rightarrow> Inl ''TypeError'')"

text \<open>The operand of a float multiplication, which \<open>math.isfinite\<close> accepts\<close>

definition json_operand :: "json \<Rightarrow> string + real" where
  "json_operand v = (case v of JStr _ \<Rightarrow> Inl ''TypeError'' | _ \<Rightarrow> json_float v)"

text \<open>\<open>value == other\<close>: numbers compare by value (\<open>True\<close> is 1), objects without their order.\<close>

definition json_num :: "json \<Rightarrow> real option" where
  "json_num v = (case v of JBool b \<Rightarrow> Some (if b then 1 else 0) | _ \<Rightarrow> jnumber v)"

function json_eq :: "json \<Rightarrow> json \<Rightarrow> bool" where
  "json_eq v w =
     (case (v, w) of
        (JArr xs, JArr ys) \<Rightarrow> length xs = length ys \<and> list_all (\<lambda>(x, y). json_eq x y) (zip xs ys)
      | (JObj xs, JObj ys) \<Rightarrow> length xs = length ys
          \<and> list_all (\<lambda>(k, x). case map_of ys k of None \<Rightarrow> False | Some y \<Rightarrow> json_eq x y) xs
      | _ \<Rightarrow> (case (json_num v, json_num w) of
            (Some x, Some y) \<Rightarrow> x = y
          | (None, None) \<Rightarrow> v = w
          | _ \<Rightarrow> False))"
  by pat_completeness auto
termination
  by (relation "measure (\<lambda>(v, w). size v)")
    (auto dest!: set_zip_leftD intro!: size_list_estimation' less_SucI simp: less_Suc_eq_le)

declare json_eq.simps [simp del]

text \<open>What \<open>len\<close> counts and a loop goes through\<close>

definition elements :: "json \<Rightarrow> string + json list" where
  "elements v = (case v of
       JArr xs \<Rightarrow> Inr xs
     | JStr s \<Rightarrow> Inr (map (\<lambda>c. JStr (utf8_encode [c])) (utf8_decode s))
     | JObj kvs \<Rightarrow> Inr (map (JStr \<circ> fst) kvs)
     | _ \<Rightarrow> Inl ''TypeError'')"

text \<open>\<open>value in container\<close>\<close>

definition json_in :: "json \<Rightarrow> json \<Rightarrow> string + bool" where
  "json_in v container = (case container of
       JArr xs \<Rightarrow> Inr (list_ex (json_eq v) xs)
     | JStr t \<Rightarrow> (case v of JStr s \<Rightarrow> Inr (contains s t) | _ \<Rightarrow> Inl ''TypeError'')
     | JObj kvs \<Rightarrow> Inr (list_ex (\<lambda>(k, _). v = JStr k) kvs)
     | _ \<Rightarrow> Inl ''TypeError'')"

section \<open>Features\<close>

type_synonym feature_context = "(string \<times> json) list"

definition clip01 :: "real \<Rightarrow> real" where "clip01 x = min 1 (max 0 x)"

text \<open>The numeric transforms, of a value that is a number\<close>

definition apply_numeric :: "(string \<times> json) list \<Rightarrow> json \<Rightarrow> real \<Rightarrow> string + real" where
  "apply_numeric spec kind x =
     (if kind = JStr ''clip01'' then Inr (clip01 x)
      else if kind = JStr ''capped_ratio'' then
        with_key spec ''cap'' (\<lambda>cap. checked (json_float cap) (\<lambda>c.
          if c = 0 then Inl ''ZeroDivisionError'' else Inr (clip01 (x / c))))
      else if kind = JStr ''log1p_scaled'' then
        with_key spec ''scale'' (\<lambda>scale. checked (json_float scale) (\<lambda>c.
          if c \<le> - 1 then Inl ''ValueError''
          else if c = 0 then Inl ''ZeroDivisionError'' else Inr (min 1 (ln (1 + max 0 x) / ln (1 + c)))))
      else Inl ''ValueError'')"

definition apply_sourced :: "(string \<times> json) list \<Rightarrow> json \<Rightarrow> json \<Rightarrow> json \<Rightarrow> string + real" where
  "apply_sourced spec kind source v =
     (if kind = JStr ''present'' then Inr (if v = JNull then 0 else 1)
      else if v = JNull then (if source = JStr ''latency_slo_ms'' then Inr 0 else Inl ''ValueError'')
      else if kind = JStr ''equals'' then with_key spec ''value'' (\<lambda>w. Inr (if json_eq v w then 1 else 0))
      else if kind = JStr ''not_in'' then
        with_key spec ''values'' (\<lambda>ws. checked (json_in v ws) (\<lambda>b. Inr (if b then 0 else 1)))
      else if kind = JStr ''bool'' then (case v of JBool b \<Rightarrow> Inr (if b then 1 else 0) | _ \<Rightarrow> Inl ''ValueError'')
      else (case v of
          JInt i \<Rightarrow> if float_overflow i then Inl ''OverflowError'' else apply_numeric spec kind (of_int i)
        | JFloat x \<Rightarrow> apply_numeric spec kind x
        | _ \<Rightarrow> Inl ''ValueError''))"

text \<open>Subscripting a specification that is no object, or looking up a list or an object as a key, is a
  \<open>TypeError\<close>.\<close>

definition apply_feature :: "feature_context \<Rightarrow> json \<Rightarrow> string + real" where
  "apply_feature ctx feature =
     with_obj feature ''TypeError'' (\<lambda>spec.
     with_key spec ''transform'' (\<lambda>kind.
     if kind = JStr ''constant'' then with_key spec ''value'' json_float
     else with_key spec ''source'' (\<lambda>source. case source of
         JArr _ \<Rightarrow> Inl ''TypeError''
       | JObj _ \<Rightarrow> Inl ''TypeError''
       | JStr s \<Rightarrow> apply_sourced spec kind source (jget ctx s)
       | _ \<Rightarrow> apply_sourced spec kind source JNull)))"

section \<open>Scores and decisions\<close>

record loaded_policy =
  lp_manifest :: "(string \<times> json) list"
  lp_policy :: "(string \<times> json) list"
  lp_feature_schema :: "(string \<times> json) list"
  lp_checksums_sha256 :: string
  lp_signer_public_key :: string

text \<open>\<open>str\<close> of a JSON value. Of a list or an object only the first character matters to the code: it
  is no digit and no letter.\<close>

definition json_str :: "(real \<Rightarrow> string) \<Rightarrow> json \<Rightarrow> string" where
  "json_str repr_float v = (case v of
       JNull \<Rightarrow> ''None''
     | JBool b \<Rightarrow> if b then ''True'' else ''False''
     | JInt i \<Rightarrow> int_str i
     | JFloat x \<Rightarrow> repr_float x
     | JStr s \<Rightarrow> s
     | JArr _ \<Rightarrow> ''[]''
     | JObj _ \<Rightarrow> ''{}'')"

definition policy_version_text :: "(real \<Rightarrow> string) \<Rightarrow> loaded_policy \<Rightarrow> string + string" where
  "policy_version_text repr_float p = with_key (lp_manifest p) ''artifact_version'' (\<lambda>v. Inr (json_str repr_float v))"

definition features :: "loaded_policy \<Rightarrow> feature_context \<Rightarrow> string + real list" where
  "features p ctx = with_key (lp_feature_schema p) ''features'' (\<lambda>fs.
     with_arr fs ''TypeError'' (check_all (apply_feature ctx)))"

text \<open>\<open>set(actions)\<close>: a list or an object has no hash. Only the strings among them can be eligible.\<close>

definition action_set :: "json list \<Rightarrow> string + string list" where
  "action_set xs =
     (if list_ex (\<lambda>v. case v of JArr _ \<Rightarrow> True | JObj _ \<Rightarrow> True | _ \<Rightarrow> False) xs then Inl ''TypeError''
      else Inr (concat (map (\<lambda>v. case v of JStr s \<Rightarrow> [s] | _ \<Rightarrow> []) xs)))"

definition quadratic_form :: "real list list \<Rightarrow> real list \<Rightarrow> real" where
  "quadratic_form a x =
     (\<Sum>i \<leftarrow> [0..<length x]. x ! i * (\<Sum>j \<leftarrow> [0..<length x]. a ! i ! j * x ! j))"

definition json_matrix :: "json \<Rightarrow> string + real list list" where
  "json_matrix v = checked (elements v) (check_all (\<lambda>row. checked (elements row) (check_all json_operand)))"

definition action_score :: "loaded_policy \<Rightarrow> real list \<Rightarrow> string \<Rightarrow> string + real" where
  "action_score p x act =
     with_key (lp_policy p) ''parameters'' (\<lambda>ps. with_obj ps ''TypeError'' (\<lambda>parameters.
     with_key parameters act (\<lambda>pr. with_obj pr ''TypeError'' (\<lambda>params.
     with_key params ''theta'' (\<lambda>th. checked (elements th) (\<lambda>ts.
     checked (check_all json_operand ts) (\<lambda>theta.
     require (length theta = length x) ''ValueError''
     (with_key params ''a_inv'' (\<lambda>inv. checked (json_matrix inv) (\<lambda>a.
     require (length x \<le> length a \<and> list_all (\<lambda>row. length x \<le> length row) (take (length x) a)) ''IndexError''
     (with_key (lp_policy p) ''alpha'' (\<lambda>al. checked (json_float al) (\<lambda>alpha.
     Inr ((\<Sum>(t, v) \<leftarrow> zip theta x. t * v) + alpha * sqrt (max 0 (quadratic_form a x))))))))))))))))"

text \<open>\<open>_scores\<close>: the eligible actions the policy knows, in order, with their scores\<close>

definition scores :: "loaded_policy \<Rightarrow> real list \<Rightarrow> string list \<Rightarrow> string + (string \<times> real) list" where
  "scores p x eligible =
     with_key (lp_policy p) ''actions'' (\<lambda>acts. with_arr acts ''TypeError'' (\<lambda>xs.
     checked (action_set xs) (\<lambda>known.
     check_all (\<lambda>a. checked (action_score p x a) (\<lambda>v. Inr (a, v)))
       (sorted_list_of_set (set eligible \<inter> set known)))))"

definition best_score :: "(string \<times> real) list \<Rightarrow> real" where
  "best_score ss = foldr max (map snd (tl ss)) (snd (hd ss))"

text \<open>The greatest score's first action; the scores are in the order of their actions.\<close>

definition greedy_action :: "(string \<times> real) list \<Rightarrow> string" where
  "greedy_action ss = fst (hd (filter (\<lambda>(a, v). v = best_score ss) ss))"

definition exploration_epsilon :: "loaded_policy \<Rightarrow> bool \<Rightarrow> string + real" where
  "exploration_epsilon p explore =
     with_key (lp_policy p) ''exploration'' (\<lambda>ex.
     if \<not> explore then Inr 0
     else with_obj ex ''TypeError'' (\<lambda>exploration.
     with_key exploration ''mode'' (\<lambda>mode.
     if mode \<noteq> JStr ''epsilon_greedy'' then Inr 0
     else with_key exploration ''epsilon'' json_float)))"

definition spread :: "real \<Rightarrow> (string \<times> real) list \<Rightarrow> (string \<times> real) list" where
  "spread epsilon ss =
     (let k = of_nat (length ss); greedy = greedy_action ss
      in map (\<lambda>(a, _). (a, if a = greedy then 1 - epsilon + epsilon / k else epsilon / k)) ss)"

definition probabilities :: "loaded_policy \<Rightarrow> feature_context \<Rightarrow> string list \<Rightarrow> bool \<Rightarrow> string + (string \<times> real) list" where
  "probabilities p ctx eligible explore =
     checked (features p ctx) (\<lambda>x.
     checked (scores p x eligible) (\<lambda>ss.
     if ss = [] then Inr []
     else checked (exploration_epsilon p explore) (\<lambda>epsilon. Inr (spread epsilon ss))))"

text \<open>The loop over the cumulative distribution; the last action is chosen when no sum exceeds the
  draw.\<close>

fun pick :: "real \<Rightarrow> real \<Rightarrow> (string \<times> real) list \<Rightarrow> string \<Rightarrow> string" where
  "pick draw cumulative [] chosen = chosen"
| "pick draw cumulative ((a, p) # rest) chosen =
     (if draw < cumulative + p then a else pick draw (cumulative + p) rest chosen)"

text \<open>\<open>max(actions, key=distribution.__getitem__)\<close>: the first action of the greatest probability\<close>

fun likeliest :: "(string \<times> real) list \<Rightarrow> string \<times> real" where
  "likeliest [] = ([], 0)"
| "likeliest [d] = d"
| "likeliest (d # e # rest) = (let m = likeliest (e # rest) in if snd m > snd d then m else d)"

record decision =
  de_selected_action :: string
  de_selection_probability :: real
  de_exploration :: bool
  de_policy_version :: string
  de_eligible_models :: "string list"
  de_shadow :: bool
  de_feature_schema_version :: json

text \<open>\<open>select\<close>: only a \<open>ValueError\<close> of the scoring makes it unscorable.\<close>

definition select_decision ::
  "(real \<Rightarrow> string) \<Rightarrow> loaded_policy \<Rightarrow> feature_context \<Rightarrow> string list \<Rightarrow> real \<Rightarrow> bool \<Rightarrow> bool \<Rightarrow> string + decision option" where
  "select_decision repr_float p ctx eligible draw shadow explore =
     (case probabilities p ctx eligible explore of
        Inl e \<Rightarrow> if e = ''ValueError'' then Inr None else Inl e
      | Inr [] \<Rightarrow> Inr None
      | Inr distribution \<Rightarrow>
          let chosen = pick draw 0 distribution (fst (last distribution)); greedy = fst (likeliest distribution) in
          checked (policy_version_text repr_float p) (\<lambda>version.
          with_key (lp_feature_schema p) ''feature_schema_version'' (\<lambda>schema.
          Inr (Some \<lparr>de_selected_action = chosen, de_selection_probability = the (map_of distribution chosen),
            de_exploration = (chosen \<noteq> greedy), de_policy_version = version, de_eligible_models = eligible,
            de_shadow = shadow, de_feature_schema_version = schema\<rparr>))))"

section \<open>The bundle directory\<close>

text \<open>The entries below the bundle's root by their relative path. The directory does not change while
  it is read.\<close>

datatype node = File string | Symlink | Folder

type_synonym bundle_dir = "(string \<times> node) list"

definition read_bytes :: "bundle_dir \<Rightarrow> string \<Rightarrow> string option" where
  "read_bytes dir name = (case map_of dir name of Some (File content) \<Rightarrow> Some content | _ \<Rightarrow> None)"

definition is_symlink :: "bundle_dir \<Rightarrow> string \<Rightarrow> bool" where
  "is_symlink dir name \<longleftrightarrow> map_of dir name = Some Symlink"

text \<open>\<open>None\<close> of a parser is its \<open>ValueError\<close>; \<open>be_json_text\<close> reads UTF-8 text, \<open>be_json_bytes\<close> bytes.\<close>

record bundle_env =
  be_json_text :: "string \<Rightarrow> json option"
  be_json_bytes :: "string \<Rightarrow> json option"
  be_repr_float :: "real \<Rightarrow> string"
  be_sha256 :: "string \<Rightarrow> string"
  be_sha512 :: "string \<Rightarrow> string"

definition SUPPORTED_ARTIFACT_MAJOR :: string where "SUPPORTED_ARTIFACT_MAJOR = ''1''"
definition SUPPORTED_POLICY_SCHEMAS :: "string list" where "SUPPORTED_POLICY_SCHEMAS = [''linucb.v1'']"

definition REQUIRED_FILES :: "string list" where
  "REQUIRED_FILES = [''manifest.json'', ''routing_policy.json'', ''feature_schema.json'',
     ''eligibility_constraints.json'', ''evaluation.json'', ''provenance.json'']"

definition PROBE_CONTEXT :: feature_context where
  "PROBE_CONTEXT = [(''tier'', JStr ''probe''), (''task_domain'', JStr ''probe''), (''estimated_input_tokens'', JInt 0),
     (''context_utilization_ratio'', JFloat 0), (''tool_count'', JInt 0), (''requires_structured_output'', JBool False),
     (''requires_tools'', JBool False), (''requires_memory'', JBool False), (''requires_external_data'', JBool False),
     (''conversation_depth'', JInt 0), (''retry_number'', JInt 0), (''previous_tool_failure'', JBool False)]"

text \<open>\<open>bytes.fromhex\<close>\<close>

definition hex_value :: "char \<Rightarrow> nat option" where
  "hex_value c = (let n = of_char c :: nat in
     if 48 \<le> n \<and> n \<le> 57 then Some (n - 48) else if 97 \<le> n \<and> n \<le> 102 then Some (n - 87)
     else if 65 \<le> n \<and> n \<le> 70 then Some (n - 55) else None)"

fun fromhex :: "string \<Rightarrow> string option" where
  "fromhex [] = Some []"
| "fromhex (c # cs) =
     (if (of_char c :: nat) = 32 \<or> 9 \<le> (of_char c :: nat) \<and> (of_char c :: nat) \<le> 13 then fromhex cs
      else case cs of
          [] \<Rightarrow> None
        | d # ds \<Rightarrow> (case (hex_value c, hex_value d, fromhex ds) of
              (Some h, Some l, Some rest) \<Rightarrow> Some (char_of (16 * h + l) # rest)
            | _ \<Rightarrow> None))"

section \<open>The checks of a bundle, in their order\<close>

text \<open>1. The signature over \<open>checksums.json\<close>: its bytes and the signer's key. \<open>str\<close> of a value that is
  no text and no integer is no hexadecimal text.\<close>

definition hex_field :: "(string \<times> json) list \<Rightarrow> string \<Rightarrow> (string \<Rightarrow> string \<Rightarrow> string + 'a) \<Rightarrow> string + 'a" where
  "hex_field obj key k = (let bad = Inl (rejected ''malformed signature file'') in case map_of obj key of
       None \<Rightarrow> bad
     | Some v \<Rightarrow>
         let shown = (case v of JStr s \<Rightarrow> Some s | JInt i \<Rightarrow> Some (int_str i) | _ \<Rightarrow> None)
         in (case shown of None \<Rightarrow> bad | Some s \<Rightarrow>
              (case fromhex s of None \<Rightarrow> bad | Some content \<Rightarrow> k s content)))"

definition check_signature :: "bundle_env \<Rightarrow> bundle_dir \<Rightarrow> string list \<Rightarrow> string + string \<times> string" where
  "check_signature env dir trusted =
     require (\<not> is_symlink dir ''checksums.json'' \<and> \<not> is_symlink dir ''signature.sig'') (rejected ''symlink in bundle metadata'')
     (with_some (read_bytes dir ''checksums.json'') (rejected ''unreadable bundle'') (\<lambda>checksums_bytes.
     with_some (Option.bind (read_bytes dir ''signature.sig'') (be_json_text env)) (rejected ''unreadable bundle'') (\<lambda>sg.
     with_obj sg (rejected ''malformed signature file'') (\<lambda>signature.
     hex_field signature ''public_key'' (\<lambda>public_hex public.
     hex_field signature ''signature'' (\<lambda>_ sig.
     require (jget signature ''algorithm'' = JStr ''ed25519'' \<and> public_hex \<in> set trusted)
       (rejected ''untrusted or unsupported signing key'')
     (require (verify (be_sha512 env) public checksums_bytes sig) (rejected ''signature invalid'')
     (Inr (checksums_bytes, public_hex)))))))))"

text \<open>2. The checksums of every file, and nothing extra. Without a symbolic link in the directory a path
  with no \<open>..\<close> part resolves below the root.\<close>

definition path_parts :: "string \<Rightarrow> string list" where
  "path_parts name = split_on (CHR ''/'') (length name) name"

definition unsafe_path :: "string \<Rightarrow> bool" where
  "unsafe_path name \<longleftrightarrow> name = [] \<or> CHR 0x5C \<in> set name \<or> hd name = CHR ''/'' \<or> ''..'' \<in> set (path_parts name)"

fun check_digests :: "bundle_env \<Rightarrow> bundle_dir \<Rightarrow> (string \<times> string) list \<Rightarrow> string + unit" where
  "check_digests env dir [] = Inr ()"
| "check_digests env dir ((name, hash) # listed) =
     require (\<not> unsafe_path name) (rejected ''unsafe bundle path'')
     (with_some (read_bytes dir name) (rejected ''unreadable bundle file'') (\<lambda>content.
     require (hexdigest (be_sha256 env content) = hash) (rejected ''checksum mismatch'')
     (check_digests env dir listed)))"

definition digest_text :: "string \<times> json \<Rightarrow> string + string \<times> string" where
  "digest_text entry = with_str (snd entry) (rejected ''invalid checksums file'') (\<lambda>hash. Inr (fst entry, hash))"

definition present_files :: "bundle_dir \<Rightarrow> string list" where
  "present_files dir = filter (\<lambda>name. name \<notin> {''checksums.json'', ''signature.sig''} \<and> read_bytes dir name \<noteq> None)
     (map fst dir)"

definition check_files :: "bundle_env \<Rightarrow> bundle_dir \<Rightarrow> string \<Rightarrow> string + (string \<times> string) list" where
  "check_files env dir checksums_bytes =
     with_some (be_json_bytes env checksums_bytes) (rejected ''invalid checksums file'') (\<lambda>doc.
     with_obj doc (rejected ''invalid checksums file'') (\<lambda>checksums.
     with_obj (jget checksums ''files'') (rejected ''invalid checksums file'') (\<lambda>files.
     checked (check_all digest_text files) (\<lambda>listed.
     require (\<not> list_ex (\<lambda>(_, n). n = Symlink) dir) (rejected ''symlink in bundle'')
     (require (set (present_files dir) = set (map fst listed)) (rejected ''file set mismatch'')
     (checked (check_digests env dir listed) (\<lambda>_.
     require (list_all (\<lambda>name. name \<in> set (map fst listed)) REQUIRED_FILES) (rejected ''missing files'')
     (Inr listed))))))))"

definition bundle_document :: "bundle_env \<Rightarrow> bundle_dir \<Rightarrow> string \<Rightarrow> string + json" where
  "bundle_document env dir name =
     with_some (Option.bind (read_bytes dir name) (be_json_text env)) (rejected ''unreadable bundle document'') Inr"

definition document_object :: "json \<Rightarrow> string + (string \<times> json) list" where
  "document_object doc = with_obj doc (rejected ''bundle documents must be JSON objects'') Inr"

text \<open>3. and 4.: the artifact, policy and feature schemas\<close>

definition hashable :: "json \<Rightarrow> bool" where
  "hashable v = (case v of JArr _ \<Rightarrow> False | JObj _ \<Rightarrow> False | _ \<Rightarrow> True)"

definition check_schemas ::
  "bundle_env \<Rightarrow> string \<Rightarrow> (string \<times> json) list \<Rightarrow> (string \<times> json) list \<Rightarrow> (string \<times> json) list \<Rightarrow> string + json list" where
  "check_schemas env expected manifest policy schema =
     require (jget manifest ''schema'' = JStr ''PolicyBundleV1''
         \<and> takeWhile (\<lambda>c. c \<noteq> CHR ''.'') (json_str (be_repr_float env) (jget_default manifest ''schema_version'' (JStr [])))
             = SUPPORTED_ARTIFACT_MAJOR) (rejected ''unrecognised artifact schema'')
     (require (hashable (jget policy ''policy_schema_version'')) ''TypeError''
     (require (jget policy ''policy_schema_version'' \<in> set (map JStr SUPPORTED_POLICY_SCHEMAS)
         \<and> jget policy ''algorithm'' = JStr ''linucb'') (rejected ''unsupported policy schema'')
     (require (jget schema ''feature_schema_version'' = JStr expected
         \<and> json_eq (jget manifest ''feature_schema_id'') (jget schema ''schema_id'')) (rejected ''feature schema incompatible'')
     (with_arr (jget schema ''features'') (rejected ''policy dimension does not match feature schema'') (\<lambda>specs.
     require (json_eq (jget policy ''feature_dimension'') (JInt (int (length specs))))
       (rejected ''policy dimension does not match feature schema'')
     (Inr specs))))))"

definition check_exploration :: "(string \<times> json) list \<Rightarrow> string + real" where
  "check_exploration policy =
     (let bad = rejected ''invalid exploration probability'' in
      with_obj (jget policy ''exploration'') bad (\<lambda>exploration.
      require (jget exploration ''mode'' \<in> {JStr ''none'', JStr ''epsilon_greedy''}) bad
      (with_some (jnumber (jget exploration ''epsilon'')) bad (\<lambda>epsilon.
      require (case jget exploration ''epsilon'' of JInt i \<Rightarrow> \<not> float_overflow i | _ \<Rightarrow> True) ''OverflowError''
      (require (0 \<le> epsilon \<and> epsilon \<le> 1) bad
      (Inr epsilon))))))"

text \<open>5. The actions. Sorting unknown ones of different types for the message is a \<open>TypeError\<close>.\<close>

definition sortable :: "json list \<Rightarrow> bool" where
  "sortable vs \<longleftrightarrow> list_all (\<lambda>v. json_num v \<noteq> None) vs \<or> list_all (\<lambda>v. case v of JStr _ \<Rightarrow> True | _ \<Rightarrow> False) vs
     \<or> list_all (\<lambda>v. v = JNull) vs"

definition check_actions :: "string list \<Rightarrow> (string \<times> json) list \<Rightarrow> string + string list" where
  "check_actions known policy =
     with_arr (jget policy ''actions'') (rejected ''policy has no actions'') (\<lambda>xs.
     require (xs \<noteq> []) (rejected ''policy has no actions'')
     (checked (action_set xs) (\<lambda>acts.
     let unknown = filter (\<lambda>v. v \<notin> set (map JStr known)) xs in
     require (sortable unknown) ''TypeError''
     (require (unknown = []) (rejected ''unknown models'')
     (Inr acts)))))"

text \<open>7. The minimum version\<close>

definition version_parts :: "string \<Rightarrow> int list option" where
  "version_parts value = those (map py_int (split_on (CHR ''.'') (length value) value))"

definition check_version :: "bundle_env \<Rightarrow> string \<Rightarrow> (string \<times> json) list \<Rightarrow> string + unit" where
  "check_version env karmi_version manifest =
     (let bad = rejected ''invalid minimum Karmi version'' in
      with_some (version_parts karmi_version) bad (\<lambda>mine.
      with_some (map_of manifest ''minimum_karmi_version'') bad (\<lambda>m.
      with_some (version_parts (json_str (be_repr_float env) m)) bad (\<lambda>least.
      require (\<not> mine < least) (rejected ''Karmi too old for this bundle'')
      (Inr ())))))"

text \<open>8. and 9.: the shape of the parameters, and a trial decision\<close>

definition check_parameters :: "json \<Rightarrow> (string \<times> json) list \<Rightarrow> string \<Rightarrow> string + unit" where
  "check_parameters dimension parameters act =
     (let bad = rejected ''malformed parameters''; sized = (\<lambda>xs. json_eq (JInt (int (length xs))) dimension) in
      with_obj (jget parameters act) bad (\<lambda>params.
      checked (elements (jget_default params ''theta'' (JArr []))) (\<lambda>theta.
      require (sized theta) bad
      (checked (elements (jget_default params ''a_inv'' (JArr []))) (\<lambda>a_inv.
      require (sized a_inv) bad
      (with_key params ''a_inv'' (\<lambda>_.
      checked (check_all (\<lambda>row. checked (elements row) (\<lambda>xs. require (sized xs) bad (Inr xs))) a_inv) (\<lambda>rows.
      with_key params ''theta'' (\<lambda>_.
      checked (check_all json_operand theta) (\<lambda>_.
      checked (check_all (check_all json_operand) rows) (\<lambda>_.
      Inr ())))))))))))"

definition probe_source :: "json \<Rightarrow> string + (string \<times> json) list" where
  "probe_source feature = (case feature of
       JObj spec \<Rightarrow> (case map_of spec ''source'' of
           None \<Rightarrow> Inr []
         | Some (JStr s) \<Rightarrow> Inr [(s, JNull)]
         | Some v \<Rightarrow> if hashable v then Inr [] else Inl ''TypeError'')
     | JStr t \<Rightarrow> if contains ''source'' t then Inl ''TypeError'' else Inr []
     | JArr xs \<Rightarrow> if JStr ''source'' \<in> set xs then Inl ''TypeError'' else Inr []
     | _ \<Rightarrow> Inl ''TypeError'')"

definition trial_decision :: "loaded_policy \<Rightarrow> json list \<Rightarrow> string list \<Rightarrow> string + unit" where
  "trial_decision p specs acts =
     checked (check_all probe_source specs) (\<lambda>sources.
     case probabilities p (PROBE_CONTEXT @ concat sources) acts True of
       Inl e \<Rightarrow> Inl (if e \<in> {''ValueError'', ''TypeError'', ''KeyError''} then rejected ''self-test failed'' else e)
     | Inr distribution \<Rightarrow>
         require (distribution \<noteq> [] \<and> \<bar>sum_list (map snd distribution) - 1\<bar> \<le> 1 / 10 ^ 9) (rejected ''self-test failed'')
         (Inr ()))"

text \<open>The documents of a bundle whose files have been checked\<close>

definition check_documents ::
  "bundle_env \<Rightarrow> string \<Rightarrow> string list \<Rightarrow> string \<Rightarrow> string \<Rightarrow> string
   \<Rightarrow> (string \<times> json) list \<Rightarrow> (string \<times> json) list \<Rightarrow> (string \<times> json) list \<Rightarrow> string + loaded_policy" where
  "check_documents env karmi_version known expected checksums_bytes public_hex manifest policy schema =
     checked (check_schemas env expected manifest policy schema) (\<lambda>specs.
     checked (check_exploration policy) (\<lambda>_.
     checked (check_actions known policy) (\<lambda>acts.
     checked (check_version env karmi_version manifest) (\<lambda>_.
     with_key policy ''feature_dimension'' (\<lambda>dimension.
     with_obj (jget policy ''parameters'') (rejected ''missing policy parameters'') (\<lambda>parameters.
     checked (check_all (check_parameters dimension parameters) acts) (\<lambda>_.
     let p = \<lparr>lp_manifest = manifest, lp_policy = policy, lp_feature_schema = schema,
              lp_checksums_sha256 = hexdigest (be_sha256 env checksums_bytes), lp_signer_public_key = public_hex\<rparr>
     in checked (trial_decision p specs acts) (\<lambda>_. Inr p))))))))"

definition load_bundle ::
  "bundle_env \<Rightarrow> bundle_dir \<Rightarrow> string list \<Rightarrow> string \<Rightarrow> string list \<Rightarrow> string \<Rightarrow> string + loaded_policy" where
  "load_bundle env dir trusted karmi_version known expected =
     checked (check_signature env dir trusted) (\<lambda>(checksums_bytes, public_hex).
     checked (check_files env dir checksums_bytes) (\<lambda>_.
     checked (check_all (bundle_document env dir) REQUIRED_FILES) (\<lambda>docs.
     checked (check_all document_object docs) (\<lambda>objs.
     check_documents env karmi_version known expected checksums_bytes public_hex (objs ! 0) (objs ! 1) (objs ! 2)))))"

section \<open>What the checks establish\<close>

lemma hex_field_Inr [check_simps]:
  "hex_field obj key k = Inr x \<longleftrightarrow> (\<exists>s content. fromhex s = Some content \<and> k s content = Inr x
     \<and> (map_of obj key = Some (JStr s) \<or> (\<exists>i. map_of obj key = Some (JInt i) \<and> s = int_str i)))"
  by (auto simp: hex_field_def rejected_def Let_def split: option.splits json.splits)

lemma check_digests_Inr [check_simps]:
  "check_digests env dir listed = Inr u \<longleftrightarrow> list_all (\<lambda>(name, hash). \<not> unsafe_path name
     \<and> (\<exists>content. read_bytes dir name = Some content \<and> hexdigest (be_sha256 env content) = hash)) listed"
  by (induction env dir listed rule: check_digests.induct) (auto simp: check_simps)

lemma digest_texts: "check_all digest_text files = Inr listed \<Longrightarrow> files = map (\<lambda>(name, hash). (name, JStr hash)) listed"
  by (induction files arbitrary: listed) (auto simp: check_simps digest_text_def list_all2_Cons1)

lemma action_set_Inr:
  "action_set xs = Inr acts \<Longrightarrow> set xs \<subseteq> JStr ` known \<Longrightarrow> xs = map JStr acts"
  by (induction xs arbitrary: acts) (auto simp: action_set_def split: if_splits)

lemma check_signature_Inr:
  assumes "check_signature env dir trusted = Inr (content, key)"
  obtains public sig where "read_bytes dir ''checksums.json'' = Some content" "key \<in> set trusted"
    "fromhex key = Some public" "verify (be_sha512 env) public content sig"
  using assms by (auto simp: check_signature_def check_simps)

lemma check_files_Inr:
  assumes "check_files env dir content = Inr listed"
  obtains checksums where "be_json_bytes env content = Some (JObj checksums)"
    "jget checksums ''files'' = JObj (map (\<lambda>(name, hash). (name, JStr hash)) listed)"
    "\<not> list_ex (\<lambda>(_, n). n = Symlink) dir" "set (present_files dir) = set (map fst listed)"
    "list_all (\<lambda>(name, hash). \<not> unsafe_path name
       \<and> (\<exists>content. read_bytes dir name = Some content \<and> hexdigest (be_sha256 env content) = hash)) listed"
  using assms digest_texts unfolding check_files_def check_simps by (auto dest: digest_texts)

lemma check_documents_Inr:
  assumes "check_documents env version known expected content key manifest policy schema = Inr p"
  shows "lp_manifest p = manifest \<and> lp_policy p = policy \<and> lp_feature_schema p = schema
    \<and> lp_checksums_sha256 p = hexdigest (be_sha256 env content) \<and> lp_signer_public_key p = key
    \<and> jget schema ''feature_schema_version'' = JStr expected
    \<and> (\<exists>epsilon. check_exploration policy = Inr epsilon \<and> 0 \<le> epsilon \<and> epsilon \<le> 1)
    \<and> (\<exists>acts. acts \<noteq> [] \<and> jget policy ''actions'' = JArr (map JStr acts) \<and> set acts \<subseteq> set known)
    \<and> (\<exists>mine least. version_parts version = Some mine \<and> \<not> mine < least
        \<and> Option.bind (map_of manifest ''minimum_karmi_version'') (\<lambda>m. version_parts (json_str (be_repr_float env) m)) = Some least)
    \<and> (\<exists>ctx acts distribution. probabilities p ctx acts True = Inr distribution \<and> distribution \<noteq> [])"
proof -
  obtain specs epsilon acts where r: "check_schemas env expected manifest policy schema = Inr specs"
    "check_exploration policy = Inr epsilon" "check_actions known policy = Inr acts" "check_version env version manifest = Inr ()"
    and p: "p = \<lparr>lp_manifest = manifest, lp_policy = policy, lp_feature_schema = schema,
              lp_checksums_sha256 = hexdigest (be_sha256 env content), lp_signer_public_key = key\<rparr>"
    and trial: "trial_decision p specs acts = Inr ()"
    using assms unfolding check_documents_def check_simps Let_def by auto
  have "jget schema ''feature_schema_version'' = JStr expected" using r(1) by (simp add: check_schemas_def check_simps)
  moreover have "0 \<le> epsilon \<and> epsilon \<le> 1" using r(2) by (auto simp: check_exploration_def check_simps Let_def)
  moreover have "\<exists>acts. acts \<noteq> [] \<and> jget policy ''actions'' = JArr (map JStr acts) \<and> set acts \<subseteq> set known"
  proof -
    obtain xs where xs: "jget policy ''actions'' = JArr xs" "xs \<noteq> []" "action_set xs = Inr acts" "set xs \<subseteq> JStr ` set known"
      using r(3) by (auto simp: check_actions_def check_simps Let_def filter_empty_conv)
    then show ?thesis using action_set_Inr [OF xs(3,4)] by auto
  qed
  moreover have "\<exists>mine least. version_parts version = Some mine \<and> \<not> mine < least
        \<and> Option.bind (map_of manifest ''minimum_karmi_version'') (\<lambda>m. version_parts (json_str (be_repr_float env) m)) = Some least"
    using r(4) by (auto simp: check_version_def check_simps Let_def)
  moreover have "\<exists>ctx acts distribution. probabilities p ctx acts True = Inr distribution \<and> distribution \<noteq> []"
  proof -
    obtain sources where t: "(case probabilities p (PROBE_CONTEXT @ concat sources) acts True of
       Inl e \<Rightarrow> Inl (if e \<in> {''ValueError'', ''TypeError'', ''KeyError''} then rejected ''self-test failed'' else e)
     | Inr distribution \<Rightarrow> require (distribution \<noteq> [] \<and> \<bar>sum_list (map snd distribution) - 1\<bar> \<le> 1 / 10 ^ 9)
         (rejected ''self-test failed'') (Inr ())) = Inr ()"
      using trial unfolding trial_decision_def check_simps by blast
    then show ?thesis
      by (cases "probabilities p (PROBE_CONTEXT @ concat sources) acts True") (auto simp: check_simps)
  qed
  ultimately show ?thesis using r(2) p by auto
qed

section \<open>Decisions\<close>

lemma pick_certain:
  assumes "0 \<le> draw" and "draw < 1" and "g \<in> fst ` set ss"
  shows "pick draw 0 (map (\<lambda>(a, _). (a, if a = g then 1 else 0)) ss) chosen = g"
  using assms(3) by (induction ss) (use assms(1,2) in \<open>auto split: prod.splits\<close>)

lemma likeliest_certain:
  assumes "g \<in> fst ` set ss"
  shows "likeliest (map (\<lambda>(a, _). (a, if a = g then 1 else 0)) ss) = (g, 1)"
proof -
  have top: "likeliest (map (\<lambda>(a, _). (a, if a = g then 1 else 0)) ts) = (g, 1)
      \<or> g \<notin> fst ` set ts \<and> snd (likeliest (map (\<lambda>(a, _). (a, if a = g then 1 else 0)) ts)) = (0 :: real)" for ts
  proof (induction ts rule: induct_list012)
    case (3 d e ts)
    then show ?case by (cases d; cases e) (auto simp: Let_def split: if_splits)
  qed (auto split: if_splits)
  with assms show ?thesis by auto
qed

lemma map_of_certain:
  "g \<in> fst ` set ss \<Longrightarrow> map_of (map (\<lambda>(a, _). (a, if a = g then 1 else 0)) ss) g = Some 1"
  by (induction ss) auto

lemma best_score_max: "ss \<noteq> [] \<Longrightarrow> best_score ss \<in> snd ` set ss \<and> (\<forall>(a, v) \<in> set ss. v \<le> best_score ss)"
proof -
  have "foldr max vs v \<in> set (v # vs) \<and> (\<forall>w \<in> set (v # vs). w \<le> foldr max vs v)" for v :: real and vs
    by (induction vs) (auto simp: max_def)
  from this [of "map snd (tl ss)" "snd (hd ss)"] show "ss \<noteq> [] \<Longrightarrow> ?thesis"
    by (cases ss) (auto simp: best_score_def)
qed

lemma greedy_action_first:
  assumes "ss \<noteq> []" and "sorted (map fst ss)"
  shows "(greedy_action ss, best_score ss) \<in> set ss
    \<and> (\<forall>(a, v) \<in> set ss. v < best_score ss \<or> v = best_score ss \<and> greedy_action ss \<le> a)"
proof -
  let ?top = "filter (\<lambda>(a, v). v = best_score ss) ss"
  have ne: "?top \<noteq> []" using best_score_max [OF assms(1)] by (force simp: filter_empty_conv)
  then have "hd ?top \<in> set ss" "snd (hd ?top) = best_score ss" using hd_in_set [OF ne] by auto
  then have "(greedy_action ss, best_score ss) \<in> set ss" by (metis greedy_action_def prod.collapse)
  moreover have "sorted (map fst ?top)" using assms(2) by (rule sorted_filter)
  then have "greedy_action ss \<le> a" if "(a, best_score ss) \<in> set ss" for a
    using that ne by (cases ?top) (force simp: greedy_action_def filter_eq_Cons_iff)+
  ultimately show ?thesis using best_score_max [OF assms(1)] by (force simp: less_le)
qed

lemma scores_Inr:
  assumes "scores p x eligible = Inr ss"
  shows "sorted (map fst ss) \<and> fst ` set ss \<subseteq> set eligible"
proof -
  obtain known where "list_all2 (\<lambda>a y. checked (action_score p x a) (\<lambda>v. Inr (a, v)) = Inr y)
      (sorted_list_of_set (set eligible \<inter> set known)) ss"
    using assms unfolding scores_def check_simps by blast
  then have "map fst ss = sorted_list_of_set (set eligible \<inter> set known)"
    by (induction rule: list_all2_induct) (auto simp: check_simps)
  then have "sorted (map fst ss)" "set (map fst ss) = set eligible \<inter> set known" by simp_all
  then show ?thesis by auto
qed

lemma probabilities_shadow:
  assumes "probabilities p ctx eligible False = Inr distribution" and "distribution \<noteq> []"
  obtains x ss where "features p ctx = Inr x" "scores p x eligible = Inr ss" "ss \<noteq> []"
    "distribution = map (\<lambda>(a, _). (a, if a = greedy_action ss then 1 else 0)) ss"
proof -
  obtain x ss where *: "features p ctx = Inr x" "scores p x eligible = Inr ss"
    "(if ss = [] then Inr [] else checked (exploration_epsilon p False) (\<lambda>epsilon. Inr (spread epsilon ss))) = Inr distribution"
    using assms(1) unfolding probabilities_def check_simps by blast
  then have "ss \<noteq> []" using assms(2) by auto
  moreover have "distribution = spread 0 ss"
    using * \<open>ss \<noteq> []\<close> by (auto simp: exploration_epsilon_def check_simps)
  moreover have "spread 0 ss = map (\<lambda>(a, _). (a, if a = greedy_action ss then 1 else 0)) ss"
    by (auto simp: spread_def Let_def)
  ultimately show thesis using that [of x ss] * by simp
qed

lemma select_decision_Some:
  assumes "select_decision repr_float p ctx eligible draw shadow explore = Inr (Some d)"
  obtains distribution where "probabilities p ctx eligible explore = Inr distribution" "distribution \<noteq> []"
    "de_selected_action d = pick draw 0 distribution (fst (last distribution))"
    "de_selection_probability d = the (map_of distribution (de_selected_action d))"
    "de_exploration d = (de_selected_action d \<noteq> fst (likeliest distribution))" "de_shadow d = shadow"
proof (cases "probabilities p ctx eligible explore")
  case (Inl e)
  then show thesis using assms by (simp add: select_decision_def split: if_splits)
next
  case (Inr distribution)
  then show thesis
  proof (cases distribution)
    case (Cons e es)
    then have "distribution \<noteq> []" by simp
    moreover have "checked (policy_version_text repr_float p) (\<lambda>version.
        with_key (lp_feature_schema p) ''feature_schema_version'' (\<lambda>schema.
        Inr (Some \<lparr>de_selected_action = pick draw 0 distribution (fst (last distribution)),
          de_selection_probability = the (map_of distribution (pick draw 0 distribution (fst (last distribution)))),
          de_exploration = (pick draw 0 distribution (fst (last distribution)) \<noteq> fst (likeliest distribution)),
          de_policy_version = version, de_eligible_models = eligible,
          de_shadow = shadow, de_feature_schema_version = schema\<rparr>))) = Inr (Some d)"
      using assms Inr Cons by (simp only: select_decision_def sum.case list.case Let_def)
    ultimately show thesis using that [OF Inr] unfolding check_simps by auto
  qed (use assms in \<open>simp add: select_decision_def\<close>)
qed

lemma shadow_selection:
  assumes "select_decision repr_float p ctx eligible draw shadow False = Inr (Some d)" and "0 \<le> draw" and "draw < 1"
  obtains x ss where "features p ctx = Inr x" "scores p x eligible = Inr ss" "ss \<noteq> []"
    "de_selected_action d = greedy_action ss" "de_selection_probability d = 1" "\<not> de_exploration d" "de_shadow d = shadow"
proof -
  obtain distribution where dist: "probabilities p ctx eligible False = Inr distribution" "distribution \<noteq> []"
    and d: "de_selected_action d = pick draw 0 distribution (fst (last distribution))"
      "de_selection_probability d = the (map_of distribution (de_selected_action d))"
      "de_exploration d = (de_selected_action d \<noteq> fst (likeliest distribution))" "de_shadow d = shadow"
    using select_decision_Some [OF assms(1)] .
  obtain x ss where r: "features p ctx = Inr x" "scores p x eligible = Inr ss" "ss \<noteq> []"
    and ds: "distribution = map (\<lambda>(a, _). (a, if a = greedy_action ss then 1 else 0)) ss"
    using probabilities_shadow [OF dist] .
  have "(greedy_action ss, best_score ss) \<in> set ss"
    using greedy_action_first [OF r(3)] scores_Inr [OF r(2)] by simp
  then have g: "greedy_action ss \<in> fst ` set ss" by force
  have m: "map_of distribution (greedy_action ss) = Some 1"
    unfolding ds using g by (rule map_of_certain)
  have "de_selected_action d = greedy_action ss"
    unfolding d(1) unfolding ds by (rule pick_certain [OF assms(2,3) g])
  moreover from this have "de_selection_probability d = 1" "\<not> de_exploration d"
    using d(2,3) m likeliest_certain [OF g] by (simp_all add: ds)
  ultimately show thesis using that r d(4) by blast
qed

section \<open>A bundle\<close>

text \<open>The neutral point as public key and as \<open>R\<close>, with the scalar 0, is a signature of every message
  under a hash that is 0.\<close>

definition neutral :: string where "neutral = CHR 0x01 # replicate 31 (CHR 0x00)"
definition neutral_hex :: string where "neutral_hex = ''01'' @ concat (replicate 31 ''00'')"

definition sample_manifest :: "(string \<times> json) list" where
  "sample_manifest = [(''schema'', JStr ''PolicyBundleV1''), (''schema_version'', JStr ''1.0''),
     (''feature_schema_id'', JStr ''f''), (''artifact_version'', JStr ''a1''), (''minimum_karmi_version'', JStr ''0.1.0'')]"

definition zeros :: "nat \<Rightarrow> json" where "zeros n = JArr (replicate n (JInt 0))"

definition sample_parameters :: "nat \<Rightarrow> (string \<times> json) list" where
  "sample_parameters d = [(''karmi/fake-economy'', JObj [(''theta'', zeros d), (''a_inv'', JArr (replicate d (zeros d)))])]"

definition sample_policy :: "nat \<Rightarrow> (string \<times> json) list" where
  "sample_policy d = [(''policy_schema_version'', JStr ''linucb.v1''), (''algorithm'', JStr ''linucb''),
     (''feature_dimension'', JInt (int d)), (''actions'', JArr [JStr ''karmi/fake-economy'']), (''alpha'', JInt 1),
     (''exploration'', JObj [(''mode'', JStr ''none''), (''epsilon'', JInt 0)]),
     (''parameters'', JObj (sample_parameters d))]"

definition sample_schema :: "json list \<Rightarrow> (string \<times> json) list" where
  "sample_schema specs = [(''feature_schema_version'', JStr ''routing-features.v1''), (''schema_id'', JStr ''f''), (''features'', JArr specs)]"

definition sample_env :: "json list \<Rightarrow> bundle_env" where
  "sample_env specs =
     \<lparr>be_json_text = map_of
        [(''S'', JObj [(''public_key'', JStr neutral_hex), (''signature'', JStr (neutral_hex @ concat (replicate 32 ''00''))),
            (''algorithm'', JStr ''ed25519'')]),
         (''M'', JObj sample_manifest), (''P'', JObj (sample_policy (length specs))), (''F'', JObj (sample_schema specs)),
         (''E'', JObj [])],
      be_json_bytes = map_of [(''C'', JObj [(''files'', JObj [(''manifest.json'', JStr ''4d''), (''routing_policy.json'', JStr ''50''),
         (''feature_schema.json'', JStr ''46''), (''eligibility_constraints.json'', JStr ''45''),
         (''evaluation.json'', JStr ''45''), (''provenance.json'', JStr ''45'')])])],
      be_repr_float = (\<lambda>_. []), be_sha256 = (\<lambda>s. s), be_sha512 = (\<lambda>_. replicate 64 (CHR 0x00))\<rparr>"

definition sample_loaded :: "json list \<Rightarrow> loaded_policy" where
  "sample_loaded specs = \<lparr>lp_manifest = sample_manifest, lp_policy = sample_policy (length specs),
     lp_feature_schema = sample_schema specs, lp_checksums_sha256 = ''43'', lp_signer_public_key = neutral_hex\<rparr>"

definition sample_dir :: bundle_dir where
  "sample_dir = [(''checksums.json'', File ''C''), (''signature.sig'', File ''S''), (''manifest.json'', File ''M''),
     (''routing_policy.json'', File ''P''), (''feature_schema.json'', File ''F''),
     (''eligibility_constraints.json'', File ''E''), (''evaluation.json'', File ''E''), (''provenance.json'', File ''E'')]"

lemma le_int_zeros [simp]: "le_int (replicate n (CHR 0x00)) = 0"
  by (induction n) simp_all

lemma neutral_hex_bytes: "fromhex neutral_hex = Some neutral"
  by code_simp

lemma neutral_signature_bytes: "fromhex (neutral_hex @ concat (replicate 32 ''00'')) = Some (neutral @ replicate 32 (CHR 0x00))"
  by code_simp

lemma neutral_int: "le_int neutral = 1" "length neutral = 32"
  by (simp_all add: neutral_def)

lemma decompress_neutral: "decompress neutral = Some (0, 1, 1, 0)"
  by (simp add: decompress_def neutral_int recover_x_def P_ed_def Let_def)

lemma point_mul_0: "point_mul 0 p = (0, 1, 1, 0)"
  by (simp add: point_mul_def mul_loop.simps [of 0])

lemma small_mod_P: "0 \<le> x \<Longrightarrow> x < 100 \<Longrightarrow> x mod P_ed = x"
proof -
  have "100 < P_ed"
  by (simp add: P_ed_def)
  then show "0 \<le> x \<Longrightarrow> x < 100 \<Longrightarrow> x mod P_ed = x"
  by simp
qed

lemma neutral_sum: "point_equal (0,1,1,0) (point_add (0,1,1,0) (0,1,1,0))"
  by (simp add: point_add_def point_equal_def small_mod_P Let_def)

lemma L_pos: "0 < L_ed"
  by (simp add: L_ed_def)

lemma neutral_verifies: "verify (\<lambda>_. replicate 64 (CHR 0x00)) neutral m (neutral @ replicate 32 (CHR 0x00))"
proof -
  have "sha512_mod_l (\<lambda>_. replicate 64 (CHR 0x00)) x = 0" for x
    unfolding sha512_mod_l_def le_int_zeros by simp
  moreover have "take 32 (neutral @ replicate 32 (CHR 0x00)) = neutral" "drop 32 (neutral @ replicate 32 (CHR 0x00)) = replicate 32 (CHR 0x00)"
    "length (neutral @ replicate 32 (CHR 0x00)) = 64"
    using neutral_int(2) by simp_all
  ultimately show ?thesis
    unfolding verify_def le_int_zeros using L_pos decompress_neutral point_mul_0 neutral_sum neutral_int by simp
qed

lemma sample_signature: "check_signature (sample_env specs) sample_dir [neutral_hex] = Inr (''C'', neutral_hex)"
  using neutral_verifies
  by (simp add: check_signature_def sample_env_def sample_dir_def is_symlink_def read_bytes_def require_def
      with_some_def with_obj_def hex_field_def neutral_hex_bytes neutral_signature_bytes jget_def jget_default_def del: append.simps)

definition sample_listed :: "(string \<times> string) list" where
  "sample_listed = [(''manifest.json'', ''4d''), (''routing_policy.json'', ''50''), (''feature_schema.json'', ''46''),
     (''eligibility_constraints.json'', ''45''), (''evaluation.json'', ''45''), (''provenance.json'', ''45'')]"

lemma sample_files: "check_files (sample_env specs) sample_dir ''C'' = Inr sample_listed"
  unfolding check_files_def sample_env_def sample_dir_def Let_def by code_simp

lemma sample_docs: "check_all (bundle_document (sample_env specs) sample_dir) REQUIRED_FILES =
    Inr [JObj sample_manifest, JObj (sample_policy (length specs)), JObj (sample_schema specs), JObj [], JObj [], JObj []]"
  by (simp add: REQUIRED_FILES_def bundle_document_def sample_dir_def read_bytes_def sample_env_def with_some_def checked_def)

text \<open>The bundle is accepted or refused by its trial decision.\<close>

lemma sample_load:
  assumes "check_all (check_parameters (JInt (int (length specs))) (sample_parameters (length specs))) [''karmi/fake-economy''] = Inr us"
    and known: "''karmi/fake-economy'' \<in> set known"
  shows "load_bundle (sample_env specs) sample_dir [neutral_hex] ''0.1.0'' known ''routing-features.v1'' =
    checked (trial_decision (sample_loaded specs) specs [''karmi/fake-economy'']) (\<lambda>_. Inr (sample_loaded specs))"
proof -
  let ?env = "sample_env specs" and ?policy = "sample_policy (length specs)"
  note unfolds = require_def with_some_def with_obj_def with_arr_def with_key_def checked_def jget_def jget_default_def
  have "check_schemas ?env ''routing-features.v1'' sample_manifest ?policy (sample_schema specs) = Inr specs"
    by (simp add: check_schemas_def unfolds sample_manifest_def sample_policy_def sample_schema_def json_str_def
        SUPPORTED_ARTIFACT_MAJOR_def SUPPORTED_POLICY_SCHEMAS_def hashable_def json_eq.simps json_num_def jnumber_def)
  moreover have "check_exploration ?policy = Inr 0"
    by (simp add: check_exploration_def unfolds sample_policy_def jnumber_def float_overflow_def)
  moreover have "check_actions known ?policy = Inr [''karmi/fake-economy'']"
    using known by (simp add: check_actions_def unfolds sample_policy_def action_set_def sortable_def)
  moreover have "check_version ?env ''0.1.0'' sample_manifest = Inr ()"
  proof -
    have "version_parts ''0.1.0'' = Some [0, 1, 0]" by code_simp
    then show ?thesis by (simp add: check_version_def unfolds sample_manifest_def json_str_def)
  qed
  moreover have "map_of ?policy ''feature_dimension'' = Some (JInt (int (length specs)))"
    "jget ?policy ''parameters'' = JObj (sample_parameters (length specs))"
    by (simp_all add: sample_policy_def unfolds)
  moreover have "hexdigest ''C'' = ''43''" by code_simp
  moreover have "be_sha256 ?env = (\<lambda>s. s)" by (simp add: sample_env_def)
  ultimately have "check_documents ?env ''0.1.0'' known ''routing-features.v1'' ''C'' neutral_hex sample_manifest ?policy (sample_schema specs) =
      checked (trial_decision (sample_loaded specs) specs [''karmi/fake-economy'']) (\<lambda>_. Inr (sample_loaded specs))"
    using assms(1) by (simp add: check_documents_def checked_def with_key_def with_obj_def sample_loaded_def Let_def)
  then show ?thesis
    unfolding load_bundle_def sample_signature sample_files sample_docs checked_def sum.case prod.case
    by (simp add: document_object_def with_obj_def checked_def)
qed

lemma sample_parameters_0: "check_all (check_parameters (JInt 0) (sample_parameters 0)) [''karmi/fake-economy''] = Inr [()]"
  by (simp add: check_parameters_def sample_parameters_def zeros_def require_def with_obj_def with_key_def checked_def
      jget_def jget_default_def elements_def json_eq.simps json_num_def jnumber_def Let_def)

lemma sample_parameters_1: "check_all (check_parameters (JInt 1) (sample_parameters 1)) [''karmi/fake-economy''] = Inr [()]"
  by (simp add: check_parameters_def sample_parameters_def zeros_def require_def with_obj_def with_key_def checked_def
      jget_def jget_default_def elements_def json_eq.simps json_num_def jnumber_def Let_def json_operand_def json_float_def
      float_overflow_def)

lemma sample_probabilities:
  assumes "set eligible \<inter> {''karmi/fake-economy''} = {''karmi/fake-economy''}"
  shows "probabilities (sample_loaded []) ctx eligible e = Inr [(''karmi/fake-economy'', 1)]"
proof -
  have "features (sample_loaded []) ctx = Inr []"
    by (simp add: features_def sample_loaded_def sample_schema_def with_key_def with_arr_def)
  moreover have "scores (sample_loaded []) [] eligible = Inr [(''karmi/fake-economy'', 0)]"
    using assms by (simp add: scores_def sample_loaded_def with_key_def with_arr_def checked_def sample_policy_def action_set_def
        action_score_def with_obj_def sample_parameters_def zeros_def elements_def json_matrix_def require_def json_float_def
        float_overflow_def quadratic_form_def)
  moreover have "exploration_epsilon (sample_loaded []) e = Inr 0"
    by (simp add: exploration_epsilon_def sample_loaded_def sample_policy_def with_key_def with_obj_def checked_def)
  ultimately show ?thesis by (simp add: probabilities_def checked_def spread_def greedy_action_def best_score_def)
qed

lemma sample_accepted:
  "''karmi/fake-economy'' \<in> set known \<Longrightarrow>
   load_bundle (sample_env []) sample_dir [neutral_hex] ''0.1.0'' known ''routing-features.v1'' = Inr (sample_loaded [])"
  using sample_load [of "[]"] sample_parameters_0
  by (simp add: trial_decision_def sample_probabilities checked_def require_def)

section \<open>Properties\<close>

text \<open>C26: What an accepted bundle proves. A bundle that loads has a signature of a trusted key over its
  checksums, every file of it is listed there with its digest, at a safe path, nothing is a symbolic
  link and nothing is unlisted; its policy names only known models, explores with a probability
  between 0 and 1, is written for the expected feature schema and a version no newer than this one, and has
  produced a decision.\<close>

theorem accepted_bundle_is_verified:
  assumes "load_bundle env dir trusted version known expected = Inr p"
  shows "(\<exists>content public sig checksums listed. read_bytes dir ''checksums.json'' = Some content
        \<and> lp_checksums_sha256 p = hexdigest (be_sha256 env content)
        \<and> lp_signer_public_key p \<in> set trusted \<and> fromhex (lp_signer_public_key p) = Some public
        \<and> verify (be_sha512 env) public content sig
        \<and> be_json_bytes env content = Some (JObj checksums)
        \<and> jget checksums ''files'' = JObj (map (\<lambda>(name, hash). (name, JStr hash)) listed)
        \<and> set (present_files dir) = set (map fst listed)
        \<and> list_all (\<lambda>(name, hash). \<not> unsafe_path name
            \<and> map_option (\<lambda>content. hexdigest (be_sha256 env content)) (read_bytes dir name) = Some hash) listed)
    \<and> \<not> list_ex (\<lambda>(_, n). n = Symlink) dir
    \<and> (\<exists>acts. acts \<noteq> [] \<and> jget (lp_policy p) ''actions'' = JArr (map JStr acts) \<and> set acts \<subseteq> set known)
    \<and> (\<exists>epsilon. check_exploration (lp_policy p) = Inr epsilon \<and> 0 \<le> epsilon \<and> epsilon \<le> 1)
    \<and> jget (lp_feature_schema p) ''feature_schema_version'' = JStr expected
    \<and> (\<exists>mine least. version_parts version = Some mine \<and> \<not> mine < least
        \<and> Option.bind (map_of (lp_manifest p) ''minimum_karmi_version'')
            (\<lambda>m. version_parts (json_str (be_repr_float env) m)) = Some least)
    \<and> (\<exists>ctx acts distribution. probabilities p ctx acts True = Inr distribution \<and> distribution \<noteq> [])"
proof -
  obtain content key listed manifest policy schema where sig: "check_signature env dir trusted = Inr (content, key)"
    and files: "check_files env dir content = Inr listed"
    and docs: "check_documents env version known expected content key manifest policy schema = Inr p"
    using assms unfolding load_bundle_def check_simps by (auto simp: check_simps)
  obtain public s where s: "read_bytes dir ''checksums.json'' = Some content" "key \<in> set trusted"
    "fromhex key = Some public" "verify (be_sha512 env) public content s"
    using check_signature_Inr [OF sig] .
  obtain checksums where f: "be_json_bytes env content = Some (JObj checksums)"
    "jget checksums ''files'' = JObj (map (\<lambda>(name, hash). (name, JStr hash)) listed)"
    "\<not> list_ex (\<lambda>(_, n). n = Symlink) dir" "set (present_files dir) = set (map fst listed)"
    "list_all (\<lambda>(name, hash). \<not> unsafe_path name
       \<and> (\<exists>content. read_bytes dir name = Some content \<and> hexdigest (be_sha256 env content) = hash)) listed"
    using check_files_Inr [OF files] .
  have "list_all (\<lambda>(name, hash). \<not> unsafe_path name
      \<and> map_option (\<lambda>content. hexdigest (be_sha256 env content)) (read_bytes dir name) = Some hash) listed"
    using f(5) by (auto simp: list_all_iff)
  with s f check_documents_Inr [OF docs] show ?thesis by blast
qed

theorem accepted_bundle_is_verified_witness:
  "load_bundle (sample_env []) sample_dir [neutral_hex] ''0.1.0'' [''karmi/fake-economy''] ''routing-features.v1'' = Inr (sample_loaded [])
   \<and> set (present_files sample_dir) = set (map fst sample_listed)
   \<and> lp_signer_public_key (sample_loaded []) \<in> set [neutral_hex]"
proof -
  have "set (present_files sample_dir) = set (map fst sample_listed)" by code_simp
  moreover have l: "load_bundle (sample_env []) sample_dir [neutral_hex] ''0.1.0'' [''karmi/fake-economy''] ''routing-features.v1''
      = Inr (sample_loaded [])"
    by (rule sample_accepted) simp
  ultimately show ?thesis using accepted_bundle_is_verified [OF l] l by blast
qed

text \<open>Shadow decisions do not explore. Without exploration the decision is the eligible action with
  the greatest score, the first in order among equals, with probability 1, whatever the random
  draw.\<close>

theorem shadow_decision_is_greedy:
  assumes "select_decision repr_float p ctx eligible draw shadow False = Inr (Some d)" and "0 \<le> draw" and "draw < 1"
  shows "\<exists>x ss best. features p ctx = Inr x \<and> scores p x eligible = Inr ss
    \<and> (de_selected_action d, best) \<in> set ss
    \<and> list_all (\<lambda>(a, v). v < best \<or> v = best \<and> de_selected_action d \<le> a) ss
    \<and> de_selected_action d \<in> set eligible \<and> de_selection_probability d = 1 \<and> \<not> de_exploration d
    \<and> de_shadow d = shadow"
proof -
  obtain x ss where r: "features p ctx = Inr x" "scores p x eligible = Inr ss" "ss \<noteq> []"
    and d: "de_selected_action d = greedy_action ss" "de_selection_probability d = 1" "\<not> de_exploration d" "de_shadow d = shadow"
    using shadow_selection [OF assms] .
  note sub = scores_Inr [OF r(2)]
  note first = greedy_action_first [OF r(3) conjunct1 [OF sub]]
  then have "greedy_action ss \<in> set eligible" using sub by force
  moreover have "list_all (\<lambda>(a, v). v < best_score ss \<or> v = best_score ss \<and> greedy_action ss \<le> a) ss"
    using first by (simp add: list_all_iff)
  ultimately show ?thesis using r(1,2) first d by (intro exI [of _ x] exI [of _ ss] exI [of _ "best_score ss"]) simp
qed

theorem shadow_decision_is_greedy_witness:
  "select_decision (\<lambda>_. []) (sample_loaded []) [] [''a/b'', ''karmi/fake-economy''] (1 / 2) True False =
     Inr (Some \<lparr>de_selected_action = ''karmi/fake-economy'', de_selection_probability = 1, de_exploration = False,
       de_policy_version = ''a1'', de_eligible_models = [''a/b'', ''karmi/fake-economy''], de_shadow = True, de_feature_schema_version = JStr ''routing-features.v1''\<rparr>)
   \<and> ''karmi/fake-economy'' \<in> set [''a/b'', ''karmi/fake-economy'']"
proof -
  have d: "select_decision (\<lambda>_. []) (sample_loaded []) [] [''a/b'', ''karmi/fake-economy''] (1 / 2) True False =
     Inr (Some \<lparr>de_selected_action = ''karmi/fake-economy'', de_selection_probability = 1, de_exploration = False,
       de_policy_version = ''a1'', de_eligible_models = [''a/b'', ''karmi/fake-economy''], de_shadow = True, de_feature_schema_version = JStr ''routing-features.v1''\<rparr>)"
  proof -
    have "policy_version_text (\<lambda>_. []) (sample_loaded []) = Inr ''a1''"
      by (simp add: policy_version_text_def sample_loaded_def sample_manifest_def with_key_def json_str_def)
    moreover have "map_of (lp_feature_schema (sample_loaded [])) ''feature_schema_version'' = Some (JStr ''routing-features.v1'')"
      by (simp add: sample_loaded_def sample_schema_def)
    ultimately show ?thesis by (simp add: select_decision_def sample_probabilities with_key_def checked_def Let_def)
  qed
  from shadow_decision_is_greedy [OF d] d show ?thesis by fastforce
qed

definition zero_cap :: json where
  "zero_cap = JObj [(''transform'', JStr ''capped_ratio''), (''source'', JStr ''tool_count''), (''cap'', JInt 0)]"

text \<open>Not every failure is a rejection. The self-test of a bundle whose files, signature and schemas
  are all in order divides by the cap of a \<open>capped_ratio\<close> feature: with a cap of 0 the load
  ends in a \<open>ZeroDivisionError\<close> instead of \<open>BundleRejected\<close>.\<close>

theorem zero_cap_is_not_rejected:
  "load_bundle (sample_env [zero_cap]) sample_dir [neutral_hex] ''0.1.0'' [''karmi/fake-economy''] ''routing-features.v1'' = Inl ''ZeroDivisionError''
   \<and> (\<forall>message. rejected message \<noteq> ''ZeroDivisionError'')"
proof -
  have "trial_decision (sample_loaded [zero_cap]) [zero_cap] [''karmi/fake-economy''] = Inl ''ZeroDivisionError''"
    by (simp add: trial_decision_def probabilities_def features_def sample_loaded_def sample_schema_def with_key_def with_arr_def
        checked_def probe_source_def zero_cap_def with_obj_def apply_feature_def apply_sourced_def PROBE_CONTEXT_def jget_def
        jget_default_def float_overflow_def apply_numeric_def json_float_def)
  then show ?thesis using sample_load [of "[zero_cap]"] sample_parameters_1 by (simp add: checked_def rejected_def)
qed

end
