(* ===== verification/Routing.thy ===== *)
theory Routing
  imports Bundle Reply
begin

text \<open>
  Routing evidence (\<open>daily_agent/parakh/routing.py\<close>): the actions a process can execute, the features
  of a request, and the records a run leaves for the optimiser. The JSON columns are kept as the values
  they encode.
\<close>

definition KARMI_VERSION :: string where "KARMI_VERSION = ''0.1.0''"
definition FEATURE_SCHEMA_VERSION :: string where "FEATURE_SCHEMA_VERSION = ''routing-features.v1''"
definition STATIC_POLICY_VERSION :: string where "STATIC_POLICY_VERSION = ''karmi-static-v1''"
definition HARNESS_VERSION :: string where "HARNESS_VERSION = ''karmi-'' @ KARMI_VERSION"
definition PROMPT_VERSION :: string where "PROMPT_VERSION = ''karmi-prompts-v2''"
definition LOCAL_ACTION :: string where "LOCAL_ACTION = ''karmi/fake-economy''"
definition LIVE_ACTION :: string where "LIVE_ACTION = ''typesafe/system-one''"

definition ROUTE_ACTIONS :: "(string \<times> string) list" where
  "ROUTE_ACTIONS = [(''fake-economy'', LOCAL_ACTION), (''typesafe-system-one'', LIVE_ACTION)]"

definition KNOWN_ACTIONS :: "string list" where "KNOWN_ACTIONS = [LOCAL_ACTION, LIVE_ACTION]"

definition CONTRACT_TIERS :: "(string \<times> string) list" where
  "CONTRACT_TIERS = [(''ananta'', ''ananta''), (''yanta'', ''yanta''), (''trika'', ''trika''), (''parth'', ''part'')]"

definition INTENT_DOMAINS :: "(string \<times> string) list" where
  "INTENT_DOMAINS = [(''create_task'', ''task_planning''), (''general_draft'', ''communication'')]"

definition KARMI_MAX_INPUT_TOKENS :: int where "KARMI_MAX_INPUT_TOKENS = 32000"

text \<open>\<open>None\<close> is the \<open>UnknownPlanError\<close>.\<close>

definition contract_tier :: "string \<Rightarrow> string option" where
  "contract_tier plan = map_of CONTRACT_TIERS plan"

definition task_domain :: "string option \<Rightarrow> string" where
  "task_domain intent =
     (case map_of INTENT_DOMAINS (case intent of None \<Rightarrow> [] | Some i \<Rightarrow> i) of None \<Rightarrow> ''communication'' | Some d \<Rightarrow> d)"

text \<open>\<open>None\<close> is the \<open>KeyError\<close>.\<close>

definition action_for_route :: "string \<Rightarrow> string option" where
  "action_for_route route = (case map_of ROUTE_ACTIONS route of
       Some a \<Rightarrow> Some a
     | None \<Rightarrow> if CHR ''/'' \<in> set route then Some route else None)"

definition route_for_action :: "string \<Rightarrow> string" where
  "route_for_action act = (case List.find (\<lambda>(route, known). known = act) ROUTE_ACTIONS of
       Some (route, _) \<Rightarrow> route
     | None \<Rightarrow> act)"

definition known_actions :: "model_registry \<Rightarrow> string list" where
  "known_actions registry = KNOWN_ACTIONS @ sort (map action (mr_models registry))"

definition process_actions :: "settings \<Rightarrow> plan_policy_row option \<Rightarrow> gateway option \<Rightarrow> string list" where
  "process_actions settings plan gw =
     sort ([LOCAL_ACTION] @ (if live_models_enabled settings then [LIVE_ACTION] else [])
       @ (case (gw, plan) of (Some g, Some p) \<Rightarrow> if live g then eligible_actions g p else [] | _ \<Rightarrow> []))"

section \<open>The exported registry\<close>

record registry_entry =
  ry_provider :: string
  ry_model :: string
  ry_model_version :: "string option"
  ry_max_context_tokens :: int
  ry_supports_tools :: bool
  ry_supports_structured_output :: bool
  ry_estimated_input_cost_per_token :: real
  ry_estimated_output_cost_per_token :: real

definition exported_registry :: "model_registry \<Rightarrow> registry_entry list" where
  "exported_registry registry =
     [\<lparr>ry_provider = ''karmi'', ry_model = ''fake-economy'', ry_model_version = Some ''local-deterministic'',
       ry_max_context_tokens = KARMI_MAX_INPUT_TOKENS, ry_supports_tools = False, ry_supports_structured_output = False,
       ry_estimated_input_cost_per_token = 0, ry_estimated_output_cost_per_token = 0\<rparr>,
      \<lparr>ry_provider = ''typesafe'', ry_model = ''system-one'', ry_model_version = None,
       ry_max_context_tokens = KARMI_MAX_INPUT_TOKENS, ry_supports_tools = False, ry_supports_structured_output = True,
       ry_estimated_input_cost_per_token = of_int TYPESAFE_INPUT_MICRO_PER_1K / 1000 / 1000000,
       ry_estimated_output_cost_per_token = of_int TYPESAFE_OUTPUT_MICRO_PER_1K / 1000 / 1000000\<rparr>]
     @ map (\<lambda>m. \<lparr>ry_provider = rm_provider m, ry_model = rm_model_id m, ry_model_version = None,
         ry_max_context_tokens = rm_context_length m, ry_supports_tools = False,
         ry_supports_structured_output = rm_supports_structured_output m,
         ry_estimated_input_cost_per_token = 0, ry_estimated_output_cost_per_token = 0\<rparr>) (mr_models registry)"

section \<open>The features of a request\<close>

text \<open>\<open>round(x, 6)\<close>: half to even\<close>

definition round_half_even :: "rat \<Rightarrow> int" where
  "round_half_even x = (let f = \<lfloor>x\<rfloor>; r = x - of_int f in
     if r < 1 / 2 then f else if r > 1 / 2 then f + 1 else if even f then f else f + 1)"

definition round6 :: "rat \<Rightarrow> rat" where
  "round6 x = of_int (round_half_even (x * 1000000)) / 1000000"

definition request_context :: "plan_policy_row \<Rightarrow> utext \<Rightarrow> string option \<Rightarrow> routing_context option" where
  "request_context plan message intent =
     (let estimated = max 1 (int (utf8_len message) div 4) in
      map_option (\<lambda>tier. \<lparr>rc_tier = tier, rc_task_domain = task_domain intent, rc_estimated_input_tokens = estimated,
        rc_context_utilization_ratio = round6 (min 1 (of_int estimated / of_int (input_tokens plan))),
        rc_tool_count = 0, rc_requires_structured_output = False, rc_requires_tools = False, rc_requires_memory = False,
        rc_requires_external_data = False, rc_conversation_depth = 0, rc_retry_number = 0,
        rc_previous_tool_failure = False, rc_latency_slo_ms = None\<rparr>) (contract_tier (plan_id plan)))"

text \<open>The context as the mapping the policy reads\<close>

definition context_json :: "routing_context \<Rightarrow> feature_context" where
  "context_json c = [(''tier'', JStr (rc_tier c)), (''task_domain'', JStr (rc_task_domain c)),
     (''estimated_input_tokens'', JInt (rc_estimated_input_tokens c)),
     (''context_utilization_ratio'', JFloat (of_rat (rc_context_utilization_ratio c))), (''tool_count'', JInt (rc_tool_count c)),
     (''requires_structured_output'', JBool (rc_requires_structured_output c)),
     (''requires_tools'', JBool (rc_requires_tools c)), (''requires_memory'', JBool (rc_requires_memory c)),
     (''requires_external_data'', JBool (rc_requires_external_data c)),
     (''conversation_depth'', JInt (rc_conversation_depth c)), (''retry_number'', JInt (rc_retry_number c)),
     (''previous_tool_failure'', JBool (rc_previous_tool_failure c)),
     (''latency_slo_ms'', case rc_latency_slo_ms c of None \<Rightarrow> JNull | Some ms \<Rightarrow> JInt ms)]"

section \<open>The evidence of a run\<close>

record run_timing =
  ti_started_at :: datetime
  ti_completed_at :: datetime
  ti_latency_ms :: real

definition local_attempt :: routing_attempt where
  "local_attempt = \<lparr>at_provider = ''karmi'', at_model = ''fake-economy'', at_operation = ''generate'',
     at_input_tokens = None, at_output_tokens = None, at_cost_micro = Some LOCAL_FAKE_COST_MICRO, at_measurement = ''fixed''\<rparr>"

definition call_attempt :: "provider_call \<Rightarrow> routing_attempt" where
  "call_attempt call = \<lparr>at_provider = pc_provider call, at_model = pc_model_id call, at_operation = pc_operation call,
     at_input_tokens = pc_input_tokens call, at_output_tokens = pc_output_tokens call,
     at_cost_micro = pc_cost_micro call, at_measurement = pc_measurement call\<rparr>"

definition attempts_of :: "generation_result \<Rightarrow> routing_attempt list" where
  "attempts_of gn = (if gn_provider_calls gn = [] then [local_attempt] else map call_attempt (gn_provider_calls gn))"

definition insert_routing_record :: "routing_record \<Rightarrow> unit sop" where
  "insert_routing_record row s =
     (if select_first (\<lambda>r. rr_run_id r = rr_run_id row) (routing_records s) \<noteq> None then Raise IntegrityError s
      else Ok () (s\<lparr>routing_records := routing_records s @ [row]\<rparr>))"

definition same_decision :: "routing_decision \<Rightarrow> routing_decision \<Rightarrow> bool" where
  "same_decision d e \<longleftrightarrow> rd_run_id d = rd_run_id e \<and> rd_shadow d = rd_shadow e \<and> rd_policy_version d = rd_policy_version e"

definition insert_decision :: "(nat \<Rightarrow> routing_decision) \<Rightarrow> unit sop" where
  "insert_decision mk =
     andthen (insert_row (\<lambda>s. list_ex (same_decision (mk 0)) (routing_decisions s)
           \<or> \<not> (0 < rd_selection_probability (mk 0) \<and> rd_selection_probability (mk 0) \<le> 1)) mk
       (\<lambda>d s. s\<lparr>routing_decisions := routing_decisions s @ [d]\<rparr>)) (\<lambda>_. ret ())"

text \<open>\<open>shadow\<close> is \<open>shadow_select\<close> on the process's cache and bundle store, seeded by the run id: \<open>Inl\<close> is
  any exception.\<close>

type_synonym shadow_fn = "db \<Rightarrow> feature_context \<Rightarrow> string list \<Rightarrow> nat \<Rightarrow> string + decision option"

definition record_shadow :: "shadow_fn \<Rightarrow> nat \<Rightarrow> routing_context \<Rightarrow> string list \<Rightarrow> datetime \<Rightarrow> unit sop" where
  "record_shadow shadow run_id ctx eligible created_at =
     andthen (query (\<lambda>s. shadow s (context_json ctx) eligible run_id)) (\<lambda>r.
     case r of
       Inr (Some d) \<Rightarrow> insert_decision (\<lambda>i. \<lparr>rd_id = i, rd_run_id = run_id, rd_shadow = True,
         rd_policy_version = de_policy_version d,
         rd_feature_schema_version = (case de_feature_schema_version d of JStr v \<Rightarrow> v | _ \<Rightarrow> []),
         rd_selected_action = de_selected_action d, rd_selection_probability = de_selection_probability d,
         rd_exploration = de_exploration d, rd_eligible_actions = eligible, rd_created_at = created_at\<rparr>)
     | _ \<Rightarrow> ret ())"

definition record_routing_evidence ::
  "shadow_fn \<Rightarrow> nat \<Rightarrow> settings \<Rightarrow> plan_policy_row \<Rightarrow> utext \<Rightarrow> generation_result \<Rightarrow> run_timing \<Rightarrow> gateway option
   \<Rightarrow> routing_context sop" where
  "record_routing_evidence shadow run_id settings plan message gn timing gw =
     (case request_context plan message (gn_intent gn) of
        None \<Rightarrow> raise (ValueError ''UnknownPlanError'')
      | Some ctx \<Rightarrow>
          (case action_for_route (gn_route gn) of
             None \<Rightarrow> raise (RuntimeError ''KeyError'')
           | Some executed \<Rightarrow>
               let eligible = process_actions settings (Some plan) gw in
               andthen (insert_routing_record \<lparr>rr_run_id = run_id, rr_tier = rc_tier ctx, rr_task_domain = rc_task_domain ctx,
                 rr_routing_context = ctx, rr_attempts = attempts_of gn, rr_harness_version = HARNESS_VERSION,
                 rr_prompt_version = PROMPT_VERSION, rr_policy_version = STATIC_POLICY_VERSION,
                 rr_feature_schema_version = FEATURE_SCHEMA_VERSION, rr_executed_action = executed,
                 rr_latency_ms = ti_latency_ms timing, rr_cost_micro = measured_cost_micro (gn_provider_calls gn),
                 rr_started_at = ti_started_at timing, rr_completed_at = ti_completed_at timing\<rparr>) (\<lambda>_.
               andthen (insert_decision (\<lambda>i. \<lparr>rd_id = i, rd_run_id = run_id, rd_shadow = False,
                 rd_policy_version = STATIC_POLICY_VERSION, rd_feature_schema_version = FEATURE_SCHEMA_VERSION,
                 rd_selected_action = executed, rd_selection_probability = 1, rd_exploration = False,
                 rd_eligible_actions = eligible, rd_created_at = ti_started_at timing\<rparr>)) (\<lambda>_.
               andthen (record_shadow shadow run_id ctx eligible (ti_started_at timing)) (\<lambda>_.
               ret ctx)))))"

end
