(* ===== verification/Receiver.thy ===== *)
theory Receiver
  imports Routing
begin

text \<open>
  The life of a policy bundle (\<open>daily_agent/parakh/receiver.py\<close> and the commands of
  \<open>daily_agent/parakh/cli.py\<close>): receiving a verified copy into the store, moving it between its states,
  and the decision of the bundle in shadow. The state is the database, the bundle store on disk and the
  process's cache of verified bundles.
\<close>

section \<open>States of a bundle\<close>

definition RECEIVED :: string where "RECEIVED = ''received''"
definition STAGED :: string where "STAGED = ''staged''"
definition SHADOW :: string where "SHADOW = ''shadow''"
definition RETIRED :: string where "RETIRED = ''retired''"

text \<open>\<open>TRANSITIONS.get(state, frozenset())\<close>\<close>

definition TRANSITIONS :: "string \<Rightarrow> string list" where
  "TRANSITIONS state = (if state = RECEIVED then [STAGED, RETIRED] else if state = STAGED then [SHADOW, RETIRED]
     else if state = SHADOW then [RETIRED] else [])"

definition LIVE_TRAFFIC_STATES :: "string list" where "LIVE_TRAFFIC_STATES = [''canary'', ''production'']"

text \<open>\<open>_VERSION_RE\<close>; its \<open>$\<close> also matches before a final line end.\<close>

definition version_char :: "char \<Rightarrow> bool" where
  "version_char c \<longleftrightarrow> is_letter c \<or> is_digit c \<or> c \<in> {CHR ''_'', CHR ''.'', CHR ''-''}"

definition safe_version :: "string \<Rightarrow> bool" where
  "safe_version v =
     (let w = (if v \<noteq> [] \<and> last v = CHR 0x0A then butlast v else v)
      in w \<noteq> [] \<and> (is_letter (hd w) \<or> is_digit (hd w)) \<and> list_all version_char w \<and> length w \<le> 80)"

section \<open>The store and the cache\<close>

type_synonym cache_key = "nat \<times> string \<times> string list"

record parakh_state =
  ps_db :: db
  ps_store :: "(string \<times> bundle_dir) list"
  ps_loaded :: "(cache_key \<times> loaded_policy) list"

type_synonym 'a pop = "(string, 'a, parakh_state) op"

text \<open>What a command takes from outside: the parsers and hashes, the model registry as
  \<open>load_registry\<close> returns it, and the time\<close>

record receiver_env =
  rx_bundle :: bundle_env
  rx_registry :: "string + model_registry"
  rx_now :: datetime

definition lift_checked :: "string + 'a \<Rightarrow> 'a pop" where
  "lift_checked r s = (case r of Inl e \<Rightarrow> Raise e s | Inr v \<Rightarrow> Ok v s)"

definition query_db :: "(db \<Rightarrow> 'a) \<Rightarrow> 'a pop" where
  "query_db f s = Ok (f (ps_db s)) s"

definition update_db :: "(db \<Rightarrow> db) \<Rightarrow> unit pop" where
  "update_db f s = Ok () (s\<lparr>ps_db := f (ps_db s)\<rparr>)"

definition cache_key :: "policy_bundle \<Rightarrow> settings \<Rightarrow> cache_key" where
  "cache_key record settings = (po_id record, po_checksums_sha256 record, sort (parakh_trusted_public_keys settings))"

definition bundle_store :: "settings \<Rightarrow> string" where
  "bundle_store settings = data_dir settings @ ''/policy_bundles''"

definition verify_bundle :: "receiver_env \<Rightarrow> settings \<Rightarrow> bundle_dir \<Rightarrow> string + loaded_policy" where
  "verify_bundle env settings dir =
     require (parakh_trusted_public_keys settings \<noteq> []) (rejected ''no trusted Parakh signing keys configured'')
     (checked (rx_registry env) (\<lambda>registry.
      load_bundle (rx_bundle env) dir (parakh_trusted_public_keys settings) KARMI_VERSION (known_actions registry)
        FEATURE_SCHEMA_VERSION))"

definition add_event :: "receiver_env \<Rightarrow> nat \<Rightarrow> string option \<Rightarrow> string \<Rightarrow> string \<Rightarrow> string \<Rightarrow> unit pop" where
  "add_event env bundle_id from_state to_state actor reason =
     update_db (\<lambda>s. s\<lparr>policy_events := policy_events s @ [\<lparr>pv_id = next_id s, pv_bundle_id = bundle_id,
         pv_from_state = from_state, pv_to_state = to_state, pv_actor = actor, pv_reason = reason,
         pv_created_at = rx_now env\<rparr>], next_id := Suc (next_id s)\<rparr>)"

definition require_operator :: "string \<Rightarrow> string \<Rightarrow> unit pop" where
  "require_operator actor reason =
     (if strip_string actor = [] \<or> strip_string reason = [] then raise ''BundleStateError'' else ret ())"

definition find_bundle :: "string \<Rightarrow> db \<Rightarrow> policy_bundle option" where
  "find_bundle version s = select_first (\<lambda>b. po_artifact_version b = version) (policy_bundles s)"

section \<open>Receiving\<close>

text \<open>The copy in the store: one left behind must be the same bundle; otherwise \<open>copied\<close>, what copying
  the source gave, is verified again and renamed into place.\<close>

definition store_copy :: "receiver_env \<Rightarrow> settings \<Rightarrow> string \<Rightarrow> string \<Rightarrow> bundle_dir \<Rightarrow> unit pop" where
  "store_copy env settings target checksums copied s =
     (case map_of (ps_store s) target of
        Some dir \<Rightarrow>
          (case verify_bundle env settings dir of
             Inl e \<Rightarrow> Raise e s
           | Inr stored \<Rightarrow> if lp_checksums_sha256 stored \<noteq> checksums
               then Raise (rejected ''stored copy differs; refusing overwrite'') s else Ok () s)
      | None \<Rightarrow>
          (case verify_bundle env settings copied of
             Inl e \<Rightarrow> Raise e s
           | Inr incoming \<Rightarrow> if lp_checksums_sha256 incoming \<noteq> checksums
               then Raise (rejected ''bundle changed while being copied'') s
               else Ok () (s\<lparr>ps_store := (target, copied) # ps_store s\<rparr>)))"

definition insert_bundle :: "receiver_env \<Rightarrow> string \<Rightarrow> loaded_policy \<Rightarrow> string \<Rightarrow> policy_bundle pop" where
  "insert_bundle env version loaded target s =
     (if find_bundle version (ps_db s) \<noteq> None then Raise ''IntegrityError'' s
      else let b = \<lparr>po_id = next_id (ps_db s), po_artifact_version = version,
               po_checksums_sha256 = lp_checksums_sha256 loaded, po_signer_public_key = lp_signer_public_key loaded,
               po_storage_path = target, po_state = RECEIVED, po_received_at = rx_now env\<rparr>
           in Ok b (s\<lparr>ps_db := (ps_db s)\<lparr>policy_bundles := policy_bundles (ps_db s) @ [b],
                next_id := Suc (next_id (ps_db s))\<rparr>\<rparr>))"

definition receive_new ::
  "receiver_env \<Rightarrow> settings \<Rightarrow> string \<Rightarrow> loaded_policy \<Rightarrow> bundle_dir \<Rightarrow> string \<Rightarrow> string \<Rightarrow> policy_bundle pop" where
  "receive_new env settings version loaded copied actor reason =
     (let target = bundle_store settings @ ''/'' @ version in
      andthen (store_copy env settings target (lp_checksums_sha256 loaded) copied) (\<lambda>_.
      andthen (insert_bundle env version loaded target) (\<lambda>record.
      andthen (add_event env (po_id record) None RECEIVED actor reason) (\<lambda>_.
      ret record))))"

definition receive_bundle ::
  "receiver_env \<Rightarrow> settings \<Rightarrow> bundle_dir \<Rightarrow> bundle_dir \<Rightarrow> string \<Rightarrow> string \<Rightarrow> policy_bundle pop" where
  "receive_bundle env settings source copied actor reason =
     andthen (require_operator actor reason) (\<lambda>_.
     andthen (lift_checked (verify_bundle env settings source)) (\<lambda>loaded.
     andthen (lift_checked (policy_version_text (be_repr_float (rx_bundle env)) loaded)) (\<lambda>version.
     if \<not> safe_version version then raise (rejected ''unsafe artifact version'')
     else andthen (query_db (find_bundle version)) (\<lambda>existing.
     case existing of
       Some record \<Rightarrow>
         if po_checksums_sha256 record \<noteq> lp_checksums_sha256 loaded
         then raise (rejected ''artifact version already received with different contents'') else ret record
     | None \<Rightarrow> receive_new env settings version loaded copied actor reason))))"

section \<open>Loading and moving\<close>

text \<open>A path that is not in the store is unreadable.\<close>

definition load_stored :: "receiver_env \<Rightarrow> settings \<Rightarrow> policy_bundle \<Rightarrow> loaded_policy pop" where
  "load_stored env settings record s =
     (let key = cache_key record settings in
      case map_of (ps_loaded s) key of
        Some cached \<Rightarrow> Ok cached s
      | None \<Rightarrow>
          (case verify_bundle env settings (case map_of (ps_store s) (po_storage_path record) of None \<Rightarrow> [] | Some dir \<Rightarrow> dir) of
             Inl e \<Rightarrow> Raise e s
           | Inr loaded \<Rightarrow>
               (case policy_version_text (be_repr_float (rx_bundle env)) loaded of
                  Inl e \<Rightarrow> Raise e s
                | Inr version \<Rightarrow>
                    if lp_checksums_sha256 loaded \<noteq> po_checksums_sha256 record \<or> version \<noteq> po_artifact_version record
                    then Raise (rejected ''stored copy no longer matches'') s
                    else Ok loaded (s\<lparr>ps_loaded := (key, loaded) # ps_loaded s\<rparr>))))"

definition set_state :: "nat \<Rightarrow> string \<Rightarrow> db \<Rightarrow> db" where
  "set_state bundle_id state s =
     s\<lparr>policy_bundles := update_where (\<lambda>b. po_id b = bundle_id) (\<lambda>b. b\<lparr>po_state := state\<rparr>) (policy_bundles s)\<rparr>"

fun retire_all :: "receiver_env \<Rightarrow> string \<Rightarrow> string \<Rightarrow> policy_bundle list \<Rightarrow> unit pop" where
  "retire_all env actor reason [] = ret ()"
| "retire_all env actor reason (b # bs) =
     andthen (add_event env (po_id b) (Some SHADOW) RETIRED actor reason) (\<lambda>_.
     andthen (update_db (set_state (po_id b) RETIRED)) (\<lambda>_.
     retire_all env actor reason bs))"

definition other_shadows :: "nat \<Rightarrow> db \<Rightarrow> policy_bundle list" where
  "other_shadows bundle_id s = filter (\<lambda>b. po_state b = SHADOW \<and> po_id b \<noteq> bundle_id) (policy_bundles s)"

text \<open>The re-verification of the stored copy before staging and shadowing\<close>

definition reverify :: "receiver_env \<Rightarrow> settings \<Rightarrow> policy_bundle \<Rightarrow> string \<Rightarrow> unit pop" where
  "reverify env settings record to_state s =
     (if to_state \<noteq> STAGED \<and> to_state \<noteq> SHADOW then Ok () s
      else andthen (load_stored env settings record) (\<lambda>_. ret ())
        (s\<lparr>ps_loaded := filter (\<lambda>(k, _). k \<noteq> cache_key record settings) (ps_loaded s)\<rparr>))"

definition supersede :: "receiver_env \<Rightarrow> string \<Rightarrow> policy_bundle \<Rightarrow> string \<Rightarrow> unit pop" where
  "supersede env actor record to_state =
     (if to_state \<noteq> SHADOW then ret ()
      else andthen (query_db (other_shadows (po_id record))) (\<lambda>others.
        retire_all env actor (''superseded in shadow by '' @ po_artifact_version record) others))"

definition move_bundle ::
  "receiver_env \<Rightarrow> settings \<Rightarrow> string \<Rightarrow> string \<Rightarrow> string \<Rightarrow> string \<Rightarrow> policy_bundle pop" where
  "move_bundle env settings version to_state actor reason =
     andthen (require_operator actor reason) (\<lambda>_.
     if to_state \<in> set LIVE_TRAFFIC_STATES then raise ''BundleStateError''
     else andthen (query_db (find_bundle version)) (\<lambda>found.
     case found of
       None \<Rightarrow> raise ''BundleStateError''
     | Some record \<Rightarrow>
         if to_state \<notin> set (TRANSITIONS (po_state record)) then raise ''BundleStateError''
         else andthen (reverify env settings record to_state) (\<lambda>_.
         andthen (supersede env actor record to_state) (\<lambda>_.
         andthen (add_event env (po_id record) (Some (po_state record)) to_state actor reason) (\<lambda>_.
         andthen (update_db (set_state (po_id record) to_state)) (\<lambda>_.
         ret (record\<lparr>po_state := to_state\<rparr>)))))))"

text \<open>\<open>draw\<close> is the first number of the generator seeded with the run's id.\<close>

definition shadow_select ::
  "receiver_env \<Rightarrow> settings \<Rightarrow> feature_context \<Rightarrow> string list \<Rightarrow> real \<Rightarrow> decision option pop" where
  "shadow_select env settings ctx eligible draw =
     andthen (query_db (\<lambda>s. select_first (\<lambda>b. po_state b = SHADOW) (policy_bundles s))) (\<lambda>found.
     case found of
       None \<Rightarrow> ret None
     | Some record \<Rightarrow>
         andthen (load_stored env settings record) (\<lambda>loaded.
         lift_checked (select_decision (be_repr_float (rx_bundle env)) loaded ctx eligible draw True False)))"

text \<open>The decision as \<open>record_routing_evidence\<close> asks for it, in a process whose cache and store are those
  of \<open>st\<close>; \<open>first_draw\<close> is the first number of the generator seeded with a run's id.\<close>

definition shadow_of :: "receiver_env \<Rightarrow> settings \<Rightarrow> (nat \<Rightarrow> real) \<Rightarrow> parakh_state \<Rightarrow> shadow_fn" where
  "shadow_of env settings first_draw st s ctx eligible run_id =
     (case shadow_select env settings ctx eligible (first_draw run_id) (st\<lparr>ps_db := s\<rparr>) of
        Ok d _ \<Rightarrow> Inr d | Raise e _ \<Rightarrow> Inl e)"

definition list_bundles :: "db \<Rightarrow> (policy_bundle \<times> policy_event list) list" where
  "list_bundles s = map (\<lambda>b. (b, sort_key pv_created_at (filter (\<lambda>e. pv_bundle_id e = po_id b) (policy_events s))))
     (sort_key po_received_at (policy_bundles s))"

section \<open>The commands\<close>

text \<open>A command commits when it returns; a raise rolls the database back, and only that.\<close>

definition command :: "'a pop \<Rightarrow> 'a pop" where
  "command m s = (case m s of Ok v t \<Rightarrow> Ok v t | Raise e t \<Rightarrow> Raise e (t\<lparr>ps_db := ps_db s\<rparr>))"

inductive policy_step :: "parakh_state \<Rightarrow> parakh_state \<Rightarrow> bool" where
  Receive: "policy_step s (state_of (command (receive_bundle env settings source copied actor reason) s))"
| Move: "policy_step s (state_of (command (move_bundle env settings version to_state actor reason) s))"
| Serve: "policy_step s (state_of (shadow_select env settings ctx eligible draw s))"

inductive policy_reachable :: "parakh_state \<Rightarrow> bool" where
  Fresh: "policy_bundles (ps_db s) = [] \<Longrightarrow> policy_events (ps_db s) = [] \<Longrightarrow> policy_reachable s"
| Next: "policy_reachable s \<Longrightarrow> policy_step s t \<Longrightarrow> policy_reachable t"

section \<open>The audit trail\<close>

definition allowed_move :: "string option \<Rightarrow> string \<Rightarrow> bool" where
  "allowed_move prior to_state = (case prior of None \<Rightarrow> to_state = RECEIVED | Some state \<Rightarrow> to_state \<in> set (TRANSITIONS state))"

text \<open>The events lead from one state to another by allowed moves.\<close>

fun leads :: "string option \<Rightarrow> policy_event list \<Rightarrow> string option \<Rightarrow> bool" where
  "leads prior [] to_state \<longleftrightarrow> prior = to_state"
| "leads prior (e # es) to_state \<longleftrightarrow>
     pv_from_state e = prior \<and> allowed_move prior (pv_to_state e) \<and> leads (Some (pv_to_state e)) es to_state"

definition events_about :: "nat \<Rightarrow> db \<Rightarrow> policy_event list" where
  "events_about i s = filter (\<lambda>e. pv_bundle_id e = i) (policy_events s)"

definition audited :: "db \<Rightarrow> bool" where
  "audited s \<longleftrightarrow> distinct (map po_id (policy_bundles s)) \<and> distinct (map po_artifact_version (policy_bundles s))
     \<and> (\<forall>b \<in> set (policy_bundles s). po_id b < next_id s \<and> leads None (events_about (po_id b) s) (Some (po_state b)))
     \<and> (\<forall>e \<in> set (policy_events s). pv_bundle_id e \<in> po_id ` set (policy_bundles s))
     \<and> length (filter (\<lambda>b. po_state b = SHADOW) (policy_bundles s)) \<le> 1"

lemma leads_snoc: "leads prior (es @ [e]) to_state \<longleftrightarrow>
    leads prior es (pv_from_state e) \<and> allowed_move (pv_from_state e) (pv_to_state e) \<and> to_state = Some (pv_to_state e)"
  by (induction prior es to_state rule: leads.induct) auto

lemma state_names [simp]:
  "RECEIVED \<noteq> STAGED" "RECEIVED \<noteq> SHADOW" "RECEIVED \<noteq> RETIRED" "STAGED \<noteq> SHADOW" "STAGED \<noteq> RETIRED" "SHADOW \<noteq> RETIRED"
  "STAGED \<noteq> RECEIVED" "SHADOW \<noteq> RECEIVED" "RETIRED \<noteq> RECEIVED" "SHADOW \<noteq> STAGED" "RETIRED \<noteq> STAGED" "RETIRED \<noteq> SHADOW"
  by (simp_all add: RECEIVED_def STAGED_def SHADOW_def RETIRED_def)

definition log_move :: "receiver_env \<Rightarrow> nat \<Rightarrow> string option \<Rightarrow> string \<Rightarrow> string \<Rightarrow> string \<Rightarrow> db \<Rightarrow> db" where
  "log_move env i prior to_state actor reason s = s\<lparr>policy_events := policy_events s @ [\<lparr>pv_id = next_id s, pv_bundle_id = i,
     pv_from_state = prior, pv_to_state = to_state, pv_actor = actor, pv_reason = reason, pv_created_at = rx_now env\<rparr>],
     next_id := Suc (next_id s)\<rparr>"

lemma add_event_log: "add_event env i prior to_state actor reason s = Ok () (s\<lparr>ps_db := log_move env i prior to_state actor reason (ps_db s)\<rparr>)"
  by (simp add: add_event_def update_db_def log_move_def)

lemma filter_count_update:
  assumes "distinct (map po_id bs)" and "b \<in> set bs" and "st = SHADOW \<Longrightarrow> \<forall>c \<in> set bs. po_state c \<noteq> SHADOW"
    and "length (filter (\<lambda>b. po_state b = SHADOW) bs) \<le> 1"
  shows "length (filter (\<lambda>b. po_state b = SHADOW) (update_where (\<lambda>c. po_id c = po_id b) (\<lambda>c. c\<lparr>po_state := st\<rparr>) bs)) \<le> 1"
proof (cases "st = SHADOW")
  case True
  then have none: "\<forall>c \<in> set bs. po_state c \<noteq> SHADOW" using assms(3) by simp
  have "filter (\<lambda>b. po_state b = SHADOW) (update_where (\<lambda>c. po_id c = po_id b) (\<lambda>c. c\<lparr>po_state := st\<rparr>) bs)
      = map (\<lambda>c. c\<lparr>po_state := st\<rparr>) (filter (\<lambda>c. po_id c = po_id b) bs)"
    using none True by (induction bs) auto
  moreover have "row_count (\<lambda>c. po_id c = po_id b) bs \<le> 1"
    by (rule row_count_le_1 [OF assms(1)]) simp
  ultimately show ?thesis by (simp add: row_count_def)
next
  case False
  have "length (filter (\<lambda>b. po_state b = SHADOW) (update_where (\<lambda>c. po_id c = po_id b) (\<lambda>c. c\<lparr>po_state := st\<rparr>) cs))
      \<le> length (filter (\<lambda>b. po_state b = SHADOW) cs)" for cs
    using False by (induction cs) auto
  with assms(4) show ?thesis using order_trans by blast
qed

lemma audited_move:
  assumes a: "audited s" and b: "b \<in> set (policy_bundles s)" and t: "to_state \<in> set (TRANSITIONS (po_state b))"
    and sh: "to_state = SHADOW \<Longrightarrow> \<forall>c \<in> set (policy_bundles s). po_state c \<noteq> SHADOW"
  shows "audited (set_state (po_id b) to_state (log_move env (po_id b) (Some (po_state b)) to_state actor reason s))"
proof -
  let ?t = "set_state (po_id b) to_state (log_move env (po_id b) (Some (po_state b)) to_state actor reason s)"
  have bundles: "policy_bundles ?t = update_where (\<lambda>c. po_id c = po_id b) (\<lambda>c. c\<lparr>po_state := to_state\<rparr>) (policy_bundles s)"
    by (simp add: set_state_def log_move_def)
  have d: "distinct (map po_id (policy_bundles s))" using a by (simp add: audited_def)
  have ids: "map po_id (policy_bundles ?t) = map po_id (policy_bundles s)"
    "map po_artifact_version (policy_bundles ?t) = map po_artifact_version (policy_bundles s)"
    unfolding bundles by simp_all
  have row: "po_id c < next_id ?t \<and> leads None (events_about (po_id c) ?t) (Some (po_state c))"
    if c: "c \<in> set (policy_bundles ?t)" for c
  proof -
    obtain c0 where c0: "c0 \<in> set (policy_bundles s)" "c = (if po_id c0 = po_id b then c0\<lparr>po_state := to_state\<rparr> else c0)"
      using c unfolding bundles set_update_where by auto
    have old: "po_id c0 < next_id s" "leads None (events_about (po_id c0) s) (Some (po_state c0))"
      using a c0(1) by (auto simp: audited_def)
    show ?thesis
    proof (cases "po_id c0 = po_id b")
      case True
      then have "c0 = b" using key_unique [OF d c0(1) b] by simp
      then show ?thesis using old c0(2) t
        by (simp add: events_about_def set_state_def log_move_def leads_snoc allowed_move_def)
    next
      case False
      then show ?thesis using old c0(2) by (simp add: events_about_def set_state_def log_move_def)
    qed
  qed
  have ev: "pv_bundle_id e \<in> po_id ` set (policy_bundles ?t)" if "e \<in> set (policy_events ?t)" for e
  proof -
    have "po_id ` set (policy_bundles ?t) = po_id ` set (policy_bundles s)" using ids(1) by (metis list.set_map)
    then show ?thesis using that a b by (auto simp: audited_def set_state_def log_move_def)
  qed
  have "length (filter (\<lambda>b. po_state b = SHADOW) (policy_bundles ?t)) \<le> 1"
    unfolding bundles by (rule filter_count_update [OF d b sh]) (use a in \<open>auto simp: audited_def\<close>)
  then show ?thesis unfolding audited_def using row ev ids a by (auto simp: audited_def)
qed

lemma shadow_transitions: "SHADOW \<in> set (TRANSITIONS state) \<Longrightarrow> state = STAGED"
  by (auto simp: TRANSITIONS_def split: if_splits)

lemma at_most_one:
  assumes "length (filter p xs) \<le> 1" and "x \<in> set xs" and "p x"
  shows "filter p xs = [x]"
proof -
  have "x \<in> set (filter p xs)" using assms(2,3) by simp
  then show ?thesis using assms(1) by (cases "filter p xs") auto
qed

text \<open>What superseding leaves: an audited database without a bundle in shadow, the moving bundle as it
  was.\<close>

lemma supersede_audited:
  assumes a: "audited (ps_db s)" and r: "moving \<in> set (policy_bundles (ps_db s))"
    and t: "to_state \<in> set (TRANSITIONS (po_state moving))" and ok: "supersede env actor moving to_state s = Ok u s'"
  shows "audited (ps_db s') \<and> moving \<in> set (policy_bundles (ps_db s'))
    \<and> (to_state = SHADOW \<longrightarrow> (\<forall>c \<in> set (policy_bundles (ps_db s')). po_state c \<noteq> SHADOW))"
proof (cases "to_state = SHADOW")
  case False
  then show ?thesis using a r ok by (simp add: supersede_def ret_def)
next
  case True
  then have staged: "po_state moving = STAGED" using t shadow_transitions by simp
  let ?others = "other_shadows (po_id moving) (ps_db s)"
  let ?shadows = "filter (\<lambda>b. po_state b = SHADOW) (policy_bundles (ps_db s))"
  have one: "length ?shadows \<le> 1" and d: "distinct (map po_id (policy_bundles (ps_db s)))" using a by (simp_all add: audited_def)
  have "po_id x \<noteq> po_id moving" if "x \<in> set (policy_bundles (ps_db s))" "po_state x = SHADOW" for x
    using key_unique [OF d that(1) r] that(2) staged by auto
  then have others: "?others = ?shadows" by (auto simp: other_shadows_def intro!: filter_cong)
  show ?thesis
  proof (cases ?shadows)
    case Nil
    then show ?thesis using a r ok True others
      by (auto simp: supersede_def query_db_def andthen_def ret_def filter_empty_conv)
  next
    case (Cons b bs)
    then have b: "b \<in> set (policy_bundles (ps_db s))" "po_state b = SHADOW" "?shadows = [b]"
      using one by (cases bs; force simp: filter_eq_Cons_iff)+
    let ?db = "set_state (po_id b) RETIRED (log_move env (po_id b) (Some SHADOW) RETIRED actor
      (''superseded in shadow by '' @ po_artifact_version moving) (ps_db s))"
    have s': "ps_db s' = ?db"
      using ok True others b(3)
      by (simp add: supersede_def query_db_def andthen_def ret_def add_event_log update_db_def) auto
    have "audited ?db"
      using audited_move [OF a b(1), of RETIRED env actor] b(2) by (simp add: TRANSITIONS_def)
    moreover have "moving \<in> set (policy_bundles ?db)"
      using r staged b key_unique [OF d r b(1)] by (force simp: set_state_def log_move_def set_update_where image_iff)
    moreover have "po_state c \<noteq> SHADOW" if "c \<in> set (policy_bundles ?db)" for c
    proof -
      have only: "x = b" if "x \<in> set (policy_bundles (ps_db s))" "po_state x = SHADOW" for x
        using at_most_one [OF one that] b(3) by simp
      then show ?thesis using that by (auto simp: set_state_def log_move_def set_update_where)
    qed
    ultimately show ?thesis using s' by simp
  qed
qed

lemma load_stored_db: "ps_db (state_of (load_stored env settings moving s)) = ps_db s"
  by (simp add: load_stored_def Let_def split: option.split sum.split)

lemma load_stored_keeps_db:
  "load_stored env settings b s = Ok v t \<Longrightarrow> ps_db t = ps_db s" "load_stored env settings b s = Raise e t \<Longrightarrow> ps_db t = ps_db s"
  using load_stored_db [of env settings b s] by simp_all

lemma reverify_db: "reverify env settings moving to_state s = Ok u s' \<Longrightarrow> ps_db s' = ps_db s"
  using load_stored_db [of env settings moving "s\<lparr>ps_loaded := filter (\<lambda>(k, _). k \<noteq> cache_key moving settings) (ps_loaded s)\<rparr>"]
  by (auto simp: reverify_def andthen_Ok_conv ret_def split: if_splits)

lemma find_bundle_in: "find_bundle version s = Some b \<Longrightarrow> b \<in> set (policy_bundles s)"
  by (auto simp: find_bundle_def dest: select_first_Some)

lemma move_audited:
  assumes "audited (ps_db s)" and "move_bundle env settings version to_state actor reason s = Ok b s'"
  shows "audited (ps_db s')"
proof -
  obtain moving s1 s2 where r: "find_bundle version (ps_db s) = Some moving" "to_state \<in> set (TRANSITIONS (po_state moving))"
    "reverify env settings moving to_state s = Ok () s1" "supersede env actor moving to_state s1 = Ok () s2"
    and s': "ps_db s' = set_state (po_id moving) to_state
      (log_move env (po_id moving) (Some (po_state moving)) to_state actor reason (ps_db s2))"
    using assms(2) unfolding move_bundle_def
    by (auto simp: andthen_Ok_conv require_operator_def query_db_def ret_def raise_def add_event_log update_db_def
        split: if_splits option.splits)
  have s1: "ps_db s1 = ps_db s" by (rule reverify_db [OF r(3)])
  have "moving \<in> set (policy_bundles (ps_db s1))" "audited (ps_db s1)" using find_bundle_in [OF r(1)] assms(1) s1 by simp_all
  then have "audited (ps_db s2) \<and> moving \<in> set (policy_bundles (ps_db s2))
      \<and> (to_state = SHADOW \<longrightarrow> (\<forall>c \<in> set (policy_bundles (ps_db s2)). po_state c \<noteq> SHADOW))"
    using supersede_audited r(2,4) by blast
  then show ?thesis unfolding s' using r(2) by (intro audited_move) auto
qed

lemma store_copy_db: "ps_db (state_of (store_copy env settings target checksums copied s)) = ps_db s"
  by (simp add: store_copy_def split: option.split sum.split)

lemma insert_audited:
  assumes a: "audited s" and new: "find_bundle version s = None" "po_artifact_version b = version"
    and b: "po_id b = next_id s" "po_state b = RECEIVED"
  shows "audited (log_move env (po_id b) None RECEIVED actor reason
    (s\<lparr>policy_bundles := policy_bundles s @ [b], next_id := Suc (next_id s)\<rparr>))"
proof -
  have fresh: "c \<in> set (policy_bundles s) \<Longrightarrow> po_id c \<noteq> next_id s" for c using a by (force simp: audited_def)
  have none: "e \<in> set (policy_events s) \<Longrightarrow> pv_bundle_id e \<noteq> next_id s" for e using a fresh by (force simp: audited_def)
  have versions: "c \<in> set (policy_bundles s) \<Longrightarrow> po_artifact_version c \<noteq> version" for c
    using new(1) by (auto simp: find_bundle_def select_first_None)
  have "filter (\<lambda>e. pv_bundle_id e = next_id s) (policy_events s) = []" using none by (auto simp: filter_empty_conv)
  then show ?thesis
  proof -
    assume "filter (\<lambda>e. pv_bundle_id e = next_id s) (policy_events s) = []"
    have "next_id s \<notin> po_id ` set (policy_bundles s)" "version \<notin> po_artifact_version ` set (policy_bundles s)"
      using fresh versions by (metis (no_types, lifting) imageE)+
    moreover have "filter (\<lambda>e. pv_bundle_id e = po_id c) (policy_events s @ [e]) = filter (\<lambda>e. pv_bundle_id e = po_id c) (policy_events s)"
      if "c \<in> set (policy_bundles s)" "pv_bundle_id e = next_id s" for c e
      using fresh [OF that(1)] that(2) by auto
    ultimately show ?thesis
      using a b new(2) \<open>filter _ _ = []\<close>
      by (auto simp: audited_def log_move_def events_about_def allowed_move_def less_Suc_eq)
  qed
qed

lemma receive_new_audited:
  assumes "audited (ps_db s)" and "find_bundle version (ps_db s) = None"
    and "receive_new env settings version loaded copied actor reason s = Ok b s'"
  shows "audited (ps_db s')"
proof -
  obtain target s1 s2 where copy: "store_copy env settings target (lp_checksums_sha256 loaded) copied s = Ok () s1"
    and ins: "insert_bundle env version loaded target s1 = Ok b s2" "add_event env (po_id b) None RECEIVED actor reason s2 = Ok () s'"
    using assms(3) by (auto simp: receive_new_def andthen_Ok_conv ret_def Let_def)
  have db: "ps_db s1 = ps_db s" using store_copy_db [of env settings target "lp_checksums_sha256 loaded" copied s] copy by simp
  have "ps_db s' = log_move env (po_id b) None RECEIVED actor reason
      ((ps_db s)\<lparr>policy_bundles := policy_bundles (ps_db s) @ [b], next_id := Suc (next_id (ps_db s))\<rparr>)"
    and "po_id b = next_id (ps_db s)" "po_state b = RECEIVED" "po_artifact_version b = version"
    using ins db by (auto simp: insert_bundle_def add_event_log Let_def split: if_splits)
  then show ?thesis using insert_audited [OF assms(1,2)] by simp
qed

lemma receive_audited:
  assumes "audited (ps_db s)" and "receive_bundle env settings source copied actor reason s = Ok b s'"
  shows "audited (ps_db s')"
proof -
  have "\<exists>loaded version. find_bundle version (ps_db s) = None
      \<and> receive_new env settings version loaded copied actor reason s = Ok b s' \<or> s' = s"
    using assms(2) unfolding receive_bundle_def
    apply (auto simp: andthen_Ok_conv require_operator_def query_db_def lift_checked_def ret_def raise_def
        split: if_split_asm option.split_asm sum.split_asm)
    subgoal for loaded version by (cases "find_bundle version (ps_db s)") auto
    done
  then show ?thesis using assms(1) receive_new_audited by blast
qed

lemma audited_reachable: "policy_reachable s \<Longrightarrow> audited (ps_db s)"
proof (induction rule: policy_reachable.induct)
  case (Fresh s)
  then show ?case by (simp add: audited_def)
next
  case (Next s t)
  from Next.hyps(2) show ?case
  proof cases
    case (Receive env settings source copied actor reason)
    then show ?thesis using Next.IH receive_audited
      by (cases "receive_bundle env settings source copied actor reason s") (auto simp: command_def)
  next
    case (Move env settings version to_state actor reason)
    then show ?thesis using Next.IH move_audited
      by (cases "move_bundle env settings version to_state actor reason s") (auto simp: command_def)
  next
    case (Serve env settings ctx eligible draw)
    have "ps_db t = ps_db s"
      using Serve
      by (auto dest: load_stored_keeps_db simp: shadow_select_def andthen_def query_db_def ret_def lift_checked_def split: option.splits result.splits sum.splits)
    then show ?thesis using Next.IH by simp
  qed
qed

section \<open>Properties\<close>

text \<open>C27: Bundles are audited. Whatever commands operators ran, in any order and with any outcome, the
  events of a bundle lead from nothing through allowed moves to exactly the state it is in (so a
  retired bundle never comes back and none reaches live traffic), versions are unique, and at most
  one bundle is in shadow.\<close>

theorem audit_trail_is_complete:
  assumes "policy_reachable s"
  shows "list_all (\<lambda>b. leads None (events_about (po_id b) (ps_db s)) (Some (po_state b))
        \<and> po_state b \<in> {RECEIVED, STAGED, SHADOW, RETIRED}) (policy_bundles (ps_db s))
    \<and> distinct (map po_artifact_version (policy_bundles (ps_db s)))
    \<and> length (filter (\<lambda>b. po_state b = SHADOW) (policy_bundles (ps_db s))) \<le> 1"
proof -
  have "leads st es (Some t) \<Longrightarrow> st \<noteq> Some t \<Longrightarrow> t \<in> {RECEIVED, STAGED, SHADOW, RETIRED}" for st es t
    by (cases es rule: rev_cases) (auto simp: leads_snoc allowed_move_def TRANSITIONS_def split: option.splits if_splits)
  then show ?thesis using audited_reachable [OF assms] by (fastforce simp: audited_def list_all_iff)
qed

lemma shadow_of_certain:
  assumes "shadow_of env cfg first_draw st s ctx eligible run_id = Inr (Some d)" and "0 \<le> first_draw run_id" and "first_draw run_id < 1"
  shows "de_selection_probability d = 1"
proof -
  obtain p where "select_decision (be_repr_float (rx_bundle env)) p ctx eligible (first_draw run_id) True False = Inr (Some d)"
    using assms(1) by (auto simp: shadow_of_def shadow_select_def andthen_def query_db_def ret_def lift_checked_def
        split: result.splits option.splits sum.splits)
  then show ?thesis using shadow_selection assms(2,3) by blast
qed

text \<open>C28: A bundle in shadow cannot affect live traffic. Whatever bundle is in shadow, verified or broken, the
  evidence of a new run is recorded as it would be without one, with the same context, record and
  live decision or the same failure; at most one decision, marked as a shadow, is added.\<close>

theorem shadow_never_affects_live:
  assumes "0 \<le> first_draw run_id" and "first_draw run_id < 1" and "run_id \<notin> set (map rd_run_id (routing_decisions s))"
  shows "\<exists>added. length added \<le> 1 \<and> list_all rd_shadow added
    \<and> record_routing_evidence (shadow_of env cfg first_draw st) run_id settings plan message gn timing gw s =
       (case record_routing_evidence (\<lambda>_ _ _ _. Inr None) run_id settings plan message gn timing gw s of
          Raise e t \<Rightarrow> Raise e t
        | Ok ctx t \<Rightarrow> Ok ctx (t\<lparr>routing_decisions := routing_decisions t @ added, next_id := next_id t + length added\<rparr>))"
proof -
  let ?sh = "shadow_of env cfg first_draw st"
  have key: "\<exists>added. length added \<le> 1 \<and> list_all rd_shadow added \<and>
      record_shadow ?sh run_id ctx eligible created t =
        Ok () (t\<lparr>routing_decisions := routing_decisions t @ added, next_id := next_id t + length added\<rparr>)"
    if t: "\<forall>d \<in> set (routing_decisions t). rd_run_id d = run_id \<longrightarrow> \<not> rd_shadow d" for ctx eligible created t
  proof (cases "?sh t (context_json ctx) eligible run_id")
    case (Inl e)
    then show ?thesis by (intro exI [of _ "[]"]) (simp add: record_shadow_def andthen_def ret_def)
  next
    case (Inr od)
    then show ?thesis
    proof (cases od)
      case None
      with Inr show ?thesis by (intro exI [of _ "[]"]) (simp add: record_shadow_def andthen_def ret_def)
    next
      case (Some d)
      have "de_selection_probability d = 1" using shadow_of_certain [of env cfg first_draw st t "context_json ctx" eligible run_id d] assms(1,2) Inr Some by simp
      then show ?thesis
        using Inr Some t
        by (auto simp: record_shadow_def insert_decision_def insert_row_def andthen_def ret_def same_decision_def list_ex_iff
            intro!: exI [of _ "[_]"])
    qed
  qed
  show ?thesis
  proof (cases "request_context plan message (gn_intent gn) = None \<or> action_for_route (gn_route gn) = None")
    case True
    then show ?thesis
      by (intro exI [of _ "[]"]) (auto simp: record_routing_evidence_def raise_def split: option.split)
  next
    case False
    then obtain ctx executed where c: "request_context plan message (gn_intent gn) = Some ctx" "action_for_route (gn_route gn) = Some executed"
      by auto
    let ?eligible = "process_actions settings (Some plan) gw"
    obtain row live where split: "\<And>sh. record_routing_evidence sh run_id settings plan message gn timing gw s =
        andthen (insert_routing_record row) (\<lambda>_. andthen (insert_decision live) (\<lambda>_.
        andthen (record_shadow sh run_id ctx ?eligible (ti_started_at timing)) (\<lambda>_. ret ctx))) s"
      and live: "\<And>i. \<not> rd_shadow (live i)"
      using c by (simp add: record_routing_evidence_def Let_def)
    show ?thesis
    proof (cases "andthen (insert_routing_record row) (\<lambda>_. insert_decision live) s")
      case (Raise e t)
      then have "record_routing_evidence sh run_id settings plan message gn timing gw s = Raise e t" for sh
        unfolding split by (auto simp: andthen_def split: result.splits)
      then show ?thesis by (intro exI [of _ "[]"]) simp
    next
      case (Ok u t)
      have run: "record_routing_evidence sh run_id settings plan message gn timing gw s =
          andthen (record_shadow sh run_id ctx ?eligible (ti_started_at timing)) (\<lambda>_. ret ctx) t" for sh
        unfolding split using Ok by (auto simp: andthen_def split: result.splits)
      have "\<forall>d \<in> set (routing_decisions t). rd_run_id d = run_id \<longrightarrow> \<not> rd_shadow d"
        using Ok assms(3) live
        by (auto simp: andthen_def insert_routing_record_def insert_decision_def insert_row_def ret_def image_iff
            split: result.splits if_splits)
      from key [OF this] obtain added where added: "length added \<le> 1" "list_all rd_shadow added"
        "record_shadow ?sh run_id ctx ?eligible (ti_started_at timing) t =
          Ok () (t\<lparr>routing_decisions := routing_decisions t @ added, next_id := next_id t + length added\<rparr>)"
        by blast
      have "record_shadow (\<lambda>_ _ _ _. Inr None) run_id ctx ?eligible (ti_started_at timing) t = Ok () t"
        by (simp add: record_shadow_def andthen_def ret_def)
      with added show ?thesis unfolding run by (intro exI [of _ added]) (simp add: andthen_def ret_def)
    qed
  qed
qed

definition sample_rx :: receiver_env where
  "sample_rx = \<lparr>rx_bundle = sample_env [], rx_registry = Inr \<lparr>mr_models = [], mr_snapshot_date = ''2026-10-12'', mr_provisional = True\<rparr>,
     rx_now = DateTime (Date 2026 10 12) 0\<rparr>"

definition trusting :: settings where
  "trusting = default_settings\<lparr>parakh_trusted_public_keys := [neutral_hex]\<rparr>"

lemma sample_verified: "verify_bundle sample_rx trusting sample_dir = Inr (sample_loaded [])"
  using sample_accepted [of "known_actions \<lparr>mr_models = [], mr_snapshot_date = ''2026-10-12'', mr_provisional = True\<rparr>"]
  by (simp add: verify_bundle_def sample_rx_def trusting_def require_def checked_def known_actions_def KNOWN_ACTIONS_def
      LOCAL_ACTION_def KARMI_VERSION_def FEATURE_SCHEMA_VERSION_def)

definition first_bundle :: "string \<Rightarrow> policy_bundle" where
  "first_bundle state = \<lparr>po_id = 0, po_artifact_version = ''a1'', po_checksums_sha256 = ''43'', po_signer_public_key = neutral_hex,
     po_storage_path = ''data/policy_bundles/a1'', po_state = state, po_received_at = DateTime (Date 2026 10 12) 0\<rparr>"

definition first_event :: "nat \<Rightarrow> string option \<Rightarrow> string \<Rightarrow> policy_event" where
  "first_event i prior to_state = \<lparr>pv_id = i, pv_bundle_id = 0, pv_from_state = prior, pv_to_state = to_state,
     pv_actor = ''op'', pv_reason = ''ok'', pv_created_at = DateTime (Date 2026 10 12) 0\<rparr>"

definition parakh_start :: parakh_state where
  "parakh_start = \<lparr>ps_db = empty_db, ps_store = [], ps_loaded = []\<rparr>"

definition parakh_received :: parakh_state where
  "parakh_received = \<lparr>ps_db = empty_db\<lparr>next_id := 2, policy_bundles := [first_bundle RECEIVED],
     policy_events := [first_event 1 None RECEIVED]\<rparr>, ps_store = [(''data/policy_bundles/a1'', sample_dir)], ps_loaded = []\<rparr>"

lemma sample_loaded_simps [simp]:
  "lp_checksums_sha256 (sample_loaded []) = ''43''" "lp_signer_public_key (sample_loaded []) = neutral_hex"
  "policy_version_text f (sample_loaded []) = Inr ''a1''"
  by (simp_all add: sample_loaded_def policy_version_text_def sample_manifest_def with_key_def json_str_def)

lemma sample_received: "receive_bundle sample_rx trusting sample_dir sample_dir ''op'' ''ok'' parakh_start =
    Ok (first_bundle RECEIVED) parakh_received"
proof -
  have "safe_version ''a1''" "strip_string ''op'' = ''op''" "strip_string ''ok'' = ''ok''" by code_simp+
  moreover have "bundle_store trusting = ''data/policy_bundles''"
    by (simp add: bundle_store_def trusting_def default_settings_def)
  moreover have "rx_now sample_rx = DateTime (Date 2026 10 12) 0" by (simp add: sample_rx_def)
  ultimately show ?thesis
    by (simp add: receive_bundle_def require_operator_def andthen_def ret_def lift_checked_def sample_verified query_db_def
        parakh_start_def find_bundle_def empty_db_def receive_new_def Let_def store_copy_def insert_bundle_def add_event_log
        log_move_def first_bundle_def first_event_def parakh_received_def)
qed

definition parakh_moved :: "string \<Rightarrow> policy_event list \<Rightarrow> parakh_state" where
  "parakh_moved state es = \<lparr>ps_db = empty_db\<lparr>next_id := 2 + length es, policy_bundles := [first_bundle state],
     policy_events := first_event 1 None RECEIVED # es\<rparr>, ps_store = [(''data/policy_bundles/a1'', sample_dir)],
     ps_loaded = [((0, ''43'', [neutral_hex]), sample_loaded [])]\<rparr>"

lemma sample_moves:
  "move_bundle sample_rx trusting ''a1'' STAGED ''op'' ''ok'' parakh_received =
     Ok (first_bundle STAGED) (parakh_moved STAGED [first_event 2 (Some RECEIVED) STAGED])"
  "move_bundle sample_rx trusting ''a1'' SHADOW ''op'' ''ok'' (parakh_moved STAGED [first_event 2 (Some RECEIVED) STAGED]) =
     Ok (first_bundle SHADOW) (parakh_moved SHADOW [first_event 2 (Some RECEIVED) STAGED, first_event 3 (Some STAGED) SHADOW])"
proof -
  have strips: "strip_string ''op'' = ''op''" "strip_string ''ok'' = ''ok''" by code_simp+
  have live: "STAGED \<notin> set LIVE_TRAFFIC_STATES" "SHADOW \<notin> set LIVE_TRAFFIC_STATES"
    by (simp_all add: STAGED_def SHADOW_def LIVE_TRAFFIC_STATES_def)
  have key: "cache_key (first_bundle st) trusting = (0, ''43'', [neutral_hex])" for st
    by (simp add: cache_key_def first_bundle_def trusting_def)
  have load: "load_stored sample_rx trusting (first_bundle st) \<lparr>ps_db = d, ps_store = [(''data/policy_bundles/a1'', sample_dir)], ps_loaded = []\<rparr> =
      Ok (sample_loaded []) \<lparr>ps_db = d, ps_store = [(''data/policy_bundles/a1'', sample_dir)],
        ps_loaded = [((0, ''43'', [neutral_hex]), sample_loaded [])]\<rparr>" for st d
    by (simp add: load_stored_def key sample_verified Let_def) (simp add: first_bundle_def sample_verified)
  note defs = move_bundle_def require_operator_def strips andthen_def ret_def query_db_def find_bundle_def live TRANSITIONS_def
    reverify_def key load supersede_def other_shadows_def add_event_log log_move_def update_db_def set_state_def
    first_event_def parakh_received_def parakh_moved_def
  have rx: "rx_now sample_rx = DateTime (Date 2026 10 12) 0" by (simp add: sample_rx_def)
  have fb: "po_id (first_bundle st) = 0" "po_state (first_bundle st) = st" "po_artifact_version (first_bundle st) = ''a1''"
    "(first_bundle st)\<lparr>po_state := t\<rparr> = first_bundle t" for st t
    by (simp_all add: first_bundle_def)
  show "move_bundle sample_rx trusting ''a1'' STAGED ''op'' ''ok'' parakh_received =
     Ok (first_bundle STAGED) (parakh_moved STAGED [first_event 2 (Some RECEIVED) STAGED])"
    by (simp add: defs rx fb empty_db_def)
  show "move_bundle sample_rx trusting ''a1'' SHADOW ''op'' ''ok'' (parakh_moved STAGED [first_event 2 (Some RECEIVED) STAGED]) =
     Ok (first_bundle SHADOW) (parakh_moved SHADOW [first_event 2 (Some RECEIVED) STAGED, first_event 3 (Some STAGED) SHADOW])"
    by (simp add: defs rx fb empty_db_def)
qed

lemma sample_reachable:
  "policy_reachable (parakh_moved SHADOW [first_event 2 (Some RECEIVED) STAGED, first_event 3 (Some STAGED) SHADOW])"
proof -
  have "policy_reachable parakh_start" by (rule Fresh) (simp_all add: parakh_start_def empty_db_def)
  from policy_reachable.Next [OF this Receive [of _ sample_rx trusting sample_dir sample_dir "''op''" "''ok''"]]
  have "policy_reachable parakh_received" by (simp add: command_def sample_received)
  from policy_reachable.Next [OF this Move [of _ sample_rx trusting "''a1''" STAGED "''op''" "''ok''"]]
  have "policy_reachable (parakh_moved STAGED [first_event 2 (Some RECEIVED) STAGED])" by (simp add: command_def sample_moves)
  from policy_reachable.Next [OF this Move [of _ sample_rx trusting "''a1''" SHADOW "''op''" "''ok''"]]
  show ?thesis by (simp add: command_def sample_moves)
qed

theorem audit_trail_is_complete_witness:
  "leads None [first_event 1 None RECEIVED, first_event 2 (Some RECEIVED) STAGED, first_event 3 (Some STAGED) SHADOW] (Some SHADOW)
   \<and> \<not> leads None [first_event 1 None RECEIVED, first_event 2 (Some RECEIVED) SHADOW] (Some SHADOW)"
proof -
  have "\<not> leads None [first_event 1 None RECEIVED, first_event 2 (Some RECEIVED) SHADOW] (Some SHADOW)"
    by (simp add: first_event_def allowed_move_def TRANSITIONS_def)
  then show ?thesis
    using audit_trail_is_complete [OF sample_reachable]
    by (simp add: parakh_moved_def events_about_def first_bundle_def) (simp add: first_event_def)
qed

definition sample_reply :: generation_result where
  "sample_reply = accepted_reply (codes ''Draft ready: hi'') None LOCAL_ROUTE []"

definition sample_timing :: run_timing where
  "sample_timing = \<lparr>ti_started_at = DateTime (Date 2026 10 12) 0, ti_completed_at = DateTime (Date 2026 10 12) 5, ti_latency_ms = 1 / 200\<rparr>"

theorem shadow_never_affects_live_witness:
  "shadow_of sample_rx trusting (\<lambda>_. 1 / 2) (parakh_moved SHADOW []) (ps_db (parakh_moved SHADOW [])) [] [LOCAL_ACTION] 9 \<noteq> Inr None
   \<and> (\<exists>added. length added \<le> 1 \<and> list_all rd_shadow added
    \<and> record_routing_evidence (shadow_of sample_rx trusting (\<lambda>_. 1 / 2) (parakh_moved SHADOW [])) 9 trusting ananta (codes ''hi'')
        sample_reply sample_timing None (ps_db (parakh_moved SHADOW [])) =
       (case record_routing_evidence (\<lambda>_ _ _ _. Inr None) 9 trusting ananta (codes ''hi'')
            sample_reply sample_timing None (ps_db (parakh_moved SHADOW [])) of
          Raise e t \<Rightarrow> Raise e t
        | Ok ctx t \<Rightarrow> Ok ctx (t\<lparr>routing_decisions := routing_decisions t @ added, next_id := next_id t + length added\<rparr>)))"
proof (rule conjI)
  have "load_stored sample_rx trusting (first_bundle SHADOW) (parakh_moved SHADOW []) = Ok (sample_loaded []) (parakh_moved SHADOW [])"
    by (simp add: load_stored_def cache_key_def first_bundle_def trusting_def parakh_moved_def)
  moreover have "select_first (\<lambda>b. po_state b = SHADOW) (policy_bundles (ps_db (parakh_moved SHADOW []))) = Some (first_bundle SHADOW)"
    by (simp add: parakh_moved_def first_bundle_def)
  moreover have "(parakh_moved SHADOW [])\<lparr>ps_db := ps_db (parakh_moved SHADOW [])\<rparr> = parakh_moved SHADOW []" by simp
  moreover have "map_of (lp_feature_schema (sample_loaded [])) ''feature_schema_version'' = Some (JStr ''routing-features.v1'')"
    by (simp add: sample_loaded_def sample_schema_def)
  ultimately show "shadow_of sample_rx trusting (\<lambda>_. 1 / 2) (parakh_moved SHADOW []) (ps_db (parakh_moved SHADOW [])) [] [LOCAL_ACTION] 9 \<noteq> Inr None"
    by (simp add: shadow_of_def shadow_select_def andthen_def query_db_def lift_checked_def select_decision_def LOCAL_ACTION_def
        sample_probabilities with_key_def checked_def Let_def)
qed (rule shadow_never_affects_live; simp add: parakh_moved_def empty_db_def)

end
