(* ===== verification/Telemetry.thy ===== *)
theory Telemetry
  imports Routing
begin

text \<open>
  The telemetry export (\<open>daily_agent/parakh/telemetry.py\<close>): the runs of a half-open window with their
  decisions, attempts, feedback and outcome. The exported dictionaries are records, without the entries that
  the code sets to a constant (\<open>None\<close>, \<open>[]\<close>, \<open>same_request: True\<close>); SHA-256 and the
  JSON text that is hashed into the batch id are parameters. Python's exceptions are their class
  names.
\<close>

definition TELEMETRY_SCHEMA_VERSION :: string where "TELEMETRY_SCHEMA_VERSION = ''1.0''"
definition PRODUCER_REPO :: string where "PRODUCER_REPO = ''Kashyep/Karmi''"
definition PRODUCER_VERSION :: string where "PRODUCER_VERSION = ''0.1.0''"
definition COST_CURRENCY :: string where "COST_CURRENCY = ''XTS''"

text \<open>\<open>strftime("%Y-%m-%dT%H:%M:%S.%fZ")\<close> of an instant in UTC\<close>

definition iso :: "datetime \<Rightarrow> string" where
  "iso t = (let d = dt_date t; u = nat (dt_usec t); s = u div 1000000 in
     zpad 4 (nat_str (nat (date_year d))) @ ''-'' @ zpad 2 (nat_str (nat (date_month d))) @ ''-'' @
     zpad 2 (nat_str (nat (date_day d))) @ ''T'' @ zpad 2 (nat_str (s div 3600)) @ '':'' @
     zpad 2 (nat_str (s div 60 mod 60)) @ '':'' @ zpad 2 (nat_str (s mod 60)) @ ''.'' @
     zpad 6 (nat_str (u mod 1000000)) @ ''Z'')"

definition money :: "int option \<Rightarrow> real option" where
  "money micro = map_option (\<lambda>m. of_int m / 1000000) micro"

definition currency :: "int option \<Rightarrow> string option" where
  "currency micro = (if micro \<noteq> None then Some COST_CURRENCY else None)"

definition export_ref :: "string \<Rightarrow> nat \<Rightarrow> string" where
  "export_ref prefix i = prefix @ ''-'' @ nat_str i"

section \<open>Decisions\<close>

record exported_decision =
  xd_decision_id :: string
  xd_selected_provider :: string
  xd_selected_model :: string
  xd_policy_version :: string
  xd_selection_probability :: real
  xd_exploration :: bool
  xd_shadow :: bool
  xd_eligible_models :: "string list"
  xd_feature_schema_version :: string
  xd_created_at :: string

definition export_decision :: "routing_decision \<Rightarrow> string + exported_decision" where
  "export_decision d = (case split_on (CHR ''/'') 1 (rd_selected_action d) of
       [provider, model] \<Rightarrow> Inr \<lparr>xd_decision_id = export_ref ''dec'' (rd_id d), xd_selected_provider = provider,
         xd_selected_model = model, xd_policy_version = rd_policy_version d,
         xd_selection_probability = rd_selection_probability d, xd_exploration = rd_exploration d, xd_shadow = rd_shadow d,
         xd_eligible_models = rd_eligible_actions d, xd_feature_schema_version = rd_feature_schema_version d,
         xd_created_at = iso (rd_created_at d)\<rparr>
     | _ \<Rightarrow> Inl ''ValueError'')"

section \<open>Attempts\<close>

definition GENERATION_OPERATIONS :: "string list" where
  "GENERATION_OPERATIONS = [''generate'', ''generate_failed'', ''generate_rejected'']"

definition FAILED_OPERATIONS :: "(string \<times> string) list" where
  "FAILED_OPERATIONS = [(''generate_failed'', ''provider_error''), (''generate_rejected'', ''rejected_output'')]"

record exported_attempt =
  xa_attempt_id :: string
  xa_decision_id :: string
  xa_provider :: string
  xa_model :: string
  xa_operation :: string
  xa_success :: bool
  xa_retry_number :: int
  xa_input_tokens :: "int option"
  xa_output_tokens :: "int option"
  xa_estimated_cost :: "real option"
  xa_currency :: "string option"
  xa_cost_measurement :: string
  xa_error_type :: "string option"

text \<open>The loop over the attempts: \<open>index\<close> counts all of them, \<open>generation_index\<close> the generations.\<close>

fun export_attempts :: "nat \<Rightarrow> nat \<Rightarrow> nat \<Rightarrow> int \<Rightarrow> routing_attempt list \<Rightarrow> exported_attempt list" where
  "export_attempts run_id live_id index generation_index [] = []"
| "export_attempts run_id live_id index generation_index (a # as) =
     (let generation = at_operation a \<in> set GENERATION_OPERATIONS; error_type = map_of FAILED_OPERATIONS (at_operation a) in
      \<lparr>xa_attempt_id = export_ref ''att'' run_id @ ''-'' @ nat_str index, xa_decision_id = export_ref ''dec'' live_id,
       xa_provider = at_provider a, xa_model = at_model a, xa_operation = at_operation a,
       xa_success = (error_type = None), xa_retry_number = (if generation then generation_index else 0),
       xa_input_tokens = at_input_tokens a, xa_output_tokens = at_output_tokens a,
       xa_estimated_cost = money (at_cost_micro a), xa_currency = currency (at_cost_micro a),
       xa_cost_measurement = at_measurement a, xa_error_type = error_type\<rparr>
      # export_attempts run_id live_id (Suc index) (if generation then generation_index + 1 else generation_index) as)"

section \<open>Feedback\<close>

datatype exported_feedback =
    Rating (xf_id: string) (xf_value: string) (xf_hint: "string option") (xf_at: string)
  | Retry (xf_id: string) (xf_hint: "string option") (xf_at: string)

definition export_feedback :: "message_feedback list \<Rightarrow> (run \<times> datetime) list \<Rightarrow> exported_feedback list" where
  "export_feedback ratings regenerations =
     map (\<lambda>row. Rating (export_ref ''fb'' (mf_id row)) (mf_rating row) (mf_reason row) (iso (mf_updated_at row))) ratings
     @ map (\<lambda>(child, created_at). Retry (export_ref ''fb'' (ru_id child)) (ru_regenerate_reason child) (iso created_at)) regenerations"

section \<open>Runs\<close>

record exported_outcome =
  xo_completed :: bool
  xo_first_shot_success :: bool
  xo_retry_count :: int
  xo_user_retry_signal :: "bool option"
  xo_user_accept_signal :: "bool option"
  xo_final_latency_ms :: real
  xo_final_cost :: "real option"
  xo_currency :: "string option"
  xo_finalized_at :: string

record exported_run =
  xr_run_id :: string
  xr_request_id :: string
  xr_started_at :: string
  xr_completed_at :: string
  xr_task_domain :: string
  xr_tier :: string
  xr_harness_version :: string
  xr_prompt_version :: string
  xr_policy_version :: string
  xr_feature_schema_version :: string
  xr_status :: run_status
  xr_karmi_outcome :: "outcome option"
  xr_routing_context :: routing_context
  xr_decisions :: "exported_decision list"
  xr_attempts :: "exported_attempt list"
  xr_outcome :: exported_outcome
  xr_feedback :: "exported_feedback list"

definition request_ref :: "(string \<Rightarrow> string) \<Rightarrow> run \<Rightarrow> string" where
  "request_ref sha256 run =
     ''req-'' @ take 24 (hexdigest (sha256 (nat_str (ru_account_id run) @ '':'' @ ru_logical_request_id run)))"

definition export_outcome ::
  "routing_record \<Rightarrow> run \<Rightarrow> message_feedback list \<Rightarrow> (run \<times> datetime) list \<Rightarrow> exported_outcome" where
  "export_outcome row run ratings regenerations =
     (let completed = ru_status run = COMPLETED in
      \<lparr>xo_completed = completed, xo_first_shot_success = completed, xo_retry_count = 0,
       xo_user_retry_signal = (if regenerations \<noteq> [] then Some True else None),
       xo_user_accept_signal = (if ratings = [] then None else Some (list_all (\<lambda>r. mf_rating r = ''up'') ratings)),
       xo_final_latency_ms = rr_latency_ms row, xo_final_cost = money (rr_cost_micro row),
       xo_currency = currency (rr_cost_micro row), xo_finalized_at = iso (rr_completed_at row)\<rparr>)"

definition export_run ::
  "(string \<Rightarrow> string) \<Rightarrow> routing_record \<Rightarrow> run \<Rightarrow> routing_decision list \<Rightarrow> message_feedback list \<Rightarrow> (run \<times> datetime) list
   \<Rightarrow> string + exported_run" where
  "export_run sha256 row run decisions ratings regenerations =
     (case List.find (\<lambda>d. \<not> rd_shadow d) decisions of
        None \<Rightarrow> Inl ''StopIteration''
      | Some live_decision \<Rightarrow>
          checked (check_all export_decision decisions) (\<lambda>xds.
          Inr \<lparr>xr_run_id = export_ref ''run'' (ru_id run), xr_request_id = request_ref sha256 run,
            xr_started_at = iso (rr_started_at row), xr_completed_at = iso (rr_completed_at row),
            xr_task_domain = rr_task_domain row, xr_tier = rr_tier row, xr_harness_version = rr_harness_version row,
            xr_prompt_version = rr_prompt_version row, xr_policy_version = rr_policy_version row,
            xr_feature_schema_version = rr_feature_schema_version row, xr_status = ru_status run,
            xr_karmi_outcome = ru_outcome run, xr_routing_context = rr_routing_context row, xr_decisions = xds,
            xr_attempts = export_attempts (ru_id run) (rd_id live_decision) 0 0 (rr_attempts row),
            xr_outcome = export_outcome row run ratings regenerations,
            xr_feedback = export_feedback ratings regenerations\<rparr>))"

section \<open>The batch\<close>

text \<open>The queries of the export; the dictionaries keyed by run are read at the run's id.\<close>

definition window_records :: "datetime \<Rightarrow> datetime \<Rightarrow> db \<Rightarrow> routing_record list" where
  "window_records start until s = sort_key (\<lambda>r. (rr_completed_at r, rr_run_id r))
     (filter (\<lambda>r. start \<le> rr_completed_at r \<and> rr_completed_at r < until) (routing_records s))"

definition run_decisions :: "nat \<Rightarrow> db \<Rightarrow> routing_decision list" where
  "run_decisions run_id s = sort_key (\<lambda>d. (rd_shadow d, rd_policy_version d))
     (filter (\<lambda>d. rd_run_id d = run_id) (routing_decisions s))"

definition run_ratings :: "nat \<Rightarrow> db \<Rightarrow> message_feedback list" where
  "run_ratings run_id s = sort_key (\<lambda>f. (mf_created_at f, mf_id f)) (filter (\<lambda>f. mf_run_id f = run_id) (feedback_rows s))"

definition run_regenerations :: "nat \<Rightarrow> db \<Rightarrow> (run \<times> datetime) list" where
  "run_regenerations run_id s =
     concat (map (\<lambda>child. case select_first (\<lambda>r. rr_run_id r = ru_id child) (routing_records s) of
         None \<Rightarrow> [] | Some r \<Rightarrow> [(child, rr_started_at r)])
       (sort_key ru_id (filter (\<lambda>r. ru_previous_run_id r = Some run_id) (runs s))))"

definition export_record :: "(string \<Rightarrow> string) \<Rightarrow> db \<Rightarrow> routing_record \<Rightarrow> string + exported_run" where
  "export_record sha256 s row = (case select_first (\<lambda>r. ru_id r = rr_run_id row) (runs s) of
       None \<Rightarrow> Inl ''KeyError''
     | Some run \<Rightarrow> export_run sha256 row run (run_decisions (rr_run_id row) s) (run_ratings (rr_run_id row) s)
         (run_regenerations (rr_run_id row) s))"

record telemetry_batch =
  tb_schema :: string
  tb_schema_version :: string
  tb_batch_id :: string
  tb_generated_at :: string
  tb_producer :: "string \<times> string"
  tb_feature_schema_version :: string
  tb_window :: "string \<times> string"
  tb_model_registry :: "registry_entry list"
  tb_runs :: "exported_run list"

definition used_models :: "exported_run list \<Rightarrow> (string \<times> string) set" where
  "used_models exported =
     (\<lambda>a. (xa_provider a, xa_model a)) ` set (concat (map xr_attempts exported))
     \<union> (\<lambda>d. (xd_selected_provider d, xd_selected_model d)) ` set (concat (map xr_decisions exported))"

definition known_models :: "registry_entry list \<Rightarrow> (string \<times> string) set" where
  "known_models entries = (\<lambda>e. (ry_provider e, ry_model e)) ` set entries"

text \<open>\<open>dumps\<close> is \<open>json.dumps({"window": ..., "runs": ...}, sort_keys=True).encode()\<close>.\<close>

definition build_telemetry_batch ::
  "(string \<Rightarrow> string) \<Rightarrow> ((string \<times> string) \<times> exported_run list \<Rightarrow> string) \<Rightarrow> model_registry \<Rightarrow> datetime \<Rightarrow> datetime \<Rightarrow> db
   \<Rightarrow> string + telemetry_batch" where
  "build_telemetry_batch sha256 dumps registry start until s =
     require (start < until) ''window end must be after its start''
     (checked (check_all (export_record sha256 s) (window_records start until s)) (\<lambda>exported.
      let entries = exported_registry registry; window = (iso start, iso until) in
      require (used_models exported \<subseteq> known_models entries) ''runs reference models absent from the registry''
      (Inr \<lparr>tb_schema = ''TelemetryBatchV1'', tb_schema_version = TELEMETRY_SCHEMA_VERSION,
            tb_batch_id = ''karmi-'' @ take 24 (hexdigest (sha256 (dumps (window, exported)))),
            tb_generated_at = snd window,
            tb_producer = (PRODUCER_REPO, PRODUCER_VERSION), tb_feature_schema_version = FEATURE_SCHEMA_VERSION, tb_window = window, tb_model_registry = entries, tb_runs = exported\<rparr>)))"

section \<open>What an export holds\<close>

lemma attempt_models:
  "map (\<lambda>a. (xa_provider a, xa_model a)) (export_attempts run_id live_id i g as) = map (\<lambda>a. (at_provider a, at_model a)) as"
  by (induction as arbitrary: i g) (simp_all add: Let_def)

lemma build_Inr:
  assumes "build_telemetry_batch sha256 dumps registry start until s = Inr batch"
  shows "start < until \<and> list_all2 (\<lambda>row x. export_record sha256 s row = Inr x) (window_records start until s) (tb_runs batch)
    \<and> used_models (tb_runs batch) \<subseteq> known_models (tb_model_registry batch) \<and> tb_model_registry batch = exported_registry registry"
  using assms by (auto simp: build_telemetry_batch_def check_simps Let_def)

lemma window_split:
  assumes "a \<le> b" and "b \<le> c"
  shows "window_records a c s = window_records a b s @ window_records b c s"
proof -
  let ?key = "\<lambda>r. (rr_completed_at r, rr_run_id r)"
  let ?all = "sort_key ?key (filter (\<lambda>r. a \<le> rr_completed_at r \<and> rr_completed_at r < c) (routing_records s))"
  have split: "sorted (map ?key xs) \<Longrightarrow> xs = filter (\<lambda>r. rr_completed_at r < b) xs @ filter (\<lambda>r. \<not> rr_completed_at r < b) xs" for xs
  proof (induction xs)
    case (Cons x xs)
    then show ?case
    proof (cases "rr_completed_at x < b")
      case False
      then have "\<forall>y \<in> set xs. \<not> rr_completed_at y < b" using Cons.prems by (auto simp: less_eq_prod_def)
      then have "filter (\<lambda>r. rr_completed_at r < b) xs = []" "filter (\<lambda>r. \<not> rr_completed_at r < b) xs = xs" by auto
      then show ?thesis using False by simp
    qed simp
  qed simp
  have "?all = filter (\<lambda>r. rr_completed_at r < b) ?all @ filter (\<lambda>r. \<not> rr_completed_at r < b) ?all"
    by (rule split) simp
  moreover have "filter (\<lambda>r. rr_completed_at r < b) ?all = window_records a b s"
    unfolding window_records_def filter_sort filter_filter using assms by (metis (mono_tags, lifting) less_le_trans)
  moreover have "filter (\<lambda>r. \<not> rr_completed_at r < b) ?all = window_records b c s"
    unfolding window_records_def filter_sort filter_filter using assms by (metis (mono_tags, lifting) not_less order_trans)
  ultimately show ?thesis by (simp add: window_records_def)
qed

lemma build_Inr_iff:
  "(\<exists>batch. build_telemetry_batch sha256 dumps registry start until s = Inr batch \<and> tb_runs batch = xs)
   \<longleftrightarrow> start < until \<and> check_all (export_record sha256 s) (window_records start until s) = Inr xs
     \<and> used_models xs \<subseteq> known_models (exported_registry registry)"
  by (auto simp: build_telemetry_batch_def check_simps Let_def)

lemma used_models_append: "used_models (xs @ ys) = used_models xs \<union> used_models ys"
  by (auto simp: used_models_def)

lemma used_models_mono: "x \<in> set xs \<Longrightarrow> used_models [x] \<subseteq> used_models xs"
  unfolding used_models_def by (force simp: image_iff)

lemma check_all_append:
  "check_all f (xs @ ys) = Inr zs \<longleftrightarrow> (\<exists>us vs. check_all f xs = Inr us \<and> check_all f ys = Inr vs \<and> zs = us @ vs)"
  unfolding check_all_Inr list_all2_append1 by (metis list_all2_lengthD)

lemma export_run_attempts:
  assumes "export_run sha256 row run decisions ratings regenerations = Inr x"
  shows "\<exists>d :: routing_decision. xr_attempts x = export_attempts (ru_id run) (rd_id d) 0 0 (rr_attempts row)"
proof (cases "List.find (\<lambda>d. \<not> rd_shadow d) decisions")
  case None
  then show ?thesis using assms by (simp add: export_run_def)
next
  case (Some d)
  from assms have "xr_attempts x = export_attempts (ru_id run) (rd_id d) 0 0 (rr_attempts row)"
    unfolding export_run_def Some option.case checked_Inr by auto
  then show ?thesis by blast
qed

lemma exported_models:
  assumes "export_record sha256 s row = Inr x" and "a \<in> set (rr_attempts row)"
  shows "(at_provider a, at_model a) \<in> used_models [x]"
proof -
  obtain run where "export_run sha256 row run (run_decisions (rr_run_id row) s) (run_ratings (rr_run_id row) s)
      (run_regenerations (rr_run_id row) s) = Inr x"
    using assms(1) by (cases "select_first (\<lambda>r. ru_id r = rr_run_id row) (runs s)") (simp_all add: export_record_def)
  then obtain d :: routing_decision where d: "xr_attempts x = export_attempts (ru_id run) (rd_id d) 0 0 (rr_attempts row)"
    using export_run_attempts by blast
  have "(at_provider a, at_model a) \<in> set (map (\<lambda>a. (at_provider a, at_model a)) (rr_attempts row))"
    using assms(2) by (simp add: image_iff) blast
  then have "(at_provider a, at_model a) \<in> set (map (\<lambda>a. (xa_provider a, xa_model a)) (xr_attempts x))"
    by (simp only: d attempt_models)
  then show ?thesis by (simp add: used_models_def)
qed

lemma check_all_element: "check_all f xs = Inr ys \<Longrightarrow> x \<in> set xs \<Longrightarrow> \<exists>y \<in> set ys. f x = Inr y"
proof (induction xs arbitrary: ys)
  case (Cons a xs)
  then obtain b bs where b: "f a = Inr b" "check_all f xs = Inr bs" and ys: "ys = b # bs"
    by (auto simp: checked_Inr)
  then show ?case using Cons.IH [OF b(2)] Cons.prems(2) by (cases "x = a") auto
qed simp

lemma insort_key_map: "insort_key k (f x) (map f xs) = map f (insort_key (\<lambda>x. k (f x)) x xs)"
  by (induction xs) simp_all

lemma sort_key_map: "sort_key k (map f xs) = map f (sort_key (\<lambda>x. k (f x)) xs)"
  by (induction xs) (simp_all add: insort_key_map)

definition without_text :: "run \<Rightarrow> run" where
  "without_text r = r\<lparr>ru_user_id := 0, ru_request_hash := None, ru_response_text := None\<rparr>"

lemma without_text_simps [simp]:
  "ru_id (without_text r) = ru_id r" "ru_account_id (without_text r) = ru_account_id r"
  "ru_logical_request_id (without_text r) = ru_logical_request_id r" "ru_status (without_text r) = ru_status r"
  "ru_outcome (without_text r) = ru_outcome r" "ru_previous_run_id (without_text r) = ru_previous_run_id r"
  "ru_regenerate_reason (without_text r) = ru_regenerate_reason r"
  by (simp_all add: without_text_def)

definition scrubbed :: "db \<Rightarrow> db" where
  "scrubbed s = empty_db\<lparr>runs := map without_text (runs s), feedback_rows := feedback_rows s,
     routing_records := routing_records s, routing_decisions := routing_decisions s\<rparr>"

lemma scrubbed_tables [simp]:
  "runs (scrubbed s) = map without_text (runs s)" "feedback_rows (scrubbed s) = feedback_rows s"
  "routing_records (scrubbed s) = routing_records s" "routing_decisions (scrubbed s) = routing_decisions s"
  by (simp_all add: scrubbed_def)

lemma select_first_map: "select_first p (map f xs) = map_option f (select_first (\<lambda>x. p (f x)) xs)"
  by (induction xs) auto

lemma feedback_scrubbed:
  "export_feedback ratings (map (map_prod without_text id) regenerations) = export_feedback ratings regenerations"
  by (auto simp: export_feedback_def)

lemma export_run_scrubbed:
  "export_run sha256 row (without_text run) decisions ratings (map (map_prod without_text id) regenerations)
   = export_run sha256 row run decisions ratings regenerations"
  by (simp add: export_run_def feedback_scrubbed request_ref_def export_outcome_def cong: option.case_cong)

lemma regenerations_scrubbed:
  "run_regenerations run_id (scrubbed s) = map (map_prod without_text id) (run_regenerations run_id s)"
proof -
  let ?children = "sort_key ru_id (filter (\<lambda>r. ru_previous_run_id r = Some run_id) (runs s))"
  have "sort_key ru_id (filter (\<lambda>r. ru_previous_run_id r = Some run_id) (map without_text (runs s))) = map without_text ?children"
    by (simp add: filter_map comp_def sort_key_map)
  then show ?thesis
    by (simp add: run_regenerations_def map_concat comp_def)
       (rule arg_cong [where f = concat], simp split: option.split)
qed

lemma export_record_scrubbed: "export_record sha256 (scrubbed s) row = export_record sha256 s row"
  by (simp add: export_record_def select_first_map regenerations_scrubbed export_run_scrubbed run_decisions_def run_ratings_def
      split: option.split)

lemma build_scrubbed:
  "build_telemetry_batch sha256 dumps registry start until (scrubbed s) = build_telemetry_batch sha256 dumps registry start until s"
proof -
  have "export_record sha256 (scrubbed s) = export_record sha256 s"
    by (rule ext) (rule export_record_scrubbed)
  then show ?thesis by (simp add: build_telemetry_batch_def window_records_def)
qed

definition no_models :: model_registry where
  "no_models = \<lparr>mr_models = [], mr_snapshot_date = [], mr_provisional = False\<rparr>"

definition export_day :: "int \<Rightarrow> datetime" where "export_day d = DateTime (Date 2026 10 d) 0"

definition sample_run :: "nat \<Rightarrow> run" where
  "sample_run i = \<lparr>ru_id = i, ru_account_id = 1, ru_user_id = 2, ru_logical_request_id = ''request-1'', ru_request_hash = None,
     ru_status = COMPLETED, ru_outcome = Some ACCEPT, ru_response_text = Some (codes ''Draft ready: hi''),
     ru_generation = 1, ru_previous_run_id = None, ru_regenerate_reason = None\<rparr>"

definition sample_record :: "nat \<Rightarrow> datetime \<Rightarrow> routing_attempt list \<Rightarrow> routing_record" where
  "sample_record i t attempts = \<lparr>rr_run_id = i, rr_tier = ''free'', rr_task_domain = ''writing'',
     rr_routing_context = the (request_context ananta (codes ''hi'') None), rr_attempts = attempts,
     rr_harness_version = HARNESS_VERSION, rr_prompt_version = PROMPT_VERSION, rr_policy_version = STATIC_POLICY_VERSION,
     rr_feature_schema_version = FEATURE_SCHEMA_VERSION, rr_executed_action = LOCAL_ACTION, rr_latency_ms = 0,
     rr_cost_micro = Some 100, rr_started_at = t, rr_completed_at = t\<rparr>"

definition sample_decision :: "nat \<Rightarrow> datetime \<Rightarrow> routing_decision" where
  "sample_decision i t = \<lparr>rd_id = 100 + i, rd_run_id = i, rd_shadow = False, rd_policy_version = STATIC_POLICY_VERSION,
     rd_feature_schema_version = FEATURE_SCHEMA_VERSION, rd_selected_action = LOCAL_ACTION, rd_selection_probability = 1,
     rd_exploration = False, rd_eligible_actions = [LOCAL_ACTION], rd_created_at = t\<rparr>"

definition sample_export :: "routing_attempt list \<Rightarrow> db" where
  "sample_export attempts = empty_db\<lparr>runs := [sample_run 1, sample_run 2],
     routing_records := [sample_record 2 (export_day 13) attempts, sample_record 1 (export_day 12) [local_attempt]],
     routing_decisions := [sample_decision 1 (export_day 12), sample_decision 2 (export_day 13)]\<rparr>"

lemma sample_exports:
  "\<exists>batch. build_telemetry_batch id (\<lambda>_. []) no_models (export_day 12) (export_day 13) (sample_export [local_attempt]) = Inr batch
     \<and> map xr_run_id (tb_runs batch) = [''run-1'']"
  "\<exists>batch. build_telemetry_batch id (\<lambda>_. []) no_models (export_day 13) (export_day 14) (sample_export [local_attempt]) = Inr batch
     \<and> map xr_run_id (tb_runs batch) = [''run-2'']"
proof -
  have "case build_telemetry_batch id (\<lambda>_. []) no_models (export_day 12) (export_day 13) (sample_export [local_attempt]) of
     Inr batch \<Rightarrow> map xr_run_id (tb_runs batch) = [''run-1''] | Inl e \<Rightarrow> False"
    by code_simp
  moreover have "case build_telemetry_batch id (\<lambda>_. []) no_models (export_day 13) (export_day 14) (sample_export [local_attempt]) of
     Inr batch \<Rightarrow> map xr_run_id (tb_runs batch) = [''run-2''] | Inl e \<Rightarrow> False"
    by code_simp
  ultimately show
    "\<exists>batch. build_telemetry_batch id (\<lambda>_. []) no_models (export_day 12) (export_day 13) (sample_export [local_attempt]) = Inr batch
       \<and> map xr_run_id (tb_runs batch) = [''run-1'']"
    "\<exists>batch. build_telemetry_batch id (\<lambda>_. []) no_models (export_day 13) (export_day 14) (sample_export [local_attempt]) = Inr batch
       \<and> map xr_run_id (tb_runs batch) = [''run-2'']"
    by (auto split: sum.split_asm)
qed

text \<open>C29: Exports of adjacent windows tile: the runs of \<open>[a, c)\<close> can be exported exactly when those of \<open>[a, b)\<close>
  and of \<open>[b, c)\<close> can, and they are then the runs of the first window followed by those of the second, so no
  run is lost or exported twice by consecutive exports.\<close>

theorem exported_windows_tile:
  assumes "a < b" and "b < c"
  shows "(\<exists>batch. build_telemetry_batch sha256 dumps registry a c s = Inr batch \<and> tb_runs batch = xs)
    \<longleftrightarrow> (\<exists>b1 b2. build_telemetry_batch sha256 dumps registry a b s = Inr b1
        \<and> build_telemetry_batch sha256 dumps registry b c s = Inr b2 \<and> xs = tb_runs b1 @ tb_runs b2)"
proof -
  have "a < c" using assms by (rule less_trans)
  have "(\<exists>b1 b2. build_telemetry_batch sha256 dumps registry a b s = Inr b1
        \<and> build_telemetry_batch sha256 dumps registry b c s = Inr b2 \<and> xs = tb_runs b1 @ tb_runs b2)
    \<longleftrightarrow> (\<exists>us vs. (\<exists>b1. build_telemetry_batch sha256 dumps registry a b s = Inr b1 \<and> tb_runs b1 = us)
        \<and> (\<exists>b2. build_telemetry_batch sha256 dumps registry b c s = Inr b2 \<and> tb_runs b2 = vs) \<and> xs = us @ vs)"
    by blast
  then show ?thesis
    using assms \<open>a < c\<close> window_split [of a b c s]
    by (auto simp: build_Inr_iff check_all_append used_models_append)
qed

theorem exported_windows_tile_witness:
  "\<exists>batch. build_telemetry_batch id (\<lambda>_. []) no_models (export_day 12) (export_day 14) (sample_export [local_attempt]) = Inr batch
     \<and> map xr_run_id (tb_runs batch) = [''run-1'', ''run-2'']"
proof -
  have days: "export_day 12 < export_day 13" "export_day 13 < export_day 14" by (simp_all add: export_day_def)
  obtain b1 where b1: "build_telemetry_batch id (\<lambda>_. []) no_models (export_day 12) (export_day 13) (sample_export [local_attempt]) = Inr b1"
    "map xr_run_id (tb_runs b1) = [''run-1'']"
    using sample_exports(1) by (elim exE conjE)
  obtain b2 where b2: "build_telemetry_batch id (\<lambda>_. []) no_models (export_day 13) (export_day 14) (sample_export [local_attempt]) = Inr b2"
    "map xr_run_id (tb_runs b2) = [''run-2'']"
    using sample_exports(2) by (elim exE conjE)
  have "\<exists>batch. build_telemetry_batch id (\<lambda>_. []) no_models (export_day 12) (export_day 14) (sample_export [local_attempt]) = Inr batch
     \<and> tb_runs batch = tb_runs b1 @ tb_runs b2"
    unfolding exported_windows_tile [OF days] using b1(1) b2(1) by (intro exI conjI) (assumption, assumption, rule refl)
  then show ?thesis using b1(2) b2(2) by auto
qed

lemma parse_registry_providers:
  assumes "parse_registry document = Inr registry" and "m \<in> set (mr_models registry)"
  shows "rm_provider m \<in> set KNOWN_PROVIDERS"
proof -
  obtain obj rows where "parse_models (mr_snapshot_date registry) [] rows = Inr (mr_models registry)"
    using parse_registry_rows [OF assms(1)] by metis
  then have "list_all2 safe_entry rows (mr_models registry)" using parse_models_safe by blast
  then show ?thesis using assms(2) by (auto simp: list_all2_conv_all_nth in_set_conv_nth safe_entry_def)
qed

text \<open>C31: A window that holds a run classified by the live provider cannot be exported, whatever reviewed model
  registry is loaded: the classifier's call is recorded under the model the SDK reports or the default
  \<open>jev-latest\<close>, while the exported registry lists that provider's model as \<open>system-one\<close>.\<close>

theorem live_classifier_blocks_export:
  assumes "parse_registry document = Inr registry"
    and "system_one message = Some response" and "tr_model response \<noteq> Some ''system-one''"
    and "set (snd (classify_intent system_one message)) \<subseteq> set (gn_provider_calls gn)"
    and "row \<in> set (window_records start until s)" and "rr_attempts row = attempts_of gn"
  shows "\<exists>e. build_telemetry_batch sha256 dumps registry start until s = Inl e"
proof (rule ccontr)
  assume "\<nexists>e. build_telemetry_batch sha256 dumps registry start until s = Inl e"
  then obtain batch where "build_telemetry_batch sha256 dumps registry start until s = Inr batch"
    by (cases "build_telemetry_batch sha256 dumps registry start until s") auto
  then have all: "check_all (export_record sha256 s) (window_records start until s) = Inr (tb_runs batch)"
    and known: "used_models (tb_runs batch) \<subseteq> known_models (exported_registry registry)"
    using build_Inr_iff by blast+
  let ?call = "record_call response ''choice''"
  have "?call \<in> set (gn_provider_calls gn)"
    using assms(2,4) by (auto simp: classify_intent_def Let_def split: if_splits)
  then have a: "call_attempt ?call \<in> set (rr_attempts row)"
    using assms(6) by (auto simp: attempts_of_def)
  obtain x where x: "export_record sha256 s row = Inr x" "x \<in> set (tb_runs batch)"
    using check_all_element [OF all assms(5)] by blast
  have "(''typesafe'', pc_model_id ?call) \<in> used_models [x]"
    using exported_models [OF x(1) a] by (simp add: call_attempt_def record_call_def TYPESAFE_PROVIDER_def Let_def)
  then have "(''typesafe'', pc_model_id ?call) \<in> known_models (exported_registry registry)"
    using known used_models_mono [OF x(2)] by blast
  moreover have "pc_model_id ?call \<noteq> ''system-one''"
    using assms(3) by (auto simp: record_call_def TYPESAFE_MODEL_DEFAULT_def Let_def split: option.splits)
  ultimately have "\<exists>m \<in> set (mr_models registry). rm_provider m = ''typesafe''"
    by (auto simp: known_models_def exported_registry_def)
  then show False using parse_registry_providers [OF assms(1)] by (force simp: KNOWN_PROVIDERS_def)
qed

definition classified :: typesafe_response where
  "classified = \<lparr>tr_usage = Some (Some 12, Some 3), tr_model = None, tr_intent = ''general_draft''\<rparr>"

definition classified_reply :: generation_result where
  "classified_reply = accepted_reply (codes ''Draft ready: hi'') (Some ''general_draft'') CLASSIFIER_ROUTE [record_call classified ''choice'']"

theorem live_classifier_blocks_export_witness:
  "\<exists>registry e. parse_registry sample_registry = Inr registry
     \<and> build_telemetry_batch id (\<lambda>_. []) registry (export_day 13) (export_day 14)
         (sample_export (attempts_of classified_reply)) = Inl e"
proof -
  let ?row = "sample_record 2 (export_day 13) (attempts_of classified_reply)"
  obtain registry where registry: "parse_registry sample_registry = Inr registry"
    using sample_registry_accepted by (auto split: sum.splits)
  have row: "?row \<in> set (window_records (export_day 13) (export_day 14) (sample_export (attempts_of classified_reply)))"
    by (simp add: window_records_def sample_export_def empty_db_def sample_record_def export_day_def)
  have "\<exists>e. build_telemetry_batch id (\<lambda>_. []) registry (export_day 13) (export_day 14)
      (sample_export (attempts_of classified_reply)) = Inl e"
    by (rule live_classifier_blocks_export [OF registry _ _ _ row, where message = "codes ''hi''" and gn = classified_reply
          and system_one = "\<lambda>_. Some classified", OF refl])
       (simp_all add: classified_def classify_intent_def classified_reply_def accepted_reply_def sample_record_def Let_def)
  then show ?thesis using registry by blast
qed

text \<open>C30: An export depends on no user text: databases that agree on the routing tables, on the ratings and on the
  runs up to their user, request hash and reply text give the same batch, byte for byte, whatever tasks,
  reminders, names or other rows they hold.\<close>

theorem export_ignores_user_text:
  assumes "routing_records t = routing_records s" and "routing_decisions t = routing_decisions s"
    and "feedback_rows t = feedback_rows s" and "map without_text (runs t) = map without_text (runs s)"
  shows "build_telemetry_batch sha256 dumps registry start until t = build_telemetry_batch sha256 dumps registry start until s"
proof -
  have "scrubbed t = scrubbed s" using assms by (simp add: scrubbed_def)
  then show ?thesis by (metis build_scrubbed)
qed

theorem export_ignores_user_text_witness:
  "let s = sample_export [local_attempt];
       t = s\<lparr>runs := map (\<lambda>r. r\<lparr>ru_response_text := Some (codes ''another reply'')\<rparr>) (runs s)\<rparr>
   in runs t \<noteq> runs s \<and> build_telemetry_batch id (\<lambda>_. []) no_models (export_day 12) (export_day 14) t
        = build_telemetry_batch id (\<lambda>_. []) no_models (export_day 12) (export_day 14) s"
  unfolding Let_def
proof (rule conjI)
  show "runs (sample_export [local_attempt]\<lparr>runs := map (\<lambda>r. r\<lparr>ru_response_text := Some (codes ''another reply'')\<rparr>)
      (runs (sample_export [local_attempt]))\<rparr>) \<noteq> runs (sample_export [local_attempt])"
    by (simp add: sample_export_def sample_run_def codes_def)
qed (rule export_ignores_user_text; simp add: without_text_def)

end
