(* ===== verification/Limiter.thy ===== *)
theory Limiter
  imports Prelude "HOL-Library.AList"
begin

text \<open>
  The sliding-window rate limiter (\<open>SlidingWindowLimiter\<close> of \<open>daily_agent/ratelimit.py\<close>): the
  per-key deques of hit times as the code keeps them (a dict in insertion order, lists oldest
  first), and the abstract limiter that keeps the whole log of accepted hits. Clock readings are
  real numbers; the lock makes each check one step.
\<close>

section \<open>The limiter\<close>

type_synonym hits = "(string \<times> real list) list"

definition hits_of :: "string \<Rightarrow> hits \<Rightarrow> real list" where
  "hits_of key hits = (case map_of hits key of Some hs \<Rightarrow> hs | None \<Rightarrow> [])"

definition drop_idle :: "real \<Rightarrow> real \<Rightarrow> hits \<Rightarrow> hits" where
  "drop_idle window now hits = filter (\<lambda>(k, v). \<not> (v = [] \<or> now - last v \<ge> window)) hits"

definition check :: "int \<Rightarrow> real \<Rightarrow> nat \<Rightarrow> real \<Rightarrow> string \<Rightarrow> hits \<Rightarrow> int option \<times> hits" where
  "check limit window max_keys now key hits =
     (let hs = dropWhile (\<lambda>t. now - t \<ge> window) (hits_of key hits)
      in if int (length hs) \<ge> limit
         then (Some (max 1 \<lceil>window - (now - hd hs)\<rceil>), AList.update key hs hits)
         else let hits' = AList.update key (hs @ [now]) hits
              in (None, if length hits' > max_keys then drop_idle window now hits' else hits'))"

text \<open>\<open>check\<close> with the code's bound on the number of keys\<close>

definition MAX_KEYS :: nat where "MAX_KEYS = 10000"

section \<open>The abstract limiter\<close>

type_synonym hit_log = "(string \<times> real) list"

definition recent :: "real \<Rightarrow> real \<Rightarrow> string \<Rightarrow> hit_log \<Rightarrow> real list" where
  "recent window now key past = filter (\<lambda>t. now - t < window) (map snd (filter (\<lambda>(k, t). k = key) past))"

definition spec_check :: "int \<Rightarrow> real \<Rightarrow> real \<Rightarrow> string \<Rightarrow> hit_log \<Rightarrow> bool \<times> hit_log" where
  "spec_check limit window now key past =
     (if int (length (recent window now key past)) < limit then (True, past @ [(key, now)]) else (False, past))"

text \<open>Runs over a sequence of calls (key and clock reading)\<close>

fun run_checks :: "int \<Rightarrow> real \<Rightarrow> nat \<Rightarrow> (string \<times> real) list \<Rightarrow> hits \<Rightarrow> int option list" where
  "run_checks limit window mk [] hits = []"
| "run_checks limit window mk ((key, now) # calls) hits =
     (let (r, hits') = check limit window mk now key hits in r # run_checks limit window mk calls hits')"

fun run_spec :: "int \<Rightarrow> real \<Rightarrow> (string \<times> real) list \<Rightarrow> hit_log \<Rightarrow> bool list" where
  "run_spec limit window [] past = []"
| "run_spec limit window ((key, now) # calls) past =
     (let (r, past') = spec_check limit window now key past in r # run_spec limit window calls past')"

section \<open>Simulation\<close>

definition fresh_hits :: "real \<Rightarrow> real \<Rightarrow> real list \<Rightarrow> real list" where
  "fresh_hits window now hs = filter (\<lambda>t. now - t < window) hs"

definition tracks_log :: "real \<Rightarrow> real \<Rightarrow> hits \<Rightarrow> hit_log \<Rightarrow> bool" where
  "tracks_log window now hits past \<longleftrightarrow>
     (\<forall>key. fresh_hits window now (hits_of key hits) = recent window now key past
          \<and> sorted (hits_of key hits) \<and> (\<forall>t \<in> set (hits_of key hits). t \<le> now))
   \<and> distinct (map fst hits) \<and> (\<forall>(k, t) \<in> set past. t \<le> now)"

lemma dropWhile_fresh:
  "sorted hs \<Longrightarrow> dropWhile (\<lambda>t. now - t \<ge> window) hs = fresh_hits window now (hs :: real list)"
proof (induction hs)
  case (Cons t hs)
  show ?case
  proof (cases "now - t \<ge> window")
    case False
    then have "filter (\<lambda>t. now - t < window) hs = hs"
      using Cons.prems by (intro filter_True) (auto dest: bspec)
    then show ?thesis using False by (simp add: fresh_hits_def)
  next
    case True
    then show ?thesis using Cons by (simp add: fresh_hits_def)
  qed
qed (simp add: fresh_hits_def)

lemma hits_of_update [simp]: "hits_of k (AList.update key hs hits) = (if k = key then hs else hits_of k hits)"
  by (simp add: hits_of_def update_conv')

lemma hits_of_drop_idle:
  assumes "distinct (map fst hits)"
  shows "hits_of k (drop_idle window now hits)
    = (if hits_of k hits = [] \<or> now - last (hits_of k hits) \<ge> window then [] else hits_of k hits)"
  using assms
proof (induction hits)
  case (Cons h hits)
  obtain k' v where h: "h = (k', v)" by (cases h)
  have none: "map_of hits k' = None" using Cons.prems by (simp add: h map_of_eq_None_iff)
  then have "map_of (drop_idle window now hits) k' = None"
    by (auto simp: drop_idle_def map_of_eq_None_iff)
  then show ?case using Cons none
    by (cases "k = k'") (auto simp: h hits_of_def drop_idle_def)
qed (simp add: hits_of_def drop_idle_def)

lemma fresh_idle:
  assumes "sorted hs" and "hs = [] \<or> now - last hs \<ge> window"
  shows "fresh_hits window now (hs :: real list) = []"
proof (cases "hs = []")
  case False
  have "t \<le> last hs" if "t \<in> set hs" for t
    using that assms(1) False by (metis in_set_conv_nth last_conv_nth sorted_nth_mono Suc_pred' diff_less
        length_greater_0_conv less_Suc_eq_le less_numeral_extra(1))
  then have "now - t \<ge> window" if "t \<in> set hs" for t using assms(2) False that by force
  then show ?thesis by (force simp: fresh_hits_def filter_empty_conv)
qed (simp add: fresh_hits_def)

lemma fresh_later:
  "now \<le> now' \<Longrightarrow> fresh_hits window now hs = fresh_hits window now xs \<Longrightarrow>
   fresh_hits window now' hs = fresh_hits window now' (xs :: real list)"
proof -
  assume le: "now \<le> now'" and eq: "fresh_hits window now hs = fresh_hits window now xs"
  have "fresh_hits window now' ys = fresh_hits window now' (fresh_hits window now ys)" for ys
    using le by (auto simp: fresh_hits_def intro!: filter_cong)
  then show ?thesis using eq by metis
qed

lemma recent_fresh: "recent window now key past = fresh_hits window now (map snd (filter (\<lambda>(k, t). k = key) past))"
  by (simp add: recent_def fresh_hits_def)

lemma tracks_log_later: "tracks_log window now hits past \<Longrightarrow> now \<le> now' \<Longrightarrow> tracks_log window now' hits past"
  unfolding tracks_log_def
proof (intro conjI allI)
  assume "(\<forall>key. fresh_hits window now (hits_of key hits) = recent window now key past
          \<and> sorted (hits_of key hits) \<and> (\<forall>t \<in> set (hits_of key hits). t \<le> now))
      \<and> distinct (map fst hits) \<and> (\<forall>(k, t) \<in> set past. t \<le> now)" and le: "now \<le> now'"
  note old = this(1) [THEN conjunct1, rule_format] and rest = this(1) [THEN conjunct2]
  show "distinct (map fst hits)" using rest by simp
  show "\<forall>(k, t) \<in> set past. t \<le> now'" using rest le by fastforce
  fix key
  show "fresh_hits window now' (hits_of key hits) = recent window now' key past"
    using fresh_later [OF le] old [of key] unfolding recent_fresh by blast
  show "sorted (hits_of key hits)" using old [of key] by simp
  show "\<forall>t \<in> set (hits_of key hits). t \<le> now'" using old [of key] le by fastforce
qed

lemma tracks_log_drop_idle:
  assumes "tracks_log window now hits past"
  shows "tracks_log window now (drop_idle window now hits) past"
  unfolding tracks_log_def
proof (intro conjI allI)
  have d: "distinct (map fst hits)" using assms by (simp add: tracks_log_def)
  note old = assms [unfolded tracks_log_def, THEN conjunct1, rule_format]
  show "distinct (map fst (drop_idle window now hits))"
    unfolding drop_idle_def by (rule distinct_map_filter [OF d])
  show "\<forall>(k, t) \<in> set past. t \<le> now" using assms by (simp add: tracks_log_def)
  fix key
  show "fresh_hits window now (hits_of key (drop_idle window now hits)) = recent window now key past"
    and "sorted (hits_of key (drop_idle window now hits))"
    and "\<forall>t \<in> set (hits_of key (drop_idle window now hits)). t \<le> now"
    using old [of key] fresh_idle [of "hits_of key hits" window now]
    by (auto simp: hits_of_drop_idle [OF d] fresh_hits_def)
qed

text \<open>One check keeps the relation and gives the abstract answer.\<close>

lemma check_refines:
  assumes "tracks_log window now hits past" and "0 < window"
  shows "(fst (check limit window mk now key hits) = None) = fst (spec_check limit window now key past)"
    and "tracks_log window now (snd (check limit window mk now key hits)) (snd (spec_check limit window now key past))"
proof -
  let ?hs = "dropWhile (\<lambda>t. now - t \<ge> window) (hits_of key hits)"
  have hs: "?hs = recent window now key past"
    using assms(1) dropWhile_fresh by (simp add: tracks_log_def)
  have hs_sorted: "sorted ?hs" "\<forall>t \<in> set ?hs. t \<le> now"
    using assms(1) unfolding tracks_log_def
    by (metis sorted_dropWhile, meson set_dropWhileD)
  have idem: "fresh_hits window now ?hs = ?hs"
    by (simp add: hs recent_def fresh_hits_def)
  show "(fst (check limit window mk now key hits) = None) = fst (spec_check limit window now key past)"
    by (simp add: check_def spec_check_def Let_def hs)
  show "tracks_log window now (snd (check limit window mk now key hits)) (snd (spec_check limit window now key past))"
  proof (cases "int (length ?hs) \<ge> limit")
    case True
    then show ?thesis
      using assms(1) hs_sorted idem by (auto simp: check_def spec_check_def Let_def hs tracks_log_def distinct_update)
  next
    case False
    let ?hits = "AList.update key (?hs @ [now]) hits" and ?past = "past @ [(key, now)]"
    have step: "tracks_log window now ?hits ?past"
      using assms hs_sorted idem hs
      by (auto simp: tracks_log_def distinct_update sorted_append recent_fresh fresh_hits_def)
    then have "tracks_log window now (drop_idle window now ?hits) ?past" by (rule tracks_log_drop_idle)
    then show ?thesis using step False
      by (simp add: check_def spec_check_def Let_def hs)
  qed
qed

lemma run_refines:
  assumes "tracks_log window now hits past" and "0 < window" and "sorted (map snd calls)"
    and "\<forall>(k, t) \<in> set calls. now \<le> t"
  shows "map (\<lambda>r. r = None) (run_checks limit window mk calls hits) = run_spec limit window calls past"
  using assms
proof (induction calls arbitrary: now hits past)
  case (Cons c calls)
  obtain key t where c: "c = (key, t)" by (cases c)
  have t: "tracks_log window t hits past"
    using tracks_log_later Cons.prems(1,4) by (auto simp: c)
  note step = check_refines [OF t Cons.prems(2), of limit mk key]
  have "map (\<lambda>r. r = None) (run_checks limit window mk calls (snd (check limit window mk t key hits)))
      = run_spec limit window calls (snd (spec_check limit window t key past))"
    by (rule Cons.IH [OF step(2) Cons.prems(2)]) (use Cons.prems(3) in \<open>auto simp: c\<close>)
  then show ?case using step(1) by (auto simp: c split: prod.splits)
qed simp

lemma tracks_log_empty: "tracks_log window now [] []"
  by (simp add: tracks_log_def hits_of_def recent_def fresh_hits_def)

section \<open>Properties\<close>

text \<open>C22: The limiter refines the sliding window. Over any sequence of calls whose clock readings do
  not decrease, the limiter allows exactly the calls the abstract limiter allows: those whose key
  has fewer than \<open>limit\<close> accepted calls within the last \<open>window\<close> seconds. Dropping expired
  times from the deques, and deleting idle keys once there are too many, never changes an answer.\<close>

theorem limiter_refines_sliding_window:
  assumes "0 < window" and "sorted (map snd calls)"
  shows "map (\<lambda>r. r = None) (run_checks limit window MAX_KEYS calls []) = run_spec limit window calls []"
proof (cases calls)
  case (Cons c cs)
  have "\<forall>(k, t) \<in> set calls. snd c \<le> t" using assms(2) by (auto simp: Cons)
  then show ?thesis by (rule run_refines [OF tracks_log_empty assms])
qed simp

theorem limiter_refines_sliding_window_witness:
  "map (\<lambda>r. r = None) (run_checks 2 60 MAX_KEYS [(''u'', 0), (''u'', 10), (''u'', 20), (''v'', 20), (''u'', 61)] [])
     = [True, True, False, True, True]"
  using limiter_refines_sliding_window [of 60 "[(''u'', 0), (''u'', 10), (''u'', 20), (''v'', 20), (''u'', 61)]" 2]
  by (simp add: spec_check_def recent_def)

definition accepted :: "int \<Rightarrow> real \<Rightarrow> nat \<Rightarrow> (string \<times> real) list \<Rightarrow> (string \<times> real) list" where
  "accepted limit window mk calls =
     map fst (filter (\<lambda>(c, r). r = None) (zip calls (run_checks limit window mk calls [])))"

definition in_window :: "real \<Rightarrow> string \<Rightarrow> real \<Rightarrow> hit_log \<Rightarrow> nat" where
  "in_window window key t past = length (filter (\<lambda>(k, u). k = key \<and> t - window < u \<and> u \<le> t) past)"

fun spec_log :: "int \<Rightarrow> real \<Rightarrow> (string \<times> real) list \<Rightarrow> hit_log \<Rightarrow> hit_log" where
  "spec_log limit window [] past = past"
| "spec_log limit window ((key, now) # calls) past =
     spec_log limit window calls (snd (spec_check limit window now key past))"

lemma recent_length:
  "\<forall>(k, u) \<in> set past. u \<le> now \<Longrightarrow> length (recent window now key past) = in_window window key now past"
  by (induction past) (auto simp: recent_def in_window_def)

lemma in_window_later:
  assumes "\<forall>(k, u) \<in> set past. u \<le> now" and "now \<le> t"
  shows "in_window window key t past \<le> in_window window key now past"
  using assms by (induction past) (auto simp: in_window_def)

lemma spec_log_bound:
  assumes "\<forall>key t. int (in_window window key t past) \<le> limit" and "0 \<le> limit" and "sorted (map snd calls)"
    and "\<forall>(k, u) \<in> set past. \<forall>(k', now) \<in> set calls. u \<le> now"
  shows "int (in_window window key t (spec_log limit window calls past)) \<le> limit"
  using assms
proof (induction calls arbitrary: past)
  case (Cons c calls)
  obtain k now where c: "c = (k, now)" by (cases c)
  have old: "\<forall>(k, u) \<in> set past. u \<le> now" using Cons.prems(4) by (auto simp: c)
  let ?past = "snd (spec_check limit window now k past)"
  have bound: "int (in_window window key t ?past) \<le> limit" for key t
  proof (cases "int (length (recent window now k past)) < limit \<and> key = k \<and> now \<le> t")
    case True
    have "in_window window k t past \<le> length (recent window now k past)"
      using in_window_later [OF old, of t window k] recent_length [OF old] True by simp
    then have "int (in_window window k t past) + 1 \<le> limit" using True by linarith
    then show ?thesis using True by (simp add: spec_check_def in_window_def)
  next
    case False
    then show ?thesis using Cons.prems(1) by (auto simp: spec_check_def in_window_def)
  qed
  show ?case
    unfolding c spec_log.simps
    by (rule Cons.IH) (use bound Cons.prems(2-4) old in \<open>auto simp: c spec_check_def\<close>)
qed simp

lemma accepted_spec_log:
  "map (\<lambda>r. r = None) rs = run_spec limit window calls past \<Longrightarrow>
   past @ map fst (filter (\<lambda>(c, r). r = None) (zip calls rs)) = spec_log limit window calls past"
proof (induction calls arbitrary: past rs)
  case (Cons c calls)
  obtain k now where c: "c = (k, now)" by (cases c)
  obtain r rs' where rs: "rs = r # rs'" using Cons.prems by (cases rs) (auto simp: c split: prod.splits)
  have r: "(r = None) = fst (spec_check limit window now k past)"
    and rs': "map (\<lambda>r. r = None) rs' = run_spec limit window calls (snd (spec_check limit window now k past))"
    using Cons.prems by (auto simp: c rs split: prod.splits)
  show ?case using Cons.IH [OF rs'] r by (auto simp: c rs spec_check_def split: if_splits)
qed simp

text \<open>The rate limit holds. Over any sequence of calls whose clock readings do not decrease, in
  every window of \<open>window\<close> seconds, wherever it ends, at most \<open>limit\<close> calls of a key are
  accepted.\<close>

theorem rate_limit_holds:
  assumes "0 < window" and "0 \<le> limit" and "sorted (map snd calls)"
  shows "int (in_window window key t (accepted limit window MAX_KEYS calls)) \<le> limit"
proof -
  have "map (\<lambda>r. r = None) (run_checks limit window MAX_KEYS calls []) = run_spec limit window calls []"
  proof (cases calls)
    case (Cons c cs)
    have "\<forall>(k, t) \<in> set calls. snd c \<le> t" using assms(3) by (auto simp: Cons)
    then show ?thesis by (rule run_refines [OF tracks_log_empty assms(1,3)])
  qed simp
  then have "accepted limit window MAX_KEYS calls = spec_log limit window calls []"
    using accepted_spec_log by (fastforce simp: accepted_def)
  then show ?thesis using spec_log_bound [of window "[]" limit calls] assms by (simp add: in_window_def)
qed

theorem rate_limit_holds_witness:
  "int (in_window 60 ''u'' 65 (accepted 2 60 MAX_KEYS [(''u'', 0), (''u'', 10), (''u'', 20), (''u'', 61)])) \<le> 2"
  using rate_limit_holds [of 60 2 "[(''u'', 0), (''u'', 10), (''u'', 20), (''u'', 61)]" "''u''" 65] by simp

text \<open>Retry-After. When a call is refused with \<open>n\<close> seconds to wait, \<open>n\<close> is at least one, the
  same key is accepted at any later reading at least \<open>n\<close> seconds on (no other call of the key in
  between), and for \<open>n\<close> above one it would still be refused a whole second earlier.\<close>

theorem retry_after_is_exact:
  assumes "check limit window mk now key hits = (Some n, hits')"
    and "1 \<le> limit" and "sorted (hits_of key hits)" and "int (length (hits_of key hits)) \<le> limit"
    and "\<forall>t \<in> set (hits_of key hits). t \<le> now"
  shows "1 \<le> n \<and> (\<forall>now' \<ge> now + of_int n. fst (check limit window mk now' key hits') = None)
     \<and> (1 < n \<longrightarrow> fst (check limit window mk (now + of_int n - 1) key hits') \<noteq> None)"
proof -
  let ?hs = "dropWhile (\<lambda>t. now - t \<ge> window) (hits_of key hits)"
  have full: "limit \<le> int (length ?hs)" and n: "n = max 1 \<lceil>window - (now - hd ?hs)\<rceil>"
    and hits': "hits_of key hits' = ?hs"
    using assms(1) by (auto simp: check_def Let_def split: if_splits)
  have "length ?hs \<noteq> 0" using full assms(2) by linarith
  then have ne: "?hs \<noteq> []" by (metis list.size(3))
  have len: "int (length ?hs) = limit"
    using full assms(4) length_dropWhile_le [of "\<lambda>t. now - t \<ge> window" "hits_of key hits"] by linarith
  have srt: "sorted ?hs" by (rule sorted_dropWhile [OF assms(3)])
  have c: "window - (now - hd ?hs) \<le> of_int n" using n by linarith
  have later: "fst (check limit window mk now' key hits') = None" if "now' \<ge> now + of_int n" for now'
  proof -
    have "now' - hd ?hs \<ge> window" using c that by linarith
    then have "length (dropWhile (\<lambda>t. now' - t \<ge> window) ?hs) < length ?hs"
      using ne by (metis dropWhile_eq_Cons_conv hd_Cons_tl length_dropWhile_le length_Cons
          dropWhile.simps(2) le_imp_less_Suc)
    then have "int (length (dropWhile (\<lambda>t. now' - t \<ge> window) ?hs)) < limit" using len by linarith
    then show ?thesis by (simp add: check_def Let_def hits')
  qed
  have earlier: "fst (check limit window mk (now + of_int n - 1) key hits') \<noteq> None" if "1 < n"
  proof -
    have "of_int n - 1 < window - (now - hd ?hs)" using n that by linarith
    then have "\<not> (now + of_int n - 1) - hd ?hs \<ge> window" by linarith
    then have "dropWhile (\<lambda>t. (now + of_int n - 1) - t \<ge> window) ?hs = ?hs"
      using ne by (cases ?hs) auto
    then show ?thesis using full by (simp add: check_def Let_def hits')
  qed
  have "1 \<le> n" using n by simp
  then show ?thesis using later earlier by blast
qed

theorem retry_after_is_exact_witness:
  "check 1 60 MAX_KEYS 20 ''u'' [(''u'', [0.5])] = (Some 41, [(''u'', [0.5])])
   \<and> fst (check 1 60 MAX_KEYS 61 ''u'' [(''u'', [0.5])]) = None
   \<and> fst (check 1 60 MAX_KEYS 60 ''u'' [(''u'', [0.5])]) \<noteq> None"
proof -
  have c: "\<lceil>81 / (2 :: real)\<rceil> = 41" by (simp add: ceiling_eq_iff)
  have "check 1 60 MAX_KEYS 20 ''u'' [(''u'', [0.5])] = (Some 41, [(''u'', [0.5])])"
    by (simp add: check_def hits_of_def c)
  then show ?thesis using retry_after_is_exact [of 1 60 MAX_KEYS 20 "''u''" "[(''u'', [0.5])]" 41]
    by (simp add: hits_of_def)
qed

end
