(* ===== verification/Api.thy ===== *)
theory Api
  imports Routing Limiter Budget
begin

text \<open>
  The request handlers of \<open>daily_agent/api.py\<close> that work on the database alone, with the request and
  response classes of \<open>daily_agent/schemas.py\<close>. A handler is an operation on the database: \<open>Ok\<close> holds
  its answer and the committed state, \<open>Raise\<close> the HTTP error and the state last committed, since the
  session is closed, and its open transaction rolled back, when the handler ends. Where the code
  recovers from a lost race on a unique key, \<open>race\<close> is what other transactions commit between its
  read and its write. The columns are those of PostgreSQL (aware timestamps);
  \<open>sha256\<close> is the hex digest.
\<close>

section \<open>Requests and views\<close>

definition field_length :: "nat \<Rightarrow> nat \<Rightarrow> 'a list \<Rightarrow> bool" where
  "field_length lo hi xs \<longleftrightarrow> lo \<le> length xs \<and> length xs \<le> hi"

record task_create =
  tc_title :: utext
  tc_idempotency_key :: string

definition valid_task_create :: "task_create \<Rightarrow> bool" where
  "valid_task_create b \<longleftrightarrow> field_length 1 500 (tc_title b) \<and> field_length 8 120 (tc_idempotency_key b)"

record task_view =
  tv_id :: nat
  tv_title :: utext
  tv_completed :: bool

definition view_task :: "task \<Rightarrow> task_view" where
  "view_task t = \<lparr>tv_id = ta_id t, tv_title = ta_title t, tv_completed = ta_completed t\<rparr>"

text \<open>The instant of a reminder: without an offset, or the UTC instant of an aware one\<close>

datatype due_at = Naive datetime | Aware datetime

record reminder_create =
  rq_text :: utext
  rq_due_at :: due_at
  rq_timezone :: string
  rq_idempotency_key :: string

definition valid_reminder_create :: "reminder_create \<Rightarrow> bool" where
  "valid_reminder_create b \<longleftrightarrow> field_length 1 500 (rq_text b) \<and> field_length 1 64 (rq_timezone b)
     \<and> field_length 8 120 (rq_idempotency_key b)"

definition MAX_HISTORY_TURNS :: nat where "MAX_HISTORY_TURNS = 20"
definition MAX_HISTORY_TURN_CHARS :: nat where "MAX_HISTORY_TURN_CHARS = 8000"

definition valid_turn :: "history_turn \<Rightarrow> bool" where
  "valid_turn t \<longleftrightarrow> ht_role t \<in> {''user'', ''assistant''} \<and> field_length 1 MAX_HISTORY_TURN_CHARS (ht_content t)"

record message_create =
  mc_text :: utext
  mc_idempotency_key :: string
  mc_history :: "history_turn list"

definition valid_message_create :: "message_create \<Rightarrow> bool" where
  "valid_message_create b \<longleftrightarrow> field_length 1 100000 (mc_text b) \<and> field_length 8 120 (mc_idempotency_key b)
     \<and> length (mc_history b) \<le> MAX_HISTORY_TURNS \<and> list_all valid_turn (mc_history b)"

definition feedback_ratings :: "string list" where "feedback_ratings = [''up'', ''down'']"
definition feedback_reasons :: "string list" where "feedback_reasons = [''wrong'', ''unclear'', ''too_slow'', ''other'']"

definition valid_reason :: "string option \<Rightarrow> bool" where
  "valid_reason reason \<longleftrightarrow> (case reason of None \<Rightarrow> True | Some r \<Rightarrow> r \<in> set feedback_reasons)"

record feedback_create =
  fc_rating :: string
  fc_reason :: "string option"

definition valid_feedback_create :: "feedback_create \<Rightarrow> bool" where
  "valid_feedback_create b \<longleftrightarrow> fc_rating b \<in> set feedback_ratings \<and> valid_reason (fc_reason b)"

record feedback_view =
  fv_run_id :: string
  fv_rating :: string
  fv_reason :: "string option"

record regenerate_create =
  rg_text :: utext
  rg_idempotency_key :: string
  rg_reason :: "string option"
  rg_history :: "history_turn list"

definition valid_regenerate_create :: "regenerate_create \<Rightarrow> bool" where
  "valid_regenerate_create b \<longleftrightarrow> field_length 1 100000 (rg_text b) \<and> field_length 8 120 (rg_idempotency_key b)
     \<and> valid_reason (rg_reason b) \<and> length (rg_history b) \<le> MAX_HISTORY_TURNS \<and> list_all valid_turn (rg_history b)"

record usage_view =
  vu_plan_id :: string
  vu_plan_label :: string
  vu_everyday_used :: int
  vu_everyday_limit :: int
  vu_tokens_used :: int
  vu_tokens_limit :: int
  vu_reserved_micro :: int
  vu_settled_micro :: int
  vu_spend_limit_micro :: int
  vu_reset_at :: datetime
  vu_period_reset_at :: datetime
  vu_policy_version :: string
  vu_synthetic :: bool

record armory_tier =
  at_id :: int
  at_key :: string
  at_label :: string
  at_plan_id :: string

record armory_view =
  va_unlocked_tier :: int
  va_active_theme :: int
  va_tiers :: "armory_tier list"

definition ARMORY_TIERS :: "armory_tier list" where
  "ARMORY_TIERS = [\<lparr>at_id = 1, at_key = ''ananta'', at_label = ''Ananta'', at_plan_id = ''ananta''\<rparr>,
     \<lparr>at_id = 2, at_key = ''yanta'', at_label = ''Yanta'', at_plan_id = ''yanta''\<rparr>,
     \<lparr>at_id = 3, at_key = ''trika'', at_label = ''Trika'', at_plan_id = ''trika''\<rparr>,
     \<lparr>at_id = 4, at_key = ''parth'', at_label = ''Parth'', at_plan_id = ''parth''\<rparr>]"

definition valid_theme :: "int \<Rightarrow> bool" where "valid_theme n \<longleftrightarrow> 1 \<le> n \<and> n \<le> 4"

record access_code_view =
  av_plan_id :: string
  av_plan_label :: string
  av_changed :: bool

definition valid_code :: "string \<Rightarrow> bool" where "valid_code code \<longleftrightarrow> field_length 4 64 code"

section \<open>Errors\<close>

definition idempotency_conflict :: http_error where
  "idempotency_conflict = Http 409 ''idempotency key was reused with a different payload''"

text \<open>The exceptions that a handler lets through reach the framework.\<close>

definition crash_name :: "service_error \<Rightarrow> string" where
  "crash_name e = (case e of BudgetDenied _ _ \<Rightarrow> ''BudgetDenied'' | IdempotencyConflict _ \<Rightarrow> ''IdempotencyConflict''
     | ReservationInFlight _ \<Rightarrow> ''ReservationInFlight'' | GatewayCapacityFull _ \<Rightarrow> ''GatewayCapacityFull''
     | IntegrityError \<Rightarrow> ''IntegrityError'' | ValueError m \<Rightarrow> m | RuntimeError m \<Rightarrow> m)"

definition crash :: "service_error \<Rightarrow> http_error" where "crash e = Crash (crash_name e)"

section \<open>Rate limits\<close>

definition limited :: "int \<Rightarrow> string \<Rightarrow> real \<Rightarrow> principal \<Rightarrow> hits \<Rightarrow> http_error option \<times> hits" where
  "limited limit message now p hits =
     (let (retry_after, hits') = check limit 60 MAX_KEYS now (nat_str (pr_user_id p)) hits
      in (case retry_after of None \<Rightarrow> None | Some n \<Rightarrow> Some (Refused 429 ''RATE_LIMITED'' message (Retry_after n)), hits'))"

definition limited_principal :: "settings \<Rightarrow> real \<Rightarrow> principal \<Rightarrow> hits \<Rightarrow> http_error option \<times> hits" where
  "limited_principal settings now p hits =
     limited (rate_limit_per_minute settings) ''too many requests; slow down'' now p hits"

definition limited_guess :: "real \<Rightarrow> principal \<Rightarrow> hits \<Rightarrow> http_error option \<times> hits" where
  "limited_guess now p hits = limited 5 ''too many attempts; wait and retry'' now p hits"

section \<open>Development and administration\<close>

record ready_view =
  vr_status :: string
  vr_database :: string
  vr_live_models :: bool
  vr_paid_checkout :: bool
  vr_whatsapp :: string

definition ready :: "settings \<Rightarrow> ready_view hop" where
  "ready settings = ret \<lparr>vr_status = ''ready'', vr_database = ''ok'', vr_live_models = live_models_enabled settings,
     vr_paid_checkout = paid_checkout_enabled settings, vr_whatsapp = ''policy_disabled''\<rparr>"

definition TOKEN_TTL_SECONDS :: int where "TOKEN_TTL_SECONDS = 3600"

definition development_token ::
  "(string \<Rightarrow> string \<Rightarrow> string) \<Rightarrow> int \<Rightarrow> datetime \<Rightarrow> settings \<Rightarrow> string \<Rightarrow> (string \<times> nat) hop" where
  "development_token hmac now_seconds now settings role =
     (if \<not> allow_development_auth settings \<or> \<not> is_development settings then raise (Http 404 ''Not Found'')
      else if role \<notin> {''customer'', ''admin''} then raise (Http 422 ''Unprocessable Entity'')
      else andthen (catching crash (seed_development_identity now role)) (\<lambda>user.
           ret (issue_development_token hmac now_seconds user settings TOKEN_TTL_SECONDS, us_id user)))"

record overview =
  vo_customers :: nat
  vo_runs_by_status :: "(run_status \<times> nat) list"
  vo_open_reservations :: nat
  vo_live_models :: bool
  vo_whatsapp :: string
  vo_raw_message_access :: string

text \<open>\<open>group_by(Run.status)\<close>: the statuses that occur, with their counts\<close>

definition runs_by_status :: "db \<Rightarrow> (run_status \<times> nat) list" where
  "runs_by_status s = map (\<lambda>st. (st, row_count (\<lambda>r. ru_status r = st) (runs s))) (remdups (map ru_status (runs s)))"

definition admin_overview :: "settings \<Rightarrow> principal \<Rightarrow> overview hop" where
  "admin_overview settings p =
     andthen (require_admin p) (\<lambda>_.
     read_db (\<lambda>s. \<lparr>vo_customers = length (accounts s), vo_runs_by_status = runs_by_status s,
       vo_open_reservations = row_count (\<lambda>r. br_status r = RESERVED) (budget_reservations s),
       vo_live_models = live_models_enabled settings, vo_whatsapp = ''policy_disabled'',
       vo_raw_message_access = ''not_available''\<rparr>))"

record run_summary =
  vs_run_id :: nat
  vs_status :: run_status
  vs_outcome :: "outcome option"
  vs_account_ref :: string
  vs_response :: string

definition admin_runs :: "(string \<Rightarrow> string) \<Rightarrow> principal \<Rightarrow> run_summary list hop" where
  "admin_runs sha256 p =
     andthen (require_admin p) (\<lambda>_.
     read_db (\<lambda>s. map (\<lambda>r. \<lparr>vs_run_id = ru_id r, vs_status = ru_status r, vs_outcome = ru_outcome r,
         vs_account_ref = take 12 (sha256 (nat_str (ru_account_id r))), vs_response = ''redacted''\<rparr>)
       (take 100 (rev (sort_key ru_id (runs s))))))"

section \<open>Usage and progression\<close>

definition usage :: "datetime \<Rightarrow> principal \<Rightarrow> usage_view hop" where
  "usage now p = read_db (\<lambda>s.
     let subscription = subscription_of (pr_account_id p) s;
         policy = plan_policy subscription;
         (day_key, day_reset) = current_window_key now;
         window = find_window (pr_account_id p) day_key s;
         period = active_period (pr_account_id p) now s;
         period_reset = (case period of Some pd \<Rightarrow> up_reset_at pd
           | None \<Rightarrow> snd (case subscription of Some su \<Rightarrow> subscription_period (su_period_anchor su) now
                                            | None \<Rightarrow> current_period_key now))
     in \<lparr>vu_plan_id = plan_id policy, vu_plan_label = display_name policy,
         vu_everyday_used = (case window of Some w \<Rightarrow> uw_everyday_used w | None \<Rightarrow> 0),
         vu_everyday_limit = everyday_limit policy,
         vu_tokens_used = (case window of Some w \<Rightarrow> uw_tokens_reserved w + uw_tokens_settled w | None \<Rightarrow> 0),
         vu_tokens_limit = daily_token_limit policy,
         vu_reserved_micro = (case period of Some pd \<Rightarrow> up_reserved_micro pd | None \<Rightarrow> 0),
         vu_settled_micro = (case period of Some pd \<Rightarrow> up_settled_micro pd | None \<Rightarrow> 0),
         vu_spend_limit_micro = (case period of Some pd \<Rightarrow> up_spend_limit_micro pd | None \<Rightarrow> period_cost_cap_micro policy),
         vu_reset_at = (case window of Some w \<Rightarrow> uw_reset_at w | None \<Rightarrow> day_reset),
         vu_period_reset_at = period_reset,
         vu_policy_version = (case subscription of Some su \<Rightarrow> su_policy_version su | None \<Rightarrow> ''synthetic-dev-v1''),
         vu_synthetic = True\<rparr>)"

definition find_account_user :: "nat \<Rightarrow> db \<Rightarrow> user option" where
  "find_account_user user_id s = select_first (\<lambda>u. us_id u = user_id) (users s)"

definition armory_of :: "nat \<Rightarrow> db \<Rightarrow> armory_view" where
  "armory_of user_id s = (case find_account_user user_id s of
       Some u \<Rightarrow> \<lparr>va_unlocked_tier = us_unlocked_tier u, va_active_theme = us_active_theme u, va_tiers = ARMORY_TIERS\<rparr>
     | None \<Rightarrow> \<lparr>va_unlocked_tier = 1, va_active_theme = 1, va_tiers = ARMORY_TIERS\<rparr>)"

text \<open>The commit is skipped when nothing changed; the answer is that of the synchronised user.\<close>

definition get_armory :: "principal \<Rightarrow> armory_view hop" where
  "get_armory p s = (case find_account_user (pr_user_id p) s of
       None \<Rightarrow> Raise (Http 404 ''user not found'') s
     | Some u \<Rightarrow>
         let t = sync_theme_progression (us_id u) s; view = armory_of (us_id u) t
         in Ok view (if va_unlocked_tier view \<noteq> us_unlocked_tier u \<or> va_active_theme view \<noteq> us_active_theme u then t else s))"

definition set_theme :: "nat \<Rightarrow> int \<Rightarrow> db \<Rightarrow> db" where
  "set_theme user_id theme s =
     s\<lparr>users := update_where (\<lambda>u. us_id u = user_id) (\<lambda>u. u\<lparr>us_active_theme := theme\<rparr>) (users s)\<rparr>"

definition update_active_theme :: "int \<Rightarrow> principal \<Rightarrow> armory_view hop" where
  "update_active_theme theme p s = (case find_account_user (pr_user_id p) s of
       None \<Rightarrow> Raise (Http 404 ''user not found'') s
     | Some u \<Rightarrow>
         let t = sync_theme_progression (us_id u) s; unlocked = va_unlocked_tier (armory_of (us_id u) t)
         in if theme > unlocked then Raise (Refused 403 ''TIER_LOCKED'' [] (Unlocked_tier unlocked)) s
            else Ok (armory_of (us_id u) (set_theme (us_id u) theme t)) (set_theme (us_id u) theme t))"

section \<open>Tasks and reminders\<close>

definition list_tasks :: "principal \<Rightarrow> task_view list hop" where
  "list_tasks p = read_db (\<lambda>s. map view_task (scoped_task_query (pr_account_id p) s))"

text \<open>The first attempt: the read sees the database as the request found it, the insert what others made of it.\<close>

definition try_create_task :: "(db \<Rightarrow> db) \<Rightarrow> task_create \<Rightarrow> principal \<Rightarrow> task sop" where
  "try_create_task race b p s =
     (if find_task (pr_account_id p) (tc_idempotency_key b) s = None
      then insert_task (pr_account_id p) (pr_user_id p) (tc_title b) (tc_idempotency_key b) (race s)
      else create_task_idempotent (pr_account_id p) (pr_user_id p) (tc_title b) (tc_idempotency_key b) s)"

definition create_task :: "(db \<Rightarrow> db) \<Rightarrow> task_create \<Rightarrow> principal \<Rightarrow> task_view hop" where
  "create_task race b p s =
     (case try_create_task race b p s of
        Ok t u \<Rightarrow> Ok (view_task t) u
      | Raise (IdempotencyConflict _) u \<Rightarrow> Raise idempotency_conflict u
      | Raise IntegrityError u \<Rightarrow>
          (case find_task (pr_account_id p) (tc_idempotency_key b) u of
             None \<Rightarrow> Raise (crash IntegrityError) u
           | Some t \<Rightarrow> if ta_title t \<noteq> tc_title b then Raise idempotency_conflict u else Ok (view_task t) u)
      | Raise e u \<Rightarrow> Raise (crash e) u)"

definition complete_task :: "string \<Rightarrow> principal \<Rightarrow> task_view hop" where
  "complete_task task_ref p s =
     (case select_first (\<lambda>t. nat_str (ta_id t) = task_ref \<and> ta_account_id t = pr_account_id p) (tasks s) of
        None \<Rightarrow> Raise (Http 404 ''task not found'') s
      | Some t \<Rightarrow> Ok (view_task (t\<lparr>ta_completed := True\<rparr>))
          (s\<lparr>tasks := update_where (\<lambda>u. ta_id u = ta_id t) (\<lambda>u. u\<lparr>ta_completed := True\<rparr>) (tasks s)\<rparr>))"

record reminder_view =
  ve_id :: nat
  ve_text :: utext
  ve_due_at_utc :: datetime
  ve_timezone :: string
  ve_state :: string
  ve_delivery :: string

definition view_reminder :: "reminder \<Rightarrow> reminder_view" where
  "view_reminder r = \<lparr>ve_id = re_id r, ve_text = re_text r, ve_due_at_utc = re_due_at_utc r,
     ve_timezone = re_timezone r, ve_state = re_state r, ve_delivery = ''test_adapter_only''\<rparr>"

definition find_reminder :: "nat \<Rightarrow> string \<Rightarrow> db \<Rightarrow> reminder option" where
  "find_reminder account_id key s =
     select_first (\<lambda>r. re_account_id r = account_id \<and> re_idempotency_key r = key) (reminders s)"

definition new_reminder :: "reminder_create \<Rightarrow> datetime \<Rightarrow> principal \<Rightarrow> nat \<Rightarrow> reminder" where
  "new_reminder b due p i = \<lparr>re_id = i, re_account_id = pr_account_id p, re_owner_user_id = pr_user_id p,
     re_text = rq_text b, re_due_at_utc = due, re_timezone = rq_timezone b, re_state = ''scheduled'',
     re_idempotency_key = rq_idempotency_key b, re_attempts = 0, re_lease_until = None\<rparr>"

text \<open>No handler recovers a lost race here: the \<open>IntegrityError\<close> of the commit goes through.\<close>

definition create_reminder :: "(db \<Rightarrow> db) \<Rightarrow> reminder_create \<Rightarrow> principal \<Rightarrow> reminder_view hop" where
  "create_reminder race b p s =
     (case rq_due_at b of
        Naive _ \<Rightarrow> Raise (Http 422 ''due_at must include a timezone offset'') s
      | Aware due \<Rightarrow>
          (case find_reminder (pr_account_id p) (rq_idempotency_key b) s of
             Some r \<Rightarrow> if re_text r \<noteq> rq_text b \<or> re_due_at_utc r \<noteq> due \<or> re_timezone r \<noteq> rq_timezone b
                       then Raise idempotency_conflict s else Ok (view_reminder r) s
           | None \<Rightarrow>
               (case insert_row (\<lambda>s. find_reminder (pr_account_id p) (rq_idempotency_key b) s \<noteq> None) (new_reminder b due p)
                   (\<lambda>r s. s\<lparr>reminders := reminders s @ [r]\<rparr>) (race s) of
                  Ok r u \<Rightarrow> Ok (view_reminder r) u
                | Raise e u \<Rightarrow> Raise (crash e) u)))"

section \<open>Feedback\<close>

definition own_run :: "string \<Rightarrow> principal \<Rightarrow> run hop" where
  "own_run run_ref p s =
     (case select_first (\<lambda>r. nat_str (ru_id r) = run_ref \<and> ru_account_id r = pr_account_id p \<and> ru_user_id r = pr_user_id p)
         (runs s) of
        None \<Rightarrow> Raise (Http 404 ''reply not found'') s
      | Some r \<Rightarrow> Ok r s)"

definition find_feedback :: "nat \<Rightarrow> nat \<Rightarrow> db \<Rightarrow> message_feedback option" where
  "find_feedback account_id run_id s =
     select_first (\<lambda>f. mf_account_id f = account_id \<and> mf_run_id f = run_id) (feedback_rows s)"

definition new_feedback :: "datetime \<Rightarrow> principal \<Rightarrow> nat \<Rightarrow> string \<Rightarrow> string option \<Rightarrow> nat \<Rightarrow> message_feedback" where
  "new_feedback now p run_id rating reason i = \<lparr>mf_id = i, mf_account_id = pr_account_id p, mf_user_id = pr_user_id p,
     mf_run_id = run_id, mf_rating = rating, mf_reason = reason, mf_created_at = now, mf_updated_at = now\<rparr>"

definition upsert_feedback ::
  "(db \<Rightarrow> db) \<Rightarrow> datetime \<Rightarrow> principal \<Rightarrow> nat \<Rightarrow> string \<Rightarrow> string option \<Rightarrow> unit sop" where
  "upsert_feedback race now p run_id rating reason s =
     (case find_feedback (pr_account_id p) run_id s of
        None \<Rightarrow> andthen (insert_row (\<lambda>s. find_feedback (pr_account_id p) run_id s \<noteq> None)
            (new_feedback now p run_id rating reason) (\<lambda>f s. s\<lparr>feedback_rows := feedback_rows s @ [f]\<rparr>)) (\<lambda>_. ret ()) (race s)
      | Some row \<Rightarrow>
          Ok () (if (mf_rating row, mf_reason row) = (rating, reason) then race s
            else (race s)\<lparr>feedback_rows := update_where (\<lambda>f. mf_id f = mf_id row)
              (\<lambda>f. f\<lparr>mf_rating := rating, mf_reason := reason, mf_updated_at := now\<rparr>) (feedback_rows (race s))\<rparr>))"

definition kept_reason :: "feedback_create \<Rightarrow> string option" where
  "kept_reason b = (if fc_rating b = ''down'' then fc_reason b else None)"

definition rate_reply :: "(db \<Rightarrow> db) \<Rightarrow> datetime \<Rightarrow> string \<Rightarrow> feedback_create \<Rightarrow> principal \<Rightarrow> feedback_view hop" where
  "rate_reply race now run_ref b p =
     andthen (own_run run_ref p) (\<lambda>run s.
     let reason = kept_reason b;
         view = \<lparr>fv_run_id = run_ref, fv_rating = fc_rating b, fv_reason = reason\<rparr>
     in case upsert_feedback race now p (ru_id run) (fc_rating b) reason s of
          Ok _ u \<Rightarrow> Ok view u
        | Raise IntegrityError u \<Rightarrow>
            (case upsert_feedback id now p (ru_id run) (fc_rating b) reason u of
               Ok _ w \<Rightarrow> Ok view w | Raise e w \<Rightarrow> Raise (crash e) w)
        | Raise e u \<Rightarrow> Raise (crash e) u)"

section \<open>Access codes\<close>

definition find_subscription_row :: "nat \<Rightarrow> subscription \<Rightarrow> bool" where
  "find_subscription_row i su \<longleftrightarrow> su_id su = i"

definition upgrade :: "nat \<Rightarrow> string \<Rightarrow> db \<Rightarrow> db" where
  "upgrade subscription_id plan s = s\<lparr>subscriptions := update_where (find_subscription_row subscription_id)
     (\<lambda>su. su\<lparr>su_plan_id := plan, su_policy_version := ''beta-access-code-v1''\<rparr>) (subscriptions s)\<rparr>"

definition rank_of :: "string \<Rightarrow> int" where
  "rank_of plan = (case PLAN_RANK plan of None \<Rightarrow> 0 | Some r \<Rightarrow> r)"

text \<open>The handler after the guess limiter; \<open>codes_file\<close> is the content of the file of hashes, which is read and
  checked once. Without an upgrade nothing is committed, not even a subscription made on the way.\<close>

definition redeem_access_code ::
  "(string \<Rightarrow> string) \<Rightarrow> (string \<times> string) list \<Rightarrow> datetime \<Rightarrow> string \<Rightarrow> principal \<Rightarrow> access_code_view hop" where
  "redeem_access_code sha256 codes_file now code p s =
     (case load_access_code_hashes codes_file of
        None \<Rightarrow> Raise (Crash ''ValueError'') s
      | Some hashes \<Rightarrow>
          (case plan_for_code sha256 code hashes of
             None \<Rightarrow> Raise (Http 404 ''invalid access code'') s
           | Some plan \<Rightarrow>
               (case policy_for now (pr_account_id p) s of
                  Raise e _ \<Rightarrow> Raise (crash e) s
                | Ok (su, current) t \<Rightarrow>
                    (case PLAN_RANK plan of
                       None \<Rightarrow> Raise (Crash ''KeyError'') s
                     | Some rank \<Rightarrow>
                         let changed = rank > rank_of (plan_id current);
                             u = (if changed then sync_account_progression (pr_account_id p) (upgrade (su_id su) plan t) else s)
                         in (case SYNTHETIC_POLICIES (if changed then plan else su_plan_id su) of
                               None \<Rightarrow> Raise (Crash ''KeyError'') u
                             | Some policy \<Rightarrow> Ok \<lparr>av_plan_id = plan_id policy, av_plan_label = display_name policy,
                                 av_changed = changed\<rparr> u)))))"

section \<open>Webhooks\<close>

definition MAX_WEBHOOK_BYTES :: nat where "MAX_WEBHOOK_BYTES = 256000"

record webhook_view =
  vw_event_id :: nat
  vw_accepted :: bool
  vw_duplicate :: bool

definition event_conflict :: "service_error \<Rightarrow> http_error" where
  "event_conflict e = (case e of IdempotencyConflict _ \<Rightarrow> Http 409 ''event id was replayed with a different payload''
     | _ \<Rightarrow> crash e)"

definition internal_webhook ::
  "(string \<Rightarrow> string \<Rightarrow> string) \<Rightarrow> (string \<Rightarrow> string) \<Rightarrow> real \<Rightarrow> datetime \<Rightarrow> settings \<Rightarrow> string \<Rightarrow> string \<Rightarrow> string \<Rightarrow> string option
   \<Rightarrow> webhook_view hop" where
  "internal_webhook hmac sha256 seconds now settings raw event_id timestamp supplied =
     (if \<not> field_length 1 160 event_id \<or> \<not> field_length 1 20 timestamp then raise (Http 422 ''header length'')
      else if length raw > MAX_WEBHOOK_BYTES then raise (Http 413 ''Request Entity Too Large'')
      else andthen (verify_event_signature hmac seconds raw event_id timestamp supplied (webhook_secret settings)) (\<lambda>_.
           andthen (catching event_conflict (accept_internal_event sha256 now ''internal_test'' event_id raw)) (\<lambda>(event, created).
           ret \<lparr>vw_event_id = ie_id event, vw_accepted = created, vw_duplicate = \<not> created\<rparr>)))"

subsection \<open>The billing sandbox\<close>

text \<open>\<open>stored\<close> is what the driver compares a JSON value with in a text column, \<open>None\<close> for a value that it refuses
  (a list, an object) and that the handler lets through as an exception; \<open>NULL\<close> is handled apart.\<close>

definition column_text :: "(json \<Rightarrow> string option) \<Rightarrow> json \<Rightarrow> string option" where
  "column_text stored v = (case v of JStr s \<Rightarrow> Some s | _ \<Rightarrow> stored v)"

text \<open>\<open>isinstance(version, int)\<close>, of which booleans are instances\<close>

definition version_of :: "json \<Rightarrow> int option" where
  "version_of v = (case v of JInt n \<Rightarrow> Some n | JBool b \<Rightarrow> Some (if b then 1 else 0) | _ \<Rightarrow> None)"

definition BILLING_FIELDS :: "string list" where
  "BILLING_FIELDS = [''event_id'', ''account_id'', ''version'', ''type'', ''plan_id'']"

definition BILLING_TYPES :: "string list" where "BILLING_TYPES = [''activated'', ''renewed'', ''cancelled'']"

record billing_payload =
  bp_event_id :: json
  bp_account_id :: json
  bp_version :: int
  bp_type :: string
  bp_plan_id :: string

text \<open>The checks of the payload in their order; \<open>loads\<close> is \<open>json.loads\<close> on bytes with the name of what it raises\<close>

definition one_of :: "string list \<Rightarrow> http_error \<Rightarrow> json \<Rightarrow> http_error + string" where
  "one_of names bad v =
     (if \<not> hashable v then Inl (Crash ''TypeError'')
      else case v of JStr s \<Rightarrow> if s \<in> set names then Inr s else Inl bad | _ \<Rightarrow> Inl bad)"

definition check_billing_object :: "(string \<times> json) list \<Rightarrow> http_error + billing_payload" where
  "check_billing_object obj =
     (if \<not> list_all (\<lambda>k. map_of obj k \<noteq> None) BILLING_FIELDS then Inl (Http 422 ''invalid billing event'')
      else case version_of (jget obj ''version'') of
        None \<Rightarrow> Inl (Http 422 ''invalid billing event version'')
      | Some version \<Rightarrow>
          (case one_of BILLING_TYPES (Http 422 ''unknown billing event type'') (jget obj ''type'') of
             Inl e \<Rightarrow> Inl e
           | Inr kind \<Rightarrow>
               (case one_of [''ananta'', ''yanta'', ''trika'', ''parth''] (Http 422 ''unknown plan'') (jget obj ''plan_id'') of
                  Inl e \<Rightarrow> Inl e
                | Inr plan \<Rightarrow> Inr \<lparr>bp_event_id = jget obj ''event_id'', bp_account_id = jget obj ''account_id'',
                    bp_version = version, bp_type = kind, bp_plan_id = plan\<rparr>)))"

definition check_billing :: "(string \<Rightarrow> string + json) \<Rightarrow> string \<Rightarrow> http_error + billing_payload" where
  "check_billing loads raw = (case loads raw of
       Inl e \<Rightarrow> Inl (if e = ''JSONDecodeError'' then Http 422 ''malformed billing event'' else Crash e)
     | Inr (JObj obj) \<Rightarrow> check_billing_object obj
     | Inr _ \<Rightarrow> Inl (Http 422 ''invalid billing event''))"

record billing_view =
  vb_accepted :: bool
  vb_duplicate :: bool
  vb_stale :: "bool option"

definition duplicate_billing :: billing_view where
  "duplicate_billing = \<lparr>vb_accepted = False, vb_duplicate = True, vb_stale = None\<rparr>"

text \<open>What an id is compared with: \<open>Some None\<close> is \<open>NULL\<close>, which equals nothing.\<close>

definition event_ref :: "(json \<Rightarrow> string option) \<Rightarrow> json \<Rightarrow> string option option" where
  "event_ref stored v = (case v of JNull \<Rightarrow> Some None | _ \<Rightarrow> map_option Some (column_text stored v))"

definition billing_subscription :: "string option \<Rightarrow> db \<Rightarrow> subscription option" where
  "billing_subscription ref s = (case ref of None \<Rightarrow> None
     | Some account_ref \<Rightarrow> select_first (\<lambda>su. nat_str (su_account_id su) = account_ref) (subscriptions s))"

definition find_billing :: "string option \<Rightarrow> db \<Rightarrow> billing_event option" where
  "find_billing ref s = (case ref of None \<Rightarrow> None
     | Some event \<Rightarrow> select_first (\<lambda>e. be_provider e = ''sandbox'' \<and> be_provider_event_id e = event) (billing_events s))"

definition fits_bigint :: "int \<Rightarrow> bool" where
  "fits_bigint n \<longleftrightarrow> - (2 ^ 63) \<le> n \<and> n < 2 ^ 63"

definition insert_billing :: "(string \<Rightarrow> string) \<Rightarrow> string \<Rightarrow> billing_payload \<Rightarrow> string option \<Rightarrow> nat \<Rightarrow> billing_event sop" where
  "insert_billing sha256 raw b ref account_id =
     (case ref of
        None \<Rightarrow> raise IntegrityError
      | Some event \<Rightarrow>
          if \<not> fits_bigint (bp_version b) then raise (RuntimeError ''OverflowError'')
          else insert_row (\<lambda>s. find_billing (Some event) s \<noteq> None)
            (\<lambda>i. \<lparr>be_id = i, be_provider = ''sandbox'', be_provider_event_id = event, be_account_id = account_id,
                  be_event_version = bp_version b, be_event_type = bp_type b, be_payload_hash = sha256 raw\<rparr>)
            (\<lambda>e s. s\<lparr>billing_events := billing_events s @ [e]\<rparr>))"

definition apply_billing :: "billing_payload \<Rightarrow> subscription \<Rightarrow> db \<Rightarrow> db" where
  "apply_billing b su s = sync_account_progression (su_account_id su)
     (s\<lparr>subscriptions := update_where (find_subscription_row (su_id su))
        (\<lambda>x. x\<lparr>su_event_version := bp_version b, su_plan_id := bp_plan_id b,
               su_status := (if bp_type b = ''cancelled'' then ''cancelled'' else ''active'')\<rparr>) (subscriptions s)\<rparr>)"

text \<open>An event that is not stale is flushed by \<open>sync_account_progression\<close>, before the \<open>try\<close>.\<close>

definition record_billing ::
  "(string \<Rightarrow> string) \<Rightarrow> string \<Rightarrow> billing_payload \<Rightarrow> string option \<Rightarrow> subscription \<Rightarrow> billing_view hop" where
  "record_billing sha256 raw b ref su s =
     (let stale = bp_version b \<le> su_event_version su in
      case insert_billing sha256 raw b ref (su_account_id su) s of
        Ok _ u \<Rightarrow> Ok \<lparr>vb_accepted = True, vb_duplicate = False, vb_stale = Some stale\<rparr> (if stale then u else apply_billing b su u)
      | Raise e _ \<Rightarrow> if stale \<and> e = IntegrityError then Ok duplicate_billing s else Raise (crash e) s)"

definition handle_billing ::
  "(string \<Rightarrow> string) \<Rightarrow> (json \<Rightarrow> string option) \<Rightarrow> (db \<Rightarrow> db) \<Rightarrow> string \<Rightarrow> billing_payload \<Rightarrow> billing_view hop" where
  "handle_billing sha256 stored race raw b s =
     (case event_ref stored (bp_account_id b) of
        None \<Rightarrow> Raise (Crash ''StatementError'') s
      | Some account_ref \<Rightarrow>
          (case billing_subscription account_ref s of
             None \<Rightarrow> Raise (Http 404 ''account not found'') s
           | Some su \<Rightarrow>
               (case event_ref stored (bp_event_id b) of
                  None \<Rightarrow> Raise (Crash ''StatementError'') s
                | Some ref \<Rightarrow>
                    (case find_billing ref s of
                       Some e \<Rightarrow> if be_payload_hash e \<noteq> sha256 raw
                         then Raise (Http 409 ''billing event id was replayed with a different payload'') s
                         else Ok duplicate_billing s
                     | None \<Rightarrow> record_billing sha256 raw b ref su (race s)))))"

definition billing_sandbox ::
  "(string \<Rightarrow> string \<Rightarrow> string) \<Rightarrow> (string \<Rightarrow> string) \<Rightarrow> (string \<Rightarrow> string + json) \<Rightarrow> (json \<Rightarrow> string option) \<Rightarrow> (db \<Rightarrow> db)
   \<Rightarrow> settings \<Rightarrow> string \<Rightarrow> string option \<Rightarrow> billing_view hop" where
  "billing_sandbox hmac sha256 loads stored race settings raw supplied =
     (if \<not> is_development settings then raise (Http 404 ''Not Found'')
      else andthen (verify_hmac hmac raw supplied (webhook_secret settings)) (\<lambda>_.
           case check_billing loads raw of
             Inl e \<Rightarrow> raise e
           | Inr b \<Rightarrow> handle_billing sha256 stored race raw b))"

end
