(* ===== verification/Message.thy ===== *)
theory Message
  imports Api Ledger_System
begin

text \<open>
  A chat request (\<open>daily_agent/api.py\<close>, \<open>execute_message\<close>): the replay of a finished run, the first
  transaction that reserves the budget and the provider requests, the reply produced outside any
  transaction, and the second transaction that stores the run with its evidence and settles. What other
  transactions commit while the reply is produced is \<open>me_others\<close>.
\<close>

section \<open>Views and messages\<close>

record message_view =
  mv_run_id :: nat
  mv_status :: run_status
  mv_outcome :: outcome
  mv_response :: utext
  mv_route :: string
  mv_previous_run_id :: "nat option"

text \<open>\<open>(reset_at + IST).strftime("%H:%M")\<close>\<close>

definition clock_text :: "int \<Rightarrow> string" where
  "clock_text usec = (let minutes = nat (usec div 60000000) mod 1440 in
     zpad 2 (nat_str (minutes div 60)) @ '':'' @ zpad 2 (nat_str (minutes mod 60)))"

definition IST_USEC :: int where "IST_USEC = (5 * 60 + 30) * 60000000"

definition capacity_full_message :: "datetime \<Rightarrow> string" where
  "capacity_full_message reset =
     ''Karmi'' @ [CHR 39] @ ''s beta has reached today'' @ [CHR 39] @ ''s limit for free AI replies. Try again after ''
     @ clock_text (dt_usec reset + IST_USEC) @ '' IST ('' @ clock_text (dt_usec reset) @ '' UTC).''"

definition route_for :: "db \<Rightarrow> nat \<Rightarrow> string" where
  "route_for s run_id = (case select_first (\<lambda>r. rr_run_id r = run_id) (routing_records s) of
       None \<Rightarrow> LOCAL_ROUTE
     | Some r \<Rightarrow> if rr_executed_action r = [] then LOCAL_ROUTE else route_for_action (rr_executed_action r))"

definition view_of_run :: "db \<Rightarrow> run \<Rightarrow> message_view" where
  "view_of_run s r = \<lparr>mv_run_id = ru_id r, mv_status = ru_status r,
     mv_outcome = (case ru_outcome r of None \<Rightarrow> DEFERRED_OUTCOME | Some x \<Rightarrow> x),
     mv_response = (case ru_response_text r of None \<Rightarrow> [] | Some t \<Rightarrow> t),
     mv_route = route_for s (ru_id r), mv_previous_run_id = ru_previous_run_id r\<rparr>"

text \<open>A stored run answers its request again, unless the key was used for another payload.\<close>

definition replay :: "string \<Rightarrow> run \<Rightarrow> message_view hop" where
  "replay request_hash r s =
     (if ru_request_hash r \<noteq> None \<and> ru_request_hash r \<noteq> Some request_hash then Raise idempotency_conflict s
      else Ok (view_of_run s r) s)"

section \<open>The first transaction\<close>

definition token_hold :: "gateway option \<Rightarrow> utext \<Rightarrow> history_turn list \<Rightarrow> plan_policy_row \<Rightarrow> int" where
  "token_hold gw message history policy =
     (if gateway_live gw then max 1 (int (utf8_len message) div 4 + history_tokens history) + output_tokens policy else 0)"

definition admit_message :: "datetime \<Rightarrow> settings \<Rightarrow> gateway option \<Rightarrow> plan_policy_row \<Rightarrow> gateway_admission option sop" where
  "admit_message now settings gw policy =
     (if gateway_live gw
      then andthen (admit_gateway_requests now settings (price_inr policy > 0) MAX_ATTEMPTS) (\<lambda>a. ret (Some a))
      else ret None)"

definition open_message ::
  "datetime \<Rightarrow> settings \<Rightarrow> gateway option \<Rightarrow> message_create \<Rightarrow> principal
   \<Rightarrow> (plan_policy_row \<times> history_turn list \<times> budget_reservation \<times> gateway_admission option) sop" where
  "open_message now settings gw b p =
     andthen (policy_for now (pr_account_id p)) (\<lambda>(_, policy).
     let history = trim_history (mc_history b) (mc_text b) policy in
     andthen (reserve_budget now settings (pr_account_id p) (mc_idempotency_key b) ''execution''
       (estimate_request_cost_micro policy settings) (token_hold gw (mc_text b) history policy)) (\<lambda>reservation.
     andthen (admit_message now settings gw policy) (\<lambda>admission.
     ret (policy, history, reservation, admission))))"

definition open_error :: "service_error \<Rightarrow> http_error" where
  "open_error e = (case e of
       GatewayCapacityFull reset \<Rightarrow> Refused 429 ''BETA_CAPACITY_FULL'' (capacity_full_message reset) (Reset_at reset)
     | BudgetDenied message reset \<Rightarrow> Refused 429 ''ALLOWANCE_EXHAUSTED'' message (Reset_at reset)
     | ReservationInFlight _ \<Rightarrow> Http 409 ''request already in flight; retry to observe its result''
     | _ \<Rightarrow> crash e)"

section \<open>The second transaction\<close>

definition task_title :: "utext \<Rightarrow> utext" where
  "task_title message = (if take 200 (strip message) = [] then strip message else take 200 (strip message))"

definition task_key :: "message_create \<Rightarrow> string" where
  "task_key b = mc_idempotency_key b @ '':task''"

definition apply_intent :: "string option \<Rightarrow> message_create \<Rightarrow> principal \<Rightarrow> unit sop" where
  "apply_intent intent b p =
     (if intent = Some ''create_task''
      then andthen (insert_task (pr_account_id p) (pr_user_id p) (task_title (mc_text b)) (task_key b)) (\<lambda>_. ret ())
      else ret ())"

definition return_slots :: "gateway_admission option \<Rightarrow> provider_call list \<Rightarrow> unit sop" where
  "return_slots admission calls = (case admission of None \<Rightarrow> ret ()
     | Some a \<Rightarrow> return_gateway_requests a (gateway_requests_made calls))"

definition charge :: "datetime \<Rightarrow> budget_reservation \<Rightarrow> nat \<Rightarrow> generation_result \<Rightarrow> unit sop" where
  "charge now reservation run_id gn =
     (if gn_release_reservation gn then release_budget reservation
      else andthen (settle_budget now reservation (nat_str run_id @ '':1'') (measured_cost_micro (gn_provider_calls gn))
             (measured_tokens (gn_provider_calls gn)) (gn_provider_calls gn)) (\<lambda>_. ret ()))"

record message_env =
  me_sha256 :: "string \<Rightarrow> string"
  me_now :: datetime
  me_finished :: datetime
  me_timing :: run_timing
  me_others :: "db \<Rightarrow> db"
  me_shadow :: shadow_fn

definition store_reply ::
  "message_env \<Rightarrow> settings \<Rightarrow> gateway option \<Rightarrow> message_create \<Rightarrow> principal \<Rightarrow> nat option \<Rightarrow> string option
   \<Rightarrow> plan_policy_row \<Rightarrow> budget_reservation \<Rightarrow> gateway_admission option \<Rightarrow> generation_result \<Rightarrow> run sop" where
  "store_reply env settings gw b p previous reason policy reservation admission gn =
     andthen (apply_intent (gn_intent gn) b p) (\<lambda>_.
     andthen (persist_completed_run (pr_account_id p) (pr_user_id p) (mc_idempotency_key b) (gn_response gn) (gn_outcome gn)
       (Some (message_request_hash (me_sha256 env) (mc_text b) (mc_history b))) previous reason) (\<lambda>run.
     andthen (record_routing_evidence (me_shadow env) (ru_id run) settings policy (mc_text b) gn (me_timing env) gw) (\<lambda>_.
     andthen (return_slots admission (gn_provider_calls gn)) (\<lambda>_.
     andthen (charge (me_finished env) reservation (ru_id run) gn) (\<lambda>_.
     ret run)))))"

definition undo_message :: "budget_reservation \<Rightarrow> gateway_admission option \<Rightarrow> provider_call list \<Rightarrow> unit sop" where
  "undo_message reservation admission calls =
     andthen (release_budget reservation) (\<lambda>_. return_slots admission calls)"

text \<open>A reply whose second transaction failed: its hold and its unused requests are given back; after a lost race
  on a unique key the run that won answers.\<close>

definition recover :: "string \<Rightarrow> nat \<Rightarrow> string \<Rightarrow> service_error \<Rightarrow> message_view hop" where
  "recover request_hash account_id key e s =
     (if e \<noteq> IntegrityError then Raise (crash e) s
      else case find_run account_id key s of None \<Rightarrow> Raise (crash e) s | Some r \<Rightarrow> replay request_hash r s)"

definition run_view :: "run \<Rightarrow> generation_result \<Rightarrow> message_view" where
  "run_view r gn = \<lparr>mv_run_id = ru_id r, mv_status = ru_status r, mv_outcome = gn_outcome gn, mv_response = gn_response gn,
     mv_route = gn_route gn, mv_previous_run_id = ru_previous_run_id r\<rparr>"

definition finish_message ::
  "message_env \<Rightarrow> settings \<Rightarrow> gateway option \<Rightarrow> message_create \<Rightarrow> principal \<Rightarrow> nat option \<Rightarrow> string option
   \<Rightarrow> plan_policy_row \<Rightarrow> budget_reservation \<Rightarrow> gateway_admission option \<Rightarrow> string + generation_result \<Rightarrow> message_view hop" where
  "finish_message env settings gw b p previous reason policy reservation admission made s =
     (case made of
        Inl fault \<Rightarrow> andthen (catching crash (release_budget reservation)) (\<lambda>_. raise (Crash fault)) s
      | Inr gn \<Rightarrow>
          (case store_reply env settings gw b p previous reason policy reservation admission gn s of
             Ok run u \<Rightarrow> Ok (run_view run gn) u
           | Raise e _ \<Rightarrow>
               andthen (catching crash (undo_message reservation admission (gn_provider_calls gn))) (\<lambda>_.
               recover (message_request_hash (me_sha256 env) (mc_text b) (mc_history b)) (pr_account_id p) (mc_idempotency_key b) e) s))"

section \<open>The request\<close>

text \<open>\<open>produce\<close> makes the reply for a plan and the trimmed history; \<open>Inl\<close> is an exception. It runs on the
  provider health of the process, which no transaction rolls back.\<close>

type_synonym producer = "plan_policy_row \<Rightarrow> history_turn list \<Rightarrow> health \<Rightarrow> (string + generation_result) \<times> health"

definition on_db :: "('e, 'a, db) result \<Rightarrow> health \<Rightarrow> ('e, 'a, db \<times> health) result" where
  "on_db r h = (case r of Ok v s \<Rightarrow> Ok v (s, h) | Raise e s \<Rightarrow> Raise e (s, h))"

definition execute_message ::
  "message_env \<Rightarrow> settings \<Rightarrow> gateway option \<Rightarrow> producer \<Rightarrow> message_create \<Rightarrow> principal \<Rightarrow> nat option \<Rightarrow> string option
   \<Rightarrow> (http_error, message_view, db \<times> health) op" where
  "execute_message env settings gw produce b p previous reason st =
     (case st of (s, h) \<Rightarrow>
      case find_run (pr_account_id p) (mc_idempotency_key b) s of
        Some r \<Rightarrow> on_db (replay (message_request_hash (me_sha256 env) (mc_text b) (mc_history b)) r s) h
      | None \<Rightarrow>
          (case catching open_error (open_message (me_now env) settings gw b p) s of
             Raise e t \<Rightarrow> Raise e (t, h)
           | Ok (policy, history, reservation, admission) t \<Rightarrow>
               (case produce policy history h of (made, h') \<Rightarrow>
                  on_db (finish_message env settings gw b p previous reason policy reservation admission made (me_others env t)) h')))"

definition reply_producer :: "reply_env \<Rightarrow> settings \<Rightarrow> gateway option \<Rightarrow> bool \<Rightarrow> utext \<Rightarrow> producer" where
  "reply_producer renv settings gw escalate message policy history h =
     (case generate_reply renv settings policy gw escalate history message h of (gn, h') \<Rightarrow> (Inr gn, h'))"

definition send_message ::
  "message_env \<Rightarrow> reply_env \<Rightarrow> settings \<Rightarrow> gateway option \<Rightarrow> message_create \<Rightarrow> principal
   \<Rightarrow> (http_error, message_view, db \<times> health) op" where
  "send_message env renv settings gw b p =
     execute_message env settings gw (reply_producer renv settings gw False (mc_text b)) b p None None"

definition regenerate_body :: "regenerate_create \<Rightarrow> message_create" where
  "regenerate_body b = \<lparr>mc_text = rg_text b, mc_idempotency_key = rg_idempotency_key b, mc_history = rg_history b\<rparr>"

definition regenerate_reply ::
  "message_env \<Rightarrow> reply_env \<Rightarrow> settings \<Rightarrow> gateway option \<Rightarrow> string \<Rightarrow> regenerate_create \<Rightarrow> principal
   \<Rightarrow> (http_error, message_view, db \<times> health) op" where
  "regenerate_reply env renv settings gw run_ref b p st =
     (case st of (s, h) \<Rightarrow>
      case own_run run_ref p s of
        Raise e t \<Rightarrow> Raise e (t, h)
      | Ok previous t \<Rightarrow>
          if rg_idempotency_key b = ru_logical_request_id previous
          then Raise (Http 422 ''regenerate needs a new idempotency key'') (t, h)
          else if ru_request_hash previous \<noteq> Some (message_request_hash (me_sha256 env) (rg_text b) (rg_history b))
          then Raise (Http 409 ''text or history does not match the original request'') (t, h)
          else execute_message env settings gw (reply_producer renv settings gw True (rg_text b)) (regenerate_body b) p
                 (Some (ru_id previous)) (rg_reason b) (t, h))"

section \<open>A finished request is replayed\<close>

lemma replay_state: "state_of (replay hash r s) = s"
  by (simp add: replay_def)

lemma execute_replay:
  "find_run (pr_account_id p) (mc_idempotency_key b) s = Some r \<Longrightarrow>
   execute_message env settings gw produce b p previous reason (s, h) =
     on_db (replay (message_request_hash (me_sha256 env) (mc_text b) (mc_history b)) r s) h"
  by (simp add: execute_message_def)

section \<open>What a reply leaves in the database\<close>

lemma persist_Ok:
  assumes "persist_completed_run a u key response result hash previous reason s = Ok run t"
  shows "find_run a key t = Some run \<and> ru_request_hash run = hash \<and> ru_account_id run = a \<and> ru_logical_request_id run = key
    \<and> ru_response_text run = Some response \<and> ru_outcome run = Some result \<and> ru_user_id run = u
    \<and> ru_previous_run_id run = previous \<and> runs t = runs s @ [run] \<and> ru_id run = next_id s"
  using assms
  by (auto simp: persist_completed_run_def andthen_Ok_conv insert_row_def insert_outbox_def new_run_def find_run_def
      select_first_append ret_def split: if_splits)

end
