(* ===== verification/Server.thy ===== *)
theory Server
  imports Message
begin

text \<open>
  The HTTP application of \<open>daily_agent/api.py\<close> as one state: the database, the provider health, the hits of
  the two rate limiters. A request of a customer or an operator names its route with the validated
  body; the dependencies of the route run before it as the decorators of \<open>create_app\<close> say: first the
  principal, then its rate limit, then the bounds of the body, then the handler.
\<close>

record app =
  ap_db :: db
  ap_health :: health
  ap_hits :: hits
  ap_guesses :: hits

datatype request =
    Get_usage
  | Get_armory
  | Put_active_theme int
  | Get_tasks
  | Post_task task_create
  | Patch_task string
  | Post_reminder reminder_create
  | Post_message message_create
  | Post_access_code string
  | Post_feedback string feedback_create
  | Post_regenerate string regenerate_create
  | Get_overview
  | Get_runs

datatype answer =
    Usage_answer usage_view
  | Armory_answer armory_view
  | Tasks_answer "task_view list"
  | Task_answer task_view
  | Reminder_answer reminder_view
  | Message_answer message_view
  | Code_answer access_code_view
  | Feedback_answer feedback_view
  | Overview_answer overview
  | Runs_answer "run_summary list"

text \<open>What one request reads of its surroundings: the settings, the clocks, the gateway of the process, the library
  calls, and what other requests commit while it runs\<close>

record server_env =
  sv_settings :: settings
  sv_auth :: auth_env
  sv_now :: datetime
  sv_monotonic :: real
  sv_gateway :: "gateway option"
  sv_message :: message_env
  sv_reply :: reply_env
  sv_codes :: "(string \<times> string) list"
  sv_race :: "db \<Rightarrow> db"

type_synonym 'a aop = "(http_error, 'a, app) op"

definition valid_request :: "request \<Rightarrow> bool" where
  "valid_request req = (case req of
       Put_active_theme n \<Rightarrow> valid_theme n
     | Post_task b \<Rightarrow> valid_task_create b
     | Post_reminder b \<Rightarrow> valid_reminder_create b
     | Post_message b \<Rightarrow> valid_message_create b
     | Post_access_code code \<Rightarrow> valid_code code
     | Post_feedback _ b \<Rightarrow> valid_feedback_create b
     | Post_regenerate _ b \<Rightarrow> valid_regenerate_create b
     | _ \<Rightarrow> True)"

text \<open>The routes that depend on \<open>limited_principal\<close>\<close>

definition rate_limited :: "request \<Rightarrow> bool" where
  "rate_limited req = (case req of Post_message _ \<Rightarrow> True | Post_feedback _ _ \<Rightarrow> True | Post_regenerate _ _ \<Rightarrow> True | _ \<Rightarrow> False)"

definition on_app :: "('a \<Rightarrow> answer) \<Rightarrow> 'a hop \<Rightarrow> answer aop" where
  "on_app answer handler ap = (case handler (ap_db ap) of
       Ok v s \<Rightarrow> Ok (answer v) (ap\<lparr>ap_db := s\<rparr>) | Raise e s \<Rightarrow> Raise e (ap\<lparr>ap_db := s\<rparr>))"

definition on_chat :: "(http_error, message_view, db \<times> health) op \<Rightarrow> answer aop" where
  "on_chat handler ap = (case handler (ap_db ap, ap_health ap) of
       Ok v (s, h) \<Rightarrow> Ok (Message_answer v) (ap\<lparr>ap_db := s, ap_health := h\<rparr>)
     | Raise e (s, h) \<Rightarrow> Raise e (ap\<lparr>ap_db := s, ap_health := h\<rparr>))"

text \<open>The guesses of an access code have a limiter of their own, inside the handler.\<close>

definition guess_code :: "server_env \<Rightarrow> string \<Rightarrow> principal \<Rightarrow> answer aop" where
  "guess_code env code p ap = (case limited_guess (sv_monotonic env) p (ap_guesses ap) of
       (Some e, hits) \<Rightarrow> Raise e (ap\<lparr>ap_guesses := hits\<rparr>)
     | (None, hits) \<Rightarrow> on_app Code_answer (redeem_access_code (me_sha256 (sv_message env)) (sv_codes env) (sv_now env) code p)
         (ap\<lparr>ap_guesses := hits\<rparr>))"

definition perform :: "server_env \<Rightarrow> principal \<Rightarrow> request \<Rightarrow> answer aop" where
  "perform env p req = (case req of
       Get_usage \<Rightarrow> on_app Usage_answer (usage (sv_now env) p)
     | Get_armory \<Rightarrow> on_app Armory_answer (get_armory p)
     | Put_active_theme n \<Rightarrow> on_app Armory_answer (update_active_theme n p)
     | Get_tasks \<Rightarrow> on_app Tasks_answer (list_tasks p)
     | Post_task b \<Rightarrow> on_app Task_answer (create_task (sv_race env) b p)
     | Patch_task ref \<Rightarrow> on_app Task_answer (complete_task ref p)
     | Post_reminder b \<Rightarrow> on_app Reminder_answer (create_reminder (sv_race env) b p)
     | Post_message b \<Rightarrow> on_chat (send_message (sv_message env) (sv_reply env) (sv_settings env) (sv_gateway env) b p)
     | Post_access_code code \<Rightarrow> guess_code env code p
     | Post_feedback ref b \<Rightarrow> on_app Feedback_answer (rate_reply (sv_race env) (sv_now env) ref b p)
     | Post_regenerate ref b \<Rightarrow>
         on_chat (regenerate_reply (sv_message env) (sv_reply env) (sv_settings env) (sv_gateway env) ref b p)
     | Get_overview \<Rightarrow> on_app Overview_answer (admin_overview (sv_settings env) p)
     | Get_runs \<Rightarrow> on_app Runs_answer (admin_runs (me_sha256 (sv_message env)) p))"

definition admit_request :: "server_env \<Rightarrow> principal \<Rightarrow> request \<Rightarrow> app \<Rightarrow> http_error option \<times> app" where
  "admit_request env p req ap =
     (if rate_limited req
      then case limited_principal (sv_settings env) (sv_monotonic env) p (ap_hits ap) of (e, hits) \<Rightarrow> (e, ap\<lparr>ap_hits := hits\<rparr>)
      else (None, ap))"

definition serve :: "server_env \<Rightarrow> principal \<Rightarrow> request \<Rightarrow> answer aop" where
  "serve env p req ap = (case admit_request env p req ap of
       (Some e, ap') \<Rightarrow> Raise e ap'
     | (None, ap') \<Rightarrow> if \<not> valid_request req then Raise (Http 422 ''Unprocessable Entity'') ap' else perform env p req ap')"

definition handle :: "server_env \<Rightarrow> string option \<Rightarrow> request \<Rightarrow> answer aop" where
  "handle env authorization req ap =
     (case require_principal (sv_auth env) authorization (sv_settings env) (ap_db ap) of
        Raise e s \<Rightarrow> Raise e (ap\<lparr>ap_db := s\<rparr>)
      | Ok p s \<Rightarrow> serve env p req (ap\<lparr>ap_db := s\<rparr>))"

end
