(* ===== verification/Frames.thy ===== *)
theory Frames
  imports Security
begin

text \<open>
  Frame conditions of operations. \<open>always R m\<close> says that the state \<open>m\<close> leaves, returning or raising, is related
  by \<open>R\<close> to the one it started in. For a preorder \<open>R\<close> the condition follows the structure of the operation;
  the locale collects these rules, and each component interprets it with the relation it promises.
\<close>

definition always :: "('s \<Rightarrow> 's \<Rightarrow> bool) \<Rightarrow> ('e, 'a, 's) op \<Rightarrow> bool" where
  "always R m \<longleftrightarrow> (\<forall>s. R s (state_of (m s)))"

lemma alwaysI: "(\<And>s. R s (state_of (m s))) \<Longrightarrow> always R m"
  by (simp add: always_def)

lemma alwaysD: "always R m \<Longrightarrow> R s (state_of (m s))"
  by (simp add: always_def)

lemma always_Ok: "always R m \<Longrightarrow> m s = Ok v t \<Longrightarrow> R s t"
  by (metis alwaysD state_of_simps(1))

lemma always_Raise: "always R m \<Longrightarrow> m s = Raise e t \<Longrightarrow> R s t"
  by (metis alwaysD state_of_simps(2))

lemma always_and: "always R m \<Longrightarrow> always Q m \<Longrightarrow> always (\<lambda>s t. R s t \<and> Q s t) m"
  by (simp add: always_def)

lemma always_mono: "always R m \<Longrightarrow> (\<And>s t. R s t \<Longrightarrow> Q s t) \<Longrightarrow> always Q m"
  by (simp add: always_def)

locale kept =
  fixes R :: "db \<Rightarrow> db \<Rightarrow> bool"
  assumes keeps_refl: "R s s" and keeps_trans: "R s t \<Longrightarrow> R t u \<Longrightarrow> R s u"
begin

lemma always_ret: "always R (ret v)"
  by (simp add: always_def ret_def keeps_refl)

lemma always_raise: "always R (raise e)"
  by (simp add: always_def raise_def keeps_refl)

lemma always_query: "always R (query f)"
  by (simp add: always_def keeps_refl)

lemma always_read: "always R (read_db f)"
  by (simp add: always_def read_db_def keeps_refl)

lemma always_execute: "(\<And>s. R s (f s)) \<Longrightarrow> always R (execute n f)"
  by (simp add: always_def)

lemma always_insert:
  "(\<And>i s. R s ((put (mk i) s)\<lparr>next_id := Suc (next_id s)\<rparr>)) \<Longrightarrow> always R (insert_row dup mk put)"
  by (simp add: always_def insert_row_def keeps_refl)

lemma always_andthen: "always R m \<Longrightarrow> (\<And>v. always R (f v)) \<Longrightarrow> always R (andthen m f)"
  by (rule alwaysI, auto simp: andthen_def split: result.splits dest: always_Ok always_Raise)
     (metis always_Ok always_Raise alwaysD keeps_trans state_of_simps)

lemma always_if: "(c \<Longrightarrow> always R m) \<Longrightarrow> (\<not> c \<Longrightarrow> always R n) \<Longrightarrow> always R (if c then m else n)"
  by simp

lemma always_option: "(x = None \<Longrightarrow> always R m) \<Longrightarrow> (\<And>y. x = Some y \<Longrightarrow> always R (f y)) \<Longrightarrow> always R (case x of None \<Rightarrow> m | Some y \<Rightarrow> f y)"
  by (cases x) simp_all

lemma always_sum: "(\<And>y. always R (f y)) \<Longrightarrow> (\<And>y. always R (g y)) \<Longrightarrow> always R (case x of Inl y \<Rightarrow> f y | Inr y \<Rightarrow> g y)"
  by (cases x) simp_all

lemma always_prod: "(\<And>y z. always R (f y z)) \<Longrightarrow> always R (case x of (y, z) \<Rightarrow> f y z)"
  by (cases x) simp

lemma always_nested: "always R m \<Longrightarrow> always R h \<Longrightarrow> always R (begin_nested m h)"
  by (rule alwaysI, auto simp: begin_nested_def split: result.splits dest: alwaysD always_Ok always_Raise)

lemma always_catching: "always R m \<Longrightarrow> always R (catching f m)"
  by (rule alwaysI, auto simp: catching_def split: result.splits intro: keeps_refl dest: always_Ok)

lemmas always_rules = always_ret always_raise always_query always_read always_andthen always_if always_option always_sum
  always_prod always_nested always_catching

end

end
