(* ===== verification/Budget_Frames.thy ===== *)
theory Budget_Frames
  imports Frames Budget
begin

text \<open>
  What the operations of the ledger leave alone: every table but the ledger's own, and the subscriptions of the
  other accounts.
\<close>

definition ledger_only :: "nat \<Rightarrow> db \<Rightarrow> db \<Rightarrow> bool" where
  "ledger_only a s t \<longleftrightarrow> accounts t = accounts s \<and> users t = users s \<and> gateway_request_days t = gateway_request_days s
     \<and> tasks t = tasks s \<and> reminders t = reminders s \<and> inbox_events t = inbox_events s \<and> runs t = runs s
     \<and> feedback_rows t = feedback_rows s \<and> outbox_events t = outbox_events s \<and> billing_events t = billing_events s
     \<and> routing_records t = routing_records s \<and> routing_decisions t = routing_decisions s
     \<and> policy_bundles t = policy_bundles s \<and> policy_events t = policy_events s
     \<and> filter (\<lambda>su. su_account_id su \<noteq> a) (subscriptions t) = filter (\<lambda>su. su_account_id su \<noteq> a) (subscriptions s)"

interpretation budget_frame: kept "ledger_only a" for a
  by unfold_locales (simp_all add: ledger_only_def)

lemmas budget_inserts = budget_frame.always_insert budget_frame.always_execute

lemma frame_updates:
  "always (ledger_only a) (update_windows q f)" "always (ledger_only a) (update_periods q' f')"
  "always (ledger_only a) (update_platforms q'' f'')" "always (ledger_only a) (update_reservations q3 f3)"
  unfolding update_windows_def update_periods_def update_platforms_def update_reservations_def
  by (rule budget_inserts, simp add: ledger_only_def)+

lemma frame_cost: "always (ledger_only a) (add_cost_rows now i aid actual calls)"
proof -
  have row: "always (ledger_only a) (add_cost_row mk)" for mk
    unfolding add_cost_row_def by (rule budget_inserts) (simp add: ledger_only_def)
  have "always (ledger_only a) (add_call_rows now i aid cs)" for cs
    by (induction cs) (simp_all add: budget_frame.always_ret budget_frame.always_andthen row)
  then show ?thesis
    unfolding add_cost_rows_def by (intro budget_frame.always_rules row)
qed

lemma frame_release: "always (ledger_only a) (release_budget r)"
  unfolding release_budget_def by (intro budget_frame.always_rules frame_updates)

lemma frame_settle: "always (ledger_only a) (settle_budget now r aid actual tokens calls)"
  unfolding settle_budget_def Let_def by (intro budget_frame.always_rules frame_updates frame_cost)

lemma frame_reclaim: "always (ledger_only a) (reclaim_stale_reservations key now limit)"
proof -
  have "always (ledger_only a) (reclaim_rows now rows)" for rows
    by (induction rows) (auto intro!: budget_frame.always_rules frame_settle)
  then show ?thesis
    unfolding reclaim_stale_reservations_def by (intro budget_frame.always_rules)
qed

lemma frame_policy_for: "always (ledger_only a) (policy_for now a)"
  unfolding policy_for_def
  by (intro budget_frame.always_rules budget_inserts) (simp add: ledger_only_def new_subscription_def)

lemma frame_window: "always (ledger_only a) (ensure_usage_window now settings a)"
  unfolding ensure_usage_window_def ensure_window_row_def ensure_platform_row_def Let_def
  by (intro budget_frame.always_rules frame_policy_for budget_inserts) (simp_all add: ledger_only_def)

lemma frame_period: "always (ledger_only a) (ensure_usage_period now a policy anchor)"
  unfolding ensure_usage_period_def Let_def
  by (intro budget_frame.always_rules budget_inserts) (simp_all add: ledger_only_def)

lemma frame_hold: "always (ledger_only a) (reserve_hold a settings amount tokens now)"
  unfolding reserve_hold_def hold_on_period_def hold_on_platform_def deny_window_def Let_def
  by (intro budget_frame.always_rules frame_window frame_period frame_updates frame_reclaim frame_policy_for)

lemma frame_reserve: "always (ledger_only a) (reserve_budget now settings a key stage amount tokens)"
  unfolding reserve_budget_def reserve_new_def reserve_again_def Let_def
  by (intro budget_frame.always_rules frame_hold frame_settle frame_updates budget_inserts) (simp_all add: ledger_only_def)

end
