(* ===== verification/Message_Props.thy ===== *)
theory Message_Props
  imports Message Budget_Frames
begin

text \<open>
  What a chat request does to the ledger, the provider quota and the stored runs, whatever happens on the way.
\<close>

section \<open>The ledger is left alone until the charge\<close>

interpretation ledger_frame: kept same_ledger
  by unfold_locales (auto intro: same_ledger_trans)

lemma frame_apply_intent: "always same_ledger (apply_intent intent b p)"
  unfolding apply_intent_def insert_task_def
  by (intro ledger_frame.always_rules ledger_frame.always_insert) (simp add: same_ledger_def)

lemma frame_persist: "always same_ledger (persist_completed_run a u k x y hash previous reason)"
  unfolding persist_completed_run_def insert_outbox_def
  by (intro ledger_frame.always_rules ledger_frame.always_insert) (simp_all add: same_ledger_def)

lemma frame_evidence: "always same_ledger (record_routing_evidence shadow run_id settings plan message gn timing gw)"
proof -
  have "always same_ledger (insert_routing_record row)" for row
    by (rule alwaysI) (simp add: insert_routing_record_def same_ledger_def)
  moreover have "always same_ledger (insert_decision mk)" for mk
    unfolding insert_decision_def
    by (intro ledger_frame.always_rules ledger_frame.always_insert) (simp add: same_ledger_def)
  ultimately show ?thesis
    unfolding record_routing_evidence_def record_shadow_def Let_def
    by (intro ledger_frame.always_rules)
qed

lemma frame_slots: "always same_ledger (return_slots admission calls)"
  unfolding return_slots_def return_gateway_requests_def update_days_def Let_def
  by (intro ledger_frame.always_rules ledger_frame.always_execute) (simp add: same_ledger_def)

lemma frame_admit: "always same_ledger (admit_message now settings gw policy)"
  unfolding admit_message_def admit_gateway_requests_def ensure_request_day_def update_days_def Let_def
  by (intro ledger_frame.always_rules ledger_frame.always_execute ledger_frame.always_insert) (simp_all add: same_ledger_def)

lemma frame_policy: "always same_ledger (policy_for now a)"
  unfolding policy_for_def
  by (intro ledger_frame.always_rules ledger_frame.always_insert) (simp add: same_ledger_def)

section \<open>The hold of a message\<close>

text \<open>\<open>holds_for r s\<close>: the ledger is consistent, the worker's row is not stale, and only a worker that was given a
  live row can have one to settle.\<close>

definition holds_for :: "budget_reservation \<Rightarrow> db \<Rightarrow> bool" where
  "holds_for r s \<longleftrightarrow> ledger_ok False s \<and> agrees s r
     \<and> (br_status r \<noteq> RESERVED \<longrightarrow> row_count (claimable r) (budget_reservations s) = 0)"

definition finished :: "budget_reservation \<Rightarrow> db \<Rightarrow> bool" where
  "finished r s \<longleftrightarrow> ledger_ok False s \<and> row_count (claimable r) (budget_reservations s) = 0"

text \<open>What others commit keeps the ledger consistent and takes over no hold of this message.\<close>

definition no_overtaking :: "(db \<Rightarrow> db) \<Rightarrow> bool" where
  "no_overtaking others \<longleftrightarrow> (\<forall>r s. holds_for r s \<longrightarrow> holds_for r (others s))"

lemma holds_frame: "same_ledger s t \<Longrightarrow> holds_for r s \<Longrightarrow> holds_for r t"
  by (auto simp: holds_for_def agrees_def same_ledger_def intro: ledger_ok_frame [unfolded same_ledger_def])

lemma finished_frame: "same_ledger s t \<Longrightarrow> finished r s \<Longrightarrow> finished r t"
  by (auto simp: finished_def same_ledger_def intro: ledger_ok_frame [unfolded same_ledger_def])

lemma release_finishes:
  assumes "holds_for r s"
  shows "\<exists>t. release_budget r s = Ok () t \<and> finished r t"
proof -
  have ok: "ledger_ok False s" and ag: "agrees s r" using assms by (simp_all add: holds_for_def)
  then obtain t where t: "release_budget r s = Ok () t" "ledger_ok False t"
    using ledger_ok_release by blast
  then show ?thesis using release_budget_claims [OF ledger_ok_distinct [OF ok] t(1)] by (simp add: finished_def)
qed

lemma settle_finishes:
  assumes "holds_for r s"
  shows "\<exists>v t. settle_budget now r aid actual tokens calls s = Ok v t \<and> finished r t"
proof -
  have ok: "ledger_ok False s" and ag: "agrees s r" using assms by (simp_all add: holds_for_def)
  then obtain v t where t: "settle_budget now r aid actual tokens calls s = Ok v t" "ledger_ok False t"
    using ledger_ok_settle [OF ok ag, of actual tokens now aid calls] by auto
  have "row_count (claimable r) (budget_reservations t) = 0"
  proof (cases "br_status r = RESERVED")
    case True
    then show ?thesis using settle_budget_claims [OF ledger_ok_distinct [OF ok] _ t(1)] by simp
  next
    case False
    then show ?thesis using t(1) assms by (simp add: settle_budget_def ret_def holds_for_def)
  qed
  then show ?thesis using t by (simp add: finished_def)
qed

lemma charge_finishes:
  assumes "holds_for r s"
  shows "\<exists>t. charge now r i gn s = Ok () t \<and> finished r t"
proof (cases "gn_release_reservation gn")
  case True
  then show ?thesis using release_finishes [OF assms] by (simp add: charge_def)
next
  case False
  obtain v t where "settle_budget now r (nat_str i @ '':1'') (measured_cost_micro (gn_provider_calls gn))
      (measured_tokens (gn_provider_calls gn)) (gn_provider_calls gn) s = Ok v t" "finished r t"
    using settle_finishes [OF assms] by blast
  then show ?thesis using False by (simp add: charge_def andthen_def ret_def)
qed

lemma undo_finishes:
  assumes "holds_for r s" and "undo_message r admission calls s = Ok () t"
  shows "finished r t"
proof -
  obtain u where u: "release_budget r s = Ok () u" "finished r u" using release_finishes [OF assms(1)] by blast
  then have "return_slots admission calls u = Ok () t"
    using assms(2) by (simp add: undo_message_def andthen_def)
  then show ?thesis using always_Ok [OF frame_slots] u(2) finished_frame by blast
qed

lemma slots_return: "\<exists>t. return_slots admission calls s = Ok () t"
  by (cases admission) (auto simp: return_slots_def return_gateway_requests_def update_days_def Let_def andthen_def ret_def)

lemma undo_returns: "holds_for r s \<Longrightarrow> \<exists>t. undo_message r admission calls s = Ok () t"
  using release_finishes [of r s] slots_return [of admission calls] by (fastforce simp: undo_message_def andthen_def)

lemma store_finishes:
  assumes "holds_for r s"
    and "store_reply env settings gw b p previous reason policy r admission gn s = Ok run t"
  shows "finished r t"
proof -
  obtain s1 s2 s3 s4 where steps: "apply_intent (gn_intent gn) b p s = Ok () s1"
    "persist_completed_run (pr_account_id p) (pr_user_id p) (mc_idempotency_key b) (gn_response gn) (gn_outcome gn)
       (Some (message_request_hash (me_sha256 env) (mc_text b) (mc_history b))) previous reason s1 = Ok run s2"
    "same_ledger s2 s3" "return_slots admission (gn_provider_calls gn) s3 = Ok () s4"
    "charge (me_finished env) r (ru_id run) gn s4 = Ok () t"
    using assms(2) unfolding store_reply_def andthen_Ok_conv ret_def
    by clarsimp (metis always_Ok [OF frame_evidence])
  have "holds_for r s4"
    using holds_frame assms(1) always_Ok [OF frame_apply_intent steps(1)] always_Ok [OF frame_persist steps(2)] steps(3)
      always_Ok [OF frame_slots steps(4)] by metis
  from charge_finishes [OF this, of "me_finished env" "ru_id run" gn] show ?thesis using steps(5) by auto
qed

lemma open_message_Ok:
  assumes "open_message now settings gw b p s = Ok (policy, history, r, admission) t"
  obtains su s1 s2 where "policy_for now (pr_account_id p) s = Ok (su, policy) s1"
    and "history = trim_history (mc_history b) (mc_text b) policy"
    and "reserve_budget now settings (pr_account_id p) (mc_idempotency_key b) ''execution''
       (estimate_request_cost_micro policy settings) (token_hold gw (mc_text b) history policy) s1 = Ok r s2"
    and "admit_message now settings gw policy s2 = Ok admission t"
  using assms by (auto simp: open_message_def andthen_Ok_conv ret_def Let_def)

lemma open_holds:
  assumes "ledger_ok False s" and "0 \<le> global_daily_budget_micro settings"
    and "open_message now settings gw b p s = Ok (policy, history, r, admission) t"
  shows "holds_for r t"
proof -
  obtain su s1 s2 where s1: "policy_for now (pr_account_id p) s = Ok (su, policy) s1"
    and s2: "reserve_budget now settings (pr_account_id p) (mc_idempotency_key b) ''execution''
       (estimate_request_cost_micro policy settings) (token_hold gw (mc_text b) history policy) s1 = Ok r s2"
    and s3: "admit_message now settings gw policy s2 = Ok admission t"
    by (rule open_message_Ok [OF assms(3)])
  have "policy = plan_policy (Some su)" using wpD [OF wp_policy_for s1] by simp
  then have "0 \<le> token_hold gw (mc_text b) history policy"
    using plan_policy_sane(7) [of "Some su"] by (simp add: token_hold_def max_def)
  moreover have "ledger_ok False s1" using always_Ok [OF frame_policy s1] assms(1) by (rule ledger_ok_frame)
  ultimately have "ledger_ok False s2 \<and> reserved_row (estimate_request_cost_micro policy settings)
      (token_hold gw (mc_text b) history policy) r s2"
    using wpD [OF wp_reserve_budget [OF _ assms(2)] s2] by blast
  then have ok: "ledger_ok False s2" and r: "r \<in> set (budget_reservations s2)" by (simp_all add: reserved_row_def)
  have "holds_for r s2"
    unfolding holds_for_def
  proof (intro conjI impI)
    show "agrees s2 r" by (rule agrees_member [OF ledger_ok_distinct [OF ok] r])
    assume "br_status r \<noteq> RESERVED"
    then show "row_count (claimable r) (budget_reservations s2) = 0"
      using key_unique [OF ledger_ok_distinct [OF ok] _ r] by (auto simp: row_count_0 claimable_def)
  qed (rule ok)
  then show ?thesis using holds_frame [OF always_Ok [OF frame_admit s3]] by blast
qed

lemma catching_Ok: "catching f m s = Ok v t \<longleftrightarrow> m s = Ok v t"
  by (simp add: catching_def split: result.split)

lemma recover_state [simp]: "state_of (recover hash a key e s) = s"
  by (simp add: recover_def replay_def split: option.split)

lemma finish_finishes:
  assumes "holds_for r s"
  shows "finished r (state_of (finish_message env settings gw b p previous reason policy r admission made s))"
proof (cases made)
  case (Inl fault)
  obtain t where "release_budget r s = Ok () t" "finished r t" using release_finishes [OF assms] by blast
  then show ?thesis by (simp add: finish_message_def Inl catching_def andthen_def raise_def)
next
  case (Inr gn)
  show ?thesis
  proof (cases "store_reply env settings gw b p previous reason policy r admission gn s")
    case (Ok run t)
    then show ?thesis using store_finishes [OF assms Ok] by (simp add: finish_message_def Inr)
  next
    case (Raise e t)
    obtain u where u: "undo_message r admission (gn_provider_calls gn) s = Ok () u" using undo_returns [OF assms] by blast
    then show ?thesis using undo_finishes [OF assms u] by (simp add: finish_message_def Inr Raise catching_def andthen_def)
  qed
qed

lemma on_db_state [simp]: "state_of (on_db r h) = (state_of r, h)"
  by (cases r) (simp_all add: on_db_def)

text \<open>The three ways through a request: a replay, a refusal that changes nothing, and a reply.\<close>

lemma execute_cases:
  obtains (replayed) r where "find_run (pr_account_id p) (mc_idempotency_key b) s = Some r"
      "execute_message env settings gw produce b p previous reason (s, h) =
         on_db (replay (message_request_hash (me_sha256 env) (mc_text b) (mc_history b)) r s) h"
  | (refused) e f where "find_run (pr_account_id p) (mc_idempotency_key b) s = None"
      "open_message (me_now env) settings gw b p s = Raise e f"
      "execute_message env settings gw produce b p previous reason (s, h) = Raise (open_error e) (s, h)"
  | (replied) policy history r admission t made h' where
      "find_run (pr_account_id p) (mc_idempotency_key b) s = None"
      "open_message (me_now env) settings gw b p s = Ok (policy, history, r, admission) t"
      "produce policy history h = (made, h')"
      "execute_message env settings gw produce b p previous reason (s, h) =
         on_db (finish_message env settings gw b p previous reason policy r admission made (me_others env t)) h'"
proof (cases "find_run (pr_account_id p) (mc_idempotency_key b) s")
  case (Some r)
  then show thesis by (rule replayed) (rule execute_replay [OF Some])
next
  case None
  show thesis
  proof (cases "open_message (me_now env) settings gw b p s")
    case (Raise e f)
    then show thesis using None by (intro refused) (simp_all add: execute_message_def catching_def)
  next
    case (Ok v t)
    obtain policy history r admission where v: "v = (policy, history, r, admission)" by (cases v) auto
    obtain made h' where m: "produce policy history h = (made, h')" by (cases "produce policy history h")
    show thesis
      by (rule replied [OF None _ m]) (use None Ok v m in \<open>simp_all add: execute_message_def catching_def\<close>)
  qed
qed


section \<open>The route of a reply\<close>

definition known_gateway :: "gateway option \<Rightarrow> bool" where
  "known_gateway gw \<longleftrightarrow> (case gw of None \<Rightarrow> True
     | Some g \<Rightarrow> list_all (\<lambda>m. rm_provider m \<in> set KNOWN_PROVIDERS) (mr_models (gw_registry g)))"

definition stable_route :: "string \<Rightarrow> bool" where
  "stable_route route \<longleftrightarrow> (\<exists>act. action_for_route route = Some act \<and> act \<noteq> [] \<and> route_for_action act = route)"

lemma stable_local: "stable_route LOCAL_ROUTE" "stable_route CLASSIFIER_ROUTE"
  by (simp_all add: stable_route_def action_for_route_def route_for_action_def ROUTE_ACTIONS_def LOCAL_ROUTE_def
      CLASSIFIER_ROUTE_def LOCAL_ACTION_def LIVE_ACTION_def)

lemma stable_action: "rm_provider m \<in> set KNOWN_PROVIDERS \<Longrightarrow> stable_route (action m)"
  by (auto simp: stable_route_def action_for_route_def route_for_action_def ROUTE_ACTIONS_def action_def
      KNOWN_PROVIDERS_def LOCAL_ACTION_def LIVE_ACTION_def)

lemma generate_action:
  assumes "gr_action (fst (generate call_model clk now gw plan message task cap escalate history h)) = Some act"
  shows "\<exists>m \<in> set (mr_models (gw_registry gw)). act = action m"
proof -
  obtain tried where "list_all (routable gw plan (needed_tokens message history now cap)) tried"
    and "Some act = (if tried = [] then None else Some (action (last tried)))"
    using generate_outcome [of gw plan message history now cap task call_model clk escalate h] assms
    by (auto simp: bounded_outcome_def)
  then show ?thesis by (auto simp: list_all_iff routable_def split: if_splits intro!: bexI [of _ "last tried"])
qed

lemma generate_text_action:
  assumes "gr_text (fst (generate call_model clk now gw plan message task cap escalate history h)) \<noteq> None"
  shows "gr_action (fst (generate call_model clk now gw plan message task cap escalate history h)) \<noteq> None"
  using assms by (auto simp: generate_def Let_def split: prod.splits list.splits if_splits)

lemma reply_route:
  assumes "known_gateway gw"
  shows "stable_route (gn_route (fst (generate_reply env settings plan gw escalate history message h)))"
proof -
  have gateway: "stable_route (gn_route (fst (gateway_reply env plan g escalate history message intent calls h)))"
    if "known_gateway (Some g)" for g intent calls
  proof -
    let ?out = "fst (generate (en_call_model env) (en_clock env) (en_now env) g plan message (classify_task (en_unicode env) message)
      (output_tokens plan) escalate (map (\<lambda>t. (ht_role t, ht_content t)) history) h)"
    have act: "stable_route a" if "gr_action ?out = Some a" for a
      using generate_action [OF that] \<open>known_gateway (Some g)\<close> stable_action by (auto simp: known_gateway_def list_all_iff)
    then have "gr_action ?out \<noteq> None \<Longrightarrow> stable_route (the (gr_action ?out))" by auto
    moreover have "gr_text ?out \<noteq> None \<Longrightarrow> gr_action ?out \<noteq> None" by (rule generate_text_action)
    ultimately show ?thesis
      using stable_local(1) by (auto simp: gateway_reply_def Let_def deferred_reply_def accepted_reply_def split: prod.split)
  qed
  then show ?thesis
    using assms stable_local
    by (cases gw) (auto simp: generate_reply_def gateway_live_def deferred_reply_def accepted_reply_def draft_reply_def
        split: prod.split)
qed

section \<open>The stored run\<close>

definition same_replies :: "db \<Rightarrow> db \<Rightarrow> bool" where
  "same_replies s t \<longleftrightarrow> runs t = runs s \<and> routing_records t = routing_records s"

interpretation replies_frame: kept same_replies
  by unfold_locales (simp_all add: same_replies_def)

lemma replies_slots: "always same_replies (return_slots admission calls)"
  unfolding return_slots_def return_gateway_requests_def update_days_def Let_def
  by (intro replies_frame.always_rules replies_frame.always_execute) (simp add: same_replies_def)

lemma frame_charge: "always (ledger_only a) (charge now r i gn)"
  unfolding charge_def by (intro budget_frame.always_rules frame_release frame_settle)

lemma replies_charge: "always same_replies (charge now r i gn)"
  by (rule always_mono [OF frame_charge [of 0]]) (simp add: ledger_only_def same_replies_def)

lemma replies_decision: "always same_replies (insert_decision mk)"
  unfolding insert_decision_def
  by (intro replies_frame.always_rules replies_frame.always_insert) (simp add: same_replies_def)

lemma replies_shadow: "always same_replies (record_shadow shadow run_id ctx eligible created_at)"
  unfolding record_shadow_def
  by (intro replies_frame.always_rules replies_decision)

lemma evidence_Ok:
  assumes "record_routing_evidence shadow run_id settings plan message gn timing gw s = Ok ctx t"
  shows "runs t = runs s \<and> (\<exists>row. routing_records t = routing_records s @ [row] \<and> rr_run_id row = run_id
      \<and> action_for_route (gn_route gn) = Some (rr_executed_action row))
    \<and> select_first (\<lambda>r. rr_run_id r = run_id) (routing_records s) = None"
proof -
  obtain ctx' executed where c: "request_context plan message (gn_intent gn) = Some ctx'"
    and e: "action_for_route (gn_route gn) = Some executed"
    using assms by (auto simp: record_routing_evidence_def raise_def split: option.splits)
  have "\<exists>row s1. rr_run_id row = run_id \<and> rr_executed_action row = executed
      \<and> insert_routing_record row s = Ok () s1 \<and> same_replies s1 t"
    using assms unfolding record_routing_evidence_def c e option.case Let_def andthen_Ok_conv ret_def
    by clarsimp (metis (no_types, lifting) always_Ok [OF replies_decision] always_Ok [OF replies_shadow] replies_frame.keeps_trans
        routing_record.select_convs(1) routing_record.select_convs(10))
  then show ?thesis using e by (auto simp: insert_routing_record_def same_replies_def split: if_splits)
qed

lemma store_reply_Ok:
  assumes "store_reply env settings gw b p previous reason policy r admission gn s = Ok run t"
  obtains s1 s2 s3 s4 where "apply_intent (gn_intent gn) b p s = Ok () s1"
    and "persist_completed_run (pr_account_id p) (pr_user_id p) (mc_idempotency_key b) (gn_response gn) (gn_outcome gn)
       (Some (message_request_hash (me_sha256 env) (mc_text b) (mc_history b))) previous reason s1 = Ok run s2"
    and "\<exists>ctx. record_routing_evidence (me_shadow env) (ru_id run) settings policy (mc_text b) gn (me_timing env) gw s2 = Ok ctx s3"
    and "return_slots admission (gn_provider_calls gn) s3 = Ok () s4"
    and "charge (me_finished env) r (ru_id run) gn s4 = Ok () t"
  using assms unfolding store_reply_def andthen_Ok_conv ret_def by auto

text \<open>\<open>answered b p env t v\<close>: the database \<open>t\<close> answers the request with the view \<open>v\<close>.\<close>

definition answered :: "message_env \<Rightarrow> message_create \<Rightarrow> principal \<Rightarrow> db \<Rightarrow> message_view \<Rightarrow> bool" where
  "answered env b p t v \<longleftrightarrow> (\<exists>r. find_run (pr_account_id p) (mc_idempotency_key b) t = Some r
     \<and> replay (message_request_hash (me_sha256 env) (mc_text b) (mc_history b)) r t = Ok v t)"

lemma store_answers:
  assumes "store_reply env settings gw b p previous reason policy r admission gn s = Ok run t" and "stable_route (gn_route gn)"
  shows "answered env b p t (run_view run gn)"
proof (rule store_reply_Ok [OF assms(1)])
  fix s1 s2 s3 s4
  assume persist: "persist_completed_run (pr_account_id p) (pr_user_id p) (mc_idempotency_key b) (gn_response gn) (gn_outcome gn)
       (Some (message_request_hash (me_sha256 env) (mc_text b) (mc_history b))) previous reason s1 = Ok run s2"
    and evidence: "\<exists>ctx. record_routing_evidence (me_shadow env) (ru_id run) settings policy (mc_text b) gn (me_timing env) gw s2 = Ok ctx s3"
    and slots: "return_slots admission (gn_provider_calls gn) s3 = Ok () s4"
    and charged: "charge (me_finished env) r (ru_id run) gn s4 = Ok () t"
  note run = persist_Ok [OF persist]
  obtain row where row: "runs s3 = runs s2" "routing_records s3 = routing_records s2 @ [row]" "rr_run_id row = ru_id run"
    "action_for_route (gn_route gn) = Some (rr_executed_action row)"
    "select_first (\<lambda>r. rr_run_id r = ru_id run) (routing_records s2) = None"
    using evidence evidence_Ok by blast
  have same: "same_replies s3 t"
    using always_Ok [OF replies_slots slots] always_Ok [OF replies_charge charged] by (rule replies_frame.keeps_trans)
  have find: "find_run (pr_account_id p) (mc_idempotency_key b) t = Some run"
  proof -
    have "runs t = runs s2" using row(1) same by (simp add: same_replies_def)
    then have "find_run (pr_account_id p) (mc_idempotency_key b) t = find_run (pr_account_id p) (mc_idempotency_key b) s2"
      by (simp only: find_run_def)
    then show ?thesis using run by metis
  qed
  have "route_for t (ru_id run) = gn_route gn"
    using row same assms(2) by (auto simp: route_for_def same_replies_def select_first_append stable_route_def)
  then have "replay (message_request_hash (me_sha256 env) (mc_text b) (mc_history b)) run t = Ok (run_view run gn) t"
    using run by (simp add: replay_def view_of_run_def run_view_def)
  then show "answered env b p t (run_view run gn)" using find by (auto simp: answered_def)
qed

lemma replay_Ok: "replay hash r s = Ok v t \<Longrightarrow> t = s"
  by (simp add: replay_def split: if_splits)

lemma finish_answers:
  assumes "finish_message env settings gw b p previous reason policy r admission made s = Ok v t"
    and "\<And>gn. made = Inr gn \<Longrightarrow> stable_route (gn_route gn)"
  shows "answered env b p t v"
proof (cases made)
  case (Inl fault)
  then show ?thesis using assms(1) by (simp add: finish_message_def andthen_Ok_conv raise_def)
next
  case (Inr gn)
  show ?thesis
  proof (cases "store_reply env settings gw b p previous reason policy r admission gn s")
    case (Ok run u)
    then show ?thesis using assms store_answers [OF Ok] by (simp add: finish_message_def Inr)
  next
    case (Raise e u)
    then obtain w where "recover (message_request_hash (me_sha256 env) (mc_text b) (mc_history b)) (pr_account_id p)
        (mc_idempotency_key b) e w = Ok v t"
      using assms(1) by (auto simp: finish_message_def Inr andthen_Ok_conv)
    then show ?thesis
      by (auto simp: recover_def answered_def dest: replay_Ok split: if_splits option.splits)
  qed
qed

lemma execute_answers:
  assumes "execute_message env settings gw produce b p previous reason (s, h) = Ok v (t, h1)"
    and "\<And>policy history h gn h'. produce policy history h = (Inr gn, h') \<Longrightarrow> stable_route (gn_route gn)"
  shows "answered env b p t v"
proof (cases rule: execute_cases [of p b s env settings gw produce previous reason h])
  case (replayed r)
  then show ?thesis using assms(1)
    by (auto simp: on_db_def answered_def dest: replay_Ok split: result.splits)
next
  case (refused e f)
  then show ?thesis using assms(1) by simp
next
  case (replied policy history r admission u made h')
  then have "finish_message env settings gw b p previous reason policy r admission made (me_others env u) = Ok v t"
    using assms(1) by (auto simp: on_db_def split: result.splits)
  then show ?thesis by (rule finish_answers) (use assms(2) replied(3) in auto)
qed

text \<open>What later transactions keep of the stored replies\<close>

definition extends_replies :: "db \<Rightarrow> db \<Rightarrow> bool" where
  "extends_replies t u \<longleftrightarrow> (\<exists>more. runs u = runs t @ more)
     \<and> list_all (\<lambda>r. route_for u (ru_id r) = route_for t (ru_id r)) (runs t)"

text \<open>C8: A message is answered once. When a chat request has returned, sending it again, at any later time, under any
  settings, gateway and provider health, and after any transactions that add runs and rewrite no
  routing record, returns the very same view (run, status, outcome, text, route and predecessor), makes
  no provider call and changes nothing.\<close>

theorem message_is_idempotent:
  assumes "send_message env renv settings gw b p (s, h) = Ok v (t, h1)" and "known_gateway gw"
    and "extends_replies t u" and "me_sha256 env' = me_sha256 env"
  shows "send_message env' renv' settings' gw' b p (u, h') = Ok v (u, h')"
proof -
  have "answered env b p t v"
  proof (rule execute_answers [OF assms(1) [unfolded send_message_def]])
    fix policy history h gn h'
    assume "reply_producer renv settings gw False (mc_text b) policy history h = (Inr gn, h')"
    then show "stable_route (gn_route gn)"
      using reply_route [OF assms(2), of renv settings policy False history "mc_text b" h]
      by (simp add: reply_producer_def split: prod.splits)
  qed
  then obtain r where r: "find_run (pr_account_id p) (mc_idempotency_key b) t = Some r"
    and v: "replay (message_request_hash (me_sha256 env) (mc_text b) (mc_history b)) r t = Ok v t"
    by (auto simp: answered_def)
  have "r \<in> set (runs t)" using select_first_Some [OF r [unfolded find_run_def]] by blast
  then have "view_of_run u r = view_of_run t r"
    using assms(3) by (simp add: extends_replies_def list_all_iff view_of_run_def)
  moreover have "find_run (pr_account_id p) (mc_idempotency_key b) u = Some r"
    using r assms(3) by (auto simp: extends_replies_def find_run_def select_first_append)
  ultimately show ?thesis
    using v assms(4) unfolding send_message_def
    by (simp add: execute_replay) (auto simp: replay_def on_db_def split: if_splits)
qed

section \<open>The provider requests of a message\<close>

definition same_days :: "db \<Rightarrow> db \<Rightarrow> bool" where
  "same_days s t \<longleftrightarrow> gateway_request_days t = gateway_request_days s"

interpretation days_frame: kept same_days
  by unfold_locales (simp_all add: same_days_def)

lemma days_of_ledger: "always (ledger_only a) m \<Longrightarrow> always same_days m"
  by (erule always_mono) (simp add: ledger_only_def same_days_def)

lemma days_apply_intent: "always same_days (apply_intent intent b p)"
  unfolding apply_intent_def insert_task_def
  by (intro days_frame.always_rules days_frame.always_insert) (simp add: same_days_def)

lemma days_persist: "always same_days (persist_completed_run a u k x y hash previous reason)"
  unfolding persist_completed_run_def insert_outbox_def
  by (intro days_frame.always_rules days_frame.always_insert) (simp_all add: same_days_def)

lemma days_evidence: "always same_days (record_routing_evidence shadow run_id settings plan message gn timing gw)"
proof -
  have "always same_days (insert_routing_record row)" for row
    by (rule alwaysI) (simp add: insert_routing_record_def same_days_def)
  moreover have "always same_days (insert_decision mk)" for mk
    unfolding insert_decision_def
    by (intro days_frame.always_rules days_frame.always_insert) (simp add: same_days_def)
  ultimately show ?thesis
    unfolding record_routing_evidence_def record_shadow_def Let_def
    by (intro days_frame.always_rules)
qed

text \<open>The requests used of a day, relative to another state\<close>

definition used_more :: "string \<Rightarrow> int \<Rightarrow> db \<Rightarrow> db \<Rightarrow> bool" where
  "used_more key n s t \<longleftrightarrow> days_keyed (gateway_request_days t)
     \<and> (\<forall>day. day_used day (gateway_request_days t) = day_used day (gateway_request_days s) + (if day = key then n else 0))"

lemma used_more_frame: "used_more key n s t \<Longrightarrow> same_days t u \<Longrightarrow> used_more key n s u"
  by (simp add: used_more_def same_days_def)

definition slots_of :: "gateway_admission option \<Rightarrow> int" where
  "slots_of admission = (case admission of None \<Rightarrow> 0 | Some a \<Rightarrow> ga_slots a)"

definition kept_of :: "gateway_admission option \<Rightarrow> provider_call list \<Rightarrow> int" where
  "kept_of admission calls = (case admission of None \<Rightarrow> 0 | Some a \<Rightarrow> kept_slots a (gateway_requests_made calls))"

lemma open_uses_slots:
  assumes "open_message now settings gw b p s = Ok (policy, history, r, admission) t"
    and "days_keyed (gateway_request_days s)"
  shows "used_more (fst (current_window_key now)) (slots_of admission) s t
    \<and> admission = (if gateway_live gw then Some \<lparr>ga_day_key = fst (current_window_key now), ga_slots = MAX_ATTEMPTS\<rparr> else None)
    \<and> (gateway_live gw \<longrightarrow> day_used (fst (current_window_key now)) (gateway_request_days t)
         \<le> request_ceiling settings (price_inr policy > 0))"
proof (rule open_message_Ok [OF assms(1)])
  fix su s1 s2
  assume 1: "policy_for now (pr_account_id p) s = Ok (su, policy) s1"
    and 2: "reserve_budget now settings (pr_account_id p) (mc_idempotency_key b) ''execution''
       (estimate_request_cost_micro policy settings) (token_hold gw (mc_text b) history policy) s1 = Ok r s2"
    and 3: "admit_message now settings gw policy s2 = Ok admission t"
  have same: "same_days s s2"
    using always_Ok [OF days_of_ledger [OF frame_policy_for] 1] always_Ok [OF days_of_ledger [OF frame_reserve] 2]
    by (rule days_frame.keeps_trans)
  then have keyed: "days_keyed (gateway_request_days s2)" using assms(2) by (simp add: same_days_def)
  show ?thesis
  proof (cases "gateway_live gw")
    case False
    then show ?thesis using 3 same assms(2)
      by (auto simp: admit_message_def ret_def slots_of_def used_more_def same_days_def)
  next
    case True
    then obtain a where a: "admission = Some a" "admit_gateway_requests now settings (price_inr policy > 0) MAX_ATTEMPTS s2 = Ok a t"
      using 3 by (auto simp: admit_message_def andthen_Ok_conv ret_def)
    show ?thesis
      using wpD [OF admit_wp [OF keyed] a(2)] True same a(1)
      by (auto simp: used_more_def slots_of_def same_days_def)
  qed
qed

lemma return_uses_slots:
  assumes "used_more key (slots_of admission) s t" and "list_all (\<lambda>d. 0 \<le> gd_requests_used d) (gateway_request_days s)"
    and "admission = (if live_gw then Some \<lparr>ga_day_key = key, ga_slots = int MAX_ATTEMPTS\<rparr> else None)"
    and "return_slots admission calls t = Ok () u"
  shows "used_more key (kept_of admission calls) s u"
proof (cases live_gw)
  case False
  then show ?thesis using assms by (simp add: return_slots_def ret_def kept_of_def slots_of_def)
next
  case True
  let ?a = "\<lparr>ga_day_key = key, ga_slots = int MAX_ATTEMPTS\<rparr>"
  have a: "admission = Some ?a" using True assms(3) by simp
  have "0 \<le> day_used key (gateway_request_days s)"
    using assms(2) by (auto simp: day_used_def list_all_iff split: option.split dest!: select_first_Some)
  then have "ga_slots ?a \<le> day_used (ga_day_key ?a) (gateway_request_days t)"
    using assms(1) by (simp add: used_more_def slots_of_def a)
  from return_wp [OF _ this] assms(1) have "wp (return_gateway_requests ?a (gateway_requests_made calls))
      (\<lambda>_ u. days_keyed (gateway_request_days u) \<and> (\<forall>day. day_used day (gateway_request_days u) = day_used day (gateway_request_days t)
          - (if day = ga_day_key ?a then ga_slots ?a - kept_slots ?a (gateway_requests_made calls) else 0))) t"
    by (simp add: used_more_def)
  from wpD [OF this] assms(1,4) show ?thesis
    by (simp add: return_slots_def a used_more_def slots_of_def kept_of_def)
qed

lemma store_uses_slots:
  assumes "store_reply env settings gw b p previous reason policy r admission gn t = Ok run w"
    and "used_more key (slots_of admission) s t" and "list_all (\<lambda>d. 0 \<le> gd_requests_used d) (gateway_request_days s)"
    and "admission = (if live_gw then Some \<lparr>ga_day_key = key, ga_slots = int MAX_ATTEMPTS\<rparr> else None)"
  shows "used_more key (kept_of admission (gn_provider_calls gn)) s w"
proof (rule store_reply_Ok [OF assms(1)])
  fix s1 s2 s3 s4
  assume 1: "apply_intent (gn_intent gn) b p t = Ok () s1"
    and 2: "persist_completed_run (pr_account_id p) (pr_user_id p) (mc_idempotency_key b) (gn_response gn) (gn_outcome gn)
       (Some (message_request_hash (me_sha256 env) (mc_text b) (mc_history b))) previous reason s1 = Ok run s2"
    and 3: "\<exists>ctx. record_routing_evidence (me_shadow env) (ru_id run) settings policy (mc_text b) gn (me_timing env) gw s2 = Ok ctx s3"
    and 4: "return_slots admission (gn_provider_calls gn) s3 = Ok () s4"
    and 5: "charge (me_finished env) r (ru_id run) gn s4 = Ok () w"
  have "same_days t s3"
    using always_Ok [OF days_apply_intent 1] always_Ok [OF days_persist 2] 3 always_Ok [OF days_evidence] by (metis days_frame.keeps_trans)
  then have "used_more key (kept_of admission (gn_provider_calls gn)) s s4"
    by (rule return_uses_slots [OF used_more_frame [OF assms(2)] assms(3,4) 4])
  then show ?thesis using always_Ok [OF days_of_ledger [OF frame_charge] 5] by (rule used_more_frame)
qed

lemma undo_uses_slots:
  assumes "undo_message r admission calls t = Ok () w"
    and "used_more key (slots_of admission) s t" and "list_all (\<lambda>d. 0 \<le> gd_requests_used d) (gateway_request_days s)"
    and "admission = (if live_gw then Some \<lparr>ga_day_key = key, ga_slots = int MAX_ATTEMPTS\<rparr> else None)"
  shows "used_more key (kept_of admission calls) s w"
proof -
  obtain u where u: "release_budget r t = Ok () u" "return_slots admission calls u = Ok () w"
    using assms(1) by (auto simp: undo_message_def andthen_Ok_conv)
  show ?thesis
    by (rule return_uses_slots [OF used_more_frame [OF assms(2) always_Ok [OF days_of_ledger [OF frame_release] u(1)]] assms(3,4) u(2)])
qed

lemma reply_requests:
  "0 \<le> gateway_requests_made (gn_provider_calls (fst (generate_reply env settings plan gw escalate history message h)))
   \<and> gateway_requests_made (gn_provider_calls (fst (generate_reply env settings plan gw escalate history message h))) \<le> MAX_ATTEMPTS"
proof -
  let ?made = gateway_requests_made
  have routed: "?made (snd (classify_intent system_one msg) @ calls) = ?made calls" for system_one msg calls
    by (auto simp: classify_intent_def gateway_requests_made_def record_call_def KNOWN_PROVIDERS_def TYPESAFE_PROVIDER_def Let_def
        split: option.split)
  have none: "?made [] = 0" by (simp add: gateway_requests_made_def)
  have tried: "?made (gr_calls (fst (generate cm clk now g plan message task cap escalate hist h))) \<le> MAX_ATTEMPTS" for cm clk now g task cap hist
    using generate_outcome [of g plan message hist now cap task cm clk escalate h]
    by (auto simp: bounded_outcome_def gateway_requests_made_def intro: order_trans [OF length_filter_le])
  let ?routing = "snd (if live_models_enabled settings then classify_intent (en_system_one env) message else (None, []))"
  have routing: "?made (?routing @ calls) = ?made calls" for calls
    using routed by simp
  have "?made ?routing = 0" using routing [of "[]"] none by simp
  moreover
  let ?gen = "generate (en_call_model env) (en_clock env) (en_now env) (the gw) plan message (classify_task (en_unicode env) message)
    (output_tokens plan) escalate (map (\<lambda>t. (ht_role t, ht_content t)) history) h"
  have "gn_provider_calls (fst (gateway_reply env plan (the gw) escalate history message intent calls h)) = calls @ gr_calls (fst ?gen)"
    for intent calls
    by (simp add: gateway_reply_def Let_def deferred_reply_def accepted_reply_def split: prod.split)
  then have "gn_provider_calls (fst (generate_reply env settings plan gw escalate history message h)) \<in>
      {[], ?routing, ?routing @ gr_calls (fst ?gen)}"
    by (simp add: generate_reply_def deferred_reply_def accepted_reply_def draft_reply_def split: prod.split)
  ultimately have "?made (gn_provider_calls (fst (generate_reply env settings plan gw escalate history message h))) \<le> MAX_ATTEMPTS"
    using tried routing none by auto
  then show ?thesis by (simp add: gateway_requests_made_def)
qed

lemma finish_uses_slots:
  assumes "used_more key (slots_of admission) s t" and "list_all (\<lambda>d. 0 \<le> gd_requests_used d) (gateway_request_days s)"
    and "admission = (if live_gw then Some \<lparr>ga_day_key = key, ga_slots = int MAX_ATTEMPTS\<rparr> else None)" and "holds_for r t"
  shows "used_more key (kept_of admission (gn_provider_calls gn)) s
    (state_of (finish_message env settings gw b p previous reason policy r admission (Inr gn) t))"
proof (cases "store_reply env settings gw b p previous reason policy r admission gn t")
  case (Ok run u)
  then show ?thesis using store_uses_slots [OF Ok assms(1,2,3)] by (simp add: finish_message_def)
next
  case (Raise e u)
  obtain w where w: "undo_message r admission (gn_provider_calls gn) t = Ok () w" using undo_returns [OF assms(4)] by blast
  then show ?thesis using undo_uses_slots [OF w assms(1,2,3)] by (simp add: finish_message_def Raise catching_def andthen_def)
qed


end
