(* ===== verification/Tenants.thy ===== *)
theory Tenants
  imports Server Message_Props
begin

text \<open>
  Accounts are apart. A request of one account leaves the rows of every other account as they are, and
  what it answers and writes depends on no row of another account.
\<close>

section \<open>The rows of an account\<close>

definition rows_of :: "('r \<Rightarrow> nat) \<Rightarrow> nat \<Rightarrow> 'r list \<Rightarrow> 'r list" where
  "rows_of account a rows = filter (\<lambda>r. account r = a) rows"

lemma rows_of_simps [simp]:
  "rows_of account a [] = []" "rows_of account a (xs @ ys) = rows_of account a xs @ rows_of account a ys"
  "rows_of account a (x # xs) = (if account x = a then x # rows_of account a xs else rows_of account a xs)"
  by (simp_all add: rows_of_def)

lemma set_rows_of: "r \<in> set (rows_of account a rows) \<longleftrightarrow> r \<in> set rows \<and> account r = a"
  by (auto simp: rows_of_def)

lemma rows_of_update_other:
  "(\<And>r. r \<in> set rows \<Longrightarrow> account r = b \<Longrightarrow> \<not> q r) \<Longrightarrow> (\<And>r. q r \<Longrightarrow> account (f r) = account r)
   \<Longrightarrow> rows_of account b (update_where q f rows) = rows_of account b rows"
  by (induction rows) auto

lemma rows_of_update:
  "(\<And>r. q r \<Longrightarrow> account (f r) = account r) \<Longrightarrow> rows_of account a (update_where q f rows) = update_where q f (rows_of account a rows)"
  by (induction rows) auto

lemma select_first_rows_of:
  "(\<And>r. r \<in> set rows \<Longrightarrow> q r \<Longrightarrow> account r = a) \<Longrightarrow> select_first q (rows_of account a rows) = select_first q rows"
  by (induction rows) auto

section \<open>Other accounts are left alone\<close>

definition spares :: "nat \<Rightarrow> db \<Rightarrow> db \<Rightarrow> bool" where
  "spares b s t \<longleftrightarrow> rows_of us_account_id b (users t) = rows_of us_account_id b (users s)
     \<and> rows_of su_account_id b (subscriptions t) = rows_of su_account_id b (subscriptions s)
     \<and> rows_of ta_account_id b (tasks t) = rows_of ta_account_id b (tasks s)
     \<and> rows_of re_account_id b (reminders t) = rows_of re_account_id b (reminders s)
     \<and> rows_of ru_account_id b (runs t) = rows_of ru_account_id b (runs s)
     \<and> rows_of mf_account_id b (feedback_rows t) = rows_of mf_account_id b (feedback_rows s)
     \<and> rows_of be_account_id b (billing_events t) = rows_of be_account_id b (billing_events s)"

interpretation tenants: kept "spares b" for b
  by unfold_locales (simp_all add: spares_def)

lemma spares_ledger: "ledger_only a s t \<Longrightarrow> a \<noteq> b \<Longrightarrow> spares b s t"
proof -
  assume l: "ledger_only a s t" and "a \<noteq> b"
  have others: "rows_of su_account_id b rows = rows_of su_account_id b (filter (\<lambda>su. su_account_id su \<noteq> a) rows)" for rows
    using \<open>a \<noteq> b\<close> by (induction rows) auto
  have "filter (\<lambda>su. su_account_id su \<noteq> a) (subscriptions t) = filter (\<lambda>su. su_account_id su \<noteq> a) (subscriptions s)"
    using l by (simp add: ledger_only_def)
  then have "rows_of su_account_id b (subscriptions t) = rows_of su_account_id b (subscriptions s)"
    by (subst (1 2) others) simp
  then show ?thesis using l by (simp add: spares_def ledger_only_def)
qed

lemma spares_always: "always (ledger_only a) m \<Longrightarrow> a \<noteq> b \<Longrightarrow> always (spares b) m"
  by (erule always_mono) (rule spares_ledger)

lemma spares_insert_task: "a \<noteq> b \<Longrightarrow> always (spares b) (insert_task a u title key)"
  unfolding insert_task_def by (rule tenants.always_insert) (simp add: spares_def new_task_def)

lemma spares_apply_intent: "pr_account_id p \<noteq> b \<Longrightarrow> always (spares b) (apply_intent intent body p)"
  unfolding apply_intent_def by (intro tenants.always_rules spares_insert_task)

lemma spares_persist: "a \<noteq> b \<Longrightarrow> always (spares b) (persist_completed_run a u k x y hash previous reason)"
  unfolding persist_completed_run_def insert_outbox_def
  by (intro tenants.always_rules tenants.always_insert) (simp_all add: spares_def new_run_def)

lemma spares_evidence: "always (spares b) (record_routing_evidence shadow run_id settings plan message gn timing gw)"
proof -
  have "always (spares b) (insert_routing_record row)" for row
    by (rule alwaysI) (simp add: insert_routing_record_def spares_def)
  moreover have "always (spares b) (insert_decision mk)" for mk
    unfolding insert_decision_def
    by (intro tenants.always_rules tenants.always_insert) (simp add: spares_def)
  ultimately show ?thesis
    unfolding record_routing_evidence_def record_shadow_def Let_def by (intro tenants.always_rules)
qed

lemma spares_slots: "always (spares b) (return_slots admission calls)"
  unfolding return_slots_def return_gateway_requests_def update_days_def Let_def
  by (intro tenants.always_rules tenants.always_execute) (simp add: spares_def)

lemma spares_admit: "always (spares b) (admit_message now settings gw policy)"
  unfolding admit_message_def admit_gateway_requests_def ensure_request_day_def update_days_def Let_def
  by (intro tenants.always_rules tenants.always_execute tenants.always_insert) (simp_all add: spares_def)

lemma spares_open:
  assumes "pr_account_id p \<noteq> b"
  shows "always (spares b) (open_message now settings gw body p)"
  unfolding open_message_def Let_def
  by (intro tenants.always_rules spares_admit spares_always [OF frame_policy_for assms] spares_always [OF frame_reserve assms])

lemma spares_store:
  assumes "pr_account_id p \<noteq> b"
  shows "always (spares b) (store_reply env settings gw body p previous reason policy r admission gn)"
  unfolding store_reply_def
  by (intro tenants.always_rules spares_apply_intent spares_persist spares_evidence spares_slots
      spares_always [OF frame_charge assms] assms)

lemma spares_recover: "always (spares b) (recover hash a key e)"
  by (rule alwaysI) (simp add: spares_def)

lemma spares_finish:
  assumes "pr_account_id p \<noteq> b"
  shows "always (spares b) (finish_message env settings gw body p previous reason policy r admission made)"
proof -
  have "always (spares b) (undo_message r admission calls)" for calls
    unfolding undo_message_def by (intro tenants.always_rules spares_slots spares_always [OF frame_release assms])
  then have undo: "always (spares b) (andthen (catching crash (undo_message r admission calls)) (\<lambda>_. recover hash a key e))" for calls hash a key e
    by (intro tenants.always_rules spares_recover)
  have fault: "always (spares b) (andthen (catching crash (release_budget r)) (\<lambda>_. raise (Crash fault)))" for fault :: string
    by (intro tenants.always_rules spares_always [OF frame_release assms])
  show ?thesis
    by (rule alwaysI) (auto simp: finish_message_def split: sum.split result.split
        dest: always_Ok [OF spares_store [OF assms]] intro: alwaysD [OF undo] alwaysD [OF fault])
qed

lemma spares_execute:
  assumes "pr_account_id p \<noteq> b" and "\<And>s. spares b s (me_others env s)"
  shows "spares b s (fst (state_of (execute_message env settings gw produce body p previous reason (s, h))))"
proof (cases rule: execute_cases [of p body s env settings gw produce previous reason h])
  case (replayed r)
  then show ?thesis by (simp add: replay_state tenants.keeps_refl)
next
  case (refused e f)
  then show ?thesis by (simp add: tenants.keeps_refl)
next
  case (replied policy history r admission t made h')
  have "spares b s t" by (rule always_Ok [OF spares_open [OF assms(1)] replied(2)])
  then have "spares b s (me_others env t)" using assms(2) by (rule tenants.keeps_trans)
  moreover have "spares b (me_others env t)
      (state_of (finish_message env settings gw body p previous reason policy r admission made (me_others env t)))"
    by (rule alwaysD [OF spares_finish [OF assms(1)]])
  ultimately show ?thesis unfolding replied(4) by (auto intro: tenants.keeps_trans)
qed

section \<open>The handlers on the database\<close>

text \<open>Primary keys are unique, and a new row takes a new one.\<close>

definition keyed :: "db \<Rightarrow> bool" where
  "keyed s \<longleftrightarrow> distinct (map us_id (users s)) \<and> distinct (map su_id (subscriptions s)) \<and> distinct (map ta_id (tasks s))
     \<and> distinct (map mf_id (feedback_rows s)) \<and> list_all (\<lambda>su. su_id su < next_id s) (subscriptions s)"

text \<open>The user that the credential named belongs to the account that it named.\<close>

definition member :: "principal \<Rightarrow> db \<Rightarrow> bool" where
  "member p s \<longleftrightarrow> list_all (\<lambda>u. us_id u = pr_user_id p \<longrightarrow> us_account_id u = pr_account_id p) (users s)"

text \<open>What other requests commit keeps the keys unique and, for the account \<open>b\<close>, changes nothing.\<close>

definition tame :: "nat \<Rightarrow> (db \<Rightarrow> db) \<Rightarrow> bool" where
  "tame b race \<longleftrightarrow> (\<forall>s. keyed s \<longrightarrow> keyed (race s) \<and> spares b s (race s))"

lemma update_other:
  assumes "distinct (map k rows)" and "r \<in> set rows" and "account r \<noteq> b" and "\<And>x. k x = k r \<Longrightarrow> account (f x) = account x"
    and same: "rows_of account b rows' = rows_of account b rows"
  shows "rows_of account b (update_where (\<lambda>x. k x = k r) f rows') = rows_of account b rows"
proof -
  have "k x \<noteq> k r" if "x \<in> set rows'" "account x = b" for x
  proof
    assume "k x = k r"
    moreover have "x \<in> set rows" using that same by (metis set_rows_of)
    ultimately show False using key_unique [OF assms(1) _ assms(2)] that(2) assms(3) by blast
  qed
  then show ?thesis using same rows_of_update_other [of rows' account b "\<lambda>x. k x = k r" f] assms(4) by auto
qed

lemma spares_sync_theme:
  assumes "keyed s" and "member p s" and "pr_account_id p \<noteq> b"
  shows "spares b s (sync_theme_progression (pr_user_id p) s)"
proof (cases "select_first (\<lambda>u. us_id u = pr_user_id p) (users s)")
  case (Some u)
  then have u: "u \<in> set (users s)" "us_id u = pr_user_id p" using select_first_Some [OF Some] by auto
  then have "us_account_id u \<noteq> b" using assms(2,3) by (auto simp: member_def list_all_iff)
  from update_other [of us_id "users s" u us_account_id, OF _ u(1) this _ refl] assms(1) u(2)
  show ?thesis by (simp add: sync_theme_progression_def Some Let_def spares_def keyed_def)
qed (simp add: sync_theme_progression_def tenants.keeps_refl)

lemma spares_set_theme:
  assumes "keyed s" and "member p s" and "pr_account_id p \<noteq> b" and "spares b s t"
  shows "spares b s (set_theme (pr_user_id p) n t)"
proof -
  have "\<not> us_id u = pr_user_id p" if "u \<in> set (users t)" "us_account_id u = b" for u
  proof -
    have "u \<in> set (users s)" using that assms(4) by (metis set_rows_of spares_def)
    then show ?thesis using that assms(2,3) by (auto simp: member_def list_all_iff)
  qed
  then have "rows_of us_account_id b (users (set_theme (pr_user_id p) n t)) = rows_of us_account_id b (users t)"
    by (simp add: set_theme_def rows_of_update_other)
  then show ?thesis using assms(4) by (simp add: spares_def set_theme_def)
qed

lemma found_user: "find_account_user i s = Some u \<Longrightarrow> us_id u = i"
  using select_first_Some by (fastforce simp: find_account_user_def)

lemma spares_armory:
  assumes "keyed s" and "member p s" and "pr_account_id p \<noteq> b"
  shows "spares b s (state_of (get_armory p s))" and "spares b s (state_of (update_active_theme n p s))"
  using spares_sync_theme [OF assms] spares_set_theme [OF assms spares_sync_theme [OF assms]]
  by (auto simp: get_armory_def update_active_theme_def Let_def tenants.keeps_refl split: option.split dest!: found_user)

lemma spares_create_task:
  assumes "pr_account_id p \<noteq> b" and "spares b s (race s)"
  shows "spares b s (state_of (create_task race body p s))"
proof -
  have insert: "spares b t (state_of (insert_task (pr_account_id p) u title key t))" for u title key t
    by (rule alwaysD [OF spares_insert_task [OF assms(1)]])
  have "spares b s (state_of (try_create_task race body p s))"
    using insert assms(2) tenants.keeps_trans
    by (auto simp: try_create_task_def create_task_idempotent_def andthen_def query_def raise_def ret_def tenants.keeps_refl
        split: option.split)
  then show ?thesis
    by (auto simp: create_task_def split: result.split service_error.split option.split)
qed

lemma spares_complete_task:
  assumes "keyed s" and "pr_account_id p \<noteq> b"
  shows "spares b s (state_of (complete_task ref p s))"
proof (cases "select_first (\<lambda>t. nat_str (ta_id t) = ref \<and> ta_account_id t = pr_account_id p) (tasks s)")
  case (Some t)
  then have t: "t \<in> set (tasks s)" "ta_account_id t \<noteq> b" using select_first_Some [OF Some] assms(2) by auto
  from update_other [of ta_id "tasks s" t ta_account_id, OF _ t _ refl] assms(1)
  show ?thesis by (simp add: complete_task_def Some spares_def keyed_def)
qed (simp add: complete_task_def tenants.keeps_refl)

lemma spares_create_reminder:
  assumes "pr_account_id p \<noteq> b" and "spares b s (race s)"
  shows "spares b s (state_of (create_reminder race body p s))"
proof -
  define put where "put due = insert_row (\<lambda>s. find_reminder (pr_account_id p) (rq_idempotency_key body) s \<noteq> None)
    (new_reminder body due p) (\<lambda>r s. s\<lparr>reminders := reminders s @ [r]\<rparr>)" for due
  have "always (spares b) (put due)" for due
    unfolding put_def using assms(1) by (intro tenants.always_insert) (simp add: spares_def new_reminder_def)
  then have "spares b (race s) (state_of (put due (race s)))" for due
    by (rule alwaysD)
  then have put: "spares b s (state_of (put due (race s)))" for due
    by (rule tenants.keeps_trans [OF assms(2)])
  have unfolded: "create_reminder race body p s = (case rq_due_at body of
        Naive _ \<Rightarrow> Raise (Http 422 ''due_at must include a timezone offset'') s
      | Aware due \<Rightarrow>
          (case find_reminder (pr_account_id p) (rq_idempotency_key body) s of
             Some r \<Rightarrow> if re_text r \<noteq> rq_text body \<or> re_due_at_utc r \<noteq> due \<or> re_timezone r \<noteq> rq_timezone body
                       then Raise idempotency_conflict s else Ok (view_reminder r) s
           | None \<Rightarrow> (case put due (race s) of Ok r u \<Rightarrow> Ok (view_reminder r) u | Raise e u \<Rightarrow> Raise (crash e) u)))"
    by (simp only: create_reminder_def put_def)
  show ?thesis
  proof (cases "rq_due_at body")
    case (Aware due)
    show ?thesis
      using put [of due]
      by (cases "find_reminder (pr_account_id p) (rq_idempotency_key body) s"; cases "put due (race s)")
        (simp_all add: unfolded Aware tenants.keeps_refl)
  qed (simp add: create_reminder_def tenants.keeps_refl)
qed

lemma spares_upsert:
  assumes "keyed s" and "pr_account_id p \<noteq> b" and "spares b s (race s)"
  shows "spares b s (state_of (upsert_feedback race now p i rating reason s))"
proof (cases "find_feedback (pr_account_id p) i s")
  case None
  have "always (spares b) (andthen (insert_row dup (new_feedback now p i rating reason)
      (\<lambda>f s. s\<lparr>feedback_rows := feedback_rows s @ [f]\<rparr>)) (\<lambda>_. ret ()))" for dup
    using assms(2) by (intro tenants.always_rules tenants.always_insert) (simp add: spares_def new_feedback_def)
  then have "spares b (race s) (state_of (andthen (insert_row dup (new_feedback now p i rating reason)
      (\<lambda>f s. s\<lparr>feedback_rows := feedback_rows s @ [f]\<rparr>)) (\<lambda>_. ret ()) (race s)))" for dup
    by (rule alwaysD)
  then show ?thesis using tenants.keeps_trans [OF assms(3)] by (simp add: upsert_feedback_def None)
next
  case (Some row)
  then have row: "row \<in> set (feedback_rows s)" "mf_account_id row \<noteq> b"
    using select_first_Some [OF Some [unfolded find_feedback_def]] assms(2) by auto
  have "rows_of mf_account_id b (feedback_rows (race s)) = rows_of mf_account_id b (feedback_rows s)"
    using assms(3) by (simp add: spares_def)
  from update_other [of mf_id "feedback_rows s" row mf_account_id, OF _ row _ this] assms
  show ?thesis by (simp add: upsert_feedback_def Some spares_def keyed_def)
qed

lemma spares_rate:
  assumes "keyed s" and "pr_account_id p \<noteq> b" and "tame b race"
  shows "spares b s (state_of (rate_reply race now ref body p s))"
proof (cases "own_run ref p s")
  case (Ok run u)
  then have u: "u = s" by (auto simp: own_run_def split: option.splits)
  have race: "keyed (race s)" "spares b s (race s)" using assms(1,3) by (auto simp: tame_def)
  have first: "spares b s (state_of (upsert_feedback race now p i x y s))" for i x y
    using assms(1,2) race(2) by (rule spares_upsert)
  have lost: "w = race s" if "upsert_feedback race now p i x y s = Raise e w" for i x y e w
    using that by (auto simp: upsert_feedback_def andthen_def insert_row_def ret_def split: option.splits if_splits)
  have again: "spares b s (state_of (upsert_feedback id now p i x y (race s)))" for i x y
  proof (rule tenants.keeps_trans [OF race(2)])
    show "spares b (race s) (state_of (upsert_feedback id now p i x y (race s)))"
      using race(1) assms(2) by (rule spares_upsert) (simp add: tenants.keeps_refl)
  qed
  let ?reason = "kept_reason body" and ?i = "ru_id run"
  show ?thesis
  proof (cases "upsert_feedback race now p ?i (fc_rating body) ?reason s")
    case (Ok v w)
    then show ?thesis using first [of ?i "fc_rating body" ?reason] \<open>own_run ref p s = Ok run u\<close>
      by (simp add: rate_reply_def andthen_def u Let_def)
  next
    case (Raise e w)
    then have w: "w = race s" by (rule lost)
    show ?thesis
      using Raise first [of ?i "fc_rating body" ?reason] again [of ?i "fc_rating body" ?reason] \<open>own_run ref p s = Ok run u\<close>
      by (cases "upsert_feedback id now p ?i (fc_rating body) ?reason w")
        (auto simp: rate_reply_def andthen_def u Let_def w split: service_error.split)
  qed
qed (auto simp: rate_reply_def andthen_def own_run_def tenants.keeps_refl split: option.splits)

lemma wp_policy_row:
  "wp (policy_for now a) (\<lambda>(su, _) t. su \<in> set (subscriptions t) \<and> su_account_id su = a) s"
  unfolding policy_for_def
  by (auto intro!: wp_intros split: option.split simp: new_subscription_def subscription_of_def dest: select_first_Some)

lemma keyed_policy_for:
  assumes "keyed s" and "policy_for now a s = Ok (su, policy) t"
  shows "keyed t"
  using assms
  by (auto simp: policy_for_def andthen_Ok_conv query_def ret_def insert_row_def keyed_def new_subscription_def list_all_iff
      less_Suc_eq split: option.splits if_splits) force

lemma spares_redeem:
  assumes "keyed s" and "pr_account_id p \<noteq> b"
  shows "spares b s (state_of (redeem_access_code sha256 codes_file now code p s))"
proof (cases "policy_for now (pr_account_id p) s")
  case (Raise e t)
  then show ?thesis by (auto simp: redeem_access_code_def tenants.keeps_refl split: option.split)
next
  case (Ok v t)
  obtain su current where v: "v = (su, current)" by (cases v)
  have su: "su \<in> set (subscriptions t)" "su_account_id su = pr_account_id p"
    using wpD [OF wp_policy_row Ok] v by simp_all
  have t: "spares b s t" by (rule always_Ok [OF spares_always [OF frame_policy_for assms(2)] Ok])
  have "keyed t" using keyed_policy_for assms(1) Ok v by blast
  then have "rows_of su_account_id b (subscriptions (upgrade (su_id su) plan t)) = rows_of su_account_id b (subscriptions t)" for plan
    using su assms(2) unfolding upgrade_def find_subscription_row_def
    by (simp add: keyed_def update_other [of su_id "subscriptions t" su su_account_id])
  then have "spares b t (sync_account_progression (pr_account_id p) (upgrade (su_id su) plan t))" for plan
    using assms(2) by (simp add: spares_def sync_account_progression_def Let_def rows_of_update_other upgrade_def)
  then have up: "spares b s (sync_account_progression (pr_account_id p) (upgrade (su_id su) plan t))" for plan
    by (rule tenants.keeps_trans [OF t])
  then show ?thesis
    by (auto simp: redeem_access_code_def Ok v Let_def tenants.keeps_refl split: option.split)
qed

section \<open>Properties\<close>

lemma state_on_app [simp]: "ap_db (state_of (on_app answer handler ap)) = state_of (handler (ap_db ap))"
  by (simp add: on_app_def split: result.split)

lemma state_on_chat [simp]: "ap_db (state_of (on_chat handler ap)) = fst (state_of (handler (ap_db ap, ap_health ap)))"
  by (auto simp: on_chat_def split: result.split prod.split)

lemma admit_keeps_db: "admit_request env p req ap = (e, ap') \<Longrightarrow> ap_db ap' = ap_db ap"
  by (auto simp: admit_request_def split: if_splits prod.splits)

lemma spares_regenerate:
  assumes "pr_account_id p \<noteq> b" and "\<And>s. spares b s (me_others env s)"
  shows "spares b s (fst (state_of (regenerate_reply env renv settings gw ref body p (s, h))))"
  using spares_execute [OF assms]
  by (auto simp: regenerate_reply_def own_run_def tenants.keeps_refl split: option.split)

lemma spares_perform:
  assumes "pr_account_id p \<noteq> b" and "keyed (ap_db ap)" and "member p (ap_db ap)"
    and "tame b (sv_race env)" and "\<And>s. spares b s (me_others (sv_message env) s)"
  shows "spares b (ap_db ap) (ap_db (state_of (perform env p req ap)))"
proof -
  have race: "spares b (ap_db ap) (sv_race env (ap_db ap))" using assms(2,4) by (simp add: tame_def)
  have guess: "spares b (ap_db ap) (ap_db (state_of (guess_code env code p ap)))" for code
    by (auto simp: guess_code_def tenants.keeps_refl intro: spares_redeem [OF assms(2,1)] split: prod.split option.split)
  have task: "spares b (ap_db ap) (state_of (create_task (sv_race env) body p (ap_db ap)))" for body
    using assms(1) race by (rule spares_create_task)
  have reminder: "spares b (ap_db ap) (state_of (create_reminder (sv_race env) body p (ap_db ap)))" for body
    using assms(1) race by (rule spares_create_reminder)
  show ?thesis
    using spares_armory [OF assms(2,3,1)] task spares_complete_task [OF assms(2,1)] reminder spares_rate [OF assms(2,1,4)] guess
      spares_execute [OF assms(1,5)] spares_regenerate [OF assms(1,5)]
    by (auto simp: perform_def usage_def list_tasks_def read_db_def admin_overview_def admin_runs_def require_admin_def
        andthen_def raise_def ret_def send_message_def tenants.keeps_refl split: request.split)
qed

text \<open>C10: Requests stay in their account. Whatever a customer or an operator sends, valid or not, refused, raced or
  answered, the users, subscription, tasks, reminders, runs, ratings and billing events of every other
  account are the same afterwards, as long as what others commit meanwhile leaves them so.\<close>

theorem requests_stay_in_their_account:
  assumes "pr_account_id p \<noteq> b" and "keyed (ap_db ap)" and "member p (ap_db ap)"
    and "tame b (sv_race env)" and "\<And>s. spares b s (me_others (sv_message env) s)"
  shows "spares b (ap_db ap) (ap_db (state_of (serve env p req ap)))"
proof (cases "admit_request env p req ap")
  case (Pair e ap')
  then have same: "ap_db ap' = ap_db ap" by (rule admit_keeps_db)
  then show ?thesis
    using spares_perform [OF assms(1) _ _ assms(4,5), of ap' req] assms(2,3)
    by (auto simp: serve_def Pair tenants.keeps_refl split: option.split)
qed

end
