(* ===== verification/Message_Demo.thy ===== *)
theory Message_Demo
  imports Message_Props Ledger_Demo Adapters
begin

text \<open>
  Concrete chat requests: a customer of account 7 sends a message on an empty database, with and without a live
  gateway. They show that the hypotheses of the theorems of \<open>Message_Props\<close> can hold.
\<close>

definition demo_principal :: principal where
  "demo_principal = \<lparr>pr_user_id = 2, pr_account_id = 7, pr_role = ''customer''\<rparr>"

definition demo_message :: message_create where
  "demo_message = \<lparr>mc_text = codes ''hello'', mc_idempotency_key = ''message-1'', mc_history = []\<rparr>"

definition demo_env :: message_env where
  "demo_env = \<lparr>me_sha256 = id, me_now = demo_now, me_finished = demo_now,
     me_timing = \<lparr>ti_started_at = demo_now, ti_completed_at = demo_now, ti_latency_ms = 1\<rparr>,
     me_others = id, me_shadow = (\<lambda>_ _ _ _. Inr None)\<rparr>"

definition demo_reply_env :: reply_env where
  "demo_reply_env = \<lparr>en_unicode = \<lparr>un_word = (\<lambda>_. False), un_digit = (\<lambda>_. False)\<rparr>, en_system_one = (\<lambda>_. None),
     en_call_model = (\<lambda>_ _. Inr blank_result), en_clock = (\<lambda>_. 0), en_now = demo_now\<rparr>"

definition demo_crash :: producer where
  "demo_crash policy history h = (Inl ''RuntimeError'', h)"

lemma no_overtaking_id: "no_overtaking id"
  by (simp add: no_overtaking_def)

lemma demo_daily_budget: "0 \<le> global_daily_budget_micro default_settings"
  by (simp add: default_settings_def)

definition opened :: "gateway option \<Rightarrow> bool" where
  "opened gw = (case open_message demo_now default_settings gw demo_message demo_principal empty_db of Ok _ _ \<Rightarrow> True | Raise _ _ \<Rightarrow> False)"

lemma demo_opens: "opened None" "opened (Some sample_gateway)"
  by code_simp+

lemma demo_opened:
  assumes "opened gw"
  obtains policy history r admission t where
    "open_message demo_now default_settings gw demo_message demo_principal empty_db = Ok (policy, history, r, admission) t"
  using assms by (cases "open_message demo_now default_settings gw demo_message demo_principal empty_db") (auto simp: opened_def)

lemma demo_new: "find_run (pr_account_id demo_principal) (mc_idempotency_key demo_message) empty_db = None"
  by code_simp


definition demo_sent :: "db \<times> health" where
  "demo_sent = state_of (send_message demo_env demo_reply_env default_settings None demo_message demo_principal (empty_db, new_health))"

lemma demo_sends:
  "case send_message demo_env demo_reply_env default_settings None demo_message demo_principal (empty_db, new_health) of
     Ok v _ \<Rightarrow> mv_outcome v = ACCEPT | Raise _ _ \<Rightarrow> False"
  by code_simp

theorem message_is_idempotent_witness:
  "\<exists>v. send_message demo_env demo_reply_env default_settings (Some sample_gateway) demo_message demo_principal demo_sent = Ok v demo_sent
     \<and> mv_outcome v = ACCEPT"
proof -
  obtain v t h where sent: "send_message demo_env demo_reply_env default_settings None demo_message demo_principal (empty_db, new_health)
      = Ok v (t, h)" and v: "mv_outcome v = ACCEPT"
    using demo_sends by (auto split: result.split_asm)
  have "extends_replies t t" by (simp add: extends_replies_def list_all_iff)
  from message_is_idempotent [OF sent _ this refl, of demo_reply_env default_settings "Some sample_gateway" h]
  show ?thesis using sent v by (simp add: demo_sent_def known_gateway_def)
qed

definition demo_generation :: "plan_policy_row \<Rightarrow> history_turn list \<Rightarrow> generation_result" where
  "demo_generation policy history = fst (generate_reply demo_reply_env default_settings policy (Some sample_gateway) False history
     (mc_text demo_message) new_health)"


end
