(* ===== verification/Alone.thy ===== *)
theory Alone
  imports Tenants Message_Demo
begin

text \<open>
  A request answers as if its account were alone: every handler on an account's own data commutes with the
  projection of the database to the rows of that account.
\<close>

definition alone :: "nat \<Rightarrow> db \<Rightarrow> db" where
  "alone a s = empty_db\<lparr>next_id := next_id s, users := rows_of us_account_id a (users s),
     subscriptions := rows_of su_account_id a (subscriptions s), usage_windows := rows_of uw_account_id a (usage_windows s),
     usage_periods := rows_of up_account_id a (usage_periods s), tasks := rows_of ta_account_id a (tasks s),
     reminders := rows_of re_account_id a (reminders s), runs := rows_of ru_account_id a (runs s),
     feedback_rows := rows_of mf_account_id a (feedback_rows s)\<rparr>"

definition on_state :: "('s \<Rightarrow> 't) \<Rightarrow> ('e, 'a, 's) result \<Rightarrow> ('e, 'a, 't) result" where
  "on_state f r = (case r of Ok v s \<Rightarrow> Ok v (f s) | Raise e s \<Rightarrow> Raise e (f s))"

lemma on_state_simps [simp]: "on_state f (Ok v s) = Ok v (f s)" "on_state f (Raise e s) = Raise e (f s)"
  by (simp_all add: on_state_def)

lemma alone_reads [simp]:
  "next_id (alone a s) = next_id s" "users (alone a s) = rows_of us_account_id a (users s)"
  "subscriptions (alone a s) = rows_of su_account_id a (subscriptions s)"
  "usage_windows (alone a s) = rows_of uw_account_id a (usage_windows s)"
  "usage_periods (alone a s) = rows_of up_account_id a (usage_periods s)"
  "tasks (alone a s) = rows_of ta_account_id a (tasks s)" "reminders (alone a s) = rows_of re_account_id a (reminders s)"
  "runs (alone a s) = rows_of ru_account_id a (runs s)" "feedback_rows (alone a s) = rows_of mf_account_id a (feedback_rows s)"
  by (simp_all add: alone_def)

lemma alone_writes [simp]:
  "alone a (s\<lparr>next_id := n\<rparr>) = (alone a s)\<lparr>next_id := n\<rparr>"
  "alone a (s\<lparr>users := us\<rparr>) = (alone a s)\<lparr>users := rows_of us_account_id a us\<rparr>"
  "alone a (s\<lparr>subscriptions := su\<rparr>) = (alone a s)\<lparr>subscriptions := rows_of su_account_id a su\<rparr>"
  "alone a (s\<lparr>tasks := ta\<rparr>) = (alone a s)\<lparr>tasks := rows_of ta_account_id a ta\<rparr>"
  "alone a (s\<lparr>reminders := re\<rparr>) = (alone a s)\<lparr>reminders := rows_of re_account_id a re\<rparr>"
  "alone a (s\<lparr>feedback_rows := mf\<rparr>) = (alone a s)\<lparr>feedback_rows := rows_of mf_account_id a mf\<rparr>"
  by (simp_all add: alone_def)

lemma filter_rows_of: "filter q (rows_of account a rows) = filter (\<lambda>r. account r = a \<and> q r) rows"
  by (induction rows) auto

lemma select_own:
  "select_first (\<lambda>r. account r = a) (rows_of account a rows) = select_first (\<lambda>r. account r = a) rows"
  "select_first (\<lambda>r. account r = a \<and> q r) (rows_of account a rows) = select_first (\<lambda>r. account r = a \<and> q r) rows"
  "select_first (\<lambda>r. q r \<and> account r = a) (rows_of account a rows) = select_first (\<lambda>r. q r \<and> account r = a) rows"
  "select_first (\<lambda>r. q r \<and> account r = a \<and> q' r) (rows_of account a rows) =
   select_first (\<lambda>r. q r \<and> account r = a \<and> q' r) rows"
  by (rule select_first_rows_of; simp)+

lemma alone_finds [simp]:
  "subscription_of a (alone a s) = subscription_of a s" "find_window a key (alone a s) = find_window a key s"
  "find_task a key (alone a s) = find_task a key s" "find_reminder a key (alone a s) = find_reminder a key s"
  "find_feedback a i (alone a s) = find_feedback a i s" "scoped_task_query a (alone a s) = scoped_task_query a s"
  "active_period a now (alone a s) = active_period a now s"
  by (simp_all add: subscription_of_def find_window_def find_task_def find_reminder_def find_feedback_def
      scoped_task_query_def active_period_def select_own filter_rows_of)

lemma alone_user: "member p s \<Longrightarrow> find_account_user (pr_user_id p) (alone (pr_account_id p) s) = find_account_user (pr_user_id p) s"
  unfolding find_account_user_def by (simp, rule select_first_rows_of) (auto simp: member_def list_all_iff)

lemma alone_armory: "member p s \<Longrightarrow> armory_of (pr_user_id p) (alone (pr_account_id p) s) = armory_of (pr_user_id p) s"
  by (simp add: armory_of_def alone_user)

lemma alone_insert:
  "dup (alone a s) = dup s \<Longrightarrow> (\<And>r t. alone a (put r t) = put r (alone a t)) \<Longrightarrow>
   insert_row dup mk put (alone a s) = on_state (alone a) (insert_row dup mk put s)"
  by (simp add: insert_row_def)

lemma alone_sync_theme:
  assumes "member p s"
  shows "sync_theme_progression (pr_user_id p) (alone (pr_account_id p) s) = alone (pr_account_id p) (sync_theme_progression (pr_user_id p) s)"
proof (cases "find_account_user (pr_user_id p) s")
  case (Some u)
  then have "us_account_id u = pr_account_id p"
    using assms select_first_Some [of _ "users s"] by (auto simp: find_account_user_def member_def list_all_iff)
  then show ?thesis
    using Some alone_user [OF assms]
    by (simp add: sync_theme_progression_def find_account_user_def Let_def rows_of_update)
next
  case None
  then show ?thesis using alone_user [OF assms] by (simp add: sync_theme_progression_def find_account_user_def)
qed

lemma member_sync: "member p s \<Longrightarrow> member p (sync_theme_progression i s)"
  by (auto simp: sync_theme_progression_def Let_def member_def list_all_iff update_where_def split: option.split if_splits)

lemma alone_get_armory:
  assumes "member p s"
  shows "get_armory p (alone (pr_account_id p) s) = on_state (alone (pr_account_id p)) (get_armory p s)"
proof (cases "find_account_user (pr_user_id p) s")
  case (Some u)
  then have u: "us_id u = pr_user_id p" by (rule found_user)
  show ?thesis
    using Some assms
    by (simp add: get_armory_def alone_user u alone_sync_theme alone_armory member_sync Let_def)
qed (use assms in \<open>simp add: get_armory_def alone_user\<close>)

lemma alone_theme:
  assumes "member p s"
  shows "update_active_theme n p (alone (pr_account_id p) s) = on_state (alone (pr_account_id p)) (update_active_theme n p s)"
proof (cases "find_account_user (pr_user_id p) s")
  case (Some u)
  then have u: "us_id u = pr_user_id p" by (rule found_user)
  have m: "member p (set_theme (pr_user_id p) n (sync_theme_progression (pr_user_id p) s))"
    using member_sync [OF assms] by (auto simp: member_def set_theme_def list_all_iff update_where_def split: if_splits)
  have set: "set_theme (pr_user_id p) n (alone (pr_account_id p) t) = alone (pr_account_id p) (set_theme (pr_user_id p) n t)" for t
    by (simp add: set_theme_def rows_of_update)
  show ?thesis
    using Some assms m
    by (simp add: update_active_theme_def alone_user u alone_sync_theme alone_armory member_sync Let_def set)
qed (use assms in \<open>simp add: update_active_theme_def alone_user\<close>)

text \<open>Handlers that others may race: the race seen from the account's rows is a race on them.\<close>

lemma alone_insert_task: "insert_task a u title key (alone a s) = on_state (alone a) (insert_task a u title key s)"
  unfolding insert_task_def by (simp add: insert_row_def new_task_def)

lemma alone_create_task:
  assumes "race' (alone (pr_account_id p) s) = alone (pr_account_id p) (race s)"
  shows "create_task race' b p (alone (pr_account_id p) s) = on_state (alone (pr_account_id p)) (create_task race b p s)"
proof -
  have first: "try_create_task race' b p (alone (pr_account_id p) s) = on_state (alone (pr_account_id p)) (try_create_task race b p s)"
    by (simp add: try_create_task_def assms alone_insert_task create_task_idempotent_def andthen_def query_def raise_def ret_def
        split: option.split)
  show ?thesis
    unfolding create_task_def first by (cases "try_create_task race b p s") (simp_all split: service_error.split option.split)
qed

lemma alone_complete_task: "complete_task ref p (alone (pr_account_id p) s) = on_state (alone (pr_account_id p)) (complete_task ref p s)"
  by (simp add: complete_task_def select_own rows_of_update split: option.split)

lemma alone_create_reminder:
  assumes "race' (alone (pr_account_id p) s) = alone (pr_account_id p) (race s)"
  shows "create_reminder race' b p (alone (pr_account_id p) s) = on_state (alone (pr_account_id p)) (create_reminder race b p s)"
  by (simp add: create_reminder_def assms insert_row_def new_reminder_def split: due_at.split option.split)

lemma alone_own_run: "own_run ref p (alone (pr_account_id p) s) = on_state (alone (pr_account_id p)) (own_run ref p s)"
  by (simp add: own_run_def select_own split: option.split)

lemma alone_upsert:
  assumes "race' (alone (pr_account_id p) s) = alone (pr_account_id p) (race s)"
  shows "upsert_feedback race' now p i x y (alone (pr_account_id p) s) =
    on_state (alone (pr_account_id p)) (upsert_feedback race now p i x y s)"
  by (simp add: upsert_feedback_def assms insert_row_def new_feedback_def andthen_def ret_def rows_of_update split: option.split)

lemma alone_rate:
  assumes "race' (alone (pr_account_id p) s) = alone (pr_account_id p) (race s)"
  shows "rate_reply race' now ref b p (alone (pr_account_id p) s) = on_state (alone (pr_account_id p)) (rate_reply race now ref b p s)"
proof (cases "own_run ref p s")
  case (Ok run t)
  then have "t = s" by (auto simp: own_run_def split: option.splits)
  have first: "upsert_feedback race' now p (ru_id run) x y (alone (pr_account_id p) s) =
      on_state (alone (pr_account_id p)) (upsert_feedback race now p (ru_id run) x y s)" for x y
    using assms by (rule alone_upsert)
  note again = alone_upsert [of id p _ id now "ru_id run" "fc_rating b" "kept_reason b"]
  show ?thesis
    using Ok \<open>t = s\<close>
    by (cases "upsert_feedback race now p (ru_id run) (fc_rating b) (kept_reason b) s")
      (auto simp: rate_reply_def andthen_def alone_own_run first again Let_def on_state_def split: service_error.split result.split)
next
  case (Raise e t)
  then show ?thesis by (simp add: rate_reply_def andthen_def alone_own_run)
qed

lemma alone_policy_for: "policy_for now a (alone a s) = on_state (alone a) (policy_for now a s)"
  by (simp add: policy_for_def andthen_def query_def ret_def insert_row_def new_subscription_def split: option.split)

lemma alone_sync: "sync_account_progression a (alone a s) = alone a (sync_account_progression a s)"
  by (simp add: sync_account_progression_def Let_def rows_of_update)

lemma alone_redeem:
  "redeem_access_code sha256 codes_file now code p (alone (pr_account_id p) s) =
     on_state (alone (pr_account_id p)) (redeem_access_code sha256 codes_file now code p s)"
proof -
  have up: "upgrade i plan (alone (pr_account_id p) t) = alone (pr_account_id p) (upgrade i plan t)" for i plan t
    by (simp add: upgrade_def rows_of_update)
  show ?thesis
    by (cases "policy_for now (pr_account_id p) s")
      (auto simp: redeem_access_code_def alone_policy_for up alone_sync Let_def on_state_def split: option.split)
qed

section \<open>Properties\<close>

text \<open>The requests about an account's own data: not the chat, which shares the budget of the platform and the daily
  cap, and not the operators' views\<close>

definition own_data :: "request \<Rightarrow> bool" where
  "own_data req = (case req of Post_message _ \<Rightarrow> False | Post_regenerate _ _ \<Rightarrow> False | Get_overview \<Rightarrow> False | Get_runs \<Rightarrow> False
     | _ \<Rightarrow> True)"

definition app_alone :: "nat \<Rightarrow> app \<Rightarrow> app" where
  "app_alone a ap = ap\<lparr>ap_db := alone a (ap_db ap)\<rparr>"

lemma alone_on_app:
  assumes "handler' (alone a (ap_db ap)) = on_state (alone a) (handler (ap_db ap))"
  shows "on_app answer handler' (app_alone a ap) = on_state (app_alone a) (on_app answer handler ap)"
  using assms by (cases "handler (ap_db ap)") (simp_all add: on_app_def app_alone_def)

lemma alone_usage: "usage now p (alone (pr_account_id p) s) = on_state (alone (pr_account_id p)) (usage now p s)"
  by (cases "current_window_key now") (simp add: usage_def read_db_def Let_def cong: option.case_cong)

lemma alone_list_tasks: "list_tasks p (alone (pr_account_id p) s) = on_state (alone (pr_account_id p)) (list_tasks p s)"
  by (simp add: list_tasks_def read_db_def)

lemma alone_guess:
  "guess_code env code p (app_alone (pr_account_id p) ap) = on_state (app_alone (pr_account_id p)) (guess_code env code p ap)"
proof -
  obtain e hits where l: "limited_guess (sv_monotonic env) p (ap_guesses ap) = (e, hits)" by fastforce
  let ?ap = "ap\<lparr>ap_guesses := hits\<rparr>"
  have "app_alone (pr_account_id p) ap\<lparr>ap_guesses := hits\<rparr> = app_alone (pr_account_id p) ?ap" by (simp add: app_alone_def)
  moreover have "ap_guesses (app_alone (pr_account_id p) ap) = ap_guesses ap" by (simp add: app_alone_def)
  ultimately show ?thesis
    using l by (cases e) (simp_all add: guess_code_def alone_on_app alone_redeem)
qed


text \<open>Two accounts, 7 and 8, with a task each; the customer of account 7 completes the task of its own.\<close>

definition shared_app :: app where
  "shared_app = \<lparr>ap_db = empty_db\<lparr>next_id := 20, users := [new_user 7 ''Asha'' ''customer'' None 2, new_user 8 ''Ravi'' ''customer'' None 3],
     tasks := [new_task 7 2 (codes ''call home'') ''task-one'' 11, new_task 8 3 (codes ''call home'') ''task-one'' 12]\<rparr>,
     ap_health = new_health, ap_hits = [], ap_guesses = []\<rparr>"

definition shared_env :: server_env where
  "shared_env = \<lparr>sv_settings = default_settings, sv_auth = sample_auth, sv_now = demo_now, sv_monotonic = 0,
     sv_gateway = None, sv_message = demo_env, sv_reply = demo_reply_env, sv_codes = [], sv_race = id\<rparr>"

theorem requests_stay_in_their_account_witness:
  "spares 8 (ap_db shared_app) (ap_db (state_of (serve shared_env demo_principal (Patch_task ''11'') shared_app)))
   \<and> map ta_completed (tasks (ap_db (state_of (serve shared_env demo_principal (Patch_task ''11'') shared_app)))) = [True, False]"
proof
  show "spares 8 (ap_db shared_app) (ap_db (state_of (serve shared_env demo_principal (Patch_task ''11'') shared_app)))"
    by (rule requests_stay_in_their_account)
      (simp_all add: shared_app_def shared_env_def demo_principal_def keyed_def member_def new_user_def new_task_def empty_db_def tame_def demo_env_def
        tenants.keeps_refl)
  show "map ta_completed (tasks (ap_db (state_of (serve shared_env demo_principal (Patch_task ''11'') shared_app)))) = [True, False]"
    by code_simp
qed


end
