(* ===== verification/Billing.thy ===== *)
theory Billing
  imports Api
begin

text \<open>
  The billing events of an account, delivered over the signed webhook in any order and any number of times
  (\<open>billing_sandbox\<close> of \<open>daily_agent/api.py\<close>): the subscription that they leave.
\<close>

type_synonym delivery = "string \<times> billing_payload"

definition billing_status :: "billing_payload \<Rightarrow> string" where
  "billing_status b = (if bp_type b = ''cancelled'' then ''cancelled'' else ''active'')"

definition billing_update :: "billing_payload \<Rightarrow> subscription \<Rightarrow> subscription" where
  "billing_update b su = su\<lparr>su_event_version := bp_version b, su_plan_id := bp_plan_id b, su_status := billing_status b\<rparr>"

text \<open>What the events mean, whatever their order: the one of the greatest version, when it is newer, decides.\<close>

definition newer_events :: "subscription \<Rightarrow> delivery list \<Rightarrow> delivery list" where
  "newer_events su ds = sort_key (\<lambda>d. bp_version (snd d)) (filter (\<lambda>d. su_event_version su < bp_version (snd d)) ds)"

definition billed :: "delivery list \<Rightarrow> subscription \<Rightarrow> subscription" where
  "billed ds su = (if newer_events su ds = [] then su else billing_update (snd (last (newer_events su ds))) su)"

text \<open>The deliveries of one account: text ids, versions that the column holds, and no id or version shared by two
  different events\<close>

definition sound_delivery :: "nat \<Rightarrow> delivery \<Rightarrow> bool" where
  "sound_delivery a d \<longleftrightarrow> bp_account_id (snd d) = JStr (nat_str a) \<and> fits_bigint (bp_version (snd d))
     \<and> (case bp_event_id (snd d) of JStr _ \<Rightarrow> True | _ \<Rightarrow> False)"

definition sound_deliveries :: "nat \<Rightarrow> delivery list \<Rightarrow> bool" where
  "sound_deliveries a ds \<longleftrightarrow> list_all (sound_delivery a) ds
     \<and> list_all (\<lambda>d. list_all (\<lambda>e. (bp_event_id (snd d) = bp_event_id (snd e) \<or> bp_version (snd d) = bp_version (snd e)) \<longrightarrow> d = e) ds) ds"

definition event_text :: "delivery \<Rightarrow> string" where
  "event_text d = (case bp_event_id (snd d) of JStr e \<Rightarrow> e | _ \<Rightarrow> [])"

definition deliver_all ::
  "(string \<Rightarrow> string) \<Rightarrow> (json \<Rightarrow> string option) \<Rightarrow> delivery list \<Rightarrow> db \<Rightarrow> db" where
  "deliver_all sha256 stored ds s = fold (\<lambda>d s. state_of (handle_billing sha256 stored id (fst d) (snd d) s)) ds s"

lemma sort_key_Nil [simp]: "sort_key k xs = [] \<longleftrightarrow> xs = []"
  by (metis length_0_conv length_sort)

lemma newer_events_Nil: "newer_events su ds = [] \<longleftrightarrow> (\<forall>e \<in> set ds. bp_version (snd e) \<le> su_event_version su)"
  by (auto simp: newer_events_def filter_empty_conv not_less)

lemma sort_key_last:
  fixes k :: "'a \<Rightarrow> 'b::linorder"
  assumes "xs \<noteq> []"
  shows "last (sort_key k xs) \<in> set xs" and "x \<in> set xs \<Longrightarrow> k x \<le> k (last (sort_key k xs))"
proof -
  let ?ys = "sort_key k xs"
  have ne: "?ys \<noteq> []" using assms by simp
  show "last ?ys \<in> set xs" using last_in_set [OF ne] by simp
  assume "x \<in> set xs"
  then have "x \<in> set ?ys" by simp
  then obtain us vs where ys: "?ys = us @ x # vs" by (meson split_list)
  have "sorted (map k ?ys)" by simp
  then show "k x \<le> k (last ?ys)" unfolding ys by (cases vs rule: rev_cases) (auto simp: sorted_append)
qed

text \<open>The newest delivery, by what it is rather than by how it is found\<close>

lemma billed_newest:
  assumes "d \<in> set ds" and "su_event_version su < bp_version (snd d)"
    and "\<And>e. e \<in> set ds \<Longrightarrow> bp_version (snd e) \<le> bp_version (snd d) \<and> (bp_version (snd e) = bp_version (snd d) \<longrightarrow> e = d)"
  shows "billed ds su = billing_update (snd d) su"
proof -
  let ?newer = "filter (\<lambda>d. su_event_version su < bp_version (snd d)) ds"
  have d: "d \<in> set ?newer" using assms(1,2) by simp
  then have ne: "?newer \<noteq> []" by (metis empty_iff list.set(1))
  then have "newer_events su ds \<noteq> []" by (simp add: newer_events_def)
  moreover have "last (newer_events su ds) = d"
  proof -
    have "last (newer_events su ds) \<in> set ds" using sort_key_last(1) [OF ne, of "\<lambda>d. bp_version (snd d)"] by (simp add: newer_events_def)
    moreover have "bp_version (snd d) \<le> bp_version (snd (last (newer_events su ds)))"
      using sort_key_last(2) [OF ne d, of "\<lambda>d. bp_version (snd d)"] by (simp add: newer_events_def)
    ultimately show ?thesis using assms(3) by (meson order_antisym)
  qed
  ultimately show ?thesis by (simp add: billed_def)
qed

lemma billed_stale:
  assumes "\<And>e. e \<in> set ds \<Longrightarrow> bp_version (snd e) \<le> su_event_version su"
  shows "billed ds su = su"
  using assms newer_events_Nil [of su ds] by (simp add: billed_def)

lemma billed_cases:
  assumes "sound_deliveries a ds"
  obtains (stale) "billed ds su = su" and "\<And>e. e \<in> set ds \<Longrightarrow> bp_version (snd e) \<le> su_event_version su"
  | (newest) d where "d \<in> set ds" and "su_event_version su < bp_version (snd d)" and "billed ds su = billing_update (snd d) su"
      and "\<And>e. e \<in> set ds \<Longrightarrow> bp_version (snd e) \<le> bp_version (snd d)"
proof (cases "filter (\<lambda>d. su_event_version su < bp_version (snd d)) ds = []")
  case True
  then have "\<And>e. e \<in> set ds \<Longrightarrow> bp_version (snd e) \<le> su_event_version su" by (auto simp: filter_empty_conv not_less)
  with billed_stale [OF this] show ?thesis by (rule stale)
next
  case False
  let ?d = "last (newer_events su ds)"
  have d: "?d \<in> set ds" "su_event_version su < bp_version (snd ?d)"
    using sort_key_last(1) [OF False, of "\<lambda>d. bp_version (snd d)"] by (simp_all add: newer_events_def)
  have max: "bp_version (snd e) \<le> bp_version (snd ?d)" if "e \<in> set ds" for e
    using sort_key_last(2) [OF False, of e "\<lambda>d. bp_version (snd d)"] that d(2) unfolding newer_events_def [symmetric] by (cases "su_event_version su < bp_version (snd e)") auto
  have "billed ds su = billing_update (snd ?d) su"
    using assms d max by (intro billed_newest) (auto simp: sound_deliveries_def list_all_iff)
  then show ?thesis by (rule newest [OF d _ max])
qed

lemma sound_butlast: "sound_deliveries a (ds @ [d]) \<Longrightarrow> sound_deliveries a ds"
  by (simp add: sound_deliveries_def list_all_iff)

lemma billed_snoc:
  assumes "sound_deliveries a (ds @ [d])"
  shows "billed (ds @ [d]) su = (if bp_version (snd d) \<le> su_event_version (billed ds su) then billed ds su
      else billing_update (snd d) (billed ds su))"
proof -
  have unique: "e = f" if "e \<in> insert d (set ds)" "f \<in> insert d (set ds)" "bp_version (snd e) = bp_version (snd f)" for e f
    using assms that by (auto simp: sound_deliveries_def list_all_iff)
  show ?thesis
  proof (rule billed_cases [OF sound_butlast [OF assms], of su], goal_cases)
    case stale: 1
    show ?thesis
    proof (cases "bp_version (snd d) \<le> su_event_version su")
      case True
      then have "billed (ds @ [d]) su = su" using stale(2) by (intro billed_stale) auto
      then show ?thesis using True stale(1) by simp
    next
      case False
      then have "billed (ds @ [d]) su = billing_update (snd d) su"
        using stale(2) by (intro billed_newest) fastforce+
      then show ?thesis using False stale(1) by simp
    qed
  next
    case newest: (2 m)
    have v: "su_event_version (billed ds su) = bp_version (snd m)" by (simp add: newest(3) billing_update_def)
    show ?thesis
    proof (cases "bp_version (snd d) \<le> bp_version (snd m)")
      case True
      then have "billed (ds @ [d]) su = billing_update (snd m) su"
        using newest unique by (intro billed_newest) auto
      then show ?thesis using True v newest(3) by simp
    next
      case False
      then have "billed (ds @ [d]) su = billing_update (snd d) su"
        using newest(2,4) unique by (intro billed_newest) fastforce+
      then show ?thesis using False v newest(3) by (simp add: billing_update_def)
    qed
  qed
qed

section \<open>Delivery\<close>

lemma billing_update_fields [simp]:
  "su_id (billing_update b su) = su_id su" "su_account_id (billing_update b su) = su_account_id su"
  "su_event_version (billing_update b su) = bp_version b"
  by (simp_all add: billing_update_def)

lemma billed_fields [simp]: "su_id (billed ds su) = su_id su" "su_account_id (billed ds su) = su_account_id su"
  by (simp_all add: billed_def)

lemma update_where_twice:
  "(\<And>r. q r \<Longrightarrow> q (f r)) \<Longrightarrow> update_where q g (update_where q f rows) = update_where q (\<lambda>r. g (f r)) rows"
  by (induction rows) auto

lemma update_where_known:
  "distinct (map k rows) \<Longrightarrow> r \<in> set rows \<Longrightarrow> update_where (\<lambda>x. k x = k r) f rows = update_where (\<lambda>x. k x = k r) (\<lambda>_. f r) rows"
  by (auto simp: update_where_def dest: key_unique)

text \<open>What the deliveries so far have left: the subscription they mean, and their records.\<close>

definition billed_state :: "(string \<Rightarrow> string) \<Rightarrow> subscription \<Rightarrow> db \<Rightarrow> delivery list \<Rightarrow> db \<Rightarrow> bool" where
  "billed_state sha256 su s ds t \<longleftrightarrow>
     subscriptions t = update_where (find_subscription_row (su_id su)) (\<lambda>_. billed ds su) (subscriptions s)
     \<and> (\<forall>d \<in> set ds. \<exists>e. find_billing (Some (event_text d)) t = Some e \<and> be_payload_hash e = sha256 (fst d))
     \<and> (\<forall>ref. ref \<notin> event_text ` set ds \<longrightarrow> find_billing (Some ref) t = find_billing (Some ref) s)"

lemma billed_subscription:
  assumes "billed_state sha256 su s ds t" and "subscription_of a s = Some su" and "distinct (map su_id (subscriptions s))"
  shows "billing_subscription (Some (nat_str a)) t = Some (billed ds su)"
proof -
  have su: "su \<in> set (subscriptions s)" "su_account_id su = a"
    using select_first_Some [OF assms(2) [unfolded subscription_of_def]] by simp_all
  have same: "su_id x = su_id su \<longleftrightarrow> x = su" if "x \<in> set (subscriptions s)" for x
    using key_unique [OF assms(3) that su(1)] by blast
  have "select_first (\<lambda>x. su_account_id x = a) (update_where (find_subscription_row (su_id su)) (\<lambda>_. billed ds su) rows) = Some (billed ds su)"
    if "select_first (\<lambda>x. su_account_id x = a) rows = Some su" and "\<And>x. x \<in> set rows \<Longrightarrow> su_id x = su_id su \<longleftrightarrow> x = su" for rows
    using that by (induction rows) (auto simp: find_subscription_row_def su(2) split: if_splits)
  then show ?thesis
    using assms(1,2) same by (simp add: billing_subscription_def billed_state_def subscription_of_def nat_str_inject)
qed

lemma find_billing_snoc:
  "find_billing (Some ref) (t\<lparr>billing_events := billing_events u @ [e], next_id := n\<rparr>) =
     (case find_billing (Some ref) u of Some x \<Rightarrow> Some x
      | None \<Rightarrow> if be_provider e = ''sandbox'' \<and> be_provider_event_id e = ref then Some e else None)"
  by (simp add: find_billing_def select_first_append split: option.split)

lemma billing_update_fun:
  "billing_update b = (\<lambda>x. x\<lparr>su_event_version := bp_version b, su_plan_id := bp_plan_id b, su_status := billing_status b\<rparr>)"
  by (simp add: fun_eq_iff billing_update_def)

lemma apply_billing_tables:
  "subscriptions (apply_billing b su t) = update_where (find_subscription_row (su_id su)) (billing_update b) (subscriptions t)"
  "find_billing ref (apply_billing b su t) = find_billing ref t"
  by (simp_all add: apply_billing_def sync_account_progression_def Let_def find_billing_def billing_update_fun billing_status_def
      cong: option.case_cong)

lemma sound_refs:
  assumes "sound_delivery a d"
  shows "event_ref stored (bp_account_id (snd d)) = Some (Some (nat_str a))"
    and "event_ref stored (bp_event_id (snd d)) = Some (Some (event_text d))"
    and "bp_event_id (snd d) = JStr (event_text d)"
  using assms by (auto simp: sound_delivery_def event_ref_def column_text_def event_text_def split: json.splits)

lemma deliver_known:
  assumes "sound_delivery a d" and "billing_subscription (Some (nat_str a)) t = Some su'"
    and "find_billing (Some (event_text d)) t = Some e" and "be_payload_hash e = sha256 (fst d)"
  shows "handle_billing sha256 stored race (fst d) (snd d) t = Ok duplicate_billing t"
  using assms sound_refs [OF assms(1)] by (simp add: handle_billing_def)

lemma deliver_new:
  assumes "sound_delivery a d" and "billing_subscription (Some (nat_str a)) t = Some su'"
    and "find_billing (Some (event_text d)) t = None"
  shows "\<exists>e. be_payload_hash e = sha256 (fst d) \<and> be_provider e = ''sandbox'' \<and> be_provider_event_id e = event_text d
    \<and> handle_billing sha256 stored id (fst d) (snd d) t =
      Ok \<lparr>vb_accepted = True, vb_duplicate = False, vb_stale = Some (bp_version (snd d) \<le> su_event_version su')\<rparr>
        (let u = t\<lparr>billing_events := billing_events t @ [e], next_id := Suc (next_id t)\<rparr>
         in if bp_version (snd d) \<le> su_event_version su' then u else apply_billing (snd d) su' u)"
  using assms sound_refs [OF assms(1)]
  by (intro exI [of _ "\<lparr>be_id = next_id t, be_provider = ''sandbox'', be_provider_event_id = event_text d,
        be_account_id = su_account_id su', be_event_version = bp_version (snd d), be_event_type = bp_type (snd d),
        be_payload_hash = sha256 (fst d)\<rparr>"])
    (simp add: handle_billing_def record_billing_def insert_billing_def insert_row_def sound_delivery_def Let_def)

lemma deliver_step:
  assumes state: "billed_state sha256 su s ds t" and su: "subscription_of a s = Some su" and d: "distinct (map su_id (subscriptions s))"
    and sound: "sound_deliveries a (ds @ [x])" and fresh: "find_billing (Some (event_text x)) s = None"
  shows "billed_state sha256 su s (ds @ [x]) (state_of (handle_billing sha256 stored id (fst x) (snd x) t))"
proof -
  note sub = billed_subscription [OF state su d]
  have x: "sound_delivery a x" using sound by (simp add: sound_deliveries_def list_all_iff)
  show ?thesis
  proof (cases "x \<in> set ds")
    case True
    then obtain e where e: "find_billing (Some (event_text x)) t = Some e" "be_payload_hash e = sha256 (fst x)"
      using state by (auto simp: billed_state_def)
    have "bp_version (snd x) \<le> su_event_version (billed ds su)"
      using True by (cases rule: billed_cases [OF sound_butlast [OF sound], of su]) auto
    then have "billed (ds @ [x]) su = billed ds su" using billed_snoc [OF sound] by simp
    moreover have "handle_billing sha256 stored id (fst x) (snd x) t = Ok duplicate_billing t"
      using x sub e by (rule deliver_known)
    ultimately show ?thesis using state True by (simp add: billed_state_def insert_absorb)
  next
    case False
    have other: "event_text y \<noteq> event_text x" if "y \<in> set ds" for y
    proof
      assume same: "event_text y = event_text x"
      have "sound_delivery a y" using sound that by (simp add: sound_deliveries_def list_all_iff)
      then have "bp_event_id (snd y) = bp_event_id (snd x)" using sound_refs(3) x same by metis
      then have "y = x" using sound that by (auto simp: sound_deliveries_def list_all_iff)
      then show False using that False by simp
    qed
    then have "event_text x \<notin> event_text ` set ds" by fastforce
    then have new: "find_billing (Some (event_text x)) t = None" using state fresh by (simp add: billed_state_def)
    from deliver_new [OF x sub new, of sha256 stored] obtain e where e: "be_payload_hash e = sha256 (fst x)"
      "be_provider e = ''sandbox''" "be_provider_event_id e = event_text x"
      and run: "state_of (handle_billing sha256 stored id (fst x) (snd x) t) =
        (let u = t\<lparr>billing_events := billing_events t @ [e], next_id := Suc (next_id t)\<rparr>
         in if bp_version (snd x) \<le> su_event_version (billed ds su) then u else apply_billing (snd x) (billed ds su) u)"
      by fastforce
    let ?u = "t\<lparr>billing_events := billing_events t @ [e], next_id := Suc (next_id t)\<rparr>"
    let ?t = "state_of (handle_billing sha256 stored id (fst x) (snd x) t)"
    have find: "find_billing (Some ref) ?t = (case find_billing (Some ref) t of Some y \<Rightarrow> Some y
        | None \<Rightarrow> if event_text x = ref then Some e else None)" for ref
      using run find_billing_snoc [where ref = ref and t = t and u = t and e = e and n = "Suc (next_id t)"] e by (simp add: Let_def apply_billing_tables(2))
    have subs: "subscriptions t = update_where (find_subscription_row (su_id su)) (\<lambda>_. billed ds su) (subscriptions s)"
      using state by (simp add: billed_state_def)
    have "subscriptions ?t = update_where (find_subscription_row (su_id su)) (\<lambda>_. billed (ds @ [x]) su) (subscriptions s)"
      using run billed_snoc [OF sound, of su] subs
      by (simp add: Let_def apply_billing_tables(1) update_where_twice find_subscription_row_def)
    then show ?thesis
      using state find e(1) other new by (auto simp: billed_state_def split: option.split)
  qed
qed

lemma deliver_all_state:
  assumes "subscription_of a s = Some su" and "distinct (map su_id (subscriptions s))"
    and "sound_deliveries a ds" and "list_all (\<lambda>d. find_billing (Some (event_text d)) s = None) ds"
  shows "billed_state sha256 su s ds (deliver_all sha256 stored ds s)"
  using assms(3,4)
proof (induction ds rule: rev_induct)
  case Nil
  have "update_where (find_subscription_row (su_id su)) (\<lambda>_. su) (subscriptions s) = subscriptions s"
    using select_first_Some [OF assms(1) [unfolded subscription_of_def]] key_unique [OF assms(2)]
    by (auto simp: update_where_def find_subscription_row_def intro!: map_idI)
  then show ?case by (simp add: billed_state_def deliver_all_def billed_def newer_events_def)
next
  case (snoc d ds)
  then have "billed_state sha256 su s ds (deliver_all sha256 stored ds s)" using sound_butlast by simp
  from deliver_step [OF this assms(1,2) snoc.prems(1), of stored] snoc.prems(2) show ?case
    by (simp add: deliver_all_def)
qed

section \<open>Properties\<close>

text \<open>C12: Billing converges. However often and in whatever order the events of an account are delivered, the table of
  subscriptions ends up the same: the account's row as the event of the greatest version, if it is newer,
  sets it, every other row untouched; so two deliveries of the same events agree. Each event
  delivered again is answered as a duplicate and changes nothing.\<close>

theorem billing_converges:
  assumes "subscription_of a s = Some su" and "distinct (map su_id (subscriptions s))"
    and "sound_deliveries a ds" and "list_all (\<lambda>d. find_billing (Some (event_text d)) s = None) ds"
    and "set es = set ds"
  shows "subscriptions (deliver_all sha256 stored ds s) =
      update_where (find_subscription_row (su_id su)) (\<lambda>_. billed ds su) (subscriptions s)
    \<and> subscriptions (deliver_all sha256 stored es s) = subscriptions (deliver_all sha256 stored ds s)
    \<and> list_all (\<lambda>d. handle_billing sha256 stored race (fst d) (snd d) (deliver_all sha256 stored ds s)
        = Ok duplicate_billing (deliver_all sha256 stored ds s)) es"
proof (intro conjI)
  have es: "sound_deliveries a es" "list_all (\<lambda>d. find_billing (Some (event_text d)) s = None) es"
    using assms(3-5) by (simp_all add: sound_deliveries_def list_all_iff)
  note state = deliver_all_state [OF assms(1-4), of sha256 stored] and other = deliver_all_state [OF assms(1,2) es, of sha256 stored]
  show "subscriptions (deliver_all sha256 stored ds s) = update_where (find_subscription_row (su_id su)) (\<lambda>_. billed ds su) (subscriptions s)"
    using state by (simp add: billed_state_def)
  have "billed es su = billed ds su"
  proof (cases rule: billed_cases [OF assms(3), of su])
    case 1
    then show ?thesis using assms(5) billed_stale [of es su] by simp
  next
    case (2 d)
    have "billed es su = billing_update (snd d) su"
      using 2 assms(3,5) by (intro billed_newest) (auto simp: sound_deliveries_def list_all_iff)
    then show ?thesis using 2 by simp
  qed
  then show "subscriptions (deliver_all sha256 stored es s) = subscriptions (deliver_all sha256 stored ds s)"
    using state other by (simp add: billed_state_def)
  show "list_all (\<lambda>d. handle_billing sha256 stored race (fst d) (snd d) (deliver_all sha256 stored ds s)
      = Ok duplicate_billing (deliver_all sha256 stored ds s)) es"
    unfolding list_all_iff
  proof
    fix d assume "d \<in> set es"
    then have d: "d \<in> set ds" using assms(5) by simp
    then obtain e where e: "find_billing (Some (event_text d)) (deliver_all sha256 stored ds s) = Some e" "be_payload_hash e = sha256 (fst d)"
      using state by (auto simp: billed_state_def)
    have "sound_delivery a d" using d assms(3) by (simp add: sound_deliveries_def list_all_iff)
    then show "handle_billing sha256 stored race (fst d) (snd d) (deliver_all sha256 stored ds s)
      = Ok duplicate_billing (deliver_all sha256 stored ds s)"
      using billed_subscription [OF state assms(1,2)] e by (rule deliver_known)
  qed
qed

text \<open>An activation and a later cancellation of the subscription of account 7, in both orders, the first one twice\<close>

definition billing_sample :: "string \<Rightarrow> int \<Rightarrow> string \<Rightarrow> delivery" where
  "billing_sample event version kind = (event, \<lparr>bp_event_id = JStr event, bp_account_id = JStr ''7'', bp_version = version, bp_type = kind,
     bp_plan_id = ''trika''\<rparr>)"

definition paying_db :: db where
  "paying_db = empty_db\<lparr>next_id := 9, subscriptions := [new_subscription (DateTime (Date 2026 10 12) 0) 7 ''ananta'' 4]\<rparr>"

theorem billing_converges_witness:
  "map su_status (subscriptions (deliver_all id (\<lambda>_. None)
       [billing_sample ''e2'' 2 ''cancelled'', billing_sample ''e1'' 1 ''activated'', billing_sample ''e2'' 2 ''cancelled''] paying_db))
     = [''cancelled'']
   \<and> subscriptions (deliver_all id (\<lambda>_. None) [billing_sample ''e1'' 1 ''activated'', billing_sample ''e2'' 2 ''cancelled''] paying_db)
     = subscriptions (deliver_all id (\<lambda>_. None)
       [billing_sample ''e2'' 2 ''cancelled'', billing_sample ''e1'' 1 ''activated'', billing_sample ''e2'' 2 ''cancelled''] paying_db)"
proof
  let ?ds = "[billing_sample ''e2'' 2 ''cancelled'', billing_sample ''e1'' 1 ''activated'', billing_sample ''e2'' 2 ''cancelled'']"
  let ?es = "[billing_sample ''e1'' 1 ''activated'', billing_sample ''e2'' 2 ''cancelled'']"
  show "map su_status (subscriptions (deliver_all id (\<lambda>_. None) ?ds paying_db)) = [''cancelled'']" by code_simp
  have su: "subscription_of 7 paying_db = Some (new_subscription (DateTime (Date 2026 10 12) 0) 7 ''ananta'' 4)"
    "distinct (map su_id (subscriptions paying_db))" by code_simp+
  have text7: "nat_str 7 = ''7''" by code_simp
  have "sound_deliveries 7 ?ds"
    by (simp add: sound_deliveries_def sound_delivery_def billing_sample_def fits_bigint_def text7)
  moreover have "list_all (\<lambda>d. find_billing (Some (event_text d)) paying_db = None) ?ds"
    by (simp add: find_billing_def paying_db_def empty_db_def)
  moreover have "set ?es = set ?ds" by auto
  ultimately show "subscriptions (deliver_all id (\<lambda>_. None) ?es paying_db) = subscriptions (deliver_all id (\<lambda>_. None) ?ds paying_db)"
    using billing_converges [OF su, of ?ds ?es id "\<lambda>_. None"] by blast
qed

end
