(* ===== verification/Lab.thy ===== *)
theory Lab
  imports Bundle "HOL-Library.List_Lexorder" "HOL-Library.Char_ord"
begin

text \<open>
  The offline benchmark (\<open>model_lab/core.py\<close>): cases and their checks, what a candidate model is shown, the
  import of attempts, grading, the reports, the evidence store and the draft recommendation. Records
  are the dictionaries that \<open>json.loads\<close> returns. \<open>dumps\<close> is \<open>json.dumps\<close> with sorted keys (\<open>plain_dumps\<close>
  without, \<open>compact_dumps\<close> with no spaces), \<open>loads\<close> is \<open>json.loads\<close>, \<open>pystr\<close> is
  \<open>str\<close> of a value that is no text, \<open>sha256\<close> the hex digest; floats are the reals they stand for.
\<close>

type_synonym obj = "(string \<times> json) list"

section \<open>Reading records\<close>

text \<open>The lines of a file; \<open>parse\<close> is \<open>json.loads\<close> with the message of its error.\<close>

fun read_records :: "(string \<Rightarrow> string + json) \<Rightarrow> nat \<Rightarrow> string list \<Rightarrow> string + obj list" where
  "read_records parse n [] = Inr []"
| "read_records parse n (line # rest) =
     (if strip_string line = [] then read_records parse (n + 1) rest
      else case parse line of
        Inl msg \<Rightarrow> Inl (''line '' @ nat_str n @ '': invalid JSON: '' @ msg)
      | Inr (JObj kvs) \<Rightarrow> checked (read_records parse (n + 1) rest) (\<lambda>rs. Inr (kvs # rs))
      | Inr _ \<Rightarrow> Inl (''line '' @ nat_str n @ '': record must be an object''))"

text \<open>\<open>write_jsonl\<close>: the text written\<close>

definition jsonl_text :: "(json \<Rightarrow> string) \<Rightarrow> obj list \<Rightarrow> string" where
  "jsonl_text dumps records = concat (map (\<lambda>r. dumps (JObj r) @ [CHR 10]) records)"

section \<open>Cases\<close>

text \<open>The required fields in the order of \<open>sorted\<close>\<close>

definition REQUIRED_CASE_FIELDS :: "string list" where
  "REQUIRED_CASE_FIELDS = [''case_id'', ''complexity_level'', ''domain'', ''evaluation'', ''family_id'', ''messages'', ''split'']"

definition missing_fields :: "obj \<Rightarrow> string list" where
  "missing_fields c = filter (\<lambda>f. map_of c f = None) REQUIRED_CASE_FIELDS"

fun comma_list :: "string list \<Rightarrow> string" where
  "comma_list [] = []"
| "comma_list [x] = x"
| "comma_list (x # y # xs) = x @ '', '' @ comma_list (y # xs)"

definition at_record :: "nat \<Rightarrow> string \<Rightarrow> string" where
  "at_record i message = ''record '' @ nat_str i @ '': '' @ message"

definition missing_error :: "string list \<Rightarrow> string" where
  "missing_error names = ''missing fields ['' @ comma_list (map (\<lambda>f. [CHR 39] @ f @ [CHR 39]) names) @ '']''"

definition case_id_errors :: "json \<Rightarrow> json list \<Rightarrow> string list" where
  "case_id_errors v ids = (case v of
       JStr s \<Rightarrow> if s = [] then [''case_id must be a non-empty string'']
                 else if v \<in> set ids then [''duplicate case_id '' @ s] else []
     | _ \<Rightarrow> [''case_id must be a non-empty string''])"

definition is_object :: "json \<Rightarrow> bool" where
  "is_object v \<longleftrightarrow> (case v of JObj _ \<Rightarrow> True | _ \<Rightarrow> False)"

definition good_messages :: "json \<Rightarrow> bool" where
  "good_messages v \<longleftrightarrow> (case v of JArr ms \<Rightarrow> ms \<noteq> [] \<and> list_all is_object ms | _ \<Rightarrow> False)"

definition message_errors :: "(json \<Rightarrow> string) \<Rightarrow> json \<Rightarrow> string list \<Rightarrow> string list \<times> string list" where
  "message_errors dumps v prompts =
     (if \<not> good_messages v then ([''messages must be a non-empty list of objects''], prompts)
      else (if dumps v \<in> set prompts then [''duplicate prompt''] else [], dumps v # prompts))"

definition good_split :: "json \<Rightarrow> bool" where
  "good_split v \<longleftrightarrow> v \<in> {JStr ''train'', JStr ''calibration'', JStr ''holdout''}"

text \<open>\<open>v in {1, 2, 3, 4}\<close>: the test compares by value, so \<open>True\<close> and \<open>1.0\<close> pass.\<close>

definition good_level :: "json \<Rightarrow> bool" where
  "good_level v \<longleftrightarrow> list_ex (json_eq v) [JInt 1, JInt 2, JInt 3, JInt 4]"

definition good_evaluation :: "json \<Rightarrow> bool" where
  "good_evaluation v \<longleftrightarrow> (case v of JObj kvs \<Rightarrow> jtruthy (jget kvs ''method'') | _ \<Rightarrow> False)"

definition unless :: "bool \<Rightarrow> string \<Rightarrow> string list" where
  "unless ok message = (if ok then [] else [message])"

text \<open>One round of the loop. A value that has no hash cannot be put in a set or looked up in one.\<close>

definition validate_case ::
  "(json \<Rightarrow> string) \<Rightarrow> nat \<Rightarrow> obj \<Rightarrow> json list \<Rightarrow> string list \<Rightarrow> string + string list \<times> json list \<times> string list" where
  "validate_case dumps i c ids prompts =
     (if missing_fields c \<noteq> [] then Inr ([at_record i (missing_error (missing_fields c))], ids, prompts)
      else if \<not> hashable (jget c ''case_id'') then Inl ''TypeError''
      else case message_errors dumps (jget c ''messages'') prompts of (messages, prompts') \<Rightarrow>
        if \<not> hashable (jget c ''split'') \<or> \<not> hashable (jget c ''complexity_level'') then Inl ''TypeError''
        else Inr (map (at_record i) (case_id_errors (jget c ''case_id'') ids @ messages
            @ unless (good_split (jget c ''split'')) ''invalid split''
            @ unless (good_level (jget c ''complexity_level'')) ''complexity_level must be 1..4''
            @ unless (good_evaluation (jget c ''evaluation'')) ''evaluation.method is required''),
          jget c ''case_id'' # ids, prompts'))"

fun validate_from :: "(json \<Rightarrow> string) \<Rightarrow> nat \<Rightarrow> obj list \<Rightarrow> json list \<Rightarrow> string list \<Rightarrow> string + string list" where
  "validate_from dumps i [] ids prompts = Inr []"
| "validate_from dumps i (c # cs) ids prompts =
     checked (validate_case dumps i c ids prompts) (\<lambda>(errors, ids', prompts').
     checked (validate_from dumps (i + 1) cs ids' prompts') (\<lambda>rest. Inr (errors @ rest)))"

definition validate_cases :: "(json \<Rightarrow> string) \<Rightarrow> obj list \<Rightarrow> string + string list" where
  "validate_cases dumps cases = validate_from dumps 1 cases [] []"

definition prompt_hash :: "(json \<Rightarrow> string) \<Rightarrow> (string \<Rightarrow> string) \<Rightarrow> json \<Rightarrow> string" where
  "prompt_hash compact_dumps sha256 messages = sha256 (compact_dumps messages)"

definition candidate_record :: "(json \<Rightarrow> string) \<Rightarrow> (string \<Rightarrow> string) \<Rightarrow> obj \<Rightarrow> string + obj" where
  "candidate_record compact_dumps sha256 c =
     with_key c ''case_id'' (\<lambda>case_id. with_key c ''messages'' (\<lambda>messages.
     Inr [(''case_id'', case_id), (''suite_version'', jget c ''suite_version''), (''messages'', messages),
          (''limits'', jget_default c ''limits'' (JObj [])),
          (''prompt_hash'', JStr (prompt_hash compact_dumps sha256 messages))]))"

section \<open>Grading\<close>

record grade =
  gr_case_id :: json
  gr_grader :: string
  gr_method :: json
  gr_status :: string
  gr_evidence :: string

definition exact_json_grade :: "(string \<Rightarrow> json option) \<Rightarrow> json \<Rightarrow> string \<Rightarrow> string \<times> string" where
  "exact_json_grade loads expected response = (case loads response of
       None \<Rightarrow> (''fail'', ''response is not valid JSON'')
     | Some actual \<Rightarrow> if json_eq actual expected then (''pass'', ''exact JSON match'')
                      else (''fail'', ''JSON differs from reference''))"

definition grade_attempt :: "(string \<Rightarrow> json option) \<Rightarrow> obj \<Rightarrow> string \<Rightarrow> string + grade" where
  "grade_attempt loads c response =
     with_obj (jget_default c ''evaluation'' (JObj [])) ''AttributeError'' (\<lambda>evaluation.
     with_key c ''case_id'' (\<lambda>case_id.
     let (status, evidence) =
       (if jget evaluation ''method'' = JStr ''exact_json''
        then exact_json_grade loads (jget evaluation ''reference_answer'') response
        else (''abstain'', ''rubric requires human or calibrated semantic review''))
     in Inr \<lparr>gr_case_id = case_id, gr_grader = ''model_lab.deterministic.v1'', gr_method = jget evaluation ''method'',
          gr_status = status, gr_evidence = evidence\<rparr>))"

section \<open>Importing attempts\<close>

text \<open>A number of a row: the literals that no JSON number stands for are kept by name. Beyond the largest float a
  literal is infinite.\<close>

datatype lab_number = No_number | Int_number int | Float_number real | Special_number string

definition special_float :: "string \<Rightarrow> string option" where
  "special_float s =
     (let t = map lower_char (strip_string s);
          u = (if t \<noteq> [] \<and> hd t \<in> {CHR ''+'', CHR ''-''} then tl t else t)
      in if u = ''nan'' then Some ''nan''
         else if u \<in> {''inf'', ''infinity''} then Some (if hd t = CHR ''-'' then ''-inf'' else ''inf'')
         else None)"

definition lab_number :: "real \<Rightarrow> lab_number" where
  "lab_number x = (if float_overflow \<lfloor>x\<rfloor> then Special_number (if x < 0 then ''-inf'' else ''inf'')
     else if x = of_int \<lfloor>x\<rfloor> then Int_number \<lfloor>x\<rfloor> else Float_number x)"

definition number_or_none :: "json \<Rightarrow> string + lab_number" where
  "number_or_none v =
     (if v \<in> {JNull, JStr [], JStr ''null'', JStr ''None''} then Inr No_number
      else case (case v of JStr s \<Rightarrow> special_float s | _ \<Rightarrow> None) of
        Some name \<Rightarrow> Inr (Special_number name)
      | None \<Rightarrow> (case json_float v of
            Inl e \<Rightarrow> if e = ''OverflowError'' then Inl e else Inr No_number
          | Inr x \<Rightarrow> Inr (lab_number x)))"

definition py_str :: "(json \<Rightarrow> string) \<Rightarrow> json \<Rightarrow> string" where
  "py_str pystr v = (case v of JStr s \<Rightarrow> s | _ \<Rightarrow> pystr v)"

record imported =
  im_attempt_id :: json
  im_case_id :: string
  im_response :: string
  im_source_label :: string
  im_prompt_hash :: json
  im_status :: json
  im_finish_reason :: json
  im_latency_ms :: lab_number
  im_input_tokens :: lab_number
  im_output_tokens :: lab_number
  im_provenance :: json

record quarantined =
  qu_row :: nat
  qu_reason :: string
  qu_record :: obj

type_synonym attempt_key = "string \<times> json"

definition attempt_key :: "(json \<Rightarrow> string) \<Rightarrow> obj \<Rightarrow> attempt_key" where
  "attempt_key pystr row = (py_str pystr (jget row ''case_id''), jget row ''attempt_id'')"

definition key_seen :: "attempt_key list \<Rightarrow> attempt_key \<Rightarrow> bool" where
  "key_seen seen k \<longleftrightarrow> list_ex (\<lambda>k'. fst k' = fst k \<and> json_eq (snd k) (snd k')) seen"

definition refusal :: "(json \<Rightarrow> string) \<Rightarrow> attempt_key list \<Rightarrow> obj \<Rightarrow> string + string option" where
  "refusal pystr seen row =
     (if \<not> jtruthy (jget row ''case_id'') then Inr (Some ''missing case_id'')
      else if jget row ''response'' = JNull then Inr (Some ''missing response'')
      else if \<not> hashable (jget row ''attempt_id'') then Inl ''TypeError''
      else if key_seen seen (attempt_key pystr row) then Inr (Some ''duplicate attempt'') else Inr None)"

definition import_row :: "(json \<Rightarrow> string) \<Rightarrow> string \<Rightarrow> string \<Rightarrow> nat \<Rightarrow> obj \<Rightarrow> string + imported" where
  "import_row pystr label source i row =
     checked (number_or_none (jget row ''latency_ms'')) (\<lambda>latency.
     checked (number_or_none (jget row ''input_tokens'')) (\<lambda>input.
     checked (number_or_none (jget row ''output_tokens'')) (\<lambda>output.
     Inr \<lparr>im_attempt_id = (if jtruthy (jget row ''attempt_id'') then jget row ''attempt_id'' else JStr (label @ ''-'' @ nat_str i)),
          im_case_id = py_str pystr (jget row ''case_id''), im_response = py_str pystr (jget row ''response''),
          im_source_label = label, im_prompt_hash = jget row ''prompt_hash'', im_status = jget row ''status'',
          im_finish_reason = jget row ''finish_reason'', im_latency_ms = latency, im_input_tokens = input,
          im_output_tokens = output,
          im_provenance = (if jtruthy (jget row ''provenance'') then jget row ''provenance''
            else JObj [(''kind'', JStr ''imported''), (''source'', JStr source)])\<rparr>)))"

fun import_from ::
  "(json \<Rightarrow> string) \<Rightarrow> string \<Rightarrow> string \<Rightarrow> nat \<Rightarrow> attempt_key list \<Rightarrow> obj list \<Rightarrow> string + imported list \<times> quarantined list" where
  "import_from pystr label source i seen [] = Inr ([], [])"
| "import_from pystr label source i seen (row # rows) =
     checked (refusal pystr seen row) (\<lambda>reason.
     case reason of
       Some r \<Rightarrow> checked (import_from pystr label source (i + 1) seen rows) (\<lambda>(attempts, quarantine).
         Inr (attempts, \<lparr>qu_row = i, qu_reason = r, qu_record = row\<rparr> # quarantine))
     | None \<Rightarrow> checked (import_row pystr label source i row) (\<lambda>attempt.
         checked (import_from pystr label source (i + 1) (attempt_key pystr row # seen) rows) (\<lambda>(attempts, quarantine).
         Inr (attempt # attempts, quarantine))))"

definition import_attempts ::
  "(json \<Rightarrow> string) \<Rightarrow> string \<Rightarrow> string \<Rightarrow> obj list \<Rightarrow> string + imported list \<times> quarantined list" where
  "import_attempts pystr label source rows = import_from pystr label source 1 [] rows"

section \<open>Reports\<close>

text \<open>\<open>_csv_safe\<close>, on code points: what a spreadsheet would skip before a formula, and what starts one\<close>

definition skipped_char :: "nat \<Rightarrow> bool" where
  "skipped_char c \<longleftrightarrow> is_space c \<or> c < 32 \<or> c = 127"

definition starts_formula :: "utext \<Rightarrow> bool" where
  "starts_formula t \<longleftrightarrow> (case dropWhile skipped_char t of [] \<Rightarrow> False | c # _ \<Rightarrow> c \<in> set (codes ''=+-@''))"

definition csv_safe :: "(json \<Rightarrow> string) \<Rightarrow> (json \<Rightarrow> string) \<Rightarrow> json \<Rightarrow> utext" where
  "csv_safe dumps pystr v =
     (let shown = utf8_decode (case v of JNull \<Rightarrow> [] | JArr _ \<Rightarrow> dumps v | JObj _ \<Rightarrow> dumps v | _ \<Rightarrow> py_str pystr v)
      in if starts_formula shown then 39 # shown else shown)"

text \<open>\<open>html.escape\<close>\<close>

definition escape_char :: "nat \<Rightarrow> utext" where
  "escape_char c = (if c = 38 then codes ''&amp;'' else if c = 60 then codes ''&lt;'' else if c = 62 then codes ''&gt;''
     else if c = 34 then codes ''&quot;'' else if c = 39 then codes ''&#x27;'' else [c])"

definition escape :: "utext \<Rightarrow> utext" where
  "escape t = concat (map escape_char t)"

text \<open>Each attempt with each grade of its case; the grade's fields, prefixed, override the attempt's.\<close>

definition report_row :: "obj \<Rightarrow> obj \<Rightarrow> obj" where
  "report_row a g = map (\<lambda>(k, v). (''grade_'' @ k, v)) (filter (\<lambda>(k, v). k \<noteq> ''case_id'') g) @ a"

definition report_rows :: "obj list \<Rightarrow> obj list \<Rightarrow> string + obj list" where
  "report_rows attempts grades =
     (if attempts \<noteq> [] \<and> grades \<noteq> [] \<and> list_ex (\<lambda>r. map_of r ''case_id'' = None) (attempts @ grades) then Inl ''KeyError''
      else Inr (concat (map (\<lambda>a. map (report_row a)
        (filter (\<lambda>g. json_eq (jget g ''case_id'') (jget a ''case_id'')) grades)) attempts)))"

definition report_fields :: "obj list \<Rightarrow> string list" where
  "report_fields rows = sort (remdups (concat (map (map fst) rows)))"

definition csv_table :: "(json \<Rightarrow> string) \<Rightarrow> (json \<Rightarrow> string) \<Rightarrow> obj list \<Rightarrow> string list \<times> utext list list" where
  "csv_table dumps pystr rows = (let names = report_fields rows in
     (names, map (\<lambda>row. map (\<lambda>f. csv_safe dumps pystr (jget row f)) names) rows))"

definition html_cell :: "(json \<Rightarrow> string) \<Rightarrow> obj \<Rightarrow> string \<Rightarrow> utext" where
  "html_cell pystr row f = codes ''<td>'' @ escape (utf8_decode (py_str pystr (jget_default row f (JStr [])))) @ codes ''</td>''"

definition html_report :: "(json \<Rightarrow> string) \<Rightarrow> obj list \<Rightarrow> utext" where
  "html_report pystr rows = (let names = report_fields rows in
     codes ''<html><body><table><thead><tr>''
     @ concat (map (\<lambda>f. codes ''<th>'' @ escape (utf8_decode f) @ codes ''</th>'') names)
     @ codes ''</tr></thead><tbody>''
     @ concat (map (\<lambda>row. codes ''<tr>'' @ concat (map (html_cell pystr row) names) @ codes ''</tr>'') rows)
     @ codes ''</tbody></table></body></html>'')"

text \<open>The CSV writer: a field with a comma, a quote or a line end is quoted, a quote doubled; a row that is one empty
  field is quoted too.\<close>

definition csv_field :: "bool \<Rightarrow> utext \<Rightarrow> utext" where
  "csv_field alone t =
     (if list_ex (\<lambda>c. c \<in> {44, 34, 13, 10}) t \<or> alone \<and> t = []
      then 34 # concat (map (\<lambda>c. if c = 34 then [34, 34] else [c]) t) @ [34] else t)"

definition csv_line :: "utext list \<Rightarrow> utext" where
  "csv_line ts = concat (map (\<lambda>(i, t). (if i = 0 then [] else [44]) @ csv_field (length ts = 1) t) (List.enumerate (0 :: nat) ts))
     @ [13, 10]"

definition csv_report :: "(json \<Rightarrow> string) \<Rightarrow> (json \<Rightarrow> string) \<Rightarrow> obj list \<Rightarrow> utext" where
  "csv_report dumps pystr rows = (case csv_table dumps pystr rows of (names, cells) \<Rightarrow>
     concat (map csv_line (map utf8_decode names # cells)))"

definition markdown_row :: "(json \<Rightarrow> string) \<Rightarrow> obj \<Rightarrow> string + utext" where
  "markdown_row pystr g = with_key g ''case_id'' (\<lambda>c. with_key g ''status'' (\<lambda>s. with_key g ''evidence'' (\<lambda>e.
     Inr (utf8_decode (''| '' @ py_str pystr c @ '' | '' @ py_str pystr s @ '' | '' @ py_str pystr e @ '' |'')))))"

definition markdown_report :: "(json \<Rightarrow> string) \<Rightarrow> nat \<Rightarrow> obj list \<Rightarrow> string + utext" where
  "markdown_report pystr attempts grades = checked (check_all (markdown_row pystr) grades) (\<lambda>rows.
     Inr (concat (map (\<lambda>l. l @ [10]) ([codes ''# ModelLab report'', [], codes (''Attempts: '' @ nat_str attempts), [],
       codes ''| Case | Grade | Evidence |'', codes ''|---|---|---|''] @ rows))))"

text \<open>\<open>report_dumps\<close> is \<open>json.dumps\<close> with sorted keys and an indent of two. Every other name of a format is Markdown.\<close>

definition render_report ::
  "(json \<Rightarrow> string) \<Rightarrow> (json \<Rightarrow> string) \<Rightarrow> (json \<Rightarrow> string) \<Rightarrow> obj list \<Rightarrow> obj list \<Rightarrow> string \<Rightarrow> string + utext" where
  "render_report report_dumps dumps pystr attempts grades fmt =
     checked (report_rows attempts grades) (\<lambda>rows.
     if fmt = ''json'' then Inr (utf8_decode (report_dumps (JObj [(''attempts'', JArr (map JObj rows))])))
     else if fmt = ''csv'' then Inr (csv_report dumps pystr rows)
     else if fmt = ''html'' then Inr (html_report pystr rows)
     else markdown_report pystr (length attempts) grades)"

section \<open>The evidence store\<close>

text \<open>The two tables in the order of their row ids. A text column keeps \<open>NULL\<close> and turns numbers into text; \<open>render\<close> is
  the text of a float. A list or an object cannot be bound.\<close>

record stored_attempt =
  sa_attempt_id :: json
  sa_case_id :: json
  sa_model_id :: json
  sa_response :: json
  sa_status :: json
  sa_prompt_hash :: json
  sa_latency_ms :: json
  sa_input_tokens :: json
  sa_output_tokens :: json
  sa_provenance :: string
  sa_created_at :: json

record stored_grade =
  sg_attempt_id :: string
  sg_case_id :: json
  sg_status :: string
  sg_evidence :: string
  sg_grader :: string

record lab_store =
  st_attempts :: "stored_attempt list"
  st_grades :: "stored_grade list"

definition sqlite_int :: "int \<Rightarrow> bool" where
  "sqlite_int n \<longleftrightarrow> - (2 ^ 63) \<le> n \<and> n < 2 ^ 63"

definition bind :: "json \<Rightarrow> (json \<Rightarrow> string + 'b) \<Rightarrow> string + 'b" where
  "bind v k = (case v of
       JArr _ \<Rightarrow> Inl ''ProgrammingError'' | JObj _ \<Rightarrow> Inl ''ProgrammingError''
     | JInt n \<Rightarrow> if sqlite_int n then k v else Inl ''OverflowError''
     | _ \<Rightarrow> k v)"

definition text_column :: "(real \<Rightarrow> string) \<Rightarrow> json \<Rightarrow> json" where
  "text_column render v = (case v of JInt n \<Rightarrow> JStr (int_str n) | JBool b \<Rightarrow> JStr (if b then ''1'' else ''0'')
     | JFloat x \<Rightarrow> JStr (render x) | _ \<Rightarrow> v)"

definition already_exists :: "(json \<Rightarrow> string) \<Rightarrow> json \<Rightarrow> string" where
  "already_exists pystr attempt_id = ''attempt already exists: '' @ py_str pystr attempt_id"

text \<open>The primary key is a text column, which in SQLite admits \<open>NULL\<close>; the columns declared \<open>NOT NULL\<close> do not. Both
  violations are the same exception, and the handler reads each as a repeated id.\<close>

definition insertable :: "stored_attempt list \<Rightarrow> stored_attempt \<Rightarrow> bool" where
  "insertable rows r \<longleftrightarrow> (sa_attempt_id r = JNull \<or> sa_attempt_id r \<notin> sa_attempt_id ` set rows)
     \<and> JNull \<notin> {sa_case_id r, sa_model_id r, sa_status r, sa_created_at r}"

definition attempt_row :: "(json \<Rightarrow> string) \<Rightarrow> (real \<Rightarrow> string) \<Rightarrow> obj \<Rightarrow> string + stored_attempt" where
  "attempt_row dumps render a =
     with_key a ''attempt_id'' (\<lambda>attempt_id. with_key a ''case_id'' (\<lambda>case_id.
     bind attempt_id (\<lambda>attempt_id. bind case_id (\<lambda>case_id.
     bind (jget_default a ''model_id'' (JStr ''fake'')) (\<lambda>model_id. bind (jget a ''response'') (\<lambda>response.
     bind (jget_default a ''status'' (JStr ''completed'')) (\<lambda>status. bind (jget a ''prompt_hash'') (\<lambda>hash.
     bind (jget a ''latency_ms'') (\<lambda>latency. bind (jget a ''input_tokens'') (\<lambda>input.
     bind (jget a ''output_tokens'') (\<lambda>output.
     bind (jget_default a ''created_at'' (JStr ''1970-01-01T00:00:00Z'')) (\<lambda>created.
     Inr \<lparr>sa_attempt_id = text_column render attempt_id, sa_case_id = text_column render case_id,
          sa_model_id = text_column render model_id, sa_response = text_column render response,
          sa_status = text_column render status, sa_prompt_hash = text_column render hash, sa_latency_ms = latency,
          sa_input_tokens = input, sa_output_tokens = output,
          sa_provenance = dumps (jget_default a ''provenance'' (JObj [])),
          sa_created_at = text_column render created\<rparr>))))))))))))"

definition add_attempt ::
  "(json \<Rightarrow> string) \<Rightarrow> (json \<Rightarrow> string) \<Rightarrow> (real \<Rightarrow> string) \<Rightarrow> obj \<Rightarrow> lab_store \<Rightarrow> string + lab_store" where
  "add_attempt dumps pystr render a st =
     checked (attempt_row dumps render a) (\<lambda>r.
     if insertable (st_attempts st) r then Inr (st\<lparr>st_attempts := st_attempts st @ [r]\<rparr>)
     else Inl (already_exists pystr (jget a ''attempt_id'')))"

text \<open>\<open>INSERT OR REPLACE\<close>: the row of the same attempt goes, the new one comes last. A missing case id is refused.\<close>

definition add_grade :: "(real \<Rightarrow> string) \<Rightarrow> string \<Rightarrow> grade \<Rightarrow> lab_store \<Rightarrow> string + lab_store" where
  "add_grade render attempt_id g st =
     bind (gr_case_id g) (\<lambda>case_id.
     if case_id = JNull then Inl ''IntegrityError''
     else Inr (st\<lparr>st_grades := filter (\<lambda>r. sg_attempt_id r \<noteq> attempt_id) (st_grades st)
       @ [\<lparr>sg_attempt_id = attempt_id, sg_case_id = text_column render case_id, sg_status = gr_status g,
           sg_evidence = gr_evidence g, sg_grader = gr_grader g\<rparr>]\<rparr>))"

text \<open>\<open>attempts()\<close> and \<open>grades()\<close>: the rows as dictionaries, the provenance parsed\<close>

definition stored_attempt_obj :: "(string \<Rightarrow> json option) \<Rightarrow> stored_attempt \<Rightarrow> string + obj" where
  "stored_attempt_obj loads r =
     with_some (loads (sa_provenance r)) ''JSONDecodeError'' (\<lambda>provenance.
     Inr [(''attempt_id'', sa_attempt_id r), (''case_id'', sa_case_id r), (''model_id'', sa_model_id r), (''response'', sa_response r),
          (''status'', sa_status r), (''prompt_hash'', sa_prompt_hash r), (''latency_ms'', sa_latency_ms r),
          (''input_tokens'', sa_input_tokens r), (''output_tokens'', sa_output_tokens r), (''provenance_json'', JStr (sa_provenance r)),
          (''created_at'', sa_created_at r), (''provenance'', provenance)])"

definition stored_attempts :: "(string \<Rightarrow> json option) \<Rightarrow> lab_store \<Rightarrow> string + obj list" where
  "stored_attempts loads st = check_all (stored_attempt_obj loads) (st_attempts st)"

definition stored_grade_obj :: "stored_grade \<Rightarrow> obj" where
  "stored_grade_obj r = [(''attempt_id'', JStr (sg_attempt_id r)), (''case_id'', sg_case_id r), (''status'', JStr (sg_status r)),
     (''evidence'', JStr (sg_evidence r)), (''grader'', JStr (sg_grader r))]"

definition stored_grades :: "lab_store \<Rightarrow> obj list" where
  "stored_grades st = map stored_grade_obj (st_grades st)"

section \<open>The deterministic run\<close>

text \<open>\<open>len(text.split())\<close>\<close>

fun word_count :: "bool \<Rightarrow> utext \<Rightarrow> nat" where
  "word_count inside [] = 0"
| "word_count inside (c # cs) =
     (if is_space c then word_count False cs else (if inside then 0 else 1) + word_count True cs)"

definition words :: "string \<Rightarrow> nat" where
  "words s = word_count False (utf8_decode s)"

text \<open>The words of the messages, counted one after the other\<close>

fun content_words :: "(json \<Rightarrow> string) \<Rightarrow> json list \<Rightarrow> string + nat" where
  "content_words pystr [] = Inr 0"
| "content_words pystr (m # ms) =
     with_obj m ''AttributeError'' (\<lambda>kvs.
     checked (content_words pystr ms) (\<lambda>n. Inr (words (py_str pystr (jget_default kvs ''content'' (JStr []))) + n)))"

definition fake_failed :: "int \<Rightarrow> nat \<Rightarrow> bool" where
  "fake_failed fail_every i \<longleftrightarrow> fail_every > 0 \<and> (int i + 1) mod fail_every = 0"

definition fake_provenance :: "bool \<Rightarrow> json" where
  "fake_provenance failed =
     JObj [(''kind'', JStr ''deterministic_fake''), (''seed'', JInt 0), (''failure_injected'', JBool failed)]"

definition fake_attempt ::
  "(json \<Rightarrow> string) \<Rightarrow> (json \<Rightarrow> string) \<Rightarrow> (json \<Rightarrow> string) \<Rightarrow> (string \<Rightarrow> string) \<Rightarrow> string \<Rightarrow> int \<Rightarrow> nat \<Rightarrow> obj \<Rightarrow> string + obj" where
  "fake_attempt plain_dumps compact_dumps pystr sha256 model_id fail_every i c =
     (let failed = fake_failed fail_every i in
      with_obj (jget_default c ''evaluation'' (JObj [])) ''AttributeError'' (\<lambda>evaluation.
      let response = (if failed then [] else plain_dumps (jget evaluation ''reference_answer'')) in
      with_key c ''case_id'' (\<lambda>case_id. with_key c ''messages'' (\<lambda>messages.
      checked (elements messages) (\<lambda>ms.
      checked (content_words pystr ms) (\<lambda>input.
      Inr [(''attempt_id'', JStr (''fake-'' @ model_id @ ''-'' @ nat_str (i + 1))), (''case_id'', case_id),
           (''model_id'', JStr model_id), (''response'', JStr response),
           (''status'', JStr (if failed then ''failed'' else ''completed'')),
           (''prompt_hash'', JStr (prompt_hash compact_dumps sha256 messages)),
           (''latency_ms'', JFloat (1 + of_nat i)), (''input_tokens'', JInt (int input)),
           (''output_tokens'', JInt (if failed then 0 else int (words response))),
           (''provenance'', fake_provenance failed),
           (''created_at'', JStr ''1970-01-01T00:00:00Z'')]))))))"

fun fake_from ::
  "(nat \<Rightarrow> obj \<Rightarrow> string + obj) \<Rightarrow> int \<Rightarrow> nat \<Rightarrow> obj list \<Rightarrow> string + obj list" where
  "fake_from run budget i [] = Inr []"
| "fake_from run budget i (c # cs) =
     (if int i \<ge> budget then Inr []
      else checked (run i c) (\<lambda>a. checked (fake_from run budget (i + 1) cs) (\<lambda>rest. Inr (a # rest))))"

definition fake_run ::
  "(json \<Rightarrow> string) \<Rightarrow> (json \<Rightarrow> string) \<Rightarrow> (json \<Rightarrow> string) \<Rightarrow> (string \<Rightarrow> string) \<Rightarrow> string \<Rightarrow> int \<Rightarrow> int \<Rightarrow> obj list \<Rightarrow> string + obj list" where
  "fake_run plain_dumps compact_dumps pystr sha256 model_id budget fail_every cases =
     (if budget < 0 \<or> fail_every < 0 then Inl ''budget and fail_every must be non-negative''
      else fake_from (fake_attempt plain_dumps compact_dumps pystr sha256 model_id fail_every) budget 0 cases)"

section \<open>Metrics\<close>

text \<open>Sets of case ids: an id without a hash is a \<open>TypeError\<close>, ids that are equal as Python values are one.\<close>

fun distinct_ids :: "json list \<Rightarrow> json list" where
  "distinct_ids [] = []"
| "distinct_ids (v # vs) = v # filter (\<lambda>w. \<not> json_eq w v) (distinct_ids vs)"

definition case_key :: "obj \<Rightarrow> string + json" where
  "case_key r = with_key r ''case_id'' (\<lambda>v. require (hashable v) ''TypeError'' (Inr v))"

definition id_set :: "obj list \<Rightarrow> string + json list" where
  "id_set rs = checked (check_all case_key rs) (\<lambda>vs. Inr (distinct_ids vs))"

definition in_ids :: "json list \<Rightarrow> json \<Rightarrow> bool" where
  "in_ids vs v \<longleftrightarrow> list_ex (json_eq v) vs"

text \<open>\<open>sorted\<close>: texts among themselves or numbers among themselves\<close>

definition texts_of :: "json list \<Rightarrow> string list" where
  "texts_of vs = List.map_filter string_or_none vs"

definition numbers_of :: "json list \<Rightarrow> real list" where
  "numbers_of vs = List.map_filter json_num vs"

definition sort_ids :: "json list \<Rightarrow> string + json list" where
  "sort_ids vs =
     (if length vs \<le> 1 then Inr vs
      else if length (texts_of vs) = length vs then Inr (map JStr (sort (texts_of vs)))
      else if length (numbers_of vs) = length vs then Inr (sort_key (the \<circ> json_num) vs)
      else Inl ''TypeError'')"

record coverage =
  cv_expected :: nat
  cv_observed :: nat
  cv_missing :: "json list"
  cv_rate :: rat

definition coverage_metrics :: "obj list \<Rightarrow> obj list \<Rightarrow> string + coverage" where
  "coverage_metrics cases attempts =
     checked (id_set cases) (\<lambda>expected. checked (id_set attempts) (\<lambda>observed.
     checked (sort_ids (filter (\<lambda>i. \<not> in_ids observed i) expected)) (\<lambda>missing.
     let both = length (filter (in_ids observed) expected) in
     Inr \<lparr>cv_expected = length expected, cv_observed = both, cv_missing = missing,
       cv_rate = (if expected = [] then 1 else of_nat both / of_nat (length expected))\<rparr>)))"

record recommendation =
  rm_draft :: bool
  rm_candidate :: string
  rm_eligible :: bool
  rm_passes :: nat
  rm_grades :: nat
  rm_coverage :: coverage
  rm_reason :: string

definition router_recommendation :: "obj list \<Rightarrow> obj list \<Rightarrow> string list \<Rightarrow> string \<Rightarrow> string + recommendation" where
  "router_recommendation cases attempts statuses model_id =
     checked (coverage_metrics cases attempts) (\<lambda>coverage.
     let passed = length (filter (\<lambda>s. s = ''pass'') statuses) in
     Inr \<lparr>rm_draft = True, rm_candidate = model_id,
       rm_eligible = (cv_rate coverage = 1 \<and> statuses \<noteq> [] \<and> passed = length statuses),
       rm_passes = passed, rm_grades = length statuses, rm_coverage = coverage,
       rm_reason = ''fixture-only evidence; production router was not modified''\<rparr>)"

text \<open>The bars of the chart; a bar of more than twelve grades grows out of the picture.\<close>

definition svg_bar :: "string list \<Rightarrow> nat \<Rightarrow> string \<Rightarrow> string \<Rightarrow> string" where
  "svg_bar statuses x label colour =
     (let height = int (length (filter (\<lambda>s. s = label) statuses)) * 8 in
      ''<rect x=\"'' @ nat_str x @ ''\" y=\"'' @ int_str (100 - height) @ ''\" width=\"45\" height=\"'' @ int_str height
      @ ''\" fill=\"'' @ colour @ ''\"/><text x=\"'' @ nat_str x @ ''\" y=\"120\">'' @ label @ ''</text>'')"

definition static_svg_chart :: "string list \<Rightarrow> string" where
  "static_svg_chart statuses =
     ''<svg xmlns=\"http://www.w3.org/2000/svg\" width=\"260\" height=\"140\" role=\"img\" aria-label=\"grade counts\"><line x1=\"10\" y1=\"100\" x2=\"250\" y2=\"100\" stroke=\"#333\"/>''
     @ svg_bar statuses 20 ''pass'' ''#2e7d32'' @ svg_bar statuses 95 ''fail'' ''#c62828''
     @ svg_bar statuses 170 ''abstain'' ''#616161'' @ ''</svg>''"

end
