(* ===== verification/Lab_Props.thy ===== *)
theory Lab_Props
  imports Lab
begin

text \<open>
  What the benchmark promises: the check of the cases accepts exactly the well-formed suites, and a report cell
  starts no formula.
\<close>

section \<open>Cases\<close>

definition case_text :: "obj \<Rightarrow> string" where
  "case_text c = (case jget c ''case_id'' of JStr s \<Rightarrow> s | _ \<Rightarrow> [])"

definition well_formed_case :: "obj \<Rightarrow> bool" where
  "well_formed_case c \<longleftrightarrow> missing_fields c = [] \<and> jget c ''case_id'' = JStr (case_text c) \<and> case_text c \<noteq> []
     \<and> good_messages (jget c ''messages'') \<and> good_split (jget c ''split'') \<and> good_level (jget c ''complexity_level'')
     \<and> good_evaluation (jget c ''evaluation'')"

lemma hashable_good: "good_split v \<Longrightarrow> hashable v" "good_level v \<Longrightarrow> hashable v"
  by (auto simp: good_split_def good_level_def hashable_def json_eq.simps json_num_def jnumber_def split: json.splits)

lemma case_id_errors_Nil:
  "case_id_errors v ids = [] \<longleftrightarrow> (\<exists>s. v = JStr s \<and> s \<noteq> [] \<and> v \<notin> set ids)"
  by (auto simp: case_id_errors_def split: json.splits)

lemma message_errors_Nil:
  "message_errors dumps v prompts = ([], prompts') \<longleftrightarrow> good_messages v \<and> dumps v \<notin> set prompts \<and> prompts' = dumps v # prompts"
  by (auto simp: message_errors_def)

lemma unless_Nil [simp]: "unless ok m = [] \<longleftrightarrow> ok"
  by (simp add: unless_def)

lemma validate_case_Nil:
  "validate_case dumps i c ids prompts = Inr ([], ids', prompts') \<longleftrightarrow>
     well_formed_case c \<and> jget c ''case_id'' \<notin> set ids \<and> dumps (jget c ''messages'') \<notin> set prompts
     \<and> ids' = jget c ''case_id'' # ids \<and> prompts' = dumps (jget c ''messages'') # prompts"
proof (cases "message_errors dumps (jget c ''messages'') prompts")
  case (Pair errors p)
  then show ?thesis
    using message_errors_Nil [of dumps "jget c ''messages''" prompts prompts'] case_id_errors_Nil [of "jget c ''case_id''" ids]
      hashable_good [of "jget c ''split''"] hashable_good(2) [of "jget c ''complexity_level''"]
    by (auto simp: validate_case_def well_formed_case_def case_text_def hashable_def message_errors_def split: if_splits)
qed

lemma checked_Inr_conv: "checked r k = Inr y \<longleftrightarrow> (\<exists>x. r = Inr x \<and> k x = Inr y)"
  by (cases r) (simp_all add: checked_def)

lemma validate_from_Nil:
  "validate_from dumps i cs ids prompts = Inr [] \<longleftrightarrow>
     list_all well_formed_case cs \<and> distinct (map (\<lambda>c. jget c ''case_id'') cs) \<and> distinct (map (\<lambda>c. dumps (jget c ''messages'')) cs)
     \<and> (\<forall>c \<in> set cs. jget c ''case_id'' \<notin> set ids \<and> dumps (jget c ''messages'') \<notin> set prompts)"
proof (induction cs arbitrary: i ids prompts)
  case (Cons c cs)
  let ?ok = "well_formed_case c \<and> jget c ''case_id'' \<notin> set ids \<and> dumps (jget c ''messages'') \<notin> set prompts"
  have "validate_from dumps i (c # cs) ids prompts = Inr [] \<longleftrightarrow>
      (\<exists>ids' prompts'. validate_case dumps i c ids prompts = Inr ([], ids', prompts') \<and> validate_from dumps (i + 1) cs ids' prompts' = Inr [])"
    by (simp add: checked_Inr_conv)
  also have "\<dots> \<longleftrightarrow> ?ok \<and> validate_from dumps (i + 1) cs (jget c ''case_id'' # ids) (dumps (jget c ''messages'') # prompts) = Inr []"
    by (simp add: validate_case_Nil)
  also have "\<dots> \<longleftrightarrow> ?ok \<and> list_all well_formed_case cs \<and> distinct (map (\<lambda>c. jget c ''case_id'') cs)
      \<and> distinct (map (\<lambda>c. dumps (jget c ''messages'')) cs)
      \<and> (\<forall>d \<in> set cs. jget d ''case_id'' \<notin> set (jget c ''case_id'' # ids) \<and> dumps (jget d ''messages'') \<notin> set (dumps (jget c ''messages'') # prompts))"
    by (simp only: Cons.IH)
  finally show ?case by (simp add: image_iff) metis
qed simp

lemma case_text_inj:
  assumes "list_all well_formed_case cs"
  shows "distinct (map (\<lambda>c. jget c ''case_id'') cs) \<longleftrightarrow> distinct (map case_text cs)"
proof -
  have "map (\<lambda>c. jget c ''case_id'') cs = map JStr (map case_text cs)"
    using assms by (simp add: list_all_iff well_formed_case_def)
  then show ?thesis by (simp add: distinct_map inj_on_def)
qed

text \<open>The suite check is exact. Checking a list of cases reports nothing exactly when every case has all required
  fields, a non-empty text id, messages, a known split, a level from one to four and a method of
  evaluation, and no two cases share an id or, up to their canonical JSON, a prompt.\<close>

lemma suite_check_is_exact:
  "validate_cases dumps cases = Inr [] \<longleftrightarrow>
     list_all well_formed_case cases \<and> distinct (map case_text cases) \<and> distinct (map (\<lambda>c. dumps (jget c ''messages'')) cases)"
  using case_text_inj [of cases] by (auto simp: validate_cases_def validate_from_Nil)

section \<open>Reports\<close>

lemma csv_cell_is_inert: "\<not> starts_formula (csv_safe dumps pystr v)"
  by (auto simp: csv_safe_def Let_def starts_formula_def skipped_char_def is_space_def codes_def)

lemma html_cell_is_text: "set (escape t) \<inter> {60, 62, 34, 39} = {}"
  by (induction t) (auto simp: escape_def escape_char_def codes_def)

section \<open>A suite\<close>

text \<open>A suite of two cases; the texts of its documents are the values of their numbers in unary.\<close>

definition sample_case :: "string \<Rightarrow> int \<Rightarrow> obj" where
  "sample_case i n = [(''case_id'', JStr i), (''family_id'', JStr ''sums''), (''split'', JStr ''holdout''), (''complexity_level'', JInt 2),
     (''domain'', JStr ''arithmetic''), (''messages'', JArr [JObj [(''content'', JStr ''one and two'')], JObj [(''role'', JStr i)]]),
     (''evaluation'', JObj [(''method'', JStr ''exact_json''), (''reference_answer'', JInt n)])]"

definition sample_dumps :: "json \<Rightarrow> string" where
  "sample_dumps v = (case v of JInt n \<Rightarrow> replicate (nat n + 1) (CHR ''1'')
     | JArr (_ # JObj ((_, JStr i) # _) # _) \<Rightarrow> i | _ \<Rightarrow> [])"

end
