(* ===== verification/Lab_Runner.thy ===== *)
theory Lab_Runner
  imports Lab_Props Adapters
begin

text \<open>
  The live run of the benchmark (\<open>model_lab/opencode_runner.py\<close>): a plan that is checked before any request, then
  one request for each model and case in order, a failure being an attempt of its own. \<open>world k\<close> is the HTTP
  client and the two clock readings of the \<open>k\<close>-th request.
\<close>

type_synonym world = "nat \<Rightarrow> http_post \<times> real \<times> real"

record lab_plan =
  pl_cases :: "obj list"
  pl_models :: "string list"
  pl_split :: string
  pl_max_requests :: int

definition SPLITS :: "string list" where
  "SPLITS = [''train'', ''calibration'', ''holdout'', ''all'']"

definition selected_cases :: "lab_plan \<Rightarrow> obj list" where
  "selected_cases p = filter (\<lambda>c. pl_split p = ''all'' \<or> jget c ''split'' = JStr (pl_split p)) (pl_cases p)"

definition planned_requests :: "lab_plan \<Rightarrow> int" where
  "planned_requests p = int (length (selected_cases p)) * int (length (pl_models p))"

definition quoted_list :: "string list \<Rightarrow> string" where
  "quoted_list xs = ''['' @ comma_list (map (\<lambda>x. [CHR 39] @ x @ [CHR 39]) xs) @ '']''"

definition first_errors :: "string list \<Rightarrow> string" where
  "first_errors errors = concat (map (\<lambda>(n, e). if n = (0 :: nat) then e else ''; '' @ e)
     (List.enumerate 0 (take 3 errors)))"

definition unknown_models :: "lab_plan \<Rightarrow> string list" where
  "unknown_models p = sort (filter (\<lambda>m. FREE_MODEL_BY_ID m = None) (remdups (pl_models p)))"

text \<open>The checks before the first request, in their order; a \<open>TypeError\<close> of the suite check goes through.\<close>

definition check_plan :: "(json \<Rightarrow> string) \<Rightarrow> string \<Rightarrow> lab_plan \<Rightarrow> string + 'a \<Rightarrow> string + 'a" where
  "check_plan dumps api_key p rest =
     checked (validate_cases dumps (pl_cases p)) (\<lambda>errors.
     require (errors = []) (''invalid suite: '' @ first_errors errors)
     (require (pl_split p \<in> set SPLITS) ''split must be train, calibration, holdout, or all''
     (require (pl_models p \<noteq> [] \<and> distinct (pl_models p)) ''select at least one unique candidate model''
     (require (pl_max_requests p \<ge> 1) ''max_requests must be positive''
     (require (unknown_models p = []) (''models are outside the dated free allowlist: '' @ quoted_list (unknown_models p))
     (require (planned_requests p \<noteq> 0) ''the selected split has no cases''
     (require (strip_string api_key \<noteq> []) ''an OpenCode API key is required''
     (require (planned_requests p + 1 \<le> pl_max_requests p)
        (''plan needs '' @ int_str (planned_requests p + 1) @ '' requests (including the catalog check), exceeding max_requests=''
          @ int_str (pl_max_requests p)) rest))))))))"

definition missing_models :: "string set \<Rightarrow> lab_plan \<Rightarrow> string list" where
  "missing_models offered p = sort (filter (\<lambda>m. m \<notin> offered) (pl_models p))"

text \<open>The messages of a request: the adapter takes only dictionaries with a text role and a text content.\<close>

definition plain_message :: "json \<Rightarrow> (string \<times> utext) option" where
  "plain_message m = (case m of
       JObj kvs \<Rightarrow> (case (jget kvs ''role'', jget kvs ''content'') of
           (JStr role, JStr content) \<Rightarrow> Some (role, utf8_decode content) | _ \<Rightarrow> None)
     | _ \<Rightarrow> None)"

fun plain_messages :: "json list \<Rightarrow> (string \<times> utext) list option" where
  "plain_messages [] = Some []"
| "plain_messages (m # ms) = Option.bind (plain_message m) (\<lambda>x. Option.bind (plain_messages ms) (\<lambda>xs. Some (x # xs)))"

definition lab_completion :: "http_post \<times> real \<times> real \<Rightarrow> string \<Rightarrow> string \<Rightarrow> json list \<Rightarrow> int \<Rightarrow> opencode_error + completion" where
  "lab_completion w api_key model messages limit = (case w of (post, started, finished) \<Rightarrow>
     (case plain_messages messages of
        None \<Rightarrow> Inl OC_other
      | Some ms \<Rightarrow> chat_completion post started finished api_key
          \<lparr>cq_model_id = model, cq_messages = ms, cq_max_output_tokens = limit\<rparr>))"

text \<open>\<open>isinstance(raw, int)\<close> holds for a Boolean.\<close>

definition output_limit :: "json \<Rightarrow> int" where
  "output_limit raw = (case raw of JInt n \<Rightarrow> min (max n 1) 1024 | JBool b \<Rightarrow> 1 | _ \<Rightarrow> 512)"

record lab_run =
  lr_run_id :: string
  lr_created_at :: string
  lr_round3 :: "real \<Rightarrow> real"

definition attempt_id :: "lab_run \<Rightarrow> string \<Rightarrow> obj \<Rightarrow> string" where
  "attempt_id run model c = lr_run_id run @ '':'' @ model @ '':'' @ case_text c"

definition optional_int :: "int option \<Rightarrow> json" where
  "optional_int n = (case n of None \<Rightarrow> JNull | Some i \<Rightarrow> JInt i)"

definition live_attempt :: "lab_run \<Rightarrow> lab_plan \<Rightarrow> string \<Rightarrow> obj \<Rightarrow> string \<Rightarrow> opencode_error + completion \<Rightarrow> obj" where
  "live_attempt run p model c hash outcome = (case outcome of
       Inr m \<Rightarrow>
         [(''attempt_id'', JStr (attempt_id run model c)), (''case_id'', jget c ''case_id''), (''model_id'', JStr (cm_model_id m)),
          (''response'', JStr (utf8_encode (cm_text m))), (''status'', JStr ''completed''), (''prompt_hash'', JStr hash),
          (''latency_ms'', JFloat (lr_round3 run (cm_latency_ms m))), (''input_tokens'', optional_int (cm_input_tokens m)),
          (''output_tokens'', optional_int (cm_output_tokens m)),
          (''provenance'', JObj [(''kind'', JStr ''live_provider''), (''provider'', JStr ''opencode-zen''), (''run_id'', JStr (lr_run_id run)),
            (''rate_version'', JStr FREE_RATE_VERSION), (''created_at'', JStr (lr_created_at run)), (''finish_reason'', cm_finish_reason m),
            (''cost_micro'', JInt (cm_cost_micro m)), (''cost_measurement'', JStr ''dated-free-catalog''),
            (''max_requests'', JInt (pl_max_requests p)), (''split'', JStr (pl_split p))])]
     | Inl _ \<Rightarrow>
         [(''attempt_id'', JStr (attempt_id run model c)), (''case_id'', jget c ''case_id''), (''model_id'', JStr model),
          (''response'', JStr []), (''status'', JStr ''failed''), (''prompt_hash'', JStr hash), (''latency_ms'', JNull),
          (''input_tokens'', JNull), (''output_tokens'', JNull),
          (''provenance'', JObj [(''kind'', JStr ''live_provider''), (''provider'', JStr ''opencode-zen''), (''run_id'', JStr (lr_run_id run)),
            (''rate_version'', JStr FREE_RATE_VERSION), (''created_at'', JStr (lr_created_at run)), (''error'', JStr ''provider_request_failed''),
            (''cost_micro'', JNull), (''cost_measurement'', JStr ''unknown''),
            (''max_requests'', JInt (pl_max_requests p)), (''split'', JStr (pl_split p))])])"

text \<open>One request. What the provider is sent is taken from the candidate record alone.\<close>

definition run_candidate ::
  "(json \<Rightarrow> string) \<Rightarrow> (string \<Rightarrow> string) \<Rightarrow> http_post \<times> real \<times> real \<Rightarrow> string \<Rightarrow> lab_run \<Rightarrow> lab_plan \<Rightarrow> string \<Rightarrow> obj \<Rightarrow> string + obj" where
  "run_candidate compact_dumps sha256 w api_key run p model c =
     checked (candidate_record compact_dumps sha256 c) (\<lambda>candidate.
     with_obj (jget candidate ''limits'') ''AttributeError'' (\<lambda>limits.
     with_arr (jget candidate ''messages'') ''TypeError'' (\<lambda>messages.
     Inr (live_attempt run p model c (prompt_hash compact_dumps sha256 (jget candidate ''messages''))
       (lab_completion w api_key model messages (output_limit (jget_default limits ''max_output_tokens'' (JInt 512))))))))"

fun run_requests :: "(nat \<Rightarrow> string \<Rightarrow> obj \<Rightarrow> string + obj) \<Rightarrow> nat \<Rightarrow> (string \<times> obj) list \<Rightarrow> string + obj list" where
  "run_requests request k [] = Inr []"
| "run_requests request k ((model, c) # rest) =
     checked (request k model c) (\<lambda>a. checked (run_requests request (k + 1) rest) (\<lambda>as. Inr (a # as)))"

record lab_manifest =
  ma_run_id :: string
  ma_created_at :: string
  ma_provider :: string
  ma_rate_version :: string
  ma_split :: string
  ma_candidate_models :: "string list"
  ma_case_count_per_model :: nat
  ma_planned_requests :: int
  ma_max_requests :: int
  ma_sequence :: string
  ma_candidate_data :: string
  ma_selection_claim :: string

definition lab_manifest :: "lab_run \<Rightarrow> lab_plan \<Rightarrow> lab_manifest" where
  "lab_manifest run p = \<lparr>ma_run_id = lr_run_id run, ma_created_at = lr_created_at run, ma_provider = ''opencode-zen'',
     ma_rate_version = FREE_RATE_VERSION, ma_split = pl_split p, ma_candidate_models = pl_models p,
     ma_case_count_per_model = length (selected_cases p), ma_planned_requests = planned_requests p,
     ma_max_requests = pl_max_requests p, ma_sequence = ''sequential-no-retries'',
     ma_candidate_data = ''messages-only; synthetic benchmark prompts'',
     ma_selection_claim = ''none; this run is evidence input, not a router decision''\<rparr>"

definition run_opencode_candidates ::
  "(json \<Rightarrow> string) \<Rightarrow> (json \<Rightarrow> string) \<Rightarrow> (string \<Rightarrow> string) \<Rightarrow> http_outcome \<Rightarrow> world \<Rightarrow> string \<Rightarrow> lab_run \<Rightarrow> lab_plan
   \<Rightarrow> string + lab_manifest \<times> obj list" where
  "run_opencode_candidates dumps compact_dumps sha256 catalog world api_key run p =
     check_plan dumps api_key p
     (checked (fetch_catalog catalog) (\<lambda>offered.
      require (missing_models offered p = [])
        (''selected models are not in the current provider catalog: '' @ quoted_list (missing_models offered p))
      (checked (run_requests (\<lambda>k. run_candidate compact_dumps sha256 (world k) api_key run p) 0
          (List.product (pl_models p) (selected_cases p))) (\<lambda>attempts.
       Inr (lab_manifest run p, attempts)))))"

section \<open>What a run spends\<close>

text \<open>The reference answer, the split and every other field of a case stay behind: a request and its attempt are the
  same for the case cut down to its id, its messages and its limits.\<close>

definition shown_part :: "obj \<Rightarrow> obj" where
  "shown_part c = filter (\<lambda>(k, v). k \<in> {''case_id'', ''messages'', ''limits''}) c"

lemma jget_Cons: "jget ((k, v) # obj) key = (if k = key then v else jget obj key)"
  by (simp add: jget_def jget_default_def)

lemma map_of_shown_part: "k \<in> {''case_id'', ''messages'', ''limits''} \<Longrightarrow> map_of (shown_part c) k = map_of c k"
  by (induction c) (auto simp: shown_part_def)

lemma evaluation_stays_local:
  "run_candidate compact_dumps sha256 w api_key run p model (shown_part c)
     = run_candidate compact_dumps sha256 w api_key run p model c"
proof -
  have same: "jget (shown_part c) ''case_id'' = jget c ''case_id''" "jget_default (shown_part c) ''limits'' = jget_default c ''limits''"
    by (auto simp: jget_def jget_default_def map_of_shown_part)
  then have "live_attempt run p model (shown_part c) hash outcome = live_attempt run p model c hash outcome" for hash outcome
    by (cases outcome) (simp_all add: live_attempt_def attempt_id_def case_text_def)
  then show ?thesis
    by (cases "map_of c ''case_id''"; cases "map_of c ''messages''")
      (simp_all add: run_candidate_def candidate_record_def with_key_def map_of_shown_part same checked_def jget_Cons)
qed

lemma live_attempt_id: "jget (live_attempt run p model c hash outcome) ''attempt_id'' = JStr (attempt_id run model c)"
  by (cases outcome) (simp_all add: live_attempt_def jget_def jget_default_def)

lemma run_candidate_id:
  assumes "run_candidate compact_dumps sha256 w api_key run p model c = Inr a"
  shows "jget a ''attempt_id'' = JStr (attempt_id run model c)"
  using assms unfolding run_candidate_def check_simps by (auto simp: live_attempt_id)

lemma run_requests_Inr:
  assumes "run_requests request k xs = Inr attempts" and "\<And>k m c a. request k m c = Inr a \<Longrightarrow> f a = g m c"
  shows "map f attempts = map (\<lambda>(m, c). g m c) xs"
  using assms(1)
proof (induction xs arbitrary: k attempts)
  case (Cons x xs)
  then show ?case using assms(2) by (cases x) (auto simp: check_simps)
qed simp

lemma free_model_plain:
  assumes "FREE_MODEL_BY_ID m \<noteq> None"
  shows "CHR '':'' \<notin> set m"
proof -
  have "list_all (\<lambda>m. CHR '':'' \<notin> set (fm_model_id m)) FREE_MODELS" by code_simp
  moreover from assms obtain f where "f \<in> set FREE_MODELS" "fm_model_id f = m"
    by (auto simp: FREE_MODEL_BY_ID_def dest!: map_of_SomeD)
  ultimately show ?thesis by (auto simp: list_all_iff)
qed

lemma split_at_colon:
  assumes "CHR '':'' \<notin> set m" and "CHR '':'' \<notin> set m'"
  shows "m @ CHR '':'' # c = m' @ CHR '':'' # c' \<longleftrightarrow> m = m' \<and> c = c'"
  using assms
proof (induction m arbitrary: m')
  case Nil
  then show ?case by (cases m') auto
next
  case (Cons x m)
  then show ?case by (cases m') auto
qed

lemma attempt_ids_distinct:
  assumes "distinct models" and "list_all (\<lambda>m. FREE_MODEL_BY_ID m \<noteq> None) models" and "distinct (map case_text cases)"
  shows "distinct (map (\<lambda>(m, c). attempt_id run m c) (List.product models cases))"
proof -
  have "inj_on (\<lambda>(m, c). attempt_id run m c) (set (List.product models cases))"
  proof (rule inj_onI, clarify)
    fix m c m' c'
    assume pairs: "(m, c) \<in> set (List.product models cases)" "(m', c') \<in> set (List.product models cases)"
      and same: "attempt_id run m c = attempt_id run m' c'"
    from pairs assms(2) have "FREE_MODEL_BY_ID m \<noteq> None" "FREE_MODEL_BY_ID m' \<noteq> None"
      by (auto simp: list_all_iff simp del: not_None_eq)
    then have "CHR '':'' \<notin> set m \<and> CHR '':'' \<notin> set m'" by (intro conjI free_model_plain)
    with same have "m = m' \<and> case_text c = case_text c'"
      using split_at_colon [of m m' "case_text c" "case_text c'"] by (simp add: attempt_id_def)
    with pairs assms(3) show "m = m' \<and> c = c'" by (auto simp: distinct_map dest: inj_onD)
  qed
  with assms show ?thesis by (auto simp: distinct_map intro: distinct_product)
qed


text \<open>A catalog of two models, two cases, a client that never gets an answer.\<close>

definition sample_catalog :: http_outcome where
  "sample_catalog = Http_response \<lparr>hp_status = 200, hp_success = True, hp_retry_after = None, hp_json = Some (JObj [(''data'',
     JArr [JObj [(''id'', JStr ''exo-free'')], JObj [(''id'', JStr ''big-pickle'')]])])\<rparr>"

definition sample_plan :: lab_plan where
  "sample_plan = \<lparr>pl_cases = [sample_case ''a'' 3, sample_case ''b'' 5], pl_models = [''exo-free'', ''big-pickle''],
     pl_split = ''holdout'', pl_max_requests = 5\<rparr>"

definition sample_run :: lab_run where
  "sample_run = \<lparr>lr_run_id = ''run'', lr_created_at = ''now'', lr_round3 = id\<rparr>"


end
