(* ===== verification/Lab_Cli.thy ===== *)
theory Lab_Cli
  imports Lab_Runner
begin

text \<open>
  The commands of the benchmark (\<open>model_lab/cli.py\<close>) on the records that \<open>read_jsonl\<close> returns: what each computes, writes
  and prints. The evidence store is the state, and a row is committed when it is added, so a command that
  raises half-way leaves the rows before. Argument parsing and the files themselves stay outside.
\<close>

record lab_env =
  le_dumps :: "json \<Rightarrow> string"
  le_ascii_dumps :: "json \<Rightarrow> string"
  le_plain_dumps :: "json \<Rightarrow> string"
  le_compact_dumps :: "json \<Rightarrow> string"
  le_report_dumps :: "json \<Rightarrow> string"
  le_loads :: "string \<Rightarrow> json option"
  le_str :: "json \<Rightarrow> string"
  le_render :: "real \<Rightarrow> string"
  le_sha256 :: "string \<Rightarrow> string"

type_synonym 'a lab_op = "(string, 'a, lab_store) op"

definition computed :: "string + 'a \<Rightarrow> 'a lab_op" where
  "computed r = (case r of Inl e \<Rightarrow> raise e | Inr x \<Rightarrow> ret x)"

definition adding :: "(lab_store \<Rightarrow> string + lab_store) \<Rightarrow> unit lab_op" where
  "adding f st = (case f st of Inl e \<Rightarrow> Raise e st | Inr st' \<Rightarrow> Ok () st')"

section \<open>Suites\<close>

text \<open>The exit code and the lines printed\<close>

definition suite_validate :: "lab_env \<Rightarrow> obj list \<Rightarrow> string + nat \<times> string list" where
  "suite_validate env cases = checked (validate_cases (le_dumps env) cases) (\<lambda>errors.
     Inr (if errors \<noteq> [] then (1, errors) else (0, [''valid: '' @ nat_str (length cases) @ '' cases''])))"

definition suite_export :: "lab_env \<Rightarrow> bool \<Rightarrow> obj list \<Rightarrow> string + string" where
  "suite_export env candidate_only cases =
     checked (validate_cases (le_dumps env) cases) (\<lambda>errors.
     require (errors = []) (''suite is invalid: '' @ first_errors errors)
     (checked (if candidate_only then check_all (candidate_record (le_compact_dumps env) (le_sha256 env)) cases else Inr cases)
       (\<lambda>records. Inr (jsonl_text (le_dumps env) records))))"

section \<open>Imported attempts\<close>

text \<open>The dictionary of the cases by id: the last case of an id wins.\<close>

definition case_map :: "obj list \<Rightarrow> string + (json \<times> obj) list" where
  "case_map cases = check_all (\<lambda>c. checked (case_key c) (\<lambda>v. Inr (v, c))) cases"

definition case_of :: "(json \<times> obj) list \<Rightarrow> json \<Rightarrow> obj option" where
  "case_of m v = map_option snd (List.find (\<lambda>(k, c). json_eq k v) (rev m))"

definition known_case :: "(json \<times> obj) list \<Rightarrow> imported \<Rightarrow> bool" where
  "known_case m a \<longleftrightarrow> case_of m (JStr (im_case_id a)) \<noteq> None"

definition quarantine_unknown_cases :: "imported list \<Rightarrow> (json \<times> obj) list \<Rightarrow> imported list \<times> imported list" where
  "quarantine_unknown_cases attempts m = (filter (known_case m) attempts, filter (\<lambda>a. \<not> known_case m a) attempts)"

definition grade_known :: "lab_env \<Rightarrow> (json \<times> obj) list \<Rightarrow> imported \<Rightarrow> string + grade" where
  "grade_known env m a = with_some (case_of m (JStr (im_case_id a))) ''KeyError'' (\<lambda>c. grade_attempt (le_loads env) c (im_response a))"

record grade_payload =
  gp_attempts :: nat
  gp_grades :: "grade list"
  gp_quarantine :: "quarantined list"
  gp_unknown :: "imported list"

text \<open>The common part of \<open>grade\<close> and \<open>report\<close>; an attempt of an unknown case is quarantined after the rows that were not
  imported.\<close>

definition grade_responses :: "lab_env \<Rightarrow> string \<Rightarrow> string \<Rightarrow> obj list \<Rightarrow> obj list \<Rightarrow> string + grade_payload" where
  "grade_responses env label source cases rows =
     checked (case_map cases) (\<lambda>m.
     checked (import_attempts (le_str env) label source rows) (\<lambda>(attempts, quarantine).
     case quarantine_unknown_cases attempts m of (known, unknown) \<Rightarrow>
     checked (check_all (grade_known env m) known) (\<lambda>grades.
     Inr \<lparr>gp_attempts = length attempts, gp_grades = grades, gp_quarantine = quarantine, gp_unknown = unknown\<rparr>)))"

definition grade_command :: "lab_env \<Rightarrow> string \<Rightarrow> obj list \<Rightarrow> obj list \<Rightarrow> string + grade_payload" where
  "grade_command env source cases rows = grade_responses env ''grade-input'' source cases rows"

definition grade_obj :: "grade \<Rightarrow> obj" where
  "grade_obj g = [(''case_id'', gr_case_id g), (''grader'', JStr (gr_grader g)), (''method'', gr_method g), (''status'', JStr (gr_status g)),
     (''evidence'', JStr (gr_evidence g))]"

definition quarantine_grade :: "json \<Rightarrow> string \<Rightarrow> obj" where
  "quarantine_grade case_id reason = [(''case_id'', case_id), (''status'', JStr ''quarantined''), (''evidence'', JStr reason),
     (''grader'', JStr ''import-validator-v1'')]"

text \<open>A quarantined row counts as a grade when it names a case at all, be it \<open>null\<close>.\<close>

definition row_grades :: "quarantined \<Rightarrow> obj list" where
  "row_grades q = (case map_of (qu_record q) ''case_id'' of None \<Rightarrow> [] | Some v \<Rightarrow> [quarantine_grade v (qu_reason q)])"

definition report_grades :: "grade_payload \<Rightarrow> obj list" where
  "report_grades p = map grade_obj (gp_grades p) @ concat (map row_grades (gp_quarantine p))
     @ map (\<lambda>a. quarantine_grade (JStr (im_case_id a)) ''unknown case_id'') (gp_unknown p)"

text \<open>The report in its default format\<close>

definition report_command :: "lab_env \<Rightarrow> string \<Rightarrow> obj list \<Rightarrow> obj list \<Rightarrow> string + utext" where
  "report_command env source cases rows = checked (grade_responses env ''report-input'' source cases rows) (\<lambda>p.
     markdown_report (le_str env) (gp_attempts p) (report_grades p))"

section \<open>The store's commands\<close>

definition text_field :: "obj \<Rightarrow> string \<Rightarrow> string" where
  "text_field a key = (case jget a key of JStr s \<Rightarrow> s | _ \<Rightarrow> [])"

definition keep_attempt :: "lab_env \<Rightarrow> obj \<Rightarrow> unit lab_op" where
  "keep_attempt env a = adding (add_attempt (le_ascii_dumps env) (le_str env) (le_render env) a)"

definition keep_grade :: "lab_env \<Rightarrow> (json \<times> obj) list \<Rightarrow> obj \<Rightarrow> unit lab_op" where
  "keep_grade env m a =
     andthen (computed (with_some (case_of m (jget a ''case_id'')) ''KeyError'' (\<lambda>c. grade_attempt (le_loads env) c (text_field a ''response''))))
       (\<lambda>g. adding (add_grade (le_render env) (text_field a ''attempt_id'') g))"

definition keep_run :: "lab_env \<Rightarrow> (json \<times> obj) list \<Rightarrow> obj \<Rightarrow> unit lab_op" where
  "keep_run env m a = andthen (keep_attempt env a) (\<lambda>_.
     if jget a ''status'' = JStr ''completed'' then keep_grade env m a else ret ())"

fun keep_runs :: "lab_env \<Rightarrow> (json \<times> obj) list \<Rightarrow> obj list \<Rightarrow> unit lab_op" where
  "keep_runs env m [] = ret ()"
| "keep_runs env m (a # as) = andthen (keep_run env m a) (\<lambda>_. keep_runs env m as)"

text \<open>What is printed: the number of attempts and their coverage\<close>

definition run_fake :: "lab_env \<Rightarrow> string \<Rightarrow> int \<Rightarrow> int \<Rightarrow> obj list \<Rightarrow> (nat \<times> coverage) lab_op" where
  "run_fake env model_id budget fail_every cases =
     andthen (computed (fake_run (le_plain_dumps env) (le_compact_dumps env) (le_str env) (le_sha256 env) model_id budget fail_every cases)) (\<lambda>attempts.
     andthen (computed (case_map cases)) (\<lambda>m.
     andthen (keep_runs env m attempts) (\<lambda>_.
     andthen (computed (coverage_metrics cases attempts)) (\<lambda>cv. ret (length attempts, cv)))))"

definition recommend :: "lab_env \<Rightarrow> string \<Rightarrow> obj list \<Rightarrow> recommendation lab_op" where
  "recommend env model_id cases st =
     computed (checked (stored_attempts (le_loads env) st) (\<lambda>attempts.
       router_recommendation cases attempts (map sg_status (st_grades st)) model_id)) st"

definition coverage_obj :: "coverage \<Rightarrow> json" where
  "coverage_obj cv = JObj [(''expected_cases'', JInt (int (cv_expected cv))), (''observed_cases'', JInt (int (cv_observed cv))),
     (''missing_cases'', JArr (cv_missing cv)), (''coverage_rate'', JFloat (real_of_rat (cv_rate cv)))]"

definition grade_row :: "stored_grade \<Rightarrow> obj" where
  "grade_row g = [(''case_id'', sg_case_id g), (''status'', JStr (sg_status g)), (''evidence'', JStr (sg_evidence g)),
     (''grader'', JStr (sg_grader g))]"

definition with_coverage :: "lab_env \<Rightarrow> string \<Rightarrow> coverage \<Rightarrow> utext \<Rightarrow> string + utext" where
  "with_coverage env fmt cv content =
     (if fmt = ''json''
      then with_some (le_loads env (utf8_encode content)) ''JSONDecodeError'' (\<lambda>payload. with_obj payload ''TypeError'' (\<lambda>kvs.
        Inr (utf8_decode (le_report_dumps env (JObj (kvs @ [(''coverage'', coverage_obj cv)]))))))
      else Inr (content @ [10] @ utf8_decode (''Coverage: '' @ le_ascii_dumps env (coverage_obj cv)) @ [10]))"

definition ended_line :: "utext \<Rightarrow> utext" where
  "ended_line content = (if content \<noteq> [] \<and> last content = 10 then content else content @ [10])"

definition db_report :: "lab_env \<Rightarrow> string \<Rightarrow> obj list \<Rightarrow> utext lab_op" where
  "db_report env fmt cases st =
     computed (require (fmt \<in> set [''md'', ''json'', ''csv'', ''html'', ''svg''])
         (''unsupported format '' @ le_str env (JStr fmt) @ ''; use md, json, csv, html, or svg'')
       (checked (stored_attempts (le_loads env) st) (\<lambda>attempts.
        checked (render_report (le_report_dumps env) (le_dumps env) (le_str env) attempts (map grade_row (st_grades st)) fmt) (\<lambda>content.
        checked (if fmt = ''svg'' then Inr (utf8_decode (static_svg_chart (map sg_status (st_grades st))))
          else if fmt \<in> set [''json'', ''md''] then checked (coverage_metrics cases attempts) (\<lambda>cv. with_coverage env fmt cv content)
          else Inr content) (\<lambda>content. Inr (ended_line content)))))) st"

section \<open>The live run\<close>

record live_options =
  lo_allowed :: bool
  lo_out_exists :: bool
  lo_models :: "string list"
  lo_split :: string
  lo_max_requests :: int

definition live_plan :: "live_options \<Rightarrow> obj list \<Rightarrow> lab_plan" where
  "live_plan options cases = \<lparr>pl_cases = cases,
     pl_models = (if lo_models options = [] then map fm_model_id FREE_MODELS else lo_models options),
     pl_split = lo_split options, pl_max_requests = lo_max_requests options\<rparr>"

record live_files =
  lf_manifest :: lab_manifest
  lf_attempts :: string
  lf_completed :: nat
  lf_failed :: nat

definition with_status :: "string \<Rightarrow> obj list \<Rightarrow> nat" where
  "with_status status attempts = length (filter (\<lambda>a. jget a ''status'' = JStr status) attempts)"

definition run_opencode ::
  "lab_env \<Rightarrow> settings \<Rightarrow> http_outcome \<Rightarrow> world \<Rightarrow> lab_run \<Rightarrow> live_options \<Rightarrow> obj list \<Rightarrow> string + live_files" where
  "run_opencode env settings catalog world run options cases =
     require (lo_allowed options) ''live calls require --allow-free-provider-requests''
     (require (truthy (opencode_api_key settings)) ''save a key with scripts/setup_opencode.py before running''
     (require (\<not> lo_out_exists options) ''output directory already exists; choose a new run directory''
     (checked (run_opencode_candidates (le_dumps env) (le_compact_dumps env) (le_sha256 env) catalog world
         (the (opencode_api_key settings)) run (live_plan options cases)) (\<lambda>(manifest, attempts).
      Inr \<lparr>lf_manifest = manifest, lf_attempts = jsonl_text (le_dumps env) attempts,
        lf_completed = with_status ''completed'' attempts, lf_failed = with_status ''failed'' attempts\<rparr>))))"

end
