(* ===== verification/Lab_Cli_Props.thy ===== *)
theory Lab_Cli_Props
  imports Lab_Cli
begin

text \<open>
  The dry run of the benchmark from the suite to the draft recommendation: every case within the budget is stored,
  the injected failures are not graded, and the recommendation is decided by what is left.
\<close>

section \<open>One attempt\<close>

definition reference_answer :: "obj \<Rightarrow> json" where
  "reference_answer c = (case jget c ''evaluation'' of JObj kvs \<Rightarrow> jget kvs ''reference_answer'' | _ \<Rightarrow> JNull)"

definition graded_exactly :: "obj \<Rightarrow> bool" where
  "graded_exactly c \<longleftrightarrow> (case jget c ''evaluation'' of JObj kvs \<Rightarrow> jget kvs ''method'' = JStr ''exact_json'' | _ \<Rightarrow> False)"

text \<open>The \<open>json\<close> module reads back what it wrote.\<close>

definition reads_back :: "(string \<Rightarrow> json option) \<Rightarrow> (json \<Rightarrow> string) \<Rightarrow> json \<Rightarrow> bool" where
  "reads_back loads print v \<longleftrightarrow> (case loads (print v) of None \<Rightarrow> False | Some w \<Rightarrow> json_eq w v)"

text \<open>The word counts fit the integer columns.\<close>

definition messages_of :: "obj \<Rightarrow> json list" where
  "messages_of c = (case jget c ''messages'' of JArr ms \<Rightarrow> ms | _ \<Rightarrow> [])"

definition fits_store :: "lab_env \<Rightarrow> obj \<Rightarrow> bool" where
  "fits_store env c \<longleftrightarrow> (case content_words (le_str env) (messages_of c) of Inl e \<Rightarrow> False | Inr n \<Rightarrow> sqlite_int (int n))
     \<and> sqlite_int (int (words (le_plain_dumps env (reference_answer c))))"

definition ready_case :: "lab_env \<Rightarrow> obj \<Rightarrow> bool" where
  "ready_case env c \<longleftrightarrow> well_formed_case c \<and> graded_exactly c \<and> fits_store env c
     \<and> reads_back (le_loads env) (le_plain_dumps env) (reference_answer c)"

definition fake_id :: "string \<Rightarrow> nat \<Rightarrow> string" where
  "fake_id model_id i = ''fake-'' @ model_id @ ''-'' @ nat_str (i + 1)"

lemma fake_id_inject [simp]: "fake_id m i = fake_id m j \<longleftrightarrow> i = j"
  by (simp add: fake_id_def)

lemma jget_default_Cons: "jget_default ((k, v) # obj) key d = (if k = key then v else jget_default obj key d)"
  by (simp add: jget_default_def)

lemma jget_present: "jget c key = v \<Longrightarrow> v \<noteq> JNull \<Longrightarrow> map_of c key = Some v"
  by (auto simp: jget_def jget_default_def split: option.splits)

lemma ready_fields:
  assumes "ready_case env c"
  obtains kvs ms n where "map_of c ''case_id'' = Some (JStr (case_text c))" "map_of c ''evaluation'' = Some (JObj kvs)"
    "map_of c ''messages'' = Some (JArr ms)" "jget kvs ''method'' = JStr ''exact_json''" "jget kvs ''reference_answer'' = reference_answer c"
    "content_words (le_str env) ms = Inr n" "sqlite_int (int n)" "sqlite_int (int (words (le_plain_dumps env (reference_answer c))))"
    "reads_back (le_loads env) (le_plain_dumps env) (reference_answer c)"
proof -
  obtain kvs where e: "jget c ''evaluation'' = JObj kvs" "jget kvs ''method'' = JStr ''exact_json''"
    using assms by (auto simp: ready_case_def graded_exactly_def split: json.splits)
  obtain ms where m: "jget c ''messages'' = JArr ms"
    using assms by (auto simp: ready_case_def well_formed_case_def good_messages_def split: json.splits)
  obtain n where n: "content_words (le_str env) ms = Inr n" "sqlite_int (int n)"
    using assms m by (auto simp: ready_case_def fits_store_def messages_of_def split: sum.splits)
  show thesis
    using assms e m n jget_present [OF e(1)] jget_present [OF m] jget_present [of c "''case_id''"]
    by (intro that [of kvs ms n]) (auto simp: ready_case_def fits_store_def well_formed_case_def reference_answer_def)
qed

text \<open>The row of an attempt.\<close>

definition fake_row :: "lab_env \<Rightarrow> string \<Rightarrow> int \<Rightarrow> nat \<Rightarrow> obj \<Rightarrow> stored_attempt \<Rightarrow> bool" where
  "fake_row env model_id fail_every i c r \<longleftrightarrow> sa_attempt_id r = JStr (fake_id model_id i) \<and> sa_case_id r = JStr (case_text c)
     \<and> sa_provenance r = le_ascii_dumps env (fake_provenance (fake_failed fail_every i))
     \<and> JNull \<notin> {sa_model_id r, sa_status r, sa_created_at r}"

definition fake_made :: "lab_env \<Rightarrow> string \<Rightarrow> int \<Rightarrow> nat \<Rightarrow> obj \<Rightarrow> obj \<Rightarrow> bool" where
  "fake_made env model_id fail_every i c a \<longleftrightarrow> jget a ''attempt_id'' = JStr (fake_id model_id i)
     \<and> jget a ''status'' = JStr (if fake_failed fail_every i then ''failed'' else ''completed'')
     \<and> map_of a ''case_id'' = Some (JStr (case_text c))
     \<and> text_field a ''response'' = (if fake_failed fail_every i then [] else le_plain_dumps env (reference_answer c))"

lemma fake_attempt_Inr:
  assumes "ready_case env c"
  shows "\<exists>a r. fake_attempt (le_plain_dumps env) (le_compact_dumps env) (le_str env) (le_sha256 env) model_id fail_every i c = Inr a
    \<and> fake_made env model_id fail_every i c a
    \<and> attempt_row (le_ascii_dumps env) (le_render env) a = Inr r \<and> fake_row env model_id fail_every i c r"
proof -
  obtain kvs ms n where f: "map_of c ''case_id'' = Some (JStr (case_text c))" "map_of c ''evaluation'' = Some (JObj kvs)"
    "map_of c ''messages'' = Some (JArr ms)" "jget kvs ''reference_answer'' = reference_answer c"
    "content_words (le_str env) ms = Inr n" "sqlite_int (int n)" "sqlite_int (int (words (le_plain_dumps env (reference_answer c))))"
    using assms by (rule ready_fields)
  let ?failed = "fake_failed fail_every i"
  define response where "response = (if ?failed then [] else le_plain_dumps env (reference_answer c))"
  define tokens where "tokens = (if ?failed then 0 else int (words response))"
  define status where "status = (if ?failed then ''failed'' else ''completed'')"
  define hash where "hash = prompt_hash (le_compact_dumps env) (le_sha256 env) (JArr ms)"
  have tokens: "sqlite_int tokens" using f(7) by (auto simp: tokens_def response_def sqlite_int_def)
  let ?a = "[(''attempt_id'', JStr (fake_id model_id i)), (''case_id'', JStr (case_text c)), (''model_id'', JStr model_id),
    (''response'', JStr response), (''status'', JStr status), (''prompt_hash'', JStr hash), (''latency_ms'', JFloat (1 + of_nat i)),
    (''input_tokens'', JInt (int n)), (''output_tokens'', JInt tokens), (''provenance'', fake_provenance ?failed),
    (''created_at'', JStr ''1970-01-01T00:00:00Z'')]"
  have "fake_attempt (le_plain_dumps env) (le_compact_dumps env) (le_str env) (le_sha256 env) model_id fail_every i c = Inr ?a"
    using f(1-5) by (simp add: fake_attempt_def Let_def jget_default_def with_obj_def with_key_def elements_def checked_def
        fake_id_def response_def tokens_def status_def hash_def)
  moreover have "fake_made env model_id fail_every i c ?a"
    by (simp add: fake_made_def text_field_def jget_Cons status_def response_def)
  moreover have "\<exists>r. attempt_row (le_ascii_dumps env) (le_render env) ?a = Inr r \<and> fake_row env model_id fail_every i c r"
    using f(6) tokens by (simp add: attempt_row_def with_key_def jget_Cons jget_default_Cons bind_def text_column_def fake_row_def)
  ultimately show ?thesis by blast
qed

lemma grade_passes:
  assumes "ready_case env c"
  shows "\<exists>g. grade_attempt (le_loads env) c (le_plain_dumps env (reference_answer c)) = Inr g
    \<and> gr_status g = ''pass'' \<and> gr_case_id g = JStr (case_text c)"
proof -
  obtain kvs ms n where f: "map_of c ''case_id'' = Some (JStr (case_text c))" "map_of c ''evaluation'' = Some (JObj kvs)"
    "jget kvs ''method'' = JStr ''exact_json''" "jget kvs ''reference_answer'' = reference_answer c"
    "reads_back (le_loads env) (le_plain_dumps env) (reference_answer c)"
    using assms by (rule ready_fields)
  then obtain w where "le_loads env (le_plain_dumps env (reference_answer c)) = Some w" "json_eq w (reference_answer c)"
    by (auto simp: reads_back_def split: option.splits)
  with f show ?thesis
    by (simp add: grade_attempt_def jget_default_def with_obj_def with_key_def exact_json_grade_def)
qed

section \<open>The store\<close>

text \<open>Every row is one of the attempts before the \<open>i\<close>-th.\<close>

definition rows_before :: "string \<Rightarrow> nat \<Rightarrow> lab_store \<Rightarrow> bool" where
  "rows_before model_id i st \<longleftrightarrow> (\<forall>r \<in> set (st_attempts st). \<exists>j < i. sa_attempt_id r = JStr (fake_id model_id j))
     \<and> (\<forall>g \<in> set (st_grades st). \<exists>j < i. sg_attempt_id g = fake_id model_id j)"

definition passed_row :: "string \<Rightarrow> nat \<Rightarrow> stored_grade \<Rightarrow> bool" where
  "passed_row model_id i g \<longleftrightarrow> sg_attempt_id g = fake_id model_id i \<and> sg_status g = ''pass''"

lemma keep_run_fake:
  assumes ready: "ready_case env c" and found: "case_of m (JStr (case_text c)) = Some c" and before: "rows_before model_id i st"
  shows "\<exists>a r gs. fake_attempt (le_plain_dumps env) (le_compact_dumps env) (le_str env) (le_sha256 env) model_id fail_every i c = Inr a
    \<and> keep_run env m a st = Ok () (st\<lparr>st_attempts := st_attempts st @ [r], st_grades := st_grades st @ gs\<rparr>)
    \<and> map_of a ''case_id'' = Some (JStr (case_text c)) \<and> fake_row env model_id fail_every i c r
    \<and> list_all (passed_row model_id i) gs \<and> length gs = (if fake_failed fail_every i then 0 else 1)"
proof -
  obtain a r where a: "fake_attempt (le_plain_dumps env) (le_compact_dumps env) (le_str env) (le_sha256 env) model_id fail_every i c = Inr a"
    and made: "fake_made env model_id fail_every i c a"
    and r: "attempt_row (le_ascii_dumps env) (le_render env) a = Inr r" "fake_row env model_id fail_every i c r"
    using fake_attempt_Inr [OF ready] by blast
  have "insertable (st_attempts st) r"
    using before r(2) by (force simp: insertable_def rows_before_def fake_row_def)
  then have kept: "keep_attempt env a st = Ok () (st\<lparr>st_attempts := st_attempts st @ [r]\<rparr>)"
    using r(1) by (simp add: keep_attempt_def adding_def add_attempt_def checked_def)
  show ?thesis
  proof (cases "fake_failed fail_every i")
    case True
    then show ?thesis
      using a kept made r(2) by (intro exI [of _ a] exI [of _ r] exI [of _ "[]"]) (simp add: keep_run_def andthen_def fake_made_def ret_def)
  next
    case False
    obtain g where g: "grade_attempt (le_loads env) c (le_plain_dumps env (reference_answer c)) = Inr g"
      "gr_status g = ''pass''" "gr_case_id g = JStr (case_text c)"
      using grade_passes [OF ready] by blast
    let ?row = "\<lparr>sg_attempt_id = fake_id model_id i, sg_case_id = JStr (case_text c), sg_status = gr_status g,
      sg_evidence = gr_evidence g, sg_grader = gr_grader g\<rparr>"
    have others: "filter (\<lambda>x. sg_attempt_id x \<noteq> fake_id model_id i) (st_grades st) = st_grades st"
      using before by (force simp: rows_before_def filter_id_conv)
    have case_id: "jget a ''case_id'' = JStr (case_text c)" using made by (simp add: fake_made_def jget_def jget_default_def)
    have "keep_grade env m a st' = Ok () (st'\<lparr>st_grades := st_grades st @ [?row]\<rparr>)" if "st_grades st' = st_grades st" for st'
      using made found g others that False case_id
      by (simp add: keep_grade_def fake_made_def text_field_def [of _ "''attempt_id''"] with_some_def computed_def adding_def
          add_grade_def bind_def text_column_def)
    then show ?thesis
      using a kept made r(2) g(2) False
      by (intro exI [of _ a] exI [of _ r] exI [of _ "[?row]"])
        (simp add: keep_run_def andthen_def fake_made_def passed_row_def)
  qed
qed

lemma keep_runs_fake:
  assumes "list_all (ready_case env) cs" and "list_all (\<lambda>c. case_of m (JStr (case_text c)) = Some c) cs" and "rows_before model_id i st"
  shows "\<exists>as rs gs. fake_from (fake_attempt (le_plain_dumps env) (le_compact_dumps env) (le_str env) (le_sha256 env) model_id fail_every)
        budget i cs = Inr as
    \<and> keep_runs env m as st = Ok () (st\<lparr>st_attempts := st_attempts st @ rs, st_grades := st_grades st @ gs\<rparr>)
    \<and> length as = min (nat (budget - int i)) (length cs)
    \<and> list_all2 (\<lambda>a c. map_of a ''case_id'' = Some (JStr (case_text c))) as (take (length as) cs)
    \<and> list_all2 (\<lambda>r (j, c). fake_row env model_id fail_every j c r) rs (List.enumerate i (take (length as) cs))
    \<and> list_all (\<lambda>g. sg_status g = ''pass'') gs
    \<and> length gs = length (filter (\<lambda>j. \<not> fake_failed fail_every j) [i ..< i + length as])"
  using assms
proof (induction cs arbitrary: i st)
  case (Cons c cs)
  let ?run = "fake_attempt (le_plain_dumps env) (le_compact_dumps env) (le_str env) (le_sha256 env) model_id fail_every"
  show ?case
  proof (cases "int i \<ge> budget")
    case False
    obtain a r g where one: "?run i c = Inr a"
      "keep_run env m a st = Ok () (st\<lparr>st_attempts := st_attempts st @ [r], st_grades := st_grades st @ g\<rparr>)" (is "_ = Ok () ?st'")
      "map_of a ''case_id'' = Some (JStr (case_text c))" "fake_row env model_id fail_every i c r"
      "list_all (passed_row model_id i) g" "length g = (if fake_failed fail_every i then 0 else 1)"
      using keep_run_fake [of env c m model_id i st fail_every] Cons.prems by auto
    have before: "rows_before model_id (i + 1) ?st'"
      using Cons.prems(3) one(4,5) by (fastforce simp: rows_before_def fake_row_def passed_row_def list_all_iff less_Suc_eq)
    obtain as rs gs where rest: "fake_from ?run budget (i + 1) cs = Inr as"
      "keep_runs env m as ?st' = Ok () (?st'\<lparr>st_attempts := st_attempts ?st' @ rs, st_grades := st_grades ?st' @ gs\<rparr>)"
      "length as = min (nat (budget - int (i + 1))) (length cs)"
      "list_all2 (\<lambda>a c. map_of a ''case_id'' = Some (JStr (case_text c))) as (take (length as) cs)"
      "list_all2 (\<lambda>r (j, c). fake_row env model_id fail_every j c r) rs (List.enumerate (i + 1) (take (length as) cs))"
      "list_all (\<lambda>g. sg_status g = ''pass'') gs"
      "length gs = length (filter (\<lambda>j. \<not> fake_failed fail_every j) [i + 1 ..< i + 1 + length as])"
      using Cons.IH [OF _ _ before] Cons.prems(1,2) by auto
    have "length (a # as) = min (nat (budget - int i)) (length (c # cs))" using False rest(3) by (simp add: min_def) linarith?
    moreover have "fake_from ?run budget i (c # cs) = Inr (a # as)" using False one(1) rest(1) by (simp add: checked_def)
    moreover have "keep_runs env m (a # as) st
        = Ok () (st\<lparr>st_attempts := st_attempts st @ (r # rs), st_grades := st_grades st @ (g @ gs)\<rparr>)"
      using one(2) rest(2) by (simp add: andthen_Ok)
    moreover have "length (g @ gs) = length (filter (\<lambda>j. \<not> fake_failed fail_every j) [i ..< i + length (a # as)])"
      using one(6) rest(7) by (simp add: upt_conv_Cons del: upt_Suc)
    moreover have "list_all (\<lambda>g. sg_status g = ''pass'') (g @ gs)" using one(5) rest(6) by (auto simp: list_all_iff passed_row_def)
    moreover have "list_all2 (\<lambda>a c. map_of a ''case_id'' = Some (JStr (case_text c))) (a # as) (take (length (a # as)) (c # cs))"
      using one(3) rest(4) by simp
    moreover have "list_all2 (\<lambda>r (j, c). fake_row env model_id fail_every j c r) (r # rs) (List.enumerate i (take (length (a # as)) (c # cs)))"
      using one(4) rest(5) by simp
    ultimately show ?thesis by blast
  qed (simp add: ret_def)
qed (simp add: ret_def)

section \<open>Coverage\<close>

lemma json_eq_texts [simp]: "json_eq (JStr s) (JStr t) \<longleftrightarrow> s = t"
  by (simp add: json_eq.simps json_num_def jnumber_def)

lemma distinct_ids_texts: "distinct ts \<Longrightarrow> distinct_ids (map JStr ts) = map JStr ts"
  by (induction ts) (auto simp: filter_id_conv)

lemma in_ids_texts [simp]: "in_ids (map JStr ts) (JStr t) \<longleftrightarrow> t \<in> set ts"
  by (auto simp: in_ids_def list_ex_iff)

lemma case_key_text: "map_of r ''case_id'' = Some (JStr t) \<Longrightarrow> case_key r = Inr (JStr t)"
  by (simp add: case_key_def with_key_def require_def hashable_def)

lemma id_set_texts:
  assumes "list_all2 (\<lambda>r t. map_of r ''case_id'' = Some (JStr t)) rs ts" and "distinct ts"
  shows "id_set rs = Inr (map JStr ts)"
proof -
  have "check_all case_key rs = Inr (map JStr ts)"
    using assms(1) by (auto simp: check_all_Inr list_all2_map2 intro: list_all2_mono case_key_text)
  then show ?thesis using distinct_ids_texts [OF assms(2)] by (simp add: id_set_def checked_def)
qed

lemma sort_ids_texts: "\<exists>vs. sort_ids (map JStr ts) = Inr vs"
proof -
  have "texts_of (map JStr ts) = ts" by (induction ts) (simp_all add: texts_of_def map_filter_simps string_or_none_def)
  then show ?thesis by (simp add: sort_ids_def)
qed

lemma coverage_of_prefix:
  assumes "id_set cases = Inr (map JStr ts)" and "id_set attempts = Inr (map JStr (take k ts))" and "distinct ts"
  shows "\<exists>cv. coverage_metrics cases attempts = Inr cv \<and> (cv_rate cv = 1 \<longleftrightarrow> length ts \<le> k)"
proof -
  have seen: "filter (\<lambda>t. t \<in> set (take k ts)) ts = take k ts"
  proof -
    have "set (take k ts) \<inter> set (drop k ts) = {}"
      using assms(3) by (metis append_take_drop_id distinct_append)
    then have "filter (\<lambda>t. t \<in> set (take k ts)) (take k ts @ drop k ts) = take k ts"
      by (auto simp: filter_append filter_id_conv filter_empty_conv disjoint_iff simp del: append_take_drop_id)
    then show ?thesis by simp
  qed
  let ?ids = "map JStr (take k ts)"
  have both: "filter (in_ids ?ids) (map JStr ts) = ?ids"
    using seen by (simp add: filter_map comp_def)
  obtain vs where "sort_ids (filter (\<lambda>i. \<not> in_ids ?ids i) (map JStr ts)) = Inr vs"
    using sort_ids_texts by (simp add: filter_map) metis
  then obtain cv where "coverage_metrics cases attempts = Inr cv"
    and rate: "cv_rate cv = (if ts = [] then 1 else of_nat (min (length ts) k) / of_nat (length ts))"
    using assms(1,2) both by (simp add: coverage_metrics_def checked_def Let_def)
  moreover have "cv_rate cv = 1 \<longleftrightarrow> length ts \<le> k"
    unfolding rate by (auto simp: min_def divide_eq_1_iff)
  ultimately show ?thesis by blast
qed

lemma find_SomeD: "List.find q xs = Some x \<Longrightarrow> x \<in> set xs \<and> q x"
  by (induction xs) (auto split: if_splits)

lemma case_of_distinct:
  assumes "list_all well_formed_case cases" and "distinct (map case_text cases)"
  shows "\<exists>m. case_map cases = Inr m \<and> list_all (\<lambda>c. case_of m (JStr (case_text c)) = Some c) cases"
proof -
  let ?m = "map (\<lambda>c. (JStr (case_text c), c)) cases"
  have key: "case_key c = Inr (JStr (case_text c))" if "c \<in> set cases" for c
    using that assms(1) jget_present [of c "''case_id''"] by (auto simp: list_all_iff well_formed_case_def intro: case_key_text)
  have "case_map cases = Inr ?m"
    using key by (auto simp: case_map_def check_all_Inr list_all2_map2 checked_Inr intro!: list_all2_all_nthI)
  moreover have "case_of ?m (JStr (case_text c)) = Some c" if "c \<in> set cases" for c
  proof -
    have "(JStr (case_text c), c) \<in> set (rev ?m)" using that by simp
    then obtain x where found: "List.find (\<lambda>(k, c'). json_eq k (JStr (case_text c))) (rev ?m) = Some x"
      using find_None_iff [of "\<lambda>(k, c'). json_eq k (JStr (case_text c))" "rev ?m"] by fastforce
    then have "snd x \<in> set cases" "case_text (snd x) = case_text c" using find_SomeD [OF found] by auto
    then have "snd x = c" using that assms(2) by (simp add: distinct_map inj_on_def)
    with found show ?thesis by (simp add: case_of_def)
  qed
  ultimately show ?thesis by (auto simp: list_all_iff)
qed

section \<open>From the suite to the recommendation\<close>

definition empty_store :: lab_store where
  "empty_store = \<lparr>st_attempts = [], st_grades = []\<rparr>"

lemma some_completed:
  assumes "0 \<le> fail_every"
  shows "filter (\<lambda>j. \<not> fake_failed fail_every j) [0 ..< n] \<noteq> [] \<longleftrightarrow> 0 < n \<and> fail_every \<noteq> 1"
proof (cases "n = 0")
  case False
  have "fake_failed fail_every 0 \<longleftrightarrow> fail_every = 1"
    using assms by (cases "fail_every \<le> 1") (auto simp: fake_failed_def)
  moreover have "fake_failed 1 j" for j by (simp add: fake_failed_def)
  moreover have "0 \<in> set [0 ..< n]" using False by simp
  ultimately show ?thesis using False by (auto simp: filter_empty_conv)
qed simp

lemma stored_ids:
  assumes "list_all2 (\<lambda>r (j, c). fake_row env model_id fail_every j c r) rs (List.enumerate i cs)"
    and "list_all (\<lambda>b. reads_back (le_loads env) (le_ascii_dumps env) (fake_provenance b)) [True, False]"
  shows "\<exists>objs. check_all (stored_attempt_obj (le_loads env)) rs = Inr objs
    \<and> list_all2 (\<lambda>a t. map_of a ''case_id'' = Some (JStr t)) objs (map case_text cs)"
  using assms(1)
proof (induction cs arbitrary: i rs)
  case (Cons c cs)
  then obtain r rs' where rs: "rs = r # rs'" "fake_row env model_id fail_every i c r"
    "list_all2 (\<lambda>r (j, c). fake_row env model_id fail_every j c r) rs' (List.enumerate (Suc i) cs)"
    by (auto simp: list_all2_Cons2)
  obtain objs where "check_all (stored_attempt_obj (le_loads env)) rs' = Inr objs"
    "list_all2 (\<lambda>a t. map_of a ''case_id'' = Some (JStr t)) objs (map case_text cs)"
    using Cons.IH [OF rs(3)] by blast
  moreover have "reads_back (le_loads env) (le_ascii_dumps env) (fake_provenance (fake_failed fail_every i))"
    using assms(2) by (cases "fake_failed fail_every i") auto
  then obtain x where "le_loads env (sa_provenance r) = Some x"
    using rs(2) by (auto simp: reads_back_def fake_row_def split: option.splits)
  then obtain a where "stored_attempt_obj (le_loads env) r = Inr a" "map_of a ''case_id'' = Some (JStr (case_text c))"
    using rs(2) by (simp add: stored_attempt_obj_def with_some_def fake_row_def)
  ultimately have "check_all (stored_attempt_obj (le_loads env)) rs = Inr (a # objs)
      \<and> list_all2 (\<lambda>a t. map_of a ''case_id'' = Some (JStr t)) (a # objs) (map case_text (c # cs))"
    using rs(1) by (simp add: checked_def)
  then show ?case by blast
qed simp

lemma run_again_refused:
  assumes "fake_run (le_plain_dumps env) (le_compact_dumps env) (le_str env) (le_sha256 env) model_id budget fail_every cases = Inr (a # as)"
    and "case_map cases = Inr m" and "ready_case env c" and "r \<in> set (st_attempts st)"
    and "fake_attempt (le_plain_dumps env) (le_compact_dumps env) (le_str env) (le_sha256 env) model_id fail_every i c = Inr a"
    and "sa_attempt_id r = JStr (fake_id model_id i)"
  shows "run_fake env model_id budget fail_every cases st = Raise (already_exists (le_str env) (JStr (fake_id model_id i))) st"
proof -
  obtain r' where r': "attempt_row (le_ascii_dumps env) (le_render env) a = Inr r'" "sa_attempt_id r' = JStr (fake_id model_id i)"
    and made: "fake_made env model_id fail_every i c a"
    using fake_attempt_Inr [OF assms(3), of model_id fail_every i] assms(5) by (auto simp: fake_row_def)
  have "\<not> insertable (st_attempts st) r'" using assms(4,6) r'(2) by (force simp: insertable_def)
  then have "keep_attempt env a st = Raise (already_exists (le_str env) (JStr (fake_id model_id i))) st"
    using made r'(1) by (simp add: keep_attempt_def adding_def add_attempt_def checked_def fake_made_def)
  then show ?thesis
    using assms(1,2) by (simp add: run_fake_def computed_def keep_run_def andthen_Raise)
qed


text \<open>Two cases of which the second fails; documents are the values of their numbers in unary.\<close>

definition sample_print :: "json \<Rightarrow> string" where
  "sample_print v = (if v = fake_provenance True then ''y'' else if v = fake_provenance False then ''n'' else sample_dumps v)"

definition sample_loads :: "string \<Rightarrow> json option" where
  "sample_loads s = (if s = ''y'' then Some (fake_provenance True) else if s = ''n'' then Some (fake_provenance False)
     else if s = [] then None else Some (JInt (int (length s) - 1)))"

definition sample_env :: lab_env where
  "sample_env = \<lparr>le_dumps = sample_print, le_ascii_dumps = sample_print, le_plain_dumps = sample_print, le_compact_dumps = sample_print,
     le_report_dumps = sample_print, le_loads = sample_loads, le_str = sample_print, le_render = (\<lambda>x. []), le_sha256 = id\<rparr>"


end
