(* ===== verification/Names.thy ===== *)
theory Names
  imports Main
begin

text \<open>
  The identifiers of the database schema. A table or column is a number with its name as an abbreviation (\<open>t_\<close> for tables,
  \<open>c_\<close> for columns), so that schemas are small terms; \<open>NAMES\<close> is the name in the database, and \<open>names_distinct\<close> says that
  no two tables and no two columns share a number or a name.
\<close>

type_synonym ident = int

abbreviation t_accounts :: ident where "t_accounts \<equiv> 1"
abbreviation t_inbox_events :: ident where "t_inbox_events \<equiv> 2"
abbreviation t_platform_budgets :: ident where "t_platform_budgets \<equiv> 3"
abbreviation t_billing_events :: ident where "t_billing_events \<equiv> 4"
abbreviation t_subscriptions :: ident where "t_subscriptions \<equiv> 5"
abbreviation t_usage_windows :: ident where "t_usage_windows \<equiv> 6"
abbreviation t_users :: ident where "t_users \<equiv> 7"
abbreviation t_budget_reservations :: ident where "t_budget_reservations \<equiv> 8"
abbreviation t_notes :: ident where "t_notes \<equiv> 9"
abbreviation t_reminders :: ident where "t_reminders \<equiv> 10"
abbreviation t_runs :: ident where "t_runs \<equiv> 11"
abbreviation t_tasks :: ident where "t_tasks \<equiv> 12"
abbreviation t_cost_ledger :: ident where "t_cost_ledger \<equiv> 13"
abbreviation t_outbox_events :: ident where "t_outbox_events \<equiv> 14"
abbreviation t_usage_periods :: ident where "t_usage_periods \<equiv> 15"
abbreviation t_policy_bundles :: ident where "t_policy_bundles \<equiv> 16"
abbreviation t_policy_bundle_events :: ident where "t_policy_bundle_events \<equiv> 17"
abbreviation t_routing_decisions :: ident where "t_routing_decisions \<equiv> 18"
abbreviation t_routing_records :: ident where "t_routing_records \<equiv> 19"
abbreviation t_message_feedback :: ident where "t_message_feedback \<equiv> 20"
abbreviation t_gateway_request_days :: ident where "t_gateway_request_days \<equiv> 21"
abbreviation t_runs_new :: ident where "t_runs_new \<equiv> 22"
abbreviation t_budget_reservations_new :: ident where "t_budget_reservations_new \<equiv> 23"
abbreviation c_accepted_at :: ident where "c_accepted_at \<equiv> 24"
abbreviation c_account_id :: ident where "c_account_id \<equiv> 25"
abbreviation c_active_theme :: ident where "c_active_theme \<equiv> 26"
abbreviation c_actor :: ident where "c_actor \<equiv> 27"
abbreviation c_actual_micro :: ident where "c_actual_micro \<equiv> 28"
abbreviation c_artifact_version :: ident where "c_artifact_version \<equiv> 29"
abbreviation c_attempt_id :: ident where "c_attempt_id \<equiv> 30"
abbreviation c_attempts :: ident where "c_attempts \<equiv> 31"
abbreviation c_bundle_id :: ident where "c_bundle_id \<equiv> 32"
abbreviation c_channel :: ident where "c_channel \<equiv> 33"
abbreviation c_checksums_sha256 :: ident where "c_checksums_sha256 \<equiv> 34"
abbreviation c_clerk_subject :: ident where "c_clerk_subject \<equiv> 35"
abbreviation c_completed :: ident where "c_completed \<equiv> 36"
abbreviation c_completed_at :: ident where "c_completed_at \<equiv> 37"
abbreviation c_content :: ident where "c_content \<equiv> 38"
abbreviation c_cost_micro :: ident where "c_cost_micro \<equiv> 39"
abbreviation c_created_at :: ident where "c_created_at \<equiv> 40"
abbreviation c_day_key :: ident where "c_day_key \<equiv> 41"
abbreviation c_deleted :: ident where "c_deleted \<equiv> 42"
abbreviation c_display_name :: ident where "c_display_name \<equiv> 43"
abbreviation c_due_at_utc :: ident where "c_due_at_utc \<equiv> 44"
abbreviation c_eligible_actions :: ident where "c_eligible_actions \<equiv> 45"
abbreviation c_event_type :: ident where "c_event_type \<equiv> 46"
abbreviation c_event_version :: ident where "c_event_version \<equiv> 47"
abbreviation c_everyday_limit :: ident where "c_everyday_limit \<equiv> 48"
abbreviation c_everyday_used :: ident where "c_everyday_used \<equiv> 49"
abbreviation c_executed_action :: ident where "c_executed_action \<equiv> 50"
abbreviation c_exploration :: ident where "c_exploration \<equiv> 51"
abbreviation c_feature_schema_version :: ident where "c_feature_schema_version \<equiv> 52"
abbreviation c_from_state :: ident where "c_from_state \<equiv> 53"
abbreviation c_generation :: ident where "c_generation \<equiv> 54"
abbreviation c_harness_version :: ident where "c_harness_version \<equiv> 55"
abbreviation c_id :: ident where "c_id \<equiv> 56"
abbreviation c_idempotency_key :: ident where "c_idempotency_key \<equiv> 57"
abbreviation c_latency_ms :: ident where "c_latency_ms \<equiv> 58"
abbreviation c_lease_until :: ident where "c_lease_until \<equiv> 59"
abbreviation c_logical_key :: ident where "c_logical_key \<equiv> 60"
abbreviation c_logical_request_id :: ident where "c_logical_request_id \<equiv> 61"
abbreviation c_measurement :: ident where "c_measurement \<equiv> 62"
abbreviation c_model_id :: ident where "c_model_id \<equiv> 63"
abbreviation c_name :: ident where "c_name \<equiv> 64"
abbreviation c_outcome :: ident where "c_outcome \<equiv> 65"
abbreviation c_owner_user_id :: ident where "c_owner_user_id \<equiv> 66"
abbreviation c_payload :: ident where "c_payload \<equiv> 67"
abbreviation c_payload_hash :: ident where "c_payload_hash \<equiv> 68"
abbreviation c_period_anchor :: ident where "c_period_anchor \<equiv> 69"
abbreviation c_period_key :: ident where "c_period_key \<equiv> 70"
abbreviation c_plan_id :: ident where "c_plan_id \<equiv> 71"
abbreviation c_policy_version :: ident where "c_policy_version \<equiv> 72"
abbreviation c_previous_run_id :: ident where "c_previous_run_id \<equiv> 73"
abbreviation c_prompt_version :: ident where "c_prompt_version \<equiv> 74"
abbreviation c_provider :: ident where "c_provider \<equiv> 75"
abbreviation c_provider_event_id :: ident where "c_provider_event_id \<equiv> 76"
abbreviation c_rate_version :: ident where "c_rate_version \<equiv> 77"
abbreviation c_rating :: ident where "c_rating \<equiv> 78"
abbreviation c_reason :: ident where "c_reason \<equiv> 79"
abbreviation c_received_at :: ident where "c_received_at \<equiv> 80"
abbreviation c_regenerate_reason :: ident where "c_regenerate_reason \<equiv> 81"
abbreviation c_request_hash :: ident where "c_request_hash \<equiv> 82"
abbreviation c_requests_used :: ident where "c_requests_used \<equiv> 83"
abbreviation c_reservation_id :: ident where "c_reservation_id \<equiv> 84"
abbreviation c_reserved_micro :: ident where "c_reserved_micro \<equiv> 85"
abbreviation c_reserved_tokens :: ident where "c_reserved_tokens \<equiv> 86"
abbreviation c_reset_at :: ident where "c_reset_at \<equiv> 87"
abbreviation c_response_text :: ident where "c_response_text \<equiv> 88"
abbreviation c_role :: ident where "c_role \<equiv> 89"
abbreviation c_routing_context :: ident where "c_routing_context \<equiv> 90"
abbreviation c_run_id :: ident where "c_run_id \<equiv> 91"
abbreviation c_selected_action :: ident where "c_selected_action \<equiv> 92"
abbreviation c_selection_probability :: ident where "c_selection_probability \<equiv> 93"
abbreviation c_settled_micro :: ident where "c_settled_micro \<equiv> 94"
abbreviation c_shadow :: ident where "c_shadow \<equiv> 95"
abbreviation c_signer_public_key :: ident where "c_signer_public_key \<equiv> 96"
abbreviation c_source_event_id :: ident where "c_source_event_id \<equiv> 97"
abbreviation c_spend_limit_micro :: ident where "c_spend_limit_micro \<equiv> 98"
abbreviation c_stage :: ident where "c_stage \<equiv> 99"
abbreviation c_started_at :: ident where "c_started_at \<equiv> 100"
abbreviation c_state :: ident where "c_state \<equiv> 101"
abbreviation c_status :: ident where "c_status \<equiv> 102"
abbreviation c_storage_path :: ident where "c_storage_path \<equiv> 103"
abbreviation c_task_domain :: ident where "c_task_domain \<equiv> 104"
abbreviation c_text :: ident where "c_text \<equiv> 105"
abbreviation c_tier :: ident where "c_tier \<equiv> 106"
abbreviation c_timezone :: ident where "c_timezone \<equiv> 107"
abbreviation c_title :: ident where "c_title \<equiv> 108"
abbreviation c_to_state :: ident where "c_to_state \<equiv> 109"
abbreviation c_token_limit :: ident where "c_token_limit \<equiv> 110"
abbreviation c_token_version :: ident where "c_token_version \<equiv> 111"
abbreviation c_tokens_reserved :: ident where "c_tokens_reserved \<equiv> 112"
abbreviation c_tokens_settled :: ident where "c_tokens_settled \<equiv> 113"
abbreviation c_unlocked_tier :: ident where "c_unlocked_tier \<equiv> 114"
abbreviation c_updated_at :: ident where "c_updated_at \<equiv> 115"
abbreviation c_usage_period_id :: ident where "c_usage_period_id \<equiv> 116"
abbreviation c_usage_window_id :: ident where "c_usage_window_id \<equiv> 117"
abbreviation c_user_id :: ident where "c_user_id \<equiv> 118"
abbreviation c_version :: ident where "c_version \<equiv> 119"
abbreviation c_window_key :: ident where "c_window_key \<equiv> 120"

definition TABLE_NAMES :: "(ident \<times> string) list" where
  "TABLE_NAMES =
    [(t_accounts, ''accounts''), (t_inbox_events, ''inbox_events''), (t_platform_budgets, ''platform_budgets''), (t_billing_events, ''billing_events''),
     (t_subscriptions, ''subscriptions''), (t_usage_windows, ''usage_windows''), (t_users, ''users''), (t_budget_reservations, ''budget_reservations''),
     (t_notes, ''notes''), (t_reminders, ''reminders''), (t_runs, ''runs''), (t_tasks, ''tasks''),
     (t_cost_ledger, ''cost_ledger''), (t_outbox_events, ''outbox_events''), (t_usage_periods, ''usage_periods''), (t_policy_bundles, ''policy_bundles''),
     (t_policy_bundle_events, ''policy_bundle_events''), (t_routing_decisions, ''routing_decisions''), (t_routing_records, ''routing_records''), (t_message_feedback, ''message_feedback''),
     (t_gateway_request_days, ''gateway_request_days''), (t_runs_new, ''runs_new''), (t_budget_reservations_new, ''budget_reservations_new'')]"

definition COLUMN_NAMES :: "(ident \<times> string) list" where
  "COLUMN_NAMES =
    [(c_accepted_at, ''accepted_at''), (c_account_id, ''account_id''), (c_active_theme, ''active_theme''), (c_actor, ''actor''),
     (c_actual_micro, ''actual_micro''), (c_artifact_version, ''artifact_version''), (c_attempt_id, ''attempt_id''), (c_attempts, ''attempts''),
     (c_bundle_id, ''bundle_id''), (c_channel, ''channel''), (c_checksums_sha256, ''checksums_sha256''), (c_clerk_subject, ''clerk_subject''),
     (c_completed, ''completed''), (c_completed_at, ''completed_at''), (c_content, ''content''), (c_cost_micro, ''cost_micro''),
     (c_created_at, ''created_at''), (c_day_key, ''day_key''), (c_deleted, ''deleted''), (c_display_name, ''display_name''),
     (c_due_at_utc, ''due_at_utc''), (c_eligible_actions, ''eligible_actions''), (c_event_type, ''event_type''), (c_event_version, ''event_version''),
     (c_everyday_limit, ''everyday_limit''), (c_everyday_used, ''everyday_used''), (c_executed_action, ''executed_action''), (c_exploration, ''exploration''),
     (c_feature_schema_version, ''feature_schema_version''), (c_from_state, ''from_state''), (c_generation, ''generation''), (c_harness_version, ''harness_version''),
     (c_id, ''id''), (c_idempotency_key, ''idempotency_key''), (c_latency_ms, ''latency_ms''), (c_lease_until, ''lease_until''),
     (c_logical_key, ''logical_key''), (c_logical_request_id, ''logical_request_id''), (c_measurement, ''measurement''), (c_model_id, ''model_id''),
     (c_name, ''name''), (c_outcome, ''outcome''), (c_owner_user_id, ''owner_user_id''), (c_payload, ''payload''),
     (c_payload_hash, ''payload_hash''), (c_period_anchor, ''period_anchor''), (c_period_key, ''period_key''), (c_plan_id, ''plan_id''),
     (c_policy_version, ''policy_version''), (c_previous_run_id, ''previous_run_id''), (c_prompt_version, ''prompt_version''), (c_provider, ''provider''),
     (c_provider_event_id, ''provider_event_id''), (c_rate_version, ''rate_version''), (c_rating, ''rating''), (c_reason, ''reason''),
     (c_received_at, ''received_at''), (c_regenerate_reason, ''regenerate_reason''), (c_request_hash, ''request_hash''), (c_requests_used, ''requests_used''),
     (c_reservation_id, ''reservation_id''), (c_reserved_micro, ''reserved_micro''), (c_reserved_tokens, ''reserved_tokens''), (c_reset_at, ''reset_at''),
     (c_response_text, ''response_text''), (c_role, ''role''), (c_routing_context, ''routing_context''), (c_run_id, ''run_id''),
     (c_selected_action, ''selected_action''), (c_selection_probability, ''selection_probability''), (c_settled_micro, ''settled_micro''), (c_shadow, ''shadow''),
     (c_signer_public_key, ''signer_public_key''), (c_source_event_id, ''source_event_id''), (c_spend_limit_micro, ''spend_limit_micro''), (c_stage, ''stage''),
     (c_started_at, ''started_at''), (c_state, ''state''), (c_status, ''status''), (c_storage_path, ''storage_path''),
     (c_task_domain, ''task_domain''), (c_text, ''text''), (c_tier, ''tier''), (c_timezone, ''timezone''),
     (c_title, ''title''), (c_to_state, ''to_state''), (c_token_limit, ''token_limit''), (c_token_version, ''token_version''),
     (c_tokens_reserved, ''tokens_reserved''), (c_tokens_settled, ''tokens_settled''), (c_unlocked_tier, ''unlocked_tier''), (c_updated_at, ''updated_at''),
     (c_usage_period_id, ''usage_period_id''), (c_usage_window_id, ''usage_window_id''), (c_user_id, ''user_id''), (c_version, ''version''),
     (c_window_key, ''window_key'')]"

lemma idents_distinct: "distinct (map fst (TABLE_NAMES @ COLUMN_NAMES))"
  by code_simp

lemma names_distinct: "distinct (map snd TABLE_NAMES) \<and> distinct (map snd COLUMN_NAMES)"
  by code_simp

end
