(* ===== verification/Schema.thy ===== *)
theory Schema
  imports Names
begin

text \<open>
  Database schemas and the operations of a migration (\<open>migrations/versions\<close>), on the two databases the program runs on.
  An operation that the database refuses has the value \<open>None\<close>. Tables are taken to hold rows, so a column that is added must
  be nullable or have a server default. PostgreSQL names an unnamed constraint after its table and columns; SQLite leaves it
  unnamed.
\<close>

datatype dialect = Sqlite | Postgresql

datatype column_type = VARCHAR int | TEXT | INTEGER | BIGINT | FLOAT | BOOLEAN | DATE | TIMESTAMPTZ

text \<open>The name of a constraint or an index: as written, by PostgreSQL's rule for unnamed keys, by SQLAlchemy's for indexes (\<open>ix_table_column\<close>), or
  by the naming convention that a batch operation sets.\<close>

datatype object_name =
    Named string
  | Key_name ident "ident list"
  | Fkey_name ident "ident list"
  | Index_name ident ident
  | Convention_name ident ident ident

record table_column =
  co_name :: ident
  co_type :: column_type
  co_nullable :: bool
  co_default :: "string option"

datatype delete_rule = No_action | Cascade | Set_null

datatype table_constraint =
    Unique "object_name option" "ident list"
  | Foreign "object_name option" "ident list" ident "ident list" delete_rule
  | Check object_name "ident list" string

record table_index =
  ix_name :: object_name
  ix_columns :: "ident list"
  ix_unique :: bool
  ix_where :: "string option"

record table =
  tb_columns :: "table_column list"
  tb_primary :: "ident list"
  tb_constraints :: "table_constraint list"
  tb_indexes :: "table_index list"

type_synonym schema = "(ident \<times> table) list"

definition column :: "ident \<Rightarrow> column_type \<Rightarrow> bool \<Rightarrow> table_column" where
  "column name type nullable = \<lparr>co_name = name, co_type = type, co_nullable = nullable, co_default = None\<rparr>"

definition column_default :: "ident \<Rightarrow> column_type \<Rightarrow> bool \<Rightarrow> string \<Rightarrow> table_column" where
  "column_default name type nullable value = \<lparr>co_name = name, co_type = type, co_nullable = nullable, co_default = Some value\<rparr>"

definition index :: "object_name \<Rightarrow> ident list \<Rightarrow> table_index" where
  "index name columns = \<lparr>ix_name = name, ix_columns = columns, ix_unique = False, ix_where = None\<rparr>"

definition table :: "table_column list \<Rightarrow> ident list \<Rightarrow> table_constraint list \<Rightarrow> table_index list \<Rightarrow> table" where
  "table columns primary constraints indexes =
     \<lparr>tb_columns = columns, tb_primary = primary, tb_constraints = constraints, tb_indexes = indexes\<rparr>"

section \<open>Operations\<close>

datatype alteration =
    Add_column table_column
  | Drop_column ident
  | Alter_type ident column_type
  | Add_constraint table_constraint
  | Drop_constraint object_name
  | Create_index table_index
  | Drop_index object_name
  | Name_foreign_keys

text \<open>\<open>Copy_rows source columns target\<close> is \<open>INSERT INTO target (columns) SELECT columns FROM source\<close>.\<close>

datatype ddl =
    Create_table ident table
  | Drop_table ident
  | Rename_table ident ident
  | Alter ident alteration
  | Copy_rows ident "ident list" ident

fun constraint_name :: "table_constraint \<Rightarrow> object_name option" where
  "constraint_name (Unique n _) = n"
| "constraint_name (Foreign n _ _ _ _) = n"
| "constraint_name (Check n _ _) = Some n"

fun constraint_columns :: "table_constraint \<Rightarrow> ident list" where
  "constraint_columns (Unique _ cs) = cs"
| "constraint_columns (Foreign _ cs _ _ _) = cs"
| "constraint_columns (Check _ cs _) = cs"

fun referred_table :: "table_constraint \<Rightarrow> ident option" where
  "referred_table (Foreign _ _ t _ _) = Some t"
| "referred_table _ = None"

fun given_name :: "dialect \<Rightarrow> ident \<Rightarrow> table_constraint \<Rightarrow> table_constraint" where
  "given_name Postgresql t (Unique None cs) = Unique (Some (Key_name t cs)) cs"
| "given_name Postgresql t (Foreign None cs r rs d) = Foreign (Some (Fkey_name t cs)) cs r rs d"
| "given_name d t c = c"

text \<open>The naming convention of the batch operation that rewrites the foreign keys\<close>

fun convention_name :: "ident \<Rightarrow> table_constraint \<Rightarrow> table_constraint" where
  "convention_name t (Foreign None (c # cs) r rs d) = Foreign (Some (Convention_name t c r)) (c # cs) r rs d"
| "convention_name t c = c"

definition has_column :: "table \<Rightarrow> ident \<Rightarrow> bool" where
  "has_column t c \<longleftrightarrow> list_ex (\<lambda>x. co_name x = c) (tb_columns t)"

definition mentions :: "table \<Rightarrow> ident \<Rightarrow> bool" where
  "mentions t c \<longleftrightarrow> list_ex (\<lambda>k. List.member (constraint_columns k) c) (tb_constraints t)
     \<or> list_ex (\<lambda>i. List.member (ix_columns i) c) (tb_indexes t)"

definition without_column :: "ident \<Rightarrow> table \<Rightarrow> table" where
  "without_column c t = t\<lparr>tb_columns := filter (\<lambda>x. co_name x \<noteq> c) (tb_columns t),
     tb_constraints := filter (\<lambda>k. \<not> List.member (constraint_columns k) c) (tb_constraints t),
     tb_indexes := filter (\<lambda>i. \<not> List.member (ix_columns i) c) (tb_indexes t)\<rparr>"

definition with_type :: "ident \<Rightarrow> column_type \<Rightarrow> table \<Rightarrow> table" where
  "with_type c type t = t\<lparr>tb_columns := map (\<lambda>x. if co_name x = c then x\<lparr>co_type := type\<rparr> else x) (tb_columns t)\<rparr>"

definition guarded :: "bool \<Rightarrow> 'a \<Rightarrow> 'a option" where
  "guarded ok x = (if ok then Some x else None)"

definition name_free :: "table \<Rightarrow> table_constraint \<Rightarrow> bool" where
  "name_free t k \<longleftrightarrow> constraint_name k = None \<or> \<not> list_ex (\<lambda>k'. constraint_name k' = constraint_name k) (tb_constraints t)"

text \<open>A table with the constraints named; \<open>known\<close> are the tables a foreign key can refer to.\<close>

definition refers_within :: "dialect \<Rightarrow> ident list \<Rightarrow> table_constraint \<Rightarrow> bool" where
  "refers_within d known k \<longleftrightarrow> d = Sqlite
     \<or> (case referred_table k of None \<Rightarrow> True | Some t \<Rightarrow> List.member known t)"

text \<open>PostgreSQL drops what a dropped column is part of, SQLite refuses.\<close>

fun alter_table :: "dialect \<Rightarrow> ident \<Rightarrow> alteration \<Rightarrow> table \<Rightarrow> table option" where
  "alter_table d n (Add_column c) t =
     guarded (\<not> has_column t (co_name c) \<and> (co_nullable c \<or> co_default c \<noteq> None)) (t\<lparr>tb_columns := tb_columns t @ [c]\<rparr>)"
| "alter_table d n (Drop_column c) t =
     guarded (has_column t c \<and> \<not> List.member (tb_primary t) c \<and> (d = Postgresql \<or> \<not> mentions t c)) (without_column c t)"
| "alter_table d n (Alter_type c type) t = guarded (has_column t c) (with_type c type t)"
| "alter_table d n (Add_constraint k) t =
     guarded (list_all (has_column t) (constraint_columns k) \<and> name_free t (given_name d n k))
       (t\<lparr>tb_constraints := tb_constraints t @ [given_name d n k]\<rparr>)"
| "alter_table d n (Drop_constraint name) t =
     guarded (list_ex (\<lambda>k. constraint_name k = Some name) (tb_constraints t))
       (t\<lparr>tb_constraints := filter (\<lambda>k. constraint_name k \<noteq> Some name) (tb_constraints t)\<rparr>)"
| "alter_table d n (Create_index i) t =
     guarded (list_all (has_column t) (ix_columns i)) (t\<lparr>tb_indexes := tb_indexes t @ [i]\<rparr>)"
| "alter_table d n (Drop_index name) t =
     guarded (list_ex (\<lambda>i. ix_name i = name) (tb_indexes t)) (t\<lparr>tb_indexes := filter (\<lambda>i. ix_name i \<noteq> name) (tb_indexes t)\<rparr>)"
| "alter_table d n Name_foreign_keys t = Some (t\<lparr>tb_constraints := map (convention_name n) (tb_constraints t)\<rparr>)"

fun change_table :: "ident \<Rightarrow> (table \<Rightarrow> table option) \<Rightarrow> schema \<Rightarrow> schema option" where
  "change_table n f [] = None"
| "change_table n f ((m, t) # s) =
     (if m = n then map_option (\<lambda>t'. (m, t') # s) (f t) else map_option (\<lambda>s'. (m, t) # s') (change_table n f s))"

definition tables_of :: "schema \<Rightarrow> ident list" where
  "tables_of s = map fst s"

text \<open>What an alteration needs of the other tables: an index name that is free, a table that is there\<close>

definition allowed :: "dialect \<Rightarrow> schema \<Rightarrow> alteration \<Rightarrow> bool" where
  "allowed d s a = (case a of
       Create_index i \<Rightarrow> \<not> list_ex (\<lambda>(n, t). list_ex (\<lambda>j. ix_name j = ix_name i) (tb_indexes t)) s
     | Add_constraint k \<Rightarrow> refers_within d (tables_of s) k
     | _ \<Rightarrow> True)"

definition referred :: "schema \<Rightarrow> ident \<Rightarrow> bool" where
  "referred s n \<longleftrightarrow> list_ex (\<lambda>(m, t). m \<noteq> n \<and> list_ex (\<lambda>k. referred_table k = Some n) (tb_constraints t)) s"

fun retarget :: "ident \<Rightarrow> ident \<Rightarrow> table_constraint \<Rightarrow> table_constraint" where
  "retarget old new (Foreign n cs t rs d) = Foreign n cs (if t = old then new else t) rs d"
| "retarget old new k = k"

definition renamed :: "ident \<Rightarrow> ident \<Rightarrow> schema \<Rightarrow> schema" where
  "renamed old new s = map (\<lambda>(n, t). (if n = old then new else n, t\<lparr>tb_constraints := map (retarget old new) (tb_constraints t)\<rparr>)) s"

text \<open>A copy needs the columns on both sides, and a value for each other column of the target.\<close>

definition copies :: "table \<Rightarrow> ident list \<Rightarrow> table \<Rightarrow> bool" where
  "copies source columns target \<longleftrightarrow> list_all (\<lambda>c. has_column source c \<and> has_column target c) columns
     \<and> list_all (\<lambda>x. List.member columns (co_name x) \<or> co_nullable x \<or> co_default x \<noteq> None) (tb_columns target)"

fun apply_ddl :: "dialect \<Rightarrow> ddl \<Rightarrow> schema \<Rightarrow> schema option" where
  "apply_ddl d (Create_table n t) s =
     guarded (\<not> List.member (tables_of s) n \<and> list_all (refers_within d (n # tables_of s)) (tb_constraints t))
       ((n, t\<lparr>tb_constraints := map (given_name d n) (tb_constraints t)\<rparr>) # s)"
| "apply_ddl d (Drop_table n) s =
     guarded (List.member (tables_of s) n \<and> (d = Sqlite \<or> \<not> referred s n)) (filter (\<lambda>(m, t). m \<noteq> n) s)"
| "apply_ddl d (Rename_table old new) s =
     guarded (List.member (tables_of s) old \<and> \<not> List.member (tables_of s) new) (renamed old new s)"
| "apply_ddl d (Alter n a) s = (if allowed d s a then change_table n (alter_table d n a) s else None)"
| "apply_ddl d (Copy_rows source columns target) s =
     (case (map_of s source, map_of s target) of (Some a, Some b) \<Rightarrow> guarded (copies a columns b) s | _ \<Rightarrow> None)"

fun apply_all :: "dialect \<Rightarrow> ddl list \<Rightarrow> schema \<Rightarrow> schema option" where
  "apply_all d [] s = Some s"
| "apply_all d (op # ops) s = Option.bind (apply_ddl d op s) (apply_all d ops)"

section \<open>Revisions\<close>

text \<open>A script; \<open>Inl\<close> is the exception that it raises instead.\<close>

type_synonym script = "dialect \<Rightarrow> string + ddl list"

record revision =
  rv_id :: string
  rv_down :: "string option"
  rv_upgrade :: script
  rv_downgrade :: script

definition run_script :: "dialect \<Rightarrow> script \<Rightarrow> schema \<Rightarrow> schema option" where
  "run_script d script s = (case script d of Inl e \<Rightarrow> None | Inr ops \<Rightarrow> apply_all d ops s)"

text \<open>The revisions in the order of their \<open>down_revision\<close> links, from the base; a revision with two successors ends the path.\<close>

fun revision_path :: "nat \<Rightarrow> revision list \<Rightarrow> string option \<Rightarrow> revision list" where
  "revision_path 0 rs at = []"
| "revision_path (Suc n) rs at =
     (case filter (\<lambda>r. rv_down r = at) rs of [r] \<Rightarrow> r # revision_path n rs (Some (rv_id r)) | _ \<Rightarrow> [])"

definition heads :: "revision list \<Rightarrow> string list" where
  "heads rs = filter (\<lambda>i. \<not> list_ex (\<lambda>r. rv_down r = Some i) rs) (map rv_id rs)"

fun upgrade_along :: "dialect \<Rightarrow> revision list \<Rightarrow> schema \<Rightarrow> schema option" where
  "upgrade_along d [] s = Some s"
| "upgrade_along d (r # rs) s = Option.bind (run_script d (rv_upgrade r) s) (upgrade_along d rs)"

section \<open>Comparison\<close>

text \<open>Two tables agree up to the order of columns, server defaults and the names of unique and foreign keys, which is what
  \<open>alembic check\<close> compares.\<close>

definition column_key :: "table_column \<Rightarrow> ident \<times> column_type \<times> bool" where
  "column_key c = (co_name c, co_type c, co_nullable c)"

fun constraint_key :: "table_constraint \<Rightarrow> table_constraint" where
  "constraint_key (Unique _ cs) = Unique None cs"
| "constraint_key (Foreign _ cs t rs d) = Foreign None cs t rs d"
| "constraint_key k = k"

definition same_elements :: "'a list \<Rightarrow> 'a list \<Rightarrow> bool" where
  "same_elements xs ys \<longleftrightarrow> list_all (List.member ys) xs \<and> list_all (List.member xs) ys"

definition same_table :: "table \<Rightarrow> table \<Rightarrow> bool" where
  "same_table a b \<longleftrightarrow> same_elements (map column_key (tb_columns a)) (map column_key (tb_columns b))
     \<and> tb_primary a = tb_primary b
     \<and> same_elements (map constraint_key (tb_constraints a)) (map constraint_key (tb_constraints b))
     \<and> same_elements (tb_indexes a) (tb_indexes b)"

text \<open>Evaluated, equal tables are not compared column by column.\<close>

lemma same_table_code [code]:
  "same_table a b = (if a = b then True else same_elements (map column_key (tb_columns a)) (map column_key (tb_columns b))
     \<and> tb_primary a = tb_primary b
     \<and> same_elements (map constraint_key (tb_constraints a)) (map constraint_key (tb_constraints b))
     \<and> same_elements (tb_indexes a) (tb_indexes b))"
  by (auto simp: same_table_def same_elements_def list_all_iff)

definition same_schema :: "schema \<Rightarrow> schema \<Rightarrow> bool" where
  "same_schema s t \<longleftrightarrow> same_elements (tables_of s) (tables_of t)
     \<and> list_all (\<lambda>(n, a). case map_of t n of None \<Rightarrow> False | Some b \<Rightarrow> same_table a b) s"

end
