(* ===== verification/Revisions.thy ===== *)
theory Revisions
  imports Schema
begin

text \<open>
  The migrations (\<open>migrations/versions\<close>): \<open>upgrade\<close> and \<open>downgrade\<close> of each revision, operation by operation. The rows that
  \<open>d0e1f3a5b6c7\<close> writes are in \<open>Backfill\<close>. A column that is added with a foreign key is the column and the constraint.
\<close>

section \<open>initial daily agent schema\<close>

definition create_accounting :: "ddl list" where
  "create_accounting =
    [Create_table t_accounts (table
       [column c_id (VARCHAR 36) False,
        column c_name (VARCHAR 120) False,
        column c_created_at TIMESTAMPTZ False]
       [c_id]
       []
       []),
     Create_table t_inbox_events (table
       [column c_id (VARCHAR 36) False,
        column c_channel (VARCHAR 30) False,
        column c_source_event_id (VARCHAR 160) False,
        column c_payload_hash (VARCHAR 64) False,
        column c_accepted_at TIMESTAMPTZ False]
       [c_id]
       [Unique None [c_channel, c_source_event_id]]
       []),
     Create_table t_platform_budgets (table
       [column c_window_key (VARCHAR 40) False,
        column c_spend_limit_micro INTEGER False,
        column c_reserved_micro INTEGER False,
        column c_settled_micro INTEGER False]
       [c_window_key]
       []
       []),
     Create_table t_billing_events (table
       [column c_id (VARCHAR 36) False,
        column c_provider (VARCHAR 40) False,
        column c_provider_event_id (VARCHAR 160) False,
        column c_account_id (VARCHAR 36) False,
        column c_event_version INTEGER False,
        column c_event_type (VARCHAR 60) False,
        column c_payload_hash (VARCHAR 64) False]
       [c_id]
       [Foreign None [c_account_id] t_accounts [c_id] Cascade,
        Unique None [c_provider, c_provider_event_id]]
       []),
     Alter t_billing_events (Create_index (index (Index_name t_billing_events c_account_id) [c_account_id])),
     Create_table t_subscriptions (table
       [column c_id (VARCHAR 36) False,
        column c_account_id (VARCHAR 36) False,
        column c_plan_id (VARCHAR 20) False,
        column c_policy_version (VARCHAR 40) False,
        column c_status (VARCHAR 20) False,
        column c_event_version INTEGER False]
       [c_id]
       [Foreign None [c_account_id] t_accounts [c_id] Cascade,
        Unique None [c_account_id]]
       []),
     Create_table t_usage_windows (table
       [column c_id (VARCHAR 36) False,
        column c_account_id (VARCHAR 36) False,
        column c_window_key (VARCHAR 40) False,
        column c_everyday_limit INTEGER False,
        column c_everyday_used INTEGER False,
        column c_spend_limit_micro INTEGER False,
        column c_reserved_micro INTEGER False,
        column c_settled_micro INTEGER False,
        column c_reset_at TIMESTAMPTZ False]
       [c_id]
       [Foreign None [c_account_id] t_accounts [c_id] Cascade,
        Unique None [c_account_id, c_window_key]]
       []),
     Alter t_usage_windows (Create_index (index (Index_name t_usage_windows c_account_id) [c_account_id])),
     Create_table t_users (table
       [column c_id (VARCHAR 36) False,
        column c_account_id (VARCHAR 36) False,
        column c_display_name (VARCHAR 120) False,
        column c_role (VARCHAR 20) False]
       [c_id]
       [Foreign None [c_account_id] t_accounts [c_id] Cascade]
       []),
     Alter t_users (Create_index (index (Index_name t_users c_account_id) [c_account_id])),
     Create_table t_budget_reservations (table
       [column c_id (VARCHAR 36) False,
        column c_logical_request_id (VARCHAR 80) False,
        column c_account_id (VARCHAR 36) False,
        column c_usage_window_id (VARCHAR 36) False,
        column c_stage (VARCHAR 32) False,
        column c_reserved_micro INTEGER False,
        column c_actual_micro INTEGER True,
        column c_status (VARCHAR 20) False,
        column c_created_at TIMESTAMPTZ False]
       [c_id]
       [Foreign None [c_account_id] t_accounts [c_id] Cascade,
        Foreign None [c_usage_window_id] t_usage_windows [c_id] No_action,
        Unique None [c_logical_request_id, c_stage]]
       []),
     Alter t_budget_reservations (Create_index (index (Index_name t_budget_reservations c_account_id) [c_account_id])),
     Alter t_budget_reservations (Create_index (index (Index_name t_budget_reservations c_logical_request_id) [c_logical_request_id]))]"

definition create_work :: "ddl list" where
  "create_work =
    [Create_table t_notes (table
       [column c_id (VARCHAR 36) False,
        column c_account_id (VARCHAR 36) False,
        column c_owner_user_id (VARCHAR 36) False,
        column c_content TEXT False,
        column c_version INTEGER False,
        column c_deleted BOOLEAN False,
        column c_created_at TIMESTAMPTZ False,
        column c_updated_at TIMESTAMPTZ False]
       [c_id]
       [Foreign None [c_account_id] t_accounts [c_id] Cascade,
        Foreign None [c_owner_user_id] t_users [c_id] Cascade]
       []),
     Alter t_notes (Create_index (index (Index_name t_notes c_account_id) [c_account_id])),
     Alter t_notes (Create_index (index (Index_name t_notes c_owner_user_id) [c_owner_user_id])),
     Create_table t_reminders (table
       [column c_id (VARCHAR 36) False,
        column c_account_id (VARCHAR 36) False,
        column c_owner_user_id (VARCHAR 36) False,
        column c_text (VARCHAR 500) False,
        column c_due_at_utc TIMESTAMPTZ False,
        column c_timezone (VARCHAR 64) False,
        column c_state (VARCHAR 20) False,
        column c_idempotency_key (VARCHAR 120) False]
       [c_id]
       [Foreign None [c_account_id] t_accounts [c_id] Cascade,
        Foreign None [c_owner_user_id] t_users [c_id] Cascade,
        Unique None [c_account_id, c_idempotency_key]]
       []),
     Alter t_reminders (Create_index (index (Index_name t_reminders c_account_id) [c_account_id])),
     Alter t_reminders (Create_index (index (Index_name t_reminders c_owner_user_id) [c_owner_user_id])),
     Create_table t_runs (table
       [column c_id (VARCHAR 36) False,
        column c_account_id (VARCHAR 36) False,
        column c_user_id (VARCHAR 36) False,
        column c_logical_request_id (VARCHAR 80) False,
        column c_status (VARCHAR 30) False,
        column c_outcome (VARCHAR 30) True,
        column c_response_text TEXT True,
        column c_generation INTEGER False]
       [c_id]
       [Foreign None [c_account_id] t_accounts [c_id] Cascade,
        Foreign None [c_user_id] t_users [c_id] Cascade,
        Unique None [c_logical_request_id]]
       []),
     Alter t_runs (Create_index (index (Index_name t_runs c_account_id) [c_account_id])),
     Alter t_runs (Create_index (index (Index_name t_runs c_user_id) [c_user_id])),
     Create_table t_tasks (table
       [column c_id (VARCHAR 36) False,
        column c_account_id (VARCHAR 36) False,
        column c_owner_user_id (VARCHAR 36) False,
        column c_title (VARCHAR 500) False,
        column c_completed BOOLEAN False,
        column c_idempotency_key (VARCHAR 120) False]
       [c_id]
       [Foreign None [c_account_id] t_accounts [c_id] Cascade,
        Foreign None [c_owner_user_id] t_users [c_id] Cascade,
        Unique None [c_account_id, c_idempotency_key]]
       []),
     Alter t_tasks (Create_index (index (Index_name t_tasks c_account_id) [c_account_id])),
     Alter t_tasks (Create_index (index (Index_name t_tasks c_owner_user_id) [c_owner_user_id])),
     Create_table t_cost_ledger (table
       [column c_id (VARCHAR 36) False,
        column c_reservation_id (VARCHAR 36) False,
        column c_attempt_id (VARCHAR 80) False,
        column c_provider (VARCHAR 80) False,
        column c_model_id (VARCHAR 120) False,
        column c_cost_micro INTEGER True,
        column c_measurement (VARCHAR 20) False,
        column c_rate_version (VARCHAR 80) True,
        column c_created_at TIMESTAMPTZ False]
       [c_id]
       [Foreign None [c_reservation_id] t_budget_reservations [c_id] No_action]
       []),
     Alter t_cost_ledger (Create_index (index (Index_name t_cost_ledger c_reservation_id) [c_reservation_id])),
     Create_table t_outbox_events (table
       [column c_id (VARCHAR 36) False,
        column c_logical_key (VARCHAR 160) False,
        column c_run_id (VARCHAR 36) False,
        column c_payload TEXT False,
        column c_status (VARCHAR 20) False,
        column c_attempts INTEGER False]
       [c_id]
       [Foreign None [c_run_id] t_runs [c_id] Cascade,
        Unique None [c_logical_key]]
       []),
     Alter t_outbox_events (Create_index (index (Index_name t_outbox_events c_run_id) [c_run_id]))]"

definition upgrade_92174af1e5c5 :: script where
  "upgrade_92174af1e5c5 d = Inr (create_accounting @ create_work)"

definition drop_everything :: "ddl list" where
  "drop_everything =
    [Alter t_outbox_events (Drop_index (Index_name t_outbox_events c_run_id)),
     Drop_table t_outbox_events,
     Alter t_cost_ledger (Drop_index (Index_name t_cost_ledger c_reservation_id)),
     Drop_table t_cost_ledger,
     Alter t_tasks (Drop_index (Index_name t_tasks c_owner_user_id)),
     Alter t_tasks (Drop_index (Index_name t_tasks c_account_id)),
     Drop_table t_tasks,
     Alter t_runs (Drop_index (Index_name t_runs c_user_id)),
     Alter t_runs (Drop_index (Index_name t_runs c_account_id)),
     Drop_table t_runs,
     Alter t_reminders (Drop_index (Index_name t_reminders c_owner_user_id)),
     Alter t_reminders (Drop_index (Index_name t_reminders c_account_id)),
     Drop_table t_reminders,
     Alter t_notes (Drop_index (Index_name t_notes c_owner_user_id)),
     Alter t_notes (Drop_index (Index_name t_notes c_account_id)),
     Drop_table t_notes,
     Alter t_budget_reservations (Drop_index (Index_name t_budget_reservations c_logical_request_id)),
     Alter t_budget_reservations (Drop_index (Index_name t_budget_reservations c_account_id)),
     Drop_table t_budget_reservations,
     Alter t_users (Drop_index (Index_name t_users c_account_id)),
     Drop_table t_users,
     Alter t_usage_windows (Drop_index (Index_name t_usage_windows c_account_id)),
     Drop_table t_usage_windows,
     Drop_table t_subscriptions,
     Alter t_billing_events (Drop_index (Index_name t_billing_events c_account_id)),
     Drop_table t_billing_events,
     Drop_table t_platform_budgets,
     Drop_table t_inbox_events,
     Drop_table t_accounts]"

definition downgrade_92174af1e5c5 :: "bool \<Rightarrow> script" where
  "downgrade_92174af1e5c5 allow_destructive d = (if allow_destructive then Inr drop_everything else Inl ''RuntimeError'')"

section \<open>widen money and version columns to BigInteger\<close>

definition MONEY_COLUMNS :: "(ident \<times> ident) list" where
  "MONEY_COLUMNS =
    [(t_usage_windows, c_spend_limit_micro),
     (t_usage_windows, c_reserved_micro),
     (t_usage_windows, c_settled_micro),
     (t_platform_budgets, c_spend_limit_micro),
     (t_platform_budgets, c_reserved_micro),
     (t_platform_budgets, c_settled_micro),
     (t_budget_reservations, c_reserved_micro),
     (t_budget_reservations, c_actual_micro),
     (t_cost_ledger, c_cost_micro),
     (t_subscriptions, c_event_version),
     (t_billing_events, c_event_version)]"

definition upgrade_b7c2d4e8f1a3 :: script where
  "upgrade_b7c2d4e8f1a3 d = Inr (map (\<lambda>(t, c). Alter t (Alter_type c BIGINT)) MONEY_COLUMNS)"

definition downgrade_b7c2d4e8f1a3 :: script where
  "downgrade_b7c2d4e8f1a3 d = Inr (map (\<lambda>(t, c). Alter t (Alter_type c INTEGER)) MONEY_COLUMNS)"

section \<open>tenant-scoped idempotency + non-resetting period spend accumulator\<close>

definition create_usage_periods :: "ddl list" where
  "create_usage_periods =
    [Create_table t_usage_periods (table
       [column c_id (VARCHAR 36) False,
        column c_account_id (VARCHAR 36) False,
        column c_period_key (VARCHAR 40) False,
        column c_spend_limit_micro BIGINT False,
        column c_reserved_micro BIGINT False,
        column c_settled_micro BIGINT False,
        column c_reset_at TIMESTAMPTZ False]
       [c_id]
       [Foreign None [c_account_id] t_accounts [c_id] Cascade,
        Unique None [c_account_id, c_period_key]]
       []),
     Alter t_usage_periods (Create_index (index (Index_name t_usage_periods c_account_id) [c_account_id]))]"

definition RUNS_COPY_COLUMNS :: "ident list" where
  "RUNS_COPY_COLUMNS = [c_id, c_account_id, c_user_id, c_logical_request_id, c_status, c_outcome, c_response_text, c_generation]"

definition RESERVATION_COPY_COLUMNS :: "ident list" where
  "RESERVATION_COPY_COLUMNS = [c_id, c_logical_request_id, c_account_id, c_usage_window_id, c_stage, c_reserved_micro, c_actual_micro, c_status, c_created_at]"

definition rebuild_runs_sqlite :: "ddl list" where
  "rebuild_runs_sqlite =
    [Create_table t_runs_new (table
       [column c_id (VARCHAR 36) False,
        column c_account_id (VARCHAR 36) False,
        column c_user_id (VARCHAR 36) False,
        column c_logical_request_id (VARCHAR 160) False,
        column c_request_hash (VARCHAR 64) True,
        column c_status (VARCHAR 30) False,
        column c_outcome (VARCHAR 30) True,
        column c_response_text TEXT True,
        column c_generation INTEGER False]
       [c_id]
       [Foreign None [c_account_id] t_accounts [c_id] Cascade,
        Foreign None [c_user_id] t_users [c_id] Cascade,
        Unique (Some (Named ''uq_runs_account_request'')) [c_account_id, c_logical_request_id]]
       []),
     Copy_rows t_runs RUNS_COPY_COLUMNS t_runs_new,
     Drop_table t_runs,
     Rename_table t_runs_new t_runs,
     Alter t_runs (Create_index (index (Index_name t_runs c_account_id) [c_account_id])),
     Alter t_runs (Create_index (index (Index_name t_runs c_user_id) [c_user_id]))]"

definition rebuild_reservations_sqlite :: "ddl list" where
  "rebuild_reservations_sqlite =
    [Create_table t_budget_reservations_new (table
       [column c_id (VARCHAR 36) False,
        column c_logical_request_id (VARCHAR 160) False,
        column c_account_id (VARCHAR 36) False,
        column c_usage_window_id (VARCHAR 36) False,
        column c_usage_period_id (VARCHAR 36) True,
        column c_stage (VARCHAR 32) False,
        column c_reserved_micro BIGINT False,
        column c_actual_micro BIGINT True,
        column c_status (VARCHAR 20) False,
        column c_created_at TIMESTAMPTZ False]
       [c_id]
       [Foreign None [c_account_id] t_accounts [c_id] Cascade,
        Foreign None [c_usage_window_id] t_usage_windows [c_id] No_action,
        Foreign None [c_usage_period_id] t_usage_periods [c_id] No_action,
        Unique (Some (Named ''uq_reservations_account_request_stage'')) [c_account_id, c_logical_request_id, c_stage]]
       []),
     Copy_rows t_budget_reservations RESERVATION_COPY_COLUMNS t_budget_reservations_new,
     Drop_table t_budget_reservations,
     Rename_table t_budget_reservations_new t_budget_reservations,
     Alter t_budget_reservations (Create_index (index (Index_name t_budget_reservations c_account_id) [c_account_id])),
     Alter t_budget_reservations (Create_index (index (Index_name t_budget_reservations c_logical_request_id) [c_logical_request_id]))]"

definition tenant_scope_postgresql :: "ddl list" where
  "tenant_scope_postgresql =
    [Alter t_runs (Drop_constraint (Key_name t_runs [c_logical_request_id])),
     Alter t_runs (Alter_type c_logical_request_id (VARCHAR 160)),
     Alter t_runs (Add_column (column c_request_hash (VARCHAR 64) True)),
     Alter t_runs (Add_constraint (Unique (Some (Named ''uq_runs_account_request'')) [c_account_id, c_logical_request_id])),
     Alter t_budget_reservations (Drop_constraint (Key_name t_budget_reservations [c_logical_request_id, c_stage])),
     Alter t_budget_reservations (Alter_type c_logical_request_id (VARCHAR 160)),
     Alter t_budget_reservations (Add_column (column c_usage_period_id (VARCHAR 36) True)),
     Alter t_budget_reservations (Add_constraint (Foreign None [c_usage_period_id] t_usage_periods [c_id] No_action)),
     Alter t_budget_reservations (Add_constraint (Unique (Some (Named ''uq_reservations_account_request_stage'')) [c_account_id, c_logical_request_id, c_stage]))]"

definition notes_idempotency :: "ddl list" where
  "notes_idempotency =
    [Alter t_notes (Add_column (column c_idempotency_key (VARCHAR 120) True)),
     Alter t_notes (Add_constraint (Unique (Some (Named ''uq_notes_account_key'')) [c_account_id, c_idempotency_key]))]"

definition upgrade_c9d4e6f2b1a5 :: script where
  "upgrade_c9d4e6f2b1a5 d = Inr (create_usage_periods
     @ (if d = Sqlite then rebuild_runs_sqlite @ rebuild_reservations_sqlite else tenant_scope_postgresql) @ notes_idempotency)"

definition tenant_unscope :: "ddl list" where
  "tenant_unscope =
    [Alter t_notes (Drop_constraint (Named ''uq_notes_account_key'')),
     Alter t_notes (Drop_column c_idempotency_key),
     Alter t_budget_reservations (Drop_constraint (Named ''uq_reservations_account_request_stage'')),
     Alter t_budget_reservations (Drop_column c_usage_period_id),
     Alter t_budget_reservations (Alter_type c_logical_request_id (VARCHAR 80)),
     Alter t_budget_reservations (Add_constraint (Unique (Some (Named ''budget_reservations_logical_request_id_stage_key'')) [c_logical_request_id, c_stage])),
     Alter t_runs (Drop_constraint (Named ''uq_runs_account_request'')),
     Alter t_runs (Drop_column c_request_hash),
     Alter t_runs (Alter_type c_logical_request_id (VARCHAR 80)),
     Alter t_runs (Add_constraint (Unique (Some (Named ''runs_logical_request_id_key'')) [c_logical_request_id])),
     Alter t_usage_periods (Drop_index (Index_name t_usage_periods c_account_id)),
     Drop_table t_usage_periods]"

definition downgrade_c9d4e6f2b1a5 :: script where
  "downgrade_c9d4e6f2b1a5 d = (if d = Sqlite then Inl ''NotImplementedError'' else Inr tenant_unscope)"

section \<open>backfill usage_periods from existing windows and widen outbox logical_key\<close>

definition upgrade_d0e1f3a5b6c7 :: script where
  "upgrade_d0e1f3a5b6c7 d = Inr [Alter t_outbox_events (Alter_type c_logical_key (VARCHAR 255))]"

definition downgrade_d0e1f3a5b6c7 :: script where
  "downgrade_d0e1f3a5b6c7 d = Inr [Alter t_outbox_events (Alter_type c_logical_key (VARCHAR 160))]"

section \<open>add subscriptions.period_anchor (billing period anchor date)\<close>

definition upgrade_e1f2a4b6c8d9 :: script where
  "upgrade_e1f2a4b6c8d9 d = Inr
    [Alter t_subscriptions (Add_column (column_default c_period_anchor DATE False ''CURRENT_DATE''))]"

definition downgrade_e1f2a4b6c8d9 :: script where
  "downgrade_e1f2a4b6c8d9 d = Inr
    [Alter t_subscriptions (Drop_column c_period_anchor)]"

section \<open>add users.token_version for token revocation\<close>

definition upgrade_f1a2b3c4d5e6 :: script where
  "upgrade_f1a2b3c4d5e6 d = Inr
    [Alter t_users (Add_column (column_default c_token_version INTEGER False ''0''))]"

definition downgrade_f1a2b3c4d5e6 :: script where
  "downgrade_f1a2b3c4d5e6 d = Inr
    [Alter t_users (Drop_column c_token_version)]"

section \<open>delivery leases for outbox events and reminders\<close>

definition upgrade_a3b5c7d9e1f2 :: script where
  "upgrade_a3b5c7d9e1f2 d = Inr
    [Alter t_outbox_events (Add_column (column c_lease_until TIMESTAMPTZ True)),
     Alter t_reminders (Add_column (column c_lease_until TIMESTAMPTZ True)),
     Alter t_reminders (Add_column (column_default c_attempts INTEGER False ''0''))]"

definition downgrade_a3b5c7d9e1f2 :: script where
  "downgrade_a3b5c7d9e1f2 d = Inr
    [Alter t_reminders (Drop_column c_attempts),
     Alter t_reminders (Drop_column c_lease_until),
     Alter t_outbox_events (Drop_column c_lease_until)]"

section \<open>rewrite sqlite runs/budget_reservations cascade FKs as table-level constraints\<close>

definition CASCADE_FKS :: "(ident \<times> (ident \<times> ident) list) list" where
  "CASCADE_FKS = [(t_runs, [(c_account_id, t_accounts), (c_user_id, t_users)]),
    (t_budget_reservations, [(c_account_id, t_accounts)])]"

definition recreate_foreign_key :: "ident \<Rightarrow> ident \<times> ident \<Rightarrow> ddl list" where
  "recreate_foreign_key t cr = (case cr of (c, target) \<Rightarrow>
     [Alter t (Drop_constraint (Convention_name t c target)),
      Alter t (Add_constraint (Foreign (Some (Convention_name t c target)) [c] target [c_id] Cascade))])"

definition upgrade_73075806233f :: script where
  "upgrade_73075806233f d = Inr (if d \<noteq> Sqlite then []
     else concat (map (\<lambda>(t, fks). Alter t Name_foreign_keys # concat (map (recreate_foreign_key t) fks)) CASCADE_FKS))"

definition downgrade_73075806233f :: script where
  "downgrade_73075806233f d = Inr []"

section \<open>add user armory progression unlocked_tier and active_theme\<close>

definition upgrade_8a4f2c9e1b3d :: script where
  "upgrade_8a4f2c9e1b3d d = Inr
    [Alter t_users (Add_column (column_default c_unlocked_tier INTEGER False ''1'')),
     Alter t_users (Add_column (column_default c_active_theme INTEGER False ''1'')),
     Alter t_users (Add_constraint (Check (Named ''check_users_unlocked_tier'') [c_unlocked_tier] ''unlocked_tier BETWEEN 1 AND 4'')),
     Alter t_users (Add_constraint (Check (Named ''check_users_active_theme'') [c_active_theme] ''active_theme BETWEEN 1 AND 4'')),
     Alter t_users (Add_constraint (Check (Named ''check_users_theme_le_unlocked'') [c_active_theme, c_unlocked_tier] ''active_theme <= unlocked_tier''))]"

definition downgrade_8a4f2c9e1b3d :: script where
  "downgrade_8a4f2c9e1b3d d = Inr
    [Alter t_users (Drop_constraint (Named ''check_users_theme_le_unlocked'')),
     Alter t_users (Drop_constraint (Named ''check_users_active_theme'')),
     Alter t_users (Drop_constraint (Named ''check_users_unlocked_tier'')),
     Alter t_users (Drop_column c_active_theme),
     Alter t_users (Drop_column c_unlocked_tier)]"

section \<open>parakh routing evidence and policy bundle shadow slots\<close>

definition upgrade_c5d7e9f1a2b4 :: script where
  "upgrade_c5d7e9f1a2b4 d = Inr
    [Create_table t_policy_bundles (table
       [column c_id (VARCHAR 36) False,
        column c_artifact_version (VARCHAR 80) False,
        column c_checksums_sha256 (VARCHAR 64) False,
        column c_signer_public_key (VARCHAR 64) False,
        column c_storage_path (VARCHAR 500) False,
        column c_state (VARCHAR 20) False,
        column c_received_at TIMESTAMPTZ False]
       [c_id]
       [Unique None [c_artifact_version]]
       []),
     Alter t_policy_bundles (Create_index (index (Index_name t_policy_bundles c_state) [c_state])),
     Alter t_policy_bundles (Create_index \<lparr>ix_name = Named ''ix_policy_bundles_single_shadow'', ix_columns = [c_state], ix_unique = True, ix_where = Some (''state = '' @ [CHR 39] @ ''shadow'' @ [CHR 39])\<rparr>),
     Create_table t_policy_bundle_events (table
       [column c_id (VARCHAR 36) False,
        column c_bundle_id (VARCHAR 36) False,
        column c_from_state (VARCHAR 20) True,
        column c_to_state (VARCHAR 20) False,
        column c_actor (VARCHAR 120) False,
        column c_reason TEXT False,
        column c_created_at TIMESTAMPTZ False]
       [c_id]
       [Foreign None [c_bundle_id] t_policy_bundles [c_id] Cascade]
       []),
     Alter t_policy_bundle_events (Create_index (index (Index_name t_policy_bundle_events c_bundle_id) [c_bundle_id])),
     Create_table t_routing_decisions (table
       [column c_id (VARCHAR 36) False,
        column c_run_id (VARCHAR 36) False,
        column c_shadow BOOLEAN False,
        column c_policy_version (VARCHAR 80) False,
        column c_feature_schema_version (VARCHAR 40) False,
        column c_selected_action (VARCHAR 120) False,
        column c_selection_probability FLOAT False,
        column c_exploration BOOLEAN False,
        column c_eligible_actions TEXT False,
        column c_created_at TIMESTAMPTZ False]
       [c_id]
       [Check (Named ''check_routing_decisions_probability'') [c_selection_probability] ''selection_probability > 0 AND selection_probability <= 1'',
        Foreign None [c_run_id] t_runs [c_id] Cascade,
        Unique None [c_run_id, c_shadow, c_policy_version]]
       []),
     Alter t_routing_decisions (Create_index (index (Index_name t_routing_decisions c_run_id) [c_run_id])),
     Create_table t_routing_records (table
       [column c_run_id (VARCHAR 36) False,
        column c_tier (VARCHAR 20) False,
        column c_task_domain (VARCHAR 40) False,
        column c_routing_context TEXT False,
        column c_attempts TEXT False,
        column c_harness_version (VARCHAR 40) False,
        column c_prompt_version (VARCHAR 40) False,
        column c_policy_version (VARCHAR 80) False,
        column c_feature_schema_version (VARCHAR 40) False,
        column c_executed_action (VARCHAR 120) False,
        column c_latency_ms FLOAT False,
        column c_cost_micro BIGINT True,
        column c_started_at TIMESTAMPTZ False,
        column c_completed_at TIMESTAMPTZ False]
       [c_run_id]
       [Foreign None [c_run_id] t_runs [c_id] Cascade]
       []),
     Alter t_routing_records (Create_index (index (Index_name t_routing_records c_completed_at) [c_completed_at]))]"

definition downgrade_c5d7e9f1a2b4 :: script where
  "downgrade_c5d7e9f1a2b4 d = Inr
    [Alter t_policy_bundles (Drop_index (Named ''ix_policy_bundles_single_shadow'')),
     Alter t_routing_records (Drop_index (Index_name t_routing_records c_completed_at)),
     Drop_table t_routing_records,
     Alter t_routing_decisions (Drop_index (Index_name t_routing_decisions c_run_id)),
     Drop_table t_routing_decisions,
     Alter t_policy_bundle_events (Drop_index (Index_name t_policy_bundle_events c_bundle_id)),
     Drop_table t_policy_bundle_events,
     Alter t_policy_bundles (Drop_index (Index_name t_policy_bundles c_state)),
     Drop_table t_policy_bundles]"

section \<open>link users to stable Clerk identity subjects\<close>

definition upgrade_1a2b3c4d5e6f :: script where
  "upgrade_1a2b3c4d5e6f d = Inr
    [Alter t_users (Add_column (column c_clerk_subject (VARCHAR 255) True)),
     Alter t_users (Add_constraint (Unique (Some (Named ''uq_users_clerk_subject'')) [c_clerk_subject]))]"

definition downgrade_1a2b3c4d5e6f :: script where
  "downgrade_1a2b3c4d5e6f d = Inr
    [Alter t_users (Drop_constraint (Named ''uq_users_clerk_subject'')),
     Alter t_users (Drop_column c_clerk_subject)]"

section \<open>daily token quota counters for the model gateway\<close>

definition upgrade_2b3c4d5e6f70 :: script where
  "upgrade_2b3c4d5e6f70 d = Inr
    [Alter t_usage_windows (Add_column (column_default c_token_limit BIGINT False ''2000000'')),
     Alter t_usage_windows (Add_column (column_default c_tokens_reserved BIGINT False ''0'')),
     Alter t_usage_windows (Add_column (column_default c_tokens_settled BIGINT False ''0'')),
     Alter t_budget_reservations (Add_column (column_default c_reserved_tokens BIGINT False ''0''))]"

definition downgrade_2b3c4d5e6f70 :: script where
  "downgrade_2b3c4d5e6f70 d = Inr
    [Alter t_budget_reservations (Drop_column c_reserved_tokens),
     Alter t_usage_windows (Drop_column c_tokens_settled),
     Alter t_usage_windows (Drop_column c_tokens_reserved),
     Alter t_usage_windows (Drop_column c_token_limit)]"

section \<open>message feedback table and regenerate links on runs\<close>

definition upgrade_3c4d5e6f7081 :: script where
  "upgrade_3c4d5e6f7081 d = Inr
    [Alter t_runs (Add_column (column c_previous_run_id (VARCHAR 36) True)),
     Alter t_runs (Add_column (column c_regenerate_reason (VARCHAR 20) True)),
     Alter t_runs (Add_constraint (Foreign (Some (Named ''fk_runs_previous_run_id'')) [c_previous_run_id] t_runs [c_id] Set_null)),
     Alter t_runs (Create_index (index (Index_name t_runs c_previous_run_id) [c_previous_run_id])),
     Create_table t_message_feedback (table
       [column c_id (VARCHAR 36) False,
        column c_account_id (VARCHAR 36) False,
        column c_user_id (VARCHAR 36) False,
        column c_run_id (VARCHAR 36) False,
        column c_rating (VARCHAR 8) False,
        column c_reason (VARCHAR 20) True,
        column c_created_at TIMESTAMPTZ False,
        column c_updated_at TIMESTAMPTZ False]
       [c_id]
       [Foreign None [c_account_id] t_accounts [c_id] Cascade,
        Foreign None [c_user_id] t_users [c_id] Cascade,
        Foreign None [c_run_id] t_runs [c_id] Cascade,
        Unique None [c_account_id, c_run_id],
        Check (Named ''check_message_feedback_rating'') [c_rating] (''rating IN ('' @ [CHR 39] @ ''up'' @ [CHR 39] @ '', '' @ [CHR 39] @ ''down'' @ [CHR 39] @ '')'')]
       []),
     Alter t_message_feedback (Create_index (index (Index_name t_message_feedback c_account_id) [c_account_id])),
     Alter t_message_feedback (Create_index (index (Index_name t_message_feedback c_run_id) [c_run_id]))]"

definition downgrade_3c4d5e6f7081 :: script where
  "downgrade_3c4d5e6f7081 d = Inr
    [Alter t_message_feedback (Drop_index (Index_name t_message_feedback c_run_id)),
     Alter t_message_feedback (Drop_index (Index_name t_message_feedback c_account_id)),
     Drop_table t_message_feedback,
     Alter t_runs (Drop_index (Index_name t_runs c_previous_run_id)),
     Alter t_runs (Drop_constraint (Named ''fk_runs_previous_run_id'')),
     Alter t_runs (Drop_column c_regenerate_reason),
     Alter t_runs (Drop_column c_previous_run_id)]"

section \<open>drop the notes table (notes feature removed by owner decision, 2026-10-20)\<close>

definition upgrade_4d5e6f708192 :: script where
  "upgrade_4d5e6f708192 d = Inr
    [Alter t_notes (Drop_index (Index_name t_notes c_owner_user_id)),
     Alter t_notes (Drop_index (Index_name t_notes c_account_id)),
     Drop_table t_notes]"

definition downgrade_4d5e6f708192 :: script where
  "downgrade_4d5e6f708192 d = Inr
    [Create_table t_notes (table
       [column c_id (VARCHAR 36) False,
        column c_account_id (VARCHAR 36) False,
        column c_owner_user_id (VARCHAR 36) False,
        column c_content TEXT False,
        column c_version INTEGER False,
        column c_deleted BOOLEAN False,
        column c_created_at TIMESTAMPTZ False,
        column c_updated_at TIMESTAMPTZ False,
        column c_idempotency_key (VARCHAR 120) True]
       [c_id]
       [Foreign None [c_account_id] t_accounts [c_id] Cascade,
        Foreign None [c_owner_user_id] t_users [c_id] Cascade,
        Unique (Some (Named ''uq_notes_account_key'')) [c_account_id, c_idempotency_key]]
       []),
     Alter t_notes (Create_index (index (Index_name t_notes c_account_id) [c_account_id])),
     Alter t_notes (Create_index (index (Index_name t_notes c_owner_user_id) [c_owner_user_id]))]"

section \<open>shared daily counter of live provider requests\<close>

definition upgrade_5f708192a3b4 :: script where
  "upgrade_5f708192a3b4 d = Inr
    [Create_table t_gateway_request_days (table
       [column c_day_key (VARCHAR 10) False,
        column c_requests_used INTEGER False]
       [c_day_key]
       []
       [])]"

definition downgrade_5f708192a3b4 :: script where
  "downgrade_5f708192a3b4 d = Inr
    [Drop_table t_gateway_request_days]"

section \<open>The history\<close>

definition revision :: "string \<Rightarrow> string option \<Rightarrow> script \<Rightarrow> script \<Rightarrow> revision" where
  "revision i down up undo = \<lparr>rv_id = i, rv_down = down, rv_upgrade = up, rv_downgrade = undo\<rparr>"

text \<open>In the order of the file names, as they are found\<close>

definition revisions :: "bool \<Rightarrow> revision list" where
  "revisions allow_destructive =
    [revision ''1a2b3c4d5e6f'' (Some ''c5d7e9f1a2b4'') upgrade_1a2b3c4d5e6f downgrade_1a2b3c4d5e6f,
     revision ''2b3c4d5e6f70'' (Some ''1a2b3c4d5e6f'') upgrade_2b3c4d5e6f70 downgrade_2b3c4d5e6f70,
     revision ''3c4d5e6f7081'' (Some ''2b3c4d5e6f70'') upgrade_3c4d5e6f7081 downgrade_3c4d5e6f7081,
     revision ''4d5e6f708192'' (Some ''3c4d5e6f7081'') upgrade_4d5e6f708192 downgrade_4d5e6f708192,
     revision ''5f708192a3b4'' (Some ''4d5e6f708192'') upgrade_5f708192a3b4 downgrade_5f708192a3b4,
     revision ''73075806233f'' (Some ''a3b5c7d9e1f2'') upgrade_73075806233f downgrade_73075806233f,
     revision ''8a4f2c9e1b3d'' (Some ''73075806233f'') upgrade_8a4f2c9e1b3d downgrade_8a4f2c9e1b3d,
     revision ''92174af1e5c5'' None upgrade_92174af1e5c5 (downgrade_92174af1e5c5 allow_destructive),
     revision ''a3b5c7d9e1f2'' (Some ''f1a2b3c4d5e6'') upgrade_a3b5c7d9e1f2 downgrade_a3b5c7d9e1f2,
     revision ''b7c2d4e8f1a3'' (Some ''92174af1e5c5'') upgrade_b7c2d4e8f1a3 downgrade_b7c2d4e8f1a3,
     revision ''c5d7e9f1a2b4'' (Some ''8a4f2c9e1b3d'') upgrade_c5d7e9f1a2b4 downgrade_c5d7e9f1a2b4,
     revision ''c9d4e6f2b1a5'' (Some ''b7c2d4e8f1a3'') upgrade_c9d4e6f2b1a5 downgrade_c9d4e6f2b1a5,
     revision ''d0e1f3a5b6c7'' (Some ''c9d4e6f2b1a5'') upgrade_d0e1f3a5b6c7 downgrade_d0e1f3a5b6c7,
     revision ''e1f2a4b6c8d9'' (Some ''d0e1f3a5b6c7'') upgrade_e1f2a4b6c8d9 downgrade_e1f2a4b6c8d9,
     revision ''f1a2b3c4d5e6'' (Some ''e1f2a4b6c8d9'') upgrade_f1a2b3c4d5e6 downgrade_f1a2b3c4d5e6]"

end
