(* ===== verification/Model_Schema.thy ===== *)
theory Model_Schema
  imports Schema
begin

text \<open>
  The schema that the classes of \<open>models.py\<close> declare: a foreign key without a type takes the type of the column it refers to,
  \<open>index=True\<close> is an index named after table and column, and an annotation with \<open>None\<close> is a nullable column.
\<close>

definition accounts_model :: table where
  "accounts_model = table
    [column c_id (VARCHAR 36) False,
     column c_name (VARCHAR 120) False,
     column c_created_at TIMESTAMPTZ False]
    [c_id]
    []
    []"

definition users_model :: table where
  "users_model = table
    [column c_id (VARCHAR 36) False,
     column c_account_id (VARCHAR 36) False,
     column c_display_name (VARCHAR 120) False,
     column c_role (VARCHAR 20) False,
     column_default c_token_version INTEGER False ''0'',
     column c_clerk_subject (VARCHAR 255) True,
     column_default c_unlocked_tier INTEGER False ''1'',
     column_default c_active_theme INTEGER False ''1'']
    [c_id]
    [Foreign None [c_account_id] t_accounts [c_id] Cascade,
     Check (Named ''check_users_unlocked_tier'') [c_unlocked_tier] ''unlocked_tier BETWEEN 1 AND 4'',
     Check (Named ''check_users_active_theme'') [c_active_theme] ''active_theme BETWEEN 1 AND 4'',
     Check (Named ''check_users_theme_le_unlocked'') [c_active_theme, c_unlocked_tier] ''active_theme <= unlocked_tier'',
     Unique (Some (Named ''uq_users_clerk_subject'')) [c_clerk_subject]]
    [index (Index_name t_users c_account_id) [c_account_id]]"

definition subscriptions_model :: table where
  "subscriptions_model = table
    [column c_id (VARCHAR 36) False,
     column c_account_id (VARCHAR 36) False,
     column c_plan_id (VARCHAR 20) False,
     column c_policy_version (VARCHAR 40) False,
     column c_status (VARCHAR 20) False,
     column c_event_version BIGINT False,
     column_default c_period_anchor DATE False ''CURRENT_DATE'']
    [c_id]
    [Foreign None [c_account_id] t_accounts [c_id] Cascade,
     Unique None [c_account_id]]
    []"

definition usage_windows_model :: table where
  "usage_windows_model = table
    [column c_id (VARCHAR 36) False,
     column c_account_id (VARCHAR 36) False,
     column c_window_key (VARCHAR 40) False,
     column c_everyday_limit INTEGER False,
     column c_everyday_used INTEGER False,
     column c_spend_limit_micro BIGINT False,
     column c_reserved_micro BIGINT False,
     column c_settled_micro BIGINT False,
     column c_token_limit BIGINT False,
     column c_tokens_reserved BIGINT False,
     column c_tokens_settled BIGINT False,
     column c_reset_at TIMESTAMPTZ False]
    [c_id]
    [Foreign None [c_account_id] t_accounts [c_id] Cascade,
     Unique None [c_account_id, c_window_key]]
    [index (Index_name t_usage_windows c_account_id) [c_account_id]]"

definition usage_periods_model :: table where
  "usage_periods_model = table
    [column c_id (VARCHAR 36) False,
     column c_account_id (VARCHAR 36) False,
     column c_period_key (VARCHAR 40) False,
     column c_spend_limit_micro BIGINT False,
     column c_reserved_micro BIGINT False,
     column c_settled_micro BIGINT False,
     column c_reset_at TIMESTAMPTZ False]
    [c_id]
    [Foreign None [c_account_id] t_accounts [c_id] Cascade,
     Unique None [c_account_id, c_period_key]]
    [index (Index_name t_usage_periods c_account_id) [c_account_id]]"

definition platform_budgets_model :: table where
  "platform_budgets_model = table
    [column c_window_key (VARCHAR 40) False,
     column c_spend_limit_micro BIGINT False,
     column c_reserved_micro BIGINT False,
     column c_settled_micro BIGINT False]
    [c_window_key]
    []
    []"

definition gateway_request_days_model :: table where
  "gateway_request_days_model = table
    [column c_day_key (VARCHAR 10) False,
     column c_requests_used INTEGER False]
    [c_day_key]
    []
    []"

definition budget_reservations_model :: table where
  "budget_reservations_model = table
    [column c_id (VARCHAR 36) False,
     column c_logical_request_id (VARCHAR 160) False,
     column c_account_id (VARCHAR 36) False,
     column c_usage_window_id (VARCHAR 36) False,
     column c_usage_period_id (VARCHAR 36) True,
     column c_stage (VARCHAR 32) False,
     column c_reserved_micro BIGINT False,
     column c_actual_micro BIGINT True,
     column c_reserved_tokens BIGINT False,
     column c_status (VARCHAR 20) False,
     column c_created_at TIMESTAMPTZ False]
    [c_id]
    [Foreign None [c_account_id] t_accounts [c_id] Cascade,
     Foreign None [c_usage_window_id] t_usage_windows [c_id] No_action,
     Foreign None [c_usage_period_id] t_usage_periods [c_id] No_action,
     Unique None [c_account_id, c_logical_request_id, c_stage]]
    [index (Index_name t_budget_reservations c_logical_request_id) [c_logical_request_id],
     index (Index_name t_budget_reservations c_account_id) [c_account_id]]"

definition cost_ledger_model :: table where
  "cost_ledger_model = table
    [column c_id (VARCHAR 36) False,
     column c_reservation_id (VARCHAR 36) False,
     column c_attempt_id (VARCHAR 80) False,
     column c_provider (VARCHAR 80) False,
     column c_model_id (VARCHAR 120) False,
     column c_cost_micro BIGINT True,
     column c_measurement (VARCHAR 20) False,
     column c_rate_version (VARCHAR 80) True,
     column c_created_at TIMESTAMPTZ False]
    [c_id]
    [Foreign None [c_reservation_id] t_budget_reservations [c_id] No_action]
    [index (Index_name t_cost_ledger c_reservation_id) [c_reservation_id]]"

definition tasks_model :: table where
  "tasks_model = table
    [column c_id (VARCHAR 36) False,
     column c_account_id (VARCHAR 36) False,
     column c_owner_user_id (VARCHAR 36) False,
     column c_title (VARCHAR 500) False,
     column c_completed BOOLEAN False,
     column c_idempotency_key (VARCHAR 120) False]
    [c_id]
    [Foreign None [c_account_id] t_accounts [c_id] Cascade,
     Foreign None [c_owner_user_id] t_users [c_id] Cascade,
     Unique None [c_account_id, c_idempotency_key]]
    [index (Index_name t_tasks c_account_id) [c_account_id],
     index (Index_name t_tasks c_owner_user_id) [c_owner_user_id]]"

definition reminders_model :: table where
  "reminders_model = table
    [column c_id (VARCHAR 36) False,
     column c_account_id (VARCHAR 36) False,
     column c_owner_user_id (VARCHAR 36) False,
     column c_text (VARCHAR 500) False,
     column c_due_at_utc TIMESTAMPTZ False,
     column c_timezone (VARCHAR 64) False,
     column c_state (VARCHAR 20) False,
     column c_idempotency_key (VARCHAR 120) False,
     column_default c_attempts INTEGER False ''0'',
     column c_lease_until TIMESTAMPTZ True]
    [c_id]
    [Foreign None [c_account_id] t_accounts [c_id] Cascade,
     Foreign None [c_owner_user_id] t_users [c_id] Cascade,
     Unique None [c_account_id, c_idempotency_key]]
    [index (Index_name t_reminders c_account_id) [c_account_id],
     index (Index_name t_reminders c_owner_user_id) [c_owner_user_id]]"

definition inbox_events_model :: table where
  "inbox_events_model = table
    [column c_id (VARCHAR 36) False,
     column c_channel (VARCHAR 30) False,
     column c_source_event_id (VARCHAR 160) False,
     column c_payload_hash (VARCHAR 64) False,
     column c_accepted_at TIMESTAMPTZ False]
    [c_id]
    [Unique None [c_channel, c_source_event_id]]
    []"

definition runs_model :: table where
  "runs_model = table
    [column c_id (VARCHAR 36) False,
     column c_account_id (VARCHAR 36) False,
     column c_user_id (VARCHAR 36) False,
     column c_logical_request_id (VARCHAR 160) False,
     column c_request_hash (VARCHAR 64) True,
     column c_status (VARCHAR 30) False,
     column c_outcome (VARCHAR 30) True,
     column c_response_text TEXT True,
     column c_generation INTEGER False,
     column c_previous_run_id (VARCHAR 36) True,
     column c_regenerate_reason (VARCHAR 20) True]
    [c_id]
    [Foreign None [c_account_id] t_accounts [c_id] Cascade,
     Foreign None [c_user_id] t_users [c_id] Cascade,
     Foreign None [c_previous_run_id] t_runs [c_id] Set_null,
     Unique None [c_account_id, c_logical_request_id]]
    [index (Index_name t_runs c_account_id) [c_account_id],
     index (Index_name t_runs c_user_id) [c_user_id],
     index (Index_name t_runs c_previous_run_id) [c_previous_run_id]]"

definition message_feedback_model :: table where
  "message_feedback_model = table
    [column c_id (VARCHAR 36) False,
     column c_account_id (VARCHAR 36) False,
     column c_user_id (VARCHAR 36) False,
     column c_run_id (VARCHAR 36) False,
     column c_rating (VARCHAR 8) False,
     column c_reason (VARCHAR 20) True,
     column c_created_at TIMESTAMPTZ False,
     column c_updated_at TIMESTAMPTZ False]
    [c_id]
    [Foreign None [c_account_id] t_accounts [c_id] Cascade,
     Foreign None [c_user_id] t_users [c_id] Cascade,
     Foreign None [c_run_id] t_runs [c_id] Cascade,
     Unique None [c_account_id, c_run_id],
     Check (Named ''check_message_feedback_rating'') [c_rating] (''rating IN ('' @ [CHR 39] @ ''up'' @ [CHR 39] @ '', '' @ [CHR 39] @ ''down'' @ [CHR 39] @ '')'')]
    [index (Index_name t_message_feedback c_account_id) [c_account_id],
     index (Index_name t_message_feedback c_run_id) [c_run_id]]"

definition outbox_events_model :: table where
  "outbox_events_model = table
    [column c_id (VARCHAR 36) False,
     column c_logical_key (VARCHAR 255) False,
     column c_run_id (VARCHAR 36) False,
     column c_payload TEXT False,
     column c_status (VARCHAR 20) False,
     column c_attempts INTEGER False,
     column c_lease_until TIMESTAMPTZ True]
    [c_id]
    [Foreign None [c_run_id] t_runs [c_id] Cascade,
     Unique None [c_logical_key]]
    [index (Index_name t_outbox_events c_run_id) [c_run_id]]"

definition billing_events_model :: table where
  "billing_events_model = table
    [column c_id (VARCHAR 36) False,
     column c_provider (VARCHAR 40) False,
     column c_provider_event_id (VARCHAR 160) False,
     column c_account_id (VARCHAR 36) False,
     column c_event_version BIGINT False,
     column c_event_type (VARCHAR 60) False,
     column c_payload_hash (VARCHAR 64) False]
    [c_id]
    [Foreign None [c_account_id] t_accounts [c_id] Cascade,
     Unique None [c_provider, c_provider_event_id]]
    [index (Index_name t_billing_events c_account_id) [c_account_id]]"

definition routing_records_model :: table where
  "routing_records_model = table
    [column c_run_id (VARCHAR 36) False,
     column c_tier (VARCHAR 20) False,
     column c_task_domain (VARCHAR 40) False,
     column c_routing_context TEXT False,
     column c_attempts TEXT False,
     column c_harness_version (VARCHAR 40) False,
     column c_prompt_version (VARCHAR 40) False,
     column c_policy_version (VARCHAR 80) False,
     column c_feature_schema_version (VARCHAR 40) False,
     column c_executed_action (VARCHAR 120) False,
     column c_latency_ms FLOAT False,
     column c_cost_micro BIGINT True,
     column c_started_at TIMESTAMPTZ False,
     column c_completed_at TIMESTAMPTZ False]
    [c_run_id]
    [Foreign None [c_run_id] t_runs [c_id] Cascade]
    [index (Index_name t_routing_records c_completed_at) [c_completed_at]]"

definition routing_decisions_model :: table where
  "routing_decisions_model = table
    [column c_id (VARCHAR 36) False,
     column c_run_id (VARCHAR 36) False,
     column c_shadow BOOLEAN False,
     column c_policy_version (VARCHAR 80) False,
     column c_feature_schema_version (VARCHAR 40) False,
     column c_selected_action (VARCHAR 120) False,
     column c_selection_probability FLOAT False,
     column c_exploration BOOLEAN False,
     column c_eligible_actions TEXT False,
     column c_created_at TIMESTAMPTZ False]
    [c_id]
    [Foreign None [c_run_id] t_runs [c_id] Cascade,
     Unique None [c_run_id, c_shadow, c_policy_version],
     Check (Named ''check_routing_decisions_probability'') [c_selection_probability] ''selection_probability > 0 AND selection_probability <= 1'']
    [index (Index_name t_routing_decisions c_run_id) [c_run_id]]"

definition policy_bundles_model :: table where
  "policy_bundles_model = table
    [column c_id (VARCHAR 36) False,
     column c_artifact_version (VARCHAR 80) False,
     column c_checksums_sha256 (VARCHAR 64) False,
     column c_signer_public_key (VARCHAR 64) False,
     column c_storage_path (VARCHAR 500) False,
     column c_state (VARCHAR 20) False,
     column c_received_at TIMESTAMPTZ False]
    [c_id]
    [Unique None [c_artifact_version]]
    [\<lparr>ix_name = Named ''ix_policy_bundles_single_shadow'', ix_columns = [c_state], ix_unique = True, ix_where = Some (''state = '' @ [CHR 39] @ ''shadow'' @ [CHR 39])\<rparr>,
     index (Index_name t_policy_bundles c_state) [c_state]]"

definition policy_bundle_events_model :: table where
  "policy_bundle_events_model = table
    [column c_id (VARCHAR 36) False,
     column c_bundle_id (VARCHAR 36) False,
     column c_from_state (VARCHAR 20) True,
     column c_to_state (VARCHAR 20) False,
     column c_actor (VARCHAR 120) False,
     column c_reason TEXT False,
     column c_created_at TIMESTAMPTZ False]
    [c_id]
    [Foreign None [c_bundle_id] t_policy_bundles [c_id] Cascade]
    [index (Index_name t_policy_bundle_events c_bundle_id) [c_bundle_id]]"

definition model_schema :: schema where
  "model_schema =
    [(t_accounts, accounts_model),
     (t_users, users_model),
     (t_subscriptions, subscriptions_model),
     (t_usage_windows, usage_windows_model),
     (t_usage_periods, usage_periods_model),
     (t_platform_budgets, platform_budgets_model),
     (t_gateway_request_days, gateway_request_days_model),
     (t_budget_reservations, budget_reservations_model),
     (t_cost_ledger, cost_ledger_model),
     (t_tasks, tasks_model),
     (t_reminders, reminders_model),
     (t_inbox_events, inbox_events_model),
     (t_runs, runs_model),
     (t_message_feedback, message_feedback_model),
     (t_outbox_events, outbox_events_model),
     (t_billing_events, billing_events_model),
     (t_routing_records, routing_records_model),
     (t_routing_decisions, routing_decisions_model),
     (t_policy_bundles, policy_bundles_model),
     (t_policy_bundle_events, policy_bundle_events_model)]"

end
