(* ===== verification/Revisions_Props.thy ===== *)
theory Revisions_Props
  imports Revisions Model_Schema
begin

text \<open>
  What the migrations achieve: from an empty database they build the schema of the models on both databases, and which of
  them their downgrades undo. Both are evaluated in one pass over the history.
\<close>

definition migration_path :: "revision list" where
  "migration_path = revision_path (length (revisions True)) (revisions True) None"

text \<open>The revisions whose downgrade does not lead back to the schema before them, when each is applied in turn, and the schema
  that the upgrades end in.\<close>

definition undone :: "dialect \<Rightarrow> revision \<Rightarrow> schema \<Rightarrow> schema \<Rightarrow> bool" where
  "undone d r before after = (case run_script d (rv_downgrade r) after of None \<Rightarrow> False | Some s \<Rightarrow> same_schema s before)"

fun rehearse :: "dialect \<Rightarrow> revision list \<Rightarrow> schema \<Rightarrow> string list \<times> schema option" where
  "rehearse d [] s = ([], Some s)"
| "rehearse d (r # rs) s =
     (case run_script d (rv_upgrade r) s of
        None \<Rightarrow> (map rv_id (r # rs), None)
      | Some s' \<Rightarrow> (case rehearse d rs s' of (ids, final) \<Rightarrow> (if undone d r s s' then ids else rv_id r # ids, final)))"

definition irreversible :: "dialect \<Rightarrow> revision list \<Rightarrow> schema \<Rightarrow> string list" where
  "irreversible d rs s = fst (rehearse d rs s)"

lemma snd_rehearse: "snd (rehearse d rs s) = upgrade_along d rs s"
  by (induction d rs s rule: rehearse.induct) (auto split: option.splits prod.splits)

definition builds_models :: "schema option \<Rightarrow> bool" where
  "builds_models final = (case final of None \<Rightarrow> False | Some s \<Rightarrow> same_schema s model_schema)"

definition rehearsal :: "dialect \<Rightarrow> string list \<times> bool" where
  "rehearsal d = (case rehearse d migration_path [] of (ids, final) \<Rightarrow> (ids, builds_models final))"

lemma rehearsal_sqlite: "rehearsal Sqlite = ([''c9d4e6f2b1a5''], True)"
  by code_simp

lemma rehearsal_postgresql: "rehearsal Postgresql = ([], True)"
  by code_simp

lemma rehearsal_parts:
  assumes "rehearsal d = (ids, True)"
  shows "irreversible d migration_path [] = ids" and "builds_models (upgrade_along d migration_path [])"
  using assms snd_rehearse [of d migration_path "[]"] by (auto simp: rehearsal_def irreversible_def split: prod.splits)

text \<open>The columns of a table as the first \<open>n\<close> revisions leave it\<close>

definition columns_after :: "dialect \<Rightarrow> nat \<Rightarrow> ident \<Rightarrow> ident list" where
  "columns_after d n t = (case Option.bind (upgrade_along d (take n migration_path) []) (\<lambda>s. map_of s t) of
       None \<Rightarrow> [] | Some a \<Rightarrow> map co_name (tb_columns a))"



end
