(* ===== verification/Backfill.thy ===== *)
theory Backfill
  imports Ledger_Demo
begin

text \<open>
  The rows that revision \<open>d0e1f3a5b6c7\<close> writes: one period per account that has usage windows or open reservations, charged with
  what the month's windows settled and what every window still holds, and the open reservations attached to it. The
  columns that later revisions add ride along. \<open>UNION\<close> gives the accounts once each, here in the order of the rows.
\<close>

definition backfill_accounts :: "db \<Rightarrow> nat list" where
  "backfill_accounts s = remdups (map uw_account_id (usage_windows s)
     @ map br_account_id (filter (\<lambda>r. br_status r = RESERVED \<and> br_usage_period_id r = None) (budget_reservations s)))"

lemma distinct_backfill_accounts: "distinct (backfill_accounts s)"
  by (simp add: backfill_accounts_def)

text \<open>\<open>LIKE '2026-09-%'\<close>; a month key holds no wildcard.\<close>

definition in_month :: "string \<Rightarrow> usage_window \<Rightarrow> bool" where
  "in_month key w \<longleftrightarrow> starts_with (key @ ''-'') (uw_window_key w)"

definition account_plan :: "nat \<Rightarrow> db \<Rightarrow> plan_policy_row" where
  "account_plan account_id s = (case select_first (\<lambda>su. su_account_id su = account_id) (subscriptions s) of
       None \<Rightarrow> ananta
     | Some su \<Rightarrow> (case SYNTHETIC_POLICIES (su_plan_id su) of None \<Rightarrow> ananta | Some p \<Rightarrow> p))"

definition windows_reserved :: "nat \<Rightarrow> db \<Rightarrow> int" where
  "windows_reserved account_id s = sum_list (map uw_reserved_micro (filter (\<lambda>w. uw_account_id w = account_id) (usage_windows s)))"

definition windows_settled :: "nat \<Rightarrow> string \<Rightarrow> db \<Rightarrow> int" where
  "windows_settled account_id key s =
     sum_list (map uw_settled_micro (filter (\<lambda>w. uw_account_id w = account_id \<and> in_month key w) (usage_windows s)))"

definition backfilled_period :: "nat \<Rightarrow> datetime \<Rightarrow> db \<Rightarrow> nat \<Rightarrow> usage_period" where
  "backfilled_period account_id now s i =
     \<lparr>up_id = i, up_account_id = account_id, up_period_key = fst (current_period_key now),
      up_spend_limit_micro = period_cost_cap_micro (account_plan account_id s),
      up_reserved_micro = windows_reserved account_id s,
      up_settled_micro = windows_settled account_id (fst (current_period_key now)) s,
      up_reset_at = snd (current_period_key now)\<rparr>"

definition unattached :: "nat \<Rightarrow> budget_reservation \<Rightarrow> bool" where
  "unattached account_id r \<longleftrightarrow> br_account_id r = account_id \<and> br_status r = RESERVED \<and> br_usage_period_id r = None"

definition attach_reservations :: "nat \<Rightarrow> nat \<Rightarrow> db \<Rightarrow> db" where
  "attach_reservations account_id period_id s = s\<lparr>budget_reservations :=
     update_where (unattached account_id) (\<lambda>r. r\<lparr>br_usage_period_id := Some period_id\<rparr>) (budget_reservations s)\<rparr>"

definition backfill_account :: "datetime \<Rightarrow> nat \<Rightarrow> unit sop" where
  "backfill_account now account_id s =
     andthen (insert_row (period_taken account_id (fst (current_period_key now))) (backfilled_period account_id now s)
         (\<lambda>p s. s\<lparr>usage_periods := usage_periods s @ [p]\<rparr>))
       (\<lambda>p s. Ok () (attach_reservations account_id (up_id p) s)) s"

fun backfill_each :: "datetime \<Rightarrow> nat list \<Rightarrow> unit sop" where
  "backfill_each now [] = ret ()"
| "backfill_each now (a # as) = andthen (backfill_account now a) (\<lambda>_. backfill_each now as)"

definition backfill_usage_periods :: "datetime \<Rightarrow> unit sop" where
  "backfill_usage_periods now s = backfill_each now (backfill_accounts s) s"

text \<open>The downgrade deletes the periods of the month it runs in, and detaches every reservation.\<close>

definition remove_backfill :: "datetime \<Rightarrow> db \<Rightarrow> db" where
  "remove_backfill now s = s\<lparr>usage_periods := filter (\<lambda>p. up_period_key p \<noteq> fst (current_period_key now)) (usage_periods s),
     budget_reservations := map (\<lambda>r. r\<lparr>br_usage_period_id := None\<rparr>) (budget_reservations s)\<rparr>"

section \<open>What the backfill does\<close>

text \<open>Each open reservation takes the period of its account.\<close>

definition assign :: "(nat \<Rightarrow> nat option) \<Rightarrow> budget_reservation \<Rightarrow> budget_reservation" where
  "assign f r = (if br_status r = RESERVED \<and> f (br_account_id r) \<noteq> None then r\<lparr>br_usage_period_id := f (br_account_id r)\<rparr> else r)"

lemma assign_simps [simp]:
  "br_status (assign f r) = br_status r" "br_account_id (assign f r) = br_account_id r"
  "br_reserved_micro (assign f r) = br_reserved_micro r"
  by (simp_all add: assign_def)

text \<open>The state after the accounts in the domain of \<open>f\<close>.\<close>

definition backfilled :: "datetime \<Rightarrow> db \<Rightarrow> (nat \<Rightarrow> nat option) \<Rightarrow> db \<Rightarrow> bool" where
  "backfilled now s f t \<longleftrightarrow>
     usage_windows t = usage_windows s \<and> subscriptions t = subscriptions s
   \<and> budget_reservations t = map (assign f) (budget_reservations s)
   \<and> (\<forall>p \<in> set (usage_periods t). f (up_account_id p) = Some (up_id p) \<and> p = backfilled_period (up_account_id p) now s (up_id p))
   \<and> (\<forall>a i. f a = Some i \<longrightarrow> backfilled_period a now s i \<in> set (usage_periods t) \<and> i < next_id t)
   \<and> inj_on f (dom f)"

lemma backfilled_start:
  assumes "usage_periods s = []"
  shows "backfilled now s Map.empty s"
proof -
  have "map (assign Map.empty) rs = rs" for rs by (simp add: assign_def map_idI)
  with assms show ?thesis by (simp add: backfilled_def)
qed

lemma backfilled_period_same:
  "usage_windows t = usage_windows s \<Longrightarrow> subscriptions t = subscriptions s \<Longrightarrow> backfilled_period a now t i = backfilled_period a now s i"
  by (simp add: backfilled_period_def account_plan_def windows_reserved_def windows_settled_def)

lemma backfill_account_step:
  assumes inv: "backfilled now s f t" and new: "f a = None"
    and loose: "\<forall>r \<in> set (budget_reservations s). br_status r = RESERVED \<longrightarrow> br_usage_period_id r = None"
  shows "\<exists>t'. backfill_account now a t = Ok () t' \<and> backfilled now s (f(a \<mapsto> next_id t)) t'"
proof -
  have free: "\<not> period_taken a (fst (current_period_key now)) t"
    using inv new by (force simp: period_taken_def backfilled_def dest: select_first_Some)
  let ?i = "next_id t" and ?g = "f(a \<mapsto> next_id t)"
  let ?t' = "attach_reservations a ?i (t\<lparr>usage_periods := usage_periods t @ [backfilled_period a now s ?i], next_id := Suc ?i\<rparr>)"
  have same: "backfilled_period a now t ?i = backfilled_period a now s ?i"
    using inv by (intro backfilled_period_same) (simp_all add: backfilled_def)
  have step: "backfill_account now a t = Ok () ?t'"
    using free by (simp add: backfill_account_def andthen_def insert_row_def same) (simp add: backfilled_period_def)
  have attached: "(if unattached a (assign f r) then (assign f r)\<lparr>br_usage_period_id := Some ?i\<rparr> else assign f r) = assign ?g r"
    if "r \<in> set (budget_reservations s)" for r
    using loose that new by (auto simp: assign_def unattached_def)
  have fresh: "?i \<notin> ran f" using inv by (auto simp: backfilled_def ran_def)
  have "inj_on ?g (dom ?g)"
    using inv fresh by (auto simp: backfilled_def inj_on_def ran_def split: if_splits)
  moreover have "budget_reservations ?t' = map (assign ?g) (budget_reservations s)"
    using inv attached by (simp add: attach_reservations_def backfilled_def update_where_def comp_def cong: map_cong)
  ultimately have "backfilled now s ?g ?t'"
    using inv new by (auto simp: backfilled_def attach_reservations_def backfilled_period_def less_Suc_eq)
  with step show ?thesis by blast
qed

lemma backfill_each_ok:
  assumes "backfilled now s f t" and "distinct as" and "\<forall>a \<in> set as. f a = None"
    and "\<forall>r \<in> set (budget_reservations s). br_status r = RESERVED \<longrightarrow> br_usage_period_id r = None"
  shows "\<exists>g t'. backfill_each now as t = Ok () t' \<and> backfilled now s g t' \<and> dom g = dom f \<union> set as"
  using assms(1-3)
proof (induction as arbitrary: f t)
  case Nil
  then show ?case by (auto simp: ret_def)
next
  case (Cons a as)
  obtain t1 where one: "backfill_account now a t = Ok () t1" "backfilled now s (f(a \<mapsto> next_id t)) t1"
    using backfill_account_step [OF Cons.prems(1) _ assms(4)] Cons.prems(3) by auto
  have "distinct as" "\<forall>x \<in> set as. (f(a \<mapsto> next_id t)) x = None" using Cons.prems(2,3) by auto
  then obtain g t' where "backfill_each now as t1 = Ok () t'" "backfilled now s g t'" "dom g = dom (f(a \<mapsto> next_id t)) \<union> set as"
    using Cons.IH [OF one(2)] by blast
  with one(1) show ?case by (auto simp: andthen_Ok)
qed

text \<open>The sums over the windows of an account and over its open reservations are the same when the windows are balanced.\<close>

definition windows_balanced :: "db \<Rightarrow> bool" where
  "windows_balanced s \<longleftrightarrow> distinct (map uw_id (usage_windows s))
   \<and> list_all (\<lambda>w. uw_reserved_micro w = live_sum br_reserved_micro (\<lambda>r. br_usage_window_id r = uw_id w) s) (usage_windows s)
   \<and> list_all (\<lambda>r. br_status r = RESERVED \<longrightarrow>
        list_ex (\<lambda>w. uw_id w = br_usage_window_id r \<and> uw_account_id w = br_account_id r) (usage_windows s)) (budget_reservations s)"

lemma sum_of_one:
  assumes "distinct (map k ws)" and "w \<in> set ws"
  shows "sum_list (map (\<lambda>v. if k v = k w then (x :: int) else 0) ws) = x"
  using assms
proof (induction ws)
  case (Cons v ws)
  show ?case
  proof (cases "w = v")
    case True
    from Cons.prems(1) True have "k w \<notin> k ` set ws" by simp
    then have "k u \<noteq> k w" if "u \<in> set ws" for u using that by (metis image_eqI)
    then have "map (\<lambda>u. if k u = k w then x else 0) ws = map (\<lambda>_. 0) ws" by (intro map_cong) auto
    with True show ?thesis by (simp add: sum_list_triv del: map_eq_conv)
  next
    case False
    with Cons.prems have "w \<in> set ws" "k v \<noteq> k w" by auto
    with Cons show ?thesis by auto
  qed
qed simp

lemma sum_of_live:
  assumes ws: "distinct (map uw_id ws)"
    and own: "\<forall>r \<in> set rs. br_status r = RESERVED \<longrightarrow> (\<exists>w \<in> set ws. uw_id w = br_usage_window_id r \<and> uw_account_id w = br_account_id r)"
  shows "sum_list (map (\<lambda>w. sum_list (map br_reserved_micro (filter (\<lambda>r. br_status r = RESERVED \<and> br_usage_window_id r = uw_id w) rs)))
      (filter (\<lambda>w. uw_account_id w = a) ws))
    = sum_list (map br_reserved_micro (filter (\<lambda>r. br_status r = RESERVED \<and> br_account_id r = a) rs))"
  using own
proof (induction rs)
  case Nil
  then show ?case by (induction ws) simp_all
next
  case (Cons r rs)
  let ?own = "filter (\<lambda>w. uw_account_id w = a) ws"
  let ?rest = "\<lambda>w. sum_list (map br_reserved_micro (filter (\<lambda>r. br_status r = RESERVED \<and> br_usage_window_id r = uw_id w) rs))"
  let ?one = "\<lambda>w. if br_status r = RESERVED \<and> br_usage_window_id r = uw_id w then br_reserved_micro r else 0"
  have "sum_list (map ?one ?own) = (if br_status r = RESERVED \<and> br_account_id r = a then br_reserved_micro r else 0)"
  proof (cases "br_status r = RESERVED")
    case True
    then obtain w where w: "w \<in> set ws" "uw_id w = br_usage_window_id r" "uw_account_id w = br_account_id r" using Cons.prems by auto
    show ?thesis
    proof (cases "br_account_id r = a")
      case True
      have "distinct (map uw_id ?own)" using ws by (rule distinct_map_filter)
      moreover have "w \<in> set ?own" using w True by simp
      ultimately have "sum_list (map (\<lambda>v. if uw_id v = uw_id w then br_reserved_micro r else 0) ?own) = br_reserved_micro r"
        by (rule sum_of_one)
      with True w(2) \<open>br_status r = RESERVED\<close> show ?thesis by (simp add: eq_commute)
    next
      case False
      have "?one v = 0" if mem: "v \<in> set ?own" for v
      proof -
        have "inj_on uw_id (set ws)" using ws by (simp add: distinct_map)
        then have "uw_id v = uw_id w \<Longrightarrow> v = w" using mem w(1) by (auto dest: inj_onD)
        then show ?thesis using False mem w by auto
      qed
      then have "map ?one ?own = map (\<lambda>_. 0) ?own" by (intro map_cong) auto
      with False show ?thesis by (simp add: sum_list_triv del: map_eq_conv)
    qed
  qed (simp add: sum_list_triv)
  moreover have "sum_list (map (\<lambda>w. sum_list (map br_reserved_micro
        (filter (\<lambda>r. br_status r = RESERVED \<and> br_usage_window_id r = uw_id w) (r # rs)))) ?own)
      = sum_list (map ?one ?own) + sum_list (map ?rest ?own)"
    by (subst sum_list_addf [symmetric], intro arg_cong [where f = sum_list] map_cong) auto
  ultimately show ?case using Cons by simp
qed

lemma windows_reserved_live:
  assumes "windows_balanced s"
  shows "windows_reserved a s = live_sum br_reserved_micro (\<lambda>r. br_account_id r = a) s"
proof -
  have "map uw_reserved_micro (filter (\<lambda>w. uw_account_id w = a) (usage_windows s))
      = map (\<lambda>w. live_sum br_reserved_micro (\<lambda>r. br_usage_window_id r = uw_id w) s) (filter (\<lambda>w. uw_account_id w = a) (usage_windows s))"
    using assms by (auto simp: windows_balanced_def list_all_iff)
  then have "windows_reserved a s = sum_list (map (\<lambda>w. live_sum br_reserved_micro (\<lambda>r. br_usage_window_id r = uw_id w) s)
      (filter (\<lambda>w. uw_account_id w = a) (usage_windows s)))"
    by (simp only: windows_reserved_def)
  also have "\<dots> = live_sum br_reserved_micro (\<lambda>r. br_account_id r = a) s"
    unfolding live_sum_def using assms
    by (intro sum_of_live) (auto simp: windows_balanced_def list_all_iff list_ex_iff)
  finally show ?thesis .
qed

lemma backfilled_live_sum:
  assumes "backfilled now s g t" and "g a = Some i"
    and "\<forall>r \<in> set (budget_reservations s). br_status r = RESERVED \<longrightarrow> br_account_id r \<in> dom g"
  shows "live_sum br_reserved_micro (\<lambda>r. br_usage_period_id r = Some i) t = live_sum br_reserved_micro (\<lambda>r. br_account_id r = a) s"
proof -
  have inj: "g b = Some i \<longleftrightarrow> b = a" for b
    using assms(1,2) by (auto simp: backfilled_def inj_on_def dom_def)
  have "br_usage_period_id (assign g r) = Some i \<longleftrightarrow> br_account_id r = a"
    if "r \<in> set (budget_reservations s)" "br_status r = RESERVED" for r
    using that assms(3) inj by (auto simp: assign_def)
  then have "filter (\<lambda>r. br_status r = RESERVED \<and> br_usage_period_id r = Some i) (map (assign g) (budget_reservations s))
      = map (assign g) (filter (\<lambda>r. br_status r = RESERVED \<and> br_account_id r = a) (budget_reservations s))"
    by (auto simp: filter_map comp_def intro!: arg_cong [where f = "map (assign g)"] filter_cong)
  moreover have "budget_reservations t = map (assign g) (budget_reservations s)" using assms(1) by (simp add: backfilled_def)
  ultimately show ?thesis by (simp add: live_sum_def comp_def)
qed

lemma backfilled_active:
  assumes inv: "backfilled now s g t" and "g a = Some i" and "later < snd (current_period_key now)"
  shows "active_period a later t = Some (backfilled_period a now s i)"
proof -
  let ?p = "backfilled_period a now s i"
  let ?live = "filter (\<lambda>p. up_account_id p = a \<and> later < up_reset_at p) (usage_periods t)"
  have "p = ?p" if "p \<in> set ?live" for p using that inv assms(2) by (auto simp: backfilled_def)
  moreover have "?p \<in> set ?live" using inv assms(2,3) by (auto simp: backfilled_def backfilled_period_def)
  ultimately have "set ?live = {?p}" by blast
  then have "set (sort_key up_reset_at ?live) = {?p}" by simp
  then show ?thesis
    unfolding active_period_def by (cases "sort_key up_reset_at ?live") auto
qed

section \<open>The property\<close>

text \<open>C36: The backfill carries the month over. On a database whose windows are balanced, that has no periods yet and whose open
  reservations are attached to none, it succeeds; afterwards each period's reserved amount is the sum of the
  open reservations that name it, every open reservation names a period of its own account, and whoever asks for an account's period
  before the month ends is given the backfilled one, with what the account's windows of this month had settled, and changes
  nothing.\<close>

theorem backfill_carries_the_month:
  assumes "windows_balanced s" and "usage_periods s = []"
    and "list_all (\<lambda>r. br_status r = RESERVED \<longrightarrow> br_usage_period_id r = None) (budget_reservations s)"
  shows "\<exists>t. backfill_usage_periods now s = Ok () t \<and> usage_windows t = usage_windows s
   \<and> (\<forall>p \<in> set (usage_periods t). up_reserved_micro p = live_sum br_reserved_micro (\<lambda>r. br_usage_period_id r = Some (up_id p)) t)
   \<and> (\<forall>r \<in> set (budget_reservations t). br_status r = RESERVED \<longrightarrow>
        (\<exists>p \<in> set (usage_periods t). br_usage_period_id r = Some (up_id p) \<and> up_account_id p = br_account_id r))
   \<and> (\<forall>w \<in> set (usage_windows s). \<forall>later policy anchor. later < snd (current_period_key now) \<longrightarrow>
        (\<exists>p. ensure_usage_period later (uw_account_id w) policy anchor t = Ok p t
           \<and> up_settled_micro p = windows_settled (uw_account_id w) (fst (current_period_key now)) s
           \<and> up_reserved_micro p = windows_reserved (uw_account_id w) s))"
proof -
  have loose: "\<forall>r \<in> set (budget_reservations s). br_status r = RESERVED \<longrightarrow> br_usage_period_id r = None"
    using assms(3) by (simp add: list_all_iff)
  obtain g t where run: "backfill_each now (backfill_accounts s) s = Ok () t" and inv: "backfilled now s g t"
    and dom: "dom g = set (backfill_accounts s)"
    using backfill_each_ok [OF backfilled_start [OF assms(2), of now] _ _ loose, of "backfill_accounts s"]
    by (auto simp: distinct_backfill_accounts)
  have open_dom: "\<forall>r \<in> set (budget_reservations s). br_status r = RESERVED \<longrightarrow> br_account_id r \<in> dom g"
    using loose by (auto simp: dom backfill_accounts_def)
  have "up_reserved_micro p = live_sum br_reserved_micro (\<lambda>r. br_usage_period_id r = Some (up_id p)) t" if "p \<in> set (usage_periods t)" for p
  proof -
    from that inv have p: "g (up_account_id p) = Some (up_id p)" "p = backfilled_period (up_account_id p) now s (up_id p)"
      by (auto simp: backfilled_def)
    from p(2) have "up_reserved_micro p = windows_reserved (up_account_id p) s" by (metis backfilled_period_def usage_period.select_convs(5))
    then show ?thesis using backfilled_live_sum [OF inv p(1) open_dom] windows_reserved_live [OF assms(1)] by simp
  qed
  moreover have "\<exists>p \<in> set (usage_periods t). br_usage_period_id r = Some (up_id p) \<and> up_account_id p = br_account_id r"
    if mem: "r \<in> set (budget_reservations t)" and live: "br_status r = RESERVED" for r
  proof -
    obtain r' where r': "r' \<in> set (budget_reservations s)" "r = assign g r'" using mem inv by (auto simp: backfilled_def)
    with live open_dom obtain i where i: "g (br_account_id r') = Some i" by auto
    then have "backfilled_period (br_account_id r') now s i \<in> set (usage_periods t)" using inv by (simp add: backfilled_def)
    with i r'(2) live show ?thesis by (intro bexI) (auto simp: assign_def backfilled_period_def)
  qed
  moreover have "\<exists>p. ensure_usage_period later (uw_account_id w) policy anchor t = Ok p t
      \<and> up_settled_micro p = windows_settled (uw_account_id w) (fst (current_period_key now)) s
      \<and> up_reserved_micro p = windows_reserved (uw_account_id w) s"
    if mem: "w \<in> set (usage_windows s)" and soon: "later < snd (current_period_key now)" for w later policy anchor
  proof -
    obtain i where "g (uw_account_id w) = Some i" using mem dom by (force simp: backfill_accounts_def dom_def)
    then show ?thesis
      using backfilled_active [OF inv _ soon]
      by (simp add: ensure_usage_period_def andthen_def query_def ret_def backfilled_period_def)
  qed
  ultimately show ?thesis using run inv by (auto simp: backfill_usage_periods_def backfilled_def)
qed

text \<open>The ledger with one open reservation, as it stood before the periods existed.\<close>

definition before_periods :: db where
  "before_periods = demo_db\<lparr>usage_periods := [], budget_reservations := [demo_row\<lparr>br_usage_period_id := None\<rparr>]\<rparr>"

theorem backfill_carries_the_month_witness:
  "\<exists>t. backfill_usage_periods demo_now before_periods = Ok () t \<and> usage_windows t = usage_windows before_periods"
proof -
  have "windows_balanced before_periods" by code_simp
  moreover have "usage_periods before_periods = []" by (simp add: before_periods_def)
  moreover have "list_all (\<lambda>r. br_status r = RESERVED \<longrightarrow> br_usage_period_id r = None) (budget_reservations before_periods)"
    by (simp add: before_periods_def)
  ultimately show ?thesis using backfill_carries_the_month [of before_periods demo_now] by blast
qed

end
