(* ===== verification/Environment.thy ===== *)
theory Environment
  imports Config "HOL-Library.AList"
begin

text \<open>
  How settings are read (\<open>config.py\<close>): database URLs as SQLAlchemy parses them, their normalisation and the
  choice of the migration URL, and \<open>Settings(...)\<close> from named texts, which are the environment of a process or the keyword
  arguments of a script. Pydantic's parsing of a text into a field type and SQLAlchemy's parsing and
  rendering of a URL are parameters. A path is kept as its text.
\<close>

record url =
  url_drivername :: string
  url_host :: "string option"
  url_database :: "string option"
  url_query :: "(string \<times> string) list"
  url_rest :: string

record library =
  li_make_url :: "string \<Rightarrow> url option"
  li_render :: "url \<Rightarrow> string"
  li_certificates :: string
  li_rsa_key :: "string \<Rightarrow> bool"
  li_bool :: "string \<Rightarrow> bool option"
  li_int :: "string \<Rightarrow> int option"
  li_float :: "string \<Rightarrow> real option"
  li_list :: "string \<Rightarrow> string list option"

definition ends_with :: "string \<Rightarrow> string \<Rightarrow> bool" where
  "ends_with p s \<longleftrightarrow> length p \<le> length s \<and> drop (length s - length p) s = p"

text \<open>\<open>s.replace(old, new, 1)\<close>, for a text \<open>old\<close> that is not empty\<close>

fun replace_once :: "string \<Rightarrow> string \<Rightarrow> string \<Rightarrow> string" where
  "replace_once old new [] = []"
| "replace_once old new (c # cs) =
     (if take (length old) (c # cs) = old then new @ drop (length old) (c # cs) else c # replace_once old new cs)"

section \<open>Database URLs\<close>

definition on_neon :: "url \<Rightarrow> bool" where
  "on_neon u \<longleftrightarrow> (case url_host u of None \<Rightarrow> False | Some host \<Rightarrow> ends_with ''.neon.tech'' host)"

definition with_driver :: "url \<Rightarrow> url" where
  "with_driver u = (if url_drivername u \<in> {''postgres'', ''postgresql''} then u\<lparr>url_drivername := ''postgresql+psycopg''\<rparr> else u)"

definition with_tls :: "library \<Rightarrow> url \<Rightarrow> url" where
  "with_tls lib u = (if on_neon u
     then u\<lparr>url_query := AList.update ''sslrootcert'' (li_certificates lib) (AList.update ''sslmode'' ''verify-full'' (url_query u))\<rparr>
     else u)"

text \<open>\<open>None\<close> is an invalid URL, \<open>Some None\<close> the value \<open>None\<close>.\<close>

definition normalize_database_url :: "library \<Rightarrow> string \<Rightarrow> string option option" where
  "normalize_database_url lib v =
     (if v = [] then Some None
      else (case li_make_url lib v of None \<Rightarrow> None | Some u \<Rightarrow> Some (Some (li_render lib (with_tls lib (with_driver u))))))"

definition first_label :: "string \<Rightarrow> string" where
  "first_label host = takeWhile (\<lambda>c. c \<noteq> CHR ''.'') host"

text \<open>\<open>Inl\<close> carries the name of the exception.\<close>

definition migration_url :: "library \<Rightarrow> settings \<Rightarrow> string + string" where
  "migration_url lib s =
     (let v = (if truthy (migration_database_url s) then the (migration_database_url s) else database_url s)
      in case li_make_url lib v of
           None \<Rightarrow> Inl ''ArgumentError''
         | Some u \<Rightarrow> (case url_host u of
               None \<Rightarrow> Inr v
             | Some host \<Rightarrow> if ends_with ''.neon.tech'' host \<and> contains ''-pooler'' (first_label host) then Inl ''ValueError'' else Inr v))"

section \<open>Fields\<close>

type_synonym setter = "string \<Rightarrow> settings \<Rightarrow> settings option"

definition text_field :: "(string \<Rightarrow> settings \<Rightarrow> settings) \<Rightarrow> setter" where
  "text_field f v s = Some (f v s)"

definition parsed_field :: "(string \<Rightarrow> 'a option) \<Rightarrow> ('a \<Rightarrow> settings \<Rightarrow> settings) \<Rightarrow> setter" where
  "parsed_field parse f v s = (case parse v of None \<Rightarrow> None | Some x \<Rightarrow> Some (f x s))"

definition database_field :: "library \<Rightarrow> setter" where
  "database_field lib v s = (case normalize_database_url lib v of
       Some (Some u) \<Rightarrow> Some (s\<lparr>database_url := u\<rparr>) | _ \<Rightarrow> None)"

definition migration_field :: "library \<Rightarrow> setter" where
  "migration_field lib v s = (case normalize_database_url lib v of
       None \<Rightarrow> None | Some u \<Rightarrow> Some (s\<lparr>migration_database_url := u\<rparr>))"

definition setters :: "library \<Rightarrow> (string \<times> setter) list" where
  "setters lib =
    [(''environment'', text_field (\<lambda>v s. s\<lparr>environment := v\<rparr>)),
     (''database_url'', database_field lib),
     (''migration_database_url'', migration_field lib),
     (''database_pool_size'', parsed_field (li_int lib) (\<lambda>v s. s\<lparr>database_pool_size := v\<rparr>)),
     (''database_max_overflow'', parsed_field (li_int lib) (\<lambda>v s. s\<lparr>database_max_overflow := v\<rparr>)),
     (''database_pool_timeout'', parsed_field (li_int lib) (\<lambda>v s. s\<lparr>database_pool_timeout := v\<rparr>)),
     (''database_connect_timeout'', parsed_field (li_int lib) (\<lambda>v s. s\<lparr>database_connect_timeout := v\<rparr>)),
     (''redis_url'', text_field (\<lambda>v s. s\<lparr>redis_url := Some v\<rparr>)),
     (''auth_secret'', text_field (\<lambda>v s. s\<lparr>auth_secret := v\<rparr>)),
     (''webhook_secret'', text_field (\<lambda>v s. s\<lparr>webhook_secret := v\<rparr>)),
     (''allow_development_auth'', parsed_field (li_bool lib) (\<lambda>v s. s\<lparr>allow_development_auth := v\<rparr>)),
     (''clerk_publishable_key'', text_field (\<lambda>v s. s\<lparr>clerk_publishable_key := Some v\<rparr>)),
     (''clerk_issuer'', text_field (\<lambda>v s. s\<lparr>clerk_issuer := Some v\<rparr>)),
     (''clerk_jwt_public_key_b64'', text_field (\<lambda>v s. s\<lparr>clerk_jwt_public_key_b64 := Some v\<rparr>)),
     (''live_models_enabled'', parsed_field (li_bool lib) (\<lambda>v s. s\<lparr>live_models_enabled := v\<rparr>)),
     (''opencode_enabled'', parsed_field (li_bool lib) (\<lambda>v s. s\<lparr>opencode_enabled := v\<rparr>)),
     (''opencode_api_key'', text_field (\<lambda>v s. s\<lparr>opencode_api_key := Some v\<rparr>)),
     (''openrouter_enabled'', parsed_field (li_bool lib) (\<lambda>v s. s\<lparr>openrouter_enabled := v\<rparr>)),
     (''openrouter_api_key'', text_field (\<lambda>v s. s\<lparr>openrouter_api_key := Some v\<rparr>)),
     (''gateway_kill_switch'', parsed_field (li_bool lib) (\<lambda>v s. s\<lparr>gateway_kill_switch := v\<rparr>)),
     (''model_registry_path'', text_field (\<lambda>v s. s\<lparr>model_registry_path := Some v\<rparr>)),
     (''gateway_timeout_seconds'', parsed_field (li_float lib) (\<lambda>v s. s\<lparr>gateway_timeout_seconds := v\<rparr>)),
     (''gateway_breaker_failure_threshold'', parsed_field (li_int lib) (\<lambda>v s. s\<lparr>gateway_breaker_failure_threshold := v\<rparr>)),
     (''gateway_breaker_open_seconds'', parsed_field (li_float lib) (\<lambda>v s. s\<lparr>gateway_breaker_open_seconds := v\<rparr>)),
     (''gateway_model_cooldown_seconds'', parsed_field (li_float lib) (\<lambda>v s. s\<lparr>gateway_model_cooldown_seconds := v\<rparr>)),
     (''gateway_daily_request_limit'', parsed_field (li_int lib) (\<lambda>v s. s\<lparr>gateway_daily_request_limit := v\<rparr>)),
     (''gateway_paid_reserved_requests'', parsed_field (li_int lib) (\<lambda>v s. s\<lparr>gateway_paid_reserved_requests := v\<rparr>)),
     (''rate_limit_per_minute'', parsed_field (li_int lib) (\<lambda>v s. s\<lparr>rate_limit_per_minute := v\<rparr>)),
     (''paid_checkout_enabled'', parsed_field (li_bool lib) (\<lambda>v s. s\<lparr>paid_checkout_enabled := v\<rparr>)),
     (''whatsapp_enabled'', parsed_field (li_bool lib) (\<lambda>v s. s\<lparr>whatsapp_enabled := v\<rparr>)),
     (''access_codes_path'', text_field (\<lambda>v s. s\<lparr>access_codes_path := Some v\<rparr>)),
     (''production_period_budget_micro'', parsed_field (li_int lib) (\<lambda>v s. s\<lparr>production_period_budget_micro := Some v\<rparr>)),
     (''global_daily_budget_micro'', parsed_field (li_int lib) (\<lambda>v s. s\<lparr>global_daily_budget_micro := v\<rparr>)),
     (''data_dir'', text_field (\<lambda>v s. s\<lparr>data_dir := v\<rparr>)),
     (''parakh_trusted_public_keys'', parsed_field (li_list lib) (\<lambda>v s. s\<lparr>parakh_trusted_public_keys := v\<rparr>))]"

text \<open>\<open>Inl\<close> names the first field that does not parse.\<close>

fun set_fields :: "(string \<Rightarrow> string option) \<Rightarrow> (string \<times> setter) list \<Rightarrow> settings \<Rightarrow> string + settings" where
  "set_fields get [] s = Inr s"
| "set_fields get ((field, f) # fs) s = (case get field of
       None \<Rightarrow> set_fields get fs s
     | Some v \<Rightarrow> (case f v s of None \<Rightarrow> Inl field | Some s' \<Rightarrow> set_fields get fs s'))"

definition settings_of :: "library \<Rightarrow> (string \<Rightarrow> string option) \<Rightarrow> string + settings" where
  "settings_of lib get = (case set_fields get (setters lib) default_settings of
       Inl e \<Rightarrow> Inl e | Inr s \<Rightarrow> load_settings (li_rsa_key lib) s)"

text \<open>The environment of a process, whose names are compared without case. The API key of one provider has two more names.\<close>

definition lower_env :: "(string \<times> string) list \<Rightarrow> (string \<times> string) list" where
  "lower_env env = rev (map (\<lambda>(k, v). (map lower_char k, v)) env)"

fun first_of :: "('k \<Rightarrow> 'v option) \<Rightarrow> 'k list \<Rightarrow> 'v option" where
  "first_of m [] = None"
| "first_of m (k # ks) = (case m k of None \<Rightarrow> first_of m ks | Some v \<Rightarrow> Some v)"

definition env_field :: "(string \<times> string) list \<Rightarrow> string \<Rightarrow> string option" where
  "env_field env field = (let m = map_of (lower_env env) in
     if field = ''openrouter_api_key'' then first_of m [''daily_agent_openrouter_api_key'', ''openrouter_api_key'', ''open_router_key'']
     else m (''daily_agent_'' @ field))"

end
