(* ===== verification/Readiness.thy ===== *)
theory Readiness
  imports Environment Json
begin

text \<open>
  The configuration audit (\<open>src/scripts/readiness_config.py\<close>): parsing a candidate environment file, the checks in their order, the
  overall status and the exit code. Texts are below 256 code points.
\<close>

section \<open>The candidate file\<close>

text \<open>\<open>str.splitlines\<close>\<close>

definition ends_line :: "char \<Rightarrow> bool" where
  "ends_line c \<longleftrightarrow> (of_char c :: nat) \<in> {10, 11, 12, 13, 28, 29, 30, 133}"

fun split_lines :: "string \<Rightarrow> string list" where
  "split_lines [] = []"
| "split_lines [c] = (if ends_line c then [[]] else [[c]])"
| "split_lines (c # d # cs) =
     (if ends_line c
      then [] # (if c = CHR 0x0D \<and> d = CHR 0x0A then split_lines cs else split_lines (d # cs))
      else (case split_lines (d # cs) of [] \<Rightarrow> [[c]] | l # ls \<Rightarrow> (c # l) # ls))"

definition unquote :: "string \<Rightarrow> string" where
  "unquote s = rev (dropWhile (\<lambda>c. c \<in> {CHR 0x27, CHR 0x22}) (rev (dropWhile (\<lambda>c. c \<in> {CHR 0x27, CHR 0x22}) s)))"

definition PREFIX :: string where "PREFIX = ''DAILY_AGENT_''"

definition parse_line :: "string \<Rightarrow> (string \<times> string) option" where
  "parse_line line =
     (let stripped = strip_string line;
          key = takeWhile (\<lambda>c. c \<noteq> CHR ''='') stripped;
          rest = dropWhile (\<lambda>c. c \<noteq> CHR ''='') stripped
      in if stripped = [] \<or> starts_with ''#'' stripped \<or> rest = [] \<or> \<not> starts_with PREFIX key then None
         else Some (map lower_char (drop (length PREFIX) key), unquote (strip_string (tl rest))))"

definition add_line :: "string \<Rightarrow> (string \<times> string) list \<Rightarrow> (string \<times> string) list" where
  "add_line line values = (case parse_line line of None \<Rightarrow> values | Some (k, v) \<Rightarrow> AList.update k v values)"

definition parse_env :: "string \<Rightarrow> (string \<times> string) list" where
  "parse_env text = fold add_line (split_lines text) []"

section \<open>The checks\<close>

datatype check_status = PASS | BLOCKED | FAIL

record check =
  ck_id :: string
  ck_status :: check_status
  ck_reason :: string

definition passing :: "string \<Rightarrow> bool \<Rightarrow> string \<Rightarrow> check" where
  "passing name holds reason = \<lparr>ck_id = name, ck_status = (if holds then PASS else FAIL), ck_reason = reason\<rparr>"

definition blocked :: "string \<Rightarrow> string \<Rightarrow> check" where
  "blocked name reason = \<lparr>ck_id = name, ck_status = BLOCKED, ck_reason = reason\<rparr>"

type_synonym candidate = "string \<Rightarrow> string option"

definition get_or :: "candidate \<Rightarrow> string \<Rightarrow> string \<Rightarrow> string" where
  "get_or values key fallback = (case values key of None \<Rightarrow> fallback | Some v \<Rightarrow> v)"

definition lowered :: "candidate \<Rightarrow> string \<Rightarrow> string \<Rightarrow> string" where
  "lowered values key fallback = map lower_char (get_or values key fallback)"

definition has_marker :: "string list \<Rightarrow> string \<Rightarrow> bool" where
  "has_marker markers text = list_ex (\<lambda>marker. contains marker (map lower_char text)) markers"

definition FIXTURE_MARKERS :: "string list" where
  "FIXTURE_MARKERS = [''test'', ''demo'', ''development'', ''sqlite'']"

definition database_check :: "candidate \<Rightarrow> check" where
  "database_check values = (let database = get_or values ''database_url'' [] in
     passing ''postgresql'' (starts_with ''postgresql+psycopg://'' database \<and> \<not> has_marker FIXTURE_MARKERS database)
       ''production PostgreSQL URL, not a test/fixture database'')"

definition secret_check :: "candidate \<Rightarrow> string \<Rightarrow> check" where
  "secret_check values secret = (let val = get_or values secret [] in
     passing secret (32 \<le> length val \<and> \<not> has_marker PLACEHOLDER_MARKERS val)
       (secret @ '' configured and not a documented placeholder (value never emitted)''))"

definition positive_amount :: "string \<Rightarrow> bool" where
  "positive_amount v \<longleftrightarrow> v \<noteq> [] \<and> list_all is_digit v \<and> 0 < str_nat v"

definition budget_checks :: "candidate \<Rightarrow> check list" where
  "budget_checks values =
    [passing ''period_budget'' (positive_amount (get_or values ''production_period_budget_micro'' []))
       ''explicit finite approved production period budget'',
     passing ''global_budget'' (positive_amount (get_or values ''global_daily_budget_micro'' []))
       ''explicit finite approved daily global ceiling'']"

definition surface_checks :: "candidate \<Rightarrow> check list" where
  "surface_checks values =
    [passing ''whatsapp'' (lowered values ''whatsapp_enabled'' ''false'' = ''false'')
       ''WhatsApp feature remains disabled pending channel eligibility'',
     passing ''development_endpoint'' (lowered values ''allow_development_auth'' ''true'' = ''false'')
       ''/dev/token exists in API but must return 404 in production'',
     passing ''public_https'' (starts_with ''https://'' (get_or values ''public_base_url'' []))
       ''public base URL must use HTTPS; TLS termination requires separate observation'',
     passing ''cors'' (values ''cors_origins'' \<noteq> Some ''*'' \<and> values ''allowed_hosts'' \<noteq> Some ''*'')
       ''no wildcard CORS or host allowlist'',
     passing ''bind'' (values ''host'' \<notin> {Some ''0.0.0.0'', Some ''::'', Some ''*''})
       ''no unrestricted direct application bind; inspect proxy configuration separately'',
     passing ''no_debug'' (lowered values ''debug'' ''false'' = ''false'') ''debug disabled'',
     passing ''no_live_charge'' (lowered values ''paid_checkout_enabled'' ''false'' = ''false''
         \<and> lowered values ''live_models_enabled'' ''false'' = ''false'')
       ''no unapproved live provider/payment traffic'']"

definition keyed_provider :: "candidate \<Rightarrow> string \<Rightarrow> bool" where
  "keyed_provider values name \<longleftrightarrow>
     lowered values (name @ ''_enabled'') ''false'' = ''true'' \<and> get_or values (name @ ''_api_key'') [] \<noteq> []"

definition live_provider :: "candidate \<Rightarrow> bool" where
  "live_provider values \<longleftrightarrow> list_ex (keyed_provider values) [''openrouter'', ''opencode'']"

definition service_checks :: "library \<Rightarrow> candidate \<Rightarrow> check list" where
  "service_checks lib values =
    [passing ''synthetic_provider_disabled'' (live_provider values
         \<and> lowered values ''gateway_kill_switch'' ''false'' = ''false'' \<and> get_or values ''model_registry_path'' [] \<noteq> [])
       ''gateway has an enabled keyed provider, an explicit reviewed model registry, and the kill switch off (otherwise replies fall back to the deterministic demo)'',
     passing ''production_auth'' (clerk_verification_config_valid (li_rsa_key lib) (values ''clerk_issuer'') (values ''clerk_jwt_public_key_b64''))
       ''Clerk issuer and JWT verification key are configured (values never emitted)'',
     passing ''shadow_not_active'' (lowered values ''active_policy_mode'' ''static'' \<notin> {''shadow'', ''synthetic''})
       ''shadow policy cannot serve active production traffic'']"

definition observed_checks :: "bool \<Rightarrow> check list" where
  "observed_checks api_exists =
    [blocked ''telemetry_live_observed'' ''requires deployed routing/usage traces with retention review'',
     blocked ''migrations_restored'' ''requires isolated Postgres upgrade/restore rehearsal'',
     blocked ''rollback_proven'' ''requires candidate-matched rollback observation'',
     passing ''health_ready'' api_exists ''source exists; deployed /health and /ready still require live observations'',
     blocked ''tls_termination'' ''certificate, proxy and network boundary not available offline'',
     blocked ''payment_approval'' ''merchant eligibility and sandbox lifecycle need separate review'']"

definition validator_check :: "library \<Rightarrow> candidate \<Rightarrow> check" where
  "validator_check lib values = (case settings_of lib values of
       Inr _ \<Rightarrow> passing ''settings_validator'' True ''Karmi's production Settings validator accepted the typed input''
     | Inl _ \<Rightarrow> passing ''settings_validator'' False ''Karmi Settings validation rejected production configuration'')"

definition inspect :: "library \<Rightarrow> bool \<Rightarrow> candidate \<Rightarrow> check list" where
  "inspect lib api_exists values =
     [passing ''environment'' (values ''environment'' = Some ''production'') ''production environment explicitly selected'',
      database_check values,
      passing ''development_auth'' (lowered values ''allow_development_auth'' ''true'' = ''false'') ''development token issuance disabled'']
     @ map (secret_check values) [''auth_secret'', ''webhook_secret'']
     @ budget_checks values @ surface_checks values @ service_checks lib values @ observed_checks api_exists
     @ [validator_check lib values]"

section \<open>The command\<close>

definition overall :: "check list \<Rightarrow> check_status" where
  "overall checks = (if list_ex (\<lambda>c. ck_status c = FAIL) checks then FAIL
     else if list_ex (\<lambda>c. ck_status c = BLOCKED) checks then BLOCKED else PASS)"

fun status_name :: "check_status \<Rightarrow> string" where
  "status_name PASS = ''PASS''" | "status_name BLOCKED = ''BLOCKED''" | "status_name FAIL = ''FAIL''"

definition exit_code :: "check_status \<Rightarrow> int" where
  "exit_code s = (if s = PASS then 0 else if s = FAIL then 1 else 2)"

definition check_json :: "check \<Rightarrow> json" where
  "check_json c = JObj [(''id'', JStr (ck_id c)), (''status'', JStr (status_name (ck_status c))), (''reason'', JStr (ck_reason c))]"

definition audit_json :: "bool \<Rightarrow> check list \<Rightarrow> json" where
  "audit_json provided checks = JObj [(''schema_version'', JInt 1), (''candidate_config_provided'', JBool provided),
     (''status'', JStr (status_name (overall checks))), (''production_ready'', JBool False), (''checks'', JArr (map check_json checks))]"

text \<open>What is written to the output file, if anything, and the exit code. A path that is given is \<open>Some\<close> of its text when it
  is a file.\<close>

definition readiness_main :: "library \<Rightarrow> bool \<Rightarrow> string option option \<Rightarrow> json option \<times> int" where
  "readiness_main lib api_exists env_file = (case env_file of
       Some None \<Rightarrow> (None, 1)
     | Some (Some text) \<Rightarrow> (let checks = inspect lib api_exists (map_of (parse_env text)) in
         (Some (audit_json True checks), exit_code (overall checks)))
     | None \<Rightarrow> (let checks = inspect lib api_exists (map_of []) in
         (Some (audit_json False checks), exit_code (overall checks))))"

end
