(* ===== verification/Host.thy ===== *)
theory Host
  imports Environment Json
begin

text \<open>
  The machine that the deployment scripts run on. A script is an operation on the private files, the calls of external programs made so
  far and what was printed; it ends with an exit code or with an exception. What an external program answers is a parameter that may
  depend on every call made before it, so nothing is assumed about the cloud. The calls are structured; \<open>az_args\<close> is
  the command line each stands for.
\<close>

datatype az_call =
    Account_show
  | Acr_check_name string
  | Acr_show string
  | Acr_create string
  | Acr_admin string
  | Acr_credential string
  | Acr_show_tags string string
  | Acr_login_server string
  | App_show
  | App_create string string string string "string list" "string list"
  | App_secret_set "string list"
  | App_registry_set string string string
  | App_ingress
  | App_update string "string list"
  | Revision_list
  | App_fqdn
  | App_state
  | Replica_list string

datatype call =
    Az az_call
  | Git_rev_parse
  | Git_status
  | Podman_build string
  | Podman_login string string string
  | Podman_push string
  | Podman_logout string
  | Alembic_upgrade string "(string \<times> string) list"
  | Read_catalog string
  | Read_versions string
  | Sleep int
  | Prompt string

record completed =
  cp_returncode :: int
  cp_stdout :: string

text \<open>What the first read of the database finds: \<open>current_database()\<close>, \<open>current_schema()\<close>, the tables of the public
  schema and the rows of \<open>alembic_version\<close>, and whether the users have their Clerk column and its key.\<close>

record catalog =
  ct_database :: string
  ct_schema :: string
  ct_server_version :: string
  ct_tables :: "string list"
  ct_versions :: "string list"
  ct_clerk_subject :: bool
  ct_clerk_constraint :: bool

datatype printed = Out string | Err string

record machine =
  ma_files :: "string \<Rightarrow> string option"
  ma_calls :: "call list"
  ma_printed :: "printed list"
  ma_draws :: nat

text \<open>\<open>ho_answer\<close> gives the completed process, or the name of the exception that starting or waiting for it raises;
  \<open>ho_dotenv\<close> is the dotenv parser, \<open>ho_hex\<close> and \<open>ho_suffix\<close> the random source.\<close>

record host =
  ho_lib :: library
  ho_answer :: "call list \<Rightarrow> call \<Rightarrow> string + completed"
  ho_catalog :: "call list \<Rightarrow> string \<Rightarrow> string + catalog"
  ho_dotenv :: "string \<Rightarrow> (string \<times> string option) list"
  ho_loads :: "string \<Rightarrow> json option"
  ho_dumps :: "json \<Rightarrow> string"
  ho_str :: "json \<Rightarrow> string"
  ho_hex :: "nat \<Rightarrow> string"
  ho_suffix :: "nat \<Rightarrow> string"
  ho_environ :: "(string \<times> string) list"
  ho_root :: string

datatype stop = Exit int | Exception string

type_synonym 'a act = "(stop, 'a, machine) op"

section \<open>Printing and stopping\<close>

definition say :: "string \<Rightarrow> unit act" where
  "say text m = Ok () (m\<lparr>ma_printed := ma_printed m @ [Out text]\<rparr>)"

definition warn :: "string \<Rightarrow> unit act" where
  "warn text m = Ok () (m\<lparr>ma_printed := ma_printed m @ [Err text]\<rparr>)"

definition line_end :: char where "line_end = CHR 0x0A"

fun join :: "string \<Rightarrow> string list \<Rightarrow> string" where
  "join sep [] = []"
| "join sep [x] = x"
| "join sep (x # y # xs) = x @ sep @ join sep (y # xs)"

text \<open>\<open>str(names)\<close> for names without quotes\<close>

definition list_str :: "string list \<Rightarrow> string" where
  "list_str names = ''['' @ join '', '' (map (\<lambda>n. CHR 0x27 # n @ [CHR 0x27]) names) @ '']''"

text \<open>\<open>return die(message)\<close> and \<open>return fail_step(name, code)\<close>: the exit code of the command\<close>

definition die :: "string \<Rightarrow> 'a act" where
  "die message = andthen (warn message) (\<lambda>_. raise (Exit 1))"

definition fail_step :: "string \<Rightarrow> int \<Rightarrow> 'a act" where
  "fail_step step code = andthen (warn (''step '' @ step @ '' failed with exit code '' @ int_str code)) (\<lambda>_. raise (Exit code))"

definition stopping :: "int act \<Rightarrow> int act" where
  "stopping body m = (case body m of Raise (Exit code) m' \<Rightarrow> Ok code m' | r \<Rightarrow> r)"

section \<open>External programs\<close>

definition run :: "host \<Rightarrow> call \<Rightarrow> completed act" where
  "run h c m = (case ho_answer h (ma_calls m) c of
       Inl e \<Rightarrow> Raise (Exception e) (m\<lparr>ma_calls := ma_calls m @ [c]\<rparr>)
     | Inr p \<Rightarrow> Ok p (m\<lparr>ma_calls := ma_calls m @ [c]\<rparr>))"

definition az :: "host \<Rightarrow> az_call \<Rightarrow> completed act" where
  "az h c = run h (Az c)"

definition read_catalog :: "host \<Rightarrow> string \<Rightarrow> catalog act" where
  "read_catalog h url m = (case ho_catalog h (ma_calls m) url of
       Inl e \<Rightarrow> Raise (Exception e) (m\<lparr>ma_calls := ma_calls m @ [Read_catalog url]\<rparr>)
     | Inr c \<Rightarrow> Ok c (m\<lparr>ma_calls := ma_calls m @ [Read_catalog url]\<rparr>))"

text \<open>\<open>SELECT version_num FROM public.alembic_version\<close>; without the table it fails.\<close>

definition read_versions :: "host \<Rightarrow> string \<Rightarrow> catalog act" where
  "read_versions h url m = (let m' = m\<lparr>ma_calls := ma_calls m @ [Read_versions url]\<rparr> in
     case ho_catalog h (ma_calls m) url of
       Inl e \<Rightarrow> Raise (Exception e) m'
     | Inr c \<Rightarrow> if ''alembic_version'' \<in> set (ct_tables c) then Ok c m' else Raise (Exception ''UndefinedTable'') m')"

definition found_versions :: "catalog \<Rightarrow> string list" where
  "found_versions c = (if ''alembic_version'' \<in> set (ct_tables c) then ct_versions c else [])"

section \<open>Private files\<close>

definition private_line :: "string \<times> string \<Rightarrow> string" where
  "private_line kv = fst kv @ ''='' @ snd kv @ [line_end]"

definition private_text :: "(string \<times> string) list \<Rightarrow> string" where
  "private_text mapping = concat (map private_line mapping)"

definition write_private :: "string \<Rightarrow> (string \<times> string) list \<Rightarrow> unit act" where
  "write_private path mapping m = Ok () (m\<lparr>ma_files := (ma_files m)(path \<mapsto> private_text mapping)\<rparr>)"

text \<open>\<open>dotenv_values\<close> of a file that is missing is empty.\<close>

definition dotenv_values :: "host \<Rightarrow> string \<Rightarrow> machine \<Rightarrow> (string \<times> string option) list" where
  "dotenv_values h path m = (case ma_files m path of None \<Rightarrow> [] | Some text \<Rightarrow> ho_dotenv h text)"

definition dotenv_get :: "host \<Rightarrow> string \<Rightarrow> string \<Rightarrow> machine \<Rightarrow> string option" where
  "dotenv_get h path key m = Option.bind (map_of (dotenv_values h path m) key) id"

fun given :: "(string \<times> string option) list \<Rightarrow> (string \<times> string) list" where
  "given [] = []"
| "given ((k, v) # kvs) = (case v of None \<Rightarrow> given kvs | Some x \<Rightarrow> (k, x) # given kvs)"

definition read_private :: "host \<Rightarrow> string \<Rightarrow> machine \<Rightarrow> (string \<times> string) list" where
  "read_private h path m = given (dotenv_values h path m)"

definition query_files :: "(machine \<Rightarrow> 'a) \<Rightarrow> 'a act" where
  "query_files f m = Ok (f m) m"

section \<open>Command lines\<close>

definition RG :: string where "RG = ''rg-karmi-prod''"
definition LOCATION :: string where "LOCATION = ''eastasia''"
definition CAE :: string where "CAE = ''cae-karmi-prod''"
definition APP :: string where "APP = ''karmi-beta''"
definition IMAGE_REPO :: string where "IMAGE_REPO = ''karmi-backend''"
definition TARGET_PORT :: string where "TARGET_PORT = ''8000''"

definition none_output :: "string list" where "none_output = [''-o'', ''none'']"
definition queried :: "string \<Rightarrow> string list" where "queried q = [''--query'', q, ''-o'', ''tsv'']"
definition on_app :: "string list" where "on_app = [''-g'', RG, ''-n'', APP]"

fun acr_args :: "az_call \<Rightarrow> string list" where
  "acr_args Account_show = [''account'', ''show''] @ none_output"
| "acr_args (Acr_check_name n) = [''acr'', ''check-name'', ''-n'', n] @ queried ''nameAvailable''"
| "acr_args (Acr_show n) = [''acr'', ''show'', ''-g'', RG, ''-n'', n] @ none_output"
| "acr_args (Acr_create n) = [''acr'', ''create'', ''-g'', RG, ''-n'', n, ''-l'', LOCATION, ''--sku'', ''Basic'',
     ''--admin-enabled'', ''true''] @ none_output"
| "acr_args (Acr_admin n) = [''acr'', ''update'', ''-n'', n, ''--admin-enabled'', ''true''] @ none_output"
| "acr_args (Acr_credential n) = [''acr'', ''credential'', ''show'', ''-n'', n] @ queried ''passwords[0].value''"
| "acr_args (Acr_show_tags n tag) = [''acr'', ''repository'', ''show-tags'', ''-n'', n, ''--repository'', IMAGE_REPO]
     @ queried (''contains(@, '' @ CHR 0x27 # tag @ CHR 0x27 # '')'')"
| "acr_args (Acr_login_server n) = [''acr'', ''show'', ''-n'', n, ''-g'', RG] @ queried ''loginServer''"
| "acr_args _ = []"

fun app_args :: "az_call \<Rightarrow> string list" where
  "app_args App_show = [''containerapp'', ''show''] @ on_app @ none_output"
| "app_args (App_create img server user password secrets env) = [''containerapp'', ''create''] @ on_app
     @ [''--environment'', CAE, ''--image'', img, ''--ingress'', ''external'', ''--target-port'', TARGET_PORT,
        ''--min-replicas'', ''1'', ''--max-replicas'', ''1'', ''--registry-server'', server, ''--registry-username'', user,
        ''--registry-password'', password, ''--secrets''] @ secrets @ [''--env-vars''] @ env @ none_output"
| "app_args (App_secret_set secrets) = [''containerapp'', ''secret'', ''set''] @ on_app @ [''--secrets''] @ secrets @ none_output"
| "app_args (App_registry_set server user password) = [''containerapp'', ''registry'', ''set''] @ on_app
     @ [''--server'', server, ''--username'', user, ''--password'', password] @ none_output"
| "app_args App_ingress = [''containerapp'', ''ingress'', ''enable''] @ on_app
     @ [''--type'', ''external'', ''--target-port'', TARGET_PORT] @ none_output"
| "app_args (App_update img env) = [''containerapp'', ''update''] @ on_app
     @ [''--image'', img, ''--min-replicas'', ''1'', ''--max-replicas'', ''1'', ''--replace-env-vars''] @ env @ none_output"
| "app_args Revision_list = [''containerapp'', ''revision'', ''list''] @ on_app
     @ [''--query'', ''[].{name:name,image:properties.template.containers[0].image,health:properties.healthState,run:properties.runningState}'',
        ''-o'', ''json'']"
| "app_args App_fqdn = [''containerapp'', ''show''] @ on_app @ queried ''properties.configuration.ingress.fqdn''"
| "app_args App_state = [''containerapp'', ''show''] @ on_app
     @ [''--query'', ''{provisioningState:properties.provisioningState,runningStatus:properties.runningStatus,fqdn:properties.configuration.ingress.fqdn,latestRevision:properties.latestRevisionName,latestReady:properties.latestReadyRevisionName,minReplicas:properties.template.scale.minReplicas,maxReplicas:properties.template.scale.maxReplicas,image:properties.template.containers[0].image}'',
        ''-o'', ''json'']"
| "app_args (Replica_list revision) = [''containerapp'', ''replica'', ''list''] @ on_app
     @ [''--revision'', revision, ''--query'', ''[].name'', ''-o'', ''json'']"
| "app_args _ = []"

definition az_args :: "az_call \<Rightarrow> string list" where
  "az_args c = acr_args c @ app_args c"

end
