(* ===== verification/Deploy.thy ===== *)
theory Deploy
  imports Host Revisions
begin

text \<open>
  The deployment commands (\<open>src/scripts/deploy_azure.py\<close>): \<open>build\<close>, \<open>deploy\<close>, \<open>status\<close> and \<open>migrate\<close>, each with its early returns.
  The scripts of Alembic are the revisions of \<open>Revisions\<close>. Diagnostics that a script suppresses are not kept.
\<close>

definition ENV_AZURE :: string where "ENV_AZURE = ''.env.azure''"
definition PROD_ENV :: string where "PROD_ENV = ''.env.azure.prod''"
definition NEON_ENV :: string where "NEON_ENV = ''.env.neon''"
definition CLERK_ENV :: string where "CLERK_ENV = ''.env.clerk''"
definition OPENROUTER_ENV :: string where "OPENROUTER_ENV = ''.env.openrouter''"
definition PRODUCTION_BUDGET_MICRO :: string where "PRODUCTION_BUDGET_MICRO = ''1000000''"
definition GLOBAL_BUDGET_MICRO :: string where "GLOBAL_BUDGET_MICRO = ''1000000''"
definition GATEWAY_TIMEOUT_SECONDS :: string where "GATEWAY_TIMEOUT_SECONDS = ''12''"
definition REGISTRY_IN_IMAGE :: string where
  "REGISTRY_IN_IMAGE = ''/usr/local/lib/python3.12/site-packages/daily_agent/gateway/data/model_registry.json''"

definition text_of :: "string option \<Rightarrow> string" where
  "text_of v = (case v of None \<Rightarrow> [] | Some s \<Rightarrow> s)"

definition require_login :: "host \<Rightarrow> unit act" where
  "require_login h = andthen (az h Account_show) (\<lambda>p. if cp_returncode p \<noteq> 0 then die ''Run az login first'' else ret ())"

section \<open>The private state\<close>

definition draw_hex :: "host \<Rightarrow> string act" where
  "draw_hex h m = Ok (ho_hex h (ma_draws m)) (m\<lparr>ma_draws := Suc (ma_draws m)\<rparr>)"

definition draw_suffix :: "host \<Rightarrow> string act" where
  "draw_suffix h m = Ok (ho_suffix h (ma_draws m)) (m\<lparr>ma_draws := Suc (ma_draws m)\<rparr>)"

definition ensure_secret :: "host \<Rightarrow> string \<Rightarrow> (string \<times> string) list \<Rightarrow> ((string \<times> string) list \<times> bool) act" where
  "ensure_secret h key state =
     (if text_of (map_of state key) \<noteq> [] then ret (state, False)
      else andthen (draw_hex h) (\<lambda>secret. ret (AList.update key secret state, True)))"

definition ensure_state :: "host \<Rightarrow> (string \<times> string) list act" where
  "ensure_state h =
     andthen (query_files (read_private h ENV_AZURE)) (\<lambda>state.
     andthen (ensure_secret h ''AUTH_SECRET'' state) (\<lambda>(state, dirty).
     andthen (ensure_secret h ''WEBHOOK_SECRET'' state) (\<lambda>(state, dirty').
       if dirty \<or> dirty' then andthen (write_private ENV_AZURE state) (\<lambda>_. ret state) else ret state)))"

section \<open>build\<close>

definition answered_true :: "completed \<Rightarrow> bool" where
  "answered_true p \<longleftrightarrow> cp_returncode p = 0 \<and> map lower_char (strip_string (cp_stdout p)) = ''true''"

fun find_acr_name :: "host \<Rightarrow> nat \<Rightarrow> string option act" where
  "find_acr_name h 0 = ret None"
| "find_acr_name h (Suc n) =
     andthen (draw_suffix h) (\<lambda>suffix.
     andthen (az h (Acr_check_name (''karmiprod'' @ suffix))) (\<lambda>p.
       if answered_true p then ret (Some (''karmiprod'' @ suffix)) else find_acr_name h n))"

definition acr_name :: "host \<Rightarrow> (string \<times> string) list \<Rightarrow> (string \<times> (string \<times> string) list) act" where
  "acr_name h state =
     (if text_of (map_of state ''ACR_NAME'') \<noteq> [] then ret (text_of (map_of state ''ACR_NAME''), state)
      else andthen (find_acr_name h 5) (\<lambda>found. case found of
          None \<Rightarrow> die ''Failed to generate an available ACR name after 5 attempts''
        | Some name \<Rightarrow> andthen (write_private ENV_AZURE (AList.update ''ACR_NAME'' name state))
            (\<lambda>_. ret (name, AList.update ''ACR_NAME'' name state))))"

definition die_step :: "string \<Rightarrow> completed \<Rightarrow> 'a act" where
  "die_step step p = die (''step '' @ step @ '' failed with exit code '' @ int_str (cp_returncode p))"

definition ensure_acr :: "host \<Rightarrow> string \<Rightarrow> unit act" where
  "ensure_acr h name =
     andthen (az h (Acr_show name)) (\<lambda>shown.
       if cp_returncode shown \<noteq> 0
       then andthen (az h (Acr_create name)) (\<lambda>p. if cp_returncode p \<noteq> 0 then die_step ''acr create'' p else ret ())
       else andthen (az h (Acr_admin name)) (\<lambda>p. if cp_returncode p \<noteq> 0 then die_step ''acr update'' p else ret ()))"

definition commit_tag :: "host \<Rightarrow> string act" where
  "commit_tag h =
     andthen (run h Git_rev_parse) (\<lambda>p.
       if cp_returncode p \<noteq> 0 \<or> strip_string (cp_stdout p) = [] then die ''git rev-parse failed''
       else andthen (run h Git_status) (\<lambda>status.
         if strip_string (cp_stdout status) \<noteq> []
         then andthen (say ''warning: git working tree is dirty; tag will include -dirty'')
           (\<lambda>_. ret (strip_string (cp_stdout p) @ ''-dirty''))
         else ret (strip_string (cp_stdout p))))"

definition registry_host :: "string \<Rightarrow> string" where
  "registry_host name = name @ ''.azurecr.io''"

text \<open>A blank answer with exit code 0 ends the command with exit code 0.\<close>

definition registry_password :: "host \<Rightarrow> string \<Rightarrow> string act" where
  "registry_password h name =
     andthen (az h (Acr_credential name)) (\<lambda>p.
       if cp_returncode p \<noteq> 0 \<or> strip_string (cp_stdout p) = [] then fail_step ''acr credential show'' (cp_returncode p)
       else ret (strip_string (cp_stdout p)))"

definition checked_run :: "host \<Rightarrow> string \<Rightarrow> call \<Rightarrow> unit act" where
  "checked_run h step c = andthen (run h c) (\<lambda>p. if cp_returncode p \<noteq> 0 then fail_step step (cp_returncode p) else ret ())"

definition push_image :: "host \<Rightarrow> string \<Rightarrow> string \<Rightarrow> unit act" where
  "push_image h name img =
     andthen (checked_run h ''podman build'' (Podman_build img)) (\<lambda>_.
     andthen (registry_password h name) (\<lambda>password.
     andthen (checked_run h ''podman login'' (Podman_login (registry_host name) name password)) (\<lambda>_.
     andthen (run h (Podman_push img)) (\<lambda>pushed.
     andthen (run h (Podman_logout (registry_host name))) (\<lambda>_.
       if cp_returncode pushed \<noteq> 0 then fail_step ''podman push'' (cp_returncode pushed) else ret ())))))"

definition verify_tag :: "host \<Rightarrow> string \<Rightarrow> string \<Rightarrow> unit act" where
  "verify_tag h name tag =
     andthen (az h (Acr_show_tags name tag)) (\<lambda>p.
       if \<not> answered_true p then die (''step verify tag '' @ tag @ '' failed'') else ret ())"

definition build_body :: "host \<Rightarrow> int act" where
  "build_body h =
     andthen (require_login h) (\<lambda>_.
     andthen (ensure_state h) (\<lambda>state.
     andthen (acr_name h state) (\<lambda>(name, state).
     andthen (ensure_acr h name) (\<lambda>_.
     andthen (commit_tag h) (\<lambda>tag.
     andthen (write_private ENV_AZURE (AList.update ''IMAGE_TAG'' tag state)) (\<lambda>_.
     andthen (push_image h name (registry_host name @ ''/'' @ IMAGE_REPO @ '':'' @ tag)) (\<lambda>_.
     andthen (verify_tag h name tag) (\<lambda>_.
     andthen (az h (Acr_login_server name)) (\<lambda>p.
       if cp_returncode p \<noteq> 0 \<or> strip_string (cp_stdout p) = [] then die_step ''acr show loginServer'' p
       else andthen (say (''IMAGE: '' @ strip_string (cp_stdout p) @ ''/'' @ IMAGE_REPO @ '':'' @ tag)) (\<lambda>_. ret 0))))))))))"

definition build :: "host \<Rightarrow> int act" where
  "build h = stopping (build_body h)"

section \<open>deploy: what it reads\<close>

record deploy_inputs =
  di_acr_name :: string
  di_image_tag :: string
  di_auth_secret :: string
  di_webhook_secret :: string
  di_db_url :: string
  di_clerk_issuer :: string
  di_clerk_jwt_key :: string
  di_api_key :: string

definition pooled_host :: "url \<Rightarrow> bool" where
  "pooled_host u \<longleftrightarrow> text_of (url_host u) \<noteq> [] \<and> ends_with ''.neon.tech'' (text_of (url_host u))
     \<and> contains ''-pooler.'' (text_of (url_host u))"

definition pooled_url :: "url \<Rightarrow> bool" where
  "pooled_url u \<longleftrightarrow> pooled_host u \<and> starts_with ''postgresql+psycopg'' (url_drivername u)"

definition openrouter_key :: "host \<Rightarrow> machine \<Rightarrow> string" where
  "openrouter_key h m = (let k = text_of (dotenv_get h OPENROUTER_ENV ''OPEN_ROUTER_KEY'' m) in
     if k \<noteq> [] then k else text_of (dotenv_get h OPENROUTER_ENV ''OPENROUTER_API_KEY'' m))"

definition inputs_of :: "host \<Rightarrow> (string \<times> string) list \<Rightarrow> machine \<Rightarrow> deploy_inputs" where
  "inputs_of h state m =
     \<lparr>di_acr_name = text_of (map_of state ''ACR_NAME''), di_image_tag = text_of (map_of state ''IMAGE_TAG''),
      di_auth_secret = text_of (map_of state ''AUTH_SECRET''), di_webhook_secret = text_of (map_of state ''WEBHOOK_SECRET''),
      di_db_url = text_of (dotenv_get h NEON_ENV ''DAILY_AGENT_DATABASE_URL'' m),
      di_clerk_issuer = text_of (dotenv_get h CLERK_ENV ''DAILY_AGENT_CLERK_ISSUER'' m),
      di_clerk_jwt_key = text_of (dotenv_get h CLERK_ENV ''DAILY_AGENT_CLERK_JWT_PUBLIC_KEY_B64'' m),
      di_api_key = openrouter_key h m\<rparr>"

definition check_inputs :: "library \<Rightarrow> deploy_inputs \<Rightarrow> string + unit" where
  "check_inputs lib i =
     (require (di_acr_name i \<noteq> [] \<and> di_image_tag i \<noteq> []) ''run build first''
     (require (di_auth_secret i \<noteq> [] \<and> di_webhook_secret i \<noteq> []) ''missing AUTH_SECRET or WEBHOOK_SECRET in state''
     (require (di_db_url i \<noteq> []) ''Missing DAILY_AGENT_DATABASE_URL in .env.neon''
     (with_some (li_make_url lib (di_db_url i)) ''Invalid DAILY_AGENT_DATABASE_URL in .env.neon'' (\<lambda>u.
      require (pooled_url u) ''Invalid pooled Neon database URL in .env.neon''
     (require (di_clerk_issuer i \<noteq> [] \<and> di_clerk_jwt_key i \<noteq> [])
        ''Missing DAILY_AGENT_CLERK_ISSUER or DAILY_AGENT_CLERK_JWT_PUBLIC_KEY_B64 in .env.clerk''
     (require (clerk_verification_config_valid (li_rsa_key lib) (Some (di_clerk_issuer i)) (Some (di_clerk_jwt_key i)))
        ''Invalid Clerk verification configuration in .env.clerk''
     (require (di_api_key i \<noteq> []) ''Missing OPEN_ROUTER_KEY or OPENROUTER_API_KEY in .env.openrouter'' (Inr ())))))))))"

section \<open>deploy: what it runs\<close>

datatype env_value = Plain string | Secretref string

definition secrets_map :: "deploy_inputs \<Rightarrow> (string \<times> string) list" where
  "secrets_map i = [(''database-url'', di_db_url i), (''auth-secret'', di_auth_secret i), (''webhook-secret'', di_webhook_secret i),
     (''openrouter-api-key'', di_api_key i), (''clerk-jwt-public-key'', di_clerk_jwt_key i)]"

definition plain_env_vars :: "deploy_inputs \<Rightarrow> (string \<times> env_value) list" where
  "plain_env_vars i =
    [(''DAILY_AGENT_ENVIRONMENT'', Plain ''production''),
     (''DAILY_AGENT_ALLOW_DEVELOPMENT_AUTH'', Plain ''false''),
     (''DAILY_AGENT_OPENROUTER_ENABLED'', Plain ''true''),
     (''DAILY_AGENT_GATEWAY_KILL_SWITCH'', Plain ''false''),
     (''DAILY_AGENT_GATEWAY_TIMEOUT_SECONDS'', Plain GATEWAY_TIMEOUT_SECONDS),
     (''DAILY_AGENT_PAID_CHECKOUT_ENABLED'', Plain ''false''),
     (''DAILY_AGENT_WHATSAPP_ENABLED'', Plain ''false''),
     (''DAILY_AGENT_CLERK_ISSUER'', Plain (di_clerk_issuer i)),
     (''DAILY_AGENT_PRODUCTION_PERIOD_BUDGET_MICRO'', Plain PRODUCTION_BUDGET_MICRO),
     (''DAILY_AGENT_GLOBAL_DAILY_BUDGET_MICRO'', Plain GLOBAL_BUDGET_MICRO),
     (''DAILY_AGENT_MODEL_REGISTRY_PATH'', Plain REGISTRY_IN_IMAGE)]"

definition secret_env_vars :: "(string \<times> env_value) list" where
  "secret_env_vars =
    [(''DAILY_AGENT_DATABASE_URL'', Secretref ''database-url''),
     (''DAILY_AGENT_AUTH_SECRET'', Secretref ''auth-secret''),
     (''DAILY_AGENT_WEBHOOK_SECRET'', Secretref ''webhook-secret''),
     (''DAILY_AGENT_OPENROUTER_API_KEY'', Secretref ''openrouter-api-key''),
     (''DAILY_AGENT_CLERK_JWT_PUBLIC_KEY_B64'', Secretref ''clerk-jwt-public-key'')]"

definition env_arg :: "string \<times> env_value \<Rightarrow> string" where
  "env_arg kv = fst kv @ ''='' @ (case snd kv of Plain v \<Rightarrow> v | Secretref k \<Rightarrow> ''secretref:'' @ k)"

definition secret_args :: "deploy_inputs \<Rightarrow> string list" where
  "secret_args i = map (\<lambda>(k, v). k @ ''='' @ v) (secrets_map i)"

definition env_args :: "deploy_inputs \<Rightarrow> string list" where
  "env_args i = map env_arg (plain_env_vars i @ secret_env_vars)"

definition login_server :: "host \<Rightarrow> string \<Rightarrow> string act" where
  "login_server h name =
     andthen (az h (Acr_login_server name)) (\<lambda>p.
       if cp_returncode p \<noteq> 0 \<or> strip_string (cp_stdout p) = [] then fail_step ''acr show loginServer'' (cp_returncode p)
       else ret (strip_string (cp_stdout p)))"

definition checked_az :: "host \<Rightarrow> string \<Rightarrow> az_call \<Rightarrow> unit act" where
  "checked_az h step c = checked_run h step (Az c)"

definition create_or_update :: "host \<Rightarrow> deploy_inputs \<Rightarrow> string \<Rightarrow> string \<Rightarrow> string \<Rightarrow> unit act" where
  "create_or_update h i server password img =
     andthen (az h App_show) (\<lambda>shown.
       if cp_returncode shown \<noteq> 0
       then checked_az h ''containerapp create'' (App_create img server (di_acr_name i) password (secret_args i) (env_args i))
       else
         andthen (checked_az h ''containerapp secret set'' (App_secret_set (secret_args i))) (\<lambda>_.
         andthen (checked_az h ''containerapp registry set'' (App_registry_set server (di_acr_name i) password)) (\<lambda>_.
         andthen (checked_az h ''containerapp ingress enable'' App_ingress) (\<lambda>_.
         checked_az h ''containerapp update'' (App_update img (env_args i))))))"

text \<open>\<open>rev.get\<close> on an entry that is not an object raises.\<close>

definition is_running :: "string \<Rightarrow> (string \<times> json) list \<Rightarrow> bool" where
  "is_running img entry \<longleftrightarrow> jget entry ''image'' = JStr img \<and> jget entry ''health'' = JStr ''Healthy'' \<and> jget entry ''run'' = JStr ''Running''"

fun find_running :: "string \<Rightarrow> json list \<Rightarrow> string + (string \<times> json) list option" where
  "find_running img [] = Inr None"
| "find_running img (r # rs) = (case r of
       JObj entry \<Rightarrow> if is_running img entry then Inr (Some entry) else find_running img rs
     | _ \<Rightarrow> Inl ''AttributeError'')"

definition found_running :: "string \<Rightarrow> json option \<Rightarrow> string + (string \<times> json) list option" where
  "found_running img parsed = (case parsed of Some (JArr entries) \<Rightarrow> find_running img entries | _ \<Rightarrow> Inr None)"

definition poll_revisions :: "host \<Rightarrow> string \<Rightarrow> (string \<times> json) list option act" where
  "poll_revisions h img =
     andthen (run h (Sleep 15)) (\<lambda>_.
     andthen (az h Revision_list) (\<lambda>p.
       if cp_returncode p \<noteq> 0 then ret None
       else (case found_running img (ho_loads h (if cp_stdout p = [] then ''[]'' else cp_stdout p)) of
           Inl e \<Rightarrow> raise (Exception e) | Inr found \<Rightarrow> ret found)))"

fun await_revision :: "host \<Rightarrow> string \<Rightarrow> nat \<Rightarrow> (string \<times> json) list option act" where
  "await_revision h img 0 = ret None"
| "await_revision h img (Suc n) =
     andthen (poll_revisions h img) (\<lambda>found. case found of Some entry \<Rightarrow> ret (Some entry) | None \<Rightarrow> await_revision h img n)"

definition app_address :: "host \<Rightarrow> string act" where
  "app_address h =
     andthen (az h App_fqdn) (\<lambda>p.
       if cp_returncode p \<noteq> 0 \<or> strip_string (cp_stdout p) = [] then die ''Failed to retrieve container app FQDN''
       else ret (strip_string (cp_stdout p)))"

definition prod_mapping :: "host \<Rightarrow> deploy_inputs \<Rightarrow> string \<Rightarrow> (string \<times> string) list" where
  "prod_mapping h i fqdn =
    [(''DAILY_AGENT_ENVIRONMENT'', ''production''),
     (''DAILY_AGENT_DATABASE_URL'', di_db_url i),
     (''DAILY_AGENT_AUTH_SECRET'', di_auth_secret i),
     (''DAILY_AGENT_WEBHOOK_SECRET'', di_webhook_secret i),
     (''DAILY_AGENT_ALLOW_DEVELOPMENT_AUTH'', ''false''),
     (''DAILY_AGENT_CLERK_ISSUER'', di_clerk_issuer i),
     (''DAILY_AGENT_CLERK_JWT_PUBLIC_KEY_B64'', di_clerk_jwt_key i),
     (''DAILY_AGENT_OPENROUTER_ENABLED'', ''true''),
     (''DAILY_AGENT_OPENROUTER_API_KEY'', di_api_key i),
     (''DAILY_AGENT_GATEWAY_KILL_SWITCH'', ''false''),
     (''DAILY_AGENT_GATEWAY_TIMEOUT_SECONDS'', GATEWAY_TIMEOUT_SECONDS),
     (''DAILY_AGENT_PAID_CHECKOUT_ENABLED'', ''false''),
     (''DAILY_AGENT_WHATSAPP_ENABLED'', ''false''),
     (''DAILY_AGENT_LIVE_MODELS_ENABLED'', ''false''),
     (''DAILY_AGENT_PRODUCTION_PERIOD_BUDGET_MICRO'', PRODUCTION_BUDGET_MICRO),
     (''DAILY_AGENT_GLOBAL_DAILY_BUDGET_MICRO'', GLOBAL_BUDGET_MICRO),
     (''DAILY_AGENT_MODEL_REGISTRY_PATH'', ho_root h @ ''/src/daily_agent/gateway/data/model_registry.json''),
     (''DAILY_AGENT_PUBLIC_BASE_URL'', ''https://'' @ fqdn)]"

definition publish :: "host \<Rightarrow> deploy_inputs \<Rightarrow> string \<Rightarrow> int act" where
  "publish h i img =
     andthen (await_revision h img 40) (\<lambda>found. case found of
         None \<Rightarrow> die ''Container app failed to become ready within timeout''
       | Some entry \<Rightarrow>
           andthen (app_address h) (\<lambda>fqdn.
           andthen (write_private PROD_ENV (prod_mapping h i fqdn)) (\<lambda>_.
           andthen (say (''DEPLOYED: https://'' @ fqdn)) (\<lambda>_.
           andthen (say (''revision: '' @ ho_str h (jget entry ''name''))) (\<lambda>_.
           andthen (say ''prod env written: .env.azure.prod (mode 600)'') (\<lambda>_. ret 0))))))"

definition roll_out :: "host \<Rightarrow> deploy_inputs \<Rightarrow> int act" where
  "roll_out h i =
     andthen (login_server h (di_acr_name i)) (\<lambda>server.
     andthen (checked_az h ''acr update admin-enabled'' (Acr_admin (di_acr_name i))) (\<lambda>_.
     andthen (registry_password h (di_acr_name i)) (\<lambda>password.
     andthen (create_or_update h i server password (server @ ''/'' @ IMAGE_REPO @ '':'' @ di_image_tag i)) (\<lambda>_.
     publish h i (server @ ''/'' @ IMAGE_REPO @ '':'' @ di_image_tag i)))))"

definition deploy_body :: "host \<Rightarrow> int act" where
  "deploy_body h =
     andthen (require_login h) (\<lambda>_.
     andthen (ensure_state h) (\<lambda>state.
     andthen (query_files (inputs_of h state)) (\<lambda>i.
       case check_inputs (ho_lib h) i of Inl message \<Rightarrow> die message | Inr _ \<Rightarrow> roll_out h i)))"

definition deploy :: "host \<Rightarrow> int act" where
  "deploy h = stopping (deploy_body h)"

section \<open>status\<close>

definition not_deployed :: "'a act" where
  "not_deployed = andthen (say ''not deployed'') (\<lambda>_. raise (Exit 1))"

definition app_state :: "host \<Rightarrow> (string \<times> json) list act" where
  "app_state h =
     andthen (az h App_state) (\<lambda>p.
       if cp_returncode p \<noteq> 0 \<or> strip_string (cp_stdout p) = [] then not_deployed
       else (case ho_loads h (cp_stdout p) of Some (JObj data) \<Rightarrow> ret data | _ \<Rightarrow> not_deployed))"

definition count_replicas :: "host \<Rightarrow> json \<Rightarrow> nat act" where
  "count_replicas h latest =
     (if jtruthy latest
      then andthen (az h (Replica_list (ho_str h latest))) (\<lambda>p.
        if cp_returncode p = 0 \<and> strip_string (cp_stdout p) \<noteq> []
        then (case ho_loads h (cp_stdout p) of Some (JArr names) \<Rightarrow> ret (length names) | _ \<Rightarrow> ret 0)
        else ret 0)
      else ret 0)"

definition status_body :: "host \<Rightarrow> int act" where
  "status_body h =
     andthen (require_login h) (\<lambda>_.
     andthen (app_state h) (\<lambda>data.
     andthen (count_replicas h (jget data ''latestRevision'')) (\<lambda>replicas.
     andthen (say (ho_dumps h (JObj (AList.update ''replicas'' (JInt (int replicas)) data)))) (\<lambda>_. ret 0))))"

definition status :: "host \<Rightarrow> int act" where
  "status h = stopping (status_body h)"

section \<open>migrate\<close>

definition neon_pair :: "url \<Rightarrow> url \<Rightarrow> bool" where
  "neon_pair runtime direct \<longleftrightarrow>
     url_database runtime = Some ''neondb'' \<and> url_database direct = Some ''neondb''
   \<and> pooled_host runtime
   \<and> text_of (url_host direct) \<noteq> [] \<and> ends_with ''.neon.tech'' (text_of (url_host direct))
   \<and> \<not> contains ''-pooler.'' (text_of (url_host direct))
   \<and> text_of (url_host direct) = replace_once ''-pooler.'' ''.'' (text_of (url_host runtime))"

definition refuse :: "string \<Rightarrow> 'a act" where
  "refuse message = die (''Refusing migration: '' @ message)"

definition raising :: "string + 'a \<Rightarrow> 'a act" where
  "raising r = (case r of Inl e \<Rightarrow> raise (Exception e) | Inr v \<Rightarrow> ret v)"

definition parsed_url :: "host \<Rightarrow> string \<Rightarrow> url act" where
  "parsed_url h v = raising (case li_make_url (ho_lib h) v of None \<Rightarrow> Inl ''ArgumentError'' | Some u \<Rightarrow> Inr u)"

definition database_urls :: "host \<Rightarrow> (string \<times> string) act" where
  "database_urls h =
     andthen (query_files (\<lambda>m. (ma_files m NEON_ENV, text_of (dotenv_get h NEON_ENV ''DAILY_AGENT_DATABASE_URL'' m),
         text_of (dotenv_get h NEON_ENV ''DAILY_AGENT_MIGRATION_DATABASE_URL'' m)))) (\<lambda>(file, db_url, mig_url).
       if file = None then die ''Missing .env.neon file''
       else if db_url = [] \<or> mig_url = []
       then die ''Missing DAILY_AGENT_DATABASE_URL or DAILY_AGENT_MIGRATION_DATABASE_URL in .env.neon''
       else ret (db_url, mig_url))"

definition two_urls :: "string \<Rightarrow> string \<Rightarrow> string \<Rightarrow> string option" where
  "two_urls db_url mig_url field =
     (if field = ''database_url'' then Some db_url else if field = ''migration_database_url'' then Some mig_url else None)"

definition libpq_url :: "host \<Rightarrow> string \<Rightarrow> string act" where
  "libpq_url h v = andthen (parsed_url h v) (\<lambda>u. ret (li_render (ho_lib h) (u\<lparr>url_drivername := ''postgresql''\<rparr>)))"

definition direct_driver_url :: "host \<Rightarrow> string \<Rightarrow> string \<Rightarrow> string act" where
  "direct_driver_url h db_url mig_url =
     andthen (raising (case settings_of (ho_lib h) (two_urls db_url mig_url) of Inl _ \<Rightarrow> Inl ''ValidationError'' | Inr s \<Rightarrow> Inr s)) (\<lambda>s.
     andthen (raising (migration_url (ho_lib h) s)) (\<lambda>u. libpq_url h u))"

definition known_revisions :: "string list" where
  "known_revisions = map rv_id (revisions False)"

definition migratable :: "catalog \<Rightarrow> bool" where
  "migratable c \<longleftrightarrow> ct_tables c = []
     \<or> ''alembic_version'' \<in> set (ct_tables c) \<and> list_all (\<lambda>r. r \<in> set known_revisions) (found_versions c)"

definition migration_preflight :: "host \<Rightarrow> string \<Rightarrow> catalog act" where
  "migration_preflight h url =
     andthen (read_catalog h url) (\<lambda>c.
       if ct_database c \<noteq> ''neondb'' \<or> ct_schema c \<noteq> ''public'' then refuse ''database or schema does not match neondb/public.''
       else if length (heads (revisions False)) \<noteq> 1
       then refuse (''expected exactly one Alembic head, got '' @ list_str (sort (heads (revisions False))))
       else if \<not> migratable c then refuse ''schema is neither empty nor at a recognized Alembic revision.''
       else ret c)"

definition revisions_text :: "string list \<Rightarrow> string" where
  "revisions_text rs = (if rs = [] then ''(none)'' else join '', '' rs)"

definition child_env :: "host \<Rightarrow> (string \<times> string) list \<Rightarrow> (string \<times> string) list" where
  "child_env h urls = filter (\<lambda>(k, v). \<not> starts_with ''DAILY_AGENT_'' k) (ho_environ h) @ urls"

definition upgrade_to_head :: "host \<Rightarrow> string \<Rightarrow> string \<Rightarrow> unit act" where
  "upgrade_to_head h db_url mig_url =
     andthen (run h (Alembic_upgrade ''head'' (child_env h [(''DAILY_AGENT_DATABASE_URL'', db_url), (''DAILY_AGENT_MIGRATION_DATABASE_URL'', mig_url)]))) (\<lambda>p.
       if cp_returncode p \<noteq> 0
       then andthen (say (''alembic upgrade failed with exit code '' @ int_str (cp_returncode p) @ ''; diagnostic output suppressed.''))
         (\<lambda>_. raise (Exit (cp_returncode p)))
       else ret ())"

definition verify_head :: "host \<Rightarrow> string \<Rightarrow> int act" where
  "verify_head h url =
     andthen (read_versions h url) (\<lambda>c.
     andthen (say (''revisions after: '' @ revisions_text (ct_versions c))) (\<lambda>_.
       if ct_versions c \<noteq> heads (revisions False)
       then die (''Migration verification failed: expected '' @ list_str (heads (revisions False)) @ '', got '' @ list_str (ct_versions c))
       else andthen (say (''MIGRATED: head '' @ hd (heads (revisions False)))) (\<lambda>_. ret 0)))"

definition migrate_body :: "host \<Rightarrow> int act" where
  "migrate_body h =
     andthen (database_urls h) (\<lambda>(db_url, mig_url).
     andthen (parsed_url h db_url) (\<lambda>runtime.
     andthen (parsed_url h mig_url) (\<lambda>direct.
       if \<not> neon_pair runtime direct then refuse ''expected matching Neon pooled/direct URLs for neondb.''
       else
         andthen (direct_driver_url h db_url mig_url) (\<lambda>url.
         andthen (migration_preflight h url) (\<lambda>before.
         andthen (say (''revisions before: '' @ revisions_text (found_versions before))) (\<lambda>_.
         andthen (upgrade_to_head h db_url mig_url) (\<lambda>_. verify_head h url)))))))"

text \<open>Any exception ends the command with exit code 1 and the name of its class.\<close>

definition catching_all :: "(string \<Rightarrow> unit act) \<Rightarrow> int act \<Rightarrow> int act" where
  "catching_all report body m = (case body m of
       Ok code m' \<Rightarrow> Ok code m'
     | Raise (Exit code) m' \<Rightarrow> Ok code m'
     | Raise (Exception e) m' \<Rightarrow> andthen (report e) (\<lambda>_. ret 1) m')"

definition migrate :: "host \<Rightarrow> int act" where
  "migrate h = catching_all warn (migrate_body h)"

text \<open>\<open>main\<close>: the parser accepts these four subcommands only, and otherwise exits with code 2.\<close>

definition deploy_main :: "host \<Rightarrow> string \<Rightarrow> int act" where
  "deploy_main h subcommand =
     (if subcommand = ''migrate'' then migrate h
      else if subcommand = ''build'' then build h
      else if subcommand = ''deploy'' then deploy h
      else if subcommand = ''status'' then status h
      else raise (Exit 2))"

end
