(* ===== verification/Deploy_Props.thy ===== *)
theory Deploy_Props
  imports Deploy
begin

text \<open>
  What the deployment command does when it reports success: the calls it has made, what the cloud answered, and the file it leaves.
\<close>

named_theorems act_simps \<open>how the scripts' operations end\<close>

lemmas [act_simps] = andthen_Ok_conv

lemma andthen_Raise_conv [act_simps]:
  "andthen a f m = Raise e t \<longleftrightarrow> a m = Raise e t \<or> (\<exists>v s. a m = Ok v s \<and> f v s = Raise e t)"
  by (auto simp: andthen_def split: result.splits)

definition called :: "call \<Rightarrow> machine \<Rightarrow> machine" where
  "called c m = m\<lparr>ma_calls := ma_calls m @ [c]\<rparr>"

lemma called_simps [simp]:
  "ma_calls (called c m) = ma_calls m @ [c]" "ma_files (called c m) = ma_files m"
  by (simp_all add: called_def)

lemma run_Ok [act_simps]: "run h c m = Ok p t \<longleftrightarrow> ho_answer h (ma_calls m) c = Inr p \<and> t = called c m"
  by (auto simp: run_def called_def split: sum.splits)

lemma run_Raise [act_simps]:
  "run h c m = Raise e t \<longleftrightarrow> (\<exists>x. ho_answer h (ma_calls m) c = Inl x \<and> e = Exception x \<and> t = called c m)"
  by (auto simp: run_def called_def split: sum.splits)

lemma ends [act_simps]:
  "ret v m = Ok w t \<longleftrightarrow> w = v \<and> t = m" "ret v m \<noteq> Raise e t"
  "raise e m \<noteq> Ok w t" "raise e m = Raise e' t \<longleftrightarrow> e' = e \<and> t = m"
  "query_files f m = Ok w t \<longleftrightarrow> w = f m \<and> t = m" "query_files f m \<noteq> Raise e t"
  by (auto simp: ret_def raise_def query_files_def)

lemma say_ends [act_simps]: "say x m = Ok u t \<longleftrightarrow> t = m\<lparr>ma_printed := ma_printed m @ [Out x]\<rparr>" "say x m \<noteq> Raise e t"
  "warn x m = Ok u t \<longleftrightarrow> t = m\<lparr>ma_printed := ma_printed m @ [Err x]\<rparr>" "warn x m \<noteq> Raise e t"
  by (auto simp: say_def warn_def)

lemma write_ends [act_simps]:
  "write_private path kvs m = Ok u t \<longleftrightarrow> t = m\<lparr>ma_files := (ma_files m)(path \<mapsto> private_text kvs)\<rparr>"
  "write_private path kvs m \<noteq> Raise e t"
  by (auto simp: write_private_def)

lemma die_ends [act_simps]:
  "die x m \<noteq> Ok v t" "die x m = Raise e t \<longleftrightarrow> e = Exit 1 \<and> t = m\<lparr>ma_printed := ma_printed m @ [Err x]\<rparr>"
  by (auto simp: die_def act_simps)

lemma fail_step_ends [act_simps]:
  "fail_step s c m \<noteq> Ok v t"
  "fail_step s c m = Raise e t \<longleftrightarrow> e = Exit c
     \<and> t = m\<lparr>ma_printed := ma_printed m @ [Err (''step '' @ s @ '' failed with exit code '' @ int_str c)]\<rparr>"
  by (auto simp: fail_step_def act_simps)

lemma stopping_Ok: "stopping a m = Ok c t \<longleftrightarrow> a m = Ok c t \<or> a m = Raise (Exit c) t"
  by (auto simp: stopping_def split: result.splits stop.splits)

section \<open>Operations that never end with exit code 0\<close>

definition failing :: "'a act \<Rightarrow> bool" where
  "failing a \<longleftrightarrow> (\<forall>m t. a m \<noteq> Raise (Exit 0) t)"

lemma failing_andthen [intro]: "failing a \<Longrightarrow> (\<And>v. failing (f v)) \<Longrightarrow> failing (andthen a f)"
  by (simp add: failing_def act_simps)

lemma failing_ends [intro, simp]:
  "failing (ret v)" "failing (run h c)" "failing (say x)" "failing (die x)" "failing (write_private path kvs)"
  "failing (query_files f)" "failing (raise (Exception x))" "code \<noteq> 0 \<Longrightarrow> failing (fail_step s code)"
  by (auto simp: failing_def act_simps)

lemma failing_if [intro]: "(c \<Longrightarrow> failing a) \<Longrightarrow> (\<not> c \<Longrightarrow> failing b) \<Longrightarrow> failing (if c then a else b)"
  by simp

lemma failing_checked_run [intro]: "failing (checked_run h s c)"
  unfolding checked_run_def by (intro failing_andthen failing_if) auto

lemma failing_create_or_update: "failing (create_or_update h i server password img)"
  unfolding create_or_update_def az_def checked_az_def by (intro failing_andthen failing_if) auto

lemma failing_poll: "failing (poll_revisions h img)"
  unfolding poll_revisions_def az_def by (intro failing_andthen failing_if) (auto split: sum.splits)

lemma failing_await: "failing (await_revision h img n)"
proof (induction n)
  case (Suc n)
  then show ?case unfolding await_revision.simps by (intro failing_andthen failing_poll) (auto split: option.splits)
qed simp

lemma failing_app_address: "failing (app_address h)"
  unfolding app_address_def az_def by (intro failing_andthen failing_if) auto

lemma failing_publish: "failing (publish h i img)"
  unfolding publish_def
  by (intro failing_andthen failing_await) (auto intro!: failing_andthen failing_app_address split: option.splits)

lemma failing_require_login: "failing (require_login h)"
  unfolding require_login_def az_def by (intro failing_andthen failing_if) auto

lemma failing_ensure_state: "failing (ensure_state h)"
proof -
  have "failing (ensure_secret h key state)" for key state
    unfolding ensure_secret_def by (intro failing_if failing_andthen) (auto simp: failing_def draw_hex_def act_simps)
  then show ?thesis
    unfolding ensure_state_def by (auto intro!: failing_andthen split: prod.splits)
qed

section \<open>The calls of a deployment\<close>

lemma require_login_Ok [act_simps]:
  "require_login h m = Ok u t \<longleftrightarrow> t = called (Az Account_show) m
     \<and> (\<exists>p. ho_answer h (ma_calls m) (Az Account_show) = Inr p \<and> cp_returncode p = 0)"
  by (auto simp: require_login_def az_def act_simps)

lemma ensure_secret_Ok:
  "ensure_secret h key state m = Ok v t \<Longrightarrow> ma_calls t = ma_calls m \<and> ma_files t = ma_files m"
  by (auto simp: ensure_secret_def draw_hex_def act_simps split: if_splits)

lemma ensure_state_Ok:
  assumes "ensure_state h m = Ok state t"
  shows "ma_calls t = ma_calls m" and "path \<noteq> ENV_AZURE \<Longrightarrow> ma_files t path = ma_files m path"
  using assms by (auto simp: ensure_state_def act_simps split: if_splits prod.splits dest!: ensure_secret_Ok)

lemma checked_run_Ok [act_simps]:
  "checked_run h s c m = Ok u t \<longleftrightarrow> t = called c m \<and> (\<exists>p. ho_answer h (ma_calls m) c = Inr p \<and> cp_returncode p = 0)"
  by (auto simp: checked_run_def act_simps)

lemma login_server_Ok: "login_server h a m = Ok server t \<Longrightarrow> t = called (Az (Acr_login_server a)) m"
  by (auto simp: login_server_def az_def act_simps split: if_splits)

lemma registry_password_Ok: "registry_password h a m = Ok password t \<Longrightarrow> t = called (Az (Acr_credential a)) m"
  by (auto simp: registry_password_def az_def act_simps split: if_splits)

text \<open>The command that ends with code 0 although an answer was blank\<close>

definition blank_answer :: "host \<Rightarrow> call list \<Rightarrow> call \<Rightarrow> bool" where
  "blank_answer h calls c \<longleftrightarrow> (case ho_answer h calls c of
     Inl _ \<Rightarrow> False | Inr p \<Rightarrow> cp_returncode p = 0 \<and> strip_string (cp_stdout p) = [])"

lemma login_server_Exit:
  "login_server h a m = Raise (Exit 0) t \<Longrightarrow> blank_answer h (ma_calls m) (Az (Acr_login_server a))
     \<and> ma_calls t = ma_calls m @ [Az (Acr_login_server a)] \<and> ma_files t = ma_files m"
  by (auto simp: login_server_def az_def act_simps blank_answer_def split: if_splits)

lemma registry_password_Exit:
  "registry_password h a m = Raise (Exit 0) t \<Longrightarrow> blank_answer h (ma_calls m) (Az (Acr_credential a))
     \<and> ma_calls t = ma_calls m @ [Az (Acr_credential a)] \<and> ma_files t = ma_files m"
  by (auto simp: registry_password_def az_def act_simps blank_answer_def split: if_splits)

text \<open>The ways to put the image up: a new app, or the four changes of the present one\<close>

definition rollouts :: "deploy_inputs \<Rightarrow> string \<Rightarrow> string \<Rightarrow> string \<Rightarrow> call list list" where
  "rollouts i server password img =
    [[Az (App_create img server (di_acr_name i) password (secret_args i) (env_args i))],
     [Az (App_secret_set (secret_args i)), Az (App_registry_set server (di_acr_name i) password), Az App_ingress,
      Az (App_update img (env_args i))]]"

lemma create_or_update_Ok:
  "create_or_update h i server password img m = Ok u t \<Longrightarrow> ma_files t = ma_files m
     \<and> (\<exists>calls \<in> set (rollouts i server password img). ma_calls t = ma_calls m @ Az App_show # calls)"
  by (auto simp: create_or_update_def checked_az_def az_def rollouts_def act_simps split: if_splits)

definition polls :: "nat \<Rightarrow> call list" where
  "polls n = concat (replicate n [Sleep 15, Az Revision_list])"

lemma polls_Suc [simp]: "polls 0 = []" "polls (Suc n) = Sleep 15 # Az Revision_list # polls n"
  by (simp_all add: polls_def)

text \<open>The revisions listed after these calls show one that runs the image.\<close>

definition running_after :: "host \<Rightarrow> string \<Rightarrow> call list \<Rightarrow> bool" where
  "running_after h img calls \<longleftrightarrow> (\<exists>p entries entry. ho_answer h calls (Az Revision_list) = Inr p \<and> cp_returncode p = 0
     \<and> ho_loads h (if cp_stdout p = [] then ''[]'' else cp_stdout p) = Some (JArr entries)
     \<and> JObj entry \<in> set entries \<and> is_running img entry)"

lemma find_running_Some: "find_running img entries = Inr (Some entry) \<Longrightarrow> JObj entry \<in> set entries \<and> is_running img entry"
  by (induction entries) (auto split: json.splits if_splits)

lemma poll_revisions_Ok:
  assumes "poll_revisions h img m = Ok found t"
  shows "ma_files t = ma_files m" and "ma_calls t = ma_calls m @ [Sleep 15, Az Revision_list]"
    and "found = Some entry \<Longrightarrow> running_after h img (ma_calls m @ [Sleep 15])"
  using assms
  by (auto simp: poll_revisions_def az_def found_running_def running_after_def act_simps
      split: if_splits sum.splits option.splits json.splits dest!: find_running_Some)

lemma await_revision_Ok:
  "await_revision h img n m = Ok (Some entry) t \<Longrightarrow> ma_files t = ma_files m
     \<and> (\<exists>k < n. ma_calls t = ma_calls m @ polls (Suc k) \<and> running_after h img (ma_calls m @ polls k @ [Sleep 15]))"
proof (induction n arbitrary: m)
  case (Suc n)
  then obtain found s where poll: "poll_revisions h img m = Ok found s"
    and rest: "(case found of Some entry \<Rightarrow> ret (Some entry) | None \<Rightarrow> await_revision h img n) s = Ok (Some entry) t"
    by (auto simp: act_simps)
  note one = poll_revisions_Ok [OF poll]
  show ?case
  proof (cases found)
    case None
    with rest have "await_revision h img n s = Ok (Some entry) t" by simp
    from Suc.IH [OF this] one(1,2) obtain k where "k < n" "ma_files t = ma_files m"
      "ma_calls t = ma_calls m @ polls (Suc (Suc k))" "running_after h img (ma_calls m @ polls (Suc k) @ [Sleep 15])" by auto
    then show ?thesis by blast
  next
    case (Some e)
    with rest one have "ma_files t = ma_files m" "ma_calls t = ma_calls m @ polls (Suc 0)"
      "running_after h img (ma_calls m @ polls 0 @ [Sleep 15])" by (auto simp: act_simps)
    then show ?thesis by blast
  qed
qed (simp add: act_simps)

lemma app_address_Ok: "app_address h m = Ok fqdn t \<Longrightarrow> t = called (Az App_fqdn) m \<and> fqdn \<noteq> []"
  by (auto simp: app_address_def az_def act_simps split: if_splits)

lemma publish_Ok:
  assumes "publish h i img m = Ok c t"
  shows "c = 0 \<and> (\<exists>k < 40. \<exists>fqdn. ma_calls t = ma_calls m @ polls (Suc k) @ [Az App_fqdn]
     \<and> running_after h img (ma_calls m @ polls k @ [Sleep 15]) \<and> ma_files t = (ma_files m)(PROD_ENV \<mapsto> private_text (prod_mapping h i fqdn)))"
proof -
  from assms obtain entry s where "await_revision h img 40 m = Ok (Some entry) s"
    and rest: "\<exists>fqdn s'. app_address h s = Ok fqdn s' \<and> c = 0 \<and> ma_calls t = ma_calls s'
        \<and> ma_files t = (ma_files s')(PROD_ENV \<mapsto> private_text (prod_mapping h i fqdn))"
    by (auto simp: publish_def act_simps split: option.splits)
  from await_revision_Ok [OF this(1)] obtain k where k: "k < 40" "running_after h img (ma_calls m @ polls k @ [Sleep 15])"
    "ma_calls s = ma_calls m @ polls (Suc k)" "ma_files s = ma_files m" by blast
  from rest obtain fqdn s' where "app_address h s = Ok fqdn s'" "c = 0" "ma_calls t = ma_calls s'"
    "ma_files t = (ma_files s')(PROD_ENV \<mapsto> private_text (prod_mapping h i fqdn))" by blast
  moreover from this(1) have "s' = called (Az App_fqdn) s" by (simp add: app_address_Ok)
  ultimately have "c = 0" "ma_calls t = ma_calls m @ polls (Suc k) @ [Az App_fqdn]"
    "ma_files t = (ma_files m)(PROD_ENV \<mapsto> private_text (prod_mapping h i fqdn))" using k by simp_all
  with k show ?thesis by blast
qed

section \<open>The property\<close>

definition image_of :: "string \<Rightarrow> deploy_inputs \<Rightarrow> string" where
  "image_of server i = server @ ''/'' @ IMAGE_REPO @ '':'' @ di_image_tag i"

definition before_rollout :: "string \<Rightarrow> call list" where
  "before_rollout name = map Az [Account_show, Acr_login_server name, Acr_admin name, Acr_credential name, App_show]"

text \<open>The image runs: the calls in their order, at most forty polls, the last of which shows the revision, and the file written.\<close>

definition deployed :: "host \<Rightarrow> deploy_inputs \<Rightarrow> machine \<Rightarrow> machine \<Rightarrow> bool" where
  "deployed h i m t \<longleftrightarrow> (\<exists>server password calls fqdn. \<exists>k < 40.
     calls \<in> set (rollouts i server password (image_of server i))
   \<and> ma_calls t = ma_calls m @ before_rollout (di_acr_name i) @ calls @ polls (Suc k) @ [Az App_fqdn]
   \<and> running_after h (image_of server i) (ma_calls m @ before_rollout (di_acr_name i) @ calls @ polls k @ [Sleep 15])
   \<and> ma_files t PROD_ENV = Some (private_text (prod_mapping h i fqdn)))"

text \<open>The registry gave no name or no password, with exit code 0: nothing was deployed.\<close>

definition gave_up :: "host \<Rightarrow> deploy_inputs \<Rightarrow> machine \<Rightarrow> machine \<Rightarrow> bool" where
  "gave_up h i m t \<longleftrightarrow> ma_files t PROD_ENV = ma_files m PROD_ENV
   \<and> (\<exists>calls c. (calls, c) \<in> {([Az Account_show], Az (Acr_login_server (di_acr_name i))),
         (map Az [Account_show, Acr_login_server (di_acr_name i), Acr_admin (di_acr_name i)], Az (Acr_credential (di_acr_name i)))}
       \<and> ma_calls t = ma_calls m @ calls @ [c] \<and> blank_answer h (ma_calls m @ calls) c)"

lemma roll_out_zero:
  assumes "roll_out h i m = Ok c t \<or> roll_out h i m = Raise (Exit 0) t" and "ma_calls m = ma_calls m0 @ [Az Account_show]"
    and "ma_files m PROD_ENV = ma_files m0 PROD_ENV"
  shows "deployed h i m0 t \<or> gave_up h i m0 t"
proof -
  let ?a = "di_acr_name i"
  consider (name) "login_server h ?a m = Raise (Exit 0) t"
    | (password) s1 s2 server where "login_server h ?a m = Ok server s1" "s2 = called (Az (Acr_admin ?a)) s1"
        "registry_password h ?a s2 = Raise (Exit 0) t"
    | (out) s1 s2 s3 s4 server password where "login_server h ?a m = Ok server s1" "s2 = called (Az (Acr_admin ?a)) s1"
        "registry_password h ?a s2 = Ok password s3" "create_or_update h i server password (image_of server i) s3 = Ok () s4"
        "publish h i (image_of server i) s4 = Ok c t"
    using assms(1) failing_checked_run failing_create_or_update failing_publish
    by (auto simp: roll_out_def act_simps checked_az_def image_of_def failing_def) 
  then show ?thesis
  proof cases
    case name
    then show ?thesis using assms(2,3) login_server_Exit [OF name] by (auto simp: gave_up_def)
  next
    case password
    from login_server_Ok [OF password(1)] password(2) have "ma_calls s2 = ma_calls m @ map Az [Acr_login_server ?a, Acr_admin ?a]"
      "ma_files s2 = ma_files m" by simp_all
    then show ?thesis using assms(2,3) registry_password_Exit [OF password(3)] by (auto simp: gave_up_def)
  next
    case out
    from login_server_Ok [OF out(1)] out(2) registry_password_Ok [OF out(3)] assms(2)
    have s3: "ma_calls s3 = ma_calls m0 @ map Az [Account_show, Acr_login_server ?a, Acr_admin ?a, Acr_credential ?a]" by simp
    from create_or_update_Ok [OF out(4)] obtain calls where calls: "calls \<in> set (rollouts i server password (image_of server i))"
      "ma_calls s4 = ma_calls s3 @ Az App_show # calls" by blast
    from publish_Ok [OF out(5)] obtain k fqdn where "k < 40" "ma_calls t = ma_calls s4 @ polls (Suc k) @ [Az App_fqdn]"
      "running_after h (image_of server i) (ma_calls s4 @ polls k @ [Sleep 15])"
      "ma_files t = (ma_files s4)(PROD_ENV \<mapsto> private_text (prod_mapping h i fqdn))" by blast
    with s3 calls have "deployed h i m0 t"
      unfolding deployed_def before_rollout_def by (intro exI [of _ server] exI [of _ password] exI [of _ calls] exI [of _ fqdn] exI [of _ k]) simp
    then show ?thesis ..
  qed
qed

text \<open>C37: A deployment that exits with code 0 has deployed, or has met a blank answer. If it has deployed, its inputs
  had passed every check before the first change of the app, the app was created or had its secrets, registry, ingress and image
  replaced in that order, within forty polls a revision with this very image was listed as healthy and running, and the
  production file holds the mapping of these inputs. Otherwise the registry had answered its name or its password with
  exit code 0 and no text: then no call on the app was made and the file is as it was.\<close>

theorem deploy_exit_zero:
  assumes "deploy h m = Ok 0 t"
  shows "\<exists>i state s. i = inputs_of h state s \<and> (\<forall>path. path \<noteq> ENV_AZURE \<longrightarrow> ma_files s path = ma_files m path)
     \<and> check_inputs (ho_lib h) i = Inr () \<and> (deployed h i m t \<or> gave_up h i m t)"
proof -
  have "deploy_body h m = Ok 0 t \<or> deploy_body h m = Raise (Exit 0) t" using assms by (simp add: deploy_def stopping_Ok)
  then obtain state s where login: "\<exists>s0. require_login h m = Ok () s0 \<and> ensure_state h s0 = Ok state s"
    and rest: "(case check_inputs (ho_lib h) (inputs_of h state s) of Inl message \<Rightarrow> die message | Inr _ \<Rightarrow> roll_out h (inputs_of h state s)) s = Ok 0 t
      \<or> (case check_inputs (ho_lib h) (inputs_of h state s) of Inl message \<Rightarrow> die message | Inr _ \<Rightarrow> roll_out h (inputs_of h state s)) s = Raise (Exit 0) t"
    using failing_require_login failing_ensure_state
    by (auto simp: deploy_body_def andthen_Ok_conv andthen_Raise_conv ends failing_def)
  from login obtain s0 where s0: "require_login h m = Ok () s0" "ensure_state h s0 = Ok state s" by blast
  have calls: "ma_calls s = ma_calls m @ [Az Account_show]" and files: "path \<noteq> ENV_AZURE \<Longrightarrow> ma_files s path = ma_files m path" for path
    using ensure_state_Ok [OF s0(2)] s0(1) by (simp_all add: require_login_Ok)
  from rest have ok: "check_inputs (ho_lib h) (inputs_of h state s) = Inr ()"
    and "roll_out h (inputs_of h state s) s = Ok 0 t \<or> roll_out h (inputs_of h state s) s = Raise (Exit 0) t"
    by (auto simp: die_ends split: sum.splits)
  moreover have "PROD_ENV \<noteq> ENV_AZURE" by (simp add: PROD_ENV_def ENV_AZURE_def)
  ultimately have "deployed h (inputs_of h state s) m t \<or> gave_up h (inputs_of h state s) m t"
    using roll_out_zero [OF _ calls] files by blast
  with ok files show ?thesis by blast
qed

section \<open>A concrete cloud\<close>

definition demo_library :: library where
  "demo_library = \<lparr>li_make_url = \<lambda>v. Some \<lparr>url_drivername = ''postgresql+psycopg'', url_host = Some ''ep-pooler.neon.tech'',
       url_database = Some ''neondb'', url_query = [], url_rest = v\<rparr>,
     li_render = \<lambda>u. url_drivername u @ ''://'' @ url_rest u, li_certificates = ''ca.pem'', li_rsa_key = \<lambda>key. key = ''a2V5'',
     li_bool = \<lambda>v. if v = ''true'' then Some True else if v = ''false'' then Some False else None,
     li_int = \<lambda>v. if v = [] \<or> \<not> list_all is_digit v then None else Some (int (str_nat v)),
     li_float = \<lambda>v. if v = [] \<or> \<not> list_all is_digit v then None else Some (real (str_nat v)), li_list = \<lambda>_. None\<rparr>"

definition demo_secret :: string where "demo_secret = ''0123456789abcdef0123456789abcdef''"

definition demo_values :: "(string \<times> string option) list" where
  "demo_values = [(''ACR_NAME'', Some ''acr''), (''IMAGE_TAG'', Some ''1f''), (''AUTH_SECRET'', Some demo_secret), (''WEBHOOK_SECRET'', Some demo_secret),
     (''DAILY_AGENT_DATABASE_URL'', Some ''db''), (''DAILY_AGENT_CLERK_ISSUER'', Some ''https://c''),
     (''DAILY_AGENT_CLERK_JWT_PUBLIC_KEY_B64'', Some ''a2V5''), (''OPEN_ROUTER_KEY'', Some ''k'')]"

text \<open>Every call succeeds; the registry's name is given only when the cloud answers.\<close>

definition demo_answer :: "bool \<Rightarrow> call list \<Rightarrow> call \<Rightarrow> string + completed" where
  "demo_answer answering calls c = Inr \<lparr>cp_returncode = 0, cp_stdout = (if answering then ''r'' else [])\<rparr>"

definition demo_entry :: json where
  "demo_entry = JObj [(''image'', JStr ''r/karmi-backend:1f''), (''health'', JStr ''Healthy''), (''run'', JStr ''Running'')]"

definition demo_host :: "bool \<Rightarrow> host" where
  "demo_host answering = \<lparr>ho_lib = demo_library, ho_answer = demo_answer answering, ho_catalog = \<lambda>_ _. Inl ''OperationalError'',
     ho_dotenv = \<lambda>_. demo_values, ho_loads = \<lambda>_. Some (JArr [demo_entry]), ho_dumps = \<lambda>_. [], ho_str = \<lambda>_. [],
     ho_hex = \<lambda>_. demo_secret, ho_suffix = \<lambda>_. ''000000'', ho_environ = [], ho_root = ''/app''\<rparr>"

definition demo_machine :: machine where
  "demo_machine = \<lparr>ma_files = \<lambda>path. if path = PROD_ENV then None else Some [], ma_calls = [], ma_printed = [], ma_draws = 0\<rparr>"

definition exit_and_file :: "(stop, int, machine) result \<Rightarrow> (int \<times> bool) option" where
  "exit_and_file r = (case r of Ok c t \<Rightarrow> Some (c, ma_files t PROD_ENV \<noteq> None) | Raise _ _ \<Rightarrow> None)"

lemma demo_deploy: "exit_and_file (deploy (demo_host True) demo_machine) = Some (0, True)"
  by code_simp

text \<open>Success is reported and nothing was deployed.\<close>

lemma blank_answer_is_success: "exit_and_file (deploy (demo_host False) demo_machine) = Some (0, False)"
  by code_simp

theorem deploy_exit_zero_witness:
  "\<exists>t i. deploy (demo_host True) demo_machine = Ok 0 t \<and> deployed (demo_host True) i demo_machine t"
proof -
  obtain t where t: "deploy (demo_host True) demo_machine = Ok 0 t" "ma_files t PROD_ENV \<noteq> None"
    using demo_deploy by (auto simp: exit_and_file_def split: result.splits)
  moreover have "\<not> gave_up (demo_host True) i demo_machine t" for i using t(2) by (simp add: gave_up_def demo_machine_def)
  ultimately show ?thesis using deploy_exit_zero [OF t(1)] by blast
qed

end
