(* ===== verification/Deploy_Settings.thy ===== *)
theory Deploy_Settings
  imports Deploy_Props
begin

text \<open>
  The settings that the deployed service loads from the environment the deployment gives it. The platform replaces a value
  \<open>secretref:name\<close> by the secret of that name.
\<close>

definition resolve :: "deploy_inputs \<Rightarrow> env_value \<Rightarrow> string" where
  "resolve i v = (case v of Plain text \<Rightarrow> text | Secretref name \<Rightarrow> text_of (map_of (secrets_map i) name))"

definition container_env :: "deploy_inputs \<Rightarrow> (string \<times> string) list" where
  "container_env i = map (\<lambda>(k, v). (k, resolve i v)) (plain_env_vars i @ secret_env_vars)"

text \<open>What the code relies on in pydantic and SQLAlchemy: how they read four texts, and that a rendered URL begins with its
  driver's name.\<close>

definition library_ok :: "library \<Rightarrow> bool" where
  "library_ok lib \<longleftrightarrow> li_bool lib ''true'' = Some True \<and> li_bool lib ''false'' = Some False
     \<and> li_int lib ''1000000'' = Some 1000000 \<and> li_float lib ''12'' = Some 12
     \<and> (\<forall>u. starts_with (url_drivername u) (li_render lib u))"

text \<open>What each field is given, in the order of \<open>setters\<close>\<close>

definition given_fields :: "string option \<Rightarrow> string \<Rightarrow> deploy_inputs \<Rightarrow> string option list" where
  "given_fields live registry i =
    [Some ''production'', Some (di_db_url i), None, None, None, None, None, None, Some (di_auth_secret i),
     Some (di_webhook_secret i), Some ''false'', None, Some (di_clerk_issuer i), Some (di_clerk_jwt_key i), live,
     None, None, Some ''true'', Some (di_api_key i), Some ''false'', Some registry, Some ''12'', None, None, None,
     None, None, None, Some ''false'', Some ''false'', None, Some ''1000000'', Some ''1000000'', None, None]"

fun set_given :: "string option list \<Rightarrow> (string \<times> setter) list \<Rightarrow> settings \<Rightarrow> string + settings" where
  "set_given (v # vs) ((field, f) # fs) s = (case v of
       None \<Rightarrow> set_given vs fs s
     | Some x \<Rightarrow> (case f x s of None \<Rightarrow> Inl field | Some s' \<Rightarrow> set_given vs fs s'))"
| "set_given vs fs s = Inr s"

lemma set_fields_given: "set_fields get fs s = set_given (map (get \<circ> fst) fs) fs s"
  by (induction get fs s rule: set_fields.induct) (auto split: option.splits)

definition field_names :: "string list" where
  "field_names =
    [''environment'', ''database_url'', ''migration_database_url'', ''database_pool_size'', ''database_max_overflow'',
     ''database_pool_timeout'', ''database_connect_timeout'', ''redis_url'', ''auth_secret'', ''webhook_secret'',
     ''allow_development_auth'', ''clerk_publishable_key'', ''clerk_issuer'', ''clerk_jwt_public_key_b64'',
     ''live_models_enabled'', ''opencode_enabled'', ''opencode_api_key'', ''openrouter_enabled'', ''openrouter_api_key'',
     ''gateway_kill_switch'', ''model_registry_path'', ''gateway_timeout_seconds'',
     ''gateway_breaker_failure_threshold'', ''gateway_breaker_open_seconds'', ''gateway_model_cooldown_seconds'',
     ''gateway_daily_request_limit'', ''gateway_paid_reserved_requests'', ''rate_limit_per_minute'',
     ''paid_checkout_enabled'', ''whatsapp_enabled'', ''access_codes_path'', ''production_period_budget_micro'',
     ''global_daily_budget_micro'', ''data_dir'', ''parakh_trusted_public_keys'']"

lemma field_names: "map fst (setters lib) = field_names"
  by (simp only: setters_def field_names_def list.map fst_conv)

text \<open>The environment by the names of the fields, last first\<close>

definition named_values :: "deploy_inputs \<Rightarrow> (string \<times> string) list" where
  "named_values i =
    [(''clerk_jwt_public_key_b64'', di_clerk_jwt_key i), (''openrouter_api_key'', di_api_key i), (''webhook_secret'', di_webhook_secret i),
     (''auth_secret'', di_auth_secret i), (''database_url'', di_db_url i), (''model_registry_path'', REGISTRY_IN_IMAGE),
     (''global_daily_budget_micro'', ''1000000''), (''production_period_budget_micro'', ''1000000''),
     (''clerk_issuer'', di_clerk_issuer i), (''whatsapp_enabled'', ''false''), (''paid_checkout_enabled'', ''false''),
     (''gateway_timeout_seconds'', ''12''), (''gateway_kill_switch'', ''false''), (''openrouter_enabled'', ''true''),
     (''allow_development_auth'', ''false''), (''environment'', ''production'')]"

lemma env_lowered: "lower_env (container_env i) = map (\<lambda>(k, v). (''daily_agent_'' @ k, v)) (named_values i)"
  by code_simp

lemma map_of_prefixed: "map_of (map (\<lambda>(k, v). (p @ k, v)) kvs) (p @ k) = map_of kvs k"
  by (induction kvs) auto

lemma api_key_named: "map_of (named_values i) ''openrouter_api_key'' = Some (di_api_key i)"
  by code_simp

lemma api_key_name: "''daily_agent_openrouter_api_key'' = ''daily_agent_'' @ ''openrouter_api_key''"
  by simp

lemma env_named: "env_field (container_env i) field = map_of (named_values i) field"
  unfolding env_field_def env_lowered Let_def
  by (simp only: first_of.simps api_key_name map_of_prefixed api_key_named option.case split: if_split) (metis api_key_named)

lemma names_given: "map (map_of (named_values i)) field_names = given_fields None REGISTRY_IN_IMAGE i"
  by code_simp

lemma fields_given: "map (env_field (container_env i) \<circ> fst) (setters lib) = given_fields None REGISTRY_IN_IMAGE i"
  by (simp only: map_map [symmetric] field_names env_named [abs_def] names_given)

lemma set_given_None: "set_given vs fs s = r \<Longrightarrow> set_given (None # vs) ((field, f) # fs) s = r"
  by simp

lemma set_given_Some: "f v s = Some s' \<Longrightarrow> set_given vs fs s' = r \<Longrightarrow> set_given (Some v # vs) ((field, f) # fs) s = r"
  by simp

lemma set_given_same: "f v s = Some s \<Longrightarrow> set_given vs fs s = r \<Longrightarrow> set_given (Some v # vs) ((field, f) # fs) s = r"
  by simp

lemma set_given_Nil: "set_given [] [] s = Inr s"
  by simp

lemma text_field_Some: "text_field f v s = Some (f v s)"
  by (simp add: text_field_def)

lemma parsed_field_Some: "parse v = Some x \<Longrightarrow> parsed_field parse f v s = Some (f x s)"
  by (simp add: parsed_field_def)

text \<open>The settings before the validator\<close>

definition deployed_settings :: "library \<Rightarrow> string \<Rightarrow> deploy_inputs \<Rightarrow> url \<Rightarrow> settings" where
  "deployed_settings lib registry i u = default_settings\<lparr>environment := ''production'',
     database_url := li_render lib (with_tls lib (with_driver u)), auth_secret := di_auth_secret i, webhook_secret := di_webhook_secret i,
     allow_development_auth := False, clerk_issuer := Some (di_clerk_issuer i), clerk_jwt_public_key_b64 := Some (di_clerk_jwt_key i),
     openrouter_enabled := True, openrouter_api_key := Some (di_api_key i), gateway_kill_switch := False,
     model_registry_path := Some registry, gateway_timeout_seconds := 12, paid_checkout_enabled := False,
     whatsapp_enabled := False, production_period_budget_micro := Some 1000000, global_daily_budget_micro := 1000000\<rparr>"

lemma normalized: "di_db_url i \<noteq> [] \<Longrightarrow> li_make_url lib (di_db_url i) = Some u \<Longrightarrow>
    normalize_database_url lib (di_db_url i) = Some (Some (li_render lib (with_tls lib (with_driver u))))"
  by (simp add: normalize_database_url_def)

lemma fields_set:
  assumes "library_ok lib" and "di_db_url i \<noteq> []" and "li_make_url lib (di_db_url i) = Some u"
    and "live \<in> {None, Some ''false''}"
  shows "set_given (given_fields live registry i) (setters lib) default_settings = Inr (deployed_settings lib registry i u)"
proof -
  have lib: "li_bool lib ''true'' = Some True" "li_bool lib ''false'' = Some False" "li_int lib ''1000000'' = Some 1000000"
    "li_float lib ''12'' = Some 12" using assms(1) by (simp_all add: library_ok_def)
  have url: "database_field lib (di_db_url i) s = Some (s\<lparr>database_url := li_render lib (with_tls lib (with_driver u))\<rparr>)" for s
    by (simp add: database_field_def normalized [OF assms(2,3)])
  consider "live = None" | "live = Some ''false''" using assms(4) by auto
  then show ?thesis
  proof cases
    case 1
    show ?thesis
      unfolding 1 given_fields_def setters_def deployed_settings_def
      by (rule set_given_None | (rule set_given_Some, (rule url text_field_Some | rule parsed_field_Some, rule lib)) | rule set_given_Nil)+
  next
    case 2
    have unchanged: "live_models_enabled s = False \<Longrightarrow> parsed_field (li_bool lib) (\<lambda>v s. s\<lparr>live_models_enabled := v\<rparr>) ''false'' s = Some s" for s
      using lib(2) by (cases s) (simp add: parsed_field_def)
    show ?thesis
      unfolding 2 given_fields_def setters_def deployed_settings_def
      by (rule set_given_None | (rule set_given_same, rule unchanged, simp add: default_settings_def)
        | (rule set_given_Some, (rule url text_field_Some | rule parsed_field_Some, rule lib)) | rule set_given_Nil)+
  qed
qed

lemma starts_with_shorter: "starts_with (p @ q) t \<Longrightarrow> starts_with p t"
proof -
  assume "starts_with (p @ q) t"
  then have "take (length p) (take (length p + length q) t) = p" by (simp add: starts_with_def)
  then show ?thesis by (simp add: starts_with_def min_def)
qed

lemma not_sqlite: "starts_with ''postgresql'' d \<Longrightarrow> starts_with d t \<Longrightarrow> \<not> starts_with ''sqlite'' t"
  by (cases d; cases t) (auto simp: starts_with_def)

lemma check_inputs_ok:
  assumes "check_inputs lib i = Inr ()"
  obtains u where "di_db_url i \<noteq> []" "li_make_url lib (di_db_url i) = Some u" "pooled_url u" "di_clerk_issuer i \<noteq> []" "di_clerk_jwt_key i \<noteq> []"
    "clerk_verification_config_valid (li_rsa_key lib) (Some (di_clerk_issuer i)) (Some (di_clerk_jwt_key i))" "di_api_key i \<noteq> []"
  using assms unfolding check_inputs_def by (auto simp: check_simps)

lemma deployed_bounds: "field_bounds_ok (deployed_settings lib registry i u)"
  by (simp add: field_bounds_ok_def deployed_settings_def default_settings_def)

text \<open>The validator accepts them exactly when both secrets are strong.\<close>

lemma deployed_load:
  assumes "pooled_url u" and "\<And>v. starts_with (url_drivername v) (li_render lib v)"
    and "di_clerk_issuer i \<noteq> []" "di_clerk_jwt_key i \<noteq> []" "di_api_key i \<noteq> []"
    and "clerk_verification_config_valid (li_rsa_key lib) (Some (di_clerk_issuer i)) (Some (di_clerk_jwt_key i))"
  shows "load_settings (li_rsa_key lib) (deployed_settings lib registry i u) = Inr s \<longleftrightarrow> s = deployed_settings lib registry i u
     \<and> \<not> is_unsafe_production_secret (di_auth_secret i) \<and> \<not> is_unsafe_production_secret (di_webhook_secret i)"
proof -
  have "starts_with ''postgresql'' (url_drivername (with_tls lib (with_driver u)))"
  proof -
    have "starts_with (''postgresql'' @ ''+psycopg'') (url_drivername u)" using assms(1) by (simp add: pooled_url_def)
    then have "starts_with ''postgresql'' (url_drivername u)" by (rule starts_with_shorter)
    then show ?thesis by (simp add: starts_with_def with_tls_def with_driver_def)
  qed
  then have "\<not> starts_with ''sqlite'' (li_render lib (with_tls lib (with_driver u)))" using assms(2) by (rule not_sqlite)
  then show ?thesis
    using assms(3-6) deployed_bounds [of lib registry i u]
    by (auto simp: load_settings_def fail_closed_in_production_def deployed_settings_def default_settings_def is_development_def truthy_def)
qed

text \<open>C38: The deployed service starts. Whatever passes the checks of the deployment, the environment given to the container is read as
  production settings with the database, the secrets, the Clerk key and the provider key of the inputs; they pass the
  validator exactly when both secrets are strong, which the deployment does not check.\<close>

theorem deployed_service_loads:
  assumes "library_ok lib" and "check_inputs lib i = Inr ()"
  shows "case settings_of lib (env_field (container_env i)) of
      Inl _ \<Rightarrow> is_unsafe_production_secret (di_auth_secret i) \<or> is_unsafe_production_secret (di_webhook_secret i)
    | Inr s \<Rightarrow> \<not> is_unsafe_production_secret (di_auth_secret i) \<and> \<not> is_unsafe_production_secret (di_webhook_secret i)
      \<and> \<not> is_development s \<and> \<not> allow_development_auth s \<and> auth_secret s = di_auth_secret i \<and> webhook_secret s = di_webhook_secret i
      \<and> clerk_issuer s = Some (di_clerk_issuer i) \<and> openrouter_enabled s \<and> openrouter_api_key s = Some (di_api_key i)
      \<and> \<not> gateway_kill_switch s \<and> gateway_timeout_seconds s = 12 \<and> production_period_budget_micro s \<noteq> None"
proof -
  from assms(2) obtain u where u: "di_db_url i \<noteq> []" "li_make_url lib (di_db_url i) = Some u" "pooled_url u"
    and rest: "di_clerk_issuer i \<noteq> []" "di_clerk_jwt_key i \<noteq> []" "di_api_key i \<noteq> []"
      "clerk_verification_config_valid (li_rsa_key lib) (Some (di_clerk_issuer i)) (Some (di_clerk_jwt_key i))"
    by (rule check_inputs_ok)
  have render: "\<And>v. starts_with (url_drivername v) (li_render lib v)" using assms(1) by (simp add: library_ok_def)
  have eq: "settings_of lib (env_field (container_env i)) = load_settings (li_rsa_key lib) (deployed_settings lib REGISTRY_IN_IMAGE i u)"
    by (simp only: settings_of_def set_fields_given fields_given fields_set [OF assms(1) u(1,2), of None] insert_iff simp_thms sum.case)
  show ?thesis
  proof (cases "load_settings (li_rsa_key lib) (deployed_settings lib REGISTRY_IN_IMAGE i u)")
    case (Inl e)
    then have "is_unsafe_production_secret (di_auth_secret i) \<or> is_unsafe_production_secret (di_webhook_secret i)"
      using deployed_load [OF u(3) render rest, where registry = REGISTRY_IN_IMAGE and s = "deployed_settings lib REGISTRY_IN_IMAGE i u"] by simp
    with Inl show ?thesis by (simp add: eq)
  next
    case (Inr s)
    then have "s = deployed_settings lib REGISTRY_IN_IMAGE i u" "\<not> is_unsafe_production_secret (di_auth_secret i)"
      "\<not> is_unsafe_production_secret (di_webhook_secret i)"
      using deployed_load [OF u(3) render rest, where registry = REGISTRY_IN_IMAGE and s = s] by simp_all
    with Inr show ?thesis by (simp add: eq is_development_def) (simp add: deployed_settings_def)
  qed
qed

definition demo_inputs :: deploy_inputs where
  "demo_inputs = \<lparr>di_acr_name = ''acr'', di_image_tag = ''1f'', di_auth_secret = demo_secret, di_webhook_secret = demo_secret, di_db_url = ''db'',
     di_clerk_issuer = ''https://c'', di_clerk_jwt_key = ''a2V5'', di_api_key = ''k''\<rparr>"

lemma demo_library_ok: "library_ok demo_library"
proof -
  have "li_int demo_library ''1000000'' = Some 1000000" "li_float demo_library ''12'' = Some 12"
    by (simp_all add: demo_library_def is_digit_def str_nat_def)
  then show ?thesis by (simp add: library_ok_def demo_library_def starts_with_def)
qed

lemma demo_inputs_ok: "check_inputs demo_library demo_inputs = Inr ()"
  by code_simp

lemma demo_secret_strong: "\<not> is_unsafe_production_secret demo_secret"
  by code_simp

theorem deployed_service_loads_witness:
  "\<exists>s. settings_of demo_library (env_field (container_env demo_inputs)) = Inr s \<and> auth_secret s = demo_secret"
proof -
  have "\<not> is_unsafe_production_secret (di_auth_secret demo_inputs)" "\<not> is_unsafe_production_secret (di_webhook_secret demo_inputs)"
    using demo_secret_strong by (simp_all add: demo_inputs_def)
  then show ?thesis
    using deployed_service_loads [OF demo_library_ok demo_inputs_ok] by (auto simp: demo_inputs_def split: sum.splits)
qed

end
