(* ===== verification/Readiness_Props.thy ===== *)
theory Readiness_Props
  imports Readiness Deploy_Settings
begin

text \<open>
  What the configuration audit says of the file that a deployment writes.
\<close>

section \<open>Reading back a private file\<close>

text \<open>A value that survives being written to a line and read back\<close>

definition plain_value :: "string \<Rightarrow> bool" where
  "plain_value v \<longleftrightarrow> v \<noteq> [] \<and> list_all (\<lambda>c. \<not> ends_line c) v
     \<and> \<not> is_space (of_char (hd v)) \<and> \<not> is_space (of_char (last v))
     \<and> hd v \<notin> {CHR 0x27, CHR 0x22} \<and> last v \<notin> {CHR 0x27, CHR 0x22}"

lemma split_lines_line: "list_all (\<lambda>c. \<not> ends_line c) l \<Longrightarrow> split_lines (l @ line_end # r) = l # split_lines r"
proof (induction l)
  case Nil
  then show ?case by (cases r) (simp_all add: line_end_def ends_line_def)
next
  case (Cons c l)
  then have IH: "split_lines (l @ line_end # r) = l # split_lines r" by simp
  obtain d cs where "l @ line_end # r = d # cs" by (cases l) auto
  with IH Cons.prems show ?case by (simp del: append_Cons add: append_Cons [symmetric]) (simp add: append_Cons)
qed

lemma trimmed:
  assumes "s \<noteq> []" and "\<not> P (hd s)" and "\<not> P (last s)"
  shows "rev (dropWhile P (rev (dropWhile P s))) = s"
proof -
  have "dropWhile P s = s" using assms(1,2) by (cases s) auto
  moreover have "dropWhile P (rev s) = rev s" using assms(1,3) by (cases s rule: rev_cases) auto
  ultimately show ?thesis by simp
qed

lemma plain_value_read: "plain_value v \<Longrightarrow> strip_string v = v" "plain_value v \<Longrightarrow> unquote v = v"
  unfolding plain_value_def strip_string_def unquote_def by (auto intro!: trimmed)

definition field_key :: "string \<Rightarrow> bool" where
  "field_key k \<longleftrightarrow> k \<noteq> [] \<and> starts_with PREFIX k \<and> CHR ''='' \<notin> set k \<and> list_all (\<lambda>c. \<not> ends_line c) k"

lemma parse_private_line:
  assumes "field_key k" and "plain_value v"
  shows "parse_line (k @ ''='' @ v) = Some (map lower_char (drop (length PREFIX) k), v)"
proof -
  have k: "k \<noteq> []" "hd k = CHR ''D''" "starts_with PREFIX k" "CHR ''='' \<notin> set k"
    using assms(1) by (auto simp: field_key_def starts_with_def PREFIX_def) (metis hd_append2 append_take_drop_id list.sel(1) list.distinct(1))
  have "strip_string (k @ ''='' @ v) = k @ ''='' @ v"
    using k assms(2) unfolding strip_string_def by (intro trimmed) (auto simp: plain_value_def is_space_def)
  moreover have "takeWhile (\<lambda>c. c \<noteq> CHR ''='') (k @ ''='' @ v) = k" "dropWhile (\<lambda>c. c \<noteq> CHR ''='') (k @ ''='' @ v) = ''='' @ v"
    using k(4) by (auto simp: takeWhile_append dropWhile_append)
  moreover have "\<not> starts_with ''#'' (k @ ''='' @ v)" using k(1,2) by (cases k) (auto simp: starts_with_def)
  ultimately show ?thesis using k plain_value_read [OF assms(2)] by (simp add: parse_line_def Let_def)
qed

text \<open>What is read back from the lines: the last value of each name\<close>

lemma map_of_parsed: "map_of (fold add_line lines kvs) =
    fold (\<lambda>line m. case parse_line line of None \<Rightarrow> m | Some (k, v) \<Rightarrow> m(k \<mapsto> v)) lines (map_of kvs)"
  by (induction lines arbitrary: kvs) (auto simp: add_line_def update_conv' split: option.splits)

definition short_name :: "string \<Rightarrow> string" where
  "short_name k = map lower_char (drop (length PREFIX) k)"

lemma split_private: "list_all (\<lambda>(k, v). field_key k \<and> plain_value v) kvs \<Longrightarrow>
    split_lines (private_text kvs) = map (\<lambda>(k, v). k @ ''='' @ v) kvs"
proof (induction kvs)
  case (Cons kv kvs)
  obtain k v where kv: "kv = (k, v)" by (cases kv)
  with Cons have "list_all (\<lambda>c. \<not> ends_line c) (k @ ''='' @ v)" by (simp add: field_key_def plain_value_def ends_line_def)
  from split_lines_line [OF this, of "private_text kvs"] Cons show ?case
    by (simp add: kv private_text_def private_line_def)
qed (simp add: private_text_def)

lemma read_back:
  assumes "list_all (\<lambda>(k, v). field_key k \<and> plain_value v) kvs"
  shows "map_of (parse_env (private_text kvs)) = map_of (rev (map (\<lambda>(k, v). (short_name k, v)) kvs))"
proof -
  have "fold (\<lambda>line m. case parse_line line of None \<Rightarrow> m | Some (k, v) \<Rightarrow> m(k \<mapsto> v)) (map (\<lambda>(k, v). k @ ''='' @ v) kvs) m
      = m ++ map_of (rev (map (\<lambda>(k, v). (short_name k, v)) kvs))" for m
    using assms
  proof (induction kvs arbitrary: m)
    case (Cons kv kvs)
    then show ?case by (cases kv) (simp add: parse_private_line [simplified] short_name_def)
  qed simp
  then show ?thesis using split_private [OF assms] by (simp add: parse_env_def map_of_parsed)
qed

section \<open>The audit of a deployment\<close>

definition prod_values :: "string \<Rightarrow> deploy_inputs \<Rightarrow> string \<Rightarrow> (string \<times> string) list" where
  "prod_values registry i fqdn =
    [(''public_base_url'', ''https://'' @ fqdn), (''model_registry_path'', registry),
     (''global_daily_budget_micro'', ''1000000''), (''production_period_budget_micro'', ''1000000''),
     (''live_models_enabled'', ''false''), (''whatsapp_enabled'', ''false''), (''paid_checkout_enabled'', ''false''),
     (''gateway_timeout_seconds'', ''12''), (''gateway_kill_switch'', ''false''), (''openrouter_api_key'', di_api_key i),
     (''openrouter_enabled'', ''true''), (''clerk_jwt_public_key_b64'', di_clerk_jwt_key i), (''clerk_issuer'', di_clerk_issuer i),
     (''allow_development_auth'', ''false''), (''webhook_secret'', di_webhook_secret i), (''auth_secret'', di_auth_secret i),
     (''database_url'', di_db_url i), (''environment'', ''production'')]"

definition registry_in_root :: "host \<Rightarrow> string" where
  "registry_in_root h = ho_root h @ ''/src/daily_agent/gateway/data/model_registry.json''"

lemma prod_short: "rev (map (\<lambda>(k, v). (short_name k, v)) (prod_mapping h i fqdn)) = prod_values (registry_in_root h) i fqdn"
  by code_simp

lemma prod_keys: "list_all field_key (map fst (prod_mapping h i fqdn))"
  by code_simp

lemma prod_fields: "map (map_of (prod_values registry i fqdn)) field_names = given_fields (Some ''false'') registry i"
  by code_simp

text \<open>The values that a deployment writes are on one line and bear no blanks or quotes around them.\<close>

definition plain_inputs :: "host \<Rightarrow> deploy_inputs \<Rightarrow> string \<Rightarrow> bool" where
  "plain_inputs h i fqdn \<longleftrightarrow> list_all plain_value
     [di_db_url i, di_auth_secret i, di_webhook_secret i, di_clerk_issuer i, di_clerk_jwt_key i, di_api_key i, registry_in_root h, ''https://'' @ fqdn]"

lemma fixed_plain:
  "plain_value ''production'' \<and> plain_value ''true'' \<and> plain_value ''false'' \<and> plain_value ''12'' \<and> plain_value ''1000000''"
  by code_simp

lemma prod_plain: "plain_inputs h i fqdn \<Longrightarrow> list_all (\<lambda>(k, v). field_key k \<and> plain_value v) (prod_mapping h i fqdn)"
  using prod_keys [of h i fqdn] fixed_plain
  by (simp add: plain_inputs_def prod_mapping_def GATEWAY_TIMEOUT_SECONDS_def PRODUCTION_BUDGET_MICRO_def GLOBAL_BUDGET_MICRO_def registry_in_root_def)

lemma prod_read: "plain_inputs h i fqdn \<Longrightarrow>
    map_of (parse_env (private_text (prod_mapping h i fqdn))) = map_of (prod_values (registry_in_root h) i fqdn)"
  using read_back [OF prod_plain] by (simp only: prod_short)

lemma prod_lookup:
  "map (map_of (prod_values registry i fqdn))
     [''environment'', ''database_url'', ''allow_development_auth'', ''auth_secret'', ''webhook_secret'', ''production_period_budget_micro'',
      ''global_daily_budget_micro'', ''whatsapp_enabled'', ''public_base_url'', ''cors_origins'', ''allowed_hosts'', ''host'', ''debug'',
      ''paid_checkout_enabled'', ''live_models_enabled'', ''openrouter_enabled'', ''openrouter_api_key'', ''gateway_kill_switch'',
      ''model_registry_path'', ''clerk_issuer'', ''clerk_jwt_public_key_b64'', ''active_policy_mode'']
   = [Some ''production'', Some (di_db_url i), Some ''false'', Some (di_auth_secret i), Some (di_webhook_secret i), Some ''1000000'',
      Some ''1000000'', Some ''false'', Some (''https://'' @ fqdn), None, None, None, None,
      Some ''false'', Some ''false'', Some ''true'', Some (di_api_key i), Some ''false'',
      Some registry, Some (di_clerk_issuer i), Some (di_clerk_jwt_key i), None]"
  by code_simp

lemmas prod_got = prod_lookup [unfolded list.map list.inject]

lemma lower_words:
  "lower_char CHR ''a'' = CHR ''a''" "lower_char CHR ''c'' = CHR ''c''" "lower_char CHR ''e'' = CHR ''e''" "lower_char CHR ''f'' = CHR ''f''"
  "lower_char CHR ''l'' = CHR ''l''" "lower_char CHR ''r'' = CHR ''r''" "lower_char CHR ''s'' = CHR ''s''" "lower_char CHR ''t'' = CHR ''t''"
  "lower_char CHR ''u'' = CHR ''u''" "lower_char CHR ''i'' = CHR ''i''"
  by code_simp+

lemma amount: "positive_amount ''1000000''"
  by code_simp

lemma status_simps [simp]:
  "ck_status (passing name holds reason) = (if holds then PASS else FAIL)" "ck_status (blocked name reason) = BLOCKED"
  by (simp_all add: passing_def blocked_def)

definition never_failing :: "check list \<Rightarrow> bool" where
  "never_failing checks \<longleftrightarrow> \<not> list_ex (\<lambda>c. ck_status c = FAIL) checks"

lemma never_failing_simps [simp]:
  "never_failing []" "never_failing (c # cs) \<longleftrightarrow> ck_status c \<noteq> FAIL \<and> never_failing cs"
  "never_failing (cs @ ds) \<longleftrightarrow> never_failing cs \<and> never_failing ds"
  by (simp_all add: never_failing_def)

text \<open>The checks that need an observation are always blocked, so no candidate passes.\<close>

lemma overall_inspect: "overall (inspect lib exists values) = (if never_failing (inspect lib exists values) then BLOCKED else FAIL)"
  by (simp add: overall_def never_failing_def inspect_def observed_checks_def)

lemma readiness_never_passes: "overall (inspect lib exists values) \<noteq> PASS"
  by (simp add: overall_inspect)

lemma secret_strong:
  assumes "plain_value v" and "values secret = Some v"
  shows "ck_status (secret_check values secret) = (if is_unsafe_production_secret v then FAIL else PASS)"
  using assms(2) plain_value_read(1) [OF assms(1)]
  by (simp add: secret_check_def get_or_def is_unsafe_production_secret_def has_marker_def Let_def)

definition audited_database :: "string \<Rightarrow> bool" where
  "audited_database v \<longleftrightarrow> starts_with ''postgresql+psycopg://'' v \<and> \<not> has_marker FIXTURE_MARKERS v"

lemma prod_settings:
  assumes "library_ok lib" and "di_db_url i \<noteq> []" and "li_make_url lib (di_db_url i) = Some u"
  shows "settings_of lib (map_of (prod_values registry i fqdn)) = load_settings (li_rsa_key lib) (deployed_settings lib registry i u)"
proof -
  have "map (map_of (prod_values registry i fqdn) \<circ> fst) (setters lib) = given_fields (Some ''false'') registry i"
    by (simp only: map_map [symmetric] field_names prod_fields)
  then show ?thesis
    by (simp only: settings_of_def set_fields_given fields_set [OF assms, of "Some ''false''"] insert_iff simp_thms sum.case)
qed

lemma service_checks_pass:
  assumes "di_api_key i \<noteq> []" and "registry \<noteq> []"
    and "clerk_verification_config_valid (li_rsa_key lib) (Some (di_clerk_issuer i)) (Some (di_clerk_jwt_key i))"
  shows "never_failing (service_checks lib (map_of (prod_values registry i fqdn)))"
  using assms by (simp add: service_checks_def live_provider_def keyed_provider_def lowered_def get_or_def prod_got lower_words)

lemma surface_checks_pass: "never_failing (surface_checks (map_of (prod_values registry i fqdn)))"
  by (simp add: surface_checks_def lowered_def get_or_def prod_got lower_words) (simp add: starts_with_def)

lemma budget_checks_pass: "never_failing (budget_checks (map_of (prod_values registry i fqdn)))"
  by (simp add: budget_checks_def get_or_def prod_got amount)


definition audited_inputs :: deploy_inputs where
  "audited_inputs = demo_inputs\<lparr>di_db_url := ''postgresql+psycopg://ep-pooler.neon.tech/neondb''\<rparr>"

lemma audited_inputs_ok: "check_inputs demo_library audited_inputs = Inr ()"
  by code_simp

lemma audited_inputs_plain: "plain_inputs (demo_host True) audited_inputs ''karmi.in''"
  by code_simp


end
