(* ===== verification/Neon_Migrate.thy ===== *)
theory Neon_Migrate
  imports Deploy
begin

text \<open>
  The approved advance of the production database by one reviewed revision (\<open>src/scripts/apply_neon_migrations.py\<close>).
\<close>

definition PREVIOUS_REVISION :: string where "PREVIOUS_REVISION = ''c5d7e9f1a2b4''"
definition TARGET_REVISION :: string where "TARGET_REVISION = ''1a2b3c4d5e6f''"

datatype migration_state = Current | Fresh | Migrate | Refuse

definition classify_migration_state :: "string list \<Rightarrow> string list \<Rightarrow> bool \<Rightarrow> bool \<Rightarrow> migration_state" where
  "classify_migration_state existing_tables versions has_clerk_subject has_clerk_constraint =
     (if versions = [TARGET_REVISION] \<and> has_clerk_subject \<and> has_clerk_constraint then Current
      else if existing_tables = [] \<and> versions = [] then Fresh
      else if versions = [PREVIOUS_REVISION] \<and> ''users'' \<in> set existing_tables \<and> \<not> has_clerk_subject \<and> \<not> has_clerk_constraint
      then Migrate else Refuse)"

text \<open>The Clerk column and its key are looked up only when there is a table of users.\<close>

definition catalog_state :: "catalog \<Rightarrow> migration_state" where
  "catalog_state c = (let users = ''users'' \<in> set (ct_tables c) in
     classify_migration_state (ct_tables c) (found_versions c) (users \<and> ct_clerk_subject c) (users \<and> ct_clerk_constraint c))"

definition say_refusal :: "string \<Rightarrow> 'a act" where
  "say_refusal message = andthen (say message) (\<lambda>_. raise (Exit 1))"

definition neon_urls :: "host \<Rightarrow> string act" where
  "neon_urls h =
     andthen (query_files (\<lambda>m. two_urls (text_of (dotenv_get h NEON_ENV ''DAILY_AGENT_DATABASE_URL'' m))
         (text_of (dotenv_get h NEON_ENV ''DAILY_AGENT_MIGRATION_DATABASE_URL'' m)))) (\<lambda>get.
     andthen (raising (case settings_of (ho_lib h) get of Inl _ \<Rightarrow> Inl ''ValidationError'' | Inr s \<Rightarrow> Inr s)) (\<lambda>s.
     andthen (parsed_url h (database_url s)) (\<lambda>runtime.
     andthen (raising (migration_url (ho_lib h) s)) (\<lambda>v.
     andthen (parsed_url h v) (\<lambda>direct.
       if \<not> neon_pair runtime direct
       then say_refusal ''Refusing migration: expected matching Neon pooled/direct URLs for neondb.''
       else libpq_url h v)))))"

definition first_word :: "string \<Rightarrow> string" where
  "first_word s = takeWhile (\<lambda>c. \<not> is_space (of_char c)) (dropWhile (\<lambda>c. is_space (of_char c)) s)"

definition announce :: "catalog \<Rightarrow> migration_state \<Rightarrow> unit act" where
  "announce c state =
     (if first_word (ct_server_version c) = [] then raise (Exception ''IndexError'')
      else say (''Preflight passed: '' @ ct_database c @ '', '' @ ct_schema c @ '', PostgreSQL '' @ first_word (ct_server_version c) @ '', ''
        @ (if state = Fresh then ''empty schema'' else ''revision '' @ PREVIOUS_REVISION) @ ''; target '' @ TARGET_REVISION @ ''.''))"

definition apply_env :: "host \<Rightarrow> machine \<Rightarrow> (string \<times> string) list" where
  "apply_env h m = (let urls = read_private h NEON_ENV m in
     AList.updates (map fst urls) (map snd urls) (child_env h []))"

definition run_upgrade :: "host \<Rightarrow> unit act" where
  "run_upgrade h =
     andthen (query_files (apply_env h)) (\<lambda>env.
     andthen (run h (Alembic_upgrade TARGET_REVISION env)) (\<lambda>p.
       if cp_returncode p \<noteq> 0
       then andthen (say (''Alembic failed with exit code '' @ int_str (cp_returncode p) @ ''; diagnostic output suppressed.''))
         (\<lambda>_. raise (Exit (cp_returncode p)))
       else ret ()))"

definition verify_target :: "host \<Rightarrow> string \<Rightarrow> int act" where
  "verify_target h url =
     andthen (read_versions h url) (\<lambda>c.
       if ''users'' \<notin> set (ct_tables c) then raise (Exception ''UndefinedTable'')
       else if ct_versions c \<noteq> [TARGET_REVISION] \<or> \<not> ct_clerk_subject c \<or> \<not> ct_clerk_constraint c
       then say_refusal ''Migrations ran, but revision or Clerk column verification failed.''
       else andthen (say (''MIGRATIONS_APPLIED_SUCCESSFULLY: '' @ nat_str (length (ct_tables c)) @ '' tables; revision '' @ TARGET_REVISION @ ''.''))
         (\<lambda>_. ret 0))"

definition say_two :: "string \<Rightarrow> string \<Rightarrow> 'a act" where
  "say_two first second = andthen (say first) (\<lambda>_. say_refusal second)"

definition advance_body :: "host \<Rightarrow> int act" where
  "advance_body h =
     andthen (neon_urls h) (\<lambda>url.
     andthen (read_catalog h url) (\<lambda>c.
       if ct_database c \<noteq> ''neondb'' \<or> ct_schema c \<noteq> ''public''
       then say_refusal ''Refusing migration: database or schema does not match the expected Neon target.''
       else if catalog_state c = Current
       then andthen (say (''ALREADY_CURRENT: '' @ ct_database c @ '' is at revision '' @ TARGET_REVISION @ ''.'')) (\<lambda>_. ret 0)
       else if catalog_state c = Refuse
       then say_two ''Refusing migration: schema is neither empty nor at the reviewed previous revision.''
         ''No migration was run; inspect the current schema and Alembic revision first.''
       else
         andthen (announce c (catalog_state c)) (\<lambda>_.
         andthen (run_upgrade h) (\<lambda>_. verify_target h url))))"

definition report_failure :: "string \<Rightarrow> unit act" where
  "report_failure e = say (''Migration setup failed: '' @ e @ ''; database diagnostics suppressed.'')"

definition apply_migrations :: "host \<Rightarrow> int act" where
  "apply_migrations h = catching_all report_failure (advance_body h)"

end
