(* ===== verification/Migrate_Props.thy ===== *)
theory Migrate_Props
  imports Neon_Migrate Deploy_Props
begin

text \<open>
  When the two migration commands touch the database, and what their exit codes mean.
\<close>

text \<open>An operation that calls nothing and never ends with exit code 0\<close>

definition quiet :: "'a act \<Rightarrow> bool" where
  "quiet a \<longleftrightarrow> (\<forall>m. case a m of Ok v t \<Rightarrow> ma_calls t = ma_calls m | Raise e t \<Rightarrow> ma_calls t = ma_calls m \<and> e \<noteq> Exit 0)"

lemma quietD:
  "quiet a \<Longrightarrow> a m = Ok v t \<Longrightarrow> ma_calls t = ma_calls m"
  "quiet a \<Longrightarrow> a m = Raise e t \<Longrightarrow> ma_calls t = ma_calls m \<and> e \<noteq> Exit 0"
  unfolding quiet_def by (drule spec [of _ m], simp)+

lemma quiet_ends [intro, simp]:
  "quiet (ret v)" "quiet (die x)" "quiet (say x)" "quiet (warn x)" "quiet (query_files f)" "quiet (raise (Exception x))"
  "quiet (raising r)" "quiet (refuse x)" "quiet (parsed_url h u)"
  by (auto simp: quiet_def ret_def die_def say_def warn_def andthen_def raise_def query_files_def raising_def refuse_def
      parsed_url_def split: sum.splits)

lemma quiet_andthen [intro]: "quiet a \<Longrightarrow> (\<And>v. quiet (f v)) \<Longrightarrow> quiet (andthen a f)"
  unfolding quiet_def by (fastforce simp: andthen_def split: result.splits)

lemma quiet_if [intro]: "quiet a \<Longrightarrow> quiet b \<Longrightarrow> quiet (if c then a else b)"
  by simp

lemma quiet_libpq [intro]: "quiet (libpq_url h v)"
  unfolding libpq_url_def by (intro quiet_andthen) auto

lemma quiet_database_urls: "quiet (database_urls h)"
proof -
  have "quiet (case x of (file, db_url, mig_url) \<Rightarrow>
       if file = None then die ''Missing .env.neon file''
       else if db_url = [] \<or> mig_url = []
       then die ''Missing DAILY_AGENT_DATABASE_URL or DAILY_AGENT_MIGRATION_DATABASE_URL in .env.neon''
       else ret (db_url, mig_url))" for x :: "string option \<times> string \<times> string"
    by (cases x) (simp del: not_None_eq)
  then show ?thesis unfolding database_urls_def by (intro quiet_andthen) auto
qed

lemma quiet_direct: "quiet (direct_driver_url h db_url mig_url)"
  unfolding direct_driver_url_def by (intro quiet_andthen) auto

text \<open>What a command did: it stopped before it called Alembic, or it ran Alembic on a database that it had found to be
  migratable, and its exit code is 0 exactly when the upgrade succeeded and was seen to have reached the goal.\<close>

definition refused :: "machine \<Rightarrow> int \<Rightarrow> machine \<Rightarrow> bool" where
  "refused m code t \<longleftrightarrow> code \<noteq> 0 \<and> (ma_calls t = ma_calls m \<or> (\<exists>url. ma_calls t = ma_calls m @ [Read_catalog url]))"

definition upgraded :: "host \<Rightarrow> (catalog \<Rightarrow> bool) \<Rightarrow> string \<Rightarrow> (catalog \<Rightarrow> bool) \<Rightarrow> machine \<Rightarrow> int \<Rightarrow> machine \<Rightarrow> bool" where
  "upgraded h ok target reached m code t \<longleftrightarrow> (\<exists>url env c.
     ho_catalog h (ma_calls m) url = Inr c \<and> ct_database c = ''neondb'' \<and> ct_schema c = ''public'' \<and> ok c
   \<and> (ma_calls t = ma_calls m @ [Read_catalog url, Alembic_upgrade target env] \<and> code \<noteq> 0
    \<or> ma_calls t = ma_calls m @ [Read_catalog url, Alembic_upgrade target env, Read_versions url]
      \<and> (code = 0) = (case ho_catalog h (ma_calls m @ [Read_catalog url, Alembic_upgrade target env]) url of
           Inl _ \<Rightarrow> False | Inr d \<Rightarrow> ''alembic_version'' \<in> set (ct_tables d) \<and> reached d)))"

text \<open>The exit code and the calls with which a body ends under \<open>catching_all\<close>\<close>

definition ended :: "(stop, int, machine) result \<Rightarrow> int \<Rightarrow> call list \<Rightarrow> bool" where
  "ended r code calls \<longleftrightarrow> (case r of
     Ok c t \<Rightarrow> code = c \<and> calls = ma_calls t
   | Raise (Exit c) t \<Rightarrow> code = c \<and> calls = ma_calls t
   | Raise (Exception e) t \<Rightarrow> code = 1 \<and> calls = ma_calls t)"

lemma catching_all_ended:
  assumes "\<And>e m. \<exists>t. report e m = Ok () t \<and> ma_calls t = ma_calls m"
  shows "\<exists>code t. catching_all report body m = Ok code t \<and> ended (body m) code (ma_calls t)"
proof (cases "body m")
  case (Raise e t)
  then show ?thesis
  proof (cases e)
    case (Exception x)
    obtain t' where "report x t = Ok () t'" "ma_calls t' = ma_calls t" using assms by blast
    with Raise Exception show ?thesis by (simp add: catching_all_def andthen_def ended_def ret_def)
  qed (simp add: catching_all_def ended_def)
qed (simp add: catching_all_def ended_def)

text \<open>Whatever a quiet operation does, either the command ends there, without a call, or it goes on with the same calls.\<close>

lemma ended_quiet:
  assumes "quiet a" and "ended (andthen a f m) code calls"
  shows "code \<noteq> 0 \<and> calls = ma_calls m \<or> (\<exists>v t. ma_calls t = ma_calls m \<and> ended (f v t) code calls)"
proof (cases "a m")
  case (Ok v t)
  with assms show ?thesis using quietD(1) [OF assms(1) Ok] by (auto simp: andthen_def)
next
  case (Raise e t)
  with assms(2) quietD(2) [OF assms(1) Raise] show ?thesis by (auto simp: andthen_def ended_def split: stop.splits)
qed

lemma ended_catalog:
  assumes "ended (andthen (read_catalog h url) f m) code calls"
  shows "code \<noteq> 0 \<and> calls = ma_calls m @ [Read_catalog url]
     \<or> (\<exists>c. ho_catalog h (ma_calls m) url = Inr c \<and> ended (f c (called (Read_catalog url) m)) code calls)"
  using assms by (auto simp: andthen_def read_catalog_def ended_def called_def split: sum.splits)

lemma ended_run:
  assumes "ended (andthen (run h c) f m) code calls"
  shows "code \<noteq> 0 \<and> calls = ma_calls m @ [c]
     \<or> (\<exists>p. ho_answer h (ma_calls m) c = Inr p \<and> ended (f p (called c m)) code calls)"
  using assms by (auto simp: andthen_def run_def ended_def called_def split: sum.splits)

lemma ended_raise: "ended (raise (Exit c) m) code calls \<longleftrightarrow> code = c \<and> calls = ma_calls m"
  by (simp add: ended_def raise_def)

lemma andthen_assoc: "andthen (andthen a f) g = andthen a (\<lambda>v. andthen (f v) g)"
  by (rule ext) (simp add: andthen_def split: result.splits)

lemma ended_stop:
  "ended (andthen (refuse x) f m) code calls \<Longrightarrow> code = 1 \<and> calls = ma_calls m"
  "ended (refuse x m) code calls \<Longrightarrow> code = 1 \<and> calls = ma_calls m"
  "ended (say_refusal x m) code calls \<Longrightarrow> code = 1 \<and> calls = ma_calls m"
  "ended (say_two x y m) code calls \<Longrightarrow> code = 1 \<and> calls = ma_calls m"
  by (simp_all add: refuse_def die_def warn_def say_refusal_def say_two_def say_def andthen_def raise_def ended_def)

lemma quiet_say_exit: "ended (andthen (andthen (say x) (\<lambda>_. raise (Exit c))) f m) code calls \<Longrightarrow> code = c \<and> calls = ma_calls m"
  by (simp add: say_def andthen_def raise_def ended_def)

lemma verify_head_ended:
  "ended (verify_head h url m) code calls \<Longrightarrow> calls = ma_calls m @ [Read_versions url]
     \<and> (code = 0) = (case ho_catalog h (ma_calls m) url of Inl _ \<Rightarrow> False
          | Inr d \<Rightarrow> ''alembic_version'' \<in> set (ct_tables d) \<and> ct_versions d = heads (revisions False))"
  by (auto simp: verify_head_def read_versions_def andthen_def ended_def die_def say_def warn_def raise_def ret_def Let_def split: sum.splits if_splits)

lemma upgrade_ended:
  assumes "ended (andthen (upgrade_to_head h db_url mig_url) (\<lambda>_. verify_head h url) m) code calls"
  shows "\<exists>env. calls = ma_calls m @ [Alembic_upgrade ''head'' env] \<and> code \<noteq> 0
    \<or> calls = ma_calls m @ [Alembic_upgrade ''head'' env, Read_versions url]
      \<and> (code = 0) = (case ho_catalog h (ma_calls m @ [Alembic_upgrade ''head'' env]) url of Inl _ \<Rightarrow> False
          | Inr d \<Rightarrow> ''alembic_version'' \<in> set (ct_tables d) \<and> ct_versions d = heads (revisions False))"
proof -
  let ?env = "child_env h [(''DAILY_AGENT_DATABASE_URL'', db_url), (''DAILY_AGENT_MIGRATION_DATABASE_URL'', mig_url)]"
  let ?c = "Alembic_upgrade ''head'' ?env"
  from ended_run [OF assms [unfolded upgrade_to_head_def andthen_assoc]] show ?thesis
  proof (elim disjE exE conjE)
    fix p
    assume rest: "ended (andthen (if cp_returncode p \<noteq> 0
       then andthen (say (''alembic upgrade failed with exit code '' @ int_str (cp_returncode p) @ ''; diagnostic output suppressed.''))
         (\<lambda>_. raise (Exit (cp_returncode p)))
       else ret ()) (\<lambda>_. verify_head h url) (called ?c m)) code calls"
    show ?thesis
    proof (cases "cp_returncode p = 0")
      case True
      with rest have "ended (verify_head h url (called ?c m)) code calls" by simp
      from verify_head_ended [OF this] show ?thesis by (intro exI [of _ ?env] disjI2) simp
    next
      case False
      with rest have "code = cp_returncode p \<and> calls = ma_calls (called ?c m)" by (auto dest: quiet_say_exit)
      with False show ?thesis by (intro exI [of _ ?env] disjI1) simp
    qed
  qed blast
qed

lemma after_catalog:
  assumes "ended (andthen (migration_preflight h url) (\<lambda>before.
       andthen (say (''revisions before: '' @ revisions_text (found_versions before))) (\<lambda>_.
       andthen (upgrade_to_head h db_url mig_url) (\<lambda>_. verify_head h url))) m) code calls"
  shows "code \<noteq> 0 \<and> calls = ma_calls m @ [Read_catalog url]
    \<or> (\<exists>c. ho_catalog h (ma_calls m) url = Inr c \<and> ct_database c = ''neondb'' \<and> ct_schema c = ''public'' \<and> migratable c
        \<and> (\<exists>s. ma_calls s = ma_calls m @ [Read_catalog url]
           \<and> ended (andthen (upgrade_to_head h db_url mig_url) (\<lambda>_. verify_head h url) s) code calls))"
proof -
  let ?goes = "\<lambda>before. andthen (say (''revisions before: '' @ revisions_text (found_versions before))) (\<lambda>_.
       andthen (upgrade_to_head h db_url mig_url) (\<lambda>_. verify_head h url))"
  let ?s = "called (Read_catalog url) m"
  from ended_catalog [OF assms [unfolded migration_preflight_def andthen_assoc]] show ?thesis
  proof (elim disjE exE conjE)
    fix c
    assume c: "ho_catalog h (ma_calls m) url = Inr c"
      and rest: "ended (andthen
        (if ct_database c \<noteq> ''neondb'' \<or> ct_schema c \<noteq> ''public'' then refuse ''database or schema does not match neondb/public.''
         else if length (heads (revisions False)) \<noteq> 1
         then refuse (''expected exactly one Alembic head, got '' @ list_str (sort (heads (revisions False))))
         else if \<not> migratable c then refuse ''schema is neither empty nor at a recognized Alembic revision.''
         else ret c) ?goes ?s) code calls"
    show ?thesis
    proof (cases "ct_database c = ''neondb'' \<and> ct_schema c = ''public'' \<and> length (heads (revisions False)) = 1 \<and> migratable c")
      case True
      with rest have "ended (?goes c ?s) code calls" by simp
      from ended_quiet [OF _ this] obtain s where "code \<noteq> 0 \<and> calls = ma_calls ?s
        \<or> ma_calls s = ma_calls ?s \<and> ended (andthen (upgrade_to_head h db_url mig_url) (\<lambda>_. verify_head h url) s) code calls" by auto
      with True c show ?thesis by auto
    next
      case False
      with rest have "\<exists>x. ended (andthen (refuse x) ?goes ?s) code calls" by (auto split: if_splits)
      then show ?thesis by (auto dest: ended_stop(1))
    qed
  qed blast
qed

lemma migrate_body_ended:
  assumes "ended (migrate_body h m) code calls"
  shows "code \<noteq> 0 \<and> calls = ma_calls m
    \<or> (\<exists>url db_url mig_url s. ma_calls s = ma_calls m
        \<and> ended (andthen (migration_preflight h url) (\<lambda>before.
           andthen (say (''revisions before: '' @ revisions_text (found_versions before))) (\<lambda>_.
           andthen (upgrade_to_head h db_url mig_url) (\<lambda>_. verify_head h url))) s) code calls)"
    (is "?stop \<or> ?go")
proof (rule ccontr)
  assume "\<not> (?stop \<or> ?go)"
  then have no: "\<not> (code \<noteq> 0 \<and> calls = ma_calls m)" and no_go: "\<not> ?go" by auto
  from ended_quiet [OF quiet_database_urls assms [unfolded migrate_body_def]] no obtain db_url mig_url s1 where s1: "ma_calls s1 = ma_calls m"
    and r1: "ended (andthen (parsed_url h db_url) (\<lambda>runtime. andthen (parsed_url h mig_url) (\<lambda>direct.
       if \<not> neon_pair runtime direct then refuse ''expected matching Neon pooled/direct URLs for neondb.''
       else
         andthen (direct_driver_url h db_url mig_url) (\<lambda>url.
         andthen (migration_preflight h url) (\<lambda>before.
         andthen (say (''revisions before: '' @ revisions_text (found_versions before))) (\<lambda>_.
         andthen (upgrade_to_head h db_url mig_url) (\<lambda>_. verify_head h url)))))) s1) code calls" by auto
  from ended_quiet [OF _ r1] no s1 obtain runtime s2 where s2: "ma_calls s2 = ma_calls m"
    and r2: "ended (andthen (parsed_url h mig_url) (\<lambda>direct.
       if \<not> neon_pair runtime direct then refuse ''expected matching Neon pooled/direct URLs for neondb.''
       else
         andthen (direct_driver_url h db_url mig_url) (\<lambda>url.
         andthen (migration_preflight h url) (\<lambda>before.
         andthen (say (''revisions before: '' @ revisions_text (found_versions before))) (\<lambda>_.
         andthen (upgrade_to_head h db_url mig_url) (\<lambda>_. verify_head h url))))) s2) code calls" by auto
  from ended_quiet [OF _ r2] no s2 obtain direct s3 where s3: "ma_calls s3 = ma_calls m"
    and r3: "ended ((if \<not> neon_pair runtime direct then refuse ''expected matching Neon pooled/direct URLs for neondb.''
       else
         andthen (direct_driver_url h db_url mig_url) (\<lambda>url.
         andthen (migration_preflight h url) (\<lambda>before.
         andthen (say (''revisions before: '' @ revisions_text (found_versions before))) (\<lambda>_.
         andthen (upgrade_to_head h db_url mig_url) (\<lambda>_. verify_head h url))))) s3) code calls" by auto
  have "neon_pair runtime direct"
    using r3 no s3 by (auto dest: ended_stop(2) split: if_splits)
  then have "ended (andthen (direct_driver_url h db_url mig_url) (\<lambda>url.
         andthen (migration_preflight h url) (\<lambda>before.
         andthen (say (''revisions before: '' @ revisions_text (found_versions before))) (\<lambda>_.
         andthen (upgrade_to_head h db_url mig_url) (\<lambda>_. verify_head h url)))) s3) code calls" using r3 by simp
  from ended_quiet [OF quiet_direct this] no s3 no_go show False by auto
qed

lemma migrate_body_outcome:
  assumes "ended (migrate_body h m) code (ma_calls t)"
  shows "refused m code t \<or> upgraded h migratable ''head'' (\<lambda>d. ct_versions d = heads (revisions False)) m code t"
proof (rule disjCI)
  assume no: "\<not> upgraded h migratable ''head'' (\<lambda>d. ct_versions d = heads (revisions False)) m code t"
  from migrate_body_ended [OF assms] show "refused m code t"
  proof (elim disjE exE conjE)
    fix url db_url mig_url s
    assume s: "ma_calls s = ma_calls m"
      and rest: "ended (andthen (migration_preflight h url) (\<lambda>before.
           andthen (say (''revisions before: '' @ revisions_text (found_versions before))) (\<lambda>_.
           andthen (upgrade_to_head h db_url mig_url) (\<lambda>_. verify_head h url))) s) code (ma_calls t)"
    from after_catalog [OF rest] show ?thesis
    proof (elim disjE exE conjE)
      fix c s'
      assume c: "ho_catalog h (ma_calls s) url = Inr c" "ct_database c = ''neondb''" "ct_schema c = ''public''" "migratable c"
        and s': "ma_calls s' = ma_calls s @ [Read_catalog url]"
        and up: "ended (andthen (upgrade_to_head h db_url mig_url) (\<lambda>_. verify_head h url) s') code (ma_calls t)"
      from upgrade_ended [OF up] have "upgraded h migratable ''head'' (\<lambda>d. ct_versions d = heads (revisions False)) m code t"
        unfolding upgraded_def using c s s' by (intro exI [of _ url]) auto
      with no show ?thesis ..
    next
      assume "code \<noteq> 0" "ma_calls t = ma_calls s @ [Read_catalog url]"
      then show ?thesis using s by (auto simp: refused_def)
    qed
  qed (simp add: refused_def)
qed


text \<open>A schema with tables whose table of revisions is empty is taken for a recognized one.\<close>

lemma unversioned_schema_is_migratable:
  "ct_tables c = [''alembic_version'', ''users''] \<Longrightarrow> ct_versions c = [] \<Longrightarrow> migratable c"
  by (simp add: migratable_def found_versions_def)

section \<open>The approved advance\<close>

lemma quiet_refusals [intro, simp]: "quiet (say_refusal x)" "quiet (announce c state)"
  by (auto simp: quiet_def say_refusal_def announce_def say_def andthen_def raise_def)

lemma quiet_neon_urls: "quiet (neon_urls h)"
  unfolding neon_urls_def by (intro quiet_andthen quiet_if) auto

definition at_target :: "catalog \<Rightarrow> bool" where
  "at_target d \<longleftrightarrow> ''users'' \<in> set (ct_tables d) \<and> ct_versions d = [TARGET_REVISION] \<and> ct_clerk_subject d \<and> ct_clerk_constraint d"

lemma verify_target_ended:
  "ended (verify_target h url m) code calls \<Longrightarrow> calls = ma_calls m @ [Read_versions url]
     \<and> (code = 0) = (case ho_catalog h (ma_calls m) url of Inl _ \<Rightarrow> False
          | Inr d \<Rightarrow> ''alembic_version'' \<in> set (ct_tables d) \<and> at_target d)"
  by (auto simp: verify_target_def read_versions_def at_target_def andthen_def ended_def say_refusal_def say_def raise_def ret_def Let_def
      split: sum.splits if_splits)

lemma run_upgrade_ended:
  assumes "ended (andthen (run_upgrade h) (\<lambda>_. verify_target h url) m) code calls"
  shows "\<exists>env. calls = ma_calls m @ [Alembic_upgrade TARGET_REVISION env] \<and> code \<noteq> 0
    \<or> calls = ma_calls m @ [Alembic_upgrade TARGET_REVISION env, Read_versions url]
      \<and> (code = 0) = (case ho_catalog h (ma_calls m @ [Alembic_upgrade TARGET_REVISION env]) url of Inl _ \<Rightarrow> False
          | Inr d \<Rightarrow> ''alembic_version'' \<in> set (ct_tables d) \<and> at_target d)"
proof -
  let ?env = "apply_env h m"
  let ?c = "Alembic_upgrade TARGET_REVISION ?env"
  have "ended (andthen (run h ?c) (\<lambda>p. andthen (if cp_returncode p \<noteq> 0
       then andthen (say (''Alembic failed with exit code '' @ int_str (cp_returncode p) @ ''; diagnostic output suppressed.''))
         (\<lambda>_. raise (Exit (cp_returncode p)))
       else ret ()) (\<lambda>_. verify_target h url)) m) code calls"
    using assms by (simp add: run_upgrade_def andthen_assoc) (simp add: andthen_def query_files_def)
  from ended_run [OF this] show ?thesis
  proof (elim disjE exE conjE)
    fix p
    assume rest: "ended (andthen (if cp_returncode p \<noteq> 0
       then andthen (say (''Alembic failed with exit code '' @ int_str (cp_returncode p) @ ''; diagnostic output suppressed.''))
         (\<lambda>_. raise (Exit (cp_returncode p)))
       else ret ()) (\<lambda>_. verify_target h url) (called ?c m)) code calls"
    show ?thesis
    proof (cases "cp_returncode p = 0")
      case True
      with rest have "ended (verify_target h url (called ?c m)) code calls" by simp
      from verify_target_ended [OF this] show ?thesis by (intro exI [of _ ?env] disjI2) simp
    next
      case False
      with rest have "code = cp_returncode p \<and> calls = ma_calls (called ?c m)" by (auto dest: quiet_say_exit)
      with False show ?thesis by (intro exI [of _ ?env] disjI1) simp
    qed
  qed blast
qed

definition advanceable :: "catalog \<Rightarrow> bool" where
  "advanceable c \<longleftrightarrow> catalog_state c = Fresh \<or> catalog_state c = Migrate"

definition already_current :: "host \<Rightarrow> machine \<Rightarrow> int \<Rightarrow> machine \<Rightarrow> bool" where
  "already_current h m code t \<longleftrightarrow> code = 0 \<and> (\<exists>url c. ma_calls t = ma_calls m @ [Read_catalog url]
     \<and> ho_catalog h (ma_calls m) url = Inr c \<and> at_target c)"

lemma current_at_target: "catalog_state c = Current \<Longrightarrow> at_target c"
  by (auto simp: catalog_state_def classify_migration_state_def at_target_def found_versions_def Let_def split: if_splits)

lemma advance_body_outcome:
  assumes "ended (advance_body h m) code (ma_calls t)"
  shows "refused m code t \<or> already_current h m code t \<or> upgraded h advanceable TARGET_REVISION at_target m code t"
  using ended_quiet [OF quiet_neon_urls assms [unfolded advance_body_def]]
proof (elim disjE exE conjE)
  fix url s
  assume s: "ma_calls s = ma_calls m"
    and rest: "ended (andthen (read_catalog h url) (\<lambda>c.
       if ct_database c \<noteq> ''neondb'' \<or> ct_schema c \<noteq> ''public''
       then say_refusal ''Refusing migration: database or schema does not match the expected Neon target.''
       else if catalog_state c = Current
       then andthen (say (''ALREADY_CURRENT: '' @ ct_database c @ '' is at revision '' @ TARGET_REVISION @ ''.'')) (\<lambda>_. ret 0)
       else if catalog_state c = Refuse
       then say_two ''Refusing migration: schema is neither empty nor at the reviewed previous revision.''
         ''No migration was run; inspect the current schema and Alembic revision first.''
       else
         andthen (announce c (catalog_state c)) (\<lambda>_.
         andthen (run_upgrade h) (\<lambda>_. verify_target h url))) s) code (ma_calls t)"
  from ended_catalog [OF rest] consider (stop) "code \<noteq> 0" "ma_calls t = ma_calls s @ [Read_catalog url]"
    | (current) c where "ho_catalog h (ma_calls s) url = Inr c" "catalog_state c = Current" "code = 0" "ma_calls t = ma_calls s @ [Read_catalog url]"
    | (go) c where "ho_catalog h (ma_calls s) url = Inr c" "ct_database c = ''neondb''" "ct_schema c = ''public''" "advanceable c"
        "ended (andthen (announce c (catalog_state c)) (\<lambda>_. andthen (run_upgrade h) (\<lambda>_. verify_target h url)) (called (Read_catalog url) s)) code (ma_calls t)"
    by (cases "ho_catalog h (ma_calls s) url")
       (auto dest: ended_stop(3,4) simp: advanceable_def say_def andthen_def ret_def ended_def [of "Ok _ _"] split: if_splits intro: migration_state.exhaust)
  then show ?thesis
  proof cases
    case (go c)
    from ended_quiet [OF _ go(5)] s obtain s' where "code \<noteq> 0 \<and> ma_calls t = ma_calls m @ [Read_catalog url]
      \<or> ma_calls s' = ma_calls m @ [Read_catalog url] \<and> ended (andthen (run_upgrade h) (\<lambda>_. verify_target h url) s') code (ma_calls t)" by auto
    then show ?thesis
    proof (elim disjE conjE)
      assume s': "ma_calls s' = ma_calls m @ [Read_catalog url]"
        and up: "ended (andthen (run_upgrade h) (\<lambda>_. verify_target h url) s') code (ma_calls t)"
      from run_upgrade_ended [OF up] have "upgraded h advanceable TARGET_REVISION at_target m code t"
        unfolding upgraded_def using go s s' by (intro exI [of _ url]) auto
      then show ?thesis by blast
    qed (auto simp: refused_def)
  qed (use s current_at_target in \<open>auto simp: refused_def already_current_def\<close>)
qed (simp add: refused_def)

lemma apply_migrations_outcome:
  "\<exists>code t. apply_migrations h m = Ok code t \<and> (refused m code t \<or> already_current h m code t
     \<or> upgraded h advanceable TARGET_REVISION at_target m code t)"
proof -
  have "\<exists>t. report_failure e m = Ok () t \<and> ma_calls t = ma_calls m" for e m by (simp add: report_failure_def say_def)
  from catching_all_ended [where report = report_failure and body = "advance_body h" and m = m, OF this] advance_body_outcome
  show ?thesis unfolding apply_migrations_def by blast
qed

end
